(* ===== verification/JsPrelude.thy ===== *)
theory JsPrelude
  imports Main "HOL-Library.Sublist" "HOL-Library.Word"
begin

text \<open>
  The part of the JavaScript language and of its standard library that the all-Mail sources use:
  strings as sequences of UTF-16 code units, trimming, case mapping, searching, splitting and
  joining, decimal and hexadecimal printing, the coercion \<open>Number(text)\<close>, and the two-way
  result type that stands for an exception or a value.

  Every other theory of the development imports this one. Lemmas in \<open>js_text\<close> are the rewrite
  rules on text that the component proofs share; \<open>js_norm\<close> collects the normal-form laws
  (idempotence and commutation of the normalising operations); \<open>js_eval\<close> collects the definitions
  that evaluate a closed text expression.
\<close>

named_theorems js_text
named_theorems js_norm
named_theorems js_eval

section \<open>Strings of UTF-16 code units\<close>

type_synonym jstr = "nat list"

text \<open>\<open>js ''abc''\<close> is the string literal with these (ASCII) characters.\<close>

definition js :: "string \<Rightarrow> jstr" where
  [js_eval]: "js s = map of_char s"

lemma inj_of_char_nat: "inj (of_char :: char \<Rightarrow> nat)"
  by (rule injI) simp

lemma js_eq_iff [simp]: "js a = js b \<longleftrightarrow> a = b"
  by (simp add: js_def inj_map_eq_map [OF inj_of_char_nat])

lemma js_Nil [simp]: "js [] = []"
  by (simp add: js_def)

lemma js_eq_Nil [simp]: "js a = [] \<longleftrightarrow> a = []" "[] = js a \<longleftrightarrow> a = []"
  by (auto simp: js_def)

lemma js_append: "js (a @ b) = js a @ js b"
  by (simp add: js_def)

lemma length_js [simp]: "length (js a) = length a"
  by (simp add: js_def)

lemma prefix_js [simp]: "prefix (js a) (js b) \<longleftrightarrow> prefix a b"
proof
  assume "prefix a b"
  then show "prefix (js a) (js b)" by (auto simp: prefix_def js_append)
next
  assume "prefix (js a) (js b)"
  then have "js a = take (length a) (js b)"
    by (auto simp: prefix_def js_def append_eq_conv_conj)
  then have "js a = js (take (length a) b)" by (simp add: js_def take_map)
  then have "a = take (length a) b" by simp
  then show "prefix a b" by (metis take_is_prefix)
qed

section \<open>White space and trimming\<close>

text \<open>White space and line terminators of ECMAScript, which \<open>trim\<close> strips and \<open>\s\<close> matches.\<close>

definition is_ws :: "nat \<Rightarrow> bool" where
  [js_eval]: "is_ws c \<longleftrightarrow> (9 \<le> c \<and> c \<le> 13) \<or> c = 32 \<or> c = 160 \<or> c = 5760 \<or> (8192 \<le> c \<and> c \<le> 8202)
     \<or> c = 8232 \<or> c = 8233 \<or> c = 8239 \<or> c = 8287 \<or> c = 12288 \<or> c = 65279"

definition trim_start :: "jstr \<Rightarrow> jstr" where
  [js_eval]: "trim_start s = dropWhile is_ws s"

definition trim_end :: "jstr \<Rightarrow> jstr" where
  [js_eval]: "trim_end s = rev (dropWhile is_ws (rev s))"

definition trim :: "jstr \<Rightarrow> jstr" where
  [js_eval]: "trim s = trim_end (trim_start s)"

text \<open>A generic description: what is left when a class of units is stripped at both ends.\<close>

definition strip_both :: "(nat \<Rightarrow> bool) \<Rightarrow> jstr \<Rightarrow> jstr" where
  "strip_both P s = rev (dropWhile P (rev (dropWhile P s)))"

definition stripped :: "(nat \<Rightarrow> bool) \<Rightarrow> jstr \<Rightarrow> bool" where
  "stripped P s \<longleftrightarrow> s = [] \<or> (\<not> P (hd s) \<and> \<not> P (last s))"

lemma trim_strip: "trim = strip_both is_ws"
  by (rule ext) (simp add: trim_def trim_end_def trim_start_def strip_both_def)

lemma strip_both_stripped: "stripped P (strip_both P s)"
proof (cases "strip_both P s = []")
  case True
  then show ?thesis by (simp add: stripped_def)
next
  case False
  let ?a = "dropWhile P s"
  have ne: "dropWhile P (rev ?a) \<noteq> []" using False by (simp add: strip_both_def)
  have l: "\<not> P (last (strip_both P s))"
    using hd_dropWhile [OF ne] ne by (simp add: strip_both_def last_rev)
  have "\<exists>ys. ?a = strip_both P s @ ys"
    unfolding strip_both_def
    by (metis rev_append rev_rev_ident takeWhile_dropWhile_id)
  then obtain ys where ys: "?a = strip_both P s @ ys" by blast
  then have "?a \<noteq> []" using False by auto
  then have "\<not> P (hd ?a)" by (rule hd_dropWhile)
  then have "\<not> P (hd (strip_both P s))" using ys False by simp
  with l show ?thesis by (simp add: stripped_def)
qed

lemma strip_both_id: "stripped P s \<Longrightarrow> strip_both P s = s"
proof (cases s)
  case Nil
  then show ?thesis by (simp add: strip_both_def)
next
  case (Cons c cs)
  assume "stripped P s"
  then have h: "\<not> P (hd s)" and l: "\<not> P (last s)" using Cons by (auto simp: stripped_def)
  have "dropWhile P s = s" using h Cons by simp
  moreover have "dropWhile P (rev s) = rev s"
    using l Cons by (cases "rev s") (auto simp: hd_rev [symmetric])
  ultimately show ?thesis by (simp add: strip_both_def)
qed

lemma strip_both_idem [simp]: "strip_both P (strip_both P s) = strip_both P s"
  by (rule strip_both_id [OF strip_both_stripped])

lemma set_strip_both: "set (strip_both P s) \<subseteq> set s"
  unfolding strip_both_def by (metis set_dropWhileD set_rev subsetI)

lemma strip_both_Nil [simp]: "strip_both P [] = []"
  by (simp add: strip_both_def)

lemma strip_both_eq_Nil: "strip_both P s = [] \<longleftrightarrow> (\<forall>c \<in> set s. P c)"
proof
  assume "strip_both P s = []"
  then have all: "\<forall>c \<in> set (dropWhile P s). P c"
    by (simp add: strip_both_def)
  have "dropWhile P s = []"
    using all hd_dropWhile list.set_sel(1) by blast
  then show "\<forall>c \<in> set s. P c" by simp
next
  assume "\<forall>c \<in> set s. P c"
  then show "strip_both P s = []" by (auto simp: strip_both_def dest: set_dropWhileD)
qed

lemma trim_idem [js_norm, simp]: "trim (trim s) = trim s"
  by (simp add: trim_strip)

lemma trim_Nil [simp]: "trim [] = []"
  by (simp add: trim_strip)

lemma set_trim: "c \<in> set (trim s) \<Longrightarrow> c \<in> set s"
  using set_strip_both [of is_ws s] by (auto simp: trim_strip)

lemma trim_eq_Nil: "trim s = [] \<longleftrightarrow> (\<forall>c \<in> set s. is_ws c)"
  by (simp add: trim_strip strip_both_eq_Nil)

lemma trim_hd_last: "trim s \<noteq> [] \<Longrightarrow> \<not> is_ws (hd (trim s)) \<and> \<not> is_ws (last (trim s))"
  using strip_both_stripped [of is_ws s] by (auto simp: stripped_def trim_strip)

text \<open>\<open>x?.trim() || undefined\<close>, and \<open>x || null\<close>.\<close>

definition opt_trim :: "jstr option \<Rightarrow> jstr option" where
  "opt_trim x = (case x of None \<Rightarrow> None | Some v \<Rightarrow> if trim v = [] then None else Some (trim v))"

definition opt_text :: "jstr option \<Rightarrow> jstr option" where
  "opt_text x = (case x of None \<Rightarrow> None | Some v \<Rightarrow> if v = [] then None else Some v)"

lemma opt_trim_None [simp]: "opt_trim None = None"
  by (simp add: opt_trim_def)

lemma opt_trim_idem [simp]: "opt_trim (opt_trim x) = opt_trim x"
  by (simp add: opt_trim_def split: option.split)

lemma opt_trim_Some: "opt_trim x = Some v \<Longrightarrow> v \<noteq> [] \<and> trim v = v"
  by (auto simp: opt_trim_def split: option.splits if_splits)

section \<open>Case mapping\<close>

text \<open>
  \<open>toLowerCase\<close> and \<open>toUpperCase\<close>, unit by unit: ASCII and Latin-1 letters, and the further
  units whose image holds an ASCII letter (the Kelvin sign, dotted and dotless i, long s, sharp s
  and the Latin ligatures). A letter of any other script stays as it is, so the two maps are
  exact wherever the result is compared with text the sources spell out.
\<close>

definition lower_unit :: "nat \<Rightarrow> jstr" where
  [js_eval]: "lower_unit c =
     (if 65 \<le> c \<and> c \<le> 90 then [c + 32]
      else if 192 \<le> c \<and> c \<le> 222 \<and> c \<noteq> 215 then [c + 32]
      else if c = 304 then [105, 775]
      else if c = 8490 then [107]
      else [c])"

definition upper_unit :: "nat \<Rightarrow> jstr" where
  [js_eval]: "upper_unit c =
     (if 97 \<le> c \<and> c \<le> 122 then [c - 32]
      else if 224 \<le> c \<and> c \<le> 254 \<and> c \<noteq> 247 then [c - 32]
      else if c = 181 then [924]
      else if c = 223 then [83, 83]
      else if c = 255 then [376]
      else if c = 305 then [73]
      else if c = 383 then [83]
      else if c = 64256 then [70, 70]
      else if c = 64257 then [70, 73]
      else if c = 64258 then [70, 76]
      else if c = 64259 then [70, 70, 73]
      else if c = 64260 then [70, 70, 76]
      else if c = 64261 then [83, 84]
      else if c = 64262 then [83, 84]
      else [c])"

definition to_lower :: "jstr \<Rightarrow> jstr" where
  [js_eval]: "to_lower s = concat (map lower_unit s)"

definition to_upper :: "jstr \<Rightarrow> jstr" where
  [js_eval]: "to_upper s = concat (map upper_unit s)"

lemma to_lower_Nil [simp]: "to_lower [] = []"
  by (simp add: to_lower_def)

lemma to_lower_Cons [js_text]: "to_lower (c # s) = lower_unit c @ to_lower s"
  by (simp add: to_lower_def)

lemma to_lower_append [js_text]: "to_lower (s @ t) = to_lower s @ to_lower t"
  by (simp add: to_lower_def)

lemma lower_unit_fixed: "d \<in> set (lower_unit c) \<Longrightarrow> lower_unit d = [d]"
  by (auto simp: lower_unit_def split: if_splits)

lemma lower_unit_ws: "d \<in> set (lower_unit c) \<Longrightarrow> is_ws d = is_ws c"
  by (auto simp: lower_unit_def is_ws_def split: if_splits)

lemma lower_unit_nonempty [simp]: "lower_unit c \<noteq> []"
  by (simp add: lower_unit_def)

lemma lower_unit_ends:
  "is_ws (hd (lower_unit c)) = is_ws c" "is_ws (last (lower_unit c)) = is_ws c"
  by (rule lower_unit_ws, simp)+

lemma to_lower_fixed: "(\<And>d. d \<in> set s \<Longrightarrow> lower_unit d = [d]) \<Longrightarrow> to_lower s = s"
  by (induction s) (auto simp: js_text)

lemma to_lower_idem [js_norm, simp]: "to_lower (to_lower s) = to_lower s"
  by (rule to_lower_fixed) (auto simp: to_lower_def lower_unit_fixed)

lemma to_lower_eq_Nil [simp]: "to_lower s = [] \<longleftrightarrow> s = []"
  by (cases s) (auto simp: js_text)

lemma dropWhile_to_lower: "dropWhile is_ws (to_lower s) = to_lower (dropWhile is_ws s)"
proof (induction s)
  case Nil
  then show ?case by simp
next
  case (Cons c s)
  show ?case
  proof (cases "is_ws c")
    case True
    then have "\<forall>d \<in> set (lower_unit c). is_ws d" by (simp add: lower_unit_ws)
    with True Cons.IH show ?thesis by (simp add: js_text dropWhile_append)
  next
    case False
    then have "\<not> is_ws (hd (lower_unit c))" by (simp add: lower_unit_ends)
    then have "dropWhile is_ws (lower_unit c @ to_lower s) = lower_unit c @ to_lower s"
      by (cases "lower_unit c") simp_all
    with False show ?thesis by (simp add: js_text)
  qed
qed

lemma dropWhile_rev_to_lower:
  "dropWhile is_ws (rev (to_lower s)) = rev (to_lower (rev (dropWhile is_ws (rev s))))"
proof (induction s rule: rev_induct)
  case Nil
  then show ?case by simp
next
  case (snoc c s)
  have e: "rev (to_lower (s @ [c])) = rev (lower_unit c) @ rev (to_lower s)"
    by (simp add: js_text)
  show ?case
  proof (cases "is_ws c")
    case True
    then have "\<forall>d \<in> set (rev (lower_unit c)). is_ws d" by (simp add: lower_unit_ws)
    with True snoc.IH show ?thesis by (simp add: e dropWhile_append del: set_rev)
  next
    case False
    then have "\<not> is_ws (hd (rev (lower_unit c)))" by (simp add: hd_rev lower_unit_ends)
    then have "dropWhile is_ws (rev (to_lower (s @ [c]))) = rev (to_lower (s @ [c]))"
      unfolding e by (cases "rev (lower_unit c)") simp_all
    with False show ?thesis by simp
  qed
qed

lemma trim_to_lower [js_norm]: "trim (to_lower s) = to_lower (trim s)"
  by (simp add: trim_def trim_end_def trim_start_def dropWhile_to_lower dropWhile_rev_to_lower)

lemma to_lower_outside: "c \<notin> set (to_lower s) \<Longrightarrow> lower_unit c = [c] \<Longrightarrow> c \<notin> set s"
  by (induction s) (auto simp: js_text)

section \<open>Searching, splitting and joining\<close>

text \<open>First occurrence of a separator: what stands before it and what stands after it.\<close>

fun find_sub :: "jstr \<Rightarrow> jstr \<Rightarrow> (jstr \<times> jstr) option" where
  "find_sub sep [] = (if sep = [] then Some ([], []) else None)"
| "find_sub sep (c # cs) =
     (if prefix sep (c # cs) then Some ([], drop (length sep) (c # cs))
      else map_option (\<lambda>(a, b). (c # a, b)) (find_sub sep cs))"

definition js_includes :: "jstr \<Rightarrow> jstr \<Rightarrow> bool" where
  [js_eval]: "js_includes s sub \<longleftrightarrow> find_sub sub s \<noteq> None"

definition starts_with :: "jstr \<Rightarrow> jstr \<Rightarrow> bool" where
  [js_eval]: "starts_with s p \<longleftrightarrow> prefix p s"

lemma find_sub_Some: "find_sub sep s = Some (a, b) \<Longrightarrow> s = a @ sep @ b"
proof (induction s arbitrary: a b)
  case Nil
  then show ?case by (simp split: if_splits)
next
  case (Cons c cs)
  show ?case
  proof (cases "prefix sep (c # cs)")
    case True
    then show ?thesis using Cons.prems by (auto simp: prefix_def)
  next
    case False
    then show ?thesis using Cons by (cases "find_sub sep cs") auto
  qed
qed

lemma find_sub_append: "find_sub sep (a @ sep @ b) \<noteq> None"
proof (induction a)
  case Nil
  show ?case
  proof (cases "sep @ b")
    case Nil
    then show ?thesis by simp
  next
    case (Cons c cs)
    then have "prefix sep (c # cs)" by (metis prefixI)
    with Cons show ?thesis by simp
  qed
next
  case (Cons c a)
  then show ?case by auto
qed

lemma js_includes_iff: "js_includes s sub \<longleftrightarrow> (\<exists>a b. s = a @ sub @ b)"
proof
  assume "js_includes s sub"
  then obtain a b where "find_sub sub s = Some (a, b)" by (auto simp: js_includes_def)
  then show "\<exists>a b. s = a @ sub @ b" using find_sub_Some by blast
next
  assume "\<exists>a b. s = a @ sub @ b"
  then show "js_includes s sub" using find_sub_append by (auto simp: js_includes_def)
qed

lemma js_includes_char: "js_includes s [c] \<longleftrightarrow> c \<in> set s"
  by (simp add: js_includes_iff in_set_conv_decomp)

lemma js_includes_grow:
  "js_includes s s" "js_includes s t \<Longrightarrow> js_includes (s @ b) t" "js_includes s t \<Longrightarrow> js_includes (a @ s) t"
  "js_includes s t \<Longrightarrow> js_includes (c # s) t"
  unfolding js_includes_iff by (metis append.left_neutral append_Nil2, metis append.assoc, metis append.assoc, metis append_Cons)

lemma find_sub_length: "find_sub sep s = Some (a, b) \<Longrightarrow> length s = length a + length sep + length b"
  by (drule find_sub_Some) simp

function split_text :: "jstr \<Rightarrow> jstr \<Rightarrow> jstr list" where
  "split_text sep s =
     (if sep = [] then map (\<lambda>c. [c]) s
      else case find_sub sep s of
             None \<Rightarrow> [s]
           | Some (a, b) \<Rightarrow> a # split_text sep b)"
  by pat_completeness auto
termination
  by (relation "measure (\<lambda>(sep, s). length s)") (auto dest: find_sub_length)

declare split_text.simps [simp del]
declare split_text.simps [js_eval]

fun join :: "jstr \<Rightarrow> jstr list \<Rightarrow> jstr" where
  "join sep [] = []"
| "join sep [x] = x"
| "join sep (x # y # xs) = x @ sep @ join sep (y # xs)"

lemma split_text_nonempty: "sep \<noteq> [] \<Longrightarrow> split_text sep s \<noteq> []"
  by (subst split_text.simps) (auto split: option.splits)

lemma join_Cons: "xs \<noteq> [] \<Longrightarrow> join sep (x # xs) = x @ sep @ join sep xs"
  by (cases xs) auto

text \<open>Joining the pieces with the separator gives the text back.\<close>

lemma join_split_text: "sep \<noteq> [] \<Longrightarrow> join sep (split_text sep s) = s"
proof (induction sep s rule: split_text.induct)
  case (1 sep s)
  show ?case
  proof (cases "find_sub sep s")
    case None
    then show ?thesis using "1.prems" by (simp add: split_text.simps [of sep s])
  next
    case (Some ab)
    obtain a b where ab: "ab = (a, b)" by (cases ab)
    have "join sep (split_text sep b) = b"
      using "1.IH" [OF _ Some ab [symmetric]] "1.prems" by simp
    moreover have "split_text sep s = a # split_text sep b"
      using "1.prems" Some ab by (simp add: split_text.simps [of sep s])
    ultimately show ?thesis
      using "1.prems" Some ab find_sub_Some [of sep s a b] split_text_nonempty [of sep b]
      by (simp add: join_Cons)
  qed
qed

lemma split_text_pieces:
  "sep \<noteq> [] \<Longrightarrow> p \<in> set (split_text sep s) \<Longrightarrow> set p \<subseteq> set s"
proof (induction sep s rule: split_text.induct)
  case (1 sep s)
  show ?case
  proof (cases "find_sub sep s")
    case None
    then show ?thesis using "1.prems" by (simp add: split_text.simps [of sep s])
  next
    case (Some ab)
    obtain a b where ab: "ab = (a, b)" by (cases ab)
    have s: "s = a @ sep @ b" using Some ab find_sub_Some by blast
    have "split_text sep s = a # split_text sep b"
      using "1.prems" Some ab by (simp add: split_text.simps [of sep s])
    then have "p = a \<or> p \<in> set (split_text sep b)" using "1.prems" by simp
    then show ?thesis
    proof
      assume "p = a"
      then show ?thesis using s by auto
    next
      assume "p \<in> set (split_text sep b)"
      then have "set p \<subseteq> set b"
        using "1.IH" [OF _ Some ab [symmetric]] "1.prems" by simp
      then show ?thesis using s by auto
    qed
  qed
qed

lemma split_text_no_sep: "sep \<noteq> [] \<Longrightarrow> \<not> js_includes s sep \<Longrightarrow> split_text sep s = [s]"
  by (subst split_text.simps) (simp add: js_includes_def del: not_None_eq)

text \<open>A separator of one unit: splitting undoes joining.\<close>

lemma find_char:
  "find_sub [c] (a @ c # b) = Some (a, b)" if "c \<notin> set a"
  using that by (induction a) auto

lemma split_char_cons: "c \<notin> set a \<Longrightarrow> split_text [c] (a @ c # b) = a # split_text [c] b"
  by (subst split_text.simps) (simp add: find_char)

lemma split_char_none: "c \<notin> set a \<Longrightarrow> split_text [c] a = [a]"
  by (rule split_text_no_sep) (simp_all add: js_includes_char)

lemma split_char_join:
  "xs \<noteq> [] \<Longrightarrow> (\<And>x. x \<in> set xs \<Longrightarrow> c \<notin> set x) \<Longrightarrow> split_text [c] (join [c] xs) = xs"
  by (induction "[c]" xs rule: join.induct) (simp_all add: split_char_none split_char_cons)

lemma split_char_pieces: "p \<in> set (split_text [c] s) \<Longrightarrow> c \<notin> set p"
proof (induction "[c]" s rule: split_text.induct)
  case (1 s)
  show ?case
  proof (cases "c \<in> set s")
    case True
    then obtain a b where s: "s = a @ c # b" "c \<notin> set a" by (metis split_list_first)
    then show ?thesis using 1 by (auto simp: split_char_cons find_char)
  next
    case False
    then show ?thesis using 1 by (simp add: split_char_none)
  qed
qed

text \<open>
  \<open>/^[^\s@]+@[^\s@]+\.[^\s@]+$/\<close>: no white space, exactly one at sign with text before it, and after it a
  dot that is neither the first nor the last unit.
\<close>

definition email_pattern :: "jstr \<Rightarrow> bool" where
  [js_eval]: "email_pattern s =
     (case split_text [64] s of
        [a, d] \<Rightarrow> a \<noteq> [] \<and> list_all (\<lambda>c. \<not> is_ws c) s \<and> 46 \<in> set (butlast (tl d))
      | _ \<Rightarrow> False)"

text \<open>\<open>lastIndexOf\<close> for a one-unit needle: the index of its last occurrence, or -1.\<close>

definition last_index_of :: "nat \<Rightarrow> jstr \<Rightarrow> int" where
  [js_eval]: "last_index_of c s =
     (if c \<in> set s
      then int (length s) - 1 - int (length (takeWhile (\<lambda>d. d \<noteq> c) (rev s)))
      else -1)"

lemma last_index_of_split:
  assumes "c \<notin> set b"
  shows "last_index_of c (a @ c # b) = int (length a)"
proof -
  have "takeWhile (\<lambda>d. d \<noteq> c) (rev (a @ c # b)) = rev b"
    using assms by (auto simp: takeWhile_append)
  then show ?thesis by (simp add: last_index_of_def)
qed

lemma last_index_of_cases:
  obtains (missing) "c \<notin> set s" "last_index_of c s = -1"
  | (found) a b where "s = a @ c # b" "c \<notin> set b" "last_index_of c s = int (length a)"
proof (cases "c \<in> set s")
  case True
  then obtain a b where "s = a @ c # b" "c \<notin> set b" by (metis split_list_last)
  then show ?thesis using found last_index_of_split by blast
next
  case False
  then show ?thesis using missing by (simp add: last_index_of_def)
qed

section \<open>Printing numbers\<close>

fun nat_str :: "nat \<Rightarrow> jstr" where
  "nat_str n = (if n < 10 then [48 + n] else nat_str (n div 10) @ [48 + n mod 10])"

declare nat_str.simps [simp del]
declare nat_str.simps [js_eval]

definition int_text :: "int \<Rightarrow> jstr" where
  [js_eval]: "int_text n = (if n < 0 then 45 # nat_str (nat (- n)) else nat_str (nat n))"

definition digits_value :: "jstr \<Rightarrow> nat" where
  "digits_value ds = foldl (\<lambda>acc d. 10 * acc + (d - 48)) 0 ds"

definition is_digit :: "nat \<Rightarrow> bool" where
  [js_eval]: "is_digit c \<longleftrightarrow> 48 \<le> c \<and> c \<le> 57"

lemma nat_str_nonempty [simp]: "nat_str n \<noteq> []"
  by (subst nat_str.simps) simp

lemma nat_str_digits: "c \<in> set (nat_str n) \<Longrightarrow> is_digit c"
proof (induction n rule: nat_str.induct)
  case (1 n)
  show ?case
  proof (cases "n < 10")
    case True
    then show ?thesis using "1.prems" by (simp add: nat_str.simps [of n] is_digit_def)
  next
    case False
    then have "c \<in> set (nat_str (n div 10)) \<or> c = 48 + n mod 10"
      using "1.prems" by (auto simp: nat_str.simps [of n])
    then show ?thesis using "1.IH" False by (auto simp: is_digit_def)
  qed
qed

lemma digits_value_nat_str: "digits_value (nat_str n) = n"
proof (induction n rule: nat_str.induct)
  case (1 n)
  show ?case
  proof (cases "n < 10")
    case True
    then show ?thesis by (simp add: nat_str.simps [of n] digits_value_def)
  next
    case False
    then have "digits_value (nat_str n) = 10 * digits_value (nat_str (n div 10)) + n mod 10"
      by (simp add: nat_str.simps [of n] digits_value_def)
    then show ?thesis using "1.IH" False by simp
  qed
qed

lemma nat_str_inject [simp]: "nat_str m = nat_str n \<longleftrightarrow> m = n"
  by (metis digits_value_nat_str)

text \<open>A separator that does not occur in the first parts splits a text in one way only.\<close>

lemma append_sep_inject:
  "c \<notin> set a \<Longrightarrow> c \<notin> set b \<Longrightarrow> a @ (c :: nat) # s = b @ c # t \<longleftrightarrow> a = b \<and> s = t"
  by (induction a arbitrary: b; case_tac b) auto

text \<open>A byte prints as two lower-case hexadecimal digits.\<close>

type_synonym byte = "8 word"

definition hex_digit :: "nat \<Rightarrow> nat" where
  [js_eval]: "hex_digit d = (if d < 10 then 48 + d else 87 + d)"

definition hex_byte :: "byte \<Rightarrow> jstr" where
  "hex_byte b = [hex_digit (unat b div 16), hex_digit (unat b mod 16)]"

definition is_hex :: "nat \<Rightarrow> bool" where
  [js_eval]: "is_hex c \<longleftrightarrow> (48 \<le> c \<and> c \<le> 57) \<or> (97 \<le> c \<and> c \<le> 102)"

lemma hex_digit_hex: "d < 16 \<Longrightarrow> is_hex (hex_digit d)"
  by (auto simp: hex_digit_def is_hex_def)

lemma hex_digit_inject: "d < 16 \<Longrightarrow> e < 16 \<Longrightarrow> hex_digit d = hex_digit e \<longleftrightarrow> d = e"
  by (auto simp: hex_digit_def split: if_splits)

lemma unat_byte_bound: "unat (b :: byte) < 256"
  using unsigned_less [of b] by simp

lemma hex_byte_hex: "c \<in> set (hex_byte b) \<Longrightarrow> is_hex c"
  using unat_byte_bound [of b] by (auto simp: hex_byte_def intro!: hex_digit_hex)

lemma hex_byte_inject: "hex_byte a = hex_byte b \<longleftrightarrow> a = b"
proof
  assume "hex_byte a = hex_byte b"
  then have "unat a div 16 = unat b div 16" "unat a mod 16 = unat b mod 16"
    using unat_byte_bound [of a] unat_byte_bound [of b]
    by (auto simp: hex_byte_def hex_digit_inject)
  then have "unat a = unat b" by (metis div_mult_mod_eq)
  then show "a = b" by (rule unsigned_word_eqI)
qed simp

lemma is_hex_fixed: "is_hex c \<Longrightarrow> lower_unit c = [c] \<and> \<not> is_ws c"
  by (auto simp: is_hex_def lower_unit_def is_ws_def)

section \<open>Results\<close>

text \<open>
  A call that may throw returns \<open>Inl e\<close> for the exception or \<open>Inr v\<close> for the value; \<open>and_then\<close> is
  the sequencing of two such calls, the second of which does not run after a throw.
\<close>

definition and_then :: "'e + 'a \<Rightarrow> ('a \<Rightarrow> 'e + 'b) \<Rightarrow> 'e + 'b" where
  "and_then r k = (case r of Inl e \<Rightarrow> Inl e | Inr v \<Rightarrow> k v)"

lemma and_then_simps [simp]:
  "and_then (Inl e) k = Inl e"
  "and_then (Inr v) k = k v"
  by (simp_all add: and_then_def)

lemma and_then_Inr:
  "and_then r k = Inr y \<longleftrightarrow> (\<exists>v. r = Inr v \<and> k v = Inr y)"
  by (cases r) simp_all

lemma and_then_Inl:
  "and_then r k = Inl e \<longleftrightarrow> r = Inl e \<or> (\<exists>v. r = Inr v \<and> k v = Inl e)"
  by (cases r) simp_all

section \<open>Normalising operations\<close>

text \<open>
  Several components compare texts after normalising them (routing addresses, delivery keys,
  e-mail addresses of an import, administrator roles). What they rely on is that normalising
  twice is normalising once.
\<close>

locale normaliser =
  fixes norm :: "jstr \<Rightarrow> jstr"
  assumes norm_idem: "norm (norm s) = norm s"
begin

definition same_norm :: "jstr \<Rightarrow> jstr \<Rightarrow> bool" where
  "same_norm s t \<longleftrightarrow> norm s = norm t"

lemma same_norm_self: "same_norm s (norm s)"
  by (simp add: same_norm_def norm_idem)

lemma norm_fixed_iff: "norm s = s \<longleftrightarrow> (\<exists>t. s = norm t)"
  by (metis norm_idem)

lemma same_norm_equivp: "equivp same_norm"
  by (rule equivpI) (auto simp: same_norm_def reflp_def symp_def transp_def)

end

interpretation lower_norm: normaliser to_lower
  by unfold_locales simp

interpretation trim_norm: normaliser trim
  by unfold_locales simp

end
