(* ===== verification/JsNumber.thy ===== *)
theory JsNumber
  imports Complex_Main JsPrelude
begin

text \<open>
  JavaScript numbers, as far as the sources compute with them: the finite doubles as rationals,
  the infinities and NaN, and the coercion \<open>Number(text)\<close> that the edge worker applies to a
  configured size limit, to a Content-Length header and that the import preview applies to a line
  number. \<open>Number\<close> is the StringNumericLiteral grammar of ECMAScript (white space, a sign,
  \<open>Infinity\<close>, decimal digits with a point and an exponent, the 0x, 0o and 0b forms, and 0 for the
  blank text) followed by rounding to 53 significant bits, ties to even.
\<close>

datatype jsnum = NaN | Infinite bool | Fin rat

section \<open>Rounding to 53 significant bits\<close>

definition round_half_even :: "int \<Rightarrow> int \<Rightarrow> int" where
  "round_half_even a b =
     (let q = a div b; r = a mod b
      in if 2 * r < b then q else if b < 2 * r then q + 1 else if even q then q else q + 1)"

text \<open>The exponent of \<open>n/d\<close> when it is at least one, and how often a smaller one is doubled.\<close>

function exp_up :: "int \<Rightarrow> int \<Rightarrow> nat" where
  "exp_up n d = (if d \<le> 0 \<or> n < 2 * d then 0 else Suc (exp_up n (2 * d)))"
  by pat_completeness auto
termination
  by (relation "measure (\<lambda>(n, d). nat (n - d))") auto

function exp_down :: "int \<Rightarrow> int \<Rightarrow> nat" where
  "exp_down n d = (if n \<le> 0 \<or> d \<le> n then 0 else Suc (exp_down (2 * n) d))"
  by pat_completeness auto
termination
  by (relation "measure (\<lambda>(n, d). nat (d - n))") auto

declare exp_up.simps [simp del] exp_down.simps [simp del]

definition round_normal :: "int \<Rightarrow> int \<Rightarrow> rat" where
  "round_normal n d =
     (let e = exp_up n d
      in if 52 \<le> e then of_int (round_half_even n (d * 2 ^ (e - 52)) * 2 ^ (e - 52))
         else of_int (round_half_even (n * 2 ^ (52 - e)) d) / of_int (2 ^ (52 - e)))"

definition round_double :: "int \<Rightarrow> int \<Rightarrow> rat" where
  "round_double n d =
     (if n = 0 then 0
      else let k = exp_down n d in round_normal (n * 2 ^ k) d / of_int (2 ^ k))"

text \<open>The largest finite double is below \<open>2 ^ 1024\<close>; rounding past it gives an infinity.\<close>

definition double_limit :: int where
  "double_limit = (((2 ^ 64) ^ 4) ^ 4)"

definition mk_double :: "bool \<Rightarrow> int \<Rightarrow> int \<Rightarrow> jsnum" where
  "mk_double neg n d =
     (let r = round_double n d
      in if of_int double_limit \<le> r then Infinite neg else Fin (if neg then - r else r))"

section \<open>The grammar\<close>

definition digits_in :: "nat \<Rightarrow> nat \<Rightarrow> nat option" where
  "digits_in base c =
     (let v = (if 48 \<le> c \<and> c \<le> 57 then c - 48
               else if 97 \<le> c \<and> c \<le> 102 then c - 87
               else if 65 \<le> c \<and> c \<le> 70 then c - 55 else 99)
      in if v < base then Some v else None)"

fun radix_value :: "nat \<Rightarrow> int \<Rightarrow> jstr \<Rightarrow> int option" where
  "radix_value base acc [] = Some acc"
| "radix_value base acc (c # cs) =
     (case digits_in base c of None \<Rightarrow> None | Some v \<Rightarrow> radix_value base (int base * acc + int v) cs)"

definition radix_number :: "nat \<Rightarrow> jstr \<Rightarrow> jsnum" where
  "radix_number base ds =
     (case (if ds = [] then None else radix_value base 0 ds) of
        None \<Rightarrow> NaN
      | Some n \<Rightarrow> mk_double False n 1)"

definition decimal_value :: "jstr \<Rightarrow> int" where
  "decimal_value ds = foldl (\<lambda>acc d. 10 * acc + (int d - 48)) 0 ds"

text \<open>An exponent part: nothing, or e with an optional sign and at least one digit.\<close>

definition exponent_part :: "jstr \<Rightarrow> int option" where
  "exponent_part s =
     (case s of
        [] \<Rightarrow> Some 0
      | c # r \<Rightarrow>
          if c \<noteq> 101 \<and> c \<noteq> 69 then None
          else let neg = (r \<noteq> [] \<and> hd r = 45);
                   ds = (if r \<noteq> [] \<and> (hd r = 43 \<or> hd r = 45) then tl r else r)
               in if ds = [] \<or> \<not> list_all is_digit ds then None
                  else Some (if neg then - decimal_value ds else decimal_value ds))"

definition unsigned_decimal :: "bool \<Rightarrow> jstr \<Rightarrow> jsnum" where
  "unsigned_decimal neg s =
     (if s = js ''Infinity'' then Infinite neg
      else let ip = takeWhile is_digit s; r = dropWhile is_digit s;
               fp = (if r \<noteq> [] \<and> hd r = 46 then takeWhile is_digit (tl r) else []);
               r' = (if r \<noteq> [] \<and> hd r = 46 then dropWhile is_digit (tl r) else r)
           in if ip = [] \<and> fp = [] then NaN
              else case exponent_part r' of
                     None \<Rightarrow> NaN
                   | Some e \<Rightarrow>
                       let m = decimal_value (ip @ fp); x = e - int (length fp)
                       in if 0 \<le> x then mk_double neg (m * 10 ^ nat x) 1
                          else mk_double neg m (10 ^ nat (- x)))"

definition number_of_text :: "jstr \<Rightarrow> jsnum" where
  "number_of_text s =
     (let t = trim s
      in if t = [] then Fin 0
         else if take 2 t = js ''0x'' \<or> take 2 t = js ''0X'' then radix_number 16 (drop 2 t)
         else if take 2 t = js ''0o'' \<or> take 2 t = js ''0O'' then radix_number 8 (drop 2 t)
         else if take 2 t = js ''0b'' \<or> take 2 t = js ''0B'' then radix_number 2 (drop 2 t)
         else if hd t = 43 then unsigned_decimal False (tl t)
         else if hd t = 45 then unsigned_decimal True (tl t)
         else unsigned_decimal False t)"

section \<open>Integers among the numbers\<close>

definition max_safe :: int where
  "max_safe = 9007199254740991"

definition is_safe_integer :: "jsnum \<Rightarrow> bool" where
  "is_safe_integer x =
     (case x of Fin r \<Rightarrow> of_int \<lfloor>r\<rfloor> = r \<and> \<bar>\<lfloor>r\<rfloor>\<bar> \<le> max_safe | _ \<Rightarrow> False)"

definition is_finite :: "jsnum \<Rightarrow> bool" where
  "is_finite x = (case x of Fin _ \<Rightarrow> True | _ \<Rightarrow> False)"

text \<open>\<open>x < y\<close> and \<open>x > y\<close> of JavaScript against an integer constant: false for NaN.\<close>

definition num_lt :: "jsnum \<Rightarrow> int \<Rightarrow> bool" where
  "num_lt x k = (case x of NaN \<Rightarrow> False | Infinite neg \<Rightarrow> neg | Fin r \<Rightarrow> r < of_int k)"

definition num_gt :: "jsnum \<Rightarrow> int \<Rightarrow> bool" where
  "num_gt x k = (case x of NaN \<Rightarrow> False | Infinite neg \<Rightarrow> \<not> neg | Fin r \<Rightarrow> of_int k < r)"

definition int_of_num :: "jsnum \<Rightarrow> int" where
  "int_of_num x = (case x of Fin r \<Rightarrow> \<lfloor>r\<rfloor> | _ \<Rightarrow> 0)"

lemma safe_integer_int:
  assumes "is_safe_integer x"
  shows "x = Fin (of_int (int_of_num x))" and "\<bar>int_of_num x\<bar> \<le> max_safe"
  using assms by (auto simp: is_safe_integer_def int_of_num_def split: jsnum.splits)

lemma num_lt_Fin_int [simp]: "num_lt (Fin (of_int a)) k \<longleftrightarrow> a < k"
  by (simp add: num_lt_def)

lemma num_gt_Fin_int [simp]: "num_gt (Fin (of_int a)) k \<longleftrightarrow> k < a"
  by (simp add: num_gt_def)

lemma number_of_blank: "trim s = [] \<Longrightarrow> number_of_text s = Fin 0"
  by (simp add: number_of_text_def)

end
