(* ===== verification/EdgeRouting.thy ===== *)
theory EdgeRouting
  imports JsPrelude
begin

text \<open>
  Routing of the edge worker (cloudflare/workers/allmail-edge/src/routing.ts): the address a
  message is matched on, and the object key its raw bytes are stored under.
\<close>

section \<open>Thrown values\<close>

text \<open>
  What a TypeScript \<open>catch\<close> clause receives: an Error object with its \<open>name\<close> and \<open>message\<close>, or
  any other thrown value, of which only its text \<open>String(e)\<close> matters.
\<close>

datatype thrown = ErrorObj (thrown_name: jstr) (thrown_message: jstr) | OtherThrown jstr

definition new_error :: "jstr \<Rightarrow> thrown" where
  "new_error m = ErrorObj (js ''Error'') m"

section \<open>Definitions\<close>

record parsed_routing =
  matched_address :: jstr
  local_part :: jstr
  domain :: jstr

definition clean_address :: "jstr \<Rightarrow> jstr" where
  "clean_address value = to_lower (trim value)"

definition parse_routing_address :: "jstr \<Rightarrow> thrown + parsed_routing" where
  "parse_routing_address address =
     (let matched = clean_address address; at_index = last_index_of 64 matched
      in if at_index \<le> 0 \<or> at_index = int (length matched) - 1
         then Inl (new_error (js ''Invalid routing address''))
         else Inr \<lparr>matched_address = matched,
                   local_part = take (nat at_index) matched,
                   domain = drop (nat at_index + 1) matched\<rparr>)"

definition is_slash :: "nat \<Rightarrow> bool" where
  "is_slash c \<longleftrightarrow> c = 47"

text \<open>\<open>replace(/^\/+|\/+$/g, '')\<close>: the slashes at both ends go, in one global replacement.\<close>

definition strip_slashes :: "jstr \<Rightarrow> jstr" where
  "strip_slashes s = strip_both is_slash s"

definition is_digest :: "jstr \<Rightarrow> bool" where
  "is_digest s \<longleftrightarrow> length s = 64 \<and> list_all is_hex s"

definition build_raw_object_key :: "jstr \<Rightarrow> jstr \<Rightarrow> thrown + jstr" where
  "build_raw_object_key prefix_in delivery_key_in =
     (let delivery_key = to_lower (trim delivery_key_in)
      in if \<not> is_digest delivery_key
         then Inl (new_error (js ''deliveryKey must be a 64-character hexadecimal digest''))
         else Inr (strip_slashes prefix_in @ js ''/'' @ take 2 delivery_key @ js ''/''
                   @ delivery_key @ js ''.eml''))"

section \<open>Normal form of an address\<close>

lemma clean_address_idem [js_norm, simp]: "clean_address (clean_address s) = clean_address s"
  by (simp add: clean_address_def trim_to_lower)

interpretation clean_norm: normaliser clean_address
  by unfold_locales simp

section \<open>Parsing\<close>

lemma parse_routing_Inr:
  assumes "parse_routing_address a = Inr p"
  shows "matched_address p = clean_address a"
    and "matched_address p = local_part p @ 64 # domain p"
    and "local_part p \<noteq> []" and "domain p \<noteq> []" and "64 \<notin> set (domain p)"
proof -
  let ?m = "clean_address a"
  have ok: "\<not> (last_index_of 64 ?m \<le> 0 \<or> last_index_of 64 ?m = int (length ?m) - 1)"
    and p: "p = \<lparr>matched_address = ?m, local_part = take (nat (last_index_of 64 ?m)) ?m,
                domain = drop (nat (last_index_of 64 ?m) + 1) ?m\<rparr>"
    using assms by (auto simp: parse_routing_address_def Let_def split: if_splits)
  obtain l d where m: "?m = l @ 64 # d" and d: "64 \<notin> set d"
    and i: "last_index_of 64 ?m = int (length l)"
  proof (rule last_index_of_cases [of 64 ?m])
    assume "last_index_of 64 ?m = -1"
    with ok show ?thesis by simp
  qed (rule that)
  show "matched_address p = ?m" using p by simp
  have "local_part p = l" "domain p = d" using p i m by simp_all
  then show "matched_address p = local_part p @ 64 # domain p" and "local_part p \<noteq> []"
    and "domain p \<noteq> []" and "64 \<notin> set (domain p)"
    using p m d ok i by auto
qed

lemma parse_routing_split:
  assumes "l \<noteq> []" "d \<noteq> []" "64 \<notin> set d" "clean_address a = l @ 64 # d"
  shows "parse_routing_address a = Inr \<lparr>matched_address = l @ 64 # d, local_part = l, domain = d\<rparr>"
  using assms by (simp add: parse_routing_address_def last_index_of_split)

lemma parse_routing_total:
  "parse_routing_address a = Inl e \<Longrightarrow> e = new_error (js ''Invalid routing address'')"
  by (auto simp: parse_routing_address_def Let_def split: if_splits)

section \<open>Object keys\<close>

lemma is_digest_fixed:
  assumes "is_digest s"
  shows "to_lower (trim s) = s"
proof -
  have hex: "\<And>c. c \<in> set s \<Longrightarrow> lower_unit c = [c] \<and> \<not> is_ws c"
    using assms is_hex_fixed by (auto simp: is_digest_def list_all_iff)
  have "s \<noteq> []" using assms by (auto simp: is_digest_def)
  then have "stripped is_ws s" using hex by (simp add: stripped_def)
  then have "trim s = s" by (simp add: trim_strip strip_both_id)
  moreover have "to_lower s = s" using hex by (intro to_lower_fixed) auto
  ultimately show ?thesis by simp
qed

lemma build_raw_object_key_digest:
  assumes "is_digest k"
  shows "build_raw_object_key p k =
         Inr (strip_slashes p @ js ''/'' @ take 2 k @ js ''/'' @ k @ js ''.eml'')"
  using assms by (simp add: build_raw_object_key_def is_digest_fixed)

lemma strip_slashes_idem [js_norm, simp]: "strip_slashes (strip_slashes s) = strip_slashes s"
  by (simp add: strip_slashes_def)

interpretation slash_norm: normaliser strip_slashes
  by unfold_locales simp

lemma build_raw_object_key_strip:
  "build_raw_object_key (strip_slashes p) k = build_raw_object_key p k"
  by (simp add: build_raw_object_key_def Let_def)

end
