(* ===== verification/EdgeConfig.thy ===== *)
theory EdgeConfig
  imports JsNumber EdgeRouting
begin

text \<open>
  Configuration of the edge worker (cloudflare/workers/allmail-edge/src/config.ts, and the
  environment types of types.ts): the environment strings are validated once per event and give
  the resolved environment or a thrown error. The WHATWG URL parser is a parameter \<open>parse_url\<close>.
\<close>

section \<open>Types\<close>

record url =
  url_protocol :: jstr
  url_hostname :: jstr
  url_pathname :: jstr
  url_href :: jstr

record worker_env =
  env_ingress_url :: "jstr option"
  env_ingress_key_id :: "jstr option"
  env_ingress_signing_secret :: "jstr option"
  env_ingress_provider :: "jstr option"
  env_raw_email_object_prefix :: "jstr option"
  env_max_raw_email_bytes :: "jstr option"
  env_has_bucket :: bool

record resolved_env =
  ingress_url :: url
  ingress_key_id :: jstr
  ingress_signing_secret :: jstr
  ingress_provider :: jstr
  raw_email_object_prefix :: jstr
  max_raw_email_bytes :: int
  raw_email_bucket :: bool

section \<open>Validation\<close>

definition default_max_raw_email_bytes :: int where
  "default_max_raw_email_bytes = 15 * 1024 * 1024"

definition cloudflare_max_raw_email_bytes :: int where
  "cloudflare_max_raw_email_bytes = 25 * 1024 * 1024"

definition require_string :: "jstr \<Rightarrow> jstr option \<Rightarrow> thrown + jstr" where
  "require_string name value =
     (case value of
        None \<Rightarrow> Inl (new_error (name @ js '' is required''))
      | Some v \<Rightarrow> if trim v = [] then Inl (new_error (name @ js '' is required''))
                  else Inr (trim v))"

definition require_secret_string :: "jstr \<Rightarrow> jstr option \<Rightarrow> thrown + jstr" where
  "require_secret_string name value =
     and_then (require_string name value) (\<lambda>resolved.
       if starts_with (to_lower resolved) (js ''replace-with-'')
       then Inl (new_error (name @ js '' must be replaced with a real shared secret''))
       else Inr resolved)"

definition normalize_prefix :: "jstr option \<Rightarrow> jstr" where
  "normalize_prefix value =
     (case value of
        None \<Rightarrow> js ''allmail-edge/raw''
      | Some v \<Rightarrow> if trim v = [] then js ''allmail-edge/raw'' else strip_slashes (trim v))"

definition is_local_http :: "url \<Rightarrow> bool" where
  "is_local_http u \<longleftrightarrow> url_protocol u = js ''http:''
     \<and> url_hostname u \<in> {js ''127.0.0.1'', js ''localhost''}"

definition validate_ingress_url ::
  "(jstr \<Rightarrow> thrown + url) \<Rightarrow> jstr \<Rightarrow> thrown + url" where
  "validate_ingress_url parse_url raw =
     and_then (parse_url raw) (\<lambda>u.
       if \<not> is_local_http u \<and> url_protocol u \<noteq> js ''https:''
       then Inl (new_error (js ''INGRESS_URL must use https unless targeting localhost''))
       else Inr u)"

definition parse_max_raw_email_bytes :: "jstr option \<Rightarrow> thrown + int" where
  "parse_max_raw_email_bytes value =
     (case value of
        None \<Rightarrow> Inr default_max_raw_email_bytes
      | Some v \<Rightarrow>
          if trim v = [] then Inr default_max_raw_email_bytes
          else let parsed = number_of_text v
               in if \<not> is_safe_integer parsed \<or> num_lt parsed 1
                     \<or> num_gt parsed cloudflare_max_raw_email_bytes
                  then Inl (new_error
                         (js ''MAX_RAW_EMAIL_BYTES must be an integer between 1 and 26214400''))
                  else Inr (int_of_num parsed))"

text \<open>The fields are evaluated in the order of the object literal; the first throw wins.\<close>

definition resolve_env ::
  "(jstr \<Rightarrow> thrown + url) \<Rightarrow> worker_env \<Rightarrow> thrown + resolved_env" where
  "resolve_env parse_url env =
     and_then (and_then (require_string (js ''INGRESS_URL'') (env_ingress_url env))
                 (validate_ingress_url parse_url)) (\<lambda>u.
     and_then (require_string (js ''INGRESS_KEY_ID'') (env_ingress_key_id env)) (\<lambda>key_id.
     and_then (require_secret_string (js ''INGRESS_SIGNING_SECRET'')
                 (env_ingress_signing_secret env)) (\<lambda>secret.
     and_then (parse_max_raw_email_bytes (env_max_raw_email_bytes env)) (\<lambda>limit.
       Inr \<lparr>ingress_url = u,
            ingress_key_id = key_id,
            ingress_signing_secret = secret,
            ingress_provider =
              (case env_ingress_provider env of
                 None \<Rightarrow> js ''CLOUDFLARE_EMAIL_ROUTING''
               | Some p \<Rightarrow> if trim p = [] then js ''CLOUDFLARE_EMAIL_ROUTING'' else trim p),
            raw_email_object_prefix = normalize_prefix (env_raw_email_object_prefix env),
            max_raw_email_bytes = limit,
            raw_email_bucket = env_has_bucket env\<rparr>))))"

section \<open>What a resolved environment satisfies\<close>

definition valid_env :: "resolved_env \<Rightarrow> bool" where
  "valid_env r \<longleftrightarrow>
     (url_protocol (ingress_url r) = js ''https:'' \<or> is_local_http (ingress_url r))
     \<and> ingress_key_id r \<noteq> [] \<and> trim (ingress_key_id r) = ingress_key_id r
     \<and> ingress_signing_secret r \<noteq> [] \<and> trim (ingress_signing_secret r) = ingress_signing_secret r
     \<and> \<not> prefix (js ''replace-with-'') (to_lower (ingress_signing_secret r))
     \<and> ingress_provider r \<noteq> []
     \<and> strip_slashes (raw_email_object_prefix r) = raw_email_object_prefix r
     \<and> 1 \<le> max_raw_email_bytes r \<and> max_raw_email_bytes r \<le> cloudflare_max_raw_email_bytes"

lemma require_string_Inr:
  "require_string name v = Inr s \<longleftrightarrow> (\<exists>t. v = Some t \<and> s = trim t \<and> s \<noteq> [])"
  by (auto simp: require_string_def split: option.splits)

lemma require_string_Inl:
  "require_string name v = Inl e \<longleftrightarrow>
     e = new_error (name @ js '' is required'') \<and> (\<forall>t. v = Some t \<longrightarrow> trim t = [])"
  by (auto simp: require_string_def split: option.splits)

lemma require_secret_string_Inr:
  "require_secret_string name v = Inr s \<longleftrightarrow>
     require_string name v = Inr s \<and> \<not> prefix (js ''replace-with-'') (to_lower s)"
  by (auto simp: require_secret_string_def and_then_Inr starts_with_def split: if_splits)

lemma validate_ingress_url_Inr:
  "validate_ingress_url pu raw = Inr u \<longleftrightarrow>
     pu raw = Inr u \<and> (is_local_http u \<or> url_protocol u = js ''https:'')"
  by (auto simp: validate_ingress_url_def and_then_Inr split: if_splits)

lemma normalize_prefix_stripped: "strip_slashes (normalize_prefix v) = normalize_prefix v"
proof -
  have "stripped is_slash (js ''allmail-edge/raw'')"
    by (simp add: stripped_def is_slash_def js_eval)
  then show ?thesis
    by (simp add: normalize_prefix_def strip_slashes_def strip_both_id split: option.splits)
qed

lemma parse_max_bounds:
  assumes "parse_max_raw_email_bytes v = Inr n"
  shows "1 \<le> n \<and> n \<le> cloudflare_max_raw_email_bytes"
proof (cases "n = default_max_raw_email_bytes")
  case True
  then show ?thesis
    by (simp add: default_max_raw_email_bytes_def cloudflare_max_raw_email_bytes_def)
next
  case False
  then obtain t where n: "n = int_of_num (number_of_text t)"
    and safe: "is_safe_integer (number_of_text t)"
    and lo: "\<not> num_lt (number_of_text t) 1"
    and hi: "\<not> num_gt (number_of_text t) cloudflare_max_raw_email_bytes"
    using assms
    by (auto simp: parse_max_raw_email_bytes_def Let_def split: option.splits if_splits)
  from safe_integer_int(1) [OF safe] lo hi show ?thesis
    unfolding n by (metis num_lt_Fin_int num_gt_Fin_int linorder_not_le)
qed

lemmas resolve_env_simps = resolve_env_def and_then_Inr require_string_Inr
  require_secret_string_Inr validate_ingress_url_Inr

lemma resolve_env_valid:
  assumes "resolve_env pu env = Inr r"
  shows "valid_env r"
  using assms parse_max_bounds [of "env_max_raw_email_bytes env"]
  by (auto simp: resolve_env_simps valid_env_def normalize_prefix_stripped
        split: option.splits if_splits)

end
