(* ===== verification/Utf8.thy ===== *)
theory Utf8
  imports JsPrelude
begin

text \<open>
  TextEncoder and TextDecoder, as the edge worker uses them (signature.ts encodes every text it
  hashes or signs, ingress.ts decodes an error response chunk by chunk): UTF-8 of a string of
  UTF-16 code units, and the streaming decoder of the Encoding standard as a state machine over
  bytes. The two results that matter to the worker: a well-formed text survives the round trip,
  so distinct texts are hashed as distinct byte strings; and decoding chunk by chunk gives the
  same text as decoding the whole body.
\<close>

section \<open>Encoding\<close>

definition is_high :: "nat \<Rightarrow> bool" where
  "is_high c \<longleftrightarrow> 55296 \<le> c \<and> c \<le> 56319"

definition is_low :: "nat \<Rightarrow> bool" where
  "is_low c \<longleftrightarrow> 56320 \<le> c \<and> c \<le> 57343"

text \<open>Surrogate pairs become one code point; a lone surrogate becomes U+FFFD.\<close>

fun code_points :: "jstr \<Rightarrow> nat list" where
  "code_points [] = []"
| "code_points [c] = [if is_high c \<or> is_low c then 65533 else c]"
| "code_points (c # d # s) =
     (if is_high c \<and> is_low d
      then (65536 + (c - 55296) * 1024 + (d - 56320)) # code_points s
      else (if is_high c \<or> is_low c then 65533 else c) # code_points (d # s))"

definition utf8_point :: "nat \<Rightarrow> nat list" where
  "utf8_point c =
     (if c < 128 then [c]
      else if c < 2048 then [192 + c div 64, 128 + c mod 64]
      else if c < 65536 then [224 + c div 4096, 128 + c div 64 mod 64, 128 + c mod 64]
      else [240 + c div 262144, 128 + c div 4096 mod 64, 128 + c div 64 mod 64, 128 + c mod 64])"

definition utf8_encode :: "jstr \<Rightarrow> byte list" where
  "utf8_encode s = map of_nat (concat (map utf8_point (code_points s)))"

section \<open>Decoding\<close>

text \<open>\<open>needed = 0\<close> is the state between characters, where the other fields are not read.\<close>

record decoder =
  dec_point :: nat
  dec_needed :: nat
  dec_lower :: nat
  dec_upper :: nat

definition dec_init :: decoder where
  "dec_init = \<lparr>dec_point = 0, dec_needed = 0, dec_lower = 128, dec_upper = 191\<rparr>"

definition dec_first :: "nat \<Rightarrow> decoder \<times> nat list" where
  "dec_first b =
     (if b < 128 then (dec_init, [b])
      else if 194 \<le> b \<and> b \<le> 223 then (dec_init\<lparr>dec_point := b - 192, dec_needed := 1\<rparr>, [])
      else if 224 \<le> b \<and> b \<le> 239 then
        (\<lparr>dec_point = b - 224, dec_needed = 2, dec_lower = (if b = 224 then 160 else 128),
          dec_upper = (if b = 237 then 159 else 191)\<rparr>, [])
      else if 240 \<le> b \<and> b \<le> 244 then
        (\<lparr>dec_point = b - 240, dec_needed = 3, dec_lower = (if b = 240 then 144 else 128),
          dec_upper = (if b = 244 then 143 else 191)\<rparr>, [])
      else (dec_init, [65533]))"

text \<open>A byte outside the expected range ends the character in error and is read again.\<close>

definition dec_step :: "decoder \<Rightarrow> nat \<Rightarrow> decoder \<times> nat list" where
  "dec_step d b =
     (if dec_needed d = 0 then dec_first b
      else if b < dec_lower d \<or> dec_upper d < b then
        (let (d', out) = dec_first b in (d', 65533 # out))
      else let p = dec_point d * 64 + (b - 128)
           in if dec_needed d = 1 then (dec_init, [p])
              else (\<lparr>dec_point = p, dec_needed = dec_needed d - 1,
                     dec_lower = 128, dec_upper = 191\<rparr>, []))"

fun dec_run :: "decoder \<Rightarrow> nat list \<Rightarrow> decoder \<times> nat list" where
  "dec_run d [] = (d, [])"
| "dec_run d (b # bs) =
     (let (d1, out1) = dec_step d b; (d2, out2) = dec_run d1 bs in (d2, out1 @ out2))"

definition dec_flush :: "decoder \<Rightarrow> nat list" where
  "dec_flush d = (if dec_needed d = 0 then [] else [65533])"

definition utf16_point :: "nat \<Rightarrow> jstr" where
  "utf16_point p =
     (if p < 65536 then [p]
      else [55296 + (p - 65536) div 1024, 56320 + (p - 65536) mod 1024])"

text \<open>The decoder drops one byte order mark at the start of the text.\<close>

definition drop_bom :: "nat list \<Rightarrow> nat list" where
  "drop_bom ps = (case ps of p # qs \<Rightarrow> if p = 65279 then qs else ps | [] \<Rightarrow> [])"

definition utf8_decode :: "byte list \<Rightarrow> jstr" where
  "utf8_decode bs =
     (let (d, out) = dec_run dec_init (map unat bs)
      in concat (map utf16_point (drop_bom (out @ dec_flush d))))"

text \<open>
  The streaming calls \<open>decode(chunk, {stream: true})\<close>, one per chunk, and the final \<open>decode()\<close>:
  the decoder state is carried over, the outputs are concatenated.
\<close>

fun dec_chunks :: "decoder \<Rightarrow> byte list list \<Rightarrow> decoder \<times> nat list" where
  "dec_chunks d [] = (d, [])"
| "dec_chunks d (c # cs) =
     (let (d1, out1) = dec_run d (map unat c); (d2, out2) = dec_chunks d1 cs
      in (d2, out1 @ out2))"

definition utf8_decode_stream :: "byte list list \<Rightarrow> jstr" where
  "utf8_decode_stream cs =
     (let (d, out) = dec_chunks dec_init cs
      in concat (map utf16_point (drop_bom (out @ dec_flush d))))"

section \<open>Streaming\<close>

lemma dec_run_append:
  "dec_run d (xs @ ys) =
     (let (d1, o1) = dec_run d xs; (d2, o2) = dec_run d1 ys in (d2, o1 @ o2))"
  by (induction xs arbitrary: d) (auto simp: Let_def split: prod.splits)

lemma dec_chunks_concat: "dec_chunks d cs = dec_run d (map unat (concat cs))"
  by (induction cs arbitrary: d) (auto simp: dec_run_append split: prod.splits)

lemma utf8_decode_stream_concat: "utf8_decode_stream cs = utf8_decode (concat cs)"
  by (simp add: utf8_decode_stream_def utf8_decode_def dec_chunks_concat)

section \<open>The round trip\<close>

fun well_formed :: "jstr \<Rightarrow> bool" where
  "well_formed [] = True"
| "well_formed [c] = (\<not> is_high c \<and> \<not> is_low c \<and> c < 65536)"
| "well_formed (c # d # s) =
     (if is_high c then is_low d \<and> well_formed s
      else \<not> is_low c \<and> c < 65536 \<and> well_formed (d # s))"

definition scalar :: "nat \<Rightarrow> bool" where
  "scalar p \<longleftrightarrow> p < 1114112 \<and> \<not> (55296 \<le> p \<and> p \<le> 57343)"

lemma surrogate_pair_scalar:
  "is_high c \<Longrightarrow> is_low d \<Longrightarrow> scalar (65536 + (c - 55296) * 1024 + (d - 56320))"
  by (auto simp: is_high_def is_low_def scalar_def)

lemma surrogate_pair_utf16:
  assumes "is_high c" "is_low d"
  shows "utf16_point (65536 + (c - 55296) * 1024 + (d - 56320)) = [c, d]"
proof -
  define x where "x = c - 55296"
  define y where "y = d - 56320"
  have "c = 55296 + x" "d = 56320 + y" "y < 1024"
    using assms by (auto simp: is_high_def is_low_def x_def y_def)
  then show ?thesis by (simp add: utf16_point_def)
qed

lemma code_points_scalar: "well_formed s \<Longrightarrow> \<forall>p \<in> set (code_points s). scalar p"
proof (induction s rule: code_points.induct)
  case (3 c d s)
  show ?case
  proof (cases "is_high c")
    case True
    then show ?thesis using 3 surrogate_pair_scalar [of c d] by simp
  next
    case False
    then have "scalar c" using "3.prems" by (auto simp: scalar_def is_high_def is_low_def)
    then show ?thesis using 3 False by simp
  qed
qed (auto simp: scalar_def is_high_def is_low_def)

lemma utf16_code_points: "well_formed s \<Longrightarrow> concat (map utf16_point (code_points s)) = s"
proof (induction s rule: code_points.induct)
  case (3 c d s)
  show ?case
  proof (cases "is_high c")
    case True
    then show ?thesis using 3 surrogate_pair_utf16 [of c d] by simp
  next
    case False
    then show ?thesis using 3 by (simp add: utf16_point_def)
  qed
qed (auto simp: utf16_point_def)

lemma utf8_point_byte: "scalar p \<Longrightarrow> b \<in> set (utf8_point p) \<Longrightarrow> b < 256"
  by (auto simp: utf8_point_def scalar_def split: if_splits)

lemma unat_of_nat_bytes: "\<forall>b \<in> set bs. b < 256 \<Longrightarrow> map unat (map (of_nat :: nat \<Rightarrow> byte) bs) = bs"
  by (induction bs) (auto simp: unat_of_nat)

lemma base64_digits3: "p = p div 4096 * 4096 + p div 64 mod 64 * 64 + p mod (64 :: nat)"
proof -
  have "p div 4096 = p div 64 div 64" by (simp add: div_mult2_eq [symmetric])
  then show ?thesis using div_mult_mod_eq [of p 64] div_mult_mod_eq [of "p div 64" 64]
    by linarith
qed

lemma base64_digits4:
  "p = p div 262144 * 262144 + p div 4096 mod 64 * 4096 + p div 64 mod 64 * 64 + p mod (64 :: nat)"
proof -
  have "p div 262144 = p div 4096 div 64" by (simp add: div_mult2_eq [symmetric])
  then show ?thesis
    using base64_digits3 [of p] div_mult_mod_eq [of "p div 4096" 64] by linarith
qed

lemma dec_run_point2:
  assumes "128 \<le> p" "p < 2048"
  shows "dec_run dec_init (utf8_point p) = (dec_init, [p])"
proof -
  define a where "a = p div 64"
  define c where "c = p mod 64"
  have "p = a * 64 + c" "c < 64" by (simp_all add: a_def c_def)
  moreover from this have "2 \<le> a" "a < 32" using assms by simp_all
  moreover have "utf8_point p = [192 + a, 128 + c]"
    using assms by (simp add: utf8_point_def a_def c_def)
  ultimately show ?thesis by (simp add: dec_step_def dec_first_def dec_init_def)
qed

lemma dec_run_point3:
  assumes "2048 \<le> p" "p < 65536" "scalar p"
  shows "dec_run dec_init (utf8_point p) = (dec_init, [p])"
proof -
  define a where "a = p div 4096"
  define b where "b = p div 64 mod 64"
  define c where "c = p mod 64"
  have p: "p = a * 4096 + b * 64 + c" "b < 64" "c < 64"
    unfolding a_def b_def c_def using base64_digits3 [of p] by simp_all
  have a: "a < 16" using assms p by simp
  have a0: "a = 0 \<Longrightarrow> 32 \<le> b" using assms(1) p by simp
  have a13: "a = 13 \<Longrightarrow> b < 32" using assms(3) p by (auto simp: scalar_def)
  have "utf8_point p = [224 + a, 128 + b, 128 + c]"
    using assms by (simp add: utf8_point_def a_def b_def c_def)
  then show ?thesis
    using p a a0 a13 by (auto simp: dec_step_def dec_first_def dec_init_def)
qed

lemma dec_run_point4:
  assumes "65536 \<le> p" "scalar p"
  shows "dec_run dec_init (utf8_point p) = (dec_init, [p])"
proof -
  define a where "a = p div 262144"
  define b where "b = p div 4096 mod 64"
  define c where "c = p div 64 mod 64"
  define d where "d = p mod 64"
  have p: "p = a * 262144 + b * 4096 + c * 64 + d" "b < 64" "c < 64" "d < 64"
    unfolding a_def b_def c_def d_def using base64_digits4 [of p] by simp_all
  have a: "a < 5" using assms p by (simp add: scalar_def)
  have a0: "a = 0 \<Longrightarrow> 16 \<le> b" using assms(1) p by simp
  have a4: "a = 4 \<Longrightarrow> b < 16" using assms(2) p by (auto simp: scalar_def)
  have "utf8_point p = [240 + a, 128 + b, 128 + c, 128 + d]"
    using assms by (simp add: utf8_point_def a_def b_def c_def d_def)
  then show ?thesis
    using p a a0 a4 by (auto simp: dec_step_def dec_first_def dec_init_def)
qed

lemma dec_run_point: "scalar p \<Longrightarrow> dec_run dec_init (utf8_point p) = (dec_init, [p])"
proof -
  assume "scalar p"
  moreover have "p < 128 \<Longrightarrow> ?thesis"
    by (simp add: utf8_point_def dec_step_def dec_first_def dec_init_def)
  ultimately show ?thesis
    using dec_run_point2 [of p] dec_run_point3 [of p] dec_run_point4 [of p]
    by (metis linorder_not_le)
qed

lemma dec_run_points:
  "\<forall>p \<in> set ps. scalar p \<Longrightarrow> dec_run dec_init (concat (map utf8_point ps)) = (dec_init, ps)"
  by (induction ps) (simp_all add: dec_run_append dec_run_point)

lemma unat_utf8_encode:
  assumes "well_formed s"
  shows "map unat (utf8_encode s) = concat (map utf8_point (code_points s))"
  unfolding utf8_encode_def
proof (rule unat_of_nat_bytes)
  show "\<forall>b \<in> set (concat (map utf8_point (code_points s))). b < 256"
    using code_points_scalar [OF assms] utf8_point_byte by auto
qed

lemma dec_flush_init [simp]: "dec_flush dec_init = []"
  by (simp add: dec_flush_def dec_init_def)

lemma dec_run_encode:
  "well_formed s \<Longrightarrow> dec_run dec_init (map unat (utf8_encode s)) = (dec_init, code_points s)"
  by (simp add: unat_utf8_encode dec_run_points code_points_scalar)

text \<open>Distinct well-formed texts have distinct encodings.\<close>

lemma utf8_encode_inject:
  assumes "well_formed s" "well_formed t" "utf8_encode s = utf8_encode t"
  shows "s = t"
  by (metis assms dec_run_encode prod.inject utf16_code_points)

lemma utf8_roundtrip:
  assumes "well_formed s" "\<not> prefix [65279] s"
  shows "utf8_decode (utf8_encode s) = s"
proof -
  have "drop_bom (code_points s) = code_points s"
  proof (cases s rule: code_points.cases)
    case (3 c d s')
    then show ?thesis
      using assms by (auto simp: drop_bom_def is_high_def is_low_def)
  qed (use assms in \<open>auto simp: drop_bom_def\<close>)
  then show ?thesis
    using assms by (simp add: utf8_decode_def dec_run_encode utf16_code_points)
qed

lemma well_formed_ascii: "(\<And>c. c \<in> set s \<Longrightarrow> c < 55296) \<Longrightarrow> well_formed s"
  by (induction s rule: well_formed.induct) (force simp: is_high_def is_low_def)+

end
