(* ===== verification/EdgeSignature.thy ===== *)
theory EdgeSignature
  imports EdgeConfig Utf8
begin

text \<open>
  Request signing of the edge worker (cloudflare/workers/allmail-edge/src/signature.ts) and the
  check the Go ingress endpoint makes of it (verifyIngressSignature of
  core/internal/businessapi/ingress_handler.go). SHA-256 and HMAC-SHA-256 are Web Crypto and Go
  library code: parameters \<open>sha\<close> and \<open>mac\<close> from bytes to bytes, of which only the digest length
  is ever assumed.
\<close>

section \<open>Definitions\<close>

definition to_hex :: "byte list \<Rightarrow> jstr" where
  "to_hex bs = concat (map hex_byte bs)"

definition sha256_hex :: "(byte list \<Rightarrow> byte list) \<Rightarrow> jstr \<Rightarrow> jstr" where
  "sha256_hex sha value = to_hex (sha (utf8_encode value))"

definition sha256_hex_bytes :: "(byte list \<Rightarrow> byte list) \<Rightarrow> byte list \<Rightarrow> jstr" where
  "sha256_hex_bytes sha value = to_hex (sha value)"

definition build_canonical_string :: "jstr \<Rightarrow> jstr \<Rightarrow> jstr \<Rightarrow> jstr \<Rightarrow> jstr" where
  "build_canonical_string timestamp meth path body_hash =
     timestamp @ [10] @ to_upper meth @ [10] @ path @ [10] @ body_hash"

definition sign_canonical_string ::
  "(byte list \<Rightarrow> byte list \<Rightarrow> byte list) \<Rightarrow> jstr \<Rightarrow> jstr \<Rightarrow> jstr" where
  "sign_canonical_string mac secret canonical =
     to_hex (mac (utf8_encode secret) (utf8_encode canonical))"

record signed_input =
  si_body_text :: jstr
  si_method :: jstr
  si_url :: url
  si_key_id :: jstr
  si_signing_secret :: jstr
  si_timestamp :: "jstr option"

text \<open>\<open>now_ms\<close> is what \<open>Date.now()\<close> returns; it is read only when no timestamp is given.\<close>

definition create_signed_headers ::
  "(byte list \<Rightarrow> byte list) \<Rightarrow> (byte list \<Rightarrow> byte list \<Rightarrow> byte list) \<Rightarrow> nat \<Rightarrow> signed_input
   \<Rightarrow> (jstr \<times> jstr) list" where
  "create_signed_headers sha mac now_ms i =
     (let timestamp = (case si_timestamp i of Some t \<Rightarrow> t | None \<Rightarrow> nat_str (now_ms div 1000));
          body_hash = sha256_hex sha (si_body_text i);
          canonical = build_canonical_string timestamp (si_method i)
                        (url_pathname (si_url i)) body_hash;
          signature = sign_canonical_string mac (si_signing_secret i) canonical
      in [(js ''content-type'', js ''application/json''),
          (js ''x-ingress-key-id'', si_key_id i),
          (js ''x-ingress-timestamp'', timestamp),
          (js ''x-ingress-signature'', signature)])"

section \<open>The server's check\<close>

definition hex_nibble :: "nat \<Rightarrow> nat option" where
  "hex_nibble c =
     (if 48 \<le> c \<and> c \<le> 57 then Some (c - 48)
      else if 97 \<le> c \<and> c \<le> 102 then Some (c - 87)
      else if 65 \<le> c \<and> c \<le> 70 then Some (c - 55) else None)"

fun hex_decode :: "jstr \<Rightarrow> byte list option" where
  "hex_decode [] = Some []"
| "hex_decode [c] = None"
| "hex_decode (c # d # s) =
     (case (hex_nibble c, hex_nibble d, hex_decode s) of
        (Some x, Some y, Some bs) \<Rightarrow> Some (of_nat (16 * x + y) # bs)
      | _ \<Rightarrow> None)"

text \<open>
  The endpoint receives bytes: the secret, the timestamp header and the path reach it as UTF-8.
\<close>

definition verify_ingress_signature ::
  "(byte list \<Rightarrow> byte list) \<Rightarrow> (byte list \<Rightarrow> byte list \<Rightarrow> byte list)
   \<Rightarrow> jstr \<Rightarrow> jstr \<Rightarrow> jstr \<Rightarrow> jstr \<Rightarrow> byte list \<Rightarrow> jstr \<Rightarrow> bool" where
  "verify_ingress_signature sha mac secret timestamp meth path raw_body signature =
     (case hex_decode signature of
        None \<Rightarrow> False
      | Some provided \<Rightarrow>
          length provided = 32 \<and>
          provided = mac (utf8_encode secret)
            (utf8_encode (timestamp @ [10] @ to_upper meth @ [10] @ path @ [10]
                          @ to_hex (sha raw_body))))"

section \<open>Hexadecimal text\<close>

lemma to_hex_Nil [simp]: "to_hex [] = []"
  by (simp add: to_hex_def)

lemma to_hex_Cons [simp]: "to_hex (b # bs) = hex_byte b @ to_hex bs"
  by (simp add: to_hex_def)

lemma length_hex_byte [simp]: "length (hex_byte b) = 2"
  by (simp add: hex_byte_def)

lemma length_to_hex [simp]: "length (to_hex bs) = 2 * length bs"
  by (induction bs) simp_all

lemma to_hex_hex: "c \<in> set (to_hex bs) \<Longrightarrow> is_hex c"
  by (auto simp: to_hex_def hex_byte_hex)

lemma to_hex_digest: "length bs = 32 \<Longrightarrow> is_digest (to_hex bs)"
  by (simp add: is_digest_def list_all_iff to_hex_hex)

lemma hex_nibble_digit: "d < 16 \<Longrightarrow> hex_nibble (hex_digit d) = Some d"
  by (auto simp: hex_nibble_def hex_digit_def)

lemma hex_decode_to_hex: "hex_decode (to_hex bs) = Some bs"
proof (induction bs)
  case (Cons b bs)
  have "unat b div 16 < 16" "unat b mod 16 < 16" using unat_byte_bound [of b] by auto
  moreover have "(of_nat (16 * (unat b div 16) + unat b mod 16) :: byte) = b"
    by (simp only: mult_div_mod_eq of_nat_unat) simp
  ultimately show ?case using Cons.IH by (simp add: hex_byte_def hex_nibble_digit)
qed simp

lemma to_hex_inject: "to_hex a = to_hex b \<longleftrightarrow> a = b"
  by (metis hex_decode_to_hex option.inject)

section \<open>The canonical string\<close>

lemma canonical_inject:
  assumes "10 \<notin> set ts" "10 \<notin> set ts'" "10 \<notin> set (to_upper m)" "10 \<notin> set (to_upper m')"
    and "10 \<notin> set p" "10 \<notin> set p'"
    and "build_canonical_string ts m p h = build_canonical_string ts' m' p' h'"
  shows "ts = ts' \<and> to_upper m = to_upper m' \<and> p = p' \<and> h = h'"
  using assms by (simp add: build_canonical_string_def append_sep_inject)

lemma nat_str_no_newline: "10 \<notin> set (nat_str n)"
  using nat_str_digits [of 10 n] by (auto simp: is_digit_def)

section \<open>Signing and checking\<close>

definition header :: "jstr \<Rightarrow> (jstr \<times> jstr) list \<Rightarrow> jstr option" where
  "header name hs = map_of hs name"

lemma signed_header_values:
  defines "ts \<equiv> \<lambda>now i. case si_timestamp i of Some t \<Rightarrow> t | None \<Rightarrow> nat_str (now div 1000)"
  shows "header (js ''x-ingress-timestamp'') (create_signed_headers sha mac now i) = Some (ts now i)"
    and "header (js ''x-ingress-key-id'') (create_signed_headers sha mac now i) = Some (si_key_id i)"
    and "header (js ''x-ingress-signature'') (create_signed_headers sha mac now i) =
      Some (sign_canonical_string mac (si_signing_secret i)
        (build_canonical_string (ts now i) (si_method i) (url_pathname (si_url i))
          (sha256_hex sha (si_body_text i))))"
  by (simp_all add: header_def create_signed_headers_def Let_def ts_def)

lemma verify_signed:
  assumes "\<And>k m. length (mac k m) = 32"
  shows "verify_ingress_signature sha mac secret ts m p (utf8_encode body)
           (sign_canonical_string mac secret
             (build_canonical_string ts m p (sha256_hex sha body)))"
  using assms
  by (simp add: verify_ingress_signature_def sign_canonical_string_def hex_decode_to_hex
      build_canonical_string_def sha256_hex_def)

end
