(* ===== verification/JsJson.thy ===== *)
theory JsJson
  imports JsPrelude
begin

text \<open>
  \<open>JSON.stringify\<close> and \<open>JSON.parse\<close>. The edge worker signs and sends the text of a payload and
  reads the error code out of the JSON of a refused request; both ends of that are the functions
  here. A number is kept as its token (its text), an object as the list of its members in order.
  The parser spends one unit of fuel per call; \<open>json_parse\<close> gives it two units per code unit of
  the text, which \<open>json_parse_fuel\<close> shows to be enough: no larger amount changes the result.
\<close>

datatype json =
    JNull
  | JBool bool
  | JNum jstr
  | JStr jstr
  | JArr "json list"
  | JObj "(jstr \<times> json) list"

section \<open>Printing\<close>

definition hex4 :: "nat \<Rightarrow> jstr" where
  "hex4 c = [hex_digit (c div 4096 mod 16), hex_digit (c div 256 mod 16),
             hex_digit (c div 16 mod 16), hex_digit (c mod 16)]"

definition surrogate_unit :: "nat \<Rightarrow> bool" where
  "surrogate_unit c \<longleftrightarrow> 55296 \<le> c \<and> c \<le> 57343"

definition quote_unit :: "nat \<Rightarrow> jstr" where
  "quote_unit c =
     (if c = 34 then [92, 34] else if c = 92 then [92, 92]
      else if c = 8 then [92, 98] else if c = 12 then [92, 102]
      else if c = 10 then [92, 110] else if c = 13 then [92, 114] else if c = 9 then [92, 116]
      else if c < 32 \<or> surrogate_unit c then [92, 117] @ hex4 c
      else [c])"

text \<open>A surrogate pair is printed as it is, a lone surrogate as an escape.\<close>

fun quote_units :: "jstr \<Rightarrow> jstr" where
  "quote_units [] = []"
| "quote_units [c] = quote_unit c"
| "quote_units (c # d # s) =
     (if 55296 \<le> c \<and> c \<le> 56319 \<and> 56320 \<le> d \<and> d \<le> 57343
      then c # d # quote_units s
      else quote_unit c @ quote_units (d # s))"

definition quote_text :: "jstr \<Rightarrow> jstr" where
  "quote_text s = 34 # quote_units s @ [34]"

fun stringify :: "json \<Rightarrow> jstr" where
  "stringify JNull = js ''null''"
| "stringify (JBool b) = (if b then js ''true'' else js ''false'')"
| "stringify (JNum t) = t"
| "stringify (JStr s) = quote_text s"
| "stringify (JArr vs) = 91 # join [44] (map stringify vs) @ [93]"
| "stringify (JObj ms) =
     123 # join [44] (map (\<lambda>(k, v). quote_text k @ 58 # stringify v) ms) @ [125]"

section \<open>Parsing\<close>

definition json_ws :: "nat \<Rightarrow> bool" where
  "json_ws c \<longleftrightarrow> c = 32 \<or> c = 9 \<or> c = 10 \<or> c = 13"

definition skip_ws :: "jstr \<Rightarrow> jstr" where
  "skip_ws s = dropWhile json_ws s"

definition hex_value :: "nat \<Rightarrow> nat option" where
  "hex_value c =
     (if 48 \<le> c \<and> c \<le> 57 then Some (c - 48)
      else if 97 \<le> c \<and> c \<le> 102 then Some (c - 87)
      else if 65 \<le> c \<and> c \<le> 70 then Some (c - 55) else None)"

fun hex4_value :: "jstr \<Rightarrow> (nat \<times> jstr) option" where
  "hex4_value (a # b # c # d # s) =
     (case (hex_value a, hex_value b, hex_value c, hex_value d) of
        (Some i, Some j, Some k, Some l) \<Rightarrow> Some (((i * 16 + j) * 16 + k) * 16 + l, s)
      | _ \<Rightarrow> None)"
| "hex4_value _ = None"

definition simple_escape :: "nat \<Rightarrow> nat option" where
  "simple_escape e =
     (if e = 34 \<or> e = 92 \<or> e = 47 then Some e
      else if e = 98 then Some 8 else if e = 102 then Some 12 else if e = 110 then Some 10
      else if e = 114 then Some 13 else if e = 116 then Some 9 else None)"

text \<open>One escape sequence, after its backslash.\<close>

definition escape_value :: "jstr \<Rightarrow> (nat \<times> jstr) option" where
  "escape_value s =
     (case s of
        [] \<Rightarrow> None
      | e # r \<Rightarrow> if e = 117 then hex4_value r else map_option (\<lambda>c. (c, r)) (simple_escape e))"

lemma hex4_value_length: "hex4_value s = Some (c, r) \<Longrightarrow> length r < length s"
  by (induction s rule: hex4_value.induct) (auto split: option.splits)

lemma escape_value_length: "escape_value s = Some (c, r) \<Longrightarrow> length r < length s"
  by (auto simp: escape_value_def dest: hex4_value_length split: list.splits if_splits)

text \<open>A string body, after the opening quote, up to and with the closing one.\<close>

function parse_string :: "jstr \<Rightarrow> (jstr \<times> jstr) option" where
  "parse_string s =
     (case s of
        [] \<Rightarrow> None
      | c # r \<Rightarrow>
          if c = 34 then Some ([], r)
          else if c = 92 then
            (case escape_value r of
               None \<Rightarrow> None
             | Some (d, r') \<Rightarrow> map_option (\<lambda>(t, q). (d # t, q)) (parse_string r'))
          else if c < 32 then None
          else map_option (\<lambda>(t, q). (c # t, q)) (parse_string r))"
  by pat_completeness auto
termination
  by (relation "measure length") (auto dest: escape_value_length)

declare parse_string.simps [simp del]

definition digits_then :: "jstr \<Rightarrow> (jstr \<times> jstr) option" where
  "digits_then s =
     (if takeWhile is_digit s = [] then None
      else Some (takeWhile is_digit s, dropWhile is_digit s))"

text \<open>The integer part of a number token: no leading zero before another digit.\<close>

definition int_token :: "jstr \<Rightarrow> (jstr \<times> jstr) option" where
  "int_token s =
     (case s of
        [] \<Rightarrow> None
      | c # r \<Rightarrow> if c = 48 then Some ([48], r) else digits_then s)"

definition frac_token :: "jstr \<Rightarrow> (jstr \<times> jstr) option" where
  "frac_token s =
     (case s of
        c # r \<Rightarrow> if c = 46 then map_option (\<lambda>(ds, q). (46 # ds, q)) (digits_then r) else Some ([], s)
      | [] \<Rightarrow> Some ([], []))"

definition exp_token :: "jstr \<Rightarrow> (jstr \<times> jstr) option" where
  "exp_token s =
     (case s of
        c # r \<Rightarrow>
          if c = 101 \<or> c = 69 then
            (case r of
               d # r' \<Rightarrow>
                 if d = 43 \<or> d = 45
                 then map_option (\<lambda>(ds, q). (c # d # ds, q)) (digits_then r')
                 else map_option (\<lambda>(ds, q). (c # ds, q)) (digits_then r)
             | [] \<Rightarrow> None)
          else Some ([], s)
      | [] \<Rightarrow> Some ([], []))"

definition parse_number :: "jstr \<Rightarrow> (jstr \<times> jstr) option" where
  "parse_number s =
     (let (sgn, r0) = (case s of c # r \<Rightarrow> if c = 45 then ([45], r) else ([], s) | [] \<Rightarrow> ([], []))
      in case int_token r0 of
           None \<Rightarrow> None
         | Some (i, r1) \<Rightarrow>
             (case frac_token r1 of
                None \<Rightarrow> None
              | Some (f, r2) \<Rightarrow>
                  map_option (\<lambda>(e, r3). (sgn @ i @ f @ e, r3)) (exp_token r2)))"

fun parse_value :: "nat \<Rightarrow> jstr \<Rightarrow> (json \<times> jstr) option"
and parse_elems :: "nat \<Rightarrow> jstr \<Rightarrow> (json list \<times> jstr) option"
and parse_members :: "nat \<Rightarrow> jstr \<Rightarrow> ((jstr \<times> json) list \<times> jstr) option" where
  "parse_value 0 s = None"
| "parse_value (Suc n) s =
     (case skip_ws s of
        [] \<Rightarrow> None
      | c # r \<Rightarrow>
          if c = 34 then map_option (\<lambda>(t, q). (JStr t, q)) (parse_string r)
          else if c = 123 then
            (case skip_ws r of
               [] \<Rightarrow> None
             | d # r' \<Rightarrow> if d = 125 then Some (JObj [], r')
                        else map_option (\<lambda>(ms, q). (JObj ms, q)) (parse_members n r))
          else if c = 91 then
            (case skip_ws r of
               [] \<Rightarrow> None
             | d # r' \<Rightarrow> if d = 93 then Some (JArr [], r')
                        else map_option (\<lambda>(vs, q). (JArr vs, q)) (parse_elems n r))
          else if prefix (js ''null'') (c # r) then Some (JNull, drop 4 (c # r))
          else if prefix (js ''true'') (c # r) then Some (JBool True, drop 4 (c # r))
          else if prefix (js ''false'') (c # r) then Some (JBool False, drop 5 (c # r))
          else map_option (\<lambda>(t, q). (JNum t, q)) (parse_number (c # r)))"
| "parse_elems 0 s = None"
| "parse_elems (Suc n) s =
     (case parse_value n s of
        None \<Rightarrow> None
      | Some (v, r) \<Rightarrow>
          (case skip_ws r of
             [] \<Rightarrow> None
           | c # r' \<Rightarrow> if c = 93 then Some ([v], r')
                      else if c = 44 then map_option (\<lambda>(vs, q). (v # vs, q)) (parse_elems n r')
                      else None))"
| "parse_members 0 s = None"
| "parse_members (Suc n) s =
     (case skip_ws s of
        [] \<Rightarrow> None
      | c # r \<Rightarrow>
          if c \<noteq> 34 then None
          else (case parse_string r of
             None \<Rightarrow> None
           | Some (k, r1) \<Rightarrow>
               (case skip_ws r1 of
                  [] \<Rightarrow> None
                | d # r2 \<Rightarrow>
                    if d \<noteq> 58 then None
                    else (case parse_value n r2 of
                       None \<Rightarrow> None
                     | Some (v, r3) \<Rightarrow>
                         (case skip_ws r3 of
                            [] \<Rightarrow> None
                          | e # r4 \<Rightarrow>
                              if e = 125 then Some ([(k, v)], r4)
                              else if e = 44
                              then map_option (\<lambda>(ms, q). ((k, v) # ms, q)) (parse_members n r4)
                              else None)))))"

definition json_parse :: "jstr \<Rightarrow> json option" where
  "json_parse s =
     (case parse_value (Suc (2 * length s)) s of
        None \<Rightarrow> None
      | Some (v, r) \<Rightarrow> if skip_ws r = [] then Some v else None)"

text \<open>Property access on a parsed value: the last member of that name, nothing on a non-object.\<close>

definition member_of :: "jstr \<Rightarrow> json \<Rightarrow> json option" where
  "member_of k v = (case v of JObj ms \<Rightarrow> map_of (rev ms) k | _ \<Rightarrow> None)"

section \<open>Every parser consumes its text\<close>

lemma skip_ws_length: "length (skip_ws s) \<le> length s"
  by (simp add: skip_ws_def length_dropWhile_le)

lemma skip_ws_Cons: "skip_ws s = c # r \<Longrightarrow> length r < length s"
  using skip_ws_length [of s] by simp

lemma parse_string_Nil [simp]: "parse_string [] = None"
  by (simp add: parse_string.simps [of "[]"])

lemma parse_string_Cons:
  "parse_string (c # q) =
     (if c = 34 then Some ([], q)
      else if c = 92 then
        (case escape_value q of
           None \<Rightarrow> None
         | Some (d, r') \<Rightarrow> map_option (\<lambda>(t, q). (d # t, q)) (parse_string r'))
      else if c < 32 then None
      else map_option (\<lambda>(t, q). (c # t, q)) (parse_string q))"
  by (simp add: parse_string.simps [of "c # q"])

lemma parse_string_length: "parse_string s = Some (t, r) \<Longrightarrow> length r < length s"
proof (induction s arbitrary: t r rule: parse_string.induct)
  case (1 s)
  show ?case
  proof (cases s)
    case Nil
    then show ?thesis using "1.prems" by simp
  next
    case (Cons c q)
    show ?thesis
      using "1.prems" "1.IH"(1) [OF Cons] "1.IH"(2) [OF Cons] escape_value_length [of q]
      unfolding Cons parse_string_Cons
      by (auto split: if_splits option.splits) (meson less_trans less_SucI)+
  qed
qed

lemma digits_then_length: "digits_then s = Some (t, r) \<Longrightarrow> length r < length s"
proof -
  assume "digits_then s = Some (t, r)"
  then have "takeWhile is_digit s \<noteq> []" "r = dropWhile is_digit s"
    by (auto simp: digits_then_def split: if_splits)
  then have "length s = length (takeWhile is_digit s) + length r" "takeWhile is_digit s \<noteq> []"
    by (metis length_append takeWhile_dropWhile_id, simp)
  then show ?thesis by (cases "takeWhile is_digit s") simp_all
qed

lemma int_token_length: "int_token s = Some (t, r) \<Longrightarrow> length r < length s"
  by (auto simp: int_token_def dest: digits_then_length split: list.splits if_splits)

lemma frac_token_length: "frac_token s = Some (t, r) \<Longrightarrow> length r \<le> length s"
  by (auto simp: frac_token_def dest!: digits_then_length split: list.splits if_splits)

lemma exp_token_length: "exp_token s = Some (t, r) \<Longrightarrow> length r \<le> length s"
  by (auto simp: exp_token_def dest!: digits_then_length split: list.splits if_splits)

lemma parse_number_length: "parse_number s = Some (t, r) \<Longrightarrow> length r < length s"
  by (auto simp: parse_number_def dest!: int_token_length frac_token_length exp_token_length
      split: list.splits if_splits option.splits prod.splits)

lemma parse_lengths_all:
  "(\<forall>s v r. parse_value n s = Some (v, r) \<longrightarrow> length r < length s)
   \<and> (\<forall>s vs r. parse_elems n s = Some (vs, r) \<longrightarrow> length r < length s)
   \<and> (\<forall>s ms r. parse_members n s = Some (ms, r) \<longrightarrow> length r < length s)"
proof (induction n)
  case 0
  show ?case by simp
next
  case (Suc n)
  then have v: "\<And>s v r. parse_value n s = Some (v, r) \<Longrightarrow> length r < length s"
    and e: "\<And>s vs r. parse_elems n s = Some (vs, r) \<Longrightarrow> length r < length s"
    and m: "\<And>s ms r. parse_members n s = Some (ms, r) \<Longrightarrow> length r < length s"
    by blast+
  show ?case
  proof (intro conjI allI impI)
    fix s x r
    assume "parse_value (Suc n) s = Some (x, r)"
    then show "length r < length s"
      by (auto split: if_splits list.splits
          dest!: parse_string_length parse_number_length skip_ws_Cons e m)
  next
    fix s vs r
    assume "parse_elems (Suc n) s = Some (vs, r)"
    then show "length r < length s"
      by (auto split: if_splits option.splits list.splits dest!: skip_ws_Cons e v)
  next
    fix s ms r
    assume "parse_members (Suc n) s = Some (ms, r)"
    then show "length r < length s"
      by (auto split: if_splits option.splits list.splits
          dest!: skip_ws_Cons parse_string_length m v)
  qed
qed

lemmas parse_value_length = parse_lengths_all [THEN conjunct1, rule_format]
lemmas parse_elems_length = parse_lengths_all [THEN conjunct2, THEN conjunct1, rule_format]
lemmas parse_members_length = parse_lengths_all [THEN conjunct2, THEN conjunct2, rule_format]

section \<open>Enough fuel\<close>

lemma parse_fuel_all:
  "(\<forall>s. 2 * length s < n \<longrightarrow> parse_value (Suc n) s = parse_value n s)
   \<and> (\<forall>s. 2 * length s + 1 < n \<longrightarrow> parse_elems (Suc n) s = parse_elems n s)
   \<and> (\<forall>s. 2 * length s + 1 < n \<longrightarrow> parse_members (Suc n) s = parse_members n s)"
proof (induction n)
  case 0
  show ?case by simp
next
  case (Suc n)
  then have v: "\<And>s. 2 * length s < n \<Longrightarrow> parse_value (Suc n) s = parse_value n s"
    and e: "\<And>s. 2 * length s + 1 < n \<Longrightarrow> parse_elems (Suc n) s = parse_elems n s"
    and m: "\<And>s. 2 * length s + 1 < n \<Longrightarrow> parse_members (Suc n) s = parse_members n s"
    by blast+
  show ?case
  proof (intro conjI allI impI)
    fix s :: jstr
    assume len: "2 * length s < Suc n"
    have "parse_elems (Suc n) r = parse_elems n r \<and> parse_members (Suc n) r = parse_members n r"
      if "skip_ws s = c # r" for c r
      using len skip_ws_Cons [OF that] by (intro conjI e m) linarith+
    then show "parse_value (Suc (Suc n)) s = parse_value (Suc n) s"
      by (simp only: parse_value.simps) (auto split: list.split)
  next
    fix s :: jstr
    assume len: "2 * length s + 1 < Suc n"
    have 1: "parse_value (Suc n) s = parse_value n s" using len by (intro v) simp
    have "parse_elems (Suc n) r' = parse_elems n r'"
      if "parse_value n s = Some (x, r)" "skip_ws r = c # r'" for x r c r'
      using len skip_ws_Cons [OF that(2)] parse_value_length [OF that(1)] by (intro e) linarith
    with 1 show "parse_elems (Suc (Suc n)) s = parse_elems (Suc n) s"
      by (simp only: parse_elems.simps) (auto split: option.split list.split)
  next
    fix s :: jstr
    assume len: "2 * length s + 1 < Suc n"
    have 1: "parse_value (Suc n) r2 = parse_value n r2"
      if "skip_ws s = c # r" "parse_string r = Some (k, r1)" "skip_ws r1 = d # r2" for c r k r1 d r2
      using len skip_ws_Cons [OF that(1)] parse_string_length [OF that(2)] skip_ws_Cons [OF that(3)]
      by (intro v) linarith
    have 2: "parse_members (Suc n) r4 = parse_members n r4"
      if "skip_ws s = c # r" "parse_string r = Some (k, r1)" "skip_ws r1 = d # r2"
        "parse_value n r2 = Some (x, r3)" "skip_ws r3 = f # r4" for c r k r1 d r2 x r3 f r4
      using len skip_ws_Cons [OF that(1)] parse_string_length [OF that(2)] skip_ws_Cons [OF that(3)]
        parse_value_length [OF that(4)] skip_ws_Cons [OF that(5)]
      by (intro m) linarith
    from 1 2 show "parse_members (Suc (Suc n)) s = parse_members (Suc n) s"
      by (simp only: parse_members.simps) (auto split: option.split list.split)
  qed
qed

lemma parse_value_fuel: "2 * length s < n \<Longrightarrow> parse_value (n + k) s = parse_value n s"
proof (induction k)
  case (Suc k)
  then have "parse_value (Suc (n + k)) s = parse_value (n + k) s"
    using parse_fuel_all [of "n + k"] by (metis trans_less_add1)
  with Suc show ?case by simp
qed simp

text \<open>The fuel of \<open>json_parse\<close> is enough: with more of it the same value is found.\<close>

lemma json_parse_fuel:
  assumes "2 * length s < n"
  shows "json_parse s =
    (case parse_value n s of None \<Rightarrow> None | Some (v, r) \<Rightarrow> if skip_ws r = [] then Some v else None)"
  using parse_value_fuel [of s "Suc (2 * length s)" "n - Suc (2 * length s)"] assms
  by (simp add: json_parse_def)

end
