(* ===== verification/JsObject.thy ===== *)
theory JsObject
  imports JsPrelude
begin

text \<open>
  Plain JavaScript objects used as string-keyed records: an association list in the order the
  keys were first written, the assignment \<open>o[k] = v\<close> that updates a key in place, and the order
  in which \<open>JSON.stringify\<close> and \<open>Object.entries\<close> visit the keys (array indices first, ascending,
  then the other keys in insertion order).
\<close>

type_synonym 'v obj = "(jstr \<times> 'v) list"

fun put_key :: "jstr \<Rightarrow> 'v \<Rightarrow> 'v obj \<Rightarrow> 'v obj" where
  "put_key k v [] = [(k, v)]"
| "put_key k v ((l, w) # o1) = (if l = k then (k, v) # o1 else (l, w) # put_key k v o1)"

definition get_key :: "jstr \<Rightarrow> 'v obj \<Rightarrow> 'v option" where
  "get_key k o1 = map_of o1 k"

text \<open>
  Assigning a string to \<open>__proto__\<close> runs the setter of \<open>Object.prototype\<close>, which ignores a value
  that is not an object: no key is created.
\<close>

definition assign_text :: "jstr \<Rightarrow> jstr \<Rightarrow> jstr obj \<Rightarrow> jstr obj" where
  "assign_text k v o1 = (if k = js ''__proto__'' then o1 else put_key k v o1)"

definition is_index_key :: "jstr \<Rightarrow> bool" where
  "is_index_key k \<longleftrightarrow> k \<noteq> [] \<and> list_all is_digit k \<and> (k = [48] \<or> hd k \<noteq> 48)
     \<and> digits_value k < 4294967295"

definition own_entries :: "'v obj \<Rightarrow> 'v obj" where
  "own_entries o1 = sort_key (\<lambda>e. digits_value (fst e)) (filter (\<lambda>e. is_index_key (fst e)) o1)
     @ filter (\<lambda>e. \<not> is_index_key (fst e)) o1"

section \<open>Laws\<close>

lemma get_put [simp]: "get_key k (put_key l v o1) = (if k = l then Some v else get_key k o1)"
  by (induction k v o1 rule: put_key.induct) (auto simp: get_key_def)

lemma keys_put: "fst ` set (put_key k v o1) = insert k (fst ` set o1)"
  by (induction k v o1 rule: put_key.induct) auto

lemma put_key_all:
  "P k \<Longrightarrow> \<forall>e \<in> set o1. P (fst e) \<Longrightarrow> \<forall>e \<in> set (put_key k v o1). P (fst e)"
  by (induction k v o1 rule: put_key.induct) auto

lemma distinct_put: "distinct (map fst o1) \<Longrightarrow> distinct (map fst (put_key k v o1))"
proof (induction k v o1 rule: put_key.induct)
  case (2 k v l w o1)
  have "l \<notin> fst ` set (put_key k v o1) \<longleftrightarrow> l \<noteq> k \<and> l \<notin> fst ` set o1"
    by (auto simp: keys_put)
  then show ?case using 2 by (auto simp: image_iff)
qed simp

lemma set_own_entries [simp]: "set (own_entries o1) = set o1"
  by (auto simp: own_entries_def)

lemma distinct_own_entries:
  assumes "distinct (map fst o1)"
  shows "distinct (map fst (own_entries o1))"
proof -
  have d: "distinct o1" "inj_on fst (set o1)" using assms by (auto simp: distinct_map)
  have "distinct (own_entries o1)" using d by (auto simp: own_entries_def)
  moreover have "inj_on fst (set (own_entries o1))" using d by simp
  ultimately show ?thesis by (simp add: distinct_map)
qed

lemma get_own_entries:
  assumes "distinct (map fst o1)"
  shows "get_key k (own_entries o1) = get_key k o1"
proof -
  have "\<And>v. map_of (own_entries o1) k = Some v \<longleftrightarrow> map_of o1 k = Some v"
    by (simp add: map_of_eq_Some_iff assms distinct_own_entries)
  then show ?thesis unfolding get_key_def by (metis option.exhaust)
qed

section \<open>Records as maps\<close>

text \<open>What the components rely on when they use an object as a map from texts to values.\<close>

locale text_map =
  fixes empty_map :: "'m"
    and set_at :: "jstr \<Rightarrow> 'v \<Rightarrow> 'm \<Rightarrow> 'm"
    and get_at :: "jstr \<Rightarrow> 'm \<Rightarrow> 'v option"
  assumes get_empty_map: "get_at k empty_map = None"
    and get_set_at: "get_at k (set_at l v m) = (if k = l then Some v else get_at k m)"
begin

lemma get_fold_set:
  "get_at k (fold (\<lambda>(l, v). set_at l v) kvs m) =
     (case map_of (rev kvs) k of Some v \<Rightarrow> Some v | None \<Rightarrow> get_at k m)"
  by (induction kvs arbitrary: m)
    (auto simp: get_set_at map_add_def split: option.splits)

end

interpretation js_object: text_map "[]" put_key get_key
  by unfold_locales (simp_all add: get_key_def [of _ "[]"])

end
