(* ===== verification/EdgeIngress.thy ===== *)
theory EdgeIngress
  imports EdgeSignature JsJson JsObject
begin

text \<open>
  Dispatch of the edge worker (cloudflare/workers/allmail-edge/src/ingress.ts): the signed POST to
  the ingress endpoint, and the bounded reading of the error code of its response. The network is
  the parameter \<open>fetch\<close>; the body of a response is a finite sequence of chunks that ends either
  normally or with a read error. Cancelling a body is taken to succeed.
\<close>

section \<open>Types\<close>

record body_stream =
  body_chunks :: "byte list list"
  body_failure :: "thrown option"

record response =
  resp_ok :: bool
  resp_status :: int
  resp_content_length :: "jstr option"
  resp_request_id :: "jstr option"
  resp_body :: "body_stream option"

record dispatch_result =
  dr_ok :: bool
  dr_status :: int
  dr_request_id :: "jstr option"
  dr_error_code :: "jstr option"

record http_request =
  req_url :: jstr
  req_method :: jstr
  req_headers :: "(jstr \<times> jstr) list"
  req_body :: jstr

section \<open>Reading the error code\<close>

definition max_error_response_bytes :: nat where
  "max_error_response_bytes = 8192"

definition response_too_large :: jstr where
  "response_too_large = js ''INGRESS_ERROR_RESPONSE_TOO_LARGE''"

text \<open>The loop over the reader: \<open>Inr None\<close> when it stops early because the body is too large.\<close>

fun read_loop ::
  "nat \<Rightarrow> decoder \<Rightarrow> nat list \<Rightarrow> byte list list \<Rightarrow> thrown option \<Rightarrow> thrown + nat list option" where
  "read_loop total_bytes d out [] failure =
     (case failure of Some e \<Rightarrow> Inl e | None \<Rightarrow> Inr (Some (out @ dec_flush d)))"
| "read_loop total_bytes d out (c # cs) failure =
     (if total_bytes + length c > max_error_response_bytes then Inr None
      else let (d1, o1) = dec_run d (map unat c)
           in read_loop (total_bytes + length c) d1 (out @ o1) cs failure)"

definition points_text :: "nat list \<Rightarrow> jstr" where
  "points_text ps = concat (map utf16_point (drop_bom ps))"

text \<open>\<open>payload.error?.code\<close>, and null where the expression throws or is not a non-blank string.\<close>

definition error_code_of :: "json \<Rightarrow> jstr option" where
  "error_code_of payload =
     (case member_of (js ''error'') payload of
        None \<Rightarrow> None
      | Some err \<Rightarrow>
          (case member_of (js ''code'') err of
             Some (JStr code) \<Rightarrow> if trim code = [] then None else Some (take 128 (trim code))
           | _ \<Rightarrow> None))"

definition body_error_code :: "jstr \<Rightarrow> jstr option" where
  "body_error_code body =
     (case json_parse body of None \<Rightarrow> None | Some payload \<Rightarrow> error_code_of payload)"

definition declared_length :: "jstr option \<Rightarrow> jsnum" where
  "declared_length content_length =
     (case content_length of None \<Rightarrow> Fin 0 | Some t \<Rightarrow> number_of_text t)"

definition read_bounded_error_code :: "response \<Rightarrow> thrown + jstr option" where
  "read_bounded_error_code r =
     (case resp_body r of
        None \<Rightarrow> Inr None
      | Some b \<Rightarrow>
          let declared = declared_length (resp_content_length r)
          in if is_finite declared \<and> num_gt declared (int max_error_response_bytes)
             then Inr (Some response_too_large)
             else and_then (read_loop 0 dec_init [] (body_chunks b) (body_failure b)) (\<lambda>res.
                    case res of
                      None \<Rightarrow> Inr (Some response_too_large)
                    | Some out \<Rightarrow> Inr (body_error_code (points_text out))))"

section \<open>Dispatch\<close>

definition ingress_request ::
  "(byte list \<Rightarrow> byte list) \<Rightarrow> (byte list \<Rightarrow> byte list \<Rightarrow> byte list) \<Rightarrow> nat \<Rightarrow> json \<Rightarrow> resolved_env
   \<Rightarrow> http_request" where
  "ingress_request sha mac now_ms payload env =
     (let body_text = stringify payload;
          signed = create_signed_headers sha mac now_ms
            \<lparr>si_body_text = body_text, si_method = js ''POST'', si_url = ingress_url env,
             si_key_id = ingress_key_id env, si_signing_secret = ingress_signing_secret env,
             si_timestamp = None\<rparr>
      in \<lparr>req_url = url_href (ingress_url env), req_method = js ''POST'',
          req_headers = signed, req_body = body_text\<rparr>)"

definition dispatch_ingress ::
  "(byte list \<Rightarrow> byte list) \<Rightarrow> (byte list \<Rightarrow> byte list \<Rightarrow> byte list) \<Rightarrow> nat
   \<Rightarrow> (http_request \<Rightarrow> thrown + response) \<Rightarrow> json \<Rightarrow> resolved_env \<Rightarrow> thrown + dispatch_result" where
  "dispatch_ingress sha mac now_ms fetch payload env =
     and_then (fetch (ingress_request sha mac now_ms payload env)) (\<lambda>resp.
     and_then (if resp_ok resp then Inr None else read_bounded_error_code resp) (\<lambda>error_code.
       Inr \<lparr>dr_ok = resp_ok resp, dr_status = resp_status resp,
            dr_request_id = resp_request_id resp, dr_error_code = error_code\<rparr>))"

section \<open>The reader\<close>

lemma read_loop_small:
  assumes "n + length (concat cs) \<le> max_error_response_bytes"
  shows "read_loop n d out cs failure =
    (case failure of Some e \<Rightarrow> Inl e
     | None \<Rightarrow> let (d1, o1) = dec_run d (map unat (concat cs)) in Inr (Some (out @ o1 @ dec_flush d1)))"
  using assms
  by (induction cs arbitrary: n d out)
    (auto simp: dec_run_append split: option.splits prod.splits)

lemma read_loop_large:
  assumes "n \<le> max_error_response_bytes"
    and "n + length (concat cs) > max_error_response_bytes"
  shows "read_loop n d out cs failure = Inr None"
  using assms
  by (induction cs arbitrary: n d out) (auto split: prod.splits)

lemma points_text_decode:
  "dec_run dec_init (map unat bs) = (d, ps) \<Longrightarrow> points_text (ps @ dec_flush d) = utf8_decode bs"
  by (simp add: points_text_def utf8_decode_def)

lemma read_bounded_small:
  assumes "resp_body r = Some b" "body_failure b = None"
    and "length (concat (body_chunks b)) \<le> max_error_response_bytes"
    and "\<not> (is_finite (declared_length (resp_content_length r))
             \<and> num_gt (declared_length (resp_content_length r)) (int max_error_response_bytes))"
  shows "read_bounded_error_code r = Inr (body_error_code (utf8_decode (concat (body_chunks b))))"
  using assms
  by (auto simp: read_bounded_error_code_def Let_def read_loop_small points_text_decode
      split: prod.splits)

lemma read_bounded_large:
  assumes "resp_body r = Some b"
    and "length (concat (body_chunks b)) > max_error_response_bytes"
  shows "read_bounded_error_code r = Inr (Some response_too_large)"
  using assms
  by (auto simp: read_bounded_error_code_def Let_def read_loop_large)

lemma read_bounded_declared:
  assumes "resp_body r = Some b" "is_finite (declared_length (resp_content_length r))"
    and "num_gt (declared_length (resp_content_length r)) (int max_error_response_bytes)"
  shows "read_bounded_error_code r = Inr (Some response_too_large)"
  using assms by (simp add: read_bounded_error_code_def)

lemma error_code_bounds:
  assumes "error_code_of j = Some code"
  shows "code \<noteq> []" "length code \<le> 128"
  using assms
  by (auto simp: error_code_of_def split: option.splits json.splits if_splits)

lemma body_error_code_bounds:
  "body_error_code body = Some code \<Longrightarrow> code \<noteq> [] \<and> length code \<le> 128"
  using error_code_bounds by (auto simp: body_error_code_def split: option.splits)

lemma read_bounded_cases:
  assumes "read_bounded_error_code r = Inr (Some code)"
  shows "code = response_too_large \<or> (\<exists>body. body_error_code body = Some code)"
proof -
  obtain b where b: "resp_body r = Some b"
    using assms by (auto simp: read_bounded_error_code_def split: option.splits)
  show ?thesis
    using assms b
    by (cases "read_loop 0 dec_init [] (body_chunks b) (body_failure b)")
      (auto simp: read_bounded_error_code_def Let_def split: option.splits if_splits)
qed

lemma response_too_large_bounds:
  "response_too_large \<noteq> [] \<and> length response_too_large \<le> 128"
  by (simp add: response_too_large_def)

lemma read_bounded_error_code_length:
  "read_bounded_error_code r = Inr (Some code) \<Longrightarrow> code \<noteq> [] \<and> length code \<le> 128"
  by (metis read_bounded_cases body_error_code_bounds response_too_large_bounds)

section \<open>The request\<close>

lemma ingress_request_simps [simp]:
  "req_url (ingress_request sha mac now p env) = url_href (ingress_url env)"
  "req_method (ingress_request sha mac now p env) = js ''POST''"
  "req_body (ingress_request sha mac now p env) = stringify p"
  by (simp_all add: ingress_request_def Let_def)

lemma ingress_request_headers:
  "header (js ''x-ingress-timestamp'') (req_headers (ingress_request sha mac now p env)) =
     Some (nat_str (now div 1000))"
  "header (js ''x-ingress-key-id'') (req_headers (ingress_request sha mac now p env)) =
     Some (ingress_key_id env)"
  "header (js ''x-ingress-signature'') (req_headers (ingress_request sha mac now p env)) =
     Some (sign_canonical_string mac (ingress_signing_secret env)
       (build_canonical_string (nat_str (now div 1000)) (js ''POST'')
         (url_pathname (ingress_url env)) (sha256_hex sha (stringify p))))"
  by (simp_all add: ingress_request_def Let_def signed_header_values)

lemma dispatch_Inr:
  "dispatch_ingress sha mac now fetch p env = Inr res \<longleftrightarrow>
     (\<exists>resp code. fetch (ingress_request sha mac now p env) = Inr resp
        \<and> (if resp_ok resp then code = None else read_bounded_error_code resp = Inr code)
        \<and> res = \<lparr>dr_ok = resp_ok resp, dr_status = resp_status resp,
                 dr_request_id = resp_request_id resp, dr_error_code = code\<rparr>)"
  by (auto simp: dispatch_ingress_def and_then_Inr split: if_splits)

end
