(* ===== verification/EdgeEmail.thy ===== *)
theory EdgeEmail
  imports EdgeIngress
begin

text \<open>
  From an inbound message to the ingress payload (cloudflare/workers/allmail-edge/src/email.ts and
  the payload types of types.ts). The world a handler acts on holds the raw-message bucket, the
  console, the requests sent and the rejection reasons given to the mail platform; a function that
  acts on it returns its result or the thrown value together with the new world. The MIME parser,
  the bucket's \<open>put\<close> and \<open>delete\<close>, the hash functions, the URL parser, the network and the clock
  are the fields of \<open>edge_io\<close>.
\<close>

section \<open>Types\<close>

record email_message =
  em_from :: jstr
  em_to :: jstr
  em_headers :: "(jstr \<times> jstr) list"
  em_raw :: "thrown + byte list"
  em_raw_size :: jsnum

datatype attachment_content = ContentView nat | ContentBuffer nat | ContentOther

record mime_attachment =
  ma_filename :: "jstr option"
  ma_content_type :: "jstr option"
  ma_mime_type :: "jstr option"
  ma_content :: attachment_content

text \<open>A field is \<open>None\<close> where the parsed value is not a string (not an array).\<close>

record parsed_email =
  pe_message_id :: "jstr option"
  pe_subject :: "jstr option"
  pe_text :: "jstr option"
  pe_html :: "jstr option"
  pe_attachments :: "mime_attachment list option"

record ingress_attachment =
  ia_filename :: "jstr option"
  ia_content_type :: "jstr option"
  ia_size :: "nat option"
  ia_object_key :: "jstr option"

datatype storage_status = PENDING | STORED | FAILED

record message_summary =
  ms_message_id :: "jstr option"
  ms_subject :: "jstr option"
  ms_text_preview :: "jstr option"
  ms_html_preview :: "jstr option"
  ms_headers :: "jstr obj"
  ms_attachments :: "ingress_attachment list"
  ms_raw_object_key :: "jstr option"
  ms_storage_status :: storage_status

record ingress_payload =
  ip_provider :: jstr
  ip_delivery_key :: jstr
  ip_received_at :: jstr
  ip_envelope_from :: jstr
  ip_envelope_to :: jstr
  ip_routing :: parsed_routing
  ip_message :: message_summary

record stored_object =
  so_bytes :: "byte list"
  so_content_type :: jstr
  so_delivery_key :: jstr
  so_received_at :: jstr

type_synonym bucket = "jstr \<Rightarrow> stored_object option"

datatype log_entry =
    StoreFailed (le_key: jstr) (le_code: jstr)
  | IngressRejected int "jstr option" "jstr option" jstr
  | CompensationFailed jstr jstr
  | ProcessingFailed jstr

record world =
  w_bucket :: bucket
  w_log :: "log_entry list"
  w_requests :: "http_request list"
  w_rejects :: "jstr list"

record edge_io =
  io_parse_url :: "jstr \<Rightarrow> thrown + url"
  io_sha :: "byte list \<Rightarrow> byte list"
  io_mac :: "byte list \<Rightarrow> byte list \<Rightarrow> byte list"
  io_parse_mime :: "byte list \<Rightarrow> thrown + parsed_email"
  io_put :: "jstr \<Rightarrow> stored_object \<Rightarrow> bucket \<Rightarrow> thrown option \<times> bucket"
  io_delete :: "jstr \<Rightarrow> bucket \<Rightarrow> thrown option \<times> bucket"
  io_fetch :: "http_request \<Rightarrow> thrown + response"
  io_now_ms :: nat
  io_now_iso :: jstr

definition thrown_code :: "thrown \<Rightarrow> jstr" where
  "thrown_code e = (case e of ErrorObj n m \<Rightarrow> n | OtherThrown t \<Rightarrow> js ''UNKNOWN_ERROR'')"

definition add_log :: "log_entry \<Rightarrow> world \<Rightarrow> world" where
  "add_log l w = w\<lparr>w_log := w_log w @ [l]\<rparr>"

section \<open>Summary of a message\<close>

fun first_non_empty :: "jstr option list \<Rightarrow> jstr option" where
  "first_non_empty [] = None"
| "first_non_empty (v # vs) =
     (case v of
        Some t \<Rightarrow> if trim t = [] then first_non_empty vs else Some (trim t)
      | None \<Rightarrow> first_non_empty vs)"

definition normalize_preview :: "jstr option \<Rightarrow> nat \<Rightarrow> jstr option" where
  "normalize_preview value max_length =
     (case value of
        None \<Rightarrow> None
      | Some v \<Rightarrow> if trim v = [] then None
                  else if length (trim v) > max_length then Some (take max_length (trim v))
                  else Some (trim v))"

definition headers_to_record :: "(jstr \<times> jstr) list \<Rightarrow> jstr obj" where
  "headers_to_record hs = fold (\<lambda>(name, value). assign_text (to_lower name) value) hs []"

fun resolve_attachment_size :: "attachment_content \<Rightarrow> nat option" where
  "resolve_attachment_size (ContentView n) = Some n"
| "resolve_attachment_size (ContentBuffer n) = Some n"
| "resolve_attachment_size ContentOther = None"

definition trimmed_or_null :: "jstr option \<Rightarrow> jstr option" where
  "trimmed_or_null v =
     (case v of None \<Rightarrow> None | Some t \<Rightarrow> if trim t = [] then None else Some (trim t))"

definition map_attachments :: "mime_attachment list option \<Rightarrow> ingress_attachment list" where
  "map_attachments attachments =
     (case attachments of
        None \<Rightarrow> []
      | Some as \<Rightarrow> map (\<lambda>a.
          let content_type_source =
                (case ma_content_type a of Some t \<Rightarrow> Some t | None \<Rightarrow> ma_mime_type a)
          in \<lparr>ia_filename = trimmed_or_null (ma_filename a),
              ia_content_type = trimmed_or_null content_type_source,
              ia_size = resolve_attachment_size (ma_content a),
              ia_object_key = None\<rparr>) as)"

definition build_message_summary ::
  "parsed_email \<Rightarrow> jstr obj \<Rightarrow> jstr option \<Rightarrow> storage_status \<Rightarrow> jstr option \<Rightarrow> message_summary" where
  "build_message_summary parsed headers raw_object_key status message_id =
     \<lparr>ms_message_id = message_id,
      ms_subject = first_non_empty [pe_subject parsed, get_key (js ''subject'') headers],
      ms_text_preview = normalize_preview (pe_text parsed) 12000,
      ms_html_preview = normalize_preview (pe_html parsed) 20000,
      ms_headers = headers,
      ms_attachments = map_attachments (pe_attachments parsed),
      ms_raw_object_key = raw_object_key,
      ms_storage_status = status\<rparr>"

section \<open>Delivery key and raw storage\<close>

definition build_delivery_key ::
  "(byte list \<Rightarrow> byte list) \<Rightarrow> jstr \<Rightarrow> jstr option \<Rightarrow> byte list \<Rightarrow> jstr" where
  "build_delivery_key sha matched message_id raw_email =
     (let address = to_lower (trim matched);
          normalized_id = (case message_id of
             None \<Rightarrow> None
           | Some i \<Rightarrow> if to_lower (trim i) = [] then None else Some (to_lower (trim i)))
      in case normalized_id of
           Some i \<Rightarrow> sha256_hex sha (js ''message-id'' @ [10] @ address @ [10] @ i)
         | None \<Rightarrow> sha256_hex sha
             (js ''raw-email'' @ [10] @ address @ [10] @ sha256_hex_bytes sha raw_email))"

definition store_raw_email ::
  "edge_io \<Rightarrow> resolved_env \<Rightarrow> byte list \<Rightarrow> jstr \<Rightarrow> jstr \<Rightarrow> world \<Rightarrow> (thrown + jstr option) \<times> world" where
  "store_raw_email io env raw_email received_at delivery_key w =
     (if \<not> raw_email_bucket env then (Inr None, w)
      else case build_raw_object_key (raw_email_object_prefix env) delivery_key of
        Inl e \<Rightarrow> (Inl e, w)
      | Inr object_key \<Rightarrow>
          let (failure, b) = io_put io object_key
                \<lparr>so_bytes = raw_email, so_content_type = js ''message/rfc822'',
                 so_delivery_key = delivery_key, so_received_at = received_at\<rparr> (w_bucket w);
              w1 = w\<lparr>w_bucket := b\<rparr>
          in case failure of
               None \<Rightarrow> (Inr (Some object_key), w1)
             | Some e \<Rightarrow>
                 (Inr None, add_log (StoreFailed (take 12 delivery_key) (thrown_code e)) w1))"

definition resolve_raw_storage ::
  "edge_io \<Rightarrow> resolved_env \<Rightarrow> byte list \<Rightarrow> jstr \<Rightarrow> jstr \<Rightarrow> world
   \<Rightarrow> (thrown + jstr option \<times> storage_status) \<times> world" where
  "resolve_raw_storage io env raw_email received_at delivery_key w =
     (if \<not> raw_email_bucket env then (Inr (None, PENDING), w)
      else let (r, w1) = store_raw_email io env raw_email received_at delivery_key w
           in (and_then r (\<lambda>key.
                 Inr (key, case key of
                             Some k \<Rightarrow> if k = [] then FAILED else STORED
                           | None \<Rightarrow> FAILED)), w1))"

definition delete_stored_raw_email ::
  "edge_io \<Rightarrow> ingress_payload \<Rightarrow> resolved_env \<Rightarrow> world \<Rightarrow> (thrown + unit) \<times> world" where
  "delete_stored_raw_email io payload env w =
     (case ms_raw_object_key (ip_message payload) of
        None \<Rightarrow> (Inr (), w)
      | Some object_key \<Rightarrow>
          if object_key = [] \<or> \<not> raw_email_bucket env then (Inr (), w)
          else let (failure, b) = io_delete io object_key (w_bucket w);
                   w1 = w\<lparr>w_bucket := b\<rparr>
               in case failure of None \<Rightarrow> (Inr (), w1) | Some e \<Rightarrow> (Inl e, w1))"

section \<open>The payload\<close>

definition size_text :: "jsnum \<Rightarrow> jstr" where
  "size_text n = nat_str (nat (int_of_num n))"

definition check_raw_size :: "email_message \<Rightarrow> resolved_env \<Rightarrow> thrown + unit" where
  "check_raw_size message env =
     (if \<not> is_safe_integer (em_raw_size message) \<or> num_lt (em_raw_size message) 0
      then Inl (new_error (js ''Inbound email raw size is invalid''))
      else if num_gt (em_raw_size message) (max_raw_email_bytes env)
      then Inl (new_error (js ''Inbound email exceeds MAX_RAW_EMAIL_BYTES ('' @ size_text (em_raw_size message)
             @ js '' > '' @ nat_str (nat (max_raw_email_bytes env)) @ js '')''))
      else Inr ())"

definition message_id_of :: "parsed_email \<Rightarrow> jstr obj \<Rightarrow> jstr option" where
  "message_id_of parsed headers =
     first_non_empty [pe_message_id parsed, get_key (js ''message-id'') headers]"

definition build_ingress_payload ::
  "edge_io \<Rightarrow> email_message \<Rightarrow> resolved_env \<Rightarrow> world \<Rightarrow> (thrown + ingress_payload) \<times> world" where
  "build_ingress_payload io message env w =
     (case and_then (check_raw_size message env) (\<lambda>_.
           and_then (parse_routing_address (em_to message)) (\<lambda>routing.
           and_then (em_raw message) (\<lambda>raw_email.
           and_then (io_parse_mime io raw_email) (\<lambda>parsed. Inr (routing, raw_email, parsed))))) of
        Inl e \<Rightarrow> (Inl e, w)
      | Inr (routing, raw_email, parsed) \<Rightarrow>
          let headers = headers_to_record (em_headers message);
              message_id = message_id_of parsed headers;
              delivery_key = build_delivery_key (io_sha io) (matched_address routing) message_id raw_email;
              (storage, w1) = resolve_raw_storage io env raw_email (io_now_iso io) delivery_key w
          in (and_then storage (\<lambda>(raw_object_key, status).
                Inr \<lparr>ip_provider = ingress_provider env,
                     ip_delivery_key = delivery_key,
                     ip_received_at = io_now_iso io,
                     ip_envelope_from = to_lower (trim (em_from message)),
                     ip_envelope_to = to_lower (trim (em_to message)),
                     ip_routing = routing,
                     ip_message = build_message_summary parsed headers raw_object_key status
                                    message_id\<rparr>), w1))"

section \<open>The payload as JSON\<close>

definition json_text :: "jstr option \<Rightarrow> json" where
  "json_text v = (case v of None \<Rightarrow> JNull | Some t \<Rightarrow> JStr t)"

definition attachment_json :: "ingress_attachment \<Rightarrow> json" where
  "attachment_json a = JObj
     [(js ''filename'', json_text (ia_filename a)),
      (js ''contentType'', json_text (ia_content_type a)),
      (js ''size'', case ia_size a of None \<Rightarrow> JNull | Some n \<Rightarrow> JNum (nat_str n)),
      (js ''objectKey'', json_text (ia_object_key a))]"

definition storage_status_text :: "storage_status \<Rightarrow> jstr" where
  "storage_status_text s =
     (case s of PENDING \<Rightarrow> js ''PENDING'' | STORED \<Rightarrow> js ''STORED'' | FAILED \<Rightarrow> js ''FAILED'')"

definition message_json :: "message_summary \<Rightarrow> json" where
  "message_json m = JObj
     [(js ''messageId'', json_text (ms_message_id m)),
      (js ''subject'', json_text (ms_subject m)),
      (js ''textPreview'', json_text (ms_text_preview m)),
      (js ''htmlPreview'', json_text (ms_html_preview m)),
      (js ''headers'', JObj (map (\<lambda>(k, v). (k, JStr v)) (own_entries (ms_headers m)))),
      (js ''attachments'', JArr (map attachment_json (ms_attachments m))),
      (js ''rawObjectKey'', json_text (ms_raw_object_key m)),
      (js ''storageStatus'', JStr (storage_status_text (ms_storage_status m)))]"

definition payload_json :: "ingress_payload \<Rightarrow> json" where
  "payload_json p = JObj
     [(js ''provider'', JStr (ip_provider p)),
      (js ''deliveryKey'', JStr (ip_delivery_key p)),
      (js ''receivedAt'', JStr (ip_received_at p)),
      (js ''envelope'', JObj [(js ''from'', JStr (ip_envelope_from p)),
                             (js ''to'', JStr (ip_envelope_to p))]),
      (js ''routing'', JObj [(js ''matchedAddress'', JStr (matched_address (ip_routing p))),
                            (js ''localPart'', JStr (local_part (ip_routing p))),
                            (js ''domain'', JStr (domain (ip_routing p)))]),
      (js ''message'', message_json (ip_message p))]"

section \<open>Laws of the summary\<close>

lemma first_non_empty_Some:
  "first_non_empty vs = Some t \<Longrightarrow> t \<noteq> [] \<and> trim t = t \<and> (\<exists>v. Some v \<in> set vs \<and> t = trim v)"
  by (induction vs rule: first_non_empty.induct) (auto split: option.splits if_splits)

lemma first_non_empty_None:
  "first_non_empty vs = None \<longleftrightarrow> (\<forall>v. Some v \<in> set vs \<longrightarrow> trim v = [])"
  by (induction vs rule: first_non_empty.induct) (auto split: option.splits)

lemma normalize_preview_Some:
  assumes "normalize_preview v n = Some t" "0 < n"
  shows "t \<noteq> []" "length t \<le> n" "\<exists>u. v = Some u \<and> prefix t (trim u)"
  using assms by (auto simp: normalize_preview_def take_is_prefix split: option.splits if_splits)

lemma headers_to_record_get:
  assumes "k \<noteq> js ''__proto__''"
  shows "get_key k (headers_to_record hs) =
    map_of (rev (map (\<lambda>(name, value). (to_lower name, value)) hs)) k"
proof -
  have "get_key k (fold (\<lambda>(name, value). assign_text (to_lower name) value) hs o1) =
    (case map_of (rev (map (\<lambda>(name, value). (to_lower name, value)) hs)) k of
       Some v \<Rightarrow> Some v | None \<Rightarrow> get_key k o1)" for o1
    using assms
    by (induction hs arbitrary: o1)
      (auto simp: assign_text_def map_add_def split: option.splits)
  then show ?thesis
    by (simp add: headers_to_record_def get_key_def [of _ "[]"] split: option.splits)
qed

definition lower_keys :: "jstr obj \<Rightarrow> bool" where
  "lower_keys o1 \<longleftrightarrow> distinct (map fst o1) \<and> (\<forall>e \<in> set o1. to_lower (fst e) = fst e)"

lemma lower_keys_assign: "lower_keys o1 \<Longrightarrow> lower_keys (assign_text (to_lower n) v o1)"
  unfolding lower_keys_def assign_text_def
  using put_key_all [of "\<lambda>k. to_lower k = k" "to_lower n" o1 v]
  by (simp add: distinct_put)

lemma lower_keys_fold:
  "lower_keys o1 \<Longrightarrow> lower_keys (fold (\<lambda>(name, value). assign_text (to_lower name) value) hs o1)"
  by (induction hs arbitrary: o1) (auto simp: lower_keys_assign)

lemma headers_to_record_keys: "lower_keys (headers_to_record hs)"
  using lower_keys_fold [of "[]" hs] by (simp add: headers_to_record_def lower_keys_def)

section \<open>Laws of the delivery key\<close>

definition clean_id :: "jstr option \<Rightarrow> jstr option" where
  "clean_id message_id =
     (case message_id of None \<Rightarrow> None
      | Some i \<Rightarrow> if clean_address i = [] then None else Some (clean_address i))"

definition delivery_seed :: "(byte list \<Rightarrow> byte list) \<Rightarrow> jstr \<Rightarrow> jstr option \<Rightarrow> byte list \<Rightarrow> jstr" where
  "delivery_seed sha address message_id raw =
     (case clean_id message_id of
        Some i \<Rightarrow> js ''message-id'' @ [10] @ clean_address address @ [10] @ i
      | None \<Rightarrow> js ''raw-email'' @ [10] @ clean_address address @ [10] @ to_hex (sha raw))"

lemma build_delivery_key_seed:
  "build_delivery_key sha a i raw = to_hex (sha (utf8_encode (delivery_seed sha a i raw)))"
  by (auto simp: build_delivery_key_def delivery_seed_def clean_id_def clean_address_def
      sha256_hex_def sha256_hex_bytes_def Let_def split: option.splits)

lemma build_delivery_key_digest:
  "(\<And>m. length (sha m) = 32) \<Longrightarrow> is_digest (build_delivery_key sha a i raw)"
  by (simp add: build_delivery_key_seed to_hex_digest)

lemma literal_no_newline:
  "10 \<notin> set (js ''message-id'')" "10 \<notin> set (js ''raw-email'')"
  by (simp_all add: js_def)

lemma delivery_seed_inject:
  assumes "10 \<notin> set (clean_address a)" "10 \<notin> set (clean_address a')"
    and "delivery_seed sha a i raw = delivery_seed sha a' i' raw'"
  shows "clean_address a = clean_address a' \<and> clean_id i = clean_id i'
    \<and> (clean_id i = None \<longrightarrow> sha raw = sha raw')"
  using assms
  by (cases "clean_id i"; cases "clean_id i'")
    (auto simp: delivery_seed_def append_sep_inject literal_no_newline to_hex_inject)

section \<open>Laws of raw storage\<close>

text \<open>
  What the worker relies on of the bucket: a \<open>put\<close> that succeeds stores the object under the key
  and leaves the other keys alone, a \<open>delete\<close> that succeeds removes the key only.
\<close>

definition bucket_contract :: "edge_io \<Rightarrow> bool" where
  "bucket_contract io \<longleftrightarrow>
     (\<forall>k ob b b'. io_put io k ob b = (None, b') \<longrightarrow> b' = b(k \<mapsto> ob))
     \<and> (\<forall>k b b'. io_delete io k b = (None, b') \<longrightarrow> b' = b(k := None))"

definition digest_contract :: "edge_io \<Rightarrow> bool" where
  "digest_contract io \<longleftrightarrow> (\<forall>m. length (io_sha io m) = 32) \<and> (\<forall>k m. length (io_mac io k m) = 32)"

lemma object_key_nonempty: "build_raw_object_key p k = Inr ok \<Longrightarrow> ok \<noteq> []"
  by (auto simp: build_raw_object_key_def Let_def split: if_splits)

lemma resolve_raw_storage_cases:
  assumes "is_digest key"
  obtains (none) "\<not> raw_email_bucket env"
      "resolve_raw_storage io env raw rcv key w = (Inr (None, PENDING), w)"
  | (stored) ok b where "raw_email_bucket env"
      "build_raw_object_key (raw_email_object_prefix env) key = Inr ok"
      "io_put io ok \<lparr>so_bytes = raw, so_content_type = js ''message/rfc822'',
                 so_delivery_key = key, so_received_at = rcv\<rparr> (w_bucket w) = (None, b)"
      "resolve_raw_storage io env raw rcv key w = (Inr (Some ok, STORED), w\<lparr>w_bucket := b\<rparr>)"
  | (failed) ok e b where "raw_email_bucket env"
      "build_raw_object_key (raw_email_object_prefix env) key = Inr ok"
      "io_put io ok \<lparr>so_bytes = raw, so_content_type = js ''message/rfc822'',
                 so_delivery_key = key, so_received_at = rcv\<rparr> (w_bucket w) = (Some e, b)"
      "resolve_raw_storage io env raw rcv key w =
         (Inr (None, FAILED),
          add_log (StoreFailed (take 12 key) (thrown_code e)) (w\<lparr>w_bucket := b\<rparr>))"
proof (cases "raw_email_bucket env")
  case False
  then show ?thesis using none by (simp add: resolve_raw_storage_def)
next
  case True
  obtain ok where ok: "build_raw_object_key (raw_email_object_prefix env) key = Inr ok"
    using build_raw_object_key_digest [OF assms] by blast
  obtain f b where p: "io_put io ok \<lparr>so_bytes = raw, so_content_type = js ''message/rfc822'',
                 so_delivery_key = key, so_received_at = rcv\<rparr> (w_bucket w) = (f, b)"
    by fastforce
  show ?thesis
    using True ok p object_key_nonempty [OF ok] stored failed
    by (cases f) (auto simp: resolve_raw_storage_def store_raw_email_def)
qed

section \<open>Laws of the payload\<close>

text \<open>What the worker establishes of every payload by itself.\<close>

definition object_key_of :: "resolved_env \<Rightarrow> ingress_payload \<Rightarrow> jstr" where
  "object_key_of env p = strip_slashes (raw_email_object_prefix env) @ js ''/''
     @ take 2 (ip_delivery_key p) @ js ''/'' @ ip_delivery_key p @ js ''.eml''"

definition worker_payload :: "resolved_env \<Rightarrow> ingress_payload \<Rightarrow> bool" where
  "worker_payload env p \<longleftrightarrow>
     is_digest (ip_delivery_key p)
     \<and> ip_envelope_to p = matched_address (ip_routing p)
     \<and> matched_address (ip_routing p) = local_part (ip_routing p) @ 64 # domain (ip_routing p)
     \<and> local_part (ip_routing p) \<noteq> [] \<and> domain (ip_routing p) \<noteq> [] \<and> 64 \<notin> set (domain (ip_routing p))
     \<and> (\<forall>t. ms_text_preview (ip_message p) = Some t \<longrightarrow> t \<noteq> [] \<and> length t \<le> 12000)
     \<and> (\<forall>t. ms_html_preview (ip_message p) = Some t \<longrightarrow> t \<noteq> [] \<and> length t \<le> 20000)
     \<and> (\<forall>t. ms_message_id (ip_message p) = Some t \<longrightarrow> t \<noteq> [] \<and> trim t = t)
     \<and> (\<forall>t. ms_subject (ip_message p) = Some t \<longrightarrow> t \<noteq> [] \<and> trim t = t)
     \<and> distinct (map fst (ms_headers (ip_message p)))
     \<and> (ms_storage_status (ip_message p) = PENDING \<longleftrightarrow> \<not> raw_email_bucket env)
     \<and> (ms_storage_status (ip_message p) = STORED \<longleftrightarrow>
          ms_raw_object_key (ip_message p) = Some (object_key_of env p))
     \<and> (ms_storage_status (ip_message p) \<noteq> STORED \<longleftrightarrow> ms_raw_object_key (ip_message p) = None)"

text \<open>The pure part: what is read and computed before anything is stored.\<close>

definition payload_inputs ::
  "edge_io \<Rightarrow> email_message \<Rightarrow> resolved_env \<Rightarrow> thrown + parsed_routing \<times> byte list \<times> parsed_email" where
  "payload_inputs io message env =
     and_then (check_raw_size message env) (\<lambda>_.
     and_then (parse_routing_address (em_to message)) (\<lambda>routing.
     and_then (em_raw message) (\<lambda>raw_email.
     and_then (io_parse_mime io raw_email) (\<lambda>parsed. Inr (routing, raw_email, parsed)))))"

definition message_key :: "edge_io \<Rightarrow> email_message \<Rightarrow> parsed_routing \<Rightarrow> byte list \<Rightarrow> parsed_email \<Rightarrow> jstr" where
  "message_key io message routing raw parsed =
     build_delivery_key (io_sha io) (matched_address routing)
       (message_id_of parsed (headers_to_record (em_headers message))) raw"

definition payload_of ::
  "edge_io \<Rightarrow> email_message \<Rightarrow> resolved_env \<Rightarrow> parsed_routing \<Rightarrow> byte list \<Rightarrow> parsed_email
   \<Rightarrow> jstr option \<Rightarrow> storage_status \<Rightarrow> ingress_payload" where
  "payload_of io message env routing raw parsed object_key status =
     \<lparr>ip_provider = ingress_provider env,
      ip_delivery_key = message_key io message routing raw parsed,
      ip_received_at = io_now_iso io,
      ip_envelope_from = to_lower (trim (em_from message)),
      ip_envelope_to = to_lower (trim (em_to message)),
      ip_routing = routing,
      ip_message = build_message_summary parsed (headers_to_record (em_headers message))
        object_key status (message_id_of parsed (headers_to_record (em_headers message)))\<rparr>"

lemma build_ingress_payload_eq:
  "build_ingress_payload io message env w =
     (case payload_inputs io message env of
        Inl e \<Rightarrow> (Inl e, w)
      | Inr (routing, raw, parsed) \<Rightarrow>
          (case resolve_raw_storage io env raw (io_now_iso io)
                  (message_key io message routing raw parsed) w of
             (storage, w1) \<Rightarrow>
               (and_then storage (\<lambda>(k, st).
                  Inr (payload_of io message env routing raw parsed k st)), w1)))"
  by (simp add: build_ingress_payload_def payload_inputs_def payload_of_def message_key_def Let_def
      split: sum.split prod.split)

lemma payload_inputs_routing:
  assumes "payload_inputs io message env = Inr (routing, raw, parsed)"
  shows "parse_routing_address (em_to message) = Inr routing"
    and "em_raw message = Inr raw" and "io_parse_mime io raw = Inr parsed"
    and "check_raw_size message env = Inr ()"
  using assms by (auto simp: payload_inputs_def and_then_Inr)

lemma payload_of_simps [simp]:
  "ip_delivery_key (payload_of io message env routing raw parsed k st) =
     message_key io message routing raw parsed"
  "ip_received_at (payload_of io message env routing raw parsed k st) = io_now_iso io"
  "ip_routing (payload_of io message env routing raw parsed k st) = routing"
  "ip_envelope_to (payload_of io message env routing raw parsed k st) = clean_address (em_to message)"
  "ms_raw_object_key (ip_message (payload_of io message env routing raw parsed k st)) = k"
  "ms_storage_status (ip_message (payload_of io message env routing raw parsed k st)) = st"
  "ms_headers (ip_message (payload_of io message env routing raw parsed k st)) =
     headers_to_record (em_headers message)"
  by (simp_all add: payload_of_def build_message_summary_def clean_address_def)

lemma payload_of_texts:
  "ms_text_preview (ip_message (payload_of io message env routing raw parsed k st)) = Some t
     \<Longrightarrow> t \<noteq> [] \<and> length t \<le> 12000"
  "ms_html_preview (ip_message (payload_of io message env routing raw parsed k st)) = Some t
     \<Longrightarrow> t \<noteq> [] \<and> length t \<le> 20000"
  "ms_message_id (ip_message (payload_of io message env routing raw parsed k st)) = Some t
     \<Longrightarrow> t \<noteq> [] \<and> trim t = t"
  "ms_subject (ip_message (payload_of io message env routing raw parsed k st)) = Some t
     \<Longrightarrow> t \<noteq> [] \<and> trim t = t"
  by (auto simp: payload_of_def build_message_summary_def message_id_of_def
      simp del: first_non_empty.simps dest: first_non_empty_Some normalize_preview_Some(1,2))

lemma payload_of_valid:
  assumes "digest_contract io"
    and "parse_routing_address (em_to message) = Inr routing"
    and "st = PENDING \<longleftrightarrow> \<not> raw_email_bucket env"
    and "st = STORED \<longleftrightarrow> k = Some (object_key_of env
           (payload_of io message env routing raw parsed k st))"
    and "st \<noteq> STORED \<longleftrightarrow> k = None"
  shows "worker_payload env (payload_of io message env routing raw parsed k st)"
proof -
  have "is_digest (message_key io message routing raw parsed)"
    using assms(1) by (simp add: message_key_def digest_contract_def build_delivery_key_digest)
  moreover have "distinct (map fst (headers_to_record (em_headers message)))"
    using headers_to_record_keys by (simp add: lower_keys_def)
  ultimately show ?thesis
    using assms(3-5) parse_routing_Inr [OF assms(2)]
    unfolding worker_payload_def payload_of_simps
    by (intro conjI allI impI) (assumption | simp | erule payload_of_texts [THEN conjunct1]
        | erule payload_of_texts [THEN conjunct2])+
qed

text \<open>A payload is built exactly from readable inputs, and storage never makes it fail.\<close>

lemma build_ingress_payload_cases:
  assumes "digest_contract io"
  obtains (failed) e where "payload_inputs io message env = Inl e"
      "build_ingress_payload io message env w = (Inl e, w)"
  | (built) routing raw parsed k st w1 where
      "payload_inputs io message env = Inr (routing, raw, parsed)"
      "resolve_raw_storage io env raw (io_now_iso io)
         (message_key io message routing raw parsed) w = (Inr (k, st), w1)"
      "build_ingress_payload io message env w =
         (Inr (payload_of io message env routing raw parsed k st), w1)"
      "worker_payload env (payload_of io message env routing raw parsed k st)"
proof (cases "payload_inputs io message env")
  case (Inl e)
  then show ?thesis using failed by (simp add: build_ingress_payload_eq)
next
  case (Inr t)
  obtain routing raw parsed where t: "t = (routing, raw, parsed)" by (cases t)
  let ?key = "message_key io message routing raw parsed"
  have dig: "is_digest ?key"
    using assms by (simp add: message_key_def digest_contract_def build_delivery_key_digest)
  note r = payload_inputs_routing(1) [OF Inr [unfolded t]]
  show ?thesis
  proof (rule resolve_raw_storage_cases [OF dig, where io = io and env = env and raw = raw
        and rcv = "io_now_iso io" and w = w])
    assume a: "\<not> raw_email_bucket env"
      "resolve_raw_storage io env raw (io_now_iso io) ?key w = (Inr (None, PENDING), w)"
    have "worker_payload env (payload_of io message env routing raw parsed None PENDING)"
      by (rule payload_of_valid [OF assms r]) (simp_all add: a)
    then show ?thesis
      using built a Inr t by (simp add: build_ingress_payload_eq)
  next
    fix ok b
    assume a: "raw_email_bucket env"
      "build_raw_object_key (raw_email_object_prefix env) ?key = Inr ok"
      "resolve_raw_storage io env raw (io_now_iso io) ?key w = (Inr (Some ok, STORED), w\<lparr>w_bucket := b\<rparr>)"
    have "worker_payload env (payload_of io message env routing raw parsed (Some ok) STORED)"
      by (rule payload_of_valid [OF assms r])
        (use a build_raw_object_key_digest [OF dig] in \<open>auto simp: object_key_of_def\<close>)
    then show ?thesis
      using built a Inr t by (simp add: build_ingress_payload_eq)
  next
    fix ok e b
    assume a: "raw_email_bucket env"
      "resolve_raw_storage io env raw (io_now_iso io) ?key w = (Inr (None, FAILED),
          add_log (StoreFailed (take 12 ?key) (thrown_code e)) (w\<lparr>w_bucket := b\<rparr>))"
    have "worker_payload env (payload_of io message env routing raw parsed None FAILED)"
      by (rule payload_of_valid [OF assms r]) (simp_all add: a)
    then show ?thesis
      using built a Inr t by (simp add: build_ingress_payload_eq)
  qed
qed

text \<open>A stored message: what the bucket holds under the key of the payload.\<close>

lemma build_ingress_payload_stored:
  assumes "digest_contract io" "bucket_contract io"
    and "build_ingress_payload io message env w = (Inr p, w1)"
    and "ms_raw_object_key (ip_message p) = Some k"
  shows "\<exists>raw. em_raw message = Inr raw \<and>
    w_bucket w1 = (w_bucket w)(k \<mapsto> \<lparr>so_bytes = raw, so_content_type = js ''message/rfc822'',
      so_delivery_key = ip_delivery_key p, so_received_at = ip_received_at p\<rparr>)"
proof (rule build_ingress_payload_cases [OF assms(1), where message = message and env = env and w = w])
  fix routing raw parsed kk st w2
  let ?key = "message_key io message routing raw parsed"
  assume a: "payload_inputs io message env = Inr (routing, raw, parsed)"
    "resolve_raw_storage io env raw (io_now_iso io) ?key w = (Inr (kk, st), w2)"
    "build_ingress_payload io message env w =
       (Inr (payload_of io message env routing raw parsed kk st), w2)"
  have p: "p = payload_of io message env routing raw parsed kk st" "w1 = w2" "kk = Some k"
    using a assms(3,4) by auto
  have dig: "is_digest ?key"
    using assms(1) by (simp add: message_key_def digest_contract_def build_delivery_key_digest)
  have "w_bucket w2 = (w_bucket w)(k \<mapsto> \<lparr>so_bytes = raw, so_content_type = js ''message/rfc822'',
      so_delivery_key = ?key, so_received_at = io_now_iso io\<rparr>)"
    by (rule resolve_raw_storage_cases [OF dig, where io = io and env = env and raw = raw
        and rcv = "io_now_iso io" and w = w])
      (use a(2) p(3) assms(2) in \<open>auto simp: bucket_contract_def\<close>)
  then show ?thesis
    using p payload_inputs_routing(2) [OF a(1)] by simp
qed (use assms in simp)

end
