(* ===== verification/EdgeContract.thy ===== *)
theory EdgeContract
  imports EdgeEmail
begin

text \<open>
  The check of the ingress server on a decoded payload (normalizeAndValidateIngress of
  core/internal/businessapi/ingress_handler.go with validateTextLength of request_decode.go), and what
  of it the worker's payloads satisfy by themselves: all of it but the limits that email.ts does not know.
  Case conversion, the parser of timestamps and the parser of addresses are Go's library, the fields of
  \<open>go_library\<close>. Lengths are counted in code points, the values of headers in bytes.
\<close>

section \<open>The check of the server\<close>

record go_library =
  go_lower :: "jstr \<Rightarrow> jstr"
  go_is_time :: "jstr \<Rightarrow> bool"
  go_is_address :: "jstr \<Rightarrow> bool"

text \<open>\<open>strings.TrimSpace\<close>: white space of Go, which has U+0085 and lacks U+FEFF.\<close>

definition go_space :: "nat \<Rightarrow> bool" where
  "go_space c \<longleftrightarrow> 9 \<le> c \<and> c \<le> 13 \<or> c = 32 \<or> c = 133 \<or> c = 160 \<or> c = 5760 \<or> 8192 \<le> c \<and> c \<le> 8202
     \<or> c = 8232 \<or> c = 8233 \<or> c = 8239 \<or> c = 8287 \<or> c = 12288"

definition go_trim :: "jstr \<Rightarrow> jstr" where
  "go_trim = strip_both go_space"

definition trim_optional_ingress_string :: "jstr option \<Rightarrow> jstr option" where
  "trim_optional_ingress_string value =
     (case value of None \<Rightarrow> None | Some v \<Rightarrow> if go_trim v = [] then None else Some (go_trim v))"

definition validate_text_length :: "jstr \<Rightarrow> nat \<Rightarrow> nat \<Rightarrow> bool" where
  "validate_text_length value minimum maximum \<longleftrightarrow>
     minimum \<le> length (code_points value) \<and> length (code_points value) \<le> maximum"

definition validate_optional_ingress_length :: "jstr option \<Rightarrow> nat \<Rightarrow> bool" where
  "validate_optional_ingress_length value maximum \<longleftrightarrow>
     (case trim_optional_ingress_string value of None \<Rightarrow> True | Some v \<Rightarrow> validate_text_length v 1 maximum)"

definition header_accepted :: "jstr \<times> jstr \<Rightarrow> bool" where
  "header_accepted h \<longleftrightarrow> validate_text_length (go_trim (fst h)) 1 255 \<and> length (utf8_encode (snd h)) \<le> 8192"

definition attachment_accepted :: "ingress_attachment \<Rightarrow> bool" where
  "attachment_accepted a \<longleftrightarrow>
     validate_optional_ingress_length (ia_filename a) 255 \<and> validate_optional_ingress_length (ia_content_type a) 255 \<and>
     validate_optional_ingress_length (ia_object_key a) 500"

definition ingress_accepts :: "go_library \<Rightarrow> ingress_payload \<Rightarrow> bool" where
  "ingress_accepts G p \<longleftrightarrow>
     (let clean = (\<lambda>t. go_lower G (go_trim t));
          to = clean (ip_envelope_to p);
          name = clean (domain (ip_routing p));
          part = clean (local_part (ip_routing p));
          matched = clean (matched_address (ip_routing p));
          m = ip_message p
      in validate_text_length (go_trim (ip_provider p)) 1 50 \<and> validate_text_length (go_trim (ip_delivery_key p)) 1 128 \<and>
         go_is_time G (go_trim (ip_received_at p)) \<and> go_is_address G (clean (ip_envelope_from p)) \<and> go_is_address G to \<and>
         validate_text_length name 1 255 \<and> validate_text_length part 1 255 \<and> go_is_address G matched \<and>
         matched = part @ 64 # name \<and> to = matched \<and>
         validate_optional_ingress_length (ms_message_id m) 255 \<and> validate_optional_ingress_length (ms_subject m) 500 \<and>
         validate_optional_ingress_length (ms_text_preview m) 12000 \<and> validate_optional_ingress_length (ms_html_preview m) 20000 \<and>
         validate_optional_ingress_length (ms_raw_object_key m) 500 \<and>
         length (own_entries (ms_headers m)) \<le> 200 \<and> list_all header_accepted (own_entries (ms_headers m)) \<and>
         length (ms_attachments m) \<le> 100 \<and> list_all attachment_accepted (ms_attachments m) \<and>
         (ms_storage_status m \<noteq> STORED \<or> trim_optional_ingress_string (ms_raw_object_key m) \<noteq> None))"

section \<open>What the worker leaves open\<close>

text \<open>The parts of the check that depend on the message and the configuration alone: nothing in the worker
  bounds these texts and numbers, or tells an address or a timestamp that Go reads from another one.\<close>

definition within_server_limits :: "go_library \<Rightarrow> ingress_payload \<Rightarrow> bool" where
  "within_server_limits G p \<longleftrightarrow>
     (let m = ip_message p
      in validate_text_length (go_trim (ip_provider p)) 1 50 \<and> go_is_time G (go_trim (ip_received_at p)) \<and>
         go_is_address G (go_lower G (go_trim (ip_envelope_from p))) \<and> go_is_address G (matched_address (ip_routing p)) \<and>
         length (code_points (domain (ip_routing p))) \<le> 255 \<and> length (code_points (local_part (ip_routing p))) \<le> 255 \<and>
         validate_optional_ingress_length (ms_message_id m) 255 \<and> validate_optional_ingress_length (ms_subject m) 500 \<and>
         validate_optional_ingress_length (ms_raw_object_key m) 500 \<and>
         length (own_entries (ms_headers m)) \<le> 200 \<and> list_all header_accepted (own_entries (ms_headers m)) \<and>
         length (ms_attachments m) \<le> 100 \<and> list_all attachment_accepted (ms_attachments m))"

section \<open>Laws\<close>

lemma code_points_length: "length (code_points s) \<le> length s"
  by (induction s rule: code_points.induct) auto

lemma code_points_empty: "code_points s = [] \<longleftrightarrow> s = []"
  by (induction s rule: code_points.induct) auto

lemma strip_both_length: "length (strip_both P s) \<le> length s"
  unfolding strip_both_def by (metis length_dropWhile_le length_rev order_trans)

lemma optional_length_short:
  assumes "\<And>t. v = Some t \<Longrightarrow> length t \<le> n"
  shows "validate_optional_ingress_length v n"
proof (cases "trim_optional_ingress_string v")
  case None
  then show ?thesis by (simp add: validate_optional_ingress_length_def)
next
  case (Some t)
  then obtain u where u: "v = Some u" "t = go_trim u" "t \<noteq> []"
    by (auto simp: trim_optional_ingress_string_def split: option.splits if_splits)
  have "length (code_points t) \<le> length u"
    using code_points_length [of t] strip_both_length [of go_space u] u(2) by (simp add: go_trim_def)
  moreover have "1 \<le> length (code_points t)" using u(3) code_points_empty [of t] by (cases "code_points t") auto
  ultimately show ?thesis using assms [OF u(1)] Some
    by (simp add: validate_optional_ingress_length_def validate_text_length_def)
qed

lemma digest_key_accepted: "is_digest k \<Longrightarrow> validate_text_length (go_trim k) 1 128"
proof -
  assume k: "is_digest k"
  then have plain: "\<forall>c \<in> set k. \<not> go_space c" "length k = 64"
    by (auto simp: is_digest_def is_hex_def list_all_iff go_space_def)
  then have "go_trim k = k" unfolding go_trim_def by (intro strip_both_id) (auto simp: stripped_def)
  moreover have "length (code_points k) \<le> 64" using code_points_length [of k] plain(2) by simp
  moreover have "code_points k \<noteq> []" using plain(2) by (auto simp: code_points_empty)
  ultimately show ?thesis by (cases "code_points k") (auto simp: validate_text_length_def)
qed

lemma object_key_kept: "trim_optional_ingress_string (Some (object_key_of env p)) \<noteq> None"
proof -
  have "108 \<in> set (object_key_of env p)" by (simp add: object_key_of_def js_def)
  moreover have "\<not> go_space 108" by (simp add: go_space_def)
  ultimately have "go_trim (object_key_of env p) \<noteq> []" unfolding go_trim_def strip_both_eq_Nil by blast
  then show ?thesis by (simp add: trim_optional_ingress_string_def)
qed

lemma non_empty_accepted: "t \<noteq> [] \<Longrightarrow> validate_text_length t 1 n \<longleftrightarrow> length (code_points t) \<le> n"
  using code_points_empty [of t] by (cases "code_points t") (auto simp: validate_text_length_def)

lemma accepted_within_limits:
  assumes "worker_payload env p"
    "\<forall>t \<in> {local_part (ip_routing p), domain (ip_routing p), matched_address (ip_routing p)}. go_lower G (go_trim t) = t"
  shows "ingress_accepts G p \<longleftrightarrow> within_server_limits G p"
proof -
  have previews: "validate_optional_ingress_length (ms_text_preview (ip_message p)) 12000"
    "validate_optional_ingress_length (ms_html_preview (ip_message p)) 20000"
    using assms(1) by (auto simp: worker_payload_def intro: optional_length_short)
  have key: "validate_text_length (go_trim (ip_delivery_key p)) 1 128"
    using assms(1) unfolding worker_payload_def by (intro digest_key_accepted) blast
  have stored: "ms_storage_status (ip_message p) \<noteq> STORED \<or> trim_optional_ingress_string (ms_raw_object_key (ip_message p)) \<noteq> None"
    using assms(1) object_key_kept by (auto simp: worker_payload_def)
  have routing: "ip_envelope_to p = matched_address (ip_routing p)"
    "matched_address (ip_routing p) = local_part (ip_routing p) @ 64 # domain (ip_routing p)"
    "local_part (ip_routing p) \<noteq> []" "domain (ip_routing p) \<noteq> []"
    using assms(1) by (simp_all add: worker_payload_def)
  show ?thesis
    using assms(2) previews key stored routing
    by (simp add: ingress_accepts_def within_server_limits_def Let_def non_empty_accepted del: One_nat_def) blast
qed

end
