(* ===== verification/EdgeWorker.thy ===== *)
theory EdgeWorker
  imports EdgeContract
begin

text \<open>
  The entry points of the edge worker (cloudflare/workers/allmail-edge/src/index.ts): the e-mail
  handler, which accepts a message or rejects it and compensates the raw object of a permanently
  refused one, and the HTTP handler with its health check.
\<close>

section \<open>Definitions\<close>

definition error_message :: "thrown \<Rightarrow> jstr" where
  "error_message e = (case e of ErrorObj n m \<Rightarrow> m | OtherThrown t \<Rightarrow> t)"

definition processing_error_code :: "thrown \<Rightarrow> jstr" where
  "processing_error_code e =
     (let message = error_message e
      in if js_includes message (js ''MAX_RAW_EMAIL_BYTES'') then js ''RAW_EMAIL_TOO_LARGE''
         else if message = js ''Inbound email raw size is invalid'' then js ''RAW_EMAIL_SIZE_INVALID''
         else if message = js ''Invalid routing address'' then js ''ROUTING_ADDRESS_INVALID''
         else js ''INBOUND_PROCESSING_FAILED'')"

definition delivery_key_tag :: "ingress_payload \<Rightarrow> jstr" where
  "delivery_key_tag payload = take 12 (ip_delivery_key payload)"

definition is_replay_accepted :: "dispatch_result \<Rightarrow> bool" where
  "is_replay_accepted r \<longleftrightarrow>
     dr_status r = 409 \<and> dr_error_code r = Some (js ''INGRESS_REPLAY_DETECTED'')"

definition should_compensate_raw_storage :: "dispatch_result \<Rightarrow> bool" where
  "should_compensate_raw_storage r =
     (if dr_status r < 400 \<or> dr_status r \<ge> 500 then False
      else dr_status r \<notin> {408, 409, 425, 429})"

definition compensate_raw_storage ::
  "edge_io \<Rightarrow> ingress_payload \<Rightarrow> resolved_env \<Rightarrow> world \<Rightarrow> world" where
  "compensate_raw_storage io payload env w =
     (case delete_stored_raw_email io payload env w of
        (Inr _, w1) \<Rightarrow> w1
      | (Inl e, w1) \<Rightarrow> add_log (CompensationFailed (delivery_key_tag payload) (thrown_code e)) w1)"

definition set_reject :: "jstr \<Rightarrow> world \<Rightarrow> world" where
  "set_reject reason w = w\<lparr>w_rejects := w_rejects w @ [reason]\<rparr>"

type_synonym dispatcher =
  "ingress_payload \<Rightarrow> resolved_env \<Rightarrow> world \<Rightarrow> (thrown + dispatch_result) \<times> world"

definition fail_processing :: "thrown \<Rightarrow> world \<Rightarrow> world" where
  "fail_processing e w =
     set_reject (js ''all-Mail edge ingest failed'')
       (add_log (ProcessingFailed (processing_error_code e)) w)"

definition settle_result ::
  "edge_io \<Rightarrow> ingress_payload \<Rightarrow> resolved_env \<Rightarrow> dispatch_result \<Rightarrow> world \<Rightarrow> world" where
  "settle_result io payload env r w =
     (if dr_ok r \<or> is_replay_accepted r then w
      else let w1 = add_log (IngressRejected (dr_status r) (dr_request_id r) (dr_error_code r)
                               (delivery_key_tag payload)) w;
               w2 = (if should_compensate_raw_storage r
                     then compensate_raw_storage io payload env w1 else w1)
           in set_reject (js ''all-Mail ingress returned '' @ int_text (dr_status r)) w2)"

definition handle_email ::
  "edge_io \<Rightarrow> dispatcher \<Rightarrow> email_message \<Rightarrow> worker_env \<Rightarrow> world \<Rightarrow> world" where
  "handle_email io dispatcher message env_input w =
     (case resolve_env (io_parse_url io) env_input of
        Inl e \<Rightarrow> fail_processing e w
      | Inr env \<Rightarrow>
          (case build_ingress_payload io message env w of
             (Inl e, w1) \<Rightarrow> fail_processing e w1
           | (Inr payload, w1) \<Rightarrow>
               (case dispatcher payload env w1 of
                  (Inl e, w2) \<Rightarrow> fail_processing e w2
                | (Inr r, w2) \<Rightarrow> settle_result io payload env r w2)))"

definition ingress_dispatcher :: "edge_io \<Rightarrow> dispatcher" where
  "ingress_dispatcher io payload env w =
     (dispatch_ingress (io_sha io) (io_mac io) (io_now_ms io) (io_fetch io) (payload_json payload) env,
      w\<lparr>w_requests := w_requests w @
         [ingress_request (io_sha io) (io_mac io) (io_now_ms io) (payload_json payload) env]\<rparr>)"

definition email_entry :: "edge_io \<Rightarrow> email_message \<Rightarrow> worker_env \<Rightarrow> world \<Rightarrow> world" where
  "email_entry io = handle_email io (ingress_dispatcher io)"

section \<open>The HTTP handler\<close>

record json_response =
  jr_status :: int
  jr_content_type :: jstr
  jr_data :: json

definition json_reply :: "json \<Rightarrow> int \<Rightarrow> json_response" where
  "json_reply data status =
     \<lparr>jr_status = status, jr_content_type = js ''application/json; charset=utf-8'', jr_data = data\<rparr>"

definition error_reply :: "jstr \<Rightarrow> jstr \<Rightarrow> int \<Rightarrow> json_response" where
  "error_reply code message status =
     json_reply (JObj [(js ''success'', JBool False),
       (js ''error'', JObj [(js ''code'', JStr code), (js ''message'', JStr message)])]) status"

text \<open>A URL object is truthy, so \<open>configured\<close> tests the two texts only.\<close>

definition fetch_entry ::
  "(jstr \<Rightarrow> thrown + url) \<Rightarrow> jstr \<Rightarrow> worker_env \<Rightarrow> thrown + json_response" where
  "fetch_entry parse_url request_url env_input =
     and_then (parse_url request_url) (\<lambda>u.
       if url_pathname u \<in> {js ''/'', js ''/health''}
       then (case resolve_env parse_url env_input of
               Inr env \<Rightarrow> Inr (json_reply (JObj [(js ''success'', JBool True),
                 (js ''data'', JObj [(js ''worker'', JStr (js ''allmail-edge'')),
                   (js ''status'', JStr (js ''ok'')),
                   (js ''configured'', JBool (ingress_key_id env \<noteq> [] \<and> ingress_signing_secret env \<noteq> []))])]) 200)
             | Inl e \<Rightarrow> Inr (error_reply (js ''WORKER_NOT_CONFIGURED'') (error_message e) 503))
       else Inr (error_reply (js ''NOT_FOUND'') (js ''Route not found'') 404))"

section \<open>How the world evolves\<close>

lemma add_log_simps [simp]:
  "w_bucket (add_log l w) = w_bucket w" "w_rejects (add_log l w) = w_rejects w"
  "w_requests (add_log l w) = w_requests w"
  by (simp_all add: add_log_def)

lemma set_reject_simps [simp]:
  "w_bucket (set_reject l w) = w_bucket w" "w_rejects (set_reject l w) = w_rejects w @ [l]"
  "w_requests (set_reject l w) = w_requests w" "w_log (set_reject l w) = w_log w"
  by (simp_all add: set_reject_def)

lemma fail_processing_simps [simp]:
  "w_bucket (fail_processing e w) = w_bucket w"
  "w_rejects (fail_processing e w) = w_rejects w @ [js ''all-Mail edge ingest failed'']"
  "w_requests (fail_processing e w) = w_requests w"
  by (simp_all add: fail_processing_def)

lemma store_frame:
  "store_raw_email io env raw at0 key w = (r, w1) \<Longrightarrow> w_rejects w1 = w_rejects w \<and> w_requests w1 = w_requests w"
  by (auto simp: store_raw_email_def Let_def split: if_splits sum.splits prod.splits option.splits)

lemma build_frame:
  "build_ingress_payload io message env w = (r, w1) \<Longrightarrow>
   w_rejects w1 = w_rejects w \<and> w_requests w1 = w_requests w"
  by (auto simp: build_ingress_payload_eq resolve_raw_storage_def dest!: store_frame
      split: if_splits sum.splits prod.splits)

lemma compensate_frame [simp]:
  "w_rejects (compensate_raw_storage io p env w) = w_rejects w"
  "w_requests (compensate_raw_storage io p env w) = w_requests w"
  by (auto simp: compensate_raw_storage_def delete_stored_raw_email_def Let_def
      split: option.splits if_splits prod.splits sum.splits)

lemma settle_rejects:
  "w_rejects (settle_result io p env r w) =
     w_rejects w @ (if dr_ok r \<or> is_replay_accepted r then []
                    else [js ''all-Mail ingress returned '' @ int_text (dr_status r)])"
  by (simp add: settle_result_def Let_def)

text \<open>Compensation and the bucket.\<close>

lemma compensate_removes:
  assumes "bucket_contract io" "worker_payload env p" "ms_raw_object_key (ip_message p) = Some k"
    and "fst (io_delete io k (w_bucket w)) = None"
  shows "w_bucket (compensate_raw_storage io p env w) = (w_bucket w)(k := None)"
proof -
  obtain b where b: "io_delete io k (w_bucket w) = (None, b)"
    using assms(4) by (cases "io_delete io k (w_bucket w)") auto
  have "k \<noteq> []" "raw_email_bucket env"
    using assms(2,3) by (auto simp: worker_payload_def object_key_of_def)
  then show ?thesis
    using assms(1,3) b
    by (auto simp: compensate_raw_storage_def delete_stored_raw_email_def bucket_contract_def)
qed

lemma compensate_nothing:
  "ms_raw_object_key (ip_message p) = None \<Longrightarrow>
   w_bucket (compensate_raw_storage io p env w) = w_bucket w"
  by (simp add: compensate_raw_storage_def delete_stored_raw_email_def)

lemma settle_bucket:
  "w_bucket (settle_result io p env r w) =
     (if \<not> dr_ok r \<and> should_compensate_raw_storage r
      then w_bucket (compensate_raw_storage io p env
             (add_log (IngressRejected (dr_status r) (dr_request_id r) (dr_error_code r)
                               (delivery_key_tag p)) w))
      else w_bucket w)"
  by (auto simp: settle_result_def Let_def is_replay_accepted_def should_compensate_raw_storage_def)

end
