(* ===== verification/JsonLaws.thy ===== *)
theory JsonLaws
  imports JsJson
begin

text \<open>
  The JSON text the sources send is read back as the value it was printed from: the round trip of
  \<open>stringify\<close> and \<open>json_parse\<close> for values whose texts are sequences of UTF-16 units and whose
  numbers are printed natural numbers.
\<close>

section \<open>Texts\<close>

definition units16 :: "jstr \<Rightarrow> bool" where
  "units16 s \<longleftrightarrow> (\<forall>c \<in> set s. c < 65536)"

lemma hex_value_digit: "d < 16 \<Longrightarrow> hex_value (hex_digit d) = Some d"
  by (auto simp: hex_value_def hex_digit_def)

lemma hex4_digits:
  assumes "c < 65536"
  shows "((c div 4096 mod 16 * 16 + c div 256 mod 16) * 16 + c div 16 mod 16) * 16 + c mod 16 = (c :: nat)"
proof -
  define a b d where "a = c div 16" and "b = a div 16" and "d = b div 16"
  have e: "c div 256 = b" "c div 4096 = d" "d < 16"
    using assms by (auto simp: a_def b_def d_def div_mult2_eq [symmetric])
  have "d * 16 + b mod 16 = b" "b * 16 + a mod 16 = a" "a * 16 + c mod 16 = c"
    by (simp_all add: a_def b_def d_def)
  then show ?thesis using e by (simp add: a_def [symmetric])
qed

lemma hex4_value_hex4: "c < 65536 \<Longrightarrow> hex4_value (hex4 c @ q) = Some (c, q)"
  using hex4_digits [of c] by (simp add: hex4_def hex_value_digit)

lemma parse_quote_unit:
  assumes "c < 65536"
  shows "parse_string (quote_unit c @ q) = map_option (\<lambda>(t, r). (c # t, r)) (parse_string q)"
  using hex4_value_hex4 [OF assms, of q]
  by (auto simp: quote_unit_def parse_string_Cons escape_value_def simple_escape_def)

lemma parse_quote_units:
  "units16 s \<Longrightarrow> parse_string (quote_units s @ 34 # rest) = Some (s, rest)"
proof (induction s rule: quote_units.induct)
  case 1
  then show ?case by (simp add: parse_string_Cons)
next
  case (2 c)
  then show ?case by (simp add: units16_def parse_quote_unit) (simp add: parse_string_Cons)
next
  case (3 c d s)
  then show ?case
    by (auto simp: units16_def parse_quote_unit) (simp add: parse_string_Cons)
qed

section \<open>Values\<close>

definition nat_token :: "jstr \<Rightarrow> bool" where
  "nat_token t \<longleftrightarrow> t \<noteq> [] \<and> list_all is_digit t \<and> (t = [48] \<or> hd t \<noteq> 48)"

fun plain_json :: "json \<Rightarrow> bool" where
  "plain_json JNull = True"
| "plain_json (JBool b) = True"
| "plain_json (JNum t) = nat_token t"
| "plain_json (JStr s) = units16 s"
| "plain_json (JArr vs) = list_all plain_json vs"
| "plain_json (JObj ms) = list_all (\<lambda>(k, v). units16 k \<and> plain_json v) ms"

definition follow :: "jstr \<Rightarrow> bool" where
  "follow rest \<longleftrightarrow> rest = [] \<or> hd rest \<in> {44, 93, 125}"

definition parses :: "json \<Rightarrow> bool" where
  "parses j \<longleftrightarrow>
     (\<forall>rest. follow rest \<longrightarrow> (\<exists>N. \<forall>n \<ge> N. parse_value n (stringify j @ rest) = Some (j, rest)))"

lemma follow_simps [simp]: "follow []" "follow (44 # r)" "follow (93 # r)" "follow (125 # r)"
  by (simp_all add: follow_def)

lemma parsesD:
  "parses j \<Longrightarrow> follow rest \<Longrightarrow> \<exists>N. \<forall>n \<ge> N. parse_value n (stringify j @ rest) = Some (j, rest)"
  by (simp add: parses_def)

lemma nat_token_parse:
  assumes "nat_token t" "follow rest"
  shows "parse_number (t @ rest) = Some (t, rest)"
proof -
  obtain c u where t: "t = c # u" using assms by (cases t) (auto simp: nat_token_def)
  have dig: "\<forall>x \<in> set t. is_digit x" using assms by (auto simp: nat_token_def list_all_iff)
  have nd: "takeWhile is_digit rest = [] \<and> dropWhile is_digit rest = rest"
    using assms(2) by (cases rest) (auto simp: follow_def is_digit_def)
  have i: "int_token (t @ rest) = Some (t, rest)"
    using assms(1) dig nd t
    by (auto simp: int_token_def digits_then_def nat_token_def takeWhile_append dropWhile_append)
  have "frac_token rest = Some ([], rest)" "exp_token rest = Some ([], rest)"
    using assms(2) by (cases rest; auto simp: frac_token_def exp_token_def follow_def)+
  moreover have "c \<noteq> 45" using dig t by (auto simp: is_digit_def)
  ultimately show ?thesis using i t by (simp add: parse_number_def)
qed

lemma stringify_starts:
  assumes "plain_json j"
  shows "\<exists>c t. stringify j = c # t \<and> \<not> json_ws c \<and> c \<noteq> 93 \<and> c \<noteq> 125"
proof (cases j)
  case (JNum x)
  then obtain c t where "x = c # t" "is_digit c"
    using assms by (cases x) (auto simp: nat_token_def)
  then show ?thesis using JNum by (auto simp: json_ws_def is_digit_def)
qed (auto simp: js_def json_ws_def quote_text_def)

lemma skip_ws_start [simp]: "\<not> json_ws c \<Longrightarrow> skip_ws (c # t) = c # t"
  by (simp add: skip_ws_def)

lemma skip_ws_punct [simp]:
  "skip_ws (44 # t) = 44 # t" "skip_ws (93 # t) = 93 # t" "skip_ws (125 # t) = 125 # t"
  "skip_ws (58 # t) = 58 # t" "skip_ws (34 # t) = 34 # t" "skip_ws (91 # t) = 91 # t"
  "skip_ws (123 # t) = 123 # t"
  by (simp_all add: json_ws_def)

lemma ex_fuel_Suc: "\<exists>N. \<forall>n \<ge> N. P (Suc n) \<Longrightarrow> \<exists>N. \<forall>n \<ge> N. P n"
  by (metis Suc_le_D Suc_le_mono)

lemma parses_elems:
  assumes "vs \<noteq> []" "\<forall>v \<in> set vs. parses v"
  shows "\<exists>N. \<forall>n \<ge> N. parse_elems n (join [44] (map stringify vs) @ 93 # rest) = Some (vs, rest)"
  using assms
proof (induction vs rule: list_nonempty_induct)
  case (single v)
  then obtain N where N: "\<forall>n \<ge> N. parse_value n (stringify v @ 93 # rest) = Some (v, 93 # rest)"
    using parsesD [of v "93 # rest"] by auto
  show ?case
    by (rule ex_fuel_Suc, rule exI [of _ N]) (simp add: N)
next
  case (cons v vs)
  let ?tail = "join [44] (map stringify vs) @ 93 # rest"
  obtain N where N: "\<forall>n \<ge> N. parse_value n (stringify v @ 44 # ?tail) = Some (v, 44 # ?tail)"
    using cons.prems parsesD [of v "44 # ?tail"] by auto
  obtain M where M: "\<forall>n \<ge> M. parse_elems n ?tail = Some (vs, rest)"
    using cons by auto
  have eq: "join [44] (map stringify (v # vs)) @ 93 # rest = stringify v @ 44 # ?tail"
    using cons.hyps by (simp add: join_Cons)
  show ?case unfolding eq
    by (rule ex_fuel_Suc, rule exI [of _ "max N M"]) (simp add: N M)
qed

definition print_member :: "jstr \<times> json \<Rightarrow> jstr" where
  "print_member m = (case m of (k, v) \<Rightarrow> quote_text k @ 58 # stringify v)"

lemma parses_members:
  assumes "ms \<noteq> []" "\<forall>(k, v) \<in> set ms. units16 k \<and> parses v"
  shows "\<exists>N. \<forall>n \<ge> N. parse_members n (join [44] (map print_member ms) @ 125 # rest) = Some (ms, rest)"
  using assms
proof (induction ms rule: list_nonempty_induct)
  case (single m)
  obtain k v where m: "m = (k, v)" by (cases m)
  then obtain N where N: "\<forall>n \<ge> N. parse_value n (stringify v @ 125 # rest) = Some (v, 125 # rest)"
    using single parsesD [of v "125 # rest"] by auto
  have k: "units16 k" using single m by simp
  show ?case
    by (rule ex_fuel_Suc, rule exI [of _ N])
      (simp add: m print_member_def quote_text_def parse_quote_units [OF k] N)
next
  case (cons m ms)
  obtain k v where m: "m = (k, v)" by (cases m)
  let ?tail = "join [44] (map print_member ms) @ 125 # rest"
  obtain N where N: "\<forall>n \<ge> N. parse_value n (stringify v @ 44 # ?tail) = Some (v, 44 # ?tail)"
    using cons.prems m parsesD [of v "44 # ?tail"] by auto
  obtain M where M: "\<forall>n \<ge> M. parse_members n ?tail = Some (ms, rest)"
    using cons by auto
  have k: "units16 k" using cons.prems m by simp
  have eq: "join [44] (map print_member (m # ms)) @ 125 # rest =
      34 # quote_units k @ 34 # 58 # stringify v @ 44 # ?tail"
    using cons.hyps by (simp add: join_Cons m print_member_def quote_text_def)
  show ?case unfolding eq
    by (rule ex_fuel_Suc, rule exI [of _ "max N M"]) (simp add: m parse_quote_units [OF k] N M)
qed

lemma plain_json_parses: "plain_json j \<Longrightarrow> parses j"
proof (induction j rule: plain_json.induct)
  case (3 t)
  then obtain c u where t: "t = c # u" "is_digit c"
    by (cases t) (auto simp: nat_token_def)
  then have c: "\<not> json_ws c" "c \<notin> {34, 123, 91, 110, 116, 102}" by (auto simp: json_ws_def is_digit_def)
  show ?case
    unfolding parses_def
  proof (intro allI impI)
    fix rest assume "follow rest"
    then have p: "parse_number (c # u @ rest) = Some (c # u, rest)"
      using nat_token_parse [of t rest] 3 t by simp
    show "\<exists>N. \<forall>n \<ge> N. parse_value n (stringify (JNum t) @ rest) = Some (JNum t, rest)"
      by (rule ex_fuel_Suc, rule exI [of _ 0]) (use c p t in \<open>simp add: js_def\<close>)
  qed
next
  case (4 s)
  then have "units16 s" by simp
  note q = parse_quote_units [OF this]
  show ?case
    unfolding parses_def
    by (intro allI impI, rule ex_fuel_Suc, rule exI [of _ 0]) (simp add: quote_text_def q)
next
  case (5 vs)
  then have vs: "\<forall>v \<in> set vs. parses v" "\<forall>v \<in> set vs. plain_json v" by (auto simp: list_all_iff)
  show ?case
  proof (cases "vs = []")
    case True
    show ?thesis
      unfolding True parses_def by (intro allI impI, rule ex_fuel_Suc, rule exI [of _ 0]) simp
  next
    case False
    then obtain v ws where v: "vs = v # ws" by (cases vs) auto
    obtain c t where c: "stringify v = c # t" "\<not> json_ws c" "c \<noteq> 93"
      using stringify_starts [of v] vs(2) v by auto
    show ?thesis
      unfolding parses_def
    proof (intro allI impI)
      fix rest
      obtain N where N: "\<forall>n \<ge> N. parse_elems n (join [44] (map stringify vs) @ 93 # rest) = Some (vs, rest)"
        using parses_elems [OF False vs(1)] by blast
      obtain u where u: "join [44] (map stringify vs) @ 93 # rest = c # u"
        using c v by (cases ws) auto
      have e: "stringify (JArr vs) @ rest = 91 # c # u" using u by simp
      have f: "\<forall>n \<ge> N. parse_elems n (c # u) = Some (vs, rest)" using N u by simp
      show "\<exists>N. \<forall>n \<ge> N. parse_value n (stringify (JArr vs) @ rest) = Some (JArr vs, rest)"
        unfolding e by (rule ex_fuel_Suc, rule exI [of _ N]) (simp add: c f)
    qed
  qed
next
  case (6 ms)
  then have ms: "\<forall>(k, v) \<in> set ms. units16 k \<and> parses v" by (fastforce simp: list_all_iff)
  have pm: "map (\<lambda>(k, v). quote_text k @ 58 # stringify v) ms = map print_member ms"
    by (simp add: print_member_def)
  show ?case
  proof (cases "ms = []")
    case True
    show ?thesis
      unfolding True parses_def by (intro allI impI, rule ex_fuel_Suc, rule exI [of _ 0]) simp
  next
    case False
    show ?thesis
      unfolding parses_def
    proof (intro allI impI)
      fix rest
      obtain N where N: "\<forall>n \<ge> N. parse_members n (join [44] (map print_member ms) @ 125 # rest) = Some (ms, rest)"
        using parses_members [OF False ms] by blast
      obtain m ns where m: "ms = m # ns" using False by (cases ms) auto
      have "\<exists>u. join [44] (map print_member ms) @ 125 # rest = 34 # u"
        unfolding m by (cases ns; cases m) (auto simp: print_member_def quote_text_def)
      then obtain u where u: "join [44] (map print_member ms) @ 125 # rest = 34 # u" ..
      have e: "stringify (JObj ms) @ rest = 123 # 34 # u" using u by (simp add: pm)
      have f: "\<forall>n \<ge> N. parse_members n (34 # u) = Some (ms, rest)" using N u by simp
      show "\<exists>N. \<forall>n \<ge> N. parse_value n (stringify (JObj ms) @ rest) = Some (JObj ms, rest)"
        unfolding e by (rule ex_fuel_Suc, rule exI [of _ N]) (simp add: f)
    qed
  qed
qed (unfold parses_def, (intro allI impI, rule ex_fuel_Suc, rule exI [of _ 0], simp add: js_def json_ws_def)+)

lemma json_roundtrip:
  assumes "plain_json j"
  shows "json_parse (stringify j) = Some j"
proof -
  obtain N where N: "\<forall>n \<ge> N. parse_value n (stringify j) = Some (j, [])"
    using parsesD [OF plain_json_parses [OF assms], of "[]"] by auto
  have "parse_value (Suc (2 * length (stringify j)) + N) (stringify j) =
        parse_value (Suc (2 * length (stringify j))) (stringify j)"
    by (rule parse_value_fuel) simp
  then have "parse_value (Suc (2 * length (stringify j))) (stringify j) = Some (j, [])"
    using N [rule_format, of "Suc (2 * length (stringify j)) + N"] by (metis le_add2)
  then show ?thesis by (simp add: json_parse_def skip_ws_def)
qed

lemma nat_str_hd: "0 < n \<Longrightarrow> hd (nat_str n) \<noteq> 48"
proof (induction n rule: nat_str.induct)
  case (1 n)
  show ?case
  proof (cases "n < 10")
    case True
    then show ?thesis using "1.prems" by (simp add: nat_str.simps [of n])
  next
    case False
    then have "hd (nat_str n) = hd (nat_str (n div 10))" by (simp add: nat_str.simps [of n])
    then show ?thesis using "1.IH" False by simp
  qed
qed

lemma nat_token_nat_str [simp]: "nat_token (nat_str n)"
  using nat_str_hd [of n] nat_str_digits
  by (cases "n = 0") (auto simp: nat_token_def list_all_iff nat_str.simps [of 0] is_digit_def)

lemma units16_js [simp]: "units16 (js t)"
proof -
  have "(of_char c :: nat) < 65536" for c
    using nat_of_char_less_256 [of c] by linarith
  then show ?thesis by (auto simp: units16_def js_def)
qed

end
