(* ===== verification/EdgeTheorems.thy ===== *)
theory EdgeTheorems
  imports EdgeWorker JsonLaws
begin

text \<open>
  The properties of the edge worker as a whole: the verdict on every message, the request the
  ingress server receives, the payload contract, the fate of the raw object, and the delivery key
  on which deduplication rests. The witnesses run the worker on \<open>demo_io\<close>, a bucket that stores,
  a server that answers with a given response and a digest that pads or cuts its input.
\<close>

section \<open>A concrete environment\<close>

definition demo_digest :: "byte list \<Rightarrow> byte list" where
  "demo_digest m = take 32 (m @ replicate 32 0)"

definition demo_url :: url where
  "demo_url = \<lparr>url_protocol = js ''https:'', url_hostname = js ''mail.example'',
     url_pathname = js ''/ingress'', url_href = js ''https://mail.example/ingress''\<rparr>"

definition demo_mime :: parsed_email where
  "demo_mime = \<lparr>pe_message_id = Some (js ''<m1@x>''), pe_subject = Some (js ''hi''),
     pe_text = None, pe_html = None, pe_attachments = None\<rparr>"

definition demo_io :: "response \<Rightarrow> edge_io" where
  "demo_io r = \<lparr>io_parse_url = (\<lambda>_. Inr demo_url), io_sha = demo_digest, io_mac = (\<lambda>k m. demo_digest m),
     io_parse_mime = (\<lambda>_. Inr demo_mime),
     io_put = (\<lambda>k ob b. (None, b(k \<mapsto> ob))), io_delete = (\<lambda>k b. (None, b(k := None))),
     io_fetch = (\<lambda>_. Inr r), io_now_ms = 1700000000000,
     io_now_iso = js ''2023-11-14T22:13:20.000Z''\<rparr>"

definition demo_response :: "bool \<Rightarrow> int \<Rightarrow> response" where
  "demo_response ok1 status = \<lparr>resp_ok = ok1, resp_status = status, resp_content_length = None,
     resp_request_id = None, resp_body = None\<rparr>"

definition demo_env :: resolved_env where
  "demo_env = \<lparr>ingress_url = demo_url, ingress_key_id = js ''k1'', ingress_signing_secret = js ''s3'',
     ingress_provider = js ''CLOUDFLARE_EMAIL_ROUTING'', raw_email_object_prefix = js ''allmail-edge/raw'',
     max_raw_email_bytes = 15 * 1024 * 1024, raw_email_bucket = True\<rparr>"

definition demo_worker_env :: worker_env where
  "demo_worker_env = \<lparr>env_ingress_url = Some (js ''https://mail.example/ingress''),
     env_ingress_key_id = Some (js ''k1''), env_ingress_signing_secret = Some (js ''s3''),
     env_ingress_provider = None, env_raw_email_object_prefix = None,
     env_max_raw_email_bytes = None, env_has_bucket = True\<rparr>"

definition demo_message :: "byte list \<Rightarrow> email_message" where
  "demo_message raw = \<lparr>em_from = js ''A@b.example'', em_to = js '' U@d.example '',
     em_headers = [], em_raw = Inr raw, em_raw_size = Fin 2\<rparr>"

definition demo_world :: world where
  "demo_world = \<lparr>w_bucket = (\<lambda>_. None), w_log = [], w_requests = [], w_rejects = []\<rparr>"

lemma demo_digest_length [simp]: "length (demo_digest m) = 32"
  by (simp add: demo_digest_def)

lemma demo_io_simps [simp]:
  "io_parse_url (demo_io r) = (\<lambda>_. Inr demo_url)" "io_sha (demo_io r) = demo_digest"
  "io_mac (demo_io r) = (\<lambda>k m. demo_digest m)" "io_parse_mime (demo_io r) = (\<lambda>_. Inr demo_mime)"
  "io_put (demo_io r) = (\<lambda>k ob b. (None, b(k \<mapsto> ob)))"
  "io_delete (demo_io r) = (\<lambda>k b. (None, b(k := None)))"
  "io_fetch (demo_io r) = (\<lambda>_. Inr r)"
  by (simp_all add: demo_io_def)

lemma demo_contracts: "digest_contract (demo_io r)" "bucket_contract (demo_io r)"
  by (simp_all add: digest_contract_def bucket_contract_def)

lemma demo_resolve: "resolve_env (\<lambda>_. Inr demo_url) demo_worker_env = Inr demo_env"
  by (simp add: resolve_env_def demo_worker_env_def demo_env_def require_string_def
      require_secret_string_def validate_ingress_url_def is_local_http_def demo_url_def
      parse_max_raw_email_bytes_def default_max_raw_email_bytes_def normalize_prefix_def js_eval)

lemma demo_routing:
  "parse_routing_address (js '' U@d.example '') =
   Inr \<lparr>matched_address = js ''u@d.example'', local_part = js ''u'', domain = js ''d.example''\<rparr>"
  by (simp add: parse_routing_address_def clean_address_def js_eval)

definition demo_routed :: parsed_routing where
  "demo_routed = \<lparr>matched_address = js ''u@d.example'', local_part = js ''u'', domain = js ''d.example''\<rparr>"

lemma demo_inputs:
  "payload_inputs (demo_io r) (demo_message raw) demo_env = Inr (demo_routed, raw, demo_mime)"
  by (simp add: payload_inputs_def check_raw_size_def demo_message_def demo_env_def demo_routing
      demo_routed_def is_safe_integer_def num_lt_def num_gt_def max_safe_def)

definition demo_key :: "response \<Rightarrow> byte list \<Rightarrow> jstr" where
  "demo_key r raw = message_key (demo_io r) (demo_message raw) demo_routed raw demo_mime"

lemma demo_key_digest: "is_digest (demo_key r raw)"
  by (simp add: demo_key_def message_key_def build_delivery_key_digest)

definition demo_object_key :: "response \<Rightarrow> byte list \<Rightarrow> jstr" where
  "demo_object_key r raw = strip_slashes (js ''allmail-edge/raw'') @ js ''/'' @ take 2 (demo_key r raw)
     @ js ''/'' @ demo_key r raw @ js ''.eml''"

definition demo_payload :: "response \<Rightarrow> byte list \<Rightarrow> ingress_payload" where
  "demo_payload r raw = payload_of (demo_io r) (demo_message raw) demo_env demo_routed raw demo_mime
     (Some (demo_object_key r raw)) STORED"

definition demo_stored :: "response \<Rightarrow> byte list \<Rightarrow> stored_object" where
  "demo_stored r raw = \<lparr>so_bytes = raw, so_content_type = js ''message/rfc822'',
     so_delivery_key = demo_key r raw, so_received_at = io_now_iso (demo_io r)\<rparr>"

lemma demo_build:
  "build_ingress_payload (demo_io r) (demo_message raw) demo_env w =
     (Inr (demo_payload r raw), w\<lparr>w_bucket := (w_bucket w)(demo_object_key r raw \<mapsto> demo_stored r raw)\<rparr>)"
proof -
  have "build_raw_object_key (js ''allmail-edge/raw'') (demo_key r raw) = Inr (demo_object_key r raw)"
    by (simp add: build_raw_object_key_digest [OF demo_key_digest] demo_object_key_def)
  moreover have "demo_object_key r raw \<noteq> []" by (simp add: demo_object_key_def)
  moreover have "raw_email_bucket demo_env" "raw_email_object_prefix demo_env = js ''allmail-edge/raw''"
    by (simp_all add: demo_env_def)
  ultimately show ?thesis
    by (simp add: build_ingress_payload_eq demo_inputs demo_key_def [symmetric]
        resolve_raw_storage_def store_raw_email_def demo_stored_def demo_payload_def)
qed

section \<open>Verdicts\<close>

lemma build_inputs:
  assumes "digest_contract io" "build_ingress_payload io message env w = (r, w1)"
  shows "(\<exists>e. r = Inl e) \<longleftrightarrow> (\<exists>e. payload_inputs io message env = Inl e)"
  by (rule build_ingress_payload_cases [OF assms(1), where message = message and env = env and w = w])
    (use assms in auto)

lemma build_valid:
  assumes "digest_contract io" "build_ingress_payload io message env w = (Inr p, w1)"
  shows "worker_payload env p"
  by (rule build_ingress_payload_cases [OF assms(1), where message = message and env = env and w = w])
    (use assms in auto)

text \<open>C2: The e-mail handler gives at most one verdict per message. A message is left accepted
  exactly when the environment resolves, the payload is built, the ingress server was reached and it
  answered with success or with a replay conflict (409, INGRESS_REPLAY_DETECTED); in every other
  case, every thrown error included, exactly one rejection is added.\<close>

theorem email_entry_verdict:
  "\<exists>v. w_rejects (email_entry io message env_input w) = w_rejects w @ v \<and> length v \<le> 1 \<and>
     (v = [] \<longleftrightarrow>
       (\<exists>env p w1 resp. resolve_env (io_parse_url io) env_input = Inr env
          \<and> build_ingress_payload io message env w = (Inr p, w1)
          \<and> io_fetch io (ingress_request (io_sha io) (io_mac io) (io_now_ms io) (payload_json p) env) = Inr resp
          \<and> (resp_ok resp \<or> resp_status resp = 409 \<and>
               read_bounded_error_code resp = Inr (Some (js ''INGRESS_REPLAY_DETECTED'')))))"
proof (cases "resolve_env (io_parse_url io) env_input")
  case (Inl e)
  then show ?thesis by (simp add: email_entry_def handle_email_def)
next
  case (Inr env)
  obtain r w1 where b: "build_ingress_payload io message env w = (r, w1)" by fastforce
  note fr = build_frame [OF b]
  show ?thesis
  proof (cases r)
    case (Inl e)
    then show ?thesis using Inr b fr by (simp add: email_entry_def handle_email_def)
  next
    case p: (Inr p)
    let ?rq = "ingress_request (io_sha io) (io_mac io) (io_now_ms io) (payload_json p) env"
    show ?thesis
    proof (cases "io_fetch io ?rq")
      case (Inl e)
      then show ?thesis using Inr b p fr
        by (simp add: email_entry_def handle_email_def ingress_dispatcher_def dispatch_ingress_def)
    next
      case f: (Inr resp)
      then show ?thesis using Inr b p fr
        by (cases "read_bounded_error_code resp")
          (auto simp: email_entry_def handle_email_def ingress_dispatcher_def dispatch_ingress_def
            settle_rejects is_replay_accepted_def)
    qed
  qed
qed

text \<open>C8: At most one request leaves the worker per message. It is a POST to the configured ingress
  URL whose headers carry the configured key id and whose signature the server's check
  (verifyIngressSignature) accepts with the same secret for exactly the body that was sent.\<close>

theorem email_entry_request_signed:
  assumes "digest_contract io"
  shows "w_requests (email_entry io message env_input w) = w_requests w \<or>
    (\<exists>rq env ts sig. w_requests (email_entry io message env_input w) = w_requests w @ [rq]
       \<and> resolve_env (io_parse_url io) env_input = Inr env
       \<and> req_url rq = url_href (ingress_url env) \<and> req_method rq = js ''POST''
       \<and> header (js ''x-ingress-key-id'') (req_headers rq) = Some (ingress_key_id env)
       \<and> header (js ''x-ingress-timestamp'') (req_headers rq) = Some ts
       \<and> header (js ''x-ingress-signature'') (req_headers rq) = Some sig
       \<and> verify_ingress_signature (io_sha io) (io_mac io) (ingress_signing_secret env) ts
            (req_method rq) (url_pathname (ingress_url env)) (utf8_encode (req_body rq)) sig)"
proof (cases "resolve_env (io_parse_url io) env_input")
  case (Inl e)
  then show ?thesis by (simp add: email_entry_def handle_email_def)
next
  case (Inr env)
  obtain r w1 where b: "build_ingress_payload io message env w = (r, w1)" by fastforce
  show ?thesis
  proof (cases r)
    case (Inl e)
    then show ?thesis using Inr b build_frame [OF b] by (simp add: email_entry_def handle_email_def)
  next
    case p: (Inr p)
    let ?rq = "ingress_request (io_sha io) (io_mac io) (io_now_ms io) (payload_json p) env"
    have len: "\<And>k m. length (io_mac io k m) = 32" using assms by (simp add: digest_contract_def)
    have "w_requests (email_entry io message env_input w) = w_requests w @ [?rq]"
      using Inr b p build_frame [OF b]
      by (auto simp: email_entry_def handle_email_def ingress_dispatcher_def settle_result_def Let_def
          split: sum.splits)
    then show ?thesis
      using Inr verify_signed [OF len] ingress_request_headers by fastforce
  qed
qed

lemma email_entry_request_signed_witness:
  "w_requests (email_entry (demo_io (demo_response True 200)) (demo_message [72, 105]) demo_worker_env demo_world) = []
   \<or> (\<exists>rq env ts sig. w_requests (email_entry (demo_io (demo_response True 200)) (demo_message [72, 105]) demo_worker_env demo_world) = [rq]
       \<and> resolve_env (io_parse_url (demo_io (demo_response True 200))) demo_worker_env = Inr env
       \<and> verify_ingress_signature demo_digest (\<lambda>k m. demo_digest m) (ingress_signing_secret env) ts
            (req_method rq) (url_pathname (ingress_url env)) (utf8_encode (req_body rq)) sig)"
  using email_entry_request_signed [OF demo_contracts(1), of "demo_response True 200" "demo_message [72, 105]"
      demo_worker_env demo_world]
  by (auto simp: demo_world_def)

section \<open>The payload\<close>

definition demo_go :: go_library where
  "demo_go = \<lparr>go_lower = to_lower, go_is_time = (\<lambda>t. True), go_is_address = (\<lambda>t. 64 \<in> set t)\<rparr>"

text \<open>C28: What the worker's payloads owe to the check of the ingress server. Every payload the worker builds has a
  64-digit lower-case digest as delivery key, a recipient that is the matched address and is local part @ domain, both
  not empty, bounded previews, and an object key exactly when it says that the message is stored; so, as long as trimming
  and lower-casing by the server leave the routing fields as they are, the server's whole check (except of the JSON text
  itself) accepts it exactly when the parts that the worker does not look at are within the server's limits: the provider,
  the timestamp, that both addresses are ones that Go reads, the lengths of local part, domain, message id (255), subject
  (500) and object key (500), and the numbers and lengths of headers and attachments.\<close>

theorem payload_contract:
  assumes "digest_contract io" "build_ingress_payload io message env w = (Inr p, w1)"
    "\<forall>t \<in> {local_part (ip_routing p), domain (ip_routing p), matched_address (ip_routing p)}. go_lower G (go_trim t) = t"
  shows "worker_payload env p \<and> (ingress_accepts G p \<longleftrightarrow> within_server_limits G p)"
  using build_valid [OF assms(1,2)] accepted_within_limits [OF _ assms(3)] by blast

lemma payload_contract_witness:
  "ingress_accepts demo_go (demo_payload (demo_response True 200) [72, 105]) \<longleftrightarrow>
     within_server_limits demo_go (demo_payload (demo_response True 200) [72, 105])"
proof -
  have "list_all (\<lambda>t. go_lower demo_go (go_trim t) = t) [js ''u'', js ''d.example'', js ''u@d.example'']"
    by (simp add: demo_go_def go_trim_def strip_both_def go_space_def js_eval)
  then have "\<forall>t \<in> {local_part (ip_routing (demo_payload (demo_response True 200) [72, 105])),
      domain (ip_routing (demo_payload (demo_response True 200) [72, 105])),
      matched_address (ip_routing (demo_payload (demo_response True 200) [72, 105]))}. go_lower demo_go (go_trim t) = t"
    by (simp add: demo_payload_def demo_routed_def)
  from payload_contract [OF demo_contracts(1) demo_build this] show ?thesis by blast
qed

text \<open>Building a payload fails exactly when the declared size is invalid or too large, the
  recipient is not routable, the body cannot be read or the MIME parser throws, with the first of
  these errors; the world is then untouched, so nothing has been stored. Storage itself never makes
  it fail.\<close>

theorem payload_failure:
  assumes "digest_contract io"
  shows "(\<exists>w1. build_ingress_payload io message env w = (Inl e, w1)) \<longleftrightarrow>
      build_ingress_payload io message env w = (Inl e, w) \<and>
      (check_raw_size message env = Inl e
       \<or> check_raw_size message env = Inr () \<and> parse_routing_address (em_to message) = Inl e
       \<or> check_raw_size message env = Inr () \<and> (\<exists>p. parse_routing_address (em_to message) = Inr p)
           \<and> em_raw message = Inl e
       \<or> check_raw_size message env = Inr () \<and> (\<exists>p. parse_routing_address (em_to message) = Inr p)
           \<and> (\<exists>raw. em_raw message = Inr raw \<and> io_parse_mime io raw = Inl e))"
  by (rule build_ingress_payload_cases [OF assms, where message = message and env = env and w = w])
    (auto simp: payload_inputs_def and_then_Inl and_then_Inr)

lemma payload_failure_witness:
  "(\<exists>w1. build_ingress_payload (demo_io (demo_response True 200))
      ((demo_message [])\<lparr>em_raw := Inl (OtherThrown [])\<rparr>) demo_env demo_world = (Inl (OtherThrown []), w1))"
  by (subst payload_failure [OF demo_contracts(1)])
    (simp add: build_ingress_payload_eq payload_inputs_def check_raw_size_def demo_message_def
      demo_env_def demo_routing is_safe_integer_def num_lt_def num_gt_def max_safe_def)

text \<open>The texts of a payload that do not come from the sources themselves.\<close>

definition opt_texts :: "jstr option \<Rightarrow> jstr list" where
  "opt_texts v = (case v of None \<Rightarrow> [] | Some t \<Rightarrow> [t])"

definition message_texts :: "message_summary \<Rightarrow> jstr list" where
  "message_texts m =
     opt_texts (ms_message_id m) @ opt_texts (ms_subject m) @ opt_texts (ms_text_preview m)
     @ opt_texts (ms_html_preview m) @ opt_texts (ms_raw_object_key m)
     @ concat (map (\<lambda>(k, v). [k, v]) (ms_headers m))
     @ concat (map (\<lambda>a. opt_texts (ia_filename a) @ opt_texts (ia_content_type a)
         @ opt_texts (ia_object_key a)) (ms_attachments m))"

definition payload_texts :: "ingress_payload \<Rightarrow> jstr list" where
  "payload_texts p =
     [ip_provider p, ip_delivery_key p, ip_received_at p, ip_envelope_from p, ip_envelope_to p,
      matched_address (ip_routing p), local_part (ip_routing p), domain (ip_routing p)]
     @ message_texts (ip_message p)"

lemma units16_opt: "(\<forall>t \<in> set (opt_texts v). units16 t) \<longleftrightarrow> plain_json (json_text v)"
  by (simp add: opt_texts_def json_text_def split: option.split)

lemma message_plain:
  assumes "\<forall>t \<in> set (message_texts m). units16 t"
  shows "plain_json (message_json m)"
proof -
  have "plain_json (json_text (ms_message_id m))" "plain_json (json_text (ms_subject m))"
    "plain_json (json_text (ms_text_preview m))" "plain_json (json_text (ms_html_preview m))"
    "plain_json (json_text (ms_raw_object_key m))"
    using assms by (simp_all add: message_texts_def ball_Un units16_opt)
  moreover have "list_all (\<lambda>(k, v). units16 k \<and> plain_json v)
      (map (\<lambda>(k, v). (k, JStr v)) (own_entries (ms_headers m)))"
    using assms by (auto simp: list_all_iff message_texts_def ball_Un)
  moreover have "list_all plain_json (map attachment_json (ms_attachments m))"
    using assms
    by (simp add: list_all_iff message_texts_def ball_Un units16_opt attachment_json_def
        split: option.split)
  moreover have "units16 (storage_status_text st)" for st
    by (simp add: storage_status_text_def split: storage_status.split)
  ultimately show ?thesis by (simp add: message_json_def)
qed

lemma payload_plain:
  assumes "\<forall>t \<in> set (payload_texts p). units16 t"
  shows "plain_json (payload_json p)"
  using assms message_plain [of "ip_message p"] by (simp add: payload_json_def payload_texts_def)

text \<open>The body of the request is JSON that parses back to the payload, whatever quotes, control
  characters or lone surrogates the message texts hold.\<close>

theorem payload_json_roundtrip:
  assumes "\<forall>t \<in> set (payload_texts p). units16 t"
  shows "json_parse (req_body (ingress_request sha mac now (payload_json p) env)) = Some (payload_json p)"
  using json_roundtrip [OF payload_plain [OF assms]] by simp

section \<open>The raw object\<close>

text \<open>C3: What happens to the raw message when the server refuses it. A refusal with a permanent
  client status (4xx other than 408, 409, 425 and 429) removes the stored object; any other refusal
  leaves it, with exactly the bytes received and the delivery key it was stored for.\<close>

theorem refused_raw_object:
  assumes "digest_contract io" "bucket_contract io"
    and "resolve_env (io_parse_url io) env_input = Inr env"
    and "build_ingress_payload io message env w = (Inr p, w1)"
    and "ms_raw_object_key (ip_message p) = Some k"
    and "io_fetch io (ingress_request (io_sha io) (io_mac io) (io_now_ms io) (payload_json p) env) = Inr resp"
    and "\<not> resp_ok resp" and "read_bounded_error_code resp = Inr code"
    and "fst (io_delete io k (w_bucket w1)) = None"
  shows "w_bucket (email_entry io message env_input w) k =
    (if 400 \<le> resp_status resp \<and> resp_status resp < 500 \<and> resp_status resp \<notin> {408, 409, 425, 429}
     then None
     else Some \<lparr>so_bytes = projr (em_raw message), so_content_type = js ''message/rfc822'',
                so_delivery_key = ip_delivery_key p, so_received_at = ip_received_at p\<rparr>)"
proof -
  let ?r = "\<lparr>dr_ok = False, dr_status = resp_status resp, dr_request_id = resp_request_id resp,
     dr_error_code = code\<rparr>"
  obtain raw where raw: "em_raw message = Inr raw" and b: "w_bucket w1 = (w_bucket w)(k \<mapsto>
      \<lparr>so_bytes = raw, so_content_type = js ''message/rfc822'',
       so_delivery_key = ip_delivery_key p, so_received_at = ip_received_at p\<rparr>)"
    using build_ingress_payload_stored [OF assms(1,2,4,5)] by blast
  obtain w2 where w2: "email_entry io message env_input w = settle_result io p env ?r w2"
    and b2: "w_bucket w2 = w_bucket w1"
    using assms by (simp add: email_entry_def handle_email_def ingress_dispatcher_def dispatch_ingress_def)
  note valid = build_valid [OF assms(1,4)]
  show ?thesis
    using compensate_removes [OF assms(2) valid assms(5)] b b2 raw assms(9)
    by (auto simp: w2 settle_bucket should_compensate_raw_storage_def)
qed

lemma refused_raw_object_witness:
  "w_bucket (email_entry (demo_io (demo_response False 401)) (demo_message [72, 105]) demo_worker_env demo_world)
     (demo_object_key (demo_response False 401) [72, 105]) = None
   \<and> w_bucket (email_entry (demo_io (demo_response False 503)) (demo_message [72, 105]) demo_worker_env demo_world)
     (demo_object_key (demo_response False 503) [72, 105]) = Some (demo_stored (demo_response False 503) [72, 105])"
proof -
  note run = refused_raw_object [OF demo_contracts, of _ demo_worker_env demo_env "demo_message [72, 105]"
      demo_world, OF _ demo_build]
  have key: "ms_raw_object_key (ip_message (demo_payload r [72, 105])) = Some (demo_object_key r [72, 105])"
    and st: "ip_delivery_key (demo_payload r [72, 105]) = demo_key r [72, 105]"
       "ip_received_at (demo_payload r [72, 105]) = io_now_iso (demo_io r)" for r
    by (simp_all add: demo_payload_def demo_key_def)
  have d: "read_bounded_error_code (demo_response False n) = Inr None"
       "\<not> resp_ok (demo_response False n)" "resp_status (demo_response False n) = n" for n
    by (simp_all add: demo_response_def read_bounded_error_code_def)
  show ?thesis
    using run [of "demo_response False 401" _ "demo_response False 401" None]
      run [of "demo_response False 503" _ "demo_response False 503" None]
    by (simp add: demo_resolve key st d demo_stored_def demo_message_def)
qed

text \<open>The key of the raw object depends only on the environment's prefix, the recipient and the
  message id, so two deliveries that agree on these (a redelivery) share one object, whatever their
  bytes are: the compensation of the second removes the object the first stored.\<close>

theorem redelivery_shares_object:
  assumes "digest_contract io" "digest_contract io'" "io_sha io' = io_sha io"
    and "build_ingress_payload io message env w = (Inr p, w1)"
    and "build_ingress_payload io' message' env w' = (Inr p', w1')"
    and "clean_address (em_to message') = clean_address (em_to message)"
    and "ms_message_id (ip_message p) = Some i" "ms_message_id (ip_message p') = Some i'"
    and "clean_address i' = clean_address i"
    and "ms_raw_object_key (ip_message p) = Some k" "ms_raw_object_key (ip_message p') = Some k'"
  shows "k' = k"
proof -
  have id: "ip_delivery_key p = build_delivery_key (io_sha io) (clean_address (em_to message)) (Some i) []"
    if "digest_contract io" "build_ingress_payload io message env w = (Inr p, w1)"
      "ms_message_id (ip_message p) = Some i" for io message w p w1 i
  proof (rule build_ingress_payload_cases [OF that(1), where message = message and env = env and w = w])
    fix routing raw parsed kk st w2
    assume a: "payload_inputs io message env = Inr (routing, raw, parsed)"
      "build_ingress_payload io message env w = (Inr (payload_of io message env routing raw parsed kk st), w2)"
    then have p: "p = payload_of io message env routing raw parsed kk st" using that by simp
    have mid: "message_id_of parsed (headers_to_record (em_headers message)) = Some i"
      using that(3) unfolding p by (simp add: payload_of_def build_message_summary_def)
    then have "clean_address i \<noteq> []"
      by (auto simp: message_id_of_def clean_address_def simp del: first_non_empty.simps
          dest: first_non_empty_Some)
    then show ?thesis
      using mid p parse_routing_Inr(1) [OF payload_inputs_routing(1) [OF a(1)]]
      by (simp add: message_key_def build_delivery_key_seed delivery_seed_def clean_id_def)
  qed (use that in simp)
  have "ip_delivery_key p' = ip_delivery_key p"
    using id [OF assms(1,4,7)] id [OF assms(2,5,8)] assms(3,6,9)
      by (simp add: build_delivery_key_seed delivery_seed_def clean_id_def)
  moreover have "worker_payload env p" "worker_payload env p'"
    using assms(1,2,4,5) build_valid by blast+
  ultimately show ?thesis
    using assms(10,11) by (auto simp: worker_payload_def object_key_of_def)
qed

lemma redelivery_shares_object_witness:
  "demo_object_key (demo_response False 401) [1] = demo_object_key (demo_response True 200) [2]"
proof -
  have payload: "ms_raw_object_key (ip_message (demo_payload r raw)) = Some (demo_object_key r raw)"
      "ms_message_id (ip_message (demo_payload r raw)) = Some (js ''<m1@x>'')" for r raw
    by (simp_all add: demo_payload_def payload_of_def build_message_summary_def message_id_of_def
        demo_mime_def js_eval)
  show ?thesis
    by (rule redelivery_shares_object [OF demo_contracts(1) demo_contracts(1) _ demo_build demo_build
          _ payload(2) payload(2) _ payload(1) payload(1)]) (simp_all add: demo_message_def)
qed

lemma payload_json_roundtrip_witness:
  "json_parse (req_body (ingress_request demo_digest (\<lambda>k m. demo_digest m) 0
      (payload_json \<lparr>ip_provider = [34, 55296, 10], ip_delivery_key = [], ip_received_at = [],
        ip_envelope_from = [], ip_envelope_to = [], ip_routing = demo_routed,
        ip_message = \<lparr>ms_message_id = None, ms_subject = Some [0], ms_text_preview = None,
          ms_html_preview = None, ms_headers = [([49], [92])], ms_attachments = [],
          ms_raw_object_key = None, ms_storage_status = PENDING\<rparr>\<rparr>) demo_env)) \<noteq> None"
  by (subst payload_json_roundtrip)
    (auto simp: payload_texts_def message_texts_def opt_texts_def demo_routed_def units16_def js_def)

section \<open>Deduplication\<close>

text \<open>The delivery key separates messages: unless SHA-256 collides on the texts hashed, two
  messages have the same key only if they are for the same recipient and have the same message id,
  or have none and the same digest of their bytes. (Recipients with a line feed are excluded: the
  line feed separates the parts of the text that is hashed.)\<close>

theorem delivery_key_separates:
  assumes "10 \<notin> set (clean_address a)" "10 \<notin> set (clean_address a')"
    and "well_formed (delivery_seed sha a i raw)" "well_formed (delivery_seed sha a' i' raw')"
    and "sha (utf8_encode (delivery_seed sha a i raw)) = sha (utf8_encode (delivery_seed sha a' i' raw'))
         \<longrightarrow> utf8_encode (delivery_seed sha a i raw) = utf8_encode (delivery_seed sha a' i' raw')"
    and "build_delivery_key sha a i raw = build_delivery_key sha a' i' raw'"
  shows "clean_address a = clean_address a' \<and> clean_id i = clean_id i'
    \<and> (clean_id i = None \<longrightarrow> sha raw = sha raw')"
proof -
  have "delivery_seed sha a i raw = delivery_seed sha a' i' raw'"
    using assms(3-6) by (metis build_delivery_key_seed to_hex_inject utf8_encode_inject)
  then show ?thesis using delivery_seed_inject assms(1,2) by blast
qed

lemma delivery_key_separates_witness:
  "build_delivery_key id (js ''A@x'') (Some (js ''<1>'')) [7] =
     build_delivery_key id (js ''a@x '') (Some (js ''<1>'')) [8] \<and>
   clean_address (js ''A@x'') = clean_address (js ''a@x '')"
proof -
  have s: "delivery_seed id (js ''A@x'') (Some (js ''<1>'')) [7] = js ''message-id'' @ [10] @ js ''a@x'' @ [10] @ js ''<1>''"
    "delivery_seed id (js ''a@x '') (Some (js ''<1>'')) [8] = js ''message-id'' @ [10] @ js ''a@x'' @ [10] @ js ''<1>''"
    by (simp_all add: delivery_seed_def clean_id_def clean_address_def js_eval)
  have k: "build_delivery_key id (js ''A@x'') (Some (js ''<1>'')) [7] =
     build_delivery_key id (js ''a@x '') (Some (js ''<1>'')) [8]"
    by (simp add: build_delivery_key_seed s)
  have w: "well_formed (js ''message-id'' @ [10] @ js ''a@x'' @ [10] @ js ''<1>'')"
    by (simp add: js_eval is_high_def is_low_def)
  have n: "10 \<notin> set (clean_address (js ''A@x''))" "10 \<notin> set (clean_address (js ''a@x ''))"
    by (simp_all add: clean_address_def js_eval)
  show ?thesis
    using delivery_key_separates [OF n _ _ _ k] k w s by simp
qed

section \<open>The error code of a response\<close>

text \<open>C35: The error code read from a response depends only on the bytes of its body, not on how
  the network cut them into chunks: more than 8192 bytes (declared or received) give the fixed code
  INGRESS_ERROR_RESPONSE_TOO_LARGE, anything else the code of the decoded JSON text; a code is never
  empty or longer than 128 units.\<close>

theorem error_code_of_bytes:
  assumes "resp_body r = Some b" "body_failure b = None"
  shows "read_bounded_error_code r =
      (if is_finite (declared_length (resp_content_length r))
            \<and> num_gt (declared_length (resp_content_length r)) 8192
          \<or> length (concat (body_chunks b)) > 8192
       then Inr (Some response_too_large)
       else Inr (body_error_code (utf8_decode (concat (body_chunks b)))))
    \<and> (\<forall>code. read_bounded_error_code r = Inr (Some code) \<longrightarrow> code \<noteq> [] \<and> length code \<le> 128)"
proof (intro conjI allI impI)
  have m: "int max_error_response_bytes = 8192" "max_error_response_bytes = 8192"
    by (simp_all add: max_error_response_bytes_def)
  show "read_bounded_error_code r =
      (if is_finite (declared_length (resp_content_length r))
            \<and> num_gt (declared_length (resp_content_length r)) 8192
          \<or> length (concat (body_chunks b)) > 8192
       then Inr (Some response_too_large)
       else Inr (body_error_code (utf8_decode (concat (body_chunks b)))))"
    using read_bounded_small [OF assms, unfolded m] read_bounded_large [OF assms(1), unfolded m]
      read_bounded_declared [OF assms(1), unfolded m]
    by (auto simp: not_less)
qed (use read_bounded_error_code_length in blast)+

lemma error_code_of_bytes_witness:
  "read_bounded_error_code
     \<lparr>resp_ok = False, resp_status = 400, resp_content_length = Some (js ''9000''), resp_request_id = None,
      resp_body = Some \<lparr>body_chunks = [[123], [125]], body_failure = None\<rparr>\<rparr>
   = Inr (Some response_too_large)"
  by (subst error_code_of_bytes [THEN conjunct1, where b1 = "\<lparr>body_chunks = [[123], [125]], body_failure = None\<rparr>"])
    (simp_all add: declared_length_def number_of_text_def unsigned_decimal_def mk_double_def
      round_double_def round_normal_def round_half_even_def double_limit_def decimal_value_def
      exponent_part_def is_finite_def num_gt_def js_eval exp_up.simps exp_down.simps)

section \<open>Configuration and health\<close>

text \<open>A resolved environment is safe to run on: the ingress URL is https (or http to localhost),
  key id and secret are non-empty and trimmed, the secret is not a placeholder, and the size limit
  lies between 1 byte and 25 MiB.\<close>

theorem resolved_env_safe:
  assumes "resolve_env parse_url env_input = Inr env"
  shows "valid_env env"
  using assms by (rule resolve_env_valid)

lemma resolved_env_safe_witness: "valid_env demo_env"
  by (rule resolved_env_safe [OF demo_resolve])

text \<open>The health endpoint tells the truth: for a routable request it answers 200 exactly when
  the environment resolves, with configured = true, and 503 with the reason otherwise; every other
  path is 404.\<close>

theorem health_reports_configuration:
  assumes "parse_url request_url = Inr u"
  shows "\<exists>reply. fetch_entry parse_url request_url env_input = Inr reply
    \<and> (jr_status reply = 200 \<longleftrightarrow> url_pathname u \<in> {js ''/'', js ''/health''}
          \<and> (\<exists>env. resolve_env parse_url env_input = Inr env))
    \<and> (jr_status reply = 503 \<longleftrightarrow> url_pathname u \<in> {js ''/'', js ''/health''}
          \<and> (\<exists>e. resolve_env parse_url env_input = Inl e))
    \<and> (jr_status reply = 404 \<longleftrightarrow> url_pathname u \<notin> {js ''/'', js ''/health''})
    \<and> (jr_status reply = 200 \<longrightarrow> (\<exists>d. member_of (js ''data'') (jr_data reply) = Some d
          \<and> member_of (js ''configured'') d = Some (JBool True)))"
proof (cases "resolve_env parse_url env_input")
  case (Inl e)
  then show ?thesis using assms by (simp add: fetch_entry_def error_reply_def json_reply_def)
next
  case (Inr env)
  then have "ingress_key_id env \<noteq> []" "ingress_signing_secret env \<noteq> []"
    using resolve_env_valid by (auto simp: valid_env_def)
  then show ?thesis using assms Inr
    by (simp add: fetch_entry_def error_reply_def json_reply_def member_of_def)
qed

lemma health_reports_configuration_witness:
  "\<exists>reply. fetch_entry (\<lambda>_. Inr (demo_url\<lparr>url_pathname := js ''/health''\<rparr>)) [] demo_worker_env = Inr reply
     \<and> jr_status reply = 200"
proof -
  have "\<exists>env. resolve_env (\<lambda>_. Inr (demo_url\<lparr>url_pathname := js ''/health''\<rparr>)) demo_worker_env = Inr env"
    by (simp add: resolve_env_def demo_worker_env_def require_string_def
      require_secret_string_def validate_ingress_url_def is_local_http_def demo_url_def
      parse_max_raw_email_bytes_def default_max_raw_email_bytes_def normalize_prefix_def js_eval)
  then show ?thesis
    using health_reports_configuration [of "\<lambda>_. Inr (demo_url\<lparr>url_pathname := js ''/health''\<rparr>)" "[]"
        "demo_url\<lparr>url_pathname := js ''/health''\<rparr>" demo_worker_env] by auto
qed

text \<open>Routing: an address is routable exactly when, trimmed and in lower case, it has a non-empty
  part before its last @ and a non-empty part after it; the result is that split.\<close>

theorem routing_split:
  "parse_routing_address a = Inr r \<longleftrightarrow>
     (\<exists>l d. clean_address a = l @ 64 # d \<and> l \<noteq> [] \<and> d \<noteq> [] \<and> 64 \<notin> set d
        \<and> r = \<lparr>matched_address = clean_address a, local_part = l, domain = d\<rparr>)"
proof
  assume r: "parse_routing_address a = Inr r"
  note p = parse_routing_Inr [OF r]
  show "\<exists>l d. clean_address a = l @ 64 # d \<and> l \<noteq> [] \<and> d \<noteq> [] \<and> 64 \<notin> set d
        \<and> r = \<lparr>matched_address = clean_address a, local_part = l, domain = d\<rparr>"
    by (intro exI [of _ "local_part r"] exI [of _ "domain r"]) (use p in auto)
next
  assume "\<exists>l d. clean_address a = l @ 64 # d \<and> l \<noteq> [] \<and> d \<noteq> [] \<and> 64 \<notin> set d
        \<and> r = \<lparr>matched_address = clean_address a, local_part = l, domain = d\<rparr>"
  then show "parse_routing_address a = Inr r" by (auto simp: parse_routing_split)
qed

end
