(* ===== verification/JsValue.thy ===== *)
theory JsValue
  imports JsObject "HOL-Library.List_Lexorder" "HOL-Library.Multiset"
begin

text \<open>
  Dynamic JavaScript values as the web client handles them (response payloads, query parameters,
  rejected errors), with the coercions its sources apply: truthiness, \<open>String(v)\<close>, optional property
  access, and the parameter serialisation \<open>stableStringify\<close> of web/src/api/core.ts. A number is
  represented by the text \<open>String\<close> gives for it.
\<close>

section \<open>Values\<close>

datatype jsval =
    Undefined
  | Null
  | Boolean bool
  | Number jstr
  | Text jstr
  | Array "jsval list"
  | Object "(jstr \<times> jsval) list"

fun truthy :: "jsval \<Rightarrow> bool" where
  "truthy Undefined = False"
| "truthy Null = False"
| "truthy (Boolean b) = b"
| "truthy (Number t) = (t \<noteq> js ''0'' \<and> t \<noteq> js ''NaN'')"
| "truthy (Text t) = (t \<noteq> [])"
| "truthy (Array vs) = True"
| "truthy (Object ms) = True"

definition or_else :: "jsval \<Rightarrow> jsval \<Rightarrow> jsval" where
  "or_else v d = (if truthy v then v else d)"

text \<open>\<open>v?.k\<close> for the names the sources read (none of them a property of the built-in prototypes).\<close>

definition field :: "jstr \<Rightarrow> jsval \<Rightarrow> jsval" where
  "field k v =
     (case v of
        Object ms \<Rightarrow> (case map_of (rev ms) k of Some w \<Rightarrow> w | None \<Rightarrow> Undefined)
      | _ \<Rightarrow> Undefined)"

fun is_object :: "jsval \<Rightarrow> bool" where
  "is_object (Array vs) = True"
| "is_object (Object ms) = True"
| "is_object _ = False"

fun string_of :: "jsval \<Rightarrow> jstr" where
  "string_of Undefined = js ''undefined''"
| "string_of Null = js ''null''"
| "string_of (Boolean b) = (if b then js ''true'' else js ''false'')"
| "string_of (Number t) = t"
| "string_of (Text t) = t"
| "string_of (Array vs) =
     join [44] (map (\<lambda>v. if v = Undefined \<or> v = Null then [] else string_of v) vs)"
| "string_of (Object ms) = js ''[object Object]''"

definition text_or_none :: "jsval \<Rightarrow> jstr option" where
  "text_or_none v = (case v of Text t \<Rightarrow> Some t | _ \<Rightarrow> None)"

section \<open>Parameter serialisation\<close>

text \<open>The members are printed and then put in the order of their keys (by UTF-16 units).\<close>

fun stable_stringify :: "jsval \<Rightarrow> jstr" where
  "stable_stringify Undefined = []"
| "stable_stringify Null = []"
| "stable_stringify (Boolean b) = string_of (Boolean b)"
| "stable_stringify (Number t) = t"
| "stable_stringify (Text t) = t"
| "stable_stringify (Array vs) = 91 # join [44] (map stable_stringify vs) @ [93]"
| "stable_stringify (Object ms) =
     123 # join [44] (map snd (sort_key fst (map (\<lambda>(k, v). (k, k @ 58 # stable_stringify v)) ms))) @ [125]"

section \<open>The order of the keys does not matter\<close>

lemma sort_key_perm:
  assumes "mset xs = mset ys" "distinct (map f xs)"
  shows "sort_key f xs = sort_key f ys"
proof -
  have "inj_on f (set xs)" using assms(2) by (simp add: distinct_map)
  moreover have "mset xs = mset (sort_key f ys)" using assms(1) by simp
  ultimately show ?thesis by (intro sort_key_inj_key_eq) auto
qed

definition member_texts :: "(jstr \<times> jsval) list \<Rightarrow> (jstr \<times> jstr) list" where
  "member_texts ms = map (\<lambda>(k, v). (k, k @ 58 # stable_stringify v)) ms"

lemma stable_Object:
  "stable_stringify (Object ms) = 123 # join [44] (map snd (sort_key fst (member_texts ms))) @ [125]"
  by (simp add: member_texts_def)

lemma member_texts_keys: "map fst (member_texts ms) = map fst ms"
  by (simp add: member_texts_def case_prod_beta)

lemma stable_perm:
  assumes "mset ms = mset ns" "distinct (map fst ms)"
  shows "stable_stringify (Object ms) = stable_stringify (Object ns)"
proof -
  have "mset (member_texts ms) = mset (member_texts ns)"
    using assms(1) by (simp add: member_texts_def)
  then have "sort_key fst (member_texts ms) = sort_key fst (member_texts ns)"
    using assms(2) by (intro sort_key_perm) (simp_all add: member_texts_keys)
  then show ?thesis by (simp only: stable_Object)
qed

text \<open>Two values with the same members in another order, at any depth.\<close>

inductive reordered :: "jsval \<Rightarrow> jsval \<Rightarrow> bool" where
  same: "reordered v v"
| array: "list_all2 reordered vs ws \<Longrightarrow> reordered (Array vs) (Array ws)"
| members: "list_all2 (\<lambda>m n. fst m = fst n \<and> reordered (snd m) (snd n)) ms ns
            \<Longrightarrow> reordered (Object ms) (Object ns)"
| order: "mset ms = mset ns \<Longrightarrow> distinct (map fst ms) \<Longrightarrow> reordered (Object ms) (Object ns)"
| trans: "reordered u v \<Longrightarrow> reordered v w \<Longrightarrow> reordered u w"

lemma stable_reordered: "reordered v w \<Longrightarrow> stable_stringify v = stable_stringify w"
proof (induction rule: reordered.induct)
  case (array vs ws)
  then have "map stable_stringify vs = map stable_stringify ws"
    by (induction rule: list_all2_induct) auto
  then show ?case by simp
next
  case (members ms ns)
  then have "member_texts ms = member_texts ns"
    by (induction rule: list_all2_induct) (auto simp: member_texts_def)
  then show ?case by (simp only: stable_Object)
next
  case (order ms ns)
  then show ?case by (rule stable_perm)
qed simp_all

end
