(* ===== verification/Machine.thy ===== *)
theory Machine
  imports Main
begin

text \<open>
  State machines: runs and reachable states of a labelled step relation, and the contract by which
  a component gives an invariant of its machine.
\<close>

inductive run :: "('s \<Rightarrow> 'e \<Rightarrow> 's \<Rightarrow> bool) \<Rightarrow> 's \<Rightarrow> 'e list \<Rightarrow> 's \<Rightarrow> bool" for step where
  run_Nil: "run step s [] s"
| run_Cons: "step s e t \<Longrightarrow> run step t es u \<Longrightarrow> run step s (e # es) u"

inductive_simps run_Nil_iff [simp]: "run step s [] t"
inductive_simps run_Cons_iff [simp]: "run step s (e # es) t"

definition reach :: "('s \<Rightarrow> bool) \<Rightarrow> ('s \<Rightarrow> 'e \<Rightarrow> 's \<Rightarrow> bool) \<Rightarrow> 's \<Rightarrow> bool" where
  "reach start step t \<longleftrightarrow> (\<exists>s es. start s \<and> run step s es t)"

lemma reach_start: "start s \<Longrightarrow> reach start step s"
  unfolding reach_def using run_Nil [of step s] by blast

lemma run_append: "run step s es t \<Longrightarrow> run step t fs u \<Longrightarrow> run step s (es @ fs) u"
  by (induction rule: run.induct) auto

lemma run_snoc: "run step s es t \<Longrightarrow> step t e u \<Longrightarrow> run step s (es @ [e]) u"
  by (erule run_append) simp

lemma reach_run: "reach start step s \<Longrightarrow> run step s es t \<Longrightarrow> reach start step t"
  unfolding reach_def using run_append by metis

lemma reach_step: "reach start step s \<Longrightarrow> step s e t \<Longrightarrow> reach start step t"
  by (erule reach_run [where es = "[e]"]) simp

lemma reach_steps3: "start s \<Longrightarrow> step s e1 t \<Longrightarrow> step t e2 u \<Longrightarrow> step u e3 v \<Longrightarrow> reach start step v"
  unfolding reach_def using run_Cons run_Nil by metis

text \<open>Requests under way: an answer takes its request out of the list.\<close>

lemma remove1_only: "length xs = 1 \<Longrightarrow> c \<in> set xs \<Longrightarrow> remove1 c xs = []"
  by (cases xs) auto

lemma filter_remove1_other: "\<not> P c \<Longrightarrow> filter P (remove1 c xs) = filter P xs"
  by (induction xs) auto

lemma filter_remove1_call:
  "length (filter P xs) = Suc 0 \<Longrightarrow> c \<in> set xs \<Longrightarrow> P c \<Longrightarrow> filter P (remove1 c xs) = []"
  by (subst filter_remove1, rule remove1_only) simp_all

lemma count_remove1:
  "c \<in> set xs \<Longrightarrow> length (filter P (remove1 c xs)) = (if P c then length (filter P xs) - 1 else length (filter P xs))"
  by (simp add: filter_remove1 length_remove1 filter_remove1_other)

lemma proper_remove1: "list_all P xs \<Longrightarrow> list_all P (remove1 c xs)"
  by (auto simp: list_all_iff dest: set_remove1_subset [THEN subsetD])

definition one_if :: "bool \<Rightarrow> nat" where
  "one_if b = (if b then 1 else 0)"

text \<open>A button that is busy exactly while one request of its operation is under way.\<close>

definition busy_with :: "('c \<Rightarrow> bool) \<Rightarrow> bool \<Rightarrow> 'c list \<Rightarrow> bool" where
  "busy_with P b cs \<longleftrightarrow> length (filter P cs) = one_if b"

lemma busy_begin: "busy_with P False cs \<Longrightarrow> P c \<Longrightarrow> busy_with P True (c # cs)"
  by (simp add: busy_with_def one_if_def)

lemma busy_other [simp]:
  "\<not> P c \<Longrightarrow> busy_with P b (c # cs) = busy_with P b cs"
  "\<not> P c \<Longrightarrow> busy_with P b (remove1 c cs) = busy_with P b cs"
  by (simp_all add: busy_with_def filter_remove1_other)

lemma busy_end: "busy_with P b cs \<Longrightarrow> c \<in> set cs \<Longrightarrow> P c \<Longrightarrow> busy_with P False (remove1 c cs)"
  by (cases b) (auto simp: busy_with_def one_if_def filter_remove1_call filter_empty_conv)

lemma busy_flag: "busy_with P b cs \<Longrightarrow> c \<in> set cs \<Longrightarrow> P c \<Longrightarrow> b"
  by (cases b) (auto simp: busy_with_def one_if_def filter_empty_conv)

lemma busy_next: "busy_with P b cs \<Longrightarrow> c \<in> set cs \<Longrightarrow> P c \<Longrightarrow> P d \<Longrightarrow> busy_with P b (d # remove1 c cs)"
  using busy_flag [of P b cs c] busy_begin [OF busy_end, of P b cs c d] by simp

locale machine_invariant =
  fixes start :: "'s \<Rightarrow> bool"
    and step :: "'s \<Rightarrow> 'e \<Rightarrow> 's \<Rightarrow> bool"
    and inv :: "'s \<Rightarrow> bool"
  assumes inv_start: "start s \<Longrightarrow> inv s"
    and inv_step: "inv s \<Longrightarrow> step s e t \<Longrightarrow> inv t"
begin

lemma inv_run: "run step s es t \<Longrightarrow> inv s \<Longrightarrow> inv t"
  by (induction rule: run.induct) (auto intro: inv_step)

lemma inv_reach: "reach start step s \<Longrightarrow> inv s"
  unfolding reach_def using inv_start inv_run by blast

end

end
