(* ===== verification/ApiRuntime.thy ===== *)
theory ApiRuntime
  imports JsValue Machine
begin

text \<open>
  The GET runtime of the web client (web/src/api/core.ts): the response cache, the table of pending
  requests that concurrent callers share, and the epoch that separates requests started before a
  session change or a mutation from those started after it. The promises are numbered in the order
  in which the requests start; \<open>rt_flights\<close> records for each what its callbacks close over and how
  far it has come. The callbacks \<open>then\<close> and \<open>finally\<close> are separate steps, so every interleaving of
  requests, responses, resets and mutations is a run of the machine.
\<close>

section \<open>State\<close>

record api_response =
  ar_code :: jstr
  ar_data :: jsval
  ar_message :: "jstr option"

record cache_entry =
  ce_expires :: int
  ce_value :: api_response

datatype flight_phase = InFlight | Settled | Done

record flight =
  fl_key :: jstr
  fl_epoch :: nat
  fl_cache_ms :: int
  fl_dedupe :: bool
  fl_response :: "api_response option"
  fl_phase :: flight_phase

record runtime =
  rt_epoch :: nat
  rt_cache :: "jstr \<Rightarrow> cache_entry option"
  rt_pending :: "jstr \<Rightarrow> nat option"
  rt_flights :: "flight list"

definition runtime_start :: "runtime \<Rightarrow> bool" where
  "runtime_start rt \<longleftrightarrow>
     rt = \<lparr>rt_epoch = 0, rt_cache = (\<lambda>_. None), rt_pending = (\<lambda>_. None), rt_flights = []\<rparr>"

section \<open>Operations\<close>

definition build_get_request_key :: "jstr \<Rightarrow> jsval \<Rightarrow> jstr" where
  "build_get_request_key url params = url @ js ''?'' @ stable_stringify params"

definition pending_key :: "nat \<Rightarrow> jstr \<Rightarrow> jstr" where
  "pending_key epoch key = nat_str epoch @ js '':'' @ key"

definition reset_api_runtime_state :: "runtime \<Rightarrow> runtime" where
  "reset_api_runtime_state rt =
     rt\<lparr>rt_epoch := rt_epoch rt + 1, rt_cache := (\<lambda>_. None), rt_pending := (\<lambda>_. None)\<rparr>"

definition invalidate_get_cache :: "jstr list option \<Rightarrow> runtime \<Rightarrow> runtime" where
  "invalidate_get_cache prefs rt =
     (case prefs of
        None \<Rightarrow> rt
      | Some ps \<Rightarrow>
          if ps = [] then rt
          else rt\<lparr>rt_epoch := rt_epoch rt + 1,
                  rt_cache := (\<lambda>key. if list_ex (starts_with key) ps then None else rt_cache rt key),
                  rt_pending := (\<lambda>_. None)\<rparr>)"

datatype get_result = CachedValue api_response | PromiseOf nat

definition start_or_share :: "jstr \<Rightarrow> bool \<Rightarrow> int \<Rightarrow> runtime \<Rightarrow> get_result \<times> runtime" where
  "start_or_share key dedupe cache_ms rt =
     (let pk = pending_key (rt_epoch rt) key
      in case (if dedupe then rt_pending rt pk else None) of
           Some promise \<Rightarrow> (PromiseOf promise, rt)
         | None \<Rightarrow>
             (let promise = length (rt_flights rt);
                  f = \<lparr>fl_key = key, fl_epoch = rt_epoch rt, fl_cache_ms = cache_ms,
                       fl_dedupe = dedupe, fl_response = None, fl_phase = InFlight\<rparr>
              in (PromiseOf promise,
                  rt\<lparr>rt_flights := rt_flights rt @ [f],
                     rt_pending := if dedupe then (rt_pending rt)(pk \<mapsto> promise)
                                   else rt_pending rt\<rparr>)))"

text \<open>\<open>now\<close> is the value of \<open>Date.now()\<close> when the call (the callback) runs.\<close>

definition request_get ::
  "jstr \<Rightarrow> jsval \<Rightarrow> bool \<Rightarrow> int \<Rightarrow> int \<Rightarrow> runtime \<Rightarrow> get_result \<times> runtime" where
  "request_get url params dedupe cache_ms now rt =
     (let key = build_get_request_key url params;
          cached = (if cache_ms > 0 then rt_cache rt key else None)
      in case cached of
           Some e \<Rightarrow>
             if ce_expires e > now then (CachedValue (ce_value e), rt)
             else start_or_share key dedupe cache_ms (rt\<lparr>rt_cache := (rt_cache rt)(key := None)\<rparr>)
         | None \<Rightarrow> start_or_share key dedupe cache_ms rt)"

definition on_response :: "nat \<Rightarrow> api_response \<Rightarrow> int \<Rightarrow> runtime \<Rightarrow> runtime" where
  "on_response promise response now rt =
     (let f = rt_flights rt ! promise
      in rt\<lparr>rt_flights := (rt_flights rt)[promise := f\<lparr>fl_response := Some response, fl_phase := Settled\<rparr>],
            rt_cache := if fl_cache_ms f > 0 \<and> fl_epoch f = rt_epoch rt
                        then (rt_cache rt)(fl_key f \<mapsto>
                               \<lparr>ce_expires = now + fl_cache_ms f, ce_value = response\<rparr>)
                        else rt_cache rt\<rparr>)"

definition on_failure :: "nat \<Rightarrow> runtime \<Rightarrow> runtime" where
  "on_failure promise rt =
     rt\<lparr>rt_flights := (rt_flights rt)[promise := (rt_flights rt ! promise)\<lparr>fl_phase := Settled\<rparr>]\<rparr>"

definition on_finally :: "nat \<Rightarrow> runtime \<Rightarrow> runtime" where
  "on_finally promise rt =
     (let f = rt_flights rt ! promise; pk = pending_key (fl_epoch f) (fl_key f)
      in rt\<lparr>rt_flights := (rt_flights rt)[promise := f\<lparr>fl_phase := Done\<rparr>],
            rt_pending := if rt_pending rt pk = Some promise then (rt_pending rt)(pk := None)
                          else rt_pending rt\<rparr>)"

section \<open>The machine\<close>

datatype rt_event =
    StartGet jstr jsval bool int int
  | Response nat api_response int
  | Failure nat
  | Finally nat
  | ResetRuntime
  | Mutated "jstr list option"

inductive rt_step :: "runtime \<Rightarrow> rt_event \<Rightarrow> runtime \<Rightarrow> bool" where
  start_get: "request_get url params dedupe cache_ms now rt = (res, rt')
     \<Longrightarrow> rt_step rt (StartGet url params dedupe cache_ms now) rt'"
| response: "promise < length (rt_flights rt) \<Longrightarrow> fl_phase (rt_flights rt ! promise) = InFlight
     \<Longrightarrow> rt_step rt (Response promise r now) (on_response promise r now rt)"
| failure: "promise < length (rt_flights rt) \<Longrightarrow> fl_phase (rt_flights rt ! promise) = InFlight
     \<Longrightarrow> rt_step rt (Failure promise) (on_failure promise rt)"
| settled: "promise < length (rt_flights rt) \<Longrightarrow> fl_phase (rt_flights rt ! promise) = Settled
     \<Longrightarrow> rt_step rt (Finally promise) (on_finally promise rt)"
| reset: "rt_step rt ResetRuntime (reset_api_runtime_state rt)"
| mutated: "rt_step rt (Mutated prefs) (invalidate_get_cache prefs rt)"

inductive_cases rt_stepE: "rt_step rt e rt'"

section \<open>Keys\<close>

lemma pending_key_inject: "pending_key e k = pending_key e' k' \<longleftrightarrow> e = e' \<and> k = k'"
proof -
  have d: "58 \<notin> set (nat_str n)" for n using nat_str_digits [of 58 n] by (auto simp: is_digit_def)
  show ?thesis by (simp add: pending_key_def js_def append_sep_inject [OF d d])
qed

section \<open>The invariant\<close>

definition cache_sound :: "runtime \<Rightarrow> bool" where
  "cache_sound rt \<longleftrightarrow> (\<forall>k e. rt_cache rt k = Some e \<longrightarrow>
     (\<exists>i < length (rt_flights rt). fl_key (rt_flights rt ! i) = k
        \<and> fl_response (rt_flights rt ! i) = Some (ce_value e)))"

definition pending_sound :: "runtime \<Rightarrow> bool" where
  "pending_sound rt \<longleftrightarrow> (\<forall>pk i. rt_pending rt pk = Some i \<longrightarrow>
     i < length (rt_flights rt) \<and> pk = pending_key (rt_epoch rt) (fl_key (rt_flights rt ! i))
     \<and> fl_epoch (rt_flights rt ! i) = rt_epoch rt \<and> fl_phase (rt_flights rt ! i) \<noteq> Done)"

definition pending_complete :: "runtime \<Rightarrow> bool" where
  "pending_complete rt \<longleftrightarrow> (\<forall>i < length (rt_flights rt).
     fl_dedupe (rt_flights rt ! i) \<and> fl_phase (rt_flights rt ! i) \<noteq> Done
       \<and> fl_epoch (rt_flights rt ! i) = rt_epoch rt
     \<longrightarrow> rt_pending rt (pending_key (rt_epoch rt) (fl_key (rt_flights rt ! i))) = Some i)"

definition epochs_bounded :: "runtime \<Rightarrow> bool" where
  "epochs_bounded rt \<longleftrightarrow> (\<forall>f \<in> set (rt_flights rt). fl_epoch f \<le> rt_epoch rt)"

definition runtime_inv :: "runtime \<Rightarrow> bool" where
  "runtime_inv rt \<longleftrightarrow> cache_sound rt \<and> pending_sound rt \<and> pending_complete rt \<and> epochs_bounded rt"

lemmas runtime_inv_defs = runtime_inv_def cache_sound_def pending_sound_def pending_complete_def
  epochs_bounded_def

lemma cache_sound_ext:
  assumes "cache_sound rt"
    and "\<And>k e. rt_cache rt' k = Some e \<Longrightarrow> rt_cache rt k = Some e"
    and "length (rt_flights rt) \<le> length (rt_flights rt')"
    and "\<And>i. i < length (rt_flights rt) \<Longrightarrow>
      fl_key (rt_flights rt' ! i) = fl_key (rt_flights rt ! i)
      \<and> (fl_response (rt_flights rt ! i) \<noteq> None \<longrightarrow>
          fl_response (rt_flights rt' ! i) = fl_response (rt_flights rt ! i))"
  shows "cache_sound rt'"
  using assms unfolding cache_sound_def by (metis less_le_trans option.distinct(1))

text \<open>A new epoch: no pending entry survives, and every flight belongs to an earlier epoch.\<close>

lemma inv_new_epoch:
  assumes "runtime_inv rt" "\<And>k e. c k = Some e \<Longrightarrow> rt_cache rt k = Some e"
  shows "runtime_inv (rt\<lparr>rt_epoch := rt_epoch rt + 1, rt_cache := c, rt_pending := (\<lambda>_. None)\<rparr>)"
    (is "runtime_inv ?rt")
proof -
  have e: "fl_epoch (rt_flights rt ! i) \<le> rt_epoch rt" if "i < length (rt_flights rt)" for i
    using assms(1) that by (simp add: runtime_inv_def epochs_bounded_def)
  have "cache_sound ?rt"
    by (rule cache_sound_ext [of rt]) (use assms in \<open>simp_all add: runtime_inv_def\<close>)
  moreover have "pending_sound ?rt" by (simp add: pending_sound_def)
  moreover have "pending_complete ?rt" using e by (fastforce simp: pending_complete_def)
  moreover have "epochs_bounded ?rt"
    using assms(1) by (simp add: runtime_inv_def epochs_bounded_def) (metis le_SucI)
  ultimately show ?thesis by (simp add: runtime_inv_def)
qed

lemma inv_reset: "runtime_inv rt \<Longrightarrow> runtime_inv (reset_api_runtime_state rt)"
  unfolding reset_api_runtime_state_def by (erule inv_new_epoch) simp

lemma inv_invalidate:
  assumes "runtime_inv rt"
  shows "runtime_inv (invalidate_get_cache ps rt)"
proof -
  have "runtime_inv (rt\<lparr>rt_epoch := rt_epoch rt + 1,
      rt_cache := (\<lambda>key. if list_ex (starts_with key) p then None else rt_cache rt key),
      rt_pending := (\<lambda>_. None)\<rparr>)" for p
    by (rule inv_new_epoch [OF assms]) (simp split: if_splits)
  then show ?thesis using assms by (simp add: invalidate_get_cache_def split: option.split)
qed

lemma inv_drop_cache: "runtime_inv rt \<Longrightarrow> runtime_inv (rt\<lparr>rt_cache := (rt_cache rt)(k := None)\<rparr>)"
  by (simp add: runtime_inv_defs)

lemma inv_start_or_share:
  assumes "runtime_inv rt" "start_or_share key dedupe cache_ms rt = (res, rt')"
  shows "runtime_inv rt'"
proof -
  have "cache_sound rt'"
    by (rule cache_sound_ext [of rt])
      (use assms in \<open>auto simp: runtime_inv_def start_or_share_def Let_def nth_append
        split: option.splits if_splits\<close>)
  moreover have "pending_sound rt' \<and> pending_complete rt' \<and> epochs_bounded rt'"
    using assms
    by (auto simp: runtime_inv_def pending_sound_def pending_complete_def epochs_bounded_def
        start_or_share_def Let_def nth_append pending_key_inject less_Suc_eq
        split: option.splits if_splits)
  ultimately show ?thesis by (simp add: runtime_inv_def)
qed

lemma inv_request_get:
  assumes "runtime_inv rt" "request_get url params dedupe cache_ms now rt = (res, rt')"
  shows "runtime_inv rt'"
  using assms
  by (auto simp: request_get_def Let_def split: option.splits if_splits
      intro: inv_start_or_share inv_start_or_share [OF inv_drop_cache])

lemma inv_on_response:
  assumes "runtime_inv rt" "i < length (rt_flights rt)" "fl_phase (rt_flights rt ! i) = InFlight"
    "fl_response (rt_flights rt ! i) = None"
  shows "runtime_inv (on_response i r now rt)"
proof -
  let ?rt = "on_response i r now rt"
  have "cache_sound (?rt\<lparr>rt_cache := rt_cache rt\<rparr>)"
    by (rule cache_sound_ext [of rt])
      (use assms in \<open>auto simp: runtime_inv_def on_response_def Let_def nth_list_update\<close>)
  then have "cache_sound ?rt"
    using assms(2) by (auto simp: cache_sound_def on_response_def Let_def nth_list_update split: if_splits)
  moreover have "pending_sound ?rt" "pending_complete ?rt"
    using assms
    by (auto simp: runtime_inv_def pending_sound_def pending_complete_def on_response_def Let_def
        nth_list_update split: if_splits)
  moreover have "epochs_bounded ?rt"
    using assms(1,2)
    by (auto simp: runtime_inv_def epochs_bounded_def on_response_def Let_def dest!: set_update_subset_insert [THEN subsetD])
  ultimately show ?thesis by (simp add: runtime_inv_def)
qed

lemma inv_on_failure:
  assumes "runtime_inv rt" "i < length (rt_flights rt)" "fl_phase (rt_flights rt ! i) = InFlight"
  shows "runtime_inv (on_failure i rt)"
proof -
  let ?rt = "on_failure i rt"
  have "cache_sound ?rt"
    by (rule cache_sound_ext [of rt])
      (use assms in \<open>auto simp: runtime_inv_def on_failure_def nth_list_update\<close>)
  moreover have "pending_sound ?rt" "pending_complete ?rt"
    using assms
    by (auto simp: runtime_inv_def pending_sound_def pending_complete_def on_failure_def
        nth_list_update split: if_splits)
  moreover have "epochs_bounded ?rt"
    using assms(1,2)
    by (auto simp: runtime_inv_def epochs_bounded_def on_failure_def dest!: set_update_subset_insert [THEN subsetD])
  ultimately show ?thesis by (simp add: runtime_inv_def)
qed

lemma inv_on_finally:
  assumes "runtime_inv rt" "i < length (rt_flights rt)"
  shows "runtime_inv (on_finally i rt)"
proof -
  let ?rt = "on_finally i rt"
  have "cache_sound ?rt"
    by (rule cache_sound_ext [of rt])
      (use assms in \<open>auto simp: runtime_inv_def on_finally_def Let_def nth_list_update\<close>)
  moreover have "pending_sound ?rt"
    unfolding pending_sound_def
  proof (intro allI impI)
    fix pk j assume j: "rt_pending ?rt pk = Some j"
    then have p: "rt_pending rt pk = Some j"
      by (auto simp: on_finally_def Let_def split: if_splits)
    then have old: "j < length (rt_flights rt)" "pk = pending_key (rt_epoch rt) (fl_key (rt_flights rt ! j))"
      "fl_epoch (rt_flights rt ! j) = rt_epoch rt" "fl_phase (rt_flights rt ! j) \<noteq> Done"
      using assms(1) by (simp_all add: runtime_inv_def pending_sound_def)
    have "j \<noteq> i"
    proof
      assume "j = i"
      then have "rt_pending ?rt pk = None \<or> rt_pending rt pk \<noteq> Some j"
        using old(2,3) by (simp add: on_finally_def Let_def)
      then show False using j p by simp
    qed
    then show "j < length (rt_flights ?rt) \<and> pk = pending_key (rt_epoch ?rt) (fl_key (rt_flights ?rt ! j))
        \<and> fl_epoch (rt_flights ?rt ! j) = rt_epoch ?rt \<and> fl_phase (rt_flights ?rt ! j) \<noteq> Done"
      using old by (simp add: on_finally_def Let_def)
  qed
  moreover have "pending_complete ?rt"
    unfolding pending_complete_def
  proof (intro allI impI)
    fix j
    assume j: "j < length (rt_flights ?rt)" and live: "fl_dedupe (rt_flights ?rt ! j)
      \<and> fl_phase (rt_flights ?rt ! j) \<noteq> Done \<and> fl_epoch (rt_flights ?rt ! j) = rt_epoch ?rt"
    have "j \<noteq> i" using j live by (auto simp: on_finally_def Let_def)
    then have "rt_pending rt (pending_key (rt_epoch rt) (fl_key (rt_flights rt ! j))) = Some j"
      using assms(1) j live by (simp add: runtime_inv_def pending_complete_def on_finally_def Let_def)
    with \<open>j \<noteq> i\<close> show "rt_pending ?rt (pending_key (rt_epoch ?rt) (fl_key (rt_flights ?rt ! j))) = Some j"
      by (auto simp: on_finally_def Let_def)
  qed
  moreover have "epochs_bounded ?rt"
    using assms(1,2)
    by (auto simp: runtime_inv_def epochs_bounded_def on_finally_def Let_def dest!: set_update_subset_insert [THEN subsetD])
  ultimately show ?thesis by (simp add: runtime_inv_def)
qed

text \<open>A flight in the air has no response yet.\<close>

definition unanswered :: "runtime \<Rightarrow> bool" where
  "unanswered rt \<longleftrightarrow> (\<forall>f \<in> set (rt_flights rt). fl_phase f = InFlight \<longrightarrow> fl_response f = None)"

lemma set_list_update_cases: "f \<in> set (xs[i := g]) \<Longrightarrow> f = g \<or> f \<in> set xs"
  using set_update_subset_insert [of xs i g] by blast

lemma start_or_share_flights:
  "start_or_share key dedupe ms rt = (res, rt') \<Longrightarrow>
   rt_flights rt' = rt_flights rt \<or>
   rt_flights rt' = rt_flights rt @ [\<lparr>fl_key = key, fl_epoch = rt_epoch rt, fl_cache_ms = ms,
                       fl_dedupe = dedupe, fl_response = None, fl_phase = InFlight\<rparr>]"
  by (auto simp: start_or_share_def Let_def split: option.splits if_splits)

lemma request_get_flights:
  "request_get url params dedupe ms now rt = (res, rt') \<Longrightarrow>
   rt_flights rt' = rt_flights rt \<or>
   rt_flights rt' = rt_flights rt @ [\<lparr>fl_key = build_get_request_key url params, fl_epoch = rt_epoch rt,
       fl_cache_ms = ms, fl_dedupe = dedupe, fl_response = None, fl_phase = InFlight\<rparr>]"
  by (auto simp: request_get_def Let_def dest!: start_or_share_flights split: option.splits if_splits)

lemma unanswered_step: "unanswered rt \<Longrightarrow> rt_step rt e rt' \<Longrightarrow> unanswered rt'"
  by (erule rt_stepE)
    (auto simp: unanswered_def on_response_def on_failure_def on_finally_def Let_def
      reset_api_runtime_state_def invalidate_get_cache_def
      dest!: set_list_update_cases request_get_flights split: option.splits)

interpretation runtime_machine:
  machine_invariant runtime_start rt_step "\<lambda>rt. runtime_inv rt \<and> unanswered rt"
proof
  fix rt assume "runtime_start rt"
  then show "runtime_inv rt \<and> unanswered rt"
    by (simp add: runtime_start_def runtime_inv_defs unanswered_def)
next
  fix rt e rt' assume i: "runtime_inv rt \<and> unanswered rt" and s: "rt_step rt e rt'"
  from s i have "runtime_inv rt'"
    by cases (auto intro: inv_request_get inv_on_failure inv_on_finally inv_reset inv_invalidate
        inv_on_response simp: unanswered_def)
  with i s show "runtime_inv rt' \<and> unanswered rt'" using unanswered_step by blast
qed

lemmas runtime_reach = runtime_machine.inv_reach [THEN conjunct1]

section \<open>Freshness\<close>

text \<open>
  What holds from a reset (or an invalidation) on: for the keys of interest, every cached value
  was received by a flight that started since, and every older flight belongs to an older epoch.
\<close>

definition fresh_from :: "nat \<Rightarrow> (jstr \<Rightarrow> bool) \<Rightarrow> runtime \<Rightarrow> bool" where
  "fresh_from n K rt \<longleftrightarrow> n \<le> length (rt_flights rt) \<and>
     (\<forall>i < n. fl_epoch (rt_flights rt ! i) < rt_epoch rt) \<and>
     (\<forall>k e. K k \<longrightarrow> rt_cache rt k = Some e \<longrightarrow>
        (\<exists>i. n \<le> i \<and> i < length (rt_flights rt) \<and> fl_key (rt_flights rt ! i) = k
           \<and> fl_response (rt_flights rt ! i) = Some (ce_value e)))"

lemma fresh_ext:
  assumes "fresh_from n K rt" "rt_epoch rt \<le> rt_epoch rt'"
    and "\<And>k e. rt_cache rt' k = Some e \<Longrightarrow> rt_cache rt k = Some e"
    and "length (rt_flights rt) \<le> length (rt_flights rt')"
    and "\<And>i. i < length (rt_flights rt) \<Longrightarrow>
      fl_key (rt_flights rt' ! i) = fl_key (rt_flights rt ! i)
      \<and> fl_epoch (rt_flights rt' ! i) = fl_epoch (rt_flights rt ! i)
      \<and> (fl_response (rt_flights rt ! i) \<noteq> None \<longrightarrow>
          fl_response (rt_flights rt' ! i) = fl_response (rt_flights rt ! i))"
  shows "fresh_from n K rt'"
  unfolding fresh_from_def
proof (intro conjI allI impI)
  show "n \<le> length (rt_flights rt')" using assms(1,4) by (simp add: fresh_from_def)
next
  fix i assume "i < n"
  then show "fl_epoch (rt_flights rt' ! i) < rt_epoch rt'"
    using assms(1,2) assms(5) [of i] by (simp add: fresh_from_def) (metis less_le_trans)
next
  fix k e assume "K k" "rt_cache rt' k = Some e"
  then obtain i where "n \<le> i" "i < length (rt_flights rt)" "fl_key (rt_flights rt ! i) = k"
    "fl_response (rt_flights rt ! i) = Some (ce_value e)"
    using assms(1) assms(3) [of k e] unfolding fresh_from_def by metis
  then show "\<exists>i. n \<le> i \<and> i < length (rt_flights rt') \<and> fl_key (rt_flights rt' ! i) = k
      \<and> fl_response (rt_flights rt' ! i) = Some (ce_value e)"
    using assms(4) assms(5) [of i] by (intro exI [of _ i]) auto
qed

lemma request_get_cache:
  "request_get url params dedupe ms now rt = (res, rt') \<Longrightarrow>
   rt_epoch rt' = rt_epoch rt \<and> (\<forall>k e. rt_cache rt' k = Some e \<longrightarrow> rt_cache rt k = Some e)"
  by (auto simp: request_get_def start_or_share_def Let_def split: option.splits if_splits)

lemma fresh_response:
  assumes "fresh_from n K rt" "i < length (rt_flights rt)"
    "fl_phase (rt_flights rt ! i) = InFlight" "fl_response (rt_flights rt ! i) = None"
  shows "fresh_from n K (on_response i r now rt)"
proof -
  let ?rt = "on_response i r now rt"
  have f: "fresh_from n K (?rt\<lparr>rt_cache := rt_cache rt\<rparr>)"
    by (rule fresh_ext [OF assms(1)])
      (use assms(2-4) in \<open>auto simp: on_response_def Let_def nth_list_update\<close>)
  show ?thesis
  proof (cases "fl_cache_ms (rt_flights rt ! i) > 0 \<and> fl_epoch (rt_flights rt ! i) = rt_epoch rt")
    case True
    then have "n \<le> i" using assms(1) by (metis fresh_from_def less_irrefl not_less)
    then show ?thesis
      using f assms(2) True by (auto simp: fresh_from_def on_response_def Let_def)
  next
    case False
    then have "?rt\<lparr>rt_cache := rt_cache rt\<rparr> = ?rt" by (auto simp: on_response_def Let_def)
    with f show ?thesis by simp
  qed
qed

lemma fresh_step:
  assumes "fresh_from n K rt" "unanswered rt" "rt_step rt e rt'"
  shows "fresh_from n K rt'"
  using assms(3)
proof cases
  case (start_get url params dedupe cache_ms now res)
  note fl = request_get_flights [OF start_get(2)] and ca = request_get_cache [OF start_get(2)]
  show ?thesis
    by (rule fresh_ext [OF assms(1)]) (use fl ca in \<open>auto simp: nth_append\<close>)
next
  case (response i r now)
  then show ?thesis using assms fresh_response by (simp add: unanswered_def)
next
  case (failure i)
  show ?thesis
    by (rule fresh_ext [OF assms(1)]) (use failure in \<open>auto simp: on_failure_def nth_list_update\<close>)
next
  case (settled i)
  show ?thesis
    by (rule fresh_ext [OF assms(1)])
      (use settled in \<open>auto simp: on_finally_def Let_def nth_list_update\<close>)
next
  case reset
  show ?thesis
    by (rule fresh_ext [OF assms(1)]) (use reset in \<open>auto simp: reset_api_runtime_state_def\<close>)
next
  case (mutated prefs)
  show ?thesis
    by (rule fresh_ext [OF assms(1)])
      (use mutated in \<open>auto simp: invalidate_get_cache_def split: option.splits if_splits\<close>)
qed

lemma fresh_run:
  "run rt_step rt es rt' \<Longrightarrow> fresh_from n K rt \<Longrightarrow> unanswered rt \<Longrightarrow> fresh_from n K rt'"
  by (induction rule: run.induct) (auto dest: fresh_step unanswered_step)

lemma fresh_new_epoch:
  assumes "runtime_inv rt" "rt_epoch rt < rt_epoch rt'" "rt_flights rt' = rt_flights rt"
    and "\<And>k. K k \<Longrightarrow> rt_cache rt' k = None"
  shows "fresh_from (length (rt_flights rt)) K rt'"
  using assms by (auto simp: fresh_from_def runtime_inv_def epochs_bounded_def intro: le_less_trans)

lemma fresh_get:
  assumes "runtime_inv rt" "fresh_from n K rt" "K (build_get_request_key url params)"
    and "request_get url params dedupe ms now rt = (res, rt')"
  shows "case res of
      CachedValue v \<Rightarrow> (\<exists>i \<ge> n. i < length (rt_flights rt)
        \<and> fl_key (rt_flights rt ! i) = build_get_request_key url params
        \<and> fl_response (rt_flights rt ! i) = Some v)
    | PromiseOf i \<Rightarrow> n \<le> i"
proof -
  let ?k = "build_get_request_key url params"
  have p: "n \<le> i" if "rt_pending rt pk = Some i" for pk i
  proof (rule ccontr)
    assume "\<not> n \<le> i"
    then have "fl_epoch (rt_flights rt ! i) < rt_epoch rt"
      using assms(2) by (simp add: fresh_from_def)
    then show False using assms(1) that by (auto simp: runtime_inv_def pending_sound_def)
  qed
  have l: "n \<le> length (rt_flights rt)" using assms(2) by (simp add: fresh_from_def)
  show ?thesis
  proof (cases res)
    case (CachedValue v)
    then obtain e where "rt_cache rt ?k = Some e" "v = ce_value e"
      using assms(4) by (auto simp: request_get_def start_or_share_def Let_def
          split: option.splits if_splits)
    then show ?thesis using assms(2,3) CachedValue by (auto simp: fresh_from_def)
  next
    case (PromiseOf i)
    then have "i = length (rt_flights rt) \<or> (\<exists>pk. rt_pending rt pk = Some i)"
      using assms(4) by (auto simp: request_get_def start_or_share_def Let_def
          split: option.splits if_splits)
    then show ?thesis using p l PromiseOf by auto
  qed
qed

text \<open>The two facts about calls that the theorems on the client and on the endpoints share.\<close>

lemma invalidate_fresh_get:
  assumes "reach runtime_start rt_step rt" "p \<in> set ps"
    and "run rt_step (invalidate_get_cache (Some ps) rt) es rt1"
    and "prefix p (build_get_request_key url params)"
    and "request_get url params dedupe ms now rt1 = (res, rt2)"
  shows "case res of
      CachedValue v \<Rightarrow> (\<exists>i \<ge> length (rt_flights rt). i < length (rt_flights rt1)
        \<and> fl_key (rt_flights rt1 ! i) = build_get_request_key url params
        \<and> fl_response (rt_flights rt1 ! i) = Some v)
    | PromiseOf i \<Rightarrow> length (rt_flights rt) \<le> i"
proof -
  let ?rt0 = "invalidate_get_cache (Some ps) rt"
  have ne: "ps \<noteq> []" using assms(2) by auto
  have r0: "reach runtime_start rt_step ?rt0" by (rule reach_step [OF assms(1) rt_step.mutated])
  have r1: "reach runtime_start rt_step rt1" by (rule reach_run [OF r0 assms(3)])
  have "fresh_from (length (rt_flights rt)) (prefix p) ?rt0"
    by (rule fresh_new_epoch [OF runtime_reach [OF assms(1)]])
      (use ne assms(2) in \<open>auto simp: invalidate_get_cache_def list_ex_iff starts_with_def\<close>)
  moreover have "unanswered ?rt0" using runtime_machine.inv_reach [OF r0] by simp
  ultimately have "fresh_from (length (rt_flights rt)) (prefix p) rt1"
    using fresh_run [OF assms(3)] by blast
  then show ?thesis using fresh_get [OF runtime_reach [OF r1] _ _ assms(5)] assms(4) by blast
qed

lemma pending_entry:
  assumes "reach runtime_start rt_step rt" "i < length (rt_flights rt)"
    and "fl_dedupe (rt_flights rt ! i)" "fl_phase (rt_flights rt ! i) \<noteq> Done"
    and "fl_epoch (rt_flights rt ! i) = rt_epoch rt"
  shows "rt_pending rt (pending_key (rt_epoch rt) (fl_key (rt_flights rt ! i))) = Some i"
  using runtime_reach [OF assms(1)] assms(2-5)
  by (simp add: runtime_inv_def pending_complete_def)

end
