(* ===== verification/AuthStores.thy ===== *)
theory AuthStores
  imports JsValue
begin

text \<open>
  The two session stores of the web client (web/src/stores/authStore.ts and mailboxAuthStore.ts)
  and the role and status helpers (web/src/utils/auth.ts). A stored object carries an identity,
  since the subscribers compare objects with \<open>!==\<close>. Both stores meet one contract,
  \<open>session_store\<close>.
\<close>

section \<open>Data\<close>

datatype admin_role = SUPER_ADMIN | ADMIN

record admin =
  adm_id :: int
  adm_username :: jstr
  adm_email :: "jstr option"
  adm_role :: admin_role
  adm_must_change_password :: "bool option"
  adm_two_factor_enabled :: "bool option"

record mailbox_user =
  mbu_id :: int
  mbu_username :: jstr
  mbu_email :: "jstr option"
  mbu_must_change_password :: "bool option"
  mbu_mailbox_ids :: "int list option"

text \<open>An object reference: which object it is and what it holds.\<close>

record 'a object_ref =
  ref_id :: nat
  ref_value :: 'a

record auth_state =
  as_admin :: "admin object_ref option"
  as_is_authenticated :: bool

record mailbox_auth_state =
  mas_mailbox_user :: "mailbox_user object_ref option"
  mas_is_authenticated :: bool

section \<open>Operations\<close>

definition auth_initial :: auth_state where
  "auth_initial = \<lparr>as_admin = None, as_is_authenticated = False\<rparr>"

definition set_auth :: "admin object_ref \<Rightarrow> auth_state \<Rightarrow> auth_state" where
  "set_auth a s = s\<lparr>as_admin := Some a, as_is_authenticated := True\<rparr>"

definition clear_auth :: "auth_state \<Rightarrow> auth_state" where
  "clear_auth s = s\<lparr>as_admin := None, as_is_authenticated := False\<rparr>"

definition mailbox_initial :: mailbox_auth_state where
  "mailbox_initial = \<lparr>mas_mailbox_user = None, mas_is_authenticated = False\<rparr>"

definition set_mailbox_auth :: "mailbox_user object_ref \<Rightarrow> mailbox_auth_state \<Rightarrow> mailbox_auth_state" where
  "set_mailbox_auth u s = s\<lparr>mas_mailbox_user := Some u, mas_is_authenticated := True\<rparr>"

definition clear_mailbox_auth :: "mailbox_auth_state \<Rightarrow> mailbox_auth_state" where
  "clear_mailbox_auth s = s\<lparr>mas_mailbox_user := None, mas_is_authenticated := False\<rparr>"

section \<open>The contract of a session store\<close>

locale session_store =
  fixes initial :: 's
    and login :: "'u object_ref \<Rightarrow> 's \<Rightarrow> 's"
    and logout :: "'s \<Rightarrow> 's"
    and user :: "'s \<Rightarrow> 'u object_ref option"
    and authed :: "'s \<Rightarrow> bool"
  assumes user_initial: "user initial = None" "\<not> authed initial"
    and user_login: "user (login u s) = Some u" "authed (login u s)"
    and user_logout: "user (logout s) = None" "\<not> authed (logout s)"
begin

definition consistent :: "'s \<Rightarrow> bool" where
  "consistent s \<longleftrightarrow> (authed s \<longleftrightarrow> user s \<noteq> None)"

text \<open>The condition under which a subscriber resets the request runtime.\<close>

definition identity_changed :: "'s \<Rightarrow> 's \<Rightarrow> bool" where
  "identity_changed s t \<longleftrightarrow> map_option ref_id (user s) \<noteq> map_option ref_id (user t) \<or> authed s \<noteq> authed t"

lemma consistent_ops: "consistent initial" "consistent (login u s)" "consistent (logout s)"
  by (simp_all add: consistent_def user_initial user_login user_logout)

lemma logout_changes: "consistent s \<Longrightarrow> identity_changed s (logout s) \<longleftrightarrow> authed s"
  by (auto simp: consistent_def identity_changed_def user_logout)

lemma login_changes:
  "identity_changed s (login u s) \<longleftrightarrow> \<not> authed s \<or> map_option ref_id (user s) \<noteq> Some (ref_id u)"
  by (auto simp: identity_changed_def user_login)

lemma unchanged_same_user:
  "\<not> identity_changed s t \<Longrightarrow> map_option ref_id (user s) = map_option ref_id (user t) \<and> authed s = authed t"
  by (simp add: identity_changed_def)

end

interpretation admin_store: session_store auth_initial set_auth clear_auth as_admin as_is_authenticated
  by unfold_locales (simp_all add: auth_initial_def set_auth_def clear_auth_def)

interpretation mailbox_store:
  session_store mailbox_initial set_mailbox_auth clear_mailbox_auth mas_mailbox_user mas_is_authenticated
  by unfold_locales (simp_all add: mailbox_initial_def set_mailbox_auth_def clear_mailbox_auth_def)

section \<open>Roles and status\<close>

datatype admin_status = ACTIVE | DISABLED

definition normalize_admin_role :: "jstr option \<Rightarrow> admin_role option" where
  "normalize_admin_role role =
     (let normalized = to_upper (case role of Some r \<Rightarrow> r | None \<Rightarrow> [])
      in if normalized = js ''SUPER_ADMIN'' then Some SUPER_ADMIN
         else if normalized = js ''ADMIN'' then Some ADMIN else None)"

definition is_super_admin :: "jstr option \<Rightarrow> bool" where
  "is_super_admin role \<longleftrightarrow> normalize_admin_role role = Some SUPER_ADMIN"

definition get_admin_role_label :: "jstr option \<Rightarrow> jstr" where
  "get_admin_role_label role =
     (if is_super_admin role then js ''admin.role.superAdmin'' else js ''admin.role.admin'')"

definition normalize_admin_status :: "jstr option \<Rightarrow> admin_status option" where
  "normalize_admin_status status =
     (let normalized = to_upper (case status of Some r \<Rightarrow> r | None \<Rightarrow> [])
      in if normalized = js ''ACTIVE'' then Some ACTIVE
         else if normalized = js ''DISABLED'' then Some DISABLED else None)"

definition get_admin_status_label :: "jstr option \<Rightarrow> jstr" where
  "get_admin_status_label status =
     (if normalize_admin_status status = Some ACTIVE then js ''admin.status.active''
      else js ''admin.status.disabled'')"

definition role_text :: "admin_role \<Rightarrow> jstr" where
  "role_text r = (case r of SUPER_ADMIN \<Rightarrow> js ''SUPER_ADMIN'' | ADMIN \<Rightarrow> js ''ADMIN'')"

lemma role_text_normal: "normalize_admin_role (Some (role_text r)) = Some r"
  by (cases r) (simp_all add: role_text_def normalize_admin_role_def js_eval)

lemma normalize_admin_role_Some:
  "normalize_admin_role role = Some r \<longleftrightarrow> to_upper (case role of Some t \<Rightarrow> t | None \<Rightarrow> []) = role_text r"
  by (cases r) (auto simp: normalize_admin_role_def role_text_def Let_def)

end
