(* ===== verification/ApiCore.thy ===== *)
theory ApiCore
  imports ApiRuntime AuthStores
begin

text \<open>
  The rest of web/src/api/core.ts: the response envelope, the request interceptor's request id, the
  response interceptor with its effect on the two session stores, and the subscriptions that reset
  the GET runtime when a session changes. The client state holds the runtime and both stores; an
  event of the client machine is a runtime event, a login or logout, or a failed response.
\<close>

section \<open>Envelopes\<close>

record api_error =
  ae_code :: jsval
  ae_details :: jsval
  ae_request_id :: jsval

definition ok_response :: "jsval \<Rightarrow> api_response" where
  "ok_response data = \<lparr>ar_code = js ''200'', ar_data = data, ar_message = None\<rparr>"

definition to_api_response :: "jsval \<Rightarrow> api_error + api_response" where
  "to_api_response payload =
     (case field (js ''success'') payload of
        Boolean True \<Rightarrow> Inr (ok_response (field (js ''data'') payload))
      | Boolean False \<Rightarrow>
          (let err = field (js ''error'') payload
           in Inl \<lparr>ae_code = or_else (field (js ''code'') err) (Text (js ''ERROR'')),
                   ae_details = field (js ''details'') err, ae_request_id = Undefined\<rparr>)
      | _ \<Rightarrow>
          (case field (js ''code'') payload of
             Number t \<Rightarrow> Inr \<lparr>ar_code = t, ar_data = field (js ''data'') payload,
                             ar_message = text_or_none (field (js ''message'') payload)\<rparr>
           | _ \<Rightarrow> Inr (ok_response payload)))"

section \<open>Request ids\<close>

text \<open>\<open>now36\<close> and \<open>random36\<close> are the base-36 texts of the clock and of a random number.\<close>

definition create_client_request_id :: "jstr \<Rightarrow> jstr \<Rightarrow> jstr" where
  "create_client_request_id now36 random36 =
     js ''web-'' @ now36 @ js ''-'' @ take 6 (drop 2 random36)"

definition add_request_id :: "jstr \<Rightarrow> jstr \<Rightarrow> jstr obj \<Rightarrow> jstr obj" where
  "add_request_id now36 random36 headers =
     (if get_key (js ''X-Request-Id'') headers \<in> {None, Some []}
         \<and> get_key (js ''x-request-id'') headers \<in> {None, Some []}
      then put_key (js ''X-Request-Id'') (create_client_request_id now36 random36) headers
      else headers)"

section \<open>Failed responses\<close>

record axios_response =
  axr_status :: int
  axr_data :: jsval
  axr_request_id :: "jstr option"

record axios_error =
  ax_code :: "jstr option"
  ax_message :: "jstr option"
  ax_response :: "axios_response option"
  ax_url :: "jstr option"

definition mailbox_portal_prefix :: jstr where
  "mailbox_portal_prefix = js ''/mail/api''"

definition url_includes :: "jstr option \<Rightarrow> jstr \<Rightarrow> bool" where
  "url_includes url part = (case url of None \<Rightarrow> False | Some u \<Rightarrow> js_includes u part)"

definition error_code_text :: "jsval \<Rightarrow> jstr" where
  "error_code_text payload =
     to_upper (string_of (or_else (field (js ''code'') (field (js ''error'') payload)) (Text [])))"

definition token_invalid_codes :: "jstr set" where
  "token_invalid_codes =
     {js ''UNAUTHORIZED'', js ''INVALID_TOKEN'', js ''TOKEN_EXPIRED'', js ''JWT_EXPIRED''}"

definition should_clear_auth_on_unauthorized :: "int \<Rightarrow> jsval \<Rightarrow> jstr option \<Rightarrow> bool" where
  "should_clear_auth_on_unauthorized status payload request_url =
     (if status \<noteq> 401 then False
      else if error_code_text payload \<in> token_invalid_codes then True
      else url_includes request_url (js ''/admin/auth/me''))"

definition should_redirect_mailbox_password_change :: "int \<Rightarrow> jsval \<Rightarrow> jstr option \<Rightarrow> bool" where
  "should_redirect_mailbox_password_change status payload request_url =
     (if status \<noteq> 403 \<or> \<not> url_includes request_url mailbox_portal_prefix then False
      else error_code_text payload = js ''PASSWORD_CHANGE_REQUIRED'')"

section \<open>The client state\<close>

record client =
  cl_runtime :: runtime
  cl_auth :: auth_state
  cl_mailbox :: mailbox_auth_state
  cl_next_ref :: nat

definition update_auth :: "(auth_state \<Rightarrow> auth_state) \<Rightarrow> client \<Rightarrow> client" where
  "update_auth f c =
     (let s = cl_auth c; t = f s; c1 = c\<lparr>cl_auth := t\<rparr>
      in if map_option ref_id (as_admin t) \<noteq> map_option ref_id (as_admin s)
            \<or> as_is_authenticated t \<noteq> as_is_authenticated s
         then c1\<lparr>cl_runtime := reset_api_runtime_state (cl_runtime c1)\<rparr> else c1)"

definition update_mailbox :: "(mailbox_auth_state \<Rightarrow> mailbox_auth_state) \<Rightarrow> client \<Rightarrow> client" where
  "update_mailbox f c =
     (let s = cl_mailbox c; t = f s; c1 = c\<lparr>cl_mailbox := t\<rparr>
      in if map_option ref_id (mas_mailbox_user t) \<noteq> map_option ref_id (mas_mailbox_user s)
            \<or> mas_is_authenticated t \<noteq> mas_is_authenticated s
         then c1\<lparr>cl_runtime := reset_api_runtime_state (cl_runtime c1)\<rparr> else c1)"

text \<open>The spread \<open>{...mailboxUser, mustChangePassword: true}\<close> makes a new object.\<close>

definition require_password_change :: "client \<Rightarrow> client" where
  "require_password_change c =
     (let fresh = cl_next_ref c
      in update_mailbox (\<lambda>s. s\<lparr>mas_is_authenticated := (mas_mailbox_user s \<noteq> None),
             mas_mailbox_user := map_option (\<lambda>u. \<lparr>ref_id = fresh,
               ref_value = (ref_value u)\<lparr>mbu_must_change_password := Some True\<rparr>\<rparr>) (mas_mailbox_user s)\<rparr>)
           (c\<lparr>cl_next_ref := fresh + 1\<rparr>))"

definition handle_session_effects :: "int \<Rightarrow> jsval \<Rightarrow> jstr option \<Rightarrow> client \<Rightarrow> client" where
  "handle_session_effects status data request_url c =
     (let is_login = url_includes request_url (mailbox_portal_prefix @ js ''/login'');
          c1 = (if should_clear_auth_on_unauthorized status data request_url
                then update_auth clear_auth c else c);
          c2 = (if status = 401 \<and> url_includes request_url mailbox_portal_prefix \<and> \<not> is_login
                then update_mailbox clear_mailbox_auth c1 else c1)
      in if should_redirect_mailbox_password_change status data request_url
         then require_password_change c2 else c2)"

definition plain_error :: "jsval \<Rightarrow> api_error" where
  "plain_error code = \<lparr>ae_code = code, ae_details = Undefined, ae_request_id = Undefined\<rparr>"

definition reject_reason :: "axios_response \<Rightarrow> api_error" where
  "reject_reason r =
     (let data = axr_data r; status = Number (int_text (axr_status r));
          request_id = or_else (field (js ''requestId'') data)
            (case axr_request_id r of Some t \<Rightarrow> Text t | None \<Rightarrow> Undefined);
          err = field (js ''error'') data
      in if truthy err
         then \<lparr>ae_code = or_else (field (js ''code'') err) status,
               ae_details = field (js ''details'') err, ae_request_id = request_id\<rparr>
         else \<lparr>ae_code = status, ae_details = Undefined, ae_request_id = request_id\<rparr>)"

definition on_response_error :: "axios_error \<Rightarrow> client \<Rightarrow> api_error \<times> client" where
  "on_response_error err c =
     (if ax_code err = Some (js ''ERR_CANCELED'') then (plain_error (Text (js ''REQUEST_CANCELED'')), c)
      else if ax_code err = Some (js ''ECONNABORTED'')
           \<or> (case ax_message err of None \<Rightarrow> False | Some m \<Rightarrow> js_includes (to_lower m) (js ''timeout''))
      then (plain_error (Text (js ''REQUEST_TIMEOUT'')), c)
      else case ax_response err of
             None \<Rightarrow> (plain_error (Text (js ''NETWORK_ERROR'')), c)
           | Some r \<Rightarrow> (reject_reason r,
                        handle_session_effects (axr_status r) (axr_data r) (ax_url err) c))"

section \<open>The client machine\<close>

definition client_start :: "client \<Rightarrow> bool" where
  "client_start c \<longleftrightarrow> runtime_start (cl_runtime c) \<and> cl_auth c = auth_initial
     \<and> cl_mailbox c = mailbox_initial"

datatype client_event =
    RuntimeEvent rt_event
  | AdminLogin "admin object_ref"
  | AdminLogout
  | MailboxLogin "mailbox_user object_ref"
  | MailboxLogout
  | ResponseError axios_error

inductive client_step :: "client \<Rightarrow> client_event \<Rightarrow> client \<Rightarrow> bool" where
  runtime_event: "rt_step (cl_runtime c) e rt
     \<Longrightarrow> client_step c (RuntimeEvent e) (c\<lparr>cl_runtime := rt\<rparr>)"
| admin_login: "client_step c (AdminLogin a) (update_auth (set_auth a) c)"
| admin_logout: "client_step c AdminLogout (update_auth clear_auth c)"
| mailbox_login: "client_step c (MailboxLogin u) (update_mailbox (set_mailbox_auth u) c)"
| mailbox_logout: "client_step c MailboxLogout (update_mailbox clear_mailbox_auth c)"
| response_error: "client_step c (ResponseError err) (snd (on_response_error err c))"

inductive_cases client_stepE: "client_step c e c'"

end
