(* ===== verification/ApiTheorems.thy ===== *)
theory ApiTheorems
  imports ApiCore
begin

text \<open>
  The properties of the API core: what callers of \<open>requestGet\<close> can be served across session changes
  and mutations, the sharing of concurrent requests, the effect of failed responses on the two
  sessions, and the request keys. Every property is stated over the reachable states of the client
  machine, so it holds for every interleaving of callbacks.
\<close>

section \<open>Client runs seen by the runtime\<close>

lemma update_auth_runtime:
  "cl_runtime (update_auth f c) = cl_runtime c
   \<or> cl_runtime (update_auth f c) = reset_api_runtime_state (cl_runtime c)"
  by (simp add: update_auth_def Let_def)

lemma update_mailbox_runtime:
  "cl_runtime (update_mailbox f c) = cl_runtime c
   \<or> cl_runtime (update_mailbox f c) = reset_api_runtime_state (cl_runtime c)"
  by (simp add: update_mailbox_def Let_def)

definition resets :: "runtime \<Rightarrow> runtime \<Rightarrow> bool" where
  "resets rt rt' \<longleftrightarrow> (\<exists>es. run rt_step rt es rt' \<and> set es \<subseteq> {ResetRuntime})"

lemma resets_refl [simp]: "resets rt rt"
  unfolding resets_def by (intro exI [of _ "[]"]) simp

lemma resets_one [simp]: "resets rt (reset_api_runtime_state rt)"
  unfolding resets_def by (intro exI [of _ "[ResetRuntime]"]) (simp add: rt_step.reset)

lemma resets_trans: "resets a b \<Longrightarrow> resets b c \<Longrightarrow> resets a c"
  unfolding resets_def by (metis run_append set_append Un_least)

lemma update_resets:
  "resets rt (cl_runtime c) \<Longrightarrow> resets rt (cl_runtime (update_auth f c))"
  "resets rt (cl_runtime c) \<Longrightarrow> resets rt (cl_runtime (update_mailbox g c))"
  using update_auth_runtime [of f c] update_mailbox_runtime [of g c]
  by (metis resets_one resets_trans)+

lemma require_resets:
  "resets rt (cl_runtime c) \<Longrightarrow> resets rt (cl_runtime (require_password_change c))"
  unfolding require_password_change_def Let_def by (rule update_resets(2)) simp

lemma session_effects_resets:
  "resets (cl_runtime c) (cl_runtime (handle_session_effects st d u c))"
  unfolding handle_session_effects_def Let_def
  by (simp add: require_resets update_resets)

lemma client_step_runtime:
  assumes "client_step c e c'"
  shows "\<exists>es. run rt_step (cl_runtime c) es (cl_runtime c')"
  using assms
proof cases
  case (runtime_event e rt)
  then show ?thesis by (intro exI [of _ "[e]"]) simp
next
  case (response_error err)
  have "resets (cl_runtime c) (cl_runtime (snd (on_response_error err c)))"
    by (auto simp: on_response_error_def session_effects_resets split: option.split)
  then show ?thesis using response_error by (auto simp: resets_def)
qed (use update_resets [OF resets_refl] in \<open>force simp: resets_def\<close>)+

lemma client_run_runtime:
  "run client_step c es c' \<Longrightarrow> \<exists>fs. run rt_step (cl_runtime c) fs (cl_runtime c')"
proof (induction rule: run.induct)
  case (run_Nil s)
  show ?case by (intro exI [of _ "[]"]) simp
next
  case (run_Cons s e t es u)
  then show ?case using client_step_runtime run_append by metis
qed

lemma client_reach_runtime:
  assumes "reach client_start client_step c"
  shows "reach runtime_start rt_step (cl_runtime c)"
proof -
  obtain s es where "client_start s" "run client_step s es c"
    using assms by (auto simp: reach_def)
  then show ?thesis
    using client_run_runtime unfolding reach_def client_start_def by blast
qed

section \<open>Consistent sessions\<close>

definition sessions_consistent :: "client \<Rightarrow> bool" where
  "sessions_consistent c \<longleftrightarrow>
     admin_store.consistent (cl_auth c) \<and> mailbox_store.consistent (cl_mailbox c)"

lemma consistent_update:
  "sessions_consistent c \<Longrightarrow> admin_store.consistent (f (cl_auth c)) \<Longrightarrow> sessions_consistent (update_auth f c)"
  "sessions_consistent c \<Longrightarrow> mailbox_store.consistent (g (cl_mailbox c)) \<Longrightarrow> sessions_consistent (update_mailbox g c)"
  by (simp_all add: sessions_consistent_def update_auth_def update_mailbox_def Let_def)

lemma consistent_require: "sessions_consistent c \<Longrightarrow> sessions_consistent (require_password_change c)"
  by (simp add: require_password_change_def Let_def sessions_consistent_def update_mailbox_def
      mailbox_store.consistent_def)

lemma consistent_error:
  assumes "sessions_consistent c"
  shows "sessions_consistent (snd (on_response_error err c))"
  using assms
  by (auto simp: on_response_error_def handle_session_effects_def Let_def split: option.split
      intro!: consistent_update consistent_require admin_store.consistent_ops mailbox_store.consistent_ops)

interpretation client_machine: machine_invariant client_start client_step sessions_consistent
proof
  fix c assume "client_start c"
  then show "sessions_consistent c"
    by (simp add: client_start_def sessions_consistent_def admin_store.consistent_ops
        mailbox_store.consistent_ops)
next
  fix c e c' assume i: "sessions_consistent c" and s: "client_step c e c'"
  from s show "sessions_consistent c'"
    by cases (use i consistent_update [OF i] consistent_error [OF i] in
        \<open>simp_all add: admin_store.consistent_ops mailbox_store.consistent_ops\<close>,
        use i in \<open>simp add: sessions_consistent_def\<close>)
qed

section \<open>Session isolation\<close>

definition session_ids :: "client \<Rightarrow> nat option \<times> nat option" where
  "session_ids c = (map_option ref_id (as_admin (cl_auth c)),
                    map_option ref_id (mas_mailbox_user (cl_mailbox c)))"

text \<open>What the session operations do to the runtime: nothing, or at least one reset.\<close>

definition session_moved :: "client \<Rightarrow> client \<Rightarrow> bool" where
  "session_moved c c' \<longleftrightarrow> rt_flights (cl_runtime c') = rt_flights (cl_runtime c) \<and>
     (cl_runtime c' = cl_runtime c \<and> session_ids c' = session_ids c
      \<or> rt_epoch (cl_runtime c) < rt_epoch (cl_runtime c') \<and> rt_cache (cl_runtime c') = (\<lambda>_. None))"

lemma moved_refl [simp]: "session_moved c c"
  by (simp add: session_moved_def)

lemma moved_trans:
  assumes "session_moved a b" "session_moved b c"
  shows "session_moved a c"
proof -
  have f: "rt_flights (cl_runtime c) = rt_flights (cl_runtime a)"
    using assms by (simp add: session_moved_def)
  consider "cl_runtime b = cl_runtime a" "session_ids b = session_ids a"
    | "rt_epoch (cl_runtime a) < rt_epoch (cl_runtime b)" "rt_cache (cl_runtime b) = (\<lambda>_. None)"
    using assms(1) unfolding session_moved_def by blast
  then show ?thesis
  proof cases
    case 1
    then show ?thesis using assms(2) by (simp add: session_moved_def)
  next
    case 2
    then show ?thesis using assms(2) f by (auto simp: session_moved_def)
  qed
qed

lemma moved_auth: "session_moved c (update_auth f c)"
  by (auto simp: session_moved_def session_ids_def update_auth_def Let_def reset_api_runtime_state_def)

lemma moved_mailbox: "session_moved c (update_mailbox f c)"
  by (auto simp: session_moved_def session_ids_def update_mailbox_def Let_def reset_api_runtime_state_def)

lemma moved_require: "session_moved c (require_password_change c)"
proof -
  have same: "session_moved (c\<lparr>cl_next_ref := n\<rparr>) d = session_moved c d" for n d
    by (simp add: session_moved_def session_ids_def)
  show ?thesis
    unfolding require_password_change_def Let_def
    by (rule same [THEN iffD1]) (rule moved_mailbox)
qed

lemma moved_effects: "session_moved c (handle_session_effects st d u c)"
  unfolding handle_session_effects_def Let_def
  by (simp add: moved_auth moved_mailbox moved_require
      moved_trans [OF moved_auth moved_mailbox] moved_trans [OF moved_auth moved_require]
      moved_trans [OF moved_mailbox moved_require]
      moved_trans [OF moved_trans [OF moved_auth moved_mailbox] moved_require])

lemma session_change_resets:
  assumes "client_step c e c'" "session_ids c' \<noteq> session_ids c"
  shows "rt_flights (cl_runtime c') = rt_flights (cl_runtime c)"
    "rt_epoch (cl_runtime c) < rt_epoch (cl_runtime c')" "rt_cache (cl_runtime c') = (\<lambda>_. None)"
proof -
  have "session_moved c c' \<or> session_ids c' = session_ids c"
    using assms(1)
  proof cases
    case (runtime_event e rt)
    then show ?thesis by (simp add: session_ids_def)
  next
    case (response_error err)
    then show ?thesis by (auto simp: on_response_error_def moved_effects split: option.split)
  qed (simp_all add: moved_auth moved_mailbox)
  with assms(2) show "rt_flights (cl_runtime c') = rt_flights (cl_runtime c)"
    "rt_epoch (cl_runtime c) < rt_epoch (cl_runtime c')" "rt_cache (cl_runtime c') = (\<lambda>_. None)"
    by (auto simp: session_moved_def)
qed

text \<open>C1: Session isolation. After a step in which the administrator or the mailbox user changes
  (login, logout, or a 401/403 response that the interceptor turns into one), whatever happens next
  and in whatever order the callbacks run, requestGet never serves a value that a request from before
  the change received, and never shares a promise that was started before it.\<close>

theorem session_isolation:
  assumes "reach client_start client_step c" "client_step c e c1" "session_ids c1 \<noteq> session_ids c"
    and "run client_step c1 es c2"
    and "request_get url params dedupe ms now (cl_runtime c2) = (res, rt)"
  shows "case res of
      CachedValue v \<Rightarrow> (\<exists>i \<ge> length (rt_flights (cl_runtime c)). i < length (rt_flights (cl_runtime c2))
        \<and> fl_key (rt_flights (cl_runtime c2) ! i) = build_get_request_key url params
        \<and> fl_response (rt_flights (cl_runtime c2) ! i) = Some v)
    | PromiseOf i \<Rightarrow> length (rt_flights (cl_runtime c)) \<le> i"
proof -
  have r: "reach runtime_start rt_step (cl_runtime c)" by (rule client_reach_runtime [OF assms(1)])
  have r1: "reach runtime_start rt_step (cl_runtime c1)"
    by (rule client_reach_runtime [OF reach_step [OF assms(1,2)]])
  have r2: "reach runtime_start rt_step (cl_runtime c2)"
    by (rule client_reach_runtime [OF reach_run [OF reach_step [OF assms(1,2)] assms(4)]])
  have "fresh_from (length (rt_flights (cl_runtime c))) (\<lambda>_. True) (cl_runtime c1)"
    using session_change_resets [OF assms(2,3)]
    by (intro fresh_new_epoch runtime_reach [OF r]) simp_all
  moreover have "unanswered (cl_runtime c1)" using runtime_machine.inv_reach [OF r1] by simp
  ultimately have "fresh_from (length (rt_flights (cl_runtime c))) (\<lambda>_. True) (cl_runtime c2)"
    using client_run_runtime [OF assms(4)] fresh_run by blast
  then show ?thesis using fresh_get [OF runtime_reach [OF r2] _ _ assms(5)] by simp
qed

definition demo_client :: client where
  "demo_client = \<lparr>cl_runtime = \<lparr>rt_epoch = 0, rt_cache = (\<lambda>_. None), rt_pending = (\<lambda>_. None), rt_flights = []\<rparr>,
     cl_auth = auth_initial, cl_mailbox = mailbox_initial, cl_next_ref = 0\<rparr>"

definition demo_admin :: "admin object_ref" where
  "demo_admin = \<lparr>ref_id = 1, ref_value = \<lparr>adm_id = 2, adm_username = js ''root'', adm_email = None,
     adm_role = SUPER_ADMIN, adm_must_change_password = None, adm_two_factor_enabled = None\<rparr>\<rparr>"

definition demo_get :: "client \<Rightarrow> client" where
  "demo_get c = c\<lparr>cl_runtime := snd (request_get (js ''/admin/x'') Undefined True 500 0 (cl_runtime c))\<rparr>"

lemma demo_get_step:
  "client_step c (RuntimeEvent (StartGet (js ''/admin/x'') Undefined True 500 0)) (demo_get c)"
  unfolding demo_get_def by (intro client_step.runtime_event rt_step.start_get [of _ _ _ _ _ _ "fst (request_get (js ''/admin/x'') Undefined True 500 0 (cl_runtime c))"]) simp

lemma demo_reach: "reach client_start client_step (demo_get demo_client)"
proof -
  have "client_start demo_client" by (simp add: client_start_def demo_client_def runtime_start_def)
  then show ?thesis unfolding reach_def
    by (intro exI [of _ demo_client] exI [of _ "[RuntimeEvent (StartGet (js ''/admin/x'') Undefined True 500 0)]"])
      (simp add: demo_get_step)
qed

lemma session_isolation_witness:
  "\<exists>rt. request_get (js ''/admin/x'') Undefined True 500 1
     (cl_runtime (update_auth (set_auth demo_admin) (demo_get demo_client))) = (PromiseOf 1, rt)
   \<and> length (rt_flights (cl_runtime (demo_get demo_client))) \<le> 1"
proof -
  let ?c = "demo_get demo_client" and ?c1 = "update_auth (set_auth demo_admin) (demo_get demo_client)"
  obtain res rt where r: "request_get (js ''/admin/x'') Undefined True 500 1 (cl_runtime ?c1) = (res, rt)"
    by fastforce
  have res: "res = PromiseOf 1"
    using r by (simp add: demo_get_def demo_client_def update_auth_def set_auth_def demo_admin_def
        auth_initial_def request_get_def start_or_share_def reset_api_runtime_state_def Let_def split: if_splits)
  have "session_ids ?c1 \<noteq> session_ids ?c"
    by (simp add: session_ids_def demo_get_def demo_client_def update_auth_def set_auth_def
        auth_initial_def Let_def)
  from session_isolation [OF demo_reach client_step.admin_login this run_Nil r]
  show ?thesis using r res by simp
qed

section \<open>Mutations, sharing and the cache\<close>

text \<open>C4: Read your writes. Once a mutation that invalidates a prefix has succeeded, whatever
  happens next, requestGet never serves for a key with that prefix a value received by a request from
  before the mutation, and never shares a promise started before it.\<close>

theorem mutation_freshness:
  assumes "reach runtime_start rt_step rt" "p \<in> set ps"
    and "run rt_step (invalidate_get_cache (Some ps) rt) es rt1"
    and "prefix p (build_get_request_key url params)"
    and "request_get url params dedupe ms now rt1 = (res, rt2)"
  shows "case res of
      CachedValue v \<Rightarrow> (\<exists>i \<ge> length (rt_flights rt). i < length (rt_flights rt1)
        \<and> fl_key (rt_flights rt1 ! i) = build_get_request_key url params
        \<and> fl_response (rt_flights rt1 ! i) = Some v)
    | PromiseOf i \<Rightarrow> length (rt_flights rt) \<le> i"
  using invalidate_fresh_get [OF assms] .

text \<open>The witness: a cached value is dropped by the mutation and the next call starts request 1.\<close>

definition demo_runtime :: runtime where
  "demo_runtime = on_response 0 (ok_response Null) 10
     (snd (request_get (js ''/admin/x'') Undefined True 500 0
        \<lparr>rt_epoch = 0, rt_cache = (\<lambda>_. None), rt_pending = (\<lambda>_. None), rt_flights = []\<rparr>))"

lemma demo_runtime_reach: "reach runtime_start rt_step demo_runtime"
proof -
  let ?s = "\<lparr>rt_epoch = 0, rt_cache = (\<lambda>_. None), rt_pending = (\<lambda>_. None), rt_flights = []\<rparr> :: runtime"
  let ?g = "request_get (js ''/admin/x'') Undefined True 500 0 ?s"
  have "rt_step ?s (StartGet (js ''/admin/x'') Undefined True 500 0) (snd ?g)"
    by (rule rt_step.start_get [of _ _ _ _ _ _ "fst ?g"]) simp
  moreover have "rt_step (snd ?g) (Response 0 (ok_response Null) 10) demo_runtime"
    unfolding demo_runtime_def
    by (rule rt_step.response) (simp_all add: request_get_def start_or_share_def Let_def)
  ultimately have "run rt_step ?s [StartGet (js ''/admin/x'') Undefined True 500 0,
      Response 0 (ok_response Null) 10] demo_runtime" by auto
  moreover have "runtime_start ?s" by (simp add: runtime_start_def)
  ultimately show ?thesis unfolding reach_def by blast
qed

lemma demo_runtime_simps:
  "length (rt_flights demo_runtime) = 1" "rt_epoch demo_runtime = 0"
  "rt_cache demo_runtime (js ''/admin/x?'') = Some \<lparr>ce_expires = 510, ce_value = ok_response Null\<rparr>"
  "fl_phase (rt_flights demo_runtime ! 0) = Settled" "fl_dedupe (rt_flights demo_runtime ! 0)"
  "fl_epoch (rt_flights demo_runtime ! 0) = 0"
  "fl_key (rt_flights demo_runtime ! 0) = js ''/admin/x?''"
  by (simp_all add: demo_runtime_def on_response_def request_get_def start_or_share_def Let_def
      build_get_request_key_def js_append [symmetric])

lemma mutation_freshness_witness:
  "\<exists>rt. request_get (js ''/admin/x'') Undefined True 500 20
      (invalidate_get_cache (Some [js ''/admin'']) demo_runtime) = (PromiseOf 1, rt)
    \<and> length (rt_flights demo_runtime) \<le> 1"
proof -
  obtain res rt where r: "request_get (js ''/admin/x'') Undefined True 500 20
      (invalidate_get_cache (Some [js ''/admin'']) demo_runtime) = (res, rt)" by fastforce
  have res: "res = PromiseOf 1"
    using r by (simp add: request_get_def start_or_share_def invalidate_get_cache_def Let_def
        build_get_request_key_def js_append [symmetric] starts_with_def demo_runtime_simps split: if_splits)
  have p: "prefix (js ''/admin'') (build_get_request_key (js ''/admin/x'') Undefined)"
    by (simp add: build_get_request_key_def js_append [symmetric])
  show ?thesis
    using mutation_freshness [OF demo_runtime_reach _ run_Nil p r] r res by simp
qed

text \<open>Concurrent callers share. Among the deduplicated requests of the current epoch that are
  not yet done, no two have the same key; and a deduplicated call whose key is in flight gets that
  promise (or an unexpired cached value) and starts nothing.\<close>

theorem concurrent_gets_share:
  assumes "reach runtime_start rt_step rt" "i < length (rt_flights rt)"
    and "fl_dedupe (rt_flights rt ! i)" "fl_phase (rt_flights rt ! i) \<noteq> Done"
    and "fl_epoch (rt_flights rt ! i) = rt_epoch rt"
    and "fl_key (rt_flights rt ! i) = build_get_request_key url params"
    and "request_get url params True ms now rt = (res, rt')"
  shows "rt_flights rt' = rt_flights rt \<and> (res = PromiseOf i \<or> (\<exists>v. res = CachedValue v))
    \<and> (\<forall>j < length (rt_flights rt). fl_dedupe (rt_flights rt ! j) \<and> fl_phase (rt_flights rt ! j) \<noteq> Done
        \<and> fl_epoch (rt_flights rt ! j) = rt_epoch rt
        \<and> fl_key (rt_flights rt ! j) = build_get_request_key url params \<longrightarrow> j = i)"
proof -
  have p: "rt_pending rt (pending_key (rt_epoch rt) (build_get_request_key url params)) = Some j"
    if "j < length (rt_flights rt)" "fl_dedupe (rt_flights rt ! j)" "fl_phase (rt_flights rt ! j) \<noteq> Done"
      "fl_epoch (rt_flights rt ! j) = rt_epoch rt"
      "fl_key (rt_flights rt ! j) = build_get_request_key url params" for j
    using pending_entry [OF assms(1) that(1-4)] that(5) by simp
  have "rt_flights rt' = rt_flights rt \<and> (res = PromiseOf i \<or> (\<exists>v. res = CachedValue v))"
    using assms(7) p [OF assms(2-6)]
    by (auto simp: request_get_def start_or_share_def Let_def split: option.splits if_splits)
  then show ?thesis using p [OF assms(2-6)] p by fastforce
qed

lemma concurrent_gets_share_witness:
  "\<exists>rt'. request_get (js ''/admin/x'') Undefined True 0 20 demo_runtime = (PromiseOf 0, rt')
     \<and> rt_flights rt' = rt_flights demo_runtime"
proof -
  have k: "build_get_request_key (js ''/admin/x'') Undefined = js ''/admin/x?''"
    by (simp add: build_get_request_key_def js_append [symmetric])
  obtain res rt where r: "request_get (js ''/admin/x'') Undefined True 0 20 demo_runtime = (res, rt)"
    by fastforce
  have nc: "res \<noteq> CachedValue v" for v
    using r by (auto simp: request_get_def start_or_share_def Let_def split: option.splits)
  show ?thesis
    using concurrent_gets_share [OF demo_runtime_reach, of 0 "js ''/admin/x''" Undefined 0 20 res rt] r nc
    by (simp add: demo_runtime_simps k)
qed

text \<open>The cache never lies. A cached answer is the response that a request with the very same key
  received, it has not expired, and serving it changes nothing; without a cache time nothing is ever
  served from the cache.\<close>

theorem cached_answers_are_responses:
  assumes "reach runtime_start rt_step rt"
    and "request_get url params dedupe ms now rt = (CachedValue v, rt')"
  shows "0 < ms \<and> rt' = rt \<and> (\<exists>e. rt_cache rt (build_get_request_key url params) = Some e
        \<and> now < ce_expires e \<and> ce_value e = v)
    \<and> (\<exists>i < length (rt_flights rt). fl_key (rt_flights rt ! i) = build_get_request_key url params
        \<and> fl_response (rt_flights rt ! i) = Some v)"
proof -
  obtain e where e: "0 < ms" "rt' = rt" "rt_cache rt (build_get_request_key url params) = Some e"
    "now < ce_expires e" "ce_value e = v"
    using assms(2) by (auto simp: request_get_def start_or_share_def Let_def
        split: option.splits if_splits)
  then show ?thesis
    using runtime_reach [OF assms(1)] by (auto simp: runtime_inv_def cache_sound_def)
qed

lemma cached_answers_are_responses_witness:
  "request_get (js ''/admin/x'') Undefined True 500 509 demo_runtime = (CachedValue (ok_response Null), demo_runtime)
   \<and> (\<exists>i < length (rt_flights demo_runtime). fl_response (rt_flights demo_runtime ! i) = Some (ok_response Null))"
proof -
  have r: "request_get (js ''/admin/x'') Undefined True 500 509 demo_runtime = (CachedValue (ok_response Null), demo_runtime)"
    by (simp add: request_get_def Let_def build_get_request_key_def js_append [symmetric] demo_runtime_simps)
  show ?thesis using cached_answers_are_responses [OF demo_runtime_reach r] r by blast
qed

text \<open>C34: Nothing leaks. A pending entry always belongs to a request of the current epoch whose
  callbacks have not all run; once every request is done, the table is empty.\<close>

theorem pending_never_leaks:
  assumes "reach runtime_start rt_step rt" "\<forall>f \<in> set (rt_flights rt). fl_phase f = Done"
  shows "rt_pending rt = (\<lambda>_. None)"
proof
  fix pk
  have "\<not> (\<exists>i. rt_pending rt pk = Some i)"
    using runtime_reach [OF assms(1)] assms(2) nth_mem
    unfolding runtime_inv_def pending_sound_def by fastforce
  then show "rt_pending rt pk = None" by auto
qed

lemma pending_never_leaks_witness: "rt_pending (on_finally 0 demo_runtime) = (\<lambda>_. None)"
proof (rule pending_never_leaks)
  show "reach runtime_start rt_step (on_finally 0 demo_runtime)"
    by (rule reach_step [OF demo_runtime_reach rt_step.settled]) (simp_all add: demo_runtime_simps)
  obtain f where "rt_flights demo_runtime = [f]"
    using demo_runtime_simps(1) by (auto simp: length_Suc_conv)
  then show "\<forall>f \<in> set (rt_flights (on_finally 0 demo_runtime)). fl_phase f = Done"
    by (simp add: on_finally_def Let_def)
qed

section \<open>Request keys\<close>

text \<open>Two calls whose parameters differ only in the order of their members, at any depth, have the
  same request key.\<close>

theorem request_key_order_free:
  assumes "reordered params params'"
  shows "build_get_request_key url params = build_get_request_key url params'"
  using stable_reordered [OF assms] by (simp add: build_get_request_key_def)

lemma request_key_order_free_witness:
  "build_get_request_key [] (Object [(js ''a'', Null), (js ''b'', Array [])]) =
   build_get_request_key [] (Object [(js ''b'', Array []), (js ''a'', Null)])"
  by (rule request_key_order_free, rule reordered.order) simp_all

text \<open>The key is not injective: texts are not quoted, so two different filters of the domain mailbox
  list (the member order is that of domainMailboxApi.getList) have the same key and share a request.\<close>

theorem request_keys_collide:
  "build_get_request_key url (Object [(js ''keyword'', Text (js ''c'')), (js ''batchTag'', Text (js ''a,keyword:b''))]) =
   build_get_request_key url (Object [(js ''keyword'', Text (js ''b,keyword:c'')), (js ''batchTag'', Text (js ''a''))])"
  by (simp add: build_get_request_key_def sort_key_def insort_key.simps js_eval)

section \<open>Failed responses and the sessions\<close>

text \<open>What a failed response does to the sessions. A cancelled, timed-out or unanswered request
  changes nothing. Otherwise the administrator is logged out exactly when the status is 401 and the
  error code is one of the four token codes or the URL is that of /admin/auth/me, and the mailbox user
  exactly when the status is 401 and the URL is a portal URL other than its login.\<close>

theorem response_error_sessions:
  assumes "ax_code err \<notin> {Some (js ''ERR_CANCELED''), Some (js ''ECONNABORTED'')}"
    and "ax_message err = None" "ax_response err = Some r"
    and "as_is_authenticated (cl_auth c)" "mas_mailbox_user (cl_mailbox c) = Some u"
  shows "(\<not> as_is_authenticated (cl_auth (snd (on_response_error err c))) \<longleftrightarrow>
        axr_status r = 401 \<and> (error_code_text (axr_data r) \<in>
            {js ''UNAUTHORIZED'', js ''INVALID_TOKEN'', js ''TOKEN_EXPIRED'', js ''JWT_EXPIRED''}
          \<or> url_includes (ax_url err) (js ''/admin/auth/me'')))
    \<and> (mas_mailbox_user (cl_mailbox (snd (on_response_error err c))) = None \<longleftrightarrow>
        axr_status r = 401 \<and> url_includes (ax_url err) (js ''/mail/api'')
          \<and> \<not> url_includes (ax_url err) (js ''/mail/api/login''))"
  using assms
  by (auto simp: on_response_error_def handle_session_effects_def Let_def update_auth_def
      update_mailbox_def clear_auth_def clear_mailbox_auth_def require_password_change_def
      should_clear_auth_on_unauthorized_def should_redirect_mailbox_password_change_def
      token_invalid_codes_def mailbox_portal_prefix_def js_append [symmetric])

definition demo_session :: client where
  "demo_session = demo_client\<lparr>cl_auth := set_auth demo_admin auth_initial,
     cl_mailbox := set_mailbox_auth \<lparr>ref_id = 5, ref_value = \<lparr>mbu_id = 9, mbu_username = js ''u'',
       mbu_email = None, mbu_must_change_password = None, mbu_mailbox_ids = None\<rparr>\<rparr> mailbox_initial\<rparr>"

definition demo_portal_401 :: axios_error where
  "demo_portal_401 = \<lparr>ax_code = None, ax_message = None,
     ax_response = Some \<lparr>axr_status = 401, axr_data = Object [(js ''error'', Object [(js ''code'', Text (js ''UNAUTHORIZED''))])],
       axr_request_id = None\<rparr>, ax_url = Some (js ''/mail/api/session'')\<rparr>"

lemma response_error_sessions_witness:
  "\<not> as_is_authenticated (cl_auth (snd (on_response_error demo_portal_401 demo_session)))
   \<and> mas_mailbox_user (cl_mailbox (snd (on_response_error demo_portal_401 demo_session))) = None"
proof -
  have c: "error_code_text (Object [(js ''error'', Object [(js ''code'', Text (js ''UNAUTHORIZED''))])]) = js ''UNAUTHORIZED''"
    by (simp add: error_code_text_def field_def or_else_def js_eval)
  have u: "url_includes (Some (js ''/mail/api/session'')) (js ''/mail/api'')"
    "\<not> url_includes (Some (js ''/mail/api/session'')) (js ''/mail/api/login'')"
    by (simp_all add: url_includes_def js_eval)
  show ?thesis
    using response_error_sessions [of demo_portal_401 _ demo_session] c u
    by (simp add: demo_portal_401_def demo_session_def set_auth_def set_mailbox_auth_def
        auth_initial_def mailbox_initial_def demo_client_def)
qed

text \<open>Every rejection of the response interceptor carries a usable code: a non-empty text, or the
  (non-zero) HTTP status; a server code always takes precedence over the status.\<close>

theorem rejections_have_codes:
  assumes "\<forall>r. ax_response err = Some r \<longrightarrow> axr_status r \<noteq> 0"
  shows "truthy (ae_code (fst (on_response_error err c)))
    \<and> (\<forall>r code. ax_code err = None \<and> ax_message err = None \<and> ax_response err = Some r
         \<and> field (js ''code'') (field (js ''error'') (axr_data r)) = code \<and> truthy code
         \<longrightarrow> ae_code (fst (on_response_error err c)) = code)"
proof -
  have n: "nat_str k \<noteq> js ''NaN''" for k
    using nat_str_digits [of 78 k] by (auto simp: js_def is_digit_def)
  have m: "45 # t \<noteq> js ''NaN''" "45 # t \<noteq> js ''0''" for t by (simp_all add: js_def)
  have z: "nat_str k = js ''0'' \<longleftrightarrow> k = 0" for k
    using nat_str_inject [of k 0] by (simp add: nat_str.simps [of 0] js_def)
  have st: "truthy (Number (int_text k))" if "k \<noteq> 0" for k
    using that by (auto simp: int_text_def n m z)
  have f: "field k v = Undefined" if "\<not> truthy v" for k v
    using that by (cases v) (auto simp: field_def)
  show ?thesis
    using assms st f
    by (auto simp: on_response_error_def plain_error_def reject_reason_def or_else_def Let_def
        split: option.split)
qed

lemma rejections_have_codes_witness:
  "ae_code (fst (on_response_error demo_portal_401 demo_session)) = Text (js ''UNAUTHORIZED'')"
  using rejections_have_codes [of demo_portal_401 demo_session]
  by (simp add: demo_portal_401_def field_def)

end
