(* ===== verification/ApiCatalog.thy ===== *)
theory ApiCatalog
  imports ApiCore
begin

text \<open>
  The endpoint catalogue of the web client (web/src/api/emails.ts, domains.ts, admin.ts, sending.ts
  and auth.ts): for every API function the request it makes, with method, URL, query parameters or
  body, cache time, deduplication, timeout and the cache prefixes its success invalidates. The typed
  parameter and body objects are dynamic values here; an optional field that is not given is
  \<open>Undefined\<close>.
\<close>

section \<open>Requests\<close>

datatype http_method = GET | POST | PUT | PATCH | DELETE

record request =
  rq_method :: http_method
  rq_url :: jstr
  rq_params :: jsval
  rq_body :: jsval
  rq_cache_ms :: int
  rq_dedupe :: bool
  rq_timeout :: nat
  rq_invalidates :: "jstr list option"

definition long_running_check_timeout_ms :: nat where
  "long_running_check_timeout_ms = 180000"

definition get_request :: "jstr \<Rightarrow> jsval \<Rightarrow> request" where
  "get_request url params = \<lparr>rq_method = GET, rq_url = url, rq_params = params, rq_body = Undefined,
     rq_cache_ms = 0, rq_dedupe = True, rq_timeout = 30000, rq_invalidates = None\<rparr>"

definition mutation :: "http_method \<Rightarrow> jstr \<Rightarrow> jsval \<Rightarrow> jstr list option \<Rightarrow> request" where
  "mutation meth url body invalidated = \<lparr>rq_method = meth, rq_url = url, rq_params = Undefined, rq_body = body,
     rq_cache_ms = 0, rq_dedupe = False, rq_timeout = 30000, rq_invalidates = invalidated\<rparr>"

definition int_array :: "int list \<Rightarrow> jsval" where
  "int_array ids = Array (map (\<lambda>n. Number (int_text n)) ids)"

text \<open>\<open>ids?.join(",")\<close>\<close>

definition ids_param :: "int list option \<Rightarrow> jsval" where
  "ids_param ids = (case ids of None \<Rightarrow> Undefined | Some ns \<Rightarrow> Text (join [44] (map int_text ns)))"

datatype oauth_provider = OAuthGmail | OAuthOutlook

definition oauth_path :: "oauth_provider \<Rightarrow> jstr" where
  "oauth_path p = (if p = OAuthGmail then js ''google'' else js ''outlook'')"

text \<open>Performing a GET, and what the success callback of a mutation does.\<close>

definition perform_get :: "request \<Rightarrow> int \<Rightarrow> runtime \<Rightarrow> get_result \<times> runtime" where
  "perform_get r now rt = request_get (rq_url r) (rq_params r) (rq_dedupe r) (rq_cache_ms r) now rt"

definition mutation_succeeded :: "request \<Rightarrow> runtime \<Rightarrow> runtime" where
  "mutation_succeeded r rt = invalidate_get_cache (rq_invalidates r) rt"

definition request_key :: "request \<Rightarrow> jstr" where
  "request_key r = build_get_request_key (rq_url r) (rq_params r)"

section \<open>Mail accounts and groups\<close>

definition emailApi_getList :: "jsval \<Rightarrow> request" where
  "emailApi_getList params =
     (get_request (js ''/admin/emails'') params)\<lparr>rq_cache_ms := 800\<rparr>"

definition emailApi_getStats :: "request" where
  "emailApi_getStats =
     get_request (js ''/admin/emails/stats'') Undefined"

definition emailApi_getById :: "int \<Rightarrow> jsval \<Rightarrow> request" where
  "emailApi_getById id1 includeSecrets =
     get_request (js ''/admin/emails/'' @ int_text id1) (Object [(js ''secrets'', includeSecrets)])"

definition emailApi_revealUnlock :: "jsval \<Rightarrow> request" where
  "emailApi_revealUnlock data =
     mutation POST (js ''/admin/emails/reveal-unlock'') data None"

definition emailApi_revealSecrets :: "int \<Rightarrow> jsval \<Rightarrow> request" where
  "emailApi_revealSecrets id1 data =
     mutation POST (js ''/admin/emails/'' @ int_text id1 @ js ''/reveal-secrets'') data None"

definition emailApi_create :: "jsval \<Rightarrow> request" where
  "emailApi_create data =
     mutation POST (js ''/admin/emails'') data (Some [js ''/admin/emails'', js ''/admin/email-groups'', js ''/admin/api-keys'', js ''/admin/dashboard/stats''])"

definition emailApi_import :: "jstr \<Rightarrow> jsval \<Rightarrow> jsval \<Rightarrow> request" where
  "emailApi_import content separator groupId =
     mutation POST (js ''/admin/emails/import'') (Object [(js ''content'', Text content), (js ''separator'', separator), (js ''groupId'', groupId)]) (Some [js ''/admin/emails'', js ''/admin/email-groups'', js ''/admin/api-keys'', js ''/admin/dashboard/stats''])"

definition emailApi_export :: "int list option \<Rightarrow> jsval \<Rightarrow> jsval \<Rightarrow> request" where
  "emailApi_export ids separator groupId =
     get_request (js ''/admin/emails/export'') (Object [(js ''ids'', ids_param ids), (js ''separator'', separator), (js ''groupId'', groupId)])"

definition emailApi_update :: "int \<Rightarrow> jsval \<Rightarrow> request" where
  "emailApi_update id1 data =
     mutation PUT (js ''/admin/emails/'' @ int_text id1) data (Some [js ''/admin/emails'', js ''/admin/email-groups'', js ''/admin/api-keys'', js ''/admin/dashboard/stats''])"

definition emailApi_delete :: "int \<Rightarrow> request" where
  "emailApi_delete id1 =
     mutation DELETE (js ''/admin/emails/'' @ int_text id1) Undefined (Some [js ''/admin/emails'', js ''/admin/email-groups'', js ''/admin/api-keys'', js ''/admin/dashboard/stats''])"

definition emailApi_batchDelete :: "int list \<Rightarrow> request" where
  "emailApi_batchDelete ids =
     mutation POST (js ''/admin/emails/batch-delete'') (Object [(js ''ids'', int_array ids)]) (Some [js ''/admin/emails'', js ''/admin/email-groups'', js ''/admin/api-keys'', js ''/admin/dashboard/stats''])"

definition emailApi_viewMails :: "int \<Rightarrow> jsval \<Rightarrow> bool option \<Rightarrow> request" where
  "emailApi_viewMails id1 mailbox markAsSeen =
     (get_request (js ''/admin/emails/'' @ int_text id1 @ js ''/mails'') (Object [(js ''mailbox'', mailbox), (js ''markAsSeen'', Boolean (markAsSeen = Some True))]))\<lparr>rq_timeout := long_running_check_timeout_ms\<rparr>"

definition emailApi_viewMailDetail :: "int \<Rightarrow> jstr \<Rightarrow> jstr \<Rightarrow> request" where
  "emailApi_viewMailDetail id1 mailbox messageId =
     (get_request (js ''/admin/emails/'' @ int_text id1 @ js ''/mails/detail'') (Object [(js ''mailbox'', Text mailbox), (js ''messageId'', Text messageId)]))\<lparr>rq_dedupe := False, rq_timeout := long_running_check_timeout_ms\<rparr>"

definition emailApi_deleteSelectedMails :: "int \<Rightarrow> jsval \<Rightarrow> request" where
  "emailApi_deleteSelectedMails id1 data =
     mutation POST (js ''/admin/emails/'' @ int_text id1 @ js ''/mails/delete'') data (Some [js ''/admin/emails''])"

definition emailApi_batchFetchMailboxes :: "jsval \<Rightarrow> request" where
  "emailApi_batchFetchMailboxes data =
     (mutation POST (js ''/admin/emails/batch-fetch-mails'') data (Some [js ''/admin/emails'']))\<lparr>rq_timeout := long_running_check_timeout_ms\<rparr>"

definition emailApi_batchClearMailbox :: "jsval \<Rightarrow> request" where
  "emailApi_batchClearMailbox data =
     mutation POST (js ''/admin/emails/batch-clear-mailbox'') data (Some [js ''/admin/emails''])"

definition emailApi_sendMail :: "int \<Rightarrow> jsval \<Rightarrow> request" where
  "emailApi_sendMail id1 data =
     mutation POST (js ''/admin/emails/'' @ int_text id1 @ js ''/send'') data None"

definition emailApi_clearMailbox :: "int \<Rightarrow> jsval \<Rightarrow> request" where
  "emailApi_clearMailbox id1 mailbox =
     mutation POST (js ''/admin/emails/'' @ int_text id1 @ js ''/clear'') (Object [(js ''mailbox'', mailbox)]) None"

definition groupApi_getList :: "request" where
  "groupApi_getList =
     (get_request (js ''/admin/email-groups'') Undefined)\<lparr>rq_cache_ms := 5000\<rparr>"

definition groupApi_getById :: "int \<Rightarrow> request" where
  "groupApi_getById id1 =
     get_request (js ''/admin/email-groups/'' @ int_text id1) Undefined"

definition groupApi_create :: "jsval \<Rightarrow> request" where
  "groupApi_create data =
     mutation POST (js ''/admin/email-groups'') data (Some [js ''/admin/email-groups'', js ''/admin/emails'', js ''/admin/api-keys''])"

definition groupApi_update :: "int \<Rightarrow> jsval \<Rightarrow> request" where
  "groupApi_update id1 data =
     mutation PUT (js ''/admin/email-groups/'' @ int_text id1) data (Some [js ''/admin/email-groups'', js ''/admin/emails'', js ''/admin/api-keys''])"

definition groupApi_delete :: "int \<Rightarrow> request" where
  "groupApi_delete id1 =
     mutation DELETE (js ''/admin/email-groups/'' @ int_text id1) Undefined (Some [js ''/admin/email-groups'', js ''/admin/emails'', js ''/admin/api-keys''])"

definition groupApi_assignEmails :: "int \<Rightarrow> int list \<Rightarrow> request" where
  "groupApi_assignEmails groupId emailIds =
     mutation POST (js ''/admin/email-groups/'' @ int_text groupId @ js ''/assign'') (Object [(js ''emailIds'', int_array emailIds)]) (Some [js ''/admin/email-groups'', js ''/admin/emails'', js ''/admin/api-keys''])"

definition groupApi_removeEmails :: "int \<Rightarrow> int list \<Rightarrow> request" where
  "groupApi_removeEmails groupId emailIds =
     mutation POST (js ''/admin/email-groups/'' @ int_text groupId @ js ''/remove'') (Object [(js ''emailIds'', int_array emailIds)]) (Some [js ''/admin/email-groups'', js ''/admin/emails'', js ''/admin/api-keys''])"

section \<open>Domains, domain mailboxes, mailbox users and messages\<close>

definition domainApi_getList :: "jsval \<Rightarrow> request" where
  "domainApi_getList params =
     (get_request (js ''/admin/domains'') params)\<lparr>rq_cache_ms := 600\<rparr>"

definition domainApi_getById :: "int \<Rightarrow> request" where
  "domainApi_getById id1 =
     get_request (js ''/admin/domains/'' @ int_text id1) Undefined"

definition domainApi_create :: "jsval \<Rightarrow> request" where
  "domainApi_create data =
     mutation POST (js ''/admin/domains'') data (Some [js ''/admin/domains'', js ''/admin/dashboard/stats''])"

definition domainApi_update :: "int \<Rightarrow> jsval \<Rightarrow> request" where
  "domainApi_update id1 data =
     mutation PATCH (js ''/admin/domains/'' @ int_text id1) data (Some [js ''/admin/domains'', js ''/admin/domains/'' @ int_text id1, js ''/admin/dashboard/stats''])"

definition domainApi_verify :: "int \<Rightarrow> jsval \<Rightarrow> request" where
  "domainApi_verify id1 verificationToken =
     mutation POST (js ''/admin/domains/'' @ int_text id1 @ js ''/verify'') (Object [(js ''verificationToken'', verificationToken)]) (Some [js ''/admin/domains'', js ''/admin/domains/'' @ int_text id1])"

definition domainApi_saveCloudflareConfig :: "int \<Rightarrow> jsval \<Rightarrow> request" where
  "domainApi_saveCloudflareConfig id1 data =
     mutation POST (js ''/admin/domains/'' @ int_text id1 @ js ''/cloudflare-config'') data (Some [js ''/admin/domains'', js ''/admin/domains/'' @ int_text id1])"

definition domainApi_validateCloudflare :: "int \<Rightarrow> request" where
  "domainApi_validateCloudflare id1 =
     mutation POST (js ''/admin/domains/'' @ int_text id1 @ js ''/cloudflare-validate'') Undefined (Some [js ''/admin/domains'', js ''/admin/domains/'' @ int_text id1])"

definition domainApi_saveCatchAll :: "int \<Rightarrow> jsval \<Rightarrow> request" where
  "domainApi_saveCatchAll id1 data =
     mutation POST (js ''/admin/domains/'' @ int_text id1 @ js ''/catch-all'') data (Some [js ''/admin/domains'', js ''/admin/domains/'' @ int_text id1, js ''/admin/domain-mailboxes''])"

definition domainApi_saveSendingConfig :: "int \<Rightarrow> jsval \<Rightarrow> request" where
  "domainApi_saveSendingConfig id1 data =
     mutation POST (js ''/admin/domains/'' @ int_text id1 @ js ''/sending-config'') data (Some [js ''/admin/domains'', js ''/admin/domains/'' @ int_text id1, js ''/admin/send/configs''])"

definition domainApi_getAliases :: "int \<Rightarrow> jsval \<Rightarrow> request" where
  "domainApi_getAliases id1 params =
     get_request (js ''/admin/domains/'' @ int_text id1 @ js ''/aliases'') params"

definition domainApi_createAlias :: "int \<Rightarrow> jsval \<Rightarrow> request" where
  "domainApi_createAlias id1 data =
     mutation POST (js ''/admin/domains/'' @ int_text id1 @ js ''/aliases'') data (Some [js ''/admin/domains/'' @ int_text id1 @ js ''/aliases'', js ''/admin/domains/'' @ int_text id1, js ''/admin/domain-mailboxes''])"

definition domainApi_updateAlias :: "int \<Rightarrow> int \<Rightarrow> jsval \<Rightarrow> request" where
  "domainApi_updateAlias id1 aliasId data =
     mutation PATCH (js ''/admin/domains/'' @ int_text id1 @ js ''/aliases/'' @ int_text aliasId) data (Some [js ''/admin/domains/'' @ int_text id1 @ js ''/aliases''])"

definition domainApi_delete :: "int \<Rightarrow> request" where
  "domainApi_delete id1 =
     mutation DELETE (js ''/admin/domains/'' @ int_text id1) Undefined (Some [js ''/admin/domains'', js ''/admin/dashboard/stats''])"

definition domainApi_deleteAlias :: "int \<Rightarrow> int \<Rightarrow> request" where
  "domainApi_deleteAlias id1 aliasId =
     mutation DELETE (js ''/admin/domains/'' @ int_text id1 @ js ''/aliases/'' @ int_text aliasId) Undefined (Some [js ''/admin/domains/'' @ int_text id1 @ js ''/aliases''])"

definition domainMailboxApi_getList :: "jsval \<Rightarrow> request" where
  "domainMailboxApi_getList params =
     get_request (js ''/admin/domain-mailboxes'') params"

definition domainMailboxApi_getById :: "int \<Rightarrow> request" where
  "domainMailboxApi_getById id1 =
     get_request (js ''/admin/domain-mailboxes/'' @ int_text id1) Undefined"

definition domainMailboxApi_create :: "jsval \<Rightarrow> request" where
  "domainMailboxApi_create data =
     mutation POST (js ''/admin/domain-mailboxes'') data (Some [js ''/admin/domain-mailboxes'', js ''/admin/domains'', js ''/admin/mailbox-users'', js ''/admin/dashboard/stats''])"

definition domainMailboxApi_batchCreate :: "jsval \<Rightarrow> request" where
  "domainMailboxApi_batchCreate data =
     mutation POST (js ''/admin/domain-mailboxes/batch-create'') data (Some [js ''/admin/domain-mailboxes'', js ''/admin/domains'', js ''/admin/mailbox-users'', js ''/admin/api-keys'', js ''/admin/dashboard/stats''])"

definition domainMailboxApi_batchDelete :: "jsval \<Rightarrow> request" where
  "domainMailboxApi_batchDelete data =
     mutation POST (js ''/admin/domain-mailboxes/batch-delete'') data (Some [js ''/admin/domain-mailboxes'', js ''/admin/domains'', js ''/admin/mailbox-users'', js ''/admin/dashboard/stats''])"

definition domainMailboxApi_update :: "int \<Rightarrow> jsval \<Rightarrow> request" where
  "domainMailboxApi_update id1 data =
     mutation PATCH (js ''/admin/domain-mailboxes/'' @ int_text id1) data (Some [js ''/admin/domain-mailboxes'', js ''/admin/domain-mailboxes/'' @ int_text id1, js ''/admin/domains'', js ''/admin/mailbox-users'', js ''/admin/dashboard/stats''])"

definition domainMailboxApi_delete :: "int \<Rightarrow> request" where
  "domainMailboxApi_delete id1 =
     mutation DELETE (js ''/admin/domain-mailboxes/'' @ int_text id1) Undefined (Some [js ''/admin/domain-mailboxes'', js ''/admin/domains'', js ''/admin/mailbox-users'', js ''/admin/dashboard/stats''])"

definition mailboxUserApi_getList :: "jsval \<Rightarrow> request" where
  "mailboxUserApi_getList params =
     get_request (js ''/admin/mailbox-users'') params"

definition mailboxUserApi_getById :: "int \<Rightarrow> request" where
  "mailboxUserApi_getById id1 =
     get_request (js ''/admin/mailbox-users/'' @ int_text id1) Undefined"

definition mailboxUserApi_create :: "jsval \<Rightarrow> request" where
  "mailboxUserApi_create data =
     mutation POST (js ''/admin/mailbox-users'') data (Some [js ''/admin/mailbox-users'', js ''/admin/domain-mailboxes''])"

definition mailboxUserApi_update :: "int \<Rightarrow> jsval \<Rightarrow> request" where
  "mailboxUserApi_update id1 data =
     mutation PATCH (js ''/admin/mailbox-users/'' @ int_text id1) data (Some [js ''/admin/mailbox-users'', js ''/admin/mailbox-users/'' @ int_text id1, js ''/admin/domain-mailboxes''])"

definition mailboxUserApi_addMailboxes :: "int \<Rightarrow> int list \<Rightarrow> request" where
  "mailboxUserApi_addMailboxes id1 mailboxIds =
     mutation POST (js ''/admin/mailbox-users/'' @ int_text id1 @ js ''/mailboxes/batch-add'') (Object [(js ''mailboxIds'', int_array mailboxIds)]) (Some [js ''/admin/mailbox-users'', js ''/admin/mailbox-users/'' @ int_text id1, js ''/admin/domain-mailboxes'', js ''/admin/dashboard/stats''])"

definition mailboxUserApi_delete :: "int \<Rightarrow> request" where
  "mailboxUserApi_delete id1 =
     mutation DELETE (js ''/admin/mailbox-users/'' @ int_text id1) Undefined (Some [js ''/admin/mailbox-users'', js ''/admin/domain-mailboxes''])"

definition domainMessageApi_getList :: "jsval \<Rightarrow> request" where
  "domainMessageApi_getList params =
     get_request (js ''/admin/domain-messages'') params"

definition domainMessageApi_getById :: "jsval \<Rightarrow> request" where
  "domainMessageApi_getById id1 =
     get_request (js ''/admin/domain-messages/'' @ string_of id1) Undefined"

definition domainMessageApi_delete :: "jsval \<Rightarrow> request" where
  "domainMessageApi_delete id1 =
     mutation DELETE (js ''/admin/domain-messages/'' @ string_of id1) Undefined (Some [js ''/admin/domain-messages''])"

definition domainMessageApi_batchDelete :: "jsval list \<Rightarrow> request" where
  "domainMessageApi_batchDelete ids =
     mutation POST (js ''/admin/domain-messages/batch-delete'') (Object [(js ''ids'', Array ids)]) (Some [js ''/admin/domain-messages''])"

definition forwardingJobsApi_getList :: "jsval \<Rightarrow> request" where
  "forwardingJobsApi_getList params =
     get_request (js ''/admin/forwarding-jobs'') params"

definition forwardingJobsApi_getById :: "jsval \<Rightarrow> request" where
  "forwardingJobsApi_getById id1 =
     get_request (js ''/admin/forwarding-jobs/'' @ string_of id1) Undefined"

definition forwardingJobsApi_requeue :: "jsval \<Rightarrow> request" where
  "forwardingJobsApi_requeue id1 =
     mutation POST (js ''/admin/forwarding-jobs/'' @ string_of id1 @ js ''/requeue'') Undefined (Some [js ''/admin/forwarding-jobs''])"

section \<open>Administrators, API keys, dashboard and logs\<close>

definition adminApi_getList :: "jsval \<Rightarrow> request" where
  "adminApi_getList params =
     get_request (js ''/admin/admins'') params"

definition adminApi_getById :: "int \<Rightarrow> request" where
  "adminApi_getById id1 =
     get_request (js ''/admin/admins/'' @ int_text id1) Undefined"

definition adminApi_create :: "jsval \<Rightarrow> request" where
  "adminApi_create data =
     mutation POST (js ''/admin/admins'') data (Some [js ''/admin/admins''])"

definition adminApi_update :: "int \<Rightarrow> jsval \<Rightarrow> request" where
  "adminApi_update id1 data =
     mutation PUT (js ''/admin/admins/'' @ int_text id1) data (Some [js ''/admin/admins''])"

definition adminApi_delete :: "int \<Rightarrow> request" where
  "adminApi_delete id1 =
     mutation DELETE (js ''/admin/admins/'' @ int_text id1) Undefined (Some [js ''/admin/admins''])"

definition apiKeyApi_getList :: "jsval \<Rightarrow> request" where
  "apiKeyApi_getList params =
     (get_request (js ''/admin/api-keys'') params)\<lparr>rq_cache_ms := 800\<rparr>"

definition apiKeyApi_getById :: "int \<Rightarrow> request" where
  "apiKeyApi_getById id1 =
     get_request (js ''/admin/api-keys/'' @ int_text id1) Undefined"

definition apiKeyApi_create :: "jsval \<Rightarrow> request" where
  "apiKeyApi_create data =
     mutation POST (js ''/admin/api-keys'') data (Some [js ''/admin/api-keys'', js ''/admin/dashboard/stats''])"

definition apiKeyApi_update :: "int \<Rightarrow> jsval \<Rightarrow> request" where
  "apiKeyApi_update id1 data =
     mutation PUT (js ''/admin/api-keys/'' @ int_text id1) data (Some [js ''/admin/api-keys'', js ''/admin/api-keys/'' @ int_text id1, js ''/admin/dashboard/stats''])"

definition apiKeyApi_delete :: "int \<Rightarrow> request" where
  "apiKeyApi_delete id1 =
     mutation DELETE (js ''/admin/api-keys/'' @ int_text id1) Undefined (Some [js ''/admin/api-keys'', js ''/admin/api-keys/'' @ int_text id1, js ''/admin/dashboard/stats''])"

definition apiKeyApi_getAllocationStats :: "int \<Rightarrow> jsval \<Rightarrow> request" where
  "apiKeyApi_getAllocationStats id1 groupName =
     (get_request (js ''/admin/api-keys/'' @ int_text id1 @ js ''/allocation-stats'') (Object [(js ''group'', groupName)]))\<lparr>rq_cache_ms := 1000\<rparr>"

definition apiKeyApi_resetAllocation :: "int \<Rightarrow> jsval \<Rightarrow> request" where
  "apiKeyApi_resetAllocation id1 groupName =
     mutation POST (js ''/admin/api-keys/'' @ int_text id1 @ js ''/allocation-reset'') (Object [(js ''group'', groupName)]) (Some [js ''/admin/api-keys/'' @ int_text id1 @ js ''/allocation-stats'', js ''/admin/api-keys/'' @ int_text id1 @ js ''/assigned-mailboxes''])"

definition apiKeyApi_getAssignedMailboxes :: "int \<Rightarrow> jsval \<Rightarrow> request" where
  "apiKeyApi_getAssignedMailboxes id1 groupId =
     (get_request (js ''/admin/api-keys/'' @ int_text id1 @ js ''/assigned-mailboxes'') (Object [(js ''groupId'', groupId)]))\<lparr>rq_cache_ms := 800\<rparr>"

definition apiKeyApi_updateAssignedMailboxes :: "int \<Rightarrow> int list \<Rightarrow> jsval \<Rightarrow> request" where
  "apiKeyApi_updateAssignedMailboxes id1 emailIds groupId =
     mutation PUT (js ''/admin/api-keys/'' @ int_text id1 @ js ''/assigned-mailboxes'') (Object [(js ''emailIds'', int_array emailIds), (js ''groupId'', groupId)]) (Some [js ''/admin/api-keys/'' @ int_text id1 @ js ''/allocation-stats'', js ''/admin/api-keys/'' @ int_text id1 @ js ''/assigned-mailboxes''])"

definition dashboardApi_getStats :: "request" where
  "dashboardApi_getStats =
     get_request (js ''/admin/dashboard/stats'') Undefined"

definition dashboardApi_getApiTrend :: "int option \<Rightarrow> request" where
  "dashboardApi_getApiTrend days =
     (get_request (js ''/admin/dashboard/api-trend'') (Object [(js ''days'', Number (int_text (case days of None \<Rightarrow> 7 | Some n \<Rightarrow> n)))]))\<lparr>rq_cache_ms := 2000\<rparr>"

definition dashboardApi_getLogs :: "jsval \<Rightarrow> request" where
  "dashboardApi_getLogs params =
     get_request (js ''/admin/dashboard/logs'') params"

definition dashboardApi_deleteLog :: "int \<Rightarrow> request" where
  "dashboardApi_deleteLog id1 =
     mutation DELETE (js ''/admin/dashboard/logs/'' @ int_text id1) Undefined (Some [js ''/admin/dashboard/logs''])"

definition dashboardApi_batchDeleteLogs :: "int list \<Rightarrow> request" where
  "dashboardApi_batchDeleteLogs ids =
     mutation POST (js ''/admin/dashboard/logs/batch-delete'') (Object [(js ''ids'', int_array ids)]) (Some [js ''/admin/dashboard/logs''])"

definition logsApi_getList :: "jsval \<Rightarrow> request" where
  "logsApi_getList params =
     get_request (js ''/admin/dashboard/logs'') params"

definition logsApi_delete :: "int \<Rightarrow> request" where
  "logsApi_delete id1 =
     mutation DELETE (js ''/admin/dashboard/logs/'' @ int_text id1) Undefined (Some [js ''/admin/dashboard/logs''])"

definition logsApi_batchDelete :: "int list \<Rightarrow> request" where
  "logsApi_batchDelete ids =
     mutation POST (js ''/admin/dashboard/logs/batch-delete'') (Object [(js ''ids'', int_array ids)]) (Some [js ''/admin/dashboard/logs''])"

section \<open>Sending\<close>

definition sendingApi_getConfigs :: "jsval \<Rightarrow> request" where
  "sendingApi_getConfigs params =
     get_request (js ''/admin/send/configs'') params"

definition sendingApi_deleteConfig :: "int \<Rightarrow> request" where
  "sendingApi_deleteConfig id1 =
     mutation DELETE (js ''/admin/send/configs/'' @ int_text id1) Undefined (Some [js ''/admin/send/configs'', js ''/admin/domains''])"

definition sendingApi_getMessages :: "jsval \<Rightarrow> request" where
  "sendingApi_getMessages params =
     get_request (js ''/admin/send/messages'') params"

definition sendingApi_deleteMessage :: "jsval \<Rightarrow> request" where
  "sendingApi_deleteMessage id1 =
     mutation DELETE (js ''/admin/send/messages/'' @ string_of id1) Undefined (Some [js ''/admin/send/messages''])"

definition sendingApi_batchDeleteMessages :: "jsval list \<Rightarrow> request" where
  "sendingApi_batchDeleteMessages ids =
     mutation POST (js ''/admin/send/messages/batch-delete'') (Object [(js ''ids'', Array ids)]) (Some [js ''/admin/send/messages''])"

definition sendingApi_send :: "jsval \<Rightarrow> request" where
  "sendingApi_send data =
     mutation POST (js ''/admin/send/messages'') data (Some [js ''/admin/send/messages''])"

section \<open>Administrator sessions and OAuth\<close>

definition authApi_login :: "jstr \<Rightarrow> jstr \<Rightarrow> jsval \<Rightarrow> request" where
  "authApi_login username password otp =
     mutation POST (js ''/admin/auth/login'') (Object [(js ''username'', Text username), (js ''password'', Text password), (js ''otp'', otp)]) None"

definition authApi_logout :: "request" where
  "authApi_logout =
     mutation POST (js ''/admin/auth/logout'') Undefined None"

definition authApi_getMe :: "request" where
  "authApi_getMe =
     get_request (js ''/admin/auth/me'') Undefined"

definition authApi_changePassword :: "jstr \<Rightarrow> jstr \<Rightarrow> request" where
  "authApi_changePassword oldPassword newPassword =
     mutation POST (js ''/admin/auth/change-password'') (Object [(js ''oldPassword'', Text oldPassword), (js ''newPassword'', Text newPassword)]) None"

definition authApi_getTwoFactorStatus :: "request" where
  "authApi_getTwoFactorStatus =
     get_request (js ''/admin/auth/2fa/status'') Undefined"

definition authApi_setupTwoFactor :: "request" where
  "authApi_setupTwoFactor =
     mutation POST (js ''/admin/auth/2fa/setup'') Undefined None"

definition authApi_enableTwoFactor :: "jstr \<Rightarrow> request" where
  "authApi_enableTwoFactor otp =
     mutation POST (js ''/admin/auth/2fa/enable'') (Object [(js ''otp'', Text otp)]) None"

definition authApi_disableTwoFactor :: "jstr \<Rightarrow> jstr \<Rightarrow> request" where
  "authApi_disableTwoFactor password otp =
     mutation POST (js ''/admin/auth/2fa/disable'') (Object [(js ''password'', Text password), (js ''otp'', Text otp)]) None"

definition oauthApi_getProviderStatuses :: "request" where
  "oauthApi_getProviderStatuses =
     get_request (js ''/admin/oauth/providers'') Undefined"

definition oauthApi_getConfigs :: "request" where
  "oauthApi_getConfigs =
     get_request (js ''/admin/oauth/configs'') Undefined"

definition oauthApi_saveConfig :: "oauth_provider \<Rightarrow> jsval \<Rightarrow> request" where
  "oauthApi_saveConfig provider data =
     mutation PUT (js ''/admin/oauth/configs/'' @ oauth_path provider) data None"

definition oauthApi_parseGoogleClientSecret :: "jsval \<Rightarrow> request" where
  "oauthApi_parseGoogleClientSecret data =
     mutation POST (js ''/admin/oauth/google/parse-client-secret'') data None"

definition oauthApi_startAuthorization :: "oauth_provider \<Rightarrow> jsval \<Rightarrow> request" where
  "oauthApi_startAuthorization provider data =
     mutation POST (js ''/admin/oauth/'' @ oauth_path provider @ js ''/start'') data None"

definition oauthApi_getAuthorizationStatus :: "oauth_provider \<Rightarrow> jstr \<Rightarrow> request" where
  "oauthApi_getAuthorizationStatus provider state =
     get_request (js ''/admin/oauth/'' @ oauth_path provider @ js ''/status'') (Object [(js ''state'', Text state)])"

section \<open>The mailbox portal\<close>

definition mailboxPortalApi_login :: "jstr \<Rightarrow> jstr \<Rightarrow> jsval \<Rightarrow> request" where
  "mailboxPortalApi_login username password otp =
     mutation POST (mailbox_portal_prefix @ js ''/login'') (Object [(js ''username'', Text username), (js ''password'', Text password), (js ''otp'', otp)]) None"

definition mailboxPortalApi_logout :: "request" where
  "mailboxPortalApi_logout =
     mutation POST (mailbox_portal_prefix @ js ''/logout'') Undefined None"

definition mailboxPortalApi_getSession :: "request" where
  "mailboxPortalApi_getSession =
     get_request (mailbox_portal_prefix @ js ''/session'') Undefined"

definition mailboxPortalApi_getMailboxes :: "request" where
  "mailboxPortalApi_getMailboxes =
     get_request (mailbox_portal_prefix @ js ''/mailboxes'') Undefined"

definition mailboxPortalApi_getMessages :: "jsval \<Rightarrow> request" where
  "mailboxPortalApi_getMessages params =
     get_request (mailbox_portal_prefix @ js ''/messages'') params"

definition mailboxPortalApi_getMessage :: "jsval \<Rightarrow> request" where
  "mailboxPortalApi_getMessage id1 =
     get_request (mailbox_portal_prefix @ js ''/messages/'' @ string_of id1) Undefined"

definition mailboxPortalApi_getSentMessages :: "jsval \<Rightarrow> request" where
  "mailboxPortalApi_getSentMessages params =
     get_request (mailbox_portal_prefix @ js ''/sent-messages'') params"

definition mailboxPortalApi_getSentMessage :: "jsval \<Rightarrow> request" where
  "mailboxPortalApi_getSentMessage id1 =
     get_request (mailbox_portal_prefix @ js ''/sent-messages/'' @ string_of id1) Undefined"

definition mailboxPortalApi_getForwardingJobs :: "jsval \<Rightarrow> request" where
  "mailboxPortalApi_getForwardingJobs params =
     get_request (mailbox_portal_prefix @ js ''/forwarding-jobs'') params"

definition mailboxPortalApi_sendMessage :: "jsval \<Rightarrow> request" where
  "mailboxPortalApi_sendMessage data =
     mutation POST (mailbox_portal_prefix @ js ''/send'') data None"

definition mailboxPortalApi_changePassword :: "jstr \<Rightarrow> jstr \<Rightarrow> request" where
  "mailboxPortalApi_changePassword oldPassword newPassword =
     mutation POST (mailbox_portal_prefix @ js ''/change-password'') (Object [(js ''oldPassword'', Text oldPassword), (js ''newPassword'', Text newPassword)]) None"

definition mailboxPortalApi_getTwoFactorStatus :: "request" where
  "mailboxPortalApi_getTwoFactorStatus =
     get_request (mailbox_portal_prefix @ js ''/2fa/status'') Undefined"

definition mailboxPortalApi_setupTwoFactor :: "request" where
  "mailboxPortalApi_setupTwoFactor =
     mutation POST (mailbox_portal_prefix @ js ''/2fa/setup'') Undefined None"

definition mailboxPortalApi_enableTwoFactor :: "jstr \<Rightarrow> request" where
  "mailboxPortalApi_enableTwoFactor otp =
     mutation POST (mailbox_portal_prefix @ js ''/2fa/enable'') (Object [(js ''otp'', Text otp)]) None"

definition mailboxPortalApi_disableTwoFactor :: "jstr \<Rightarrow> jstr \<Rightarrow> request" where
  "mailboxPortalApi_disableTwoFactor password otp =
     mutation POST (mailbox_portal_prefix @ js ''/2fa/disable'') (Object [(js ''password'', Text password), (js ''otp'', Text otp)]) None"

definition mailboxPortalApi_updateForwarding :: "jsval \<Rightarrow> request" where
  "mailboxPortalApi_updateForwarding data =
     mutation POST (mailbox_portal_prefix @ js ''/forwarding'') data None"

definition empty_runtime :: runtime where
  "empty_runtime = \<lparr>rt_epoch = 0, rt_cache = (\<lambda>_. None), rt_pending = (\<lambda>_. None), rt_flights = []\<rparr>"

lemma empty_runtime_reach: "reach runtime_start rt_step empty_runtime"
  unfolding reach_def
  by (intro exI [of _ empty_runtime] exI [of _ "[]"]) (simp add: runtime_start_def empty_runtime_def)

section \<open>The portal\<close>

inductive portal_get :: "request \<Rightarrow> bool" where
  "portal_get mailboxPortalApi_getSession"
| "portal_get mailboxPortalApi_getMailboxes"
| "portal_get (mailboxPortalApi_getMessages params)"
| "portal_get (mailboxPortalApi_getMessage id1)"
| "portal_get (mailboxPortalApi_getSentMessages params)"
| "portal_get (mailboxPortalApi_getSentMessage id1)"
| "portal_get (mailboxPortalApi_getForwardingJobs params)"
| "portal_get mailboxPortalApi_getTwoFactorStatus"

text \<open>Nothing of the mailbox portal is ever cached: a portal GET always gets a promise, the cache
  stays as it is, and the request it starts is one whose response will not be stored; its URL is a
  portal URL, so a 401 on it ends the portal session.\<close>

theorem portal_never_cached:
  assumes "portal_get g"
  shows "url_includes (Some (rq_url g)) mailbox_portal_prefix
    \<and> (\<exists>i. fst (perform_get g now rt) = PromiseOf i)
    \<and> rt_cache (snd (perform_get g now rt)) = rt_cache rt
    \<and> (\<forall>f \<in> set (rt_flights (snd (perform_get g now rt))). f \<in> set (rt_flights rt) \<or> fl_cache_ms f = 0)"
proof -
  have r: "\<exists>url params. g = get_request (mailbox_portal_prefix @ url) params"
    using assms
    by (cases rule: portal_get.cases)
      (auto simp: mailboxPortalApi_getSession_def mailboxPortalApi_getMailboxes_def
        mailboxPortalApi_getMessages_def mailboxPortalApi_getMessage_def
        mailboxPortalApi_getSentMessages_def mailboxPortalApi_getSentMessage_def
        mailboxPortalApi_getForwardingJobs_def mailboxPortalApi_getTwoFactorStatus_def)
  then obtain url params where g: "g = get_request (mailbox_portal_prefix @ url) params" by blast
  have "url_includes (Some (mailbox_portal_prefix @ url)) mailbox_portal_prefix"
    by (auto simp: url_includes_def js_includes_iff intro: exI [of _ "[]"])
  moreover have "rq_cache_ms g = 0" "rq_dedupe g" "rq_url g = mailbox_portal_prefix @ url"
    by (simp_all add: g get_request_def)
  ultimately show ?thesis
    by (auto simp: perform_get_def request_get_def start_or_share_def Let_def split: option.split)
qed

lemma portal_never_cached_witness: "\<exists>i. fst (perform_get (mailboxPortalApi_getMessages Undefined) 0 empty_runtime) = PromiseOf i"
  using portal_never_cached [OF portal_get.intros(3)] by blast

section \<open>A missing invalidation\<close>

text \<open>clearMailbox invalidates nothing, unlike deleteSelectedMails: a viewMails call made after the
  mailbox was cleared is given the promise of a viewMails request that was already under way before,
  and so shows the messages that no longer exist.\<close>

theorem clear_mailbox_serves_stale:
  assumes "reach runtime_start rt_step rt" "i < length (rt_flights rt)"
    and "fl_dedupe (rt_flights rt ! i)" "fl_phase (rt_flights rt ! i) \<noteq> Done"
    and "fl_epoch (rt_flights rt ! i) = rt_epoch rt"
    and "fl_key (rt_flights rt ! i) = request_key (emailApi_viewMails id1 mailbox seen)"
  shows "fst (perform_get (emailApi_viewMails id1 mailbox seen) now
      (mutation_succeeded (emailApi_clearMailbox id1 mailbox) rt)) = PromiseOf i
    \<and> fst (perform_get (emailApi_viewMails id1 mailbox seen) now
      (mutation_succeeded (emailApi_deleteSelectedMails id1 data) rt)) = PromiseOf (length (rt_flights rt))"
proof -
  have r: "rq_dedupe (emailApi_viewMails id1 mailbox seen)" "rq_cache_ms (emailApi_viewMails id1 mailbox seen) = 0"
    by (simp_all add: emailApi_viewMails_def get_request_def)
  show ?thesis
    using pending_entry [OF assms(1-5)] assms(6) r
    by (simp add: perform_get_def mutation_succeeded_def emailApi_clearMailbox_def
        emailApi_deleteSelectedMails_def mutation_def invalidate_get_cache_def request_key_def
        request_get_def start_or_share_def Let_def)
qed

lemma clear_mailbox_serves_stale_witness:
  "fst (perform_get (emailApi_viewMails 3 Undefined None) 9 (mutation_succeeded (emailApi_clearMailbox 3 Undefined)
      (snd (perform_get (emailApi_viewMails 3 Undefined None) 0 empty_runtime)))) = PromiseOf 0"
proof -
  let ?g = "emailApi_viewMails 3 Undefined None"
  let ?rt = "snd (perform_get ?g 0 empty_runtime)"
  have "rt_step empty_runtime (StartGet (rq_url ?g) (rq_params ?g) (rq_dedupe ?g) (rq_cache_ms ?g) 0) ?rt"
    by (rule rt_step.start_get [of _ _ _ _ _ _ "fst (perform_get ?g 0 empty_runtime)"]) (simp add: perform_get_def)
  then have "reach runtime_start rt_step ?rt" by (rule reach_step [OF empty_runtime_reach])
  from clear_mailbox_serves_stale [OF this, of 0 3 Undefined None]
  show ?thesis
    by (simp add: perform_get_def empty_runtime_def request_get_def start_or_share_def Let_def request_key_def
        emailApi_viewMails_def get_request_def)
qed

text \<open>The same for the trend of API calls, which the server counts from the logs: deleting logs invalidates
  the logs only, so the cached trend is still served, with the deleted calls in it.\<close>

theorem deleted_logs_stay_in_trend:
  assumes "rt_cache rt (request_key (dashboardApi_getApiTrend days)) = Some e" "now < ce_expires e"
  shows "fst (perform_get (dashboardApi_getApiTrend days) now (mutation_succeeded (dashboardApi_deleteLog id1) rt))
      = CachedValue (ce_value e)
    \<and> fst (perform_get (dashboardApi_getApiTrend days) now (mutation_succeeded (dashboardApi_batchDeleteLogs ids) rt))
      = CachedValue (ce_value e)"
proof -
  have "\<not> starts_with (request_key (dashboardApi_getApiTrend days)) (js ''/admin/dashboard/logs'')"
    by (simp add: request_key_def dashboardApi_getApiTrend_def get_request_def build_get_request_key_def starts_with_def js_eval)
  then show ?thesis using assms
    by (simp add: perform_get_def mutation_succeeded_def dashboardApi_deleteLog_def dashboardApi_batchDeleteLogs_def
        mutation_def invalidate_get_cache_def request_get_def request_key_def dashboardApi_getApiTrend_def get_request_def)
qed

end
