(* ===== verification/Providers.thy ===== *)
theory Providers
  imports JsObject
begin

text \<open>
  The mail provider registry of the web client (web/src/constants/providers.ts): providers, account
  profiles with their protocols, capabilities and server defaults, and the functions that resolve
  them. Display texts (labels, descriptions, hints, colours) are not modelled. A thrown error is
  \<open>None\<close>; the objects keyed by provider, key or authentication type are functions to options.
\<close>

section \<open>Types\<close>

datatype email_provider =
    OUTLOOK
  | GMAIL
  | QQ
  | NETEASE_163
  | NETEASE_126
  | ICLOUD
  | YAHOO
  | ZOHO
  | ALIYUN
  | AMAZON_WORKMAIL
  | FASTMAIL
  | AOL
  | GMX
  | MAILCOM
  | YANDEX
  | CUSTOM_IMAP_SMTP

datatype email_auth_type = MICROSOFT_OAUTH | GOOGLE_OAUTH | APP_PASSWORD

datatype representative_protocol = RP_oauth_api | RP_imap_smtp | RP_hosted_internal

datatype secondary_protocol = SP_graph_api | SP_gmail_api | SP_imap | SP_smtp

datatype provider_profile_key =
    P_outlook_oauth
  | P_gmail_oauth
  | P_gmail_app_password
  | P_qq_imap_smtp
  | P_netease_163_imap_smtp
  | P_netease_126_imap_smtp
  | P_icloud_imap_smtp
  | P_yahoo_imap_smtp
  | P_zoho_imap_smtp
  | P_aliyun_imap_smtp
  | P_amazon_workmail_imap_smtp
  | P_fastmail_imap_smtp
  | P_aol_imap_smtp
  | P_gmx_imap_smtp
  | P_mailcom_imap_smtp
  | P_yandex_imap_smtp
  | P_custom_imap_smtp

record folder_map =
  fm_inbox :: "jstr option"
  fm_junk :: "jstr option"
  fm_sent :: "jstr option"

record mail_provider_config =
  mc_read_mode :: "jstr option"
  mc_imap_host :: "jstr option"
  mc_imap_port :: "nat option"
  mc_imap_tls :: "bool option"
  mc_smtp_host :: "jstr option"
  mc_smtp_port :: "nat option"
  mc_smtp_secure :: "bool option"
  mc_folders :: "folder_map option"

record capability_matrix =
  cm_read_inbox :: bool
  cm_read_junk :: bool
  cm_read_sent :: bool
  cm_clear_mailbox :: bool
  cm_send_mail :: bool
  cm_uses_o_auth :: bool
  cm_receive_mail :: bool
  cm_api_access :: bool
  cm_forwarding :: bool
  cm_search :: bool
  cm_refresh_token :: bool
  cm_webhook :: bool
  cm_alias_support :: bool
  cm_modes :: "jstr list"

record provider_profile =
  pp_key :: provider_profile_key
  pp_provider :: email_provider
  pp_auth_type :: email_auth_type
  pp_representative_protocol :: representative_protocol
  pp_secondary_protocols :: "secondary_protocol list"
  pp_import_template :: jstr
  pp_config_defaults :: "mail_provider_config option"
  pp_requires_manual_server_config :: "bool option"
  pp_supports_bulk_import :: "bool option"
  pp_capabilities :: capability_matrix

section \<open>Building profiles\<close>

datatype capability =
    ReadInbox | ReadJunk | ReadSent | ClearMailbox | SendMail | UsesOAuth | ReceiveMail | ApiAccess
  | Forwarding | Search | RefreshToken | Webhook | AliasSupport

text \<open>The overrides of the all-false matrix: the flags set to true, and the modes.\<close>

definition create_capability_matrix :: "capability list \<Rightarrow> jstr list \<Rightarrow> capability_matrix" where
  "create_capability_matrix flags modes =
     \<lparr>cm_read_inbox = ReadInbox \<in> set flags, cm_read_junk = ReadJunk \<in> set flags,
      cm_read_sent = ReadSent \<in> set flags, cm_clear_mailbox = ClearMailbox \<in> set flags,
      cm_send_mail = SendMail \<in> set flags, cm_uses_o_auth = UsesOAuth \<in> set flags,
      cm_receive_mail = ReceiveMail \<in> set flags, cm_api_access = ApiAccess \<in> set flags,
      cm_forwarding = Forwarding \<in> set flags, cm_search = Search \<in> set flags,
      cm_refresh_token = RefreshToken \<in> set flags, cm_webhook = Webhook \<in> set flags,
      cm_alias_support = AliasSupport \<in> set flags, cm_modes = modes\<rparr>"

definition no_overrides :: mail_provider_config where
  "no_overrides = \<lparr>mc_read_mode = None, mc_imap_host = None, mc_imap_port = None, mc_imap_tls = None,
     mc_smtp_host = None, mc_smtp_port = None, mc_smtp_secure = None, mc_folders = None\<rparr>"

definition spread :: "'a option \<Rightarrow> 'a option \<Rightarrow> 'a option" where
  "spread base over = (case over of Some v \<Rightarrow> Some v | None \<Rightarrow> base)"

definition spread_folders :: "folder_map \<Rightarrow> folder_map option \<Rightarrow> folder_map" where
  "spread_folders base over =
     (case over of
        None \<Rightarrow> base
      | Some f \<Rightarrow> \<lparr>fm_inbox = spread (fm_inbox base) (fm_inbox f),
                  fm_junk = spread (fm_junk base) (fm_junk f),
                  fm_sent = spread (fm_sent base) (fm_sent f)\<rparr>)"

definition spread_config :: "mail_provider_config \<Rightarrow> mail_provider_config \<Rightarrow> mail_provider_config" where
  "spread_config base over =
     \<lparr>mc_read_mode = spread (mc_read_mode base) (mc_read_mode over),
      mc_imap_host = spread (mc_imap_host base) (mc_imap_host over),
      mc_imap_port = spread (mc_imap_port base) (mc_imap_port over),
      mc_imap_tls = spread (mc_imap_tls base) (mc_imap_tls over),
      mc_smtp_host = spread (mc_smtp_host base) (mc_smtp_host over),
      mc_smtp_port = spread (mc_smtp_port base) (mc_smtp_port over),
      mc_smtp_secure = spread (mc_smtp_secure base) (mc_smtp_secure over),
      mc_folders = spread (mc_folders base) (mc_folders over)\<rparr>"

text \<open>The object literal lists the merged folders first and spreads the overrides last.\<close>

definition create_imap_smtp_config_defaults :: "mail_provider_config \<Rightarrow> mail_provider_config" where
  "create_imap_smtp_config_defaults overrides =
     spread_config
       \<lparr>mc_read_mode = Some (js ''IMAP''), mc_imap_host = None, mc_imap_port = Some 993,
        mc_imap_tls = Some True, mc_smtp_host = None, mc_smtp_port = Some 465,
        mc_smtp_secure = Some True,
        mc_folders = Some (spread_folders
          \<lparr>fm_inbox = Some (js ''INBOX''), fm_junk = Some (js ''Junk''), fm_sent = Some (js ''Sent'')\<rparr>
          (mc_folders overrides))\<rparr>
       overrides"

definition create_imap_smtp_profile ::
  "provider_profile_key \<Rightarrow> email_provider \<Rightarrow> jstr \<Rightarrow> mail_provider_config option \<Rightarrow> bool option
   \<Rightarrow> bool option \<Rightarrow> provider_profile" where
  "create_imap_smtp_profile key provider template config manual bulk =
     \<lparr>pp_key = key, pp_provider = provider, pp_auth_type = APP_PASSWORD,
      pp_representative_protocol = RP_imap_smtp, pp_secondary_protocols = [SP_smtp],
      pp_import_template = template, pp_config_defaults = config,
      pp_requires_manual_server_config = manual, pp_supports_bulk_import = bulk,
      pp_capabilities = create_capability_matrix
        [ReadInbox, ReadJunk, ReadSent, SendMail, ReceiveMail] [js ''IMAP'', js ''SMTP'']\<rparr>"

section \<open>The registry\<close>

definition profile_outlook_oauth :: provider_profile where
  "profile_outlook_oauth = \<lparr>pp_key = P_outlook_oauth, pp_provider = OUTLOOK, pp_auth_type = MICROSOFT_OAUTH,
     pp_representative_protocol = RP_oauth_api, pp_secondary_protocols = [SP_imap],
     pp_import_template = js ''OUTLOOK_OAUTH----example@outlook.com----client_id----client_secret----refresh_token'', pp_config_defaults = None,
     pp_requires_manual_server_config = None, pp_supports_bulk_import = None,
     pp_capabilities = create_capability_matrix 
       [ReadInbox, ReadJunk, ReadSent, ClearMailbox, SendMail, UsesOAuth, ReceiveMail, RefreshToken]
       [js ''GRAPH_API'', js ''IMAP'']\<rparr>"

definition profile_gmail_oauth :: provider_profile where
  "profile_gmail_oauth = \<lparr>pp_key = P_gmail_oauth, pp_provider = GMAIL, pp_auth_type = GOOGLE_OAUTH,
     pp_representative_protocol = RP_oauth_api, pp_secondary_protocols = [SP_imap],
     pp_import_template = js ''GMAIL_OAUTH----example@gmail.com----client_id----client_secret----refresh_token'', pp_config_defaults = None,
     pp_requires_manual_server_config = None, pp_supports_bulk_import = None,
     pp_capabilities = create_capability_matrix 
       [ReadInbox, ReadJunk, ReadSent, ClearMailbox, SendMail, UsesOAuth, ReceiveMail, RefreshToken]
       [js ''GMAIL_API'', js ''IMAP'']\<rparr>"

definition profile_gmail_app_password :: provider_profile where
  "profile_gmail_app_password = create_imap_smtp_profile P_gmail_app_password GMAIL (js ''GMAIL_APP_PASSWORD----example@gmail.com----app_password'')
     (Some (create_imap_smtp_config_defaults (no_overrides\<lparr>mc_imap_host := Some (js ''imap.gmail.com''),
        mc_smtp_host := Some (js ''smtp.gmail.com''),
        mc_folders := Some \<lparr>fm_inbox = None, fm_junk = Some (js ''[Gmail]/Spam''), fm_sent = Some (js ''[Gmail]/Sent Mail'')\<rparr>\<rparr>)))
     None (Some True)"

definition profile_qq_imap_smtp :: provider_profile where
  "profile_qq_imap_smtp = create_imap_smtp_profile P_qq_imap_smtp QQ (js ''QQ_IMAP_SMTP----example@qq.com----authorization_code'')
     (Some (create_imap_smtp_config_defaults (no_overrides\<lparr>mc_imap_host := Some (js ''imap.qq.com''),
        mc_smtp_host := Some (js ''smtp.qq.com''),
        mc_folders := Some \<lparr>fm_inbox = None, fm_junk = None, fm_sent = Some (js ''Sent Messages'')\<rparr>\<rparr>)))
     None (Some True)"

definition profile_netease_163_imap_smtp :: provider_profile where
  "profile_netease_163_imap_smtp = create_imap_smtp_profile P_netease_163_imap_smtp NETEASE_163 (js ''NETEASE_163_IMAP_SMTP----example@163.com----authorization_code'')
     (Some (create_imap_smtp_config_defaults (no_overrides\<lparr>mc_imap_host := Some (js ''imap.163.com''),
        mc_smtp_host := Some (js ''smtp.163.com'')\<rparr>)))
     None (Some True)"

definition profile_netease_126_imap_smtp :: provider_profile where
  "profile_netease_126_imap_smtp = create_imap_smtp_profile P_netease_126_imap_smtp NETEASE_126 (js ''NETEASE_126_IMAP_SMTP----example@126.com----authorization_code'')
     (Some (create_imap_smtp_config_defaults (no_overrides\<lparr>mc_imap_host := Some (js ''imap.126.com''),
        mc_smtp_host := Some (js ''smtp.126.com'')\<rparr>)))
     None (Some True)"

definition profile_icloud_imap_smtp :: provider_profile where
  "profile_icloud_imap_smtp = create_imap_smtp_profile P_icloud_imap_smtp ICLOUD (js ''ICLOUD_IMAP_SMTP----example@icloud.com----app_specific_password'')
     (Some (create_imap_smtp_config_defaults (no_overrides\<lparr>mc_imap_host := Some (js ''imap.mail.me.com''),
        mc_smtp_host := Some (js ''smtp.mail.me.com''),
        mc_smtp_port := Some 587,
        mc_smtp_secure := Some False,
        mc_folders := Some \<lparr>fm_inbox = None, fm_junk = None, fm_sent = Some (js ''Sent Messages'')\<rparr>\<rparr>)))
     None (Some True)"

definition profile_yahoo_imap_smtp :: provider_profile where
  "profile_yahoo_imap_smtp = create_imap_smtp_profile P_yahoo_imap_smtp YAHOO (js ''YAHOO_IMAP_SMTP----example@yahoo.com----app_password'')
     (Some (create_imap_smtp_config_defaults (no_overrides\<lparr>mc_imap_host := Some (js ''imap.mail.yahoo.com''),
        mc_smtp_host := Some (js ''smtp.mail.yahoo.com''),
        mc_folders := Some \<lparr>fm_inbox = None, fm_junk = Some (js ''Bulk Mail''), fm_sent = None\<rparr>\<rparr>)))
     None (Some True)"

definition profile_zoho_imap_smtp :: provider_profile where
  "profile_zoho_imap_smtp = create_imap_smtp_profile P_zoho_imap_smtp ZOHO (js ''ZOHO_IMAP_SMTP----example@zoho.com----app_password'')
     (Some (create_imap_smtp_config_defaults (no_overrides\<lparr>mc_imap_host := Some (js ''imap.zoho.com''),
        mc_smtp_host := Some (js ''smtp.zoho.com''),
        mc_folders := Some \<lparr>fm_inbox = None, fm_junk = Some (js ''Spam''), fm_sent = None\<rparr>\<rparr>)))
     None (Some True)"

definition profile_aliyun_imap_smtp :: provider_profile where
  "profile_aliyun_imap_smtp = create_imap_smtp_profile P_aliyun_imap_smtp ALIYUN (js ''ALIYUN_IMAP_SMTP----example@aliyun.com----authorization_code'')
     (Some (create_imap_smtp_config_defaults (no_overrides\<lparr>mc_imap_host := Some (js ''imap.qiye.aliyun.com''),
        mc_smtp_host := Some (js ''smtp.qiye.aliyun.com'')\<rparr>)))
     None (Some True)"

definition profile_amazon_workmail_imap_smtp :: provider_profile where
  "profile_amazon_workmail_imap_smtp = create_imap_smtp_profile P_amazon_workmail_imap_smtp AMAZON_WORKMAIL (js ''AMAZON_WORKMAIL_IMAP_SMTP----example@yourdomain.com----password'')
     (Some (create_imap_smtp_config_defaults (no_overrides\<lparr>mc_folders := Some \<lparr>fm_inbox = None, fm_junk = None, fm_sent = Some (js ''Sent Items'')\<rparr>\<rparr>)))
     (Some True) (Some False)"

definition profile_fastmail_imap_smtp :: provider_profile where
  "profile_fastmail_imap_smtp = create_imap_smtp_profile P_fastmail_imap_smtp FASTMAIL (js ''FASTMAIL_IMAP_SMTP----example@fastmail.com----app_password'')
     (Some (create_imap_smtp_config_defaults (no_overrides\<lparr>mc_imap_host := Some (js ''imap.fastmail.com''),
        mc_smtp_host := Some (js ''smtp.fastmail.com''),
        mc_folders := Some \<lparr>fm_inbox = None, fm_junk = Some (js ''Junk Mail''), fm_sent = None\<rparr>\<rparr>)))
     None (Some True)"

definition profile_aol_imap_smtp :: provider_profile where
  "profile_aol_imap_smtp = create_imap_smtp_profile P_aol_imap_smtp AOL (js ''AOL_IMAP_SMTP----example@aol.com----app_password'')
     (Some (create_imap_smtp_config_defaults (no_overrides\<lparr>mc_imap_host := Some (js ''imap.aol.com''),
        mc_smtp_host := Some (js ''smtp.aol.com''),
        mc_folders := Some \<lparr>fm_inbox = None, fm_junk = Some (js ''Spam''), fm_sent = None\<rparr>\<rparr>)))
     None (Some True)"

definition profile_gmx_imap_smtp :: provider_profile where
  "profile_gmx_imap_smtp = create_imap_smtp_profile P_gmx_imap_smtp GMX (js ''GMX_IMAP_SMTP----example@gmx.com----password'')
     (Some (create_imap_smtp_config_defaults (no_overrides\<lparr>mc_imap_host := Some (js ''imap.gmx.com''),
        mc_smtp_host := Some (js ''mail.gmx.com''),
        mc_smtp_port := Some 587,
        mc_smtp_secure := Some False,
        mc_folders := Some \<lparr>fm_inbox = None, fm_junk = Some (js ''Spam''), fm_sent = None\<rparr>\<rparr>)))
     None (Some True)"

definition profile_mailcom_imap_smtp :: provider_profile where
  "profile_mailcom_imap_smtp = create_imap_smtp_profile P_mailcom_imap_smtp MAILCOM (js ''MAILCOM_IMAP_SMTP----example@mail.com----password'')
     (Some (create_imap_smtp_config_defaults (no_overrides\<lparr>mc_imap_host := Some (js ''imap.mail.com''),
        mc_smtp_host := Some (js ''smtp.mail.com''),
        mc_smtp_port := Some 587,
        mc_smtp_secure := Some False,
        mc_folders := Some \<lparr>fm_inbox = None, fm_junk = Some (js ''Junk email''), fm_sent = Some (js ''Sent Items'')\<rparr>\<rparr>)))
     None (Some True)"

definition profile_yandex_imap_smtp :: provider_profile where
  "profile_yandex_imap_smtp = create_imap_smtp_profile P_yandex_imap_smtp YANDEX (js ''YANDEX_IMAP_SMTP----example@yandex.com----password'')
     (Some (create_imap_smtp_config_defaults (no_overrides\<lparr>mc_imap_host := Some (js ''imap.yandex.com''),
        mc_smtp_host := Some (js ''smtp.yandex.com''),
        mc_folders := Some \<lparr>fm_inbox = None, fm_junk = Some (js ''Spam''), fm_sent = None\<rparr>\<rparr>)))
     None (Some True)"

definition profile_custom_imap_smtp :: provider_profile where
  "profile_custom_imap_smtp = create_imap_smtp_profile P_custom_imap_smtp CUSTOM_IMAP_SMTP (js ''CUSTOM_IMAP_SMTP----example@yourdomain.com----password'')
     (Some (create_imap_smtp_config_defaults (no_overrides)))
     (Some True) (Some False)"

definition external_provider_profile_registry :: "provider_profile list" where
  "external_provider_profile_registry =
     [profile_outlook_oauth,
      profile_gmail_oauth,
      profile_gmail_app_password,
      profile_qq_imap_smtp,
      profile_netease_163_imap_smtp,
      profile_netease_126_imap_smtp,
      profile_icloud_imap_smtp,
      profile_yahoo_imap_smtp,
      profile_zoho_imap_smtp,
      profile_aliyun_imap_smtp,
      profile_amazon_workmail_imap_smtp,
      profile_fastmail_imap_smtp,
      profile_aol_imap_smtp,
      profile_gmx_imap_smtp,
      profile_mailcom_imap_smtp,
      profile_yandex_imap_smtp,
      profile_custom_imap_smtp]"

lemmas profile_defs = profile_outlook_oauth_def
  profile_gmail_oauth_def
  profile_gmail_app_password_def
  profile_qq_imap_smtp_def
  profile_netease_163_imap_smtp_def
  profile_netease_126_imap_smtp_def
  profile_icloud_imap_smtp_def
  profile_yahoo_imap_smtp_def
  profile_zoho_imap_smtp_def
  profile_aliyun_imap_smtp_def
  profile_amazon_workmail_imap_smtp_def
  profile_fastmail_imap_smtp_def
  profile_aol_imap_smtp_def
  profile_gmx_imap_smtp_def
  profile_mailcom_imap_smtp_def
  profile_yandex_imap_smtp_def
  profile_custom_imap_smtp_def

definition provider_order :: "email_provider list" where
  "provider_order = [OUTLOOK, GMAIL, QQ, NETEASE_163, NETEASE_126, ICLOUD, YAHOO, ZOHO, ALIYUN, AMAZON_WORKMAIL, FASTMAIL, AOL, GMX, MAILCOM, YANDEX, CUSTOM_IMAP_SMTP]"

section \<open>Resolution\<close>

text \<open>\<open>reduce\<close> into an object: the last entry with the key wins.\<close>

definition last_by :: "('a \<Rightarrow> 'k) \<Rightarrow> 'a list \<Rightarrow> 'k \<Rightarrow> 'a option" where
  "last_by f xs k = (case filter (\<lambda>x. f x = k) (rev xs) of [] \<Rightarrow> None | x # _ \<Rightarrow> Some x)"

text \<open>\<open>Array.from(new Set(xs))\<close>: the first occurrences, in order.\<close>

fun distinct_values :: "'a list \<Rightarrow> 'a list" where
  "distinct_values [] = []"
| "distinct_values (x # xs) = x # distinct_values (filter (\<lambda>y. y \<noteq> x) xs)"

lemma distinct_values_set [simp]: "set (distinct_values xs) = set xs"
  by (induction xs rule: distinct_values.induct) auto

lemma distinct_values_distinct [simp]: "distinct (distinct_values xs)"
  by (induction xs rule: distinct_values.induct) auto

definition provider_profile_definitions :: "provider_profile_key \<Rightarrow> provider_profile option" where
  "provider_profile_definitions = last_by pp_key external_provider_profile_registry"

definition get_profiles_by_provider :: "email_provider \<Rightarrow> provider_profile list" where
  "get_profiles_by_provider provider =
     filter (\<lambda>p. pp_provider p = provider) external_provider_profile_registry"

record provider_definition =
  pd_provider :: email_provider
  pd_auth_types :: "email_auth_type list"
  pd_import_template :: jstr
  pd_import_templates :: "jstr list"
  pd_representative_protocol :: representative_protocol
  pd_secondary_protocols :: "secondary_protocol list"
  pd_profile_definitions :: "email_auth_type \<Rightarrow> provider_profile option"

definition build_provider_definition :: "email_provider \<Rightarrow> provider_definition option" where
  "build_provider_definition provider =
     (let profiles = get_profiles_by_provider provider
      in case profiles of
           [] \<Rightarrow> None
         | default_profile # _ \<Rightarrow> Some
             \<lparr>pd_provider = provider,
              pd_auth_types = map pp_auth_type profiles,
              pd_import_template = pp_import_template default_profile,
              pd_import_templates = map pp_import_template profiles,
              pd_representative_protocol = pp_representative_protocol default_profile,
              pd_secondary_protocols = distinct_values (concat (map pp_secondary_protocols profiles)),
              pd_profile_definitions = last_by pp_auth_type profiles\<rparr>)"

text \<open>
  \<open>PROVIDER_DEFINITIONS\<close> is built over \<open>PROVIDER_ORDER\<close> when the module loads; loading it fails
  when one of the definitions cannot be built.
\<close>

definition provider_definitions :: "email_provider \<Rightarrow> provider_definition option" where
  "provider_definitions provider =
     (if list_all (\<lambda>p. build_provider_definition p \<noteq> None) provider_order \<and> provider \<in> set provider_order
      then build_provider_definition provider else None)"

definition get_default_auth_type :: "email_provider \<Rightarrow> email_auth_type option" where
  "get_default_auth_type provider =
     (case provider_definitions provider of
        None \<Rightarrow> None
      | Some d \<Rightarrow> (case pd_auth_types d of [] \<Rightarrow> None | a # _ \<Rightarrow> Some a))"

definition chosen_auth_type :: "email_provider \<Rightarrow> email_auth_type option \<Rightarrow> email_auth_type option" where
  "chosen_auth_type provider auth_type =
     (case auth_type of Some a \<Rightarrow> Some a | None \<Rightarrow> get_default_auth_type provider)"

definition get_provider_profile_definition ::
  "email_provider \<Rightarrow> email_auth_type option \<Rightarrow> provider_profile option" where
  "get_provider_profile_definition provider auth_type =
     (case chosen_auth_type provider auth_type of
        None \<Rightarrow> None
      | Some a \<Rightarrow> (case provider_definitions provider of
          None \<Rightarrow> None | Some d \<Rightarrow> pd_profile_definitions d a))"

definition resolve_provider_profile ::
  "email_provider \<Rightarrow> email_auth_type option \<Rightarrow> provider_profile_key option" where
  "resolve_provider_profile provider auth_type =
     (case chosen_auth_type provider auth_type of
        None \<Rightarrow> None
      | Some a \<Rightarrow> (case provider_definitions provider of
          None \<Rightarrow> None | Some d \<Rightarrow> map_option pp_key (pd_profile_definitions d a)))"

definition get_provider_profile_capabilities ::
  "email_provider \<Rightarrow> email_auth_type option \<Rightarrow> capability_matrix option" where
  "get_provider_profile_capabilities provider auth_type =
     map_option pp_capabilities (get_provider_profile_definition provider auth_type)"

definition get_provider_profiles_by_representative_protocol ::
  "representative_protocol \<Rightarrow> provider_profile list" where
  "get_provider_profiles_by_representative_protocol protocol =
     filter (\<lambda>p. pp_representative_protocol p = protocol) external_provider_profile_registry"

definition get_providers_by_representative_protocol :: "representative_protocol \<Rightarrow> email_provider list" where
  "get_providers_by_representative_protocol protocol =
     distinct_values (map pp_provider (get_provider_profiles_by_representative_protocol protocol))"

definition get_default_profile_for_representative_protocol ::
  "representative_protocol \<Rightarrow> provider_profile option" where
  "get_default_profile_for_representative_protocol protocol =
     (case get_provider_profiles_by_representative_protocol protocol of [] \<Rightarrow> None | p # _ \<Rightarrow> Some p)"

definition can_clear_mailbox :: "email_provider \<Rightarrow> email_auth_type \<Rightarrow> bool option" where
  "can_clear_mailbox provider auth_type =
     map_option cm_clear_mailbox (get_provider_profile_capabilities provider (Some auth_type))"

definition can_send_mailbox :: "email_provider \<Rightarrow> email_auth_type \<Rightarrow> bool option" where
  "can_send_mailbox provider auth_type =
     map_option cm_send_mail (get_provider_profile_capabilities provider (Some auth_type))"

section \<open>Import templates\<close>

text \<open>
  \<open>replaceAll\<close> with a text pattern and a replacement text in which dollar signs are special.
\<close>

fun expand_replacement :: "jstr \<Rightarrow> jstr \<Rightarrow> jstr \<Rightarrow> jstr \<Rightarrow> jstr" where
  "expand_replacement before matched after [] = []"
| "expand_replacement before matched after [c] = [c]"
| "expand_replacement before matched after (c # d # s) =
     (if c = 36 \<and> d = 36 then 36 # expand_replacement before matched after s
      else if c = 36 \<and> d = 38 then matched @ expand_replacement before matched after s
      else if c = 36 \<and> d = 96 then before @ expand_replacement before matched after s
      else if c = 36 \<and> d = 39 then after @ expand_replacement before matched after s
      else c # expand_replacement before matched after (d # s))"

function replace_from :: "jstr \<Rightarrow> jstr \<Rightarrow> jstr \<Rightarrow> jstr \<Rightarrow> jstr" where
  "replace_from pat rep before s =
     (if pat = [] then s
      else case find_sub pat s of
        None \<Rightarrow> s
      | Some (a, b) \<Rightarrow> a @ expand_replacement (before @ a) pat b rep
                       @ replace_from pat rep (before @ a @ pat) b)"
  by pat_completeness auto
termination
  by (relation "measure (\<lambda>(pat, rep, before, s). length s)") (auto dest: find_sub_length)

declare replace_from.simps [simp del]

definition replace_all :: "jstr \<Rightarrow> jstr \<Rightarrow> jstr \<Rightarrow> jstr" where
  "replace_all pat rep s = replace_from pat rep [] s"

definition get_provider_import_templates :: "jstr \<Rightarrow> jstr list" where
  "get_provider_import_templates separator =
     [js ''email'' @ separator @ js ''password'',
      js ''email'' @ separator @ js ''password'' @ separator @ js ''clientId'' @ separator @ js ''refreshToken'',
      js ''email'' @ separator @ js ''password'' @ separator @ js ''clientId'' @ separator
        @ js ''refreshToken'' @ separator @ js ''clientSecret'']
     @ map (\<lambda>p. replace_all (js ''----'') separator (pp_import_template p))
         (filter (\<lambda>p. pp_supports_bulk_import p \<noteq> Some False) external_provider_profile_registry)"

section \<open>Hosted profiles\<close>

datatype hosted_profile_key = HP_manual | HP_api_pool

datatype provisioning_mode = MANUAL | API_POOL

record hosted_profile =
  hp_key :: hosted_profile_key
  hp_provisioning_mode :: provisioning_mode
  hp_representative_protocol :: representative_protocol
  hp_secondary_protocols :: "secondary_protocol list"
  hp_capabilities :: capability_matrix

fun hosted_internal_profile_definitions :: "hosted_profile_key \<Rightarrow> hosted_profile" where
  "hosted_internal_profile_definitions HP_manual =
     \<lparr>hp_key = HP_manual, hp_provisioning_mode = MANUAL, hp_representative_protocol = RP_hosted_internal,
      hp_secondary_protocols = [],
      hp_capabilities = create_capability_matrix [ReadInbox, SendMail, ReceiveMail, Forwarding] []\<rparr>"
| "hosted_internal_profile_definitions HP_api_pool =
     \<lparr>hp_key = HP_api_pool, hp_provisioning_mode = API_POOL, hp_representative_protocol = RP_hosted_internal,
      hp_secondary_protocols = [],
      hp_capabilities = create_capability_matrix
        [ReadInbox, SendMail, ReceiveMail, ApiAccess, Forwarding] []\<rparr>"

definition get_hosted_internal_profile_by_provisioning_mode :: "provisioning_mode \<Rightarrow> hosted_profile" where
  "get_hosted_internal_profile_by_provisioning_mode mode =
     (if mode = API_POOL then hosted_internal_profile_definitions HP_api_pool
      else hosted_internal_profile_definitions HP_manual)"

section \<open>Laws\<close>

lemmas registry_eval = external_provider_profile_registry_def profile_defs create_imap_smtp_profile_def

lemma registry_keys:
  "map pp_key external_provider_profile_registry =
     [P_outlook_oauth, P_gmail_oauth, P_gmail_app_password, P_qq_imap_smtp, P_netease_163_imap_smtp,
      P_netease_126_imap_smtp, P_icloud_imap_smtp, P_yahoo_imap_smtp, P_zoho_imap_smtp,
      P_aliyun_imap_smtp, P_amazon_workmail_imap_smtp, P_fastmail_imap_smtp, P_aol_imap_smtp,
      P_gmx_imap_smtp, P_mailcom_imap_smtp, P_yandex_imap_smtp, P_custom_imap_smtp]"
  by (simp add: registry_eval)

lemma registry_pairs:
  "map (\<lambda>p. (pp_provider p, pp_auth_type p)) external_provider_profile_registry =
     [(OUTLOOK, MICROSOFT_OAUTH), (GMAIL, GOOGLE_OAUTH), (GMAIL, APP_PASSWORD), (QQ, APP_PASSWORD),
      (NETEASE_163, APP_PASSWORD), (NETEASE_126, APP_PASSWORD), (ICLOUD, APP_PASSWORD),
      (YAHOO, APP_PASSWORD), (ZOHO, APP_PASSWORD), (ALIYUN, APP_PASSWORD),
      (AMAZON_WORKMAIL, APP_PASSWORD), (FASTMAIL, APP_PASSWORD), (AOL, APP_PASSWORD),
      (GMX, APP_PASSWORD), (MAILCOM, APP_PASSWORD), (YANDEX, APP_PASSWORD),
      (CUSTOM_IMAP_SMTP, APP_PASSWORD)]"
  by (simp add: registry_eval)

lemma filter_key_distinct:
  "distinct (map f xs) \<Longrightarrow> x \<in> set xs \<Longrightarrow> filter (\<lambda>y. f y = f x) xs = [x]"
  by (induction xs) (auto simp: filter_empty_conv image_iff)

lemma last_by_distinct:
  assumes "distinct (map f xs)" "x \<in> set xs"
  shows "last_by f xs (f x) = Some x"
proof -
  have "filter (\<lambda>y. f y = f x) (rev xs) = [x]"
    using filter_key_distinct [of f "rev xs" x] assms by (simp add: rev_map [symmetric])
  then show ?thesis by (simp add: last_by_def)
qed

lemma last_by_None: "last_by f xs k = None \<longleftrightarrow> k \<notin> f ` set xs"
proof -
  have "last_by f xs k = None \<longleftrightarrow> filter (\<lambda>x. f x = k) (rev xs) = []"
    unfolding last_by_def by (cases "filter (\<lambda>x. f x = k) (rev xs)") simp_all
  also have "\<dots> \<longleftrightarrow> k \<notin> f ` set xs"
    unfolding filter_empty_conv set_rev by blast
  finally show ?thesis .
qed

lemma last_by_Some: "last_by f xs k = Some x \<Longrightarrow> x \<in> set xs \<and> f x = k"
proof -
  assume "last_by f xs k = Some x"
  then have "x \<in> set (filter (\<lambda>y. f y = k) (rev xs))"
    by (cases "filter (\<lambda>y. f y = k) (rev xs)") (simp_all add: last_by_def)
  then show ?thesis by simp
qed

lemma order_complete: "provider \<in> set provider_order"
  by (cases provider) (simp_all add: provider_order_def)

lemma get_profiles_nonempty: "get_profiles_by_provider provider \<noteq> []"
proof -
  have "provider \<in> set (map pp_provider external_provider_profile_registry)"
    by (cases provider) (simp_all add: registry_eval)
  then show ?thesis by (auto simp: get_profiles_by_provider_def filter_empty_conv)
qed

lemma build_provider_definition_Some: "\<exists>d. build_provider_definition provider = Some d"
  using get_profiles_nonempty [of provider]
  by (cases "get_profiles_by_provider provider") (simp_all add: build_provider_definition_def)

lemma provider_definitions_eq: "provider_definitions provider = build_provider_definition provider"
  using build_provider_definition_Some order_complete
  by (simp add: provider_definitions_def list_all_iff)

lemma profile_definitions_eq:
  "\<exists>d. provider_definitions provider = Some d
     \<and> pd_profile_definitions d = last_by pp_auth_type (get_profiles_by_provider provider)
     \<and> pd_auth_types d = map pp_auth_type (get_profiles_by_provider provider)"
  using get_profiles_nonempty [of provider]
  by (cases "get_profiles_by_provider provider")
    (simp_all add: provider_definitions_eq build_provider_definition_def)

lemma get_definition_eq:
  "get_provider_profile_definition provider (Some a) =
     last_by pp_auth_type (get_profiles_by_provider provider) a"
  "resolve_provider_profile provider (Some a) =
     map_option pp_key (last_by pp_auth_type (get_profiles_by_provider provider) a)"
  using profile_definitions_eq [of provider]
  by (auto simp: get_provider_profile_definition_def resolve_provider_profile_def chosen_auth_type_def)

lemma profiles_auth_distinct:
  "distinct (map pp_auth_type (get_profiles_by_provider provider))"
proof -
  have "distinct (map (\<lambda>p. (pp_provider p, pp_auth_type p)) external_provider_profile_registry)"
    unfolding registry_pairs by simp
  then have "inj_on (\<lambda>p. (pp_provider p, pp_auth_type p)) (set external_provider_profile_registry)"
    "distinct external_provider_profile_registry" by (simp_all add: distinct_map)
  then show ?thesis
    by (auto simp: get_profiles_by_provider_def distinct_map inj_on_def)
qed

section \<open>Properties\<close>

text \<open>The registry resolves: a profile is found under its provider and authentication type and
  under its key, its key is what the resolver returns, every provider has a default profile, and a
  pair that is not registered is an error.\<close>

theorem profiles_resolve:
  "(\<forall>p \<in> set external_provider_profile_registry.
      get_provider_profile_definition (pp_provider p) (Some (pp_auth_type p)) = Some p
      \<and> resolve_provider_profile (pp_provider p) (Some (pp_auth_type p)) = Some (pp_key p)
      \<and> provider_profile_definitions (pp_key p) = Some p)
   \<and> (\<exists>p. get_provider_profile_definition provider None = Some p \<and> pp_provider p = provider)
   \<and> (get_provider_profile_definition provider (Some a) = None \<longleftrightarrow>
        (provider, a) \<notin> set (map (\<lambda>p. (pp_provider p, pp_auth_type p)) external_provider_profile_registry))"
proof (intro conjI ballI)
  fix p assume p: "p \<in> set external_provider_profile_registry"
  then have "p \<in> set (get_profiles_by_provider (pp_provider p))" by (simp add: get_profiles_by_provider_def)
  from last_by_distinct [OF profiles_auth_distinct this]
  show "get_provider_profile_definition (pp_provider p) (Some (pp_auth_type p)) = Some p"
    "resolve_provider_profile (pp_provider p) (Some (pp_auth_type p)) = Some (pp_key p)"
    by (simp_all add: get_definition_eq)
  have "distinct (map pp_key external_provider_profile_registry)" unfolding registry_keys by simp
  from last_by_distinct [OF this p] show "provider_profile_definitions (pp_key p) = Some p"
    by (simp add: provider_profile_definitions_def)
next
  obtain q qs where q: "get_profiles_by_provider provider = q # qs"
    using get_profiles_nonempty [of provider] by (cases "get_profiles_by_provider provider") auto
  then have "get_default_auth_type provider = Some (pp_auth_type q)"
    using profile_definitions_eq [of provider] by (auto simp: get_default_auth_type_def)
  moreover have "last_by pp_auth_type (get_profiles_by_provider provider) (pp_auth_type q) = Some q"
    by (rule last_by_distinct [OF profiles_auth_distinct]) (simp add: q)
  moreover have "pp_provider q = provider"
    using q by (metis (mono_tags, lifting) filter_eq_ConsD get_profiles_by_provider_def)
  ultimately show "\<exists>p. get_provider_profile_definition provider None = Some p \<and> pp_provider p = provider"
    using profile_definitions_eq [of provider]
    by (auto simp: get_provider_profile_definition_def chosen_auth_type_def)
next
  show "get_provider_profile_definition provider (Some a) = None \<longleftrightarrow>
        (provider, a) \<notin> set (map (\<lambda>p. (pp_provider p, pp_auth_type p)) external_provider_profile_registry)"
    by (auto simp: get_definition_eq last_by_None get_profiles_by_provider_def image_iff)
qed

lemma profiles_resolve_witness:
  "get_provider_profile_definition GMAIL (Some APP_PASSWORD) = Some profile_gmail_app_password
   \<and> get_provider_profile_definition QQ (Some GOOGLE_OAUTH) = None"
proof -
  have "profile_gmail_app_password \<in> set external_provider_profile_registry"
    by (simp add: external_provider_profile_registry_def)
  moreover have "pp_provider profile_gmail_app_password = GMAIL" "pp_auth_type profile_gmail_app_password = APP_PASSWORD"
    by (simp_all add: profile_gmail_app_password_def create_imap_smtp_profile_def)
  ultimately show ?thesis
    using profiles_resolve [of QQ GOOGLE_OAUTH] unfolding registry_pairs by auto
qed

text \<open>Capabilities follow the protocol: the registered profiles that may clear a mailbox are exactly
  the OAuth ones, and every registered profile may send.\<close>

theorem capabilities_by_protocol:
  assumes "p \<in> set external_provider_profile_registry"
  shows "can_send_mailbox (pp_provider p) (pp_auth_type p) = Some True
    \<and> (can_clear_mailbox (pp_provider p) (pp_auth_type p) = Some True \<longleftrightarrow> pp_auth_type p \<noteq> APP_PASSWORD)
    \<and> (pp_representative_protocol p = RP_oauth_api \<longleftrightarrow> pp_auth_type p \<noteq> APP_PASSWORD)"
proof -
  have "p \<in> set (get_profiles_by_provider (pp_provider p))"
    using assms by (simp add: get_profiles_by_provider_def)
  from last_by_distinct [OF profiles_auth_distinct this]
  have d: "get_provider_profile_definition (pp_provider p) (Some (pp_auth_type p)) = Some p"
    by (simp add: get_definition_eq)
  have c: "\<forall>p \<in> set external_provider_profile_registry. cm_send_mail (pp_capabilities p)
     \<and> (cm_clear_mailbox (pp_capabilities p) \<longleftrightarrow> pp_auth_type p \<noteq> APP_PASSWORD)
     \<and> (pp_representative_protocol p = RP_oauth_api \<longleftrightarrow> pp_auth_type p \<noteq> APP_PASSWORD)"
    by (simp add: registry_eval create_capability_matrix_def)
  show ?thesis
    using d c assms by (simp add: can_send_mailbox_def can_clear_mailbox_def get_provider_profile_capabilities_def)
qed

lemma capabilities_by_protocol_witness: "can_clear_mailbox OUTLOOK MICROSOFT_OAUTH = Some True"
  using capabilities_by_protocol [of profile_outlook_oauth]
  by (simp add: external_provider_profile_registry_def profile_outlook_oauth_def)

text \<open>The default folders are lost: wherever a profile overrides one folder, the final spread of the
  overrides replaces the merged folder map, so the other default folders (INBOX, Junk, Sent) are
  undefined; only a profile without folder overrides keeps them.\<close>

theorem folder_defaults_lost:
  "mc_folders (create_imap_smtp_config_defaults overrides) =
     (case mc_folders overrides of
        Some f \<Rightarrow> Some f
      | None \<Rightarrow> Some \<lparr>fm_inbox = Some (js ''INBOX''), fm_junk = Some (js ''Junk''), fm_sent = Some (js ''Sent'')\<rparr>)
   \<and> map_option mc_folders (pp_config_defaults profile_qq_imap_smtp) =
       Some (Some \<lparr>fm_inbox = None, fm_junk = None, fm_sent = Some (js ''Sent Messages'')\<rparr>)"
  by (simp add: create_imap_smtp_config_defaults_def spread_config_def spread_folders_def spread_def
      profile_qq_imap_smtp_def create_imap_smtp_profile_def no_overrides_def split: option.split)

end
