(* ===== verification/ImportPreview.thy ===== *)
theory ImportPreview
  imports Providers
begin

text \<open>
  The bulk import preview of the web client (web/src/pages/emails/importPreview.ts): how a pasted
  text becomes one row per line, with the secrets masked and the duplicates marked, and how the
  lines the server refused are given back. A row is a record; \<open>UNKNOWN\<close> is \<open>None\<close>.
\<close>

section \<open>Rows and profiles\<close>

datatype severity = Ready | Warning | Error

datatype issue_code = Invalid_email | Missing_required_fields | Unknown_format | Duplicate_email

record import_row =
  ir_line :: nat
  ir_raw :: jstr
  ir_masked :: jstr
  ir_email :: "jstr option"
  ir_provider :: "email_provider option"
  ir_auth_type :: "email_auth_type option"
  ir_severity :: severity
  ir_issue :: "issue_code option"

record import_summary =
  is_rows :: "import_row list"
  is_total :: nat
  is_ready :: nat
  is_warning :: nat
  is_error :: nat
  is_providers :: nat

record token_profile =
  tp_provider :: email_provider
  tp_auth_type :: email_auth_type
  tp_email_index :: nat
  tp_required :: "nat list"
  tp_visible :: "nat list"

definition app_password_profile :: "email_provider \<Rightarrow> token_profile" where
  "app_password_profile provider =
     \<lparr>tp_provider = provider, tp_auth_type = APP_PASSWORD, tp_email_index = 1,
      tp_required = [1, 2], tp_visible = [0, 1]\<rparr>"

definition token_profiles :: "(jstr \<times> token_profile) list" where
  "token_profiles =
     [(js ''OUTLOOK_OAUTH'', \<lparr>tp_provider = OUTLOOK, tp_auth_type = MICROSOFT_OAUTH, tp_email_index = 1,
        tp_required = [1, 2, 4], tp_visible = [0, 1, 2]\<rparr>),
      (js ''GMAIL_OAUTH'', \<lparr>tp_provider = GMAIL, tp_auth_type = GOOGLE_OAUTH, tp_email_index = 1,
        tp_required = [1, 2, 4], tp_visible = [0, 1, 2]\<rparr>),
      (js ''GMAIL_APP_PASSWORD'', app_password_profile GMAIL),
      (js ''QQ_IMAP_SMTP'', app_password_profile QQ),
      (js ''NETEASE_163_IMAP_SMTP'', app_password_profile NETEASE_163),
      (js ''NETEASE_126_IMAP_SMTP'', app_password_profile NETEASE_126),
      (js ''ICLOUD_IMAP_SMTP'', app_password_profile ICLOUD),
      (js ''YAHOO_IMAP_SMTP'', app_password_profile YAHOO),
      (js ''ZOHO_IMAP_SMTP'', app_password_profile ZOHO),
      (js ''ALIYUN_IMAP_SMTP'', app_password_profile ALIYUN),
      (js ''AMAZON_WORKMAIL_IMAP_SMTP'', app_password_profile AMAZON_WORKMAIL),
      (js ''FASTMAIL_IMAP_SMTP'', app_password_profile FASTMAIL),
      (js ''AOL_IMAP_SMTP'', app_password_profile AOL),
      (js ''GMX_IMAP_SMTP'', app_password_profile GMX),
      (js ''MAILCOM_IMAP_SMTP'', app_password_profile MAILCOM),
      (js ''YANDEX_IMAP_SMTP'', app_password_profile YANDEX),
      (js ''CUSTOM_IMAP_SMTP'', \<lparr>tp_provider = CUSTOM_IMAP_SMTP, tp_auth_type = APP_PASSWORD,
        tp_email_index = 1, tp_required = [1, 2, 3, 4, 6, 7],
        tp_visible = [0, 1, 3, 4, 5, 6, 7, 8, 9, 10, 11]\<rparr>)]"

definition domain_profiles :: "(jstr \<times> email_provider \<times> email_auth_type) list" where
  "domain_profiles =
     [(js ''outlook.com'', OUTLOOK, MICROSOFT_OAUTH), (js ''hotmail.com'', OUTLOOK, MICROSOFT_OAUTH),
      (js ''live.com'', OUTLOOK, MICROSOFT_OAUTH), (js ''msn.com'', OUTLOOK, MICROSOFT_OAUTH),
      (js ''gmail.com'', GMAIL, APP_PASSWORD), (js ''qq.com'', QQ, APP_PASSWORD),
      (js ''163.com'', NETEASE_163, APP_PASSWORD), (js ''126.com'', NETEASE_126, APP_PASSWORD),
      (js ''icloud.com'', ICLOUD, APP_PASSWORD), (js ''me.com'', ICLOUD, APP_PASSWORD),
      (js ''mac.com'', ICLOUD, APP_PASSWORD), (js ''yahoo.com'', YAHOO, APP_PASSWORD),
      (js ''zoho.com'', ZOHO, APP_PASSWORD), (js ''aliyun.com'', ALIYUN, APP_PASSWORD),
      (js ''fastmail.com'', FASTMAIL, APP_PASSWORD), (js ''aol.com'', AOL, APP_PASSWORD),
      (js ''gmx.com'', GMX, APP_PASSWORD), (js ''mail.com'', MAILCOM, APP_PASSWORD),
      (js ''yandex.com'', YANDEX, APP_PASSWORD), (js ''yandex.ru'', YANDEX, APP_PASSWORD),
      (js ''ya.ru'', YANDEX, APP_PASSWORD)]"

section \<open>One line\<close>

definition is_email :: "jstr \<Rightarrow> bool" where
  "is_email value = email_pattern (trim value)"

definition infer_domain_profile :: "jstr \<Rightarrow> (email_provider \<times> email_auth_type) option" where
  "infer_domain_profile email =
     map_of domain_profiles (case split_text [64] (to_lower email) of _ # d # _ \<Rightarrow> d | _ \<Rightarrow> [])"

definition bullets :: jstr where
  "bullets = replicate 6 8226"

definition mask_part :: "nat list \<Rightarrow> nat \<times> jstr \<Rightarrow> jstr" where
  "mask_part visible = (\<lambda>(index, part). if index \<in> set visible \<or> part = [] then part else bullets)"

definition mask_parts :: "jstr list \<Rightarrow> nat list \<Rightarrow> jstr \<Rightarrow> jstr" where
  "mask_parts parts visible separator = join separator (map (mask_part visible) (enumerate 0 parts))"

definition part_at :: "jstr list \<Rightarrow> nat \<Rightarrow> jstr" where
  "part_at parts index = (if index < length parts then trim (parts ! index) else [])"

definition missing_required :: "jstr list \<Rightarrow> nat list \<Rightarrow> bool" where
  "missing_required parts required = list_ex (\<lambda>index. part_at parts index = []) required"

definition non_blank :: "jstr \<Rightarrow> jstr option" where
  "non_blank s = (if s = [] then None else Some s)"

definition parse_tokenized_line ::
  "nat \<Rightarrow> jstr \<Rightarrow> jstr list \<Rightarrow> token_profile \<Rightarrow> jstr \<Rightarrow> import_row" where
  "parse_tokenized_line line raw parts profile separator =
     (let email = part_at parts (tp_email_index profile);
          row = \<lparr>ir_line = line, ir_raw = raw, ir_masked = mask_parts parts (tp_visible profile) separator,
                 ir_email = non_blank email, ir_provider = Some (tp_provider profile),
                 ir_auth_type = Some (tp_auth_type profile), ir_severity = Ready, ir_issue = None\<rparr>
      in if email = [] \<or> \<not> is_email email
           then row\<lparr>ir_severity := Error, ir_issue := Some Invalid_email\<rparr>
         else if missing_required parts (tp_required profile)
           then row\<lparr>ir_severity := Error, ir_issue := Some Missing_required_fields\<rparr>
         else row)"

definition parse_email_first_line :: "nat \<Rightarrow> jstr \<Rightarrow> jstr list \<Rightarrow> jstr \<Rightarrow> import_row" where
  "parse_email_first_line line raw parts separator =
     (let email = part_at parts 0;
          row = \<lparr>ir_line = line, ir_raw = raw, ir_masked = mask_parts parts [0] separator,
                 ir_email = non_blank email, ir_provider = None, ir_auth_type = None,
                 ir_severity = Error, ir_issue = Some Invalid_email\<rparr>
      in if email = [] \<or> \<not> is_email email then row
         else case infer_domain_profile email of
                None \<Rightarrow> row\<lparr>ir_severity := Warning, ir_issue := Some Unknown_format\<rparr>
              | Some (provider, auth_type) \<Rightarrow>
                  (let required = (if auth_type = MICROSOFT_OAUTH
                                   then if length parts \<ge> 4 then [1, 2, 3] else [1, 2] else [1]);
                       missing = missing_required parts required
                   in row\<lparr>ir_provider := Some provider, ir_auth_type := Some auth_type,
                          ir_severity := (if missing then Error else Ready),
                          ir_issue := (if missing then Some Missing_required_fields else None)\<rparr>))"

definition line_parts :: "jstr \<Rightarrow> jstr \<Rightarrow> jstr list" where
  "line_parts raw separator = map trim (split_text separator raw)"

definition token_profile_of :: "jstr list \<Rightarrow> token_profile option" where
  "token_profile_of parts = map_of token_profiles (case parts of [] \<Rightarrow> [] | p # _ \<Rightarrow> to_upper p)"

definition parse_import_line :: "nat \<Rightarrow> jstr \<Rightarrow> jstr \<Rightarrow> import_row" where
  "parse_import_line line raw separator =
     (let parts = line_parts raw separator
      in case token_profile_of parts of
           Some profile \<Rightarrow> parse_tokenized_line line raw parts profile separator
         | None \<Rightarrow>
             if (case parts of [] \<Rightarrow> False | p # _ \<Rightarrow> js_includes p [64])
             then parse_email_first_line line raw parts separator
             else \<lparr>ir_line = line, ir_raw = raw, ir_masked = mask_parts parts [] separator,
                   ir_email = None, ir_provider = None, ir_auth_type = None,
                   ir_severity = Error, ir_issue = Some Unknown_format\<rparr>)"

section \<open>The preview\<close>

fun replace_crlf :: "jstr \<Rightarrow> jstr" where
  "replace_crlf [] = []"
| "replace_crlf [c] = [c]"
| "replace_crlf (c # d # s) = (if c = 13 \<and> d = 10 then 10 # replace_crlf s else c # replace_crlf (d # s))"

definition content_lines :: "jstr \<Rightarrow> (nat \<times> jstr) list" where
  "content_lines content =
     filter (\<lambda>(line, raw). raw \<noteq> [])
       (enumerate 1 (map trim (split_text [10] (replace_crlf content))))"

text \<open>The loop that marks duplicates; \<open>seen\<close> holds the keys of \<open>firstLineByEmail\<close>, whose values are not read.\<close>

fun mark_duplicates :: "jstr list \<Rightarrow> import_row list \<Rightarrow> import_row list" where
  "mark_duplicates seen [] = []"
| "mark_duplicates seen (row # rows) =
     (case ir_email row of
        None \<Rightarrow> row # mark_duplicates seen rows
      | Some email \<Rightarrow>
          if email = [] \<or> ir_severity row = Error then row # mark_duplicates seen rows
          else if to_lower email \<in> set seen
            then row\<lparr>ir_severity := Error, ir_issue := Some Duplicate_email\<rparr> # mark_duplicates seen rows
          else row # mark_duplicates (to_lower email # seen) rows)"

definition with_severity :: "severity \<Rightarrow> import_row list \<Rightarrow> import_row list" where
  "with_severity s rows = filter (\<lambda>row. ir_severity row = s) rows"

definition build_import_preview :: "jstr \<Rightarrow> jstr \<Rightarrow> import_summary" where
  "build_import_preview content separator =
     (let sep = trim separator
      in if sep = [] then \<lparr>is_rows = [], is_total = 0, is_ready = 0, is_warning = 0, is_error = 0, is_providers = 0\<rparr>
         else
           (let rows = mark_duplicates []
                         (map (\<lambda>(line, raw). parse_import_line line raw sep) (content_lines content));
                known = filter (\<lambda>row. ir_provider row \<noteq> None) rows
            in \<lparr>is_rows = rows, is_total = length rows,
                is_ready = length (with_severity Ready rows),
                is_warning = length (with_severity Warning rows),
                is_error = length (with_severity Error rows),
                is_providers = length (distinct_values (map ir_provider known))\<rparr>))"

section \<open>Failures\<close>

datatype failure_source = From_preview | From_server

record import_failure =
  if_line :: "nat option"
  if_raw :: "jstr option"
  if_message :: jstr
  if_source :: failure_source
  if_issue :: "issue_code option"

text \<open>The units that a dot does not match.\<close>

definition is_terminator :: "nat \<Rightarrow> bool" where
  [js_eval]: "is_terminator c \<longleftrightarrow> c = 10 \<or> c = 13 \<or> c = 8232 \<or> c = 8233"

definition ascii_lower :: "nat \<Rightarrow> nat" where
  [js_eval]: "ascii_lower c = (if 65 \<le> c \<and> c \<le> 90 then c + 32 else c)"

text \<open>
  \<open>/^line\s+(\d+)\s*:\s*(.+)$/i\<close>: the digits, and the message. White space after the colon is skipped
  greedily; when nothing follows it, its last unit is given back to the message.
\<close>

definition match_message :: "jstr \<Rightarrow> jstr option" where
  "match_message rest =
     (let body = dropWhile is_ws rest;
          message = (if body = [] \<and> rest \<noteq> [] then [last rest] else body)
      in if message \<noteq> [] \<and> list_all (\<lambda>c. \<not> is_terminator c) message then Some message else None)"

definition match_server_error :: "jstr \<Rightarrow> (jstr \<times> jstr) option" where
  "match_server_error error =
     (if map ascii_lower (take 4 error) \<noteq> js ''line'' then None
      else
        (let a = drop 4 error; b = dropWhile is_ws a;
             digits = takeWhile is_digit b; c = dropWhile is_ws (dropWhile is_digit b)
         in if a = b \<or> digits = [] then None
            else case c of
                   [] \<Rightarrow> None
                 | colon # rest \<Rightarrow>
                     if colon = 58 then map_option (\<lambda>message. (digits, message)) (match_message rest)
                     else None))"

text \<open>
  \<open>submittedRows[Number(digits) - 1]\<close>: the digits are read exactly; a number a double cannot hold lies
  beyond the end of any array, as its rounding does.
\<close>

definition submitted_row :: "import_row list \<Rightarrow> nat \<Rightarrow> import_row option" where
  "submitted_row rows n = (if 1 \<le> n \<and> n \<le> length rows then Some (rows ! (n - 1)) else None)"

definition parse_server_import_failure :: "import_row list \<Rightarrow> jstr \<Rightarrow> import_failure" where
  "parse_server_import_failure rows error =
     (case match_server_error error of
        None \<Rightarrow> \<lparr>if_line = None, if_raw = None, if_message = error, if_source = From_server, if_issue = None\<rparr>
      | Some (digits, message) \<Rightarrow>
          (let row = submitted_row rows (digits_value digits)
           in \<lparr>if_line = map_option ir_line row, if_raw = map_option ir_raw row,
               if_message = message, if_source = From_server, if_issue = None\<rparr>))"

definition parse_server_import_failures :: "jstr list \<Rightarrow> import_row list \<Rightarrow> import_failure list" where
  "parse_server_import_failures errors rows = map (parse_server_import_failure rows) errors"

definition failure_order :: "import_failure \<Rightarrow> nat" where
  "failure_order failure = (case if_line failure of Some n \<Rightarrow> n | None \<Rightarrow> 0)"

definition has_raw :: "import_failure \<Rightarrow> bool" where
  "has_raw failure \<longleftrightarrow> if_raw failure \<noteq> None \<and> if_raw failure \<noteq> Some []"

definition build_failed_import_content :: "import_failure list \<Rightarrow> jstr" where
  "build_failed_import_content failures =
     join [10] (distinct_values (map (\<lambda>f. the (if_raw f)) (sort_key failure_order (filter has_raw failures))))"

end
