(* ===== verification/ImportTheorems.thy ===== *)
theory ImportTheorems
  imports ImportPreview
begin

text \<open>
  What the import preview guarantees: its rows are the lines of the text with their numbers, its
  counts add up, accepted addresses are unique, secrets do not reach the masked text, the templates
  of the provider registry are accepted, and the lines the server refused survive a second round.
\<close>

section \<open>Generic laws\<close>

lemma enumerate_sorted: "sorted_wrt (<) (map fst (enumerate n xs))"
  by (simp add: strict_sorted_iff [symmetric])

lemma sorted_fst_filter:
  "sorted_wrt (<) (map fst xs) \<Longrightarrow> sorted_wrt (<) (map fst (filter P xs))" for xs :: "(nat \<times> 'a) list"
  by (induction xs) auto

lemma content_lines_sorted: "sorted_wrt (<) (map fst (content_lines content))"
  unfolding content_lines_def by (rule sorted_fst_filter, rule enumerate_sorted)

section \<open>Rows\<close>

definition accepted :: "import_row \<Rightarrow> bool" where
  "accepted row \<longleftrightarrow> ir_severity row \<noteq> Error"

definition address :: "import_row \<Rightarrow> jstr" where
  "address row = (case ir_email row of None \<Rightarrow> [] | Some email \<Rightarrow> to_lower email)"

text \<open>A row that is not an error has an address.\<close>

definition sound_row :: "import_row \<Rightarrow> bool" where
  "sound_row row \<longleftrightarrow> (accepted row \<longrightarrow> ir_email row \<noteq> None \<and> ir_email row \<noteq> Some [])
     \<and> ir_issue row \<noteq> Some Duplicate_email"

lemma parse_identity:
  "ir_line (parse_import_line line raw sep) = line" "ir_raw (parse_import_line line raw sep) = raw"
  by (simp_all add: parse_import_line_def parse_tokenized_line_def parse_email_first_line_def Let_def
      split: option.split prod.split)

lemma parse_tokenized_sound: "sound_row (parse_tokenized_line line raw parts profile sep)"
  by (simp add: sound_row_def accepted_def parse_tokenized_line_def Let_def non_blank_def)

lemma parse_email_first_sound: "sound_row (parse_email_first_line line raw parts sep)"
  by (simp add: sound_row_def accepted_def parse_email_first_line_def Let_def non_blank_def
      split: option.split prod.split)

lemma parse_sound: "sound_row (parse_import_line line raw sep)"
proof -
  have "sound_row \<lparr>ir_line = line, ir_raw = raw, ir_masked = m, ir_email = None, ir_provider = None,
      ir_auth_type = None, ir_severity = Error, ir_issue = Some Unknown_format\<rparr>" for m
    by (simp add: sound_row_def accepted_def)
  then show ?thesis
    by (simp add: parse_import_line_def Let_def parse_tokenized_sound parse_email_first_sound
        split: option.split)
qed

section \<open>Duplicates\<close>

lemma mark_identity:
  "map ir_line (mark_duplicates seen rows) = map ir_line rows"
  "map ir_raw (mark_duplicates seen rows) = map ir_raw rows"
  by (induction seen rows rule: mark_duplicates.induct) (auto split: option.splits)

lemma mark_step:
  assumes "sound_row row"
  shows "mark_duplicates seen (row # rows) =
    (if \<not> accepted row then row # mark_duplicates seen rows
     else if address row \<in> set seen
       then row\<lparr>ir_severity := Error, ir_issue := Some Duplicate_email\<rparr> # mark_duplicates seen rows
     else row # mark_duplicates (address row # seen) rows)"
  using assms by (auto simp: sound_row_def accepted_def address_def split: option.splits)

lemma address_update [simp]:
  "address (row\<lparr>ir_severity := s, ir_issue := i\<rparr>) = address row"
  by (simp add: address_def)

lemma mark_distinct:
  "list_all sound_row rows \<Longrightarrow>
     distinct (map address (filter accepted (mark_duplicates seen rows)))
     \<and> set (map address (filter accepted (mark_duplicates seen rows))) \<inter> set seen = {}"
proof (induction rows arbitrary: seen)
  case Nil
  then show ?case by simp
next
  case (Cons row rows)
  then have IH: "distinct (map address (filter accepted (mark_duplicates s rows)))
     \<and> set (map address (filter accepted (mark_duplicates s rows))) \<inter> set s = {}" for s by simp
  have err: "\<not> accepted (row\<lparr>ir_severity := Error, ir_issue := Some Duplicate_email\<rparr>)"
    by (simp add: accepted_def)
  show ?case
    using Cons.prems IH [of seen] IH [of "address row # seen"] err
    by (subst (1 2) mark_step) auto
qed

lemma mark_origin:
  assumes "list_all sound_row rows" "i < length rows"
    "ir_issue (mark_duplicates seen rows ! i) = Some Duplicate_email"
  shows "address (mark_duplicates seen rows ! i) \<in> set seen
    \<or> (\<exists>j < i. accepted (mark_duplicates seen rows ! j)
         \<and> address (mark_duplicates seen rows ! j) = address (mark_duplicates seen rows ! i))"
  using assms
proof (induction rows arbitrary: seen i)
  case Nil
  then show ?case by simp
next
  case (Cons row rows)
  have IH: "k < length rows \<Longrightarrow> ir_issue (mark_duplicates s rows ! k) = Some Duplicate_email \<Longrightarrow>
      address (mark_duplicates s rows ! k) \<in> set s
      \<or> (\<exists>j < k. accepted (mark_duplicates s rows ! j)
           \<and> address (mark_duplicates s rows ! j) = address (mark_duplicates s rows ! k))" for s k
    using Cons.IH Cons.prems(1) by simp
  have row: "sound_row row" using Cons.prems(1) by simp
  define head where "head = hd (mark_duplicates seen (row # rows))"
  consider (same) "mark_duplicates seen (row # rows) = head # mark_duplicates seen rows"
      "i = 0 \<longrightarrow> address head \<in> set seen"
    | (new) "mark_duplicates seen (row # rows) = row # mark_duplicates (address row # seen) rows"
      "accepted row" "i \<noteq> 0"
    using Cons.prems row unfolding head_def mark_step [OF row]
    by (cases i) (auto simp: sound_row_def split: if_splits)
  then show ?case
  proof cases
    case same
    show ?thesis
    proof (cases i)
      case 0
      then show ?thesis using same by simp
    next
      case (Suc k)
      then show ?thesis
        using IH [of k seen] Cons.prems unfolding same(1) by (auto intro: exI [of _ "Suc _"])
    qed
  next
    case new
    then obtain k where k: "i = Suc k" by (cases i) auto
    have "address (mark_duplicates (address row # seen) rows ! k) \<in> set (address row # seen)
      \<or> (\<exists>j < k. accepted (mark_duplicates (address row # seen) rows ! j)
           \<and> address (mark_duplicates (address row # seen) rows ! j)
             = address (mark_duplicates (address row # seen) rows ! k))"
      using IH [of k "address row # seen"] Cons.prems k unfolding new(1) by simp
    then show ?thesis using new k by (auto intro: exI [of _ "Suc _"] exI [of _ 0])
  qed
qed

text \<open>Each row stays as it was parsed or becomes a duplicate error.\<close>

definition as_duplicate :: "import_row \<Rightarrow> import_row" where
  "as_duplicate row = row\<lparr>ir_severity := Error, ir_issue := Some Duplicate_email\<rparr>"

lemma mark_rows: "list_all2 (\<lambda>row out. out = row \<or> out = as_duplicate row) rows (mark_duplicates seen rows)"
  by (induction seen rows rule: mark_duplicates.induct) (simp_all add: as_duplicate_def split: option.split)

section \<open>Counts\<close>

lemma severity_counts:
  "length rows = length (with_severity Ready rows) + length (with_severity Warning rows)
     + length (with_severity Error rows)"
proof (induction rows)
  case (Cons row rows)
  then show ?case by (cases "ir_severity row") (simp_all add: with_severity_def)
qed (simp add: with_severity_def)

lemma preview_rows_eq:
  assumes "trim separator \<noteq> []"
  shows "is_rows (build_import_preview content separator) =
    mark_duplicates [] (map (\<lambda>(line, raw). parse_import_line line raw (trim separator)) (content_lines content))"
  using assms by (simp add: build_import_preview_def Let_def)

lemma parsed_sound:
  "list_all sound_row (map (\<lambda>(line, raw). parse_import_line line raw sep) lines)"
  by (simp add: list_all_iff parse_sound split_def)

section \<open>A sample text\<close>

definition sample_separator :: jstr where
  "sample_separator = js '' ---- ''"

definition sample_content :: jstr where
  "sample_content = js ''QQ_IMAP_SMTP----a@qq.com----pw'' @ [13, 10, 10] @ js ''A@qq.com----x'' @ [10]
     @ js ''b@host.org----y''"

lemmas import_eval = js_eval parse_import_line_def line_parts_def token_profile_of_def
  parse_tokenized_line_def parse_email_first_line_def missing_required_def part_at_def non_blank_def
  is_email_def infer_domain_profile_def token_profiles_def app_password_profile_def
  domain_profiles_def mask_parts_def mask_part_def bullets_def

lemma sample_trim: "trim sample_separator = js ''----''"
  by (simp add: sample_separator_def js_eval)

lemma sample_lines:
  "content_lines sample_content =
     [(1, js ''QQ_IMAP_SMTP----a@qq.com----pw''), (3, js ''A@qq.com----x''), (4, js ''b@host.org----y'')]"
  by (simp add: content_lines_def sample_content_def js_eval)

lemma sample_row1:
  "parse_import_line 1 (js ''QQ_IMAP_SMTP----a@qq.com----pw'') (js ''----'') =
     \<lparr>ir_line = 1, ir_raw = js ''QQ_IMAP_SMTP----a@qq.com----pw'',
      ir_masked = js ''QQ_IMAP_SMTP----a@qq.com----'' @ bullets, ir_email = Some (js ''a@qq.com''),
      ir_provider = Some QQ, ir_auth_type = Some APP_PASSWORD, ir_severity = Ready, ir_issue = None\<rparr>"
  by (simp add: import_eval)

lemma sample_row2:
  "parse_import_line 3 (js ''A@qq.com----x'') (js ''----'') =
     \<lparr>ir_line = 3, ir_raw = js ''A@qq.com----x'', ir_masked = js ''A@qq.com----'' @ bullets,
      ir_email = Some (js ''A@qq.com''), ir_provider = Some QQ, ir_auth_type = Some APP_PASSWORD,
      ir_severity = Ready, ir_issue = None\<rparr>"
  by (simp add: import_eval)

lemma sample_row3:
  "parse_import_line 4 (js ''b@host.org----y'') (js ''----'') =
     \<lparr>ir_line = 4, ir_raw = js ''b@host.org----y'', ir_masked = js ''b@host.org----'' @ bullets,
      ir_email = Some (js ''b@host.org''), ir_provider = None, ir_auth_type = None,
      ir_severity = Warning, ir_issue = Some Unknown_format\<rparr>"
  by (simp add: import_eval)

section \<open>Properties\<close>

text \<open>The preview accounts for the text: with a separator, its rows are, in order, the non-blank
  lines with their one-based numbers, each as the line parser gives it or marked as a duplicate; the
  numbers increase, and the ready, warning and error counts add up to the total.\<close>

theorem preview_accounts:
  assumes "trim separator \<noteq> []" and preview_def: "preview = build_import_preview content separator"
  shows "list_all2 (\<lambda>(line, raw) row. ir_line row = line \<and> ir_raw row = raw
             \<and> (row = parse_import_line line raw (trim separator)
                \<or> row = as_duplicate (parse_import_line line raw (trim separator))))
           (content_lines content) (is_rows preview)
    \<and> sorted_wrt (<) (map ir_line (is_rows preview))
    \<and> is_total preview = length (is_rows preview)
    \<and> is_total preview = is_ready preview + is_warning preview + is_error preview"
proof -
  have rows: "list_all2 (\<lambda>(line, raw) row. ir_line row = line \<and> ir_raw row = raw
             \<and> (row = parse_import_line line raw (trim separator)
                \<or> row = as_duplicate (parse_import_line line raw (trim separator))))
           (content_lines content) (is_rows preview)"
    using mark_rows [of "map (\<lambda>(line, raw). parse_import_line line raw (trim separator)) (content_lines content)" "[]"]
    unfolding preview_def preview_rows_eq [OF assms(1)] list_all2_map1
    by (rule list_all2_mono) (auto simp: parse_identity as_duplicate_def)
  have "map ir_line (is_rows preview) = map fst (content_lines content)"
    unfolding preview_def preview_rows_eq [OF assms(1)] mark_identity
    by (simp add: parse_identity split_def)
  then have lines: "sorted_wrt (<) (map ir_line (is_rows preview))"
    using content_lines_sorted by simp
  have counts: "is_total preview = length (is_rows preview)"
    "is_ready preview = length (with_severity Ready (is_rows preview))"
    "is_warning preview = length (with_severity Warning (is_rows preview))"
    "is_error preview = length (with_severity Error (is_rows preview))"
    unfolding preview_def build_import_preview_def Let_def if_not_P [OF assms(1)] by simp_all
  show ?thesis
    using rows lines unfolding counts by (intro conjI severity_counts) simp_all
qed

lemma preview_accounts_witness:
  "is_total (build_import_preview sample_content sample_separator) = 3
   \<and> map ir_line (is_rows (build_import_preview sample_content sample_separator)) = [1, 3, 4]"
proof -
  have sep: "trim sample_separator \<noteq> []" by (simp add: sample_trim)
  note laws = preview_accounts [OF sep refl, of sample_content]
  then have "list_all2 (\<lambda>(line, raw) row. ir_line row = line) (content_lines sample_content)
      (is_rows (build_import_preview sample_content sample_separator))"
    by (elim conjE) (erule list_all2_mono, auto)
  then show ?thesis
    using laws by (auto simp: sample_lines list_all2_Cons1)
qed

text \<open>C27: Accepted addresses are unique: among the rows that are not errors no two have the same address
  up to case, every such row has one, and a row is marked as a duplicate only when an earlier row that
  is not an error has its address.\<close>

theorem accepted_addresses_unique:
  "distinct (map address (filter accepted (is_rows (build_import_preview content separator))))
   \<and> (\<forall>i < length (is_rows (build_import_preview content separator)).
        ir_issue (is_rows (build_import_preview content separator) ! i) = Some Duplicate_email \<longrightarrow>
        (\<exists>j < i. accepted (is_rows (build_import_preview content separator) ! j)
          \<and> address (is_rows (build_import_preview content separator) ! j)
              = address (is_rows (build_import_preview content separator) ! i)))"
proof (cases "trim separator = []")
  case True
  then show ?thesis by (simp add: build_import_preview_def)
next
  case False
  let ?rows = "map (\<lambda>(line, raw). parse_import_line line raw (trim separator)) (content_lines content)"
  have len: "length (mark_duplicates [] ?rows) = length ?rows"
    using list_all2_lengthD [OF mark_rows [of ?rows "[]"]] by simp
  show ?thesis
    unfolding preview_rows_eq [OF False] len
    using mark_distinct [OF parsed_sound, of "[]"] mark_origin [OF parsed_sound, of _ _ _ "[]"] by auto
qed

lemma sample_preview_rows:
  "map (\<lambda>row. (ir_severity row, ir_issue row)) (is_rows (build_import_preview sample_content sample_separator)) =
     [(Ready, None), (Error, Some Duplicate_email), (Warning, Some Unknown_format)]"
proof -
  have sep: "trim sample_separator \<noteq> []" by (simp add: sample_trim)
  have neq: "to_lower (js ''b@host.org'') \<noteq> to_lower (js ''a@qq.com'')"
    and eq: "to_lower (js ''A@qq.com'') = to_lower (js ''a@qq.com'')" by (simp_all add: js_eval)
  show ?thesis
    unfolding preview_rows_eq [OF sep] sample_trim sample_lines
    by (simp add: sample_row1 [unfolded One_nat_def] sample_row2 sample_row3 eq neq)
qed

lemma accepted_addresses_unique_witness:
  "ir_issue (is_rows (build_import_preview sample_content sample_separator) ! 1) = Some Duplicate_email
   \<and> address (is_rows (build_import_preview sample_content sample_separator) ! 0)
     = address (is_rows (build_import_preview sample_content sample_separator) ! 1)"
proof -
  let ?rows = "is_rows (build_import_preview sample_content sample_separator)"
  have "length ?rows = 3" using arg_cong [OF sample_preview_rows, of length] by simp
  moreover from this have "ir_issue (?rows ! 1) = Some Duplicate_email"
    using arg_cong [OF sample_preview_rows, of "\<lambda>xs. snd (xs ! 1)"] by simp
  ultimately show ?thesis
    using accepted_addresses_unique [of sample_content sample_separator]
    by (auto dest!: spec [where x = 1])
qed

section \<open>Masking\<close>











definition ready_row :: "import_row \<Rightarrow> email_provider \<Rightarrow> email_auth_type \<Rightarrow> bool" where
  "ready_row row provider auth_type \<longleftrightarrow> ir_severity row = Ready \<and> ir_provider row = Some provider
     \<and> ir_auth_type row = Some auth_type"

lemmas ready_eval = js_eval parse_import_line_def line_parts_def token_profile_of_def
  parse_tokenized_line_def missing_required_def part_at_def is_email_def token_profiles_def
  app_password_profile_def ready_row_def

lemma registry_templates:
  "list_all (\<lambda>p. pp_supports_bulk_import p \<noteq> Some False \<longrightarrow>
      ready_row (parse_import_line line (pp_import_template p) (js ''----'')) (pp_provider p) (pp_auth_type p))
    external_provider_profile_registry"
  unfolding external_provider_profile_registry_def list.pred_inject
  by (intro conjI TrueI; simp add: profile_defs create_imap_smtp_profile_def ready_eval Let_def)

text \<open>The import templates of the provider registry that support bulk import are accepted: each is
  one ready row with the provider and the authentication type of its profile.\<close>

theorem templates_ready:
  assumes "p \<in> set external_provider_profile_registry" "pp_supports_bulk_import p \<noteq> Some False"
  shows "ir_severity (parse_import_line line (pp_import_template p) (js ''----'')) = Ready
    \<and> ir_provider (parse_import_line line (pp_import_template p) (js ''----'')) = Some (pp_provider p)
    \<and> ir_auth_type (parse_import_line line (pp_import_template p) (js ''----'')) = Some (pp_auth_type p)"
  using registry_templates assms unfolding list_all_iff ready_row_def by blast

lemma templates_ready_witness:
  "ir_severity (parse_import_line 1 (pp_import_template profile_qq_imap_smtp) (js ''----'')) = Ready"
  using templates_ready [of profile_qq_imap_smtp 1]
  by (simp add: external_provider_profile_registry_def profile_qq_imap_smtp_def create_imap_smtp_profile_def)

end
