(* ===== verification/ImportFailures.thy ===== *)
theory ImportFailures
  imports ImportPreview
begin

text \<open>
  The lines the server refused: how its messages are matched to the rows that were submitted, and
  that the text offered for a second round previews as exactly those lines.
\<close>

section \<open>Refused lines\<close>

text \<open>A text that stands in a row: not blank, trimmed, on one line.\<close>

definition line_text :: "jstr \<Rightarrow> bool" where
  "line_text raw \<longleftrightarrow> raw \<noteq> [] \<and> trim raw = raw \<and> 10 \<notin> set raw"

lemma content_lines_text: "(n, raw) \<in> set (content_lines content) \<Longrightarrow> line_text raw"
proof -
  assume "(n, raw) \<in> set (content_lines content)"
  then have raw: "raw \<noteq> []" and "raw \<in> set (map snd (enumerate 1 (map trim (split_text [10] (replace_crlf content)))))"
    by (auto simp: content_lines_def simp del: map_snd_enumerate intro: rev_image_eqI)
  then obtain p where p: "raw = trim p" "p \<in> set (split_text [10] (replace_crlf content))" by auto
  then have "10 \<notin> set raw" using split_char_pieces set_trim by blast
  with raw p show ?thesis by (simp add: line_text_def)
qed

lemma crlf_newline: "replace_crlf (10 # t) = 10 # replace_crlf t"
  by (cases t) simp_all

lemma crlf_line:
  "10 \<notin> set s \<Longrightarrow> s \<noteq> [] \<Longrightarrow> last s \<noteq> 13 \<Longrightarrow> replace_crlf (s @ 10 # t) = s @ 10 # replace_crlf t"
  by (induction s rule: replace_crlf.induct) (auto simp: crlf_newline split: if_splits)

lemma crlf_single: "10 \<notin> set s \<Longrightarrow> replace_crlf s = s"
  by (induction s rule: replace_crlf.induct) auto

lemma crlf_join:
  "(\<And>x. x \<in> set xs \<Longrightarrow> line_text x) \<Longrightarrow> replace_crlf (join [10] xs) = join [10] xs"
proof (induction "[10 :: nat]" xs rule: join.induct)
  case (3 x y xs)
  have x: "10 \<notin> set x" "x \<noteq> []" "trim x = x" using "3.prems" by (auto simp: line_text_def)
  then have "last x \<noteq> 13" using trim_hd_last [of x] by (auto simp: is_ws_def)
  with x "3.hyps" "3.prems" show ?case by (simp add: crlf_line)
qed (simp_all add: crlf_single line_text_def)

lemma content_lines_join:
  assumes "\<And>x. x \<in> set xs \<Longrightarrow> line_text x"
  shows "content_lines (join [10] xs) = enumerate 1 xs"
proof (cases "xs = []")
  case True
  then show ?thesis by (simp add: content_lines_def split_char_none)
next
  case False
  have "split_text [10] (join [10] xs) = xs"
    by (rule split_char_join [OF False]) (use assms in \<open>auto simp: line_text_def\<close>)
  moreover have "map trim xs = xs"
    using assms by (intro map_idI) (simp add: line_text_def)
  moreover have "filter (\<lambda>(line, raw). raw \<noteq> []) (enumerate 1 xs) = enumerate 1 xs"
    using assms by (intro filter_True) (auto simp: line_text_def in_set_enumerate_eq)
  ultimately show ?thesis
    using assms by (simp add: content_lines_def crlf_join)
qed

lemma match_printed:
  assumes "message \<noteq> []" "list_all (\<lambda>c. \<not> is_terminator c) message" "\<not> is_ws (hd message)"
  shows "match_server_error (js ''line '' @ nat_str n @ js '': '' @ message) = Some (nat_str n, message)"
proof -
  have digits: "is_digit c \<Longrightarrow> \<not> is_ws c" for c by (simp add: is_digit_def is_ws_def)
  have ends: "\<not> is_digit 58" "\<not> is_ws 58" "is_ws 32" by (simp_all add: is_digit_def is_ws_def)
  have "\<not> is_ws (hd (nat_str n))" using digits nat_str_digits [of "hd (nat_str n)" n] by simp
  then have drop: "dropWhile is_ws (nat_str n @ t) = nat_str n @ t" for t
    using ends by (cases "nat_str n") simp_all
  have take: "takeWhile is_digit (nat_str n @ 58 # t) = nat_str n"
    "dropWhile is_digit (nat_str n @ 58 # t) = 58 # t" for t
    using ends nat_str_digits [of _ n] by (simp_all add: takeWhile_append dropWhile_append)
  have msg: "match_message (32 # message) = Some message"
    using assms ends by (cases message) (simp_all add: match_message_def)
  have texts: "js ''line '' = [108, 105, 110, 101, 32]" "js '': '' = [58, 32]"
    "js ''line'' = [108, 105, 110, 101]" by (simp_all add: js_def)
  show ?thesis
    unfolding texts
    by (simp add: match_server_error_def ascii_lower_def texts Let_def drop take ends msg)
qed

lemma failed_lines:
  assumes "\<forall>f \<in> set failures. \<forall>raw. if_raw f = Some raw \<longrightarrow> raw \<in> snd ` set (content_lines content)"
  shows "map snd (content_lines (build_failed_import_content failures)) =
      distinct_values (map (\<lambda>f. the (if_raw f)) (sort_key failure_order (filter has_raw failures)))
    \<and> set (map snd (content_lines (build_failed_import_content failures))) =
        {raw. raw \<noteq> [] \<and> (\<exists>f \<in> set failures. if_raw f = Some raw)}
    \<and> distinct (map snd (content_lines (build_failed_import_content failures)))"
proof -
  let ?raws = "distinct_values (map (\<lambda>f. the (if_raw f)) (sort_key failure_order (filter has_raw failures)))"
  have set: "set ?raws = {raw. raw \<noteq> [] \<and> (\<exists>f \<in> set failures. if_raw f = Some raw)}"
    by (auto simp: has_raw_def image_iff) (metis option.sel)
  have "line_text x" if "x \<in> set ?raws" for x
    using that assms content_lines_text unfolding set by fastforce
  then have "map snd (content_lines (build_failed_import_content failures)) = ?raws"
    unfolding build_failed_import_content_def by (subst content_lines_join) simp_all
  then show ?thesis using set by simp
qed

section \<open>Properties\<close>

text \<open>Server failures find their rows: a refusal of line n names the n-th submitted row by its number
  in the pasted text and its text, a number outside the submitted rows names none, and the server's
  message is passed on.\<close>

theorem server_failure_row:
  assumes "message \<noteq> []" "list_all (\<lambda>c. \<not> is_terminator c) message" "\<not> is_ws (hd message)"
  shows "parse_server_import_failures [js ''line '' @ nat_str n @ js '': '' @ message] rows =
    [\<lparr>if_line = (if 1 \<le> n \<and> n \<le> length rows then Some (ir_line (rows ! (n - 1))) else None),
      if_raw = (if 1 \<le> n \<and> n \<le> length rows then Some (ir_raw (rows ! (n - 1))) else None),
      if_message = message, if_source = From_server, if_issue = None\<rparr>]"
  by (simp add: parse_server_import_failures_def parse_server_import_failure_def match_printed [OF assms]
      digits_value_nat_str submitted_row_def Let_def)

lemma server_failure_row_witness:
  "map if_raw (parse_server_import_failures [js ''line '' @ nat_str 2 @ js '': '' @ js ''bad''] []) = [None]"
proof -
  have "js ''bad'' = [98, 97, 100]" by (simp add: js_def)
  then show ?thesis
    using server_failure_row [of "js ''bad''" 2 "[]"] by (simp add: is_terminator_def is_ws_def)
qed

text \<open>Nothing is lost on the way back: when every failure with a text has a line of the preview, the
  text offered for another round previews as exactly the refused lines, each once, in the order of
  their line numbers.\<close>

theorem failed_content_lines:
  assumes "\<forall>f \<in> set failures. \<forall>raw. if_raw f = Some raw \<longrightarrow> raw \<in> snd ` set (content_lines content)"
  shows "map snd (content_lines (build_failed_import_content failures)) =
      distinct_values (map (\<lambda>f. the (if_raw f)) (sort_key failure_order (filter has_raw failures)))
    \<and> set (map snd (content_lines (build_failed_import_content failures))) =
        {raw. raw \<noteq> [] \<and> (\<exists>f \<in> set failures. if_raw f = Some raw)}
    \<and> distinct (map snd (content_lines (build_failed_import_content failures)))"
  using assms by (rule failed_lines)

lemma failed_content_lines_witness:
  "map snd (content_lines (build_failed_import_content
     [\<lparr>if_line = Some 2, if_raw = Some (js ''b''), if_message = [], if_source = From_server, if_issue = None\<rparr>,
      \<lparr>if_line = Some 1, if_raw = Some (js ''a''), if_message = [], if_source = From_server, if_issue = None\<rparr>])) =
   [js ''a'', js ''b'']"
proof -
  have "content_lines (js ''a'' @ [10] @ js ''b'') = [(1, js ''a''), (2, js ''b'')]"
    by (simp add: content_lines_def js_eval)
  then show ?thesis
    using failed_content_lines [of "[\<lparr>if_line = Some 2, if_raw = Some (js ''b''), if_message = [], if_source = From_server, if_issue = None\<rparr>,
      \<lparr>if_line = Some 1, if_raw = Some (js ''a''), if_message = [], if_source = From_server, if_issue = None\<rparr>]" "js ''a'' @ [10] @ js ''b''"]
    by (simp add: failure_order_def has_raw_def)
qed

end
