(* ===== verification/PagedFetch.thy ===== *)
theory PagedFetch
  imports JsPrelude
begin

text \<open>
  Reading a paged list to its end (\<open>fetchAllPagedItems\<close> of web/src/pages/domain-mailboxes/shared.ts,
  repeated in web/src/pages/api-keys/index.tsx). The server is a function of the page number and the
  page size; each page number is asked for once. The loop need not end, so it is a partial function:
  \<open>None\<close> is a call that never returns, \<open>Inl\<close> a rejected promise.
\<close>

record 'a paged_list =
  pl_list :: "'a list"
  pl_total :: nat

definition max_list_page_size :: nat where
  "max_list_page_size = 100"

type_synonym ('e, 'a) page_source = "nat \<Rightarrow> nat \<Rightarrow> 'e + 'a paged_list"

partial_function (option) fetch_pages ::
  "('e, 'a) page_source \<Rightarrow> nat \<Rightarrow> 'a list \<Rightarrow> ('e + 'a list) option" where
  "fetch_pages fetch_page page items =
     (case fetch_page page max_list_page_size of
        Inl e \<Rightarrow> Some (Inl e)
      | Inr result \<Rightarrow>
          (let items1 = items @ pl_list result
           in if length items1 < pl_total result
              then fetch_pages fetch_page (page + 1) items1
              else Some (Inr items1)))"

definition fetch_all_paged_items :: "('e, 'a) page_source \<Rightarrow> ('e + 'a list) option" where
  "fetch_all_paged_items fetch_page = fetch_pages fetch_page 1 []"

section \<open>A server that pages a list\<close>

text \<open>What a page of a list is: page \<open>p\<close> of size \<open>n\<close>, counted from one.\<close>

definition page_of :: "'a list \<Rightarrow> nat \<Rightarrow> nat \<Rightarrow> 'a list" where
  "page_of xs p n = take n (drop ((p - 1) * n) xs)"

definition serves :: "('e, 'a) page_source \<Rightarrow> 'a list \<Rightarrow> bool" where
  "serves fetch_page xs \<longleftrightarrow>
     (\<forall>p n. 1 \<le> p \<longrightarrow> fetch_page p n = Inr \<lparr>pl_list = page_of xs p n, pl_total = length xs\<rparr>)"

lemma page_prefix:
  "take (k * n) xs @ page_of xs (Suc k) n = take (Suc k * n) xs"
  by (simp add: page_of_def take_add [symmetric] add.commute)

lemma fetch_pages_serves:
  assumes "serves fetch_page xs"
  shows "fetch_pages fetch_page (Suc k) (take (k * max_list_page_size) xs) = Some (Inr xs)"
proof (induction "length xs - k * max_list_page_size" arbitrary: k rule: less_induct)
  case less
  have size: "max_list_page_size = 100" by (simp add: max_list_page_size_def)
  let ?items = "take (Suc k * max_list_page_size) xs"
  have step: "fetch_pages fetch_page (Suc k) (take (k * max_list_page_size) xs) =
      (if length ?items < length xs then fetch_pages fetch_page (Suc (Suc k)) ?items else Some (Inr ?items))"
    using assms by (subst fetch_pages.simps) (simp add: serves_def page_prefix Let_def)
  show ?case
  proof (cases "length ?items < length xs")
    case True
    then have "length xs - Suc k * max_list_page_size < length xs - k * max_list_page_size"
      by (simp add: size)
    from less [OF this] show ?thesis using step True by simp
  next
    case False
    then have "?items = xs" by simp
    then show ?thesis using step by simp
  qed
qed

section \<open>When the loop ends\<close>

text \<open>The items of the first \<open>k\<close> pages, and the question the loop asks after page \<open>k + 1\<close>:
  was the page delivered, and are there still fewer items than its total says?\<close>

fun items_of_pages :: "('e, 'a) page_source \<Rightarrow> nat \<Rightarrow> 'a list" where
  "items_of_pages fetch_page 0 = []"
| "items_of_pages fetch_page (Suc k) =
     items_of_pages fetch_page k @
     (case fetch_page (Suc k) max_list_page_size of Inl e \<Rightarrow> [] | Inr result \<Rightarrow> pl_list result)"

definition asks_on :: "('e, 'a) page_source \<Rightarrow> nat \<Rightarrow> bool" where
  "asks_on fetch_page k \<longleftrightarrow>
     (case fetch_page (Suc k) max_list_page_size of
        Inl e \<Rightarrow> False
      | Inr result \<Rightarrow> length (items_of_pages fetch_page (Suc k)) < pl_total result)"

lemma fetch_pages_unroll:
  "fetch_pages fetch_page (Suc k) (items_of_pages fetch_page k) =
     (if asks_on fetch_page k then fetch_pages fetch_page (Suc (Suc k)) (items_of_pages fetch_page (Suc k))
      else Some (map_sum id (\<lambda>_. items_of_pages fetch_page (Suc k)) (fetch_page (Suc k) max_list_page_size)))"
  by (subst fetch_pages.simps) (simp add: asks_on_def Let_def split: sum.splits)

lemma fetch_pages_skip:
  assumes "\<And>i. i < k \<Longrightarrow> asks_on fetch_page i"
  shows "fetch_all_paged_items fetch_page = fetch_pages fetch_page (Suc k) (items_of_pages fetch_page k)"
  using assms
proof (induction k)
  case 0
  then show ?case by (simp add: fetch_all_paged_items_def)
next
  case (Suc k)
  then show ?case using fetch_pages_unroll [of fetch_page k] by simp
qed

lemmas fetch_pages_induct = fetch_pages.raw_induct [rotated, consumes 1, case_names call]

lemma fetch_pages_returns:
  assumes "fetch_pages fetch_page page items = Some r"
    and "page = Suc k" and "items = items_of_pages fetch_page k"
  shows "\<exists>j \<ge> k. \<not> asks_on fetch_page j"
  using assms
proof (induction arbitrary: k rule: fetch_pages_induct)
  case (call rec f p xs r)
  show ?case
  proof (cases "asks_on f k")
    case True
    then have "rec f (p + 1) (items_of_pages f (Suc k)) = Some r"
      using call.hyps call.prems by (auto simp: asks_on_def Let_def split: sum.splits if_splits)
    then have "\<exists>j \<ge> Suc k. \<not> asks_on f j" by (rule call.IH) (simp_all add: call.prems)
    then show ?thesis by (meson Suc_leD)
  next
    case False
    then show ?thesis by blast
  qed
qed

lemma fetch_all_endless:
  assumes "\<And>k. asks_on fetch_page k"
  shows "fetch_all_paged_items fetch_page = None"
proof (rule ccontr)
  assume "fetch_all_paged_items fetch_page \<noteq> None"
  then obtain r where "fetch_pages fetch_page 1 [] = Some r"
    unfolding fetch_all_paged_items_def by blast
  then have "\<exists>j \<ge> 0. \<not> asks_on fetch_page j" by (rule fetch_pages_returns) simp_all
  then show False using assms by blast
qed

section \<open>Properties\<close>

text \<open>The whole list is read: against a server that pages a list of any length, the loop returns
  exactly that list, in order.\<close>

theorem paged_fetch_complete:
  assumes "\<forall>p n. 1 \<le> p \<longrightarrow> fetch_page p n = Inr \<lparr>pl_list = page_of xs p n, pl_total = length xs\<rparr>"
  shows "fetch_all_paged_items fetch_page = Some (Inr xs)"
  using fetch_pages_serves [of fetch_page xs 0] assms
  by (simp add: fetch_all_paged_items_def serves_def)

lemma paged_fetch_complete_witness:
  "fetch_all_paged_items (\<lambda>p n. Inr \<lparr>pl_list = page_of [10 :: nat, 20] p n, pl_total = 2\<rparr>) = Some (Inr [10, 20])"
  by (rule paged_fetch_complete) simp

text \<open>C38: When the loop ends and what it then gives, for any server: the page after the first \<open>k\<close> is
  asked for as long as every page so far was delivered and left fewer items than the total it reported. If
  that holds of every page the call never returns; otherwise it returns after the first page of which it
  does not hold, with that page's error, or with the items of all pages up to it in order. Pages that are
  not asked for play no part.\<close>

theorem paged_fetch_termination:
  "fetch_all_paged_items fetch_page =
     (if \<forall>k. asks_on fetch_page k then None
      else let last = (LEAST k. \<not> asks_on fetch_page k)
           in Some (case fetch_page (Suc last) max_list_page_size of
                      Inl e \<Rightarrow> Inl e
                    | Inr result \<Rightarrow> Inr (items_of_pages fetch_page (Suc last))))"
proof (cases "\<forall>k. asks_on fetch_page k")
  case True
  then show ?thesis by (simp add: fetch_all_endless)
next
  case False
  define last where "last = (LEAST k. \<not> asks_on fetch_page k)"
  have stop: "\<not> asks_on fetch_page last" unfolding last_def by (rule LeastI_ex) (use False in blast)
  have before: "\<And>i. i < last \<Longrightarrow> asks_on fetch_page i" unfolding last_def by (blast dest: not_less_Least)
  have "fetch_all_paged_items fetch_page =
      Some (map_sum id (\<lambda>_. items_of_pages fetch_page (Suc last)) (fetch_page (Suc last) max_list_page_size))"
    using fetch_pages_skip [OF before] stop fetch_pages_unroll [of fetch_page last] by simp
  then show ?thesis using False by (simp add: Let_def last_def split: sum.splits)
qed

text \<open>A server that keeps sending empty pages under a larger total is asked for ever.\<close>

theorem paged_fetch_stuck:
  assumes "\<forall>p \<ge> 1. \<exists>m > 0. fetch_page p max_list_page_size = Inr \<lparr>pl_list = [], pl_total = m\<rparr>"
  shows "fetch_all_paged_items fetch_page = None"
proof (rule fetch_all_endless)
  fix k
  have page: "\<exists>m > 0. fetch_page (Suc i) max_list_page_size = Inr \<lparr>pl_list = [], pl_total = m\<rparr>" for i
    using assms by simp
  have "items_of_pages fetch_page n = []" for n
  proof (induction n)
    case (Suc n)
    obtain m where "fetch_page (Suc n) max_list_page_size = Inr \<lparr>pl_list = [], pl_total = m\<rparr>"
      using page by blast
    then show ?case using Suc by simp
  qed simp
  then show "asks_on fetch_page k" using page [of k] by (auto simp: asks_on_def)
qed

lemma paged_fetch_stuck_witness:
  "fetch_all_paged_items (\<lambda>p n. Inr \<lparr>pl_list = [] :: nat list, pl_total = 3\<rparr>) = None"
  by (rule paged_fetch_stuck) auto

end
