(* ===== verification/OAuthProfiles.thy ===== *)
theory OAuthProfiles
  imports JsPrelude
begin

text \<open>
  The OAuth scope profiles of the web client (web/src/pages/emails/oauthProfiles.ts): which scopes a
  profile asks a provider for, and which capabilities it shows for it.
\<close>

datatype oauth_provider = OA_GMAIL | OA_OUTLOOK

datatype oauth_scope_profile = Minimal | Send | Manage | Full

record oauth_capabilities =
  oc_read_mail :: bool
  oc_send_mail :: bool
  oc_manage_mail :: bool
  oc_extended_access :: bool

definition oauth_scope_profiles :: "oauth_scope_profile list" where
  "oauth_scope_profiles = [Minimal, Send, Manage, Full]"

fun profile_text :: "oauth_scope_profile \<Rightarrow> jstr" where
  "profile_text Minimal = js ''minimal''"
| "profile_text Send = js ''send''"
| "profile_text Manage = js ''manage''"
| "profile_text Full = js ''full''"

definition google_identity_scopes :: "jstr list" where
  "google_identity_scopes = [js ''openid'', js ''email'', js ''profile'']"

definition microsoft_identity_scopes :: "jstr list" where
  "microsoft_identity_scopes =
     [js ''offline_access'', js ''openid'', js ''profile'', js ''email'',
      js ''https://graph.microsoft.com/User.Read'']"

fun oauth_profile_scopes :: "oauth_provider \<Rightarrow> oauth_scope_profile \<Rightarrow> jstr list" where
  "oauth_profile_scopes OA_GMAIL Minimal = google_identity_scopes @
     [js ''https://www.googleapis.com/auth/gmail.readonly'']"
| "oauth_profile_scopes OA_GMAIL Send = google_identity_scopes @
     [js ''https://www.googleapis.com/auth/gmail.readonly'',
      js ''https://www.googleapis.com/auth/gmail.send'']"
| "oauth_profile_scopes OA_GMAIL Manage = google_identity_scopes @
     [js ''https://www.googleapis.com/auth/gmail.modify'',
      js ''https://www.googleapis.com/auth/gmail.send'']"
| "oauth_profile_scopes OA_GMAIL Full = google_identity_scopes @ [js ''https://mail.google.com/'']"
| "oauth_profile_scopes OA_OUTLOOK Minimal = microsoft_identity_scopes @
     [js ''https://graph.microsoft.com/Mail.Read'']"
| "oauth_profile_scopes OA_OUTLOOK Send = microsoft_identity_scopes @
     [js ''https://graph.microsoft.com/Mail.Read'', js ''https://graph.microsoft.com/Mail.Send'']"
| "oauth_profile_scopes OA_OUTLOOK Manage = microsoft_identity_scopes @
     [js ''https://graph.microsoft.com/Mail.ReadWrite'', js ''https://graph.microsoft.com/Mail.Send'']"
| "oauth_profile_scopes OA_OUTLOOK Full = microsoft_identity_scopes @
     [js ''https://graph.microsoft.com/Mail.ReadWrite'', js ''https://graph.microsoft.com/Mail.Send'',
      js ''https://graph.microsoft.com/Contacts.ReadWrite'',
      js ''https://graph.microsoft.com/Calendars.ReadWrite'',
      js ''https://graph.microsoft.com/MailboxSettings.ReadWrite'']"

fun get_oauth_profile_capabilities :: "oauth_scope_profile \<Rightarrow> oauth_capabilities" where
  "get_oauth_profile_capabilities Minimal =
     \<lparr>oc_read_mail = True, oc_send_mail = False, oc_manage_mail = False, oc_extended_access = False\<rparr>"
| "get_oauth_profile_capabilities Send =
     \<lparr>oc_read_mail = True, oc_send_mail = True, oc_manage_mail = False, oc_extended_access = False\<rparr>"
| "get_oauth_profile_capabilities Manage =
     \<lparr>oc_read_mail = True, oc_send_mail = True, oc_manage_mail = True, oc_extended_access = False\<rparr>"
| "get_oauth_profile_capabilities Full =
     \<lparr>oc_read_mail = True, oc_send_mail = True, oc_manage_mail = True, oc_extended_access = True\<rparr>"

definition normalize_oauth_scope_profile :: "jstr option \<Rightarrow> oauth_scope_profile" where
  "normalize_oauth_scope_profile value =
     (case filter (\<lambda>p. Some (profile_text p) = value) oauth_scope_profiles of
        [] \<Rightarrow> Minimal
      | p # _ \<Rightarrow> p)"

definition get_oauth_profile_scopes :: "oauth_provider \<Rightarrow> oauth_scope_profile \<Rightarrow> jstr" where
  "get_oauth_profile_scopes provider profile = join [32] (oauth_profile_scopes provider profile)"

section \<open>Scopes and capabilities\<close>

text \<open>The scopes of a provider that let a client send, or change, mail.\<close>

fun send_scopes :: "oauth_provider \<Rightarrow> jstr list" where
  "send_scopes OA_GMAIL = [js ''https://www.googleapis.com/auth/gmail.send'', js ''https://mail.google.com/'']"
| "send_scopes OA_OUTLOOK = [js ''https://graph.microsoft.com/Mail.Send'']"

fun manage_scopes :: "oauth_provider \<Rightarrow> jstr list" where
  "manage_scopes OA_GMAIL = [js ''https://www.googleapis.com/auth/gmail.modify'', js ''https://mail.google.com/'']"
| "manage_scopes OA_OUTLOOK = [js ''https://graph.microsoft.com/Mail.ReadWrite'']"

lemma normalize_profile_text [simp]: "normalize_oauth_scope_profile (Some (profile_text p)) = p"
  by (cases p) (simp_all add: normalize_oauth_scope_profile_def oauth_scope_profiles_def)

lemma normalize_other:
  assumes "value \<notin> Some ` profile_text ` set oauth_scope_profiles"
  shows "normalize_oauth_scope_profile value = Minimal"
proof -
  have "filter (\<lambda>p. Some (profile_text p) = value) oauth_scope_profiles = []"
    using assms unfolding filter_empty_conv by blast
  then show ?thesis by (simp add: normalize_oauth_scope_profile_def)
qed

lemmas scope_tables = oauth_profile_scopes.simps google_identity_scopes_def microsoft_identity_scopes_def

lemma scopes_plain: "list_all (\<lambda>s. s \<noteq> [] \<and> 32 \<notin> set s) (oauth_profile_scopes provider profile)"
  by (cases provider; cases profile) (simp_all add: scope_tables js_def)

lemma scopes_nonempty: "oauth_profile_scopes provider profile \<noteq> []"
  by (cases provider; cases profile) simp_all

section \<open>Properties\<close>

text \<open>The capabilities shown are the scopes asked for: the scope text splits into the scopes of the
  profile; mail can be sent exactly when one of them is a sending scope of the provider and changed
  exactly when one is a managing scope; and the identity scopes are always among them.\<close>

theorem capabilities_match_scopes:
  "split_text [32] (get_oauth_profile_scopes provider profile) = oauth_profile_scopes provider profile
   \<and> (oc_send_mail (get_oauth_profile_capabilities profile) \<longleftrightarrow>
        (\<exists>s \<in> set (send_scopes provider). s \<in> set (split_text [32] (get_oauth_profile_scopes provider profile))))
   \<and> (oc_manage_mail (get_oauth_profile_capabilities profile) \<longleftrightarrow>
        (\<exists>s \<in> set (manage_scopes provider). s \<in> set (split_text [32] (get_oauth_profile_scopes provider profile))))
   \<and> js ''openid'' \<in> set (split_text [32] (get_oauth_profile_scopes provider profile))"
proof -
  have split: "split_text [32] (get_oauth_profile_scopes provider profile) = oauth_profile_scopes provider profile"
    unfolding get_oauth_profile_scopes_def
    by (rule split_char_join [OF scopes_nonempty]) (use scopes_plain in \<open>auto simp: list_all_iff\<close>)
  show ?thesis
    unfolding split by (cases provider; cases profile) (simp_all add: scope_tables)
qed

text \<open>An unknown profile gets the least: normalising a profile's own name gives the profile back, any
  other text (or none) gives the minimal profile, whose scopes let a client neither send nor change
  mail.\<close>

theorem unknown_profile_is_minimal:
  "normalize_oauth_scope_profile (Some (profile_text p)) = p
   \<and> (value \<notin> Some ` profile_text ` set oauth_scope_profiles \<longrightarrow>
        normalize_oauth_scope_profile value = Minimal
        \<and> (\<forall>s \<in> set (send_scopes provider @ manage_scopes provider).
             s \<notin> set (oauth_profile_scopes provider (normalize_oauth_scope_profile value))))"
proof -
  have "\<forall>s \<in> set (send_scopes provider @ manage_scopes provider). s \<notin> set (oauth_profile_scopes provider Minimal)"
    by (cases provider) (simp_all add: scope_tables)
  then show ?thesis using normalize_other [of "value"] by auto
qed

lemma unknown_profile_is_minimal_witness:
  "normalize_oauth_scope_profile (Some (js ''admin'')) = Minimal"
  using unknown_profile_is_minimal [of Full "Some (js ''admin'')" OA_GMAIL]
  by (simp add: oauth_scope_profiles_def)

end
