(* ===== verification/LogActions.thy ===== *)
theory LogActions
  imports JsPrelude
begin

text \<open>
  The audit log actions of the web client (web/src/constants/logActions.ts): the action names, the
  legacy aliases, labels and colours. A label is represented by the key of its message. The tables are
  object literals, so \<open>in\<close> and indexing also see the properties every object inherits.
\<close>

section \<open>Tables\<close>

datatype log_action =
    LA_GET_EMAIL
  | LA_MAIL_NEW
  | LA_MAIL_TEXT
  | LA_MAIL_ALL
  | LA_PROCESS_MAILBOX
  | LA_LIST_EMAILS
  | LA_ADMIN_REVEAL_EXTERNAL_SECRET_UNLOCK
  | LA_ADMIN_REVEAL_EXTERNAL_SECRET
  | LA_POOL_STATS
  | LA_POOL_RESET
  | LA_DOMAIN_GET_MAILBOX
  | LA_DOMAIN_MAIL_NEW
  | LA_DOMAIN_MAIL_TEXT
  | LA_DOMAIN_MAIL_ALL
  | LA_DOMAIN_LIST_MAILBOXES
  | LA_DOMAIN_POOL_STATS
  | LA_DOMAIN_POOL_RESET

definition all_log_actions :: "log_action list" where
  "all_log_actions =
     [LA_GET_EMAIL,
      LA_MAIL_NEW,
      LA_MAIL_TEXT,
      LA_MAIL_ALL,
      LA_PROCESS_MAILBOX,
      LA_LIST_EMAILS,
      LA_ADMIN_REVEAL_EXTERNAL_SECRET_UNLOCK,
      LA_ADMIN_REVEAL_EXTERNAL_SECRET,
      LA_POOL_STATS,
      LA_POOL_RESET,
      LA_DOMAIN_GET_MAILBOX,
      LA_DOMAIN_MAIL_NEW,
      LA_DOMAIN_MAIL_TEXT,
      LA_DOMAIN_MAIL_ALL,
      LA_DOMAIN_LIST_MAILBOXES,
      LA_DOMAIN_POOL_STATS,
      LA_DOMAIN_POOL_RESET]"

fun action_text :: "log_action \<Rightarrow> jstr" where
  "action_text LA_GET_EMAIL = js ''external_allocate_mailbox''"
| "action_text LA_MAIL_NEW = js ''external_read_latest_message''"
| "action_text LA_MAIL_TEXT = js ''external_read_message_text''"
| "action_text LA_MAIL_ALL = js ''external_list_messages''"
| "action_text LA_PROCESS_MAILBOX = js ''external_clear_mailbox''"
| "action_text LA_LIST_EMAILS = js ''external_list_mailboxes''"
| "action_text LA_ADMIN_REVEAL_EXTERNAL_SECRET_UNLOCK = js ''admin_reveal_external_secret_unlock''"
| "action_text LA_ADMIN_REVEAL_EXTERNAL_SECRET = js ''admin_reveal_external_secret''"
| "action_text LA_POOL_STATS = js ''external_mailbox_allocation_stats''"
| "action_text LA_POOL_RESET = js ''external_mailbox_allocation_reset''"
| "action_text LA_DOMAIN_GET_MAILBOX = js ''domain_allocate_mailbox''"
| "action_text LA_DOMAIN_MAIL_NEW = js ''domain_read_latest_message''"
| "action_text LA_DOMAIN_MAIL_TEXT = js ''domain_read_message_text''"
| "action_text LA_DOMAIN_MAIL_ALL = js ''domain_list_messages''"
| "action_text LA_DOMAIN_LIST_MAILBOXES = js ''domain_list_mailboxes''"
| "action_text LA_DOMAIN_POOL_STATS = js ''domain_mailbox_allocation_stats''"
| "action_text LA_DOMAIN_POOL_RESET = js ''domain_mailbox_allocation_reset''"

definition legacy_action_aliases :: "(jstr \<times> log_action) list" where
  "legacy_action_aliases =
     [(js ''get_email'', LA_GET_EMAIL),
      (js ''mail_new'', LA_MAIL_NEW),
      (js ''mail_text'', LA_MAIL_TEXT),
      (js ''mail_all'', LA_MAIL_ALL),
      (js ''process_mailbox'', LA_PROCESS_MAILBOX),
      (js ''list_emails'', LA_LIST_EMAILS),
      (js ''admin_reveal_external_secret_unlock'', LA_ADMIN_REVEAL_EXTERNAL_SECRET_UNLOCK),
      (js ''admin_reveal_external_secret'', LA_ADMIN_REVEAL_EXTERNAL_SECRET),
      (js ''pool_stats'', LA_POOL_STATS),
      (js ''pool_reset'', LA_POOL_RESET),
      (js ''domain_get_mailbox'', LA_DOMAIN_GET_MAILBOX),
      (js ''domain_mail_new'', LA_DOMAIN_MAIL_NEW),
      (js ''domain_mail_text'', LA_DOMAIN_MAIL_TEXT),
      (js ''domain_mail_all'', LA_DOMAIN_MAIL_ALL),
      (js ''domain_list_mailboxes'', LA_DOMAIN_LIST_MAILBOXES),
      (js ''domain_pool_stats'', LA_DOMAIN_POOL_STATS),
      (js ''domain_pool_reset'', LA_DOMAIN_POOL_RESET),
      (js ''process-mailbox'', LA_PROCESS_MAILBOX),
      (js ''emails'', LA_LIST_EMAILS)]"

fun log_action_label :: "log_action \<Rightarrow> jstr" where
  "log_action_label LA_GET_EMAIL = js ''logActions.externalAllocateMailbox''"
| "log_action_label LA_MAIL_NEW = js ''logActions.externalReadLatestMessage''"
| "log_action_label LA_MAIL_TEXT = js ''logActions.externalReadMessageText''"
| "log_action_label LA_MAIL_ALL = js ''logActions.externalListMessages''"
| "log_action_label LA_PROCESS_MAILBOX = js ''logActions.externalClearMailbox''"
| "log_action_label LA_LIST_EMAILS = js ''logActions.externalListMailboxes''"
| "log_action_label LA_ADMIN_REVEAL_EXTERNAL_SECRET_UNLOCK = js ''logActions.adminRevealExternalSecretUnlock''"
| "log_action_label LA_ADMIN_REVEAL_EXTERNAL_SECRET = js ''logActions.adminRevealExternalSecret''"
| "log_action_label LA_POOL_STATS = js ''logActions.externalMailboxAllocationStats''"
| "log_action_label LA_POOL_RESET = js ''logActions.externalMailboxAllocationReset''"
| "log_action_label LA_DOMAIN_GET_MAILBOX = js ''logActions.domainAllocateMailbox''"
| "log_action_label LA_DOMAIN_MAIL_NEW = js ''logActions.domainReadLatestMessage''"
| "log_action_label LA_DOMAIN_MAIL_TEXT = js ''logActions.domainReadMessageText''"
| "log_action_label LA_DOMAIN_MAIL_ALL = js ''logActions.domainListMessages''"
| "log_action_label LA_DOMAIN_LIST_MAILBOXES = js ''logActions.domainListMailboxes''"
| "log_action_label LA_DOMAIN_POOL_STATS = js ''logActions.domainMailboxAllocationStats''"
| "log_action_label LA_DOMAIN_POOL_RESET = js ''logActions.domainMailboxAllocationReset''"

fun log_action_color :: "log_action \<Rightarrow> jstr" where
  "log_action_color LA_GET_EMAIL = js ''cyan''"
| "log_action_color LA_MAIL_NEW = js ''processing''"
| "log_action_color LA_MAIL_TEXT = js ''geekblue''"
| "log_action_color LA_MAIL_ALL = js ''processing''"
| "log_action_color LA_PROCESS_MAILBOX = js ''error''"
| "log_action_color LA_LIST_EMAILS = js ''default''"
| "log_action_color LA_ADMIN_REVEAL_EXTERNAL_SECRET_UNLOCK = js ''gold''"
| "log_action_color LA_ADMIN_REVEAL_EXTERNAL_SECRET = js ''volcano''"
| "log_action_color LA_POOL_STATS = js ''default''"
| "log_action_color LA_POOL_RESET = js ''warning''"
| "log_action_color LA_DOMAIN_GET_MAILBOX = js ''cyan''"
| "log_action_color LA_DOMAIN_MAIL_NEW = js ''processing''"
| "log_action_color LA_DOMAIN_MAIL_TEXT = js ''geekblue''"
| "log_action_color LA_DOMAIN_MAIL_ALL = js ''processing''"
| "log_action_color LA_DOMAIN_LIST_MAILBOXES = js ''default''"
| "log_action_color LA_DOMAIN_POOL_STATS = js ''default''"
| "log_action_color LA_DOMAIN_POOL_RESET = js ''warning''"

definition log_action_options :: "(log_action \<times> jstr) list" where
  "log_action_options = map (\<lambda>a. (a, log_action_label a)) all_log_actions"

definition api_key_permission_action_options :: "(log_action \<times> jstr) list" where
  "api_key_permission_action_options =
     filter (\<lambda>(a, label). a \<noteq> LA_ADMIN_REVEAL_EXTERNAL_SECRET_UNLOCK \<and> a \<noteq> LA_ADMIN_REVEAL_EXTERNAL_SECRET)
       log_action_options"

section \<open>Lookups\<close>

text \<open>The names every object literal inherits from \<open>Object.prototype\<close>.\<close>

definition object_prototype_names :: "jstr list" where
  "object_prototype_names =
     [js ''constructor'', js ''__defineGetter__'', js ''__defineSetter__'', js ''hasOwnProperty'',
      js ''__lookupGetter__'', js ''__lookupSetter__'', js ''isPrototypeOf'', js ''propertyIsEnumerable'',
      js ''toString'', js ''valueOf'', js ''__proto__'', js ''toLocaleString'']"

definition action_of_text :: "jstr \<Rightarrow> log_action option" where
  "action_of_text text = map_of (map (\<lambda>a. (action_text a, a)) all_log_actions) text"

definition in_table :: "jstr \<Rightarrow> bool" where
  "in_table action \<longleftrightarrow> action_of_text action \<noteq> None \<or> action \<in> set object_prototype_names"

definition normalize_log_action :: "jstr \<Rightarrow> jstr option" where
  "normalize_log_action action =
     (if in_table action then Some action
      else map_option action_text (map_of legacy_action_aliases action))"

text \<open>What indexing a table gives: an entry, or an inherited value that is no entry.\<close>

datatype table_value = Entry jstr | Inherited jstr

definition table_entry :: "(log_action \<Rightarrow> jstr) \<Rightarrow> jstr \<Rightarrow> table_value" where
  "table_entry table action =
     (case action_of_text action of Some a \<Rightarrow> Entry (table a) | None \<Rightarrow> Inherited action)"

datatype label_result = Label table_value | Raw_action jstr

definition get_log_action_label :: "jstr \<Rightarrow> label_result" where
  "get_log_action_label action =
     (case normalize_log_action action of
        None \<Rightarrow> Raw_action action
      | Some a \<Rightarrow> Label (table_entry log_action_label a))"

definition get_log_action_color :: "jstr \<Rightarrow> table_value" where
  "get_log_action_color action =
     (case normalize_log_action action of
        None \<Rightarrow> Entry (js ''default'')
      | Some a \<Rightarrow> table_entry log_action_color a)"

section \<open>Laws\<close>

lemma all_log_actions_complete: "a \<in> set all_log_actions"
  by (cases a) (simp_all add: all_log_actions_def)

lemma action_texts_distinct: "distinct (map action_text all_log_actions)"
  by (simp add: all_log_actions_def)

lemma action_of_text_text [simp]: "action_of_text (action_text a) = Some a"
  unfolding action_of_text_def
  using action_texts_distinct all_log_actions_complete [of a]
  by (intro map_of_is_SomeI) (auto simp: comp_def)

lemma action_of_text_Some: "action_of_text text = Some a \<Longrightarrow> text = action_text a"
  unfolding action_of_text_def by (drule map_of_SomeD) auto

lemma in_table_text [simp]: "in_table (action_text a)"
  by (simp add: in_table_def)

lemma inherited_no_action:
  assumes "action \<in> set object_prototype_names"
  shows "action_of_text action = None"
proof -
  have "\<forall>n \<in> set object_prototype_names. n \<notin> set (map action_text all_log_actions)"
    by (simp add: object_prototype_names_def all_log_actions_def)
  then have "action \<notin> set (map action_text all_log_actions)" using assms by blast
  then show ?thesis by (simp add: action_of_text_def map_of_eq_None_iff comp_def image_image)
qed

section \<open>Properties\<close>

text \<open>Actions normalise: an action name keeps itself, a legacy alias gives an action name, normalising
  twice changes nothing, and every normalised name outside the names all objects inherit has a label and
  a colour of the tables.\<close>

theorem log_actions_normalise:
  "normalize_log_action (action_text a) = Some (action_text a)
   \<and> (normalize_log_action action = Some b \<longrightarrow> normalize_log_action b = Some b)
   \<and> (normalize_log_action action = Some b \<and> action \<notin> set object_prototype_names \<longrightarrow>
        (\<exists>c. b = action_text c \<and> get_log_action_label action = Label (Entry (log_action_label c))
           \<and> get_log_action_color action = Entry (log_action_color c)))"
proof (intro conjI impI)
  show "normalize_log_action (action_text a) = Some (action_text a)"
    by (simp add: normalize_log_action_def)
next
  assume "normalize_log_action action = Some b"
  then consider "in_table action" "b = action" | c where "b = action_text c"
    by (auto simp: normalize_log_action_def split: if_splits)
  then show "normalize_log_action b = Some b"
    by cases (simp_all add: normalize_log_action_def)
next
  assume b: "normalize_log_action action = Some b \<and> action \<notin> set object_prototype_names"
  then have "\<exists>c. b = action_text c"
    by (auto simp: normalize_log_action_def in_table_def split: if_splits dest: action_of_text_Some)
  then obtain c where "b = action_text c" ..
  then show "\<exists>c. b = action_text c \<and> get_log_action_label action = Label (Entry (log_action_label c))
           \<and> get_log_action_color action = Entry (log_action_color c)"
    using b by (intro exI [of _ c]) (simp add: get_log_action_label_def get_log_action_color_def table_entry_def)
qed

lemma log_actions_normalise_witness:
  "get_log_action_color (js ''process-mailbox'') = Entry (js ''error'')"
proof -
  have b: "normalize_log_action (js ''process-mailbox'') = Some (action_text LA_PROCESS_MAILBOX)"
    by (simp add: normalize_log_action_def in_table_def object_prototype_names_def action_of_text_def
        all_log_actions_def legacy_action_aliases_def)
  moreover have "js ''process-mailbox'' \<notin> set object_prototype_names" by (simp add: object_prototype_names_def)
  moreover have "action_text LA_PROCESS_MAILBOX = action_text c \<Longrightarrow> c = LA_PROCESS_MAILBOX" for c
    by (metis action_of_text_text option.inject)
  ultimately show ?thesis
    using log_actions_normalise [of LA_GET_EMAIL "js ''process-mailbox''" "action_text LA_PROCESS_MAILBOX"]
    by (metis log_action_color.simps(5))
qed

text \<open>Revealing secrets cannot be granted to an API key: the permission options are all actions but the
  two that reveal stored secrets.\<close>

theorem permission_options_exclude_reveals:
  "a \<in> fst ` set api_key_permission_action_options \<longleftrightarrow>
     a \<noteq> LA_ADMIN_REVEAL_EXTERNAL_SECRET_UNLOCK \<and> a \<noteq> LA_ADMIN_REVEAL_EXTERNAL_SECRET"
  using all_log_actions_complete [of a]
  by (force simp: api_key_permission_action_options_def log_action_options_def)

text \<open>An action named like an inherited property passes for a known one: \<open>constructor\<close>, \<open>toString\<close> and
  the others normalise to themselves and their label and colour are values of \<open>Object.prototype\<close>, not
  texts.\<close>

theorem inherited_names_pass:
  assumes "action \<in> set object_prototype_names"
  shows "normalize_log_action action = Some action
     \<and> get_log_action_label action = Label (Inherited action)
     \<and> get_log_action_color action = Inherited action"
  using assms inherited_no_action [OF assms]
  by (simp add: normalize_log_action_def get_log_action_label_def get_log_action_color_def table_entry_def
      in_table_def)

lemma inherited_names_pass_witness:
  "get_log_action_color (js ''constructor'') = Inherited (js ''constructor'')"
  using inherited_names_pass [of "js ''constructor''"] by (simp add: object_prototype_names_def)

end
