(* ===== verification/WebText.thy ===== *)
theory WebText
  imports JsValue
begin

text \<open>
  Texts shown by the web client: message templates and languages (web/src/i18n/messages.ts), the
  initial language (web/src/i18n/provider.tsx), the text of an error (web/src/utils/error.ts), the
  feedback of a request (web/src/utils/request.ts), the recipients of a message
  (web/src/pages/sending-configs/recipientInput.ts) and the removal of stored portal passwords
  (web/src/utils/portalCredentialStorage.ts). The i18next library is a parameter.
\<close>

section \<open>Messages\<close>

datatype language = Zh_CN | En_US

record message_descriptor =
  md_key :: jstr
  md_messages :: "language \<Rightarrow> jstr"

datatype translation_input = Plain jstr | Descriptor message_descriptor

definition define_message :: "jstr \<Rightarrow> jstr \<Rightarrow> jstr \<Rightarrow> message_descriptor" where
  "define_message key zh_cn en_us =
     \<lparr>md_key = key, md_messages = (\<lambda>l. case l of Zh_CN \<Rightarrow> zh_cn | En_US \<Rightarrow> en_us)\<rparr>"

text \<open>The units \<open>\w\<close> matches.\<close>

definition is_word :: "nat \<Rightarrow> bool" where
  "is_word c \<longleftrightarrow> is_digit c \<or> (65 \<le> c \<and> c \<le> 90) \<or> (97 \<le> c \<and> c \<le> 122) \<or> c = 95"

text \<open>\<open>params\<close> gives the text of a parameter, \<open>None\<close> where indexing gives undefined.\<close>

function expand_template :: "(jstr \<Rightarrow> jstr option) \<Rightarrow> jstr \<Rightarrow> jstr" where
  "expand_template params [] = []"
| "expand_template params (c # s) =
     (let key = takeWhile is_word s; rest = dropWhile is_word s
      in if c = 123 \<and> key \<noteq> [] \<and> rest \<noteq> [] \<and> hd rest = 125
         then (case params key of Some v \<Rightarrow> v | None \<Rightarrow> 123 # key @ [125])
                @ expand_template params (tl rest)
         else c # expand_template params s)"
  by pat_completeness auto
termination
  by (relation "measure (\<lambda>(params, s). length s)")
    (auto simp: less_Suc_eq_le intro: le_trans [OF diff_le_self length_dropWhile_le])

definition format_template :: "jstr \<Rightarrow> (jstr \<Rightarrow> jstr option) option \<Rightarrow> jstr" where
  "format_template template params =
     (case params of None \<Rightarrow> template | Some p \<Rightarrow> expand_template p template)"

definition normalize_language :: "jstr option \<Rightarrow> language" where
  "normalize_language candidate =
     (case candidate of
        None \<Rightarrow> Zh_CN
      | Some c \<Rightarrow> if c = [] then Zh_CN
                   else if starts_with (to_lower (trim c)) (js ''en'') then En_US else Zh_CN)"

definition translate_message ::
  "translation_input \<Rightarrow> language \<Rightarrow> (jstr \<Rightarrow> jstr option) option \<Rightarrow> jstr" where
  "translate_message input language params =
     (case input of
        Plain t \<Rightarrow> format_template t params
      | Descriptor d \<Rightarrow> format_template (md_messages d language) params)"

definition language_text :: "language \<Rightarrow> jstr" where
  "language_text l = (case l of Zh_CN \<Rightarrow> js ''zh-CN'' | En_US \<Rightarrow> js ''en-US'')"

text \<open>The first state of the provider; \<open>stored\<close> is what local storage holds under its key.\<close>

definition initial_language :: "language \<Rightarrow> bool \<Rightarrow> jstr option \<Rightarrow> jstr \<Rightarrow> language" where
  "initial_language initial persist stored navigator_language =
     (let s = (if persist then stored else None)
      in if s \<noteq> None \<and> s \<noteq> Some [] then normalize_language s
         else normalize_language (Some (if language_text initial \<noteq> [] then language_text initial
                                        else navigator_language)))"

section \<open>Error texts\<close>

record i18n =
  tr_exists :: "jstr \<Rightarrow> bool"
  tr_text :: "jstr \<Rightarrow> jstr"
  tr_text_in :: "jstr \<Rightarrow> language \<Rightarrow> jstr \<Rightarrow> jstr"
  tr_language :: "jstr option"

definition localize_fallback :: "i18n \<Rightarrow> translation_input \<Rightarrow> jstr" where
  "localize_fallback env fallback =
     (let language = normalize_language (tr_language env)
      in case fallback of
           Descriptor d \<Rightarrow> tr_text_in env (md_key d) language (md_messages d language)
         | Plain t \<Rightarrow> t)"

definition resolve_error_text :: "i18n \<Rightarrow> jstr \<Rightarrow> translation_input \<Rightarrow> jstr" where
  "resolve_error_text env code fallback =
     (let key = js ''api.error.'' @ code
      in if tr_exists env key then tr_text env key else localize_fallback env fallback)"

definition code_text :: "jsval \<Rightarrow> jstr" where
  "code_text code = (case code of Text t \<Rightarrow> t | Number t \<Rightarrow> t | _ \<Rightarrow> [])"

definition request_id_mark :: jstr where
  "request_id_mark = js ''requestId:''"

definition get_error_message :: "i18n \<Rightarrow> jsval \<Rightarrow> translation_input \<Rightarrow> jstr" where
  "get_error_message env error fallback =
     (if \<not> is_object error then localize_fallback env fallback
      else
        (let code = code_text (field (js ''code'') error);
             final = (if code \<noteq> [] then resolve_error_text env code fallback
                      else localize_fallback env fallback);
             request_id = (case field (js ''requestId'') error of Text t \<Rightarrow> t | _ \<Rightarrow> []);
             with_id = (if request_id \<noteq> [] \<and> \<not> js_includes final request_id_mark
                        then final @ js '' (requestId: '' @ request_id @ js '')'' else final)
         in if code = [] then with_id else 91 # code @ [93, 32] @ with_id))"

section \<open>Request feedback\<close>

text \<open>A settled request, and what the caller gets: the data or null, and the error messages shown.\<close>

datatype settled = Resolved jsval | Rejected jsval

definition request_data ::
  "i18n \<Rightarrow> settled \<Rightarrow> translation_input \<Rightarrow> bool \<Rightarrow> jsval option \<times> jstr list" where
  "request_data env outcome fallback silent =
     (let fallback_text = localize_fallback env fallback
      in case outcome of
           Resolved response \<Rightarrow>
             if field (js ''code'') response = Number (js ''200'')
             then (Some (field (js ''data'') response), [])
             else (None, if silent then []
                         else [string_of (or_else (field (js ''message'') response) (Text fallback_text))])
         | Rejected err \<Rightarrow>
             if is_object err \<and> field (js ''code'') err = Text (js ''REQUEST_CANCELED'') then (None, [])
             else (None, if silent then [] else [get_error_message env err (Plain fallback_text)]))"

section \<open>Recipients\<close>

text \<open>\<open>split(/[...]+/)\<close>: the pieces between the runs of separators.\<close>

function split_runs :: "(nat \<Rightarrow> bool) \<Rightarrow> jstr \<Rightarrow> jstr list" where
  "split_runs P s =
     (case dropWhile (\<lambda>c. \<not> P c) s of
        [] \<Rightarrow> [takeWhile (\<lambda>c. \<not> P c) s]
      | c # rest \<Rightarrow> takeWhile (\<lambda>c. \<not> P c) s # split_runs P (dropWhile P rest))"
  by pat_completeness auto
termination
proof (relation "measure (\<lambda>(P, s). length s)")
  fix P :: "nat \<Rightarrow> bool" and s c rest
  assume "dropWhile (\<lambda>c. \<not> P c) s = c # rest"
  then have "length (c # rest) \<le> length s" by (metis length_dropWhile_le)
  then show "((P, dropWhile P rest), (P, s)) \<in> measure (\<lambda>(P, s). length s)"
    using length_dropWhile_le [of P rest] by simp
qed simp

declare split_runs.simps [simp del]
declare split_runs.simps [js_eval]

lemma split_runs_last: "dropWhile (\<lambda>c. \<not> P c) s = [] \<Longrightarrow> split_runs P s = [takeWhile (\<lambda>c. \<not> P c) s]"
  by (subst split_runs.simps) (simp only: list.case)

lemma split_runs_first:
  "dropWhile (\<lambda>c. \<not> P c) s = d # rest \<Longrightarrow> split_runs P s = takeWhile (\<lambda>c. \<not> P c) s # split_runs P (dropWhile P rest)"
  by (subst split_runs.simps) (simp only: list.case)

definition is_recipient_separator :: "nat \<Rightarrow> bool" where
  [js_eval]: "is_recipient_separator c \<longleftrightarrow> c = 10 \<or> c = 44 \<or> c = 65292 \<or> c = 59 \<or> c = 65307"

definition parse_recipient_input :: "jstr \<Rightarrow> jstr list" where
  "parse_recipient_input value =
     filter (\<lambda>item. item \<noteq> []) (map trim (split_runs is_recipient_separator value))"

definition has_only_valid_recipients :: "jstr \<Rightarrow> bool" where
  "has_only_valid_recipients value =
     (let recipients = parse_recipient_input value
      in length recipients > 0 \<and> list_all email_pattern recipients)"

section \<open>Stored portal passwords\<close>

definition legacy_prefix :: jstr where
  "legacy_prefix = js ''all-mail:portal-login:''"

text \<open>
  Local storage as its entries in the order of \<open>key(index)\<close>; \<open>None\<close> where there is no storage. An access
  the browser refuses is caught and leaves everything as it is.
\<close>

definition storage_key :: "(jstr \<times> jstr) list \<Rightarrow> nat \<Rightarrow> jstr option" where
  "storage_key s index = (if index < length s then Some (fst (s ! index)) else None)"

definition remove_item :: "jstr \<Rightarrow> (jstr \<times> jstr) list \<Rightarrow> (jstr \<times> jstr) list" where
  "remove_item key s = filter (\<lambda>(k, v). k \<noteq> key) s"

definition legacy_keys :: "(jstr \<times> jstr) list \<Rightarrow> jstr list" where
  "legacy_keys s =
     concat (map (\<lambda>index. case storage_key s index of
         Some key \<Rightarrow> if starts_with key legacy_prefix then [key] else []
       | None \<Rightarrow> []) [0..<length s])"

definition clear_legacy_prefills :: "(jstr \<times> jstr) list option \<Rightarrow> (jstr \<times> jstr) list option" where
  "clear_legacy_prefills storage =
     map_option (\<lambda>s. fold remove_item (legacy_keys s) s) storage"

section \<open>Laws\<close>

lemma expand_no_brace: "123 \<notin> set a \<Longrightarrow> expand_template params (a @ t) = a @ expand_template params t"
  by (induction a) (simp_all add: Let_def)

lemma expand_placeholder:
  assumes "list_all is_word key" "key \<noteq> []"
  shows "expand_template params (123 # key @ 125 # t) =
    (case params key of Some v \<Rightarrow> v | None \<Rightarrow> 123 # key @ [125]) @ expand_template params t"
proof -
  have "\<not> is_word 125" by (simp add: is_word_def is_digit_def)
  then have "takeWhile is_word (key @ 125 # t) = key" "dropWhile is_word (key @ 125 # t) = 125 # t"
    using assms by (simp_all add: takeWhile_append dropWhile_append list_all_iff)
  then show ?thesis using assms by (simp add: Let_def)
qed

lemma split_runs_single: "\<forall>c \<in> set s. \<not> P c \<Longrightarrow> split_runs P s = [s]"
proof -
  assume plain: "\<forall>c \<in> set s. \<not> P c"
  then have "dropWhile (\<lambda>c. \<not> P c) s = []" "takeWhile (\<lambda>c. \<not> P c) s = s"
    by (simp_all add: takeWhile_eq_all_conv)
  then show ?thesis unfolding split_runs.simps [of P s] by (simp only: list.case)
qed

lemma split_runs_step:
  assumes "\<forall>c \<in> set a. \<not> P c" "P c" "t = [] \<or> \<not> P (hd t)"
  shows "split_runs P (a @ c # t) = a # split_runs P t"
proof -
  have "dropWhile P t = t" using assms(3) by (cases t) auto
  then show ?thesis
    using assms by (subst split_runs.simps) (simp add: dropWhile_append takeWhile_append)
qed

lemma split_runs_pieces: "p \<in> set (split_runs P s) \<Longrightarrow> c \<in> set p \<Longrightarrow> \<not> P c"
proof (induction P s rule: split_runs.induct)
  case (1 P s)
  show ?case
  proof (cases "dropWhile (\<lambda>c. \<not> P c) s")
    case Nil
    then have "p = takeWhile (\<lambda>c. \<not> P c) s" using "1.prems"(1) unfolding split_runs.simps [of P s] by (simp only: list.case) simp
    then show ?thesis using "1.prems"(2) by (auto dest: set_takeWhileD)
  next
    case (Cons d rest)
    then have "p = takeWhile (\<lambda>c. \<not> P c) s \<or> p \<in> set (split_runs P (dropWhile P rest))"
      using "1.prems"(1) unfolding split_runs.simps [of P s] by (simp only: list.case) simp
    then show ?thesis using "1.IH" [OF Cons] "1.prems"(2) by (auto dest: set_takeWhileD)
  qed
qed

lemma no_separator_ws: "is_recipient_separator c \<Longrightarrow> c \<noteq> 32"
  by (auto simp: is_recipient_separator_def)

lemma split_recipients:
  assumes "\<forall>x \<in> set xs. \<forall>c \<in> set x. \<not> is_recipient_separator c"
    "\<forall>c \<in> set y. \<not> is_recipient_separator c"
  shows "split_runs is_recipient_separator (join [44, 32] (y # xs)) = y # map ((#) 32) xs"
  using assms
proof (induction xs arbitrary: y)
  case Nil
  then show ?case by (simp add: split_runs_single)
next
  case (Cons x xs)
  have sep: "is_recipient_separator 44" "\<not> is_recipient_separator 32"
    by (simp_all add: is_recipient_separator_def)
  have "split_runs is_recipient_separator (join [44, 32] (y # x # xs))
      = y # split_runs is_recipient_separator (32 # join [44, 32] (x # xs))"
    using split_runs_step [of y is_recipient_separator 44] Cons.prems sep by simp
  also have "32 # join [44, 32] (x # xs) = join [44, 32] ((32 # x) # xs)" by (cases xs) simp_all
  also have "split_runs is_recipient_separator (join [44, 32] ((32 # x) # xs)) = (32 # x) # map ((#) 32) xs"
    using Cons.IH [of "32 # x"] Cons.prems sep by simp
  finally show ?case by simp
qed

lemma trim_space: "trim (32 # s) = trim s"
  by (simp add: trim_def trim_start_def is_ws_def)

lemma legacy_keys_eq: "legacy_keys s = filter (\<lambda>k. starts_with k legacy_prefix) (map fst s)"
proof -
  have "legacy_keys s = concat (map (\<lambda>k. if starts_with k legacy_prefix then [k] else []) (map (\<lambda>i. fst (s ! i)) [0..<length s]))"
    unfolding legacy_keys_def map_map by (rule arg_cong [of _ _ concat], rule map_cong) (simp_all add: storage_key_def)
  also have "map (\<lambda>i. fst (s ! i)) [0..<length s] = map fst s"
    by (rule nth_equalityI) simp_all
  also have "concat (map (\<lambda>k. if starts_with k legacy_prefix then [k] else []) (map fst s))
      = filter (\<lambda>k. starts_with k legacy_prefix) (map fst s)"
    by (induction s) auto
  finally show ?thesis .
qed

lemma fold_remove: "fold remove_item ks s = filter (\<lambda>(k, v). k \<notin> set ks) s"
  by (induction ks arbitrary: s) (auto simp: remove_item_def intro: filter_cong)

section \<open>Properties\<close>

text \<open>Error texts tell what is known: an object's code stands in brackets in front, a request id in the
  error is named in the text, a code without a translation shows the fallback, and anything that is not
  an object shows the fallback alone.\<close>

theorem error_text_parts:
  "(\<not> is_object error \<longrightarrow> get_error_message env error fallback = localize_fallback env fallback)
   \<and> (is_object error \<and> code_text (field (js ''code'') error) = code \<and> code \<noteq> [] \<longrightarrow>
        prefix (91 # code @ [93, 32]) (get_error_message env error fallback)
        \<and> (\<not> tr_exists env (js ''api.error.'' @ code) \<longrightarrow>
             js_includes (get_error_message env error fallback) (localize_fallback env fallback)))
   \<and> (is_object error \<and> field (js ''requestId'') error = Text request_id \<and> request_id \<noteq> [] \<longrightarrow>
        js_includes (get_error_message env error fallback) request_id_mark)"
proof (intro conjI impI)
  assume "\<not> is_object error"
  then show "get_error_message env error fallback = localize_fallback env fallback"
    by (simp add: get_error_message_def)
next
  assume code: "is_object error \<and> code_text (field (js ''code'') error) = code \<and> code \<noteq> []"
  then show "prefix (91 # code @ [93, 32]) (get_error_message env error fallback)"
    by (simp add: get_error_message_def Let_def prefix_def)
  assume "\<not> tr_exists env (js ''api.error.'' @ code)"
  then have "\<exists>b. get_error_message env error fallback = (91 # code @ [93, 32]) @ localize_fallback env fallback @ b"
    using code by (auto simp: get_error_message_def resolve_error_text_def Let_def)
  then show "js_includes (get_error_message env error fallback) (localize_fallback env fallback)"
    unfolding js_includes_iff by blast
next
  assume id: "is_object error \<and> field (js ''requestId'') error = Text request_id \<and> request_id \<noteq> []"
  have mark: "js '' (requestId: '' = [32, 40] @ request_id_mark @ [32]"
    by (simp add: request_id_mark_def js_def)
  have named: "js_includes (final @ js '' (requestId: '' @ r) request_id_mark" for final r
    unfolding mark append_assoc by (intro js_includes_grow(2,3) js_includes_grow(1))
  have "\<exists>pre final. get_error_message env error fallback = pre @
      (if js_includes final request_id_mark then final else final @ js '' (requestId: '' @ request_id @ js '')'')"
    using id
    by (intro exI [of _ "if code_text (field (js ''code'') error) = [] then []
          else 91 # code_text (field (js ''code'') error) @ [93, 32]"]
        exI [of _ "if code_text (field (js ''code'') error) \<noteq> []
          then resolve_error_text env (code_text (field (js ''code'') error)) fallback
          else localize_fallback env fallback"]) (simp add: get_error_message_def Let_def)
  then obtain pre final where "get_error_message env error fallback = pre @
      (if js_includes final request_id_mark then final else final @ js '' (requestId: '' @ request_id @ js '')'')"
    by blast
  then show "js_includes (get_error_message env error fallback) request_id_mark"
    using named [of final "request_id @ js '')''"] by (auto intro: js_includes_grow(3))
qed

lemma error_text_parts_witness:
  "prefix (js ''[E1] '') (get_error_message
     \<lparr>tr_exists = (\<lambda>_. False), tr_text = id, tr_text_in = (\<lambda>k l d. d), tr_language = None\<rparr>
     (Object [(js ''code'', Text (js ''E1''))]) (Plain (js ''failed'')))"
  using error_text_parts [of "Object [(js ''code'', Text (js ''E1''))]" _ _ "js ''E1''"]
  by (simp add: field_def code_text_def js_eval)

text \<open>Feedback of a request: the caller gets the data exactly when the request resolved with code 200;
  an error message is shown, and then exactly one, unless the call is silent or was cancelled.\<close>

theorem request_feedback:
  "(fst (request_data env outcome fallback silent) = Some d \<longleftrightarrow>
      (\<exists>response. outcome = Resolved response \<and> field (js ''code'') response = Number (js ''200'')
         \<and> d = field (js ''data'') response))
   \<and> length (snd (request_data env outcome fallback silent)) =
      (case fst (request_data env outcome fallback silent) of
         Some x \<Rightarrow> 0
       | None \<Rightarrow>
           if silent \<or> (\<exists>err. outcome = Rejected err \<and> is_object err
                \<and> field (js ''code'') err = Text (js ''REQUEST_CANCELED''))
           then 0 else 1)"
  by (cases outcome) (auto simp: request_data_def Let_def)

text \<open>Recipients survive: every recipient read is trimmed, not blank and free of separators, and a list of
  such recipients joined with commas is read back as it was.\<close>

theorem recipients_roundtrip:
  "(\<forall>r \<in> set (parse_recipient_input value).
      r \<noteq> [] \<and> trim r = r \<and> list_all (\<lambda>c. \<not> is_recipient_separator c) r)
   \<and> (list_all (\<lambda>r. r \<noteq> [] \<and> trim r = r \<and> list_all (\<lambda>c. \<not> is_recipient_separator c) r) items \<longrightarrow>
      parse_recipient_input (join [44, 32] items) = items)"
proof (intro conjI ballI impI)
  fix r assume "r \<in> set (parse_recipient_input value)"
  then obtain p where p: "p \<in> set (split_runs is_recipient_separator value)" "r = trim p" "r \<noteq> []"
    by (auto simp: parse_recipient_input_def)
  then show "r \<noteq> []" "trim r = r" by simp_all
  show "list_all (\<lambda>c. \<not> is_recipient_separator c) r"
    using p split_runs_pieces set_trim unfolding list_all_iff by blast
next
  assume items: "list_all (\<lambda>r. r \<noteq> [] \<and> trim r = r \<and> list_all (\<lambda>c. \<not> is_recipient_separator c) r) items"
  show "parse_recipient_input (join [44, 32] items) = items"
  proof (cases items)
    case Nil
    then show ?thesis by (simp add: parse_recipient_input_def split_runs_single)
  next
    case (Cons y xs)
    have pieces: "split_runs is_recipient_separator (join [44, 32] (y # xs)) = y # map ((#) 32) xs"
      by (rule split_recipients) (use items Cons in \<open>auto simp: list_all_iff\<close>)
    have "map (trim \<circ> (#) 32) xs = xs"
      using items Cons by (intro map_idI) (auto simp: list_all_iff trim_space)
    then have "map trim (y # map ((#) 32) xs) = y # xs" using items Cons by simp
    moreover have "filter (\<lambda>item. item \<noteq> []) (y # xs) = y # xs"
      using items Cons by (intro filter_True) (auto simp: list_all_iff)
    ultimately show ?thesis unfolding parse_recipient_input_def Cons pieces by simp
  qed
qed

lemma recipients_roundtrip_witness:
  "parse_recipient_input (join [44, 32] [js ''a@b.co'', js ''c@d.co'']) = [js ''a@b.co'', js ''c@d.co'']"
  using recipients_roundtrip [of "[]" "[js ''a@b.co'', js ''c@d.co'']"] by (simp add: js_eval)

text \<open>No stored portal password stays: after the clean-up no entry under the legacy prefix is left and
  every other entry is as it was.\<close>

theorem legacy_passwords_removed:
  "clear_legacy_prefills (Some s) = Some (filter (\<lambda>(k, v). \<not> prefix legacy_prefix k) s)
   \<and> clear_legacy_prefills None = None"
  by (force simp: clear_legacy_prefills_def fold_remove legacy_keys_eq starts_with_def
      intro!: filter_cong [OF refl])

text \<open>The language is remembered: the text stored for a language is read back as that language at the
  next start, whatever the browser's language is, and every stored text gives one of the two.\<close>

theorem language_remembered:
  "initial_language initial True (Some (language_text l)) navigator_language = l
   \<and> normalize_language (Some (language_text l)) = l
   \<and> initial_language initial persist None navigator_language = initial"
proof -
  have n: "normalize_language (Some (language_text k)) = k" "language_text k \<noteq> []" for k
    by (cases k; simp add: normalize_language_def language_text_def js_eval)+
  then show ?thesis by (simp add: initial_language_def)
qed

end
