(* ===== verification/Routes.thy ===== *)
theory Routes
  imports ApiCore
begin

text \<open>
  The routes of the web client and their guards (web/src/App.tsx), the navigation tables
  (web/src/app/navigation.tsx, web/src/layouts/MailboxLayout.tsx, web/src/layouts/MainLayout.tsx) and
  the machine that follows redirects and session checks. Which route the router picks for a path is a
  parameter; the laws it must satisfy are the locale \<open>router\<close>.
\<close>

section \<open>Routes and views\<close>

datatype admin_page =
    Dashboard | Emails | Api_keys | Api_docs | Operation_logs | Domains | Domain_mailboxes
  | Mailbox_users | Domain_messages | Forwarding_jobs | Sending_configs | Admins | Settings
  | Admin_not_found

datatype portal_page = Portal_overview | Portal_inbox | Portal_settings | Portal_not_found

datatype route =
    Login_route | Mail_login_route | Admin_index | Admin_route admin_page
  | Portal_index | Portal_route portal_page | Public_not_found

datatype view =
    Login_view | Mail_login_view | Admin_view admin_page | Portal_view portal_page | Not_found_view
  | Spinner | Redirect jstr

fun admin_path :: "admin_page \<Rightarrow> jstr option" where
  "admin_path Dashboard = Some (js ''/dashboard'')"
| "admin_path Emails = Some (js ''/emails'')"
| "admin_path Api_keys = Some (js ''/api-keys'')"
| "admin_path Api_docs = Some (js ''/api-docs'')"
| "admin_path Operation_logs = Some (js ''/operation-logs'')"
| "admin_path Domains = Some (js ''/domains'')"
| "admin_path Domain_mailboxes = Some (js ''/domain-mailboxes'')"
| "admin_path Mailbox_users = Some (js ''/mailbox-users'')"
| "admin_path Domain_messages = Some (js ''/domain-messages'')"
| "admin_path Forwarding_jobs = Some (js ''/forwarding-jobs'')"
| "admin_path Sending_configs = Some (js ''/sending-configs'')"
| "admin_path Admins = Some (js ''/admins'')"
| "admin_path Settings = Some (js ''/settings'')"
| "admin_path Admin_not_found = None"

fun portal_path :: "portal_page \<Rightarrow> jstr option" where
  "portal_path Portal_overview = Some (js ''/mail/overview'')"
| "portal_path Portal_inbox = Some (js ''/mail/inbox'')"
| "portal_path Portal_settings = Some (js ''/mail/settings'')"
| "portal_path Portal_not_found = None"

fun route_path :: "route \<Rightarrow> jstr option" where
  "route_path Login_route = Some (js ''/login'')"
| "route_path Mail_login_route = Some (js ''/mail/login'')"
| "route_path Admin_index = Some (js ''/'')"
| "route_path (Admin_route page) = admin_path page"
| "route_path Portal_index = Some (js ''/mail'')"
| "route_path (Portal_route page) = portal_path page"
| "route_path Public_not_found = None"

section \<open>Guards\<close>

definition current_admin :: "client \<Rightarrow> admin option" where
  "current_admin c = map_option ref_value (as_admin (cl_auth c))"

definition current_mailbox_user :: "client \<Rightarrow> mailbox_user option" where
  "current_mailbox_user c = map_option ref_value (mas_mailbox_user (cl_mailbox c))"

definition admin_needs_bootstrap :: "client \<Rightarrow> bool" where
  "admin_needs_bootstrap c \<longleftrightarrow>
     \<not> as_is_authenticated (cl_auth c)
     \<or> (case current_admin c of None \<Rightarrow> True | Some a \<Rightarrow> adm_username a = [])"

definition mailbox_needs_bootstrap :: "client \<Rightarrow> bool" where
  "mailbox_needs_bootstrap c \<longleftrightarrow>
     \<not> mas_is_authenticated (cl_mailbox c)
     \<or> (case current_mailbox_user c of None \<Rightarrow> True | Some u \<Rightarrow> mbu_username u = [])"

definition admin_must_change :: "client \<Rightarrow> bool" where
  "admin_must_change c \<longleftrightarrow>
     (case current_admin c of None \<Rightarrow> False | Some a \<Rightarrow> adm_must_change_password a = Some True)"

definition mailbox_must_change :: "client \<Rightarrow> bool" where
  "mailbox_must_change c \<longleftrightarrow>
     (case current_mailbox_user c of None \<Rightarrow> False | Some u \<Rightarrow> mbu_must_change_password u = Some True)"

definition client_is_super_admin :: "client \<Rightarrow> bool" where
  "client_is_super_admin c \<longleftrightarrow> is_super_admin (map_option (\<lambda>a. role_text (adm_role a)) (current_admin c))"

text \<open>\<open>checking\<close> is the state of the mounted bootstrap component.\<close>

definition admin_session_bootstrap :: "client \<Rightarrow> bool \<Rightarrow> view" where
  "admin_session_bootstrap c checking = (if checking then Spinner else Redirect (js ''/login''))"

definition mailbox_session_bootstrap :: "client \<Rightarrow> bool \<Rightarrow> view" where
  "mailbox_session_bootstrap c checking = (if checking then Spinner else Redirect (js ''/mail/login''))"

definition protected_route :: "client \<Rightarrow> jstr \<Rightarrow> bool \<Rightarrow> view \<Rightarrow> view" where
  "protected_route c pathname checking children =
     (if admin_needs_bootstrap c then admin_session_bootstrap c checking
      else if admin_must_change c \<and> pathname \<noteq> js ''/settings'' then Redirect (js ''/settings'')
      else children)"

definition super_admin_route :: "client \<Rightarrow> view \<Rightarrow> view" where
  "super_admin_route c children =
     (if admin_needs_bootstrap c then Redirect (js ''/login'')
      else if \<not> client_is_super_admin c then Redirect (js ''/dashboard'')
      else children)"

definition mailbox_protected_route :: "client \<Rightarrow> jstr \<Rightarrow> bool \<Rightarrow> view \<Rightarrow> view" where
  "mailbox_protected_route c pathname checking children =
     (if mailbox_needs_bootstrap c then mailbox_session_bootstrap c checking
      else if mailbox_must_change c \<and> pathname \<noteq> js ''/mail/settings'' then Redirect (js ''/mail/settings'')
      else children)"

fun render_route :: "client \<Rightarrow> jstr \<Rightarrow> bool \<Rightarrow> bool \<Rightarrow> route \<Rightarrow> view" where
  "render_route c pathname admin_checking mailbox_checking Login_route = Login_view"
| "render_route c pathname admin_checking mailbox_checking Mail_login_route = Mail_login_view"
| "render_route c pathname admin_checking mailbox_checking Admin_index =
     protected_route c pathname admin_checking (Redirect (js ''/dashboard''))"
| "render_route c pathname admin_checking mailbox_checking (Admin_route page) =
     protected_route c pathname admin_checking
       (if page = Admins then super_admin_route c (Admin_view page) else Admin_view page)"
| "render_route c pathname admin_checking mailbox_checking Portal_index =
     mailbox_protected_route c pathname mailbox_checking (Redirect (js ''/mail/inbox''))"
| "render_route c pathname admin_checking mailbox_checking (Portal_route page) =
     mailbox_protected_route c pathname mailbox_checking (Portal_view page)"
| "render_route c pathname admin_checking mailbox_checking Public_not_found = Not_found_view"

section \<open>The machine\<close>

text \<open>
  The bootstrap components: \<open>None\<close> while unmounted, \<open>Some True\<close> while the session check runs. Mounting
  starts a check; unmounting cancels it, so that its answer is dropped.
\<close>

record app =
  ap_path :: jstr
  ap_client :: client
  ap_admin_boot :: "bool option"
  ap_mailbox_boot :: "bool option"

definition app_view :: "(jstr \<Rightarrow> route) \<Rightarrow> app \<Rightarrow> view" where
  "app_view route_of s =
     render_route (ap_client s) (ap_path s) (ap_admin_boot s \<noteq> Some False) (ap_mailbox_boot s \<noteq> Some False)
       (route_of (ap_path s))"

definition in_admin_area :: "route \<Rightarrow> bool" where
  "in_admin_area r \<longleftrightarrow> (case r of Admin_index \<Rightarrow> True | Admin_route _ \<Rightarrow> True | _ \<Rightarrow> False)"

definition in_portal_area :: "route \<Rightarrow> bool" where
  "in_portal_area r \<longleftrightarrow> (case r of Portal_index \<Rightarrow> True | Portal_route _ \<Rightarrow> True | _ \<Rightarrow> False)"

definition mounted :: "bool \<Rightarrow> bool option \<Rightarrow> bool option" where
  "mounted shown boot = (if shown then (case boot of None \<Rightarrow> Some True | Some b \<Rightarrow> Some b) else None)"

definition commit :: "(jstr \<Rightarrow> route) \<Rightarrow> app \<Rightarrow> app" where
  "commit route_of s =
     s\<lparr>ap_admin_boot := mounted (in_admin_area (route_of (ap_path s)) \<and> admin_needs_bootstrap (ap_client s))
                          (ap_admin_boot s),
       ap_mailbox_boot := mounted (in_portal_area (route_of (ap_path s)) \<and> mailbox_needs_bootstrap (ap_client s))
                            (ap_mailbox_boot s)\<rparr>"

text \<open>The answer to a session check: a session, or anything else (another code, no user, a rejection).\<close>

datatype app_event =
    Admin_checked "admin object_ref option"
  | Mailbox_checked "mailbox_user object_ref option"
  | Redirected
  | Navigated jstr
  | Client_event client_event

definition admin_answer :: "admin object_ref option \<Rightarrow> client \<Rightarrow> client" where
  "admin_answer answer c =
     (case answer of Some a \<Rightarrow> update_auth (set_auth a) c | None \<Rightarrow> update_auth clear_auth c)"

definition mailbox_answer :: "mailbox_user object_ref option \<Rightarrow> client \<Rightarrow> client" where
  "mailbox_answer answer c =
     (case answer of Some u \<Rightarrow> update_mailbox (set_mailbox_auth u) c
      | None \<Rightarrow> update_mailbox clear_mailbox_auth c)"

inductive app_step :: "(jstr \<Rightarrow> route) \<Rightarrow> app \<Rightarrow> app_event \<Rightarrow> app \<Rightarrow> bool" for route_of where
  admin_checked: "ap_admin_boot s = Some True \<Longrightarrow>
     app_step route_of s (Admin_checked answer)
       (commit route_of (s\<lparr>ap_client := admin_answer answer (ap_client s), ap_admin_boot := Some False\<rparr>))"
| mailbox_checked: "ap_mailbox_boot s = Some True \<Longrightarrow>
     app_step route_of s (Mailbox_checked answer)
       (commit route_of (s\<lparr>ap_client := mailbox_answer answer (ap_client s), ap_mailbox_boot := Some False\<rparr>))"
| redirected: "app_view route_of s = Redirect path \<Longrightarrow>
     app_step route_of s Redirected (commit route_of (s\<lparr>ap_path := path\<rparr>))"
| navigated: "app_step route_of s (Navigated path) (commit route_of (s\<lparr>ap_path := path\<rparr>))"
| client_event: "client_step (ap_client s) e c \<Longrightarrow>
     app_step route_of s (Client_event e) (commit route_of (s\<lparr>ap_client := c\<rparr>))"

inductive_cases app_stepE: "app_step route_of s e t"

definition app_start :: "(jstr \<Rightarrow> route) \<Rightarrow> app \<Rightarrow> bool" where
  "app_start route_of s \<longleftrightarrow> client_start (ap_client s) \<and> s = commit route_of s
     \<and> ap_admin_boot s \<noteq> Some False \<and> ap_mailbox_boot s \<noteq> Some False"

text \<open>The events that need no user: the answers of the checks and the redirects.\<close>

fun automatic :: "app_event \<Rightarrow> bool" where
  "automatic (Admin_checked _) = True"
| "automatic (Mailbox_checked _) = True"
| "automatic Redirected = True"
| "automatic _ = False"

section \<open>Navigation\<close>

record nav_item =
  ni_page :: admin_page
  ni_key :: jstr
  ni_super_admin :: bool

definition nav :: "admin_page \<Rightarrow> jstr \<Rightarrow> nav_item" where
  "nav page key = \<lparr>ni_page = page, ni_key = key, ni_super_admin = (page = Admins)\<rparr>"

definition admin_navigation_groups :: "nav_item list list" where
  "admin_navigation_groups =
     [[nav Dashboard (js ''/dashboard'')],
      [nav Emails (js ''/emails''), nav Domains (js ''/domains''),
       nav Domain_mailboxes (js ''/domain-mailboxes''), nav Mailbox_users (js ''/mailbox-users'')],
      [nav Domain_messages (js ''/domain-messages''), nav Forwarding_jobs (js ''/forwarding-jobs''),
       nav Sending_configs (js ''/sending-configs'')],
      [nav Api_keys (js ''/api-keys''), nav Api_docs (js ''/api-docs''),
       nav Operation_logs (js ''/operation-logs'')],
      [nav Admins (js ''/admins''), nav Settings (js ''/settings'')]]"

definition admin_navigation_items :: "nav_item list" where
  "admin_navigation_items = concat admin_navigation_groups"

text \<open>\<open>sort\<close> by falling length of the key (stable), then \<open>find\<close>, then the first item.\<close>

definition get_admin_route_meta :: "jstr \<Rightarrow> nav_item" where
  "get_admin_route_meta pathname =
     (case find (\<lambda>item. pathname = ni_key item \<or> starts_with pathname (ni_key item @ js ''/''))
             (sort_key (\<lambda>item. - int (length (ni_key item))) admin_navigation_items) of
        Some item \<Rightarrow> item
      | None \<Rightarrow> hd admin_navigation_items)"

text \<open>The menu of the layout: the items shown, each with whether it is disabled.\<close>

definition main_menu_items :: "client \<Rightarrow> (nav_item \<times> bool) list" where
  "main_menu_items c =
     map (\<lambda>item. (item, admin_must_change c \<and> ni_key item \<noteq> js ''/settings''))
       (filter (\<lambda>item. \<not> ni_super_admin item \<or> client_is_super_admin c) admin_navigation_items)"

definition portal_navigation :: "(portal_page \<times> jstr) list" where
  "portal_navigation =
     [(Portal_inbox, js ''/mail/inbox''), (Portal_overview, js ''/mail/overview''),
      (Portal_settings, js ''/mail/settings'')]"

definition portal_menu_items :: "client \<Rightarrow> ((portal_page \<times> jstr) \<times> bool) list" where
  "portal_menu_items c =
     map (\<lambda>item. (item, mailbox_must_change c \<and> snd item \<noteq> js ''/mail/settings'')) portal_navigation"

end
