(* ===== verification/RouteTheorems.thy ===== *)
theory RouteTheorems
  imports Routes Machine
begin

text \<open>
  What the guards guarantee: no protected page without its session, redirects and session checks that
  come to rest, and menus that offer exactly the pages the guards let through.
\<close>

section \<open>The router\<close>

text \<open>A router picks for the path of a route that route; paths that are no route's are its own business.\<close>

locale router =
  fixes route_of :: "jstr \<Rightarrow> route"
  assumes path_route: "route_path r = Some p \<Longrightarrow> route_of p = r"
begin

lemma redirect_targets:
  "route_of (js ''/login'') = Login_route" "route_of (js ''/mail/login'') = Mail_login_route"
  "route_of (js ''/dashboard'') = Admin_route Dashboard" "route_of (js ''/settings'') = Admin_route Settings"
  "route_of (js ''/mail/inbox'') = Portal_route Portal_inbox"
  "route_of (js ''/mail/settings'') = Portal_route Portal_settings"
  by (rule path_route, simp)+

text \<open>Where a redirect leads is a page, provided the state was committed.\<close>

lemma redirect_lands:
  assumes "app_view route_of s = Redirect p"
  shows "app_view route_of (commit route_of (s\<lparr>ap_path := p\<rparr>)) \<notin> {Spinner} \<union> range Redirect"
  using assms
  by (cases "route_of (ap_path s)")
    (auto simp: app_view_def commit_def protected_route_def mailbox_protected_route_def super_admin_route_def
      admin_session_bootstrap_def mailbox_session_bootstrap_def redirect_targets split: if_splits)

end

definition all_routes :: "route list" where
  "all_routes = [Login_route, Mail_login_route, Admin_index, Portal_index]
     @ map Admin_route [Dashboard, Emails, Api_keys, Api_docs, Operation_logs, Domains, Domain_mailboxes,
         Mailbox_users, Domain_messages, Forwarding_jobs, Sending_configs, Admins, Settings]
     @ map Portal_route [Portal_overview, Portal_inbox, Portal_settings]"

definition exact_route :: "jstr \<Rightarrow> route" where
  "exact_route path =
     (case find (\<lambda>r. route_path r = Some path) all_routes of
        Some r \<Rightarrow> r
      | None \<Rightarrow> if starts_with path (js ''/mail/'') then Portal_route Portal_not_found
                else Admin_route Admin_not_found)"

lemma all_routes_paths: "distinct (map route_path all_routes)"
  by (simp add: all_routes_def)

lemma all_routes_complete: "route_path r \<noteq> None \<Longrightarrow> r \<in> set all_routes"
  by (cases r rule: route_path.cases; simp add: all_routes_def)
    (auto elim: admin_path.elims portal_path.elims)

lemma find_distinct:
  "distinct (map f xs) \<Longrightarrow> x \<in> set xs \<Longrightarrow> find (\<lambda>y. f y = f x) xs = Some x"
  by (induction xs) auto

interpretation exact: router exact_route
proof
  fix r p assume "route_path r = Some p"
  then show "exact_route p = r"
    using find_distinct [OF all_routes_paths all_routes_complete [of r]] by (simp add: exact_route_def)
qed

section \<open>Coming to rest\<close>

fun rank :: "view \<Rightarrow> nat" where
  "rank Spinner = 2"
| "rank (Redirect _) = 1"
| "rank _ = 0"

definition committed :: "(jstr \<Rightarrow> route) \<Rightarrow> app \<Rightarrow> bool" where
  "committed route_of s \<longleftrightarrow>
     (ap_admin_boot s \<noteq> None \<longleftrightarrow> in_admin_area (route_of (ap_path s)) \<and> admin_needs_bootstrap (ap_client s))
     \<and> (ap_mailbox_boot s \<noteq> None \<longleftrightarrow>
          in_portal_area (route_of (ap_path s)) \<and> mailbox_needs_bootstrap (ap_client s))"

lemma commit_committed: "committed route_of (commit route_of s)"
  by (auto simp: committed_def commit_def mounted_def split: option.splits)

lemma step_committed: "app_step route_of s e t \<Longrightarrow> committed route_of t"
  by (auto elim!: app_stepE simp: commit_committed)

lemma start_committed: "app_start route_of s \<Longrightarrow> committed route_of s"
  unfolding app_start_def by (metis commit_committed)

interpretation app_machine: machine_invariant "app_start route_of" "app_step route_of" "committed route_of"
  for route_of
  by unfold_locales (simp_all add: start_committed step_committed)

lemma spinner_iff:
  assumes "committed route_of s"
  shows "app_view route_of s = Spinner \<longleftrightarrow> ap_admin_boot s = Some True \<or> ap_mailbox_boot s = Some True"
  using assms
  by (cases "route_of (ap_path s)"; cases "ap_admin_boot s"; cases "ap_mailbox_boot s")
    (auto simp: committed_def app_view_def in_admin_area_def in_portal_area_def protected_route_def
      mailbox_protected_route_def admin_session_bootstrap_def mailbox_session_bootstrap_def
      super_admin_route_def split: if_splits)

lemma checked_no_spinner:
  assumes "committed route_of s" "ap_admin_boot s = Some True"
  shows "app_view route_of (commit route_of (s\<lparr>ap_client := c, ap_admin_boot := Some False\<rparr>)) \<noteq> Spinner"
proof -
  have "in_admin_area (route_of (ap_path s))" using assms by (simp add: committed_def)
  then have "\<not> in_portal_area (route_of (ap_path s))"
    by (simp add: in_admin_area_def in_portal_area_def split: route.splits)
  then show ?thesis
    by (subst spinner_iff [OF commit_committed]) (simp add: commit_def mounted_def)
qed

lemma mailbox_checked_no_spinner:
  assumes "committed route_of s" "ap_mailbox_boot s = Some True"
  shows "app_view route_of (commit route_of (s\<lparr>ap_client := c, ap_mailbox_boot := Some False\<rparr>)) \<noteq> Spinner"
proof -
  have "in_portal_area (route_of (ap_path s))" using assms by (simp add: committed_def)
  then have "\<not> in_admin_area (route_of (ap_path s))"
    by (simp add: in_admin_area_def in_portal_area_def split: route.splits)
  then show ?thesis
    by (subst spinner_iff [OF commit_committed]) (simp add: commit_def mounted_def)
qed

lemma rank_2: "rank v = 2 \<longleftrightarrow> v = Spinner" "v \<noteq> Spinner \<Longrightarrow> rank v < 2" "v \<notin> {Spinner} \<union> range Redirect \<Longrightarrow> rank v = 0"
  by (cases v; simp)+

lemma automatic_rank:
  assumes "router route_of" "committed route_of s" "app_step route_of s e t" "automatic e"
  shows "rank (app_view route_of t) < rank (app_view route_of s)"
  using assms(3)
proof (cases rule: app_step.cases)
  case (admin_checked answer)
  then show ?thesis
    using rank_2(2) checked_no_spinner [OF assms(2)] spinner_iff [OF assms(2)] by simp
next
  case (mailbox_checked answer)
  then show ?thesis
    using rank_2(2) mailbox_checked_no_spinner [OF assms(2)] spinner_iff [OF assms(2)] by simp
next
  case (redirected path)
  then show ?thesis
    using rank_2(3) [OF router.redirect_lands [OF assms(1) redirected(3)]] by simp
qed (use assms(4) in simp_all)

lemma automatic_run:
  assumes "router route_of" "run (app_step route_of) s es t" "committed route_of s" "list_all automatic es"
  shows "length es + rank (app_view route_of t) \<le> rank (app_view route_of s)"
  using assms(2-)
proof (induction rule: run.induct)
  case (run_Cons s e t es u)
  then have "rank (app_view route_of t) < rank (app_view route_of s)" "committed route_of t"
    using automatic_rank [OF assms(1)] step_committed by (auto simp: list_all_iff)
  with run_Cons show ?case by (simp add: list_all_iff)
qed simp

lemma automatic_progress:
  assumes "committed route_of s" "app_view route_of s \<in> {Spinner} \<union> range Redirect"
  shows "\<exists>e t. automatic e \<and> app_step route_of s e t"
proof -
  consider "ap_admin_boot s = Some True" | "ap_mailbox_boot s = Some True" | p where "app_view route_of s = Redirect p"
    using assms spinner_iff [OF assms(1)] by auto
  then show ?thesis
    by cases (metis automatic.simps(1) admin_checked, metis automatic.simps(2) mailbox_checked,
        metis automatic.simps(3) redirected)
qed

lemma automatic_rest:
  assumes "router route_of" "committed route_of s"
  shows "\<exists>es t. run (app_step route_of) s es t \<and> list_all automatic es
     \<and> app_view route_of t \<notin> {Spinner} \<union> range Redirect"
  using assms(2)
proof (induction "rank (app_view route_of s)" arbitrary: s rule: less_induct)
  case less
  show ?case
  proof (cases "app_view route_of s \<in> {Spinner} \<union> range Redirect")
    case True
    then obtain e t where e: "automatic e" "app_step route_of s e t"
      using automatic_progress [OF less.prems] by blast
    then obtain es u where "run (app_step route_of) t es u" "list_all automatic es"
      "app_view route_of u \<notin> {Spinner} \<union> range Redirect"
      using less.hyps [OF automatic_rank [OF assms(1) less.prems e(2,1)] step_committed [OF e(2)]] by blast
    then show ?thesis using e by (intro exI [of _ "e # es"] exI [of _ u]) auto
  next
    case False
    then show ?thesis by (intro exI [of _ "[]"] exI [of _ s]) simp
  qed
qed

section \<open>Menus\<close>

lemma nav_items:
  "item \<in> set admin_navigation_items \<longleftrightarrow>
     admin_path (ni_page item) = Some (ni_key item) \<and> ni_super_admin item = (ni_page item = Admins)"
proof
  assume "item \<in> set admin_navigation_items"
  then show "admin_path (ni_page item) = Some (ni_key item) \<and> ni_super_admin item = (ni_page item = Admins)"
    by (auto simp: admin_navigation_items_def admin_navigation_groups_def nav_def)
next
  assume r: "admin_path (ni_page item) = Some (ni_key item) \<and> ni_super_admin item = (ni_page item = Admins)"
  then have "item = nav (ni_page item) (ni_key item)" by (simp add: nav_def)
  moreover have "nav (ni_page item) (ni_key item) \<in> set admin_navigation_items"
    using r by (cases "ni_page item") (auto simp: admin_navigation_items_def admin_navigation_groups_def)
  ultimately show "item \<in> set admin_navigation_items" by simp
qed

lemma settings_path: "admin_path page = Some path \<Longrightarrow> path = js ''/settings'' \<longleftrightarrow> page = Settings"
  by (cases page) auto

lemma main_menu_pages:
  assumes "admin_path page = Some path"
  shows "(\<exists>item. ni_page item = page \<and> ni_key item = path \<and> (item, False) \<in> set (main_menu_items c)) \<longleftrightarrow>
     (page = Admins \<longrightarrow> client_is_super_admin c) \<and> (admin_must_change c \<longrightarrow> page = Settings)"
proof -
  have "(item, False) \<in> set (main_menu_items c) \<longleftrightarrow>
      item \<in> set admin_navigation_items \<and> (ni_super_admin item \<longrightarrow> client_is_super_admin c)
      \<and> (admin_must_change c \<longrightarrow> ni_key item = js ''/settings'')" for item
    by (auto simp: main_menu_items_def)
  then show ?thesis
    using assms settings_path [OF assms] by (auto simp: nav_items intro: exI [of _ "nav page path"] simp: nav_def)
qed

text \<open>A key is a slash and a text without one, so no key is below another.\<close>

lemma admin_path_shape: "admin_path page = Some k \<Longrightarrow> \<exists>t. k = 47 # t \<and> 47 \<notin> set t"
  by (cases page) (auto simp: js_def)

lemma nav_key_shape: "item \<in> set admin_navigation_items \<Longrightarrow> \<exists>t. ni_key item = 47 # t \<and> 47 \<notin> set t"
  unfolding nav_items using admin_path_shape by blast

lemma nav_key_inject:
  "item \<in> set admin_navigation_items \<Longrightarrow> other \<in> set admin_navigation_items \<Longrightarrow>
     ni_key item = ni_key other \<Longrightarrow> item = other"
proof -
  assume i: "item \<in> set admin_navigation_items" "other \<in> set admin_navigation_items" "ni_key item = ni_key other"
  have "inj_on ni_key (set admin_navigation_items)"
    using distinct_map [of ni_key admin_navigation_items]
    by (simp add: admin_navigation_items_def admin_navigation_groups_def nav_def)
  then show "item = other" using i by (simp add: inj_on_def)
qed

lemma below_key:
  assumes "item \<in> set admin_navigation_items" "other \<in> set admin_navigation_items"
  shows "starts_with (ni_key item @ 47 # rest) (ni_key other @ [47]) \<longleftrightarrow> other = item"
    "\<not> starts_with (ni_key item) (ni_key other @ [47])"
proof -
  obtain a b where a: "ni_key item = 47 # a" "47 \<notin> set a" and b: "ni_key other = 47 # b" "47 \<notin> set b"
    using assms nav_key_shape by metis
  have "prefix (b @ [47]) (a @ 47 # rest) \<longleftrightarrow> b = a"
  proof
    assume "prefix (b @ [47]) (a @ 47 # rest)"
    then obtain zs where "a @ 47 # rest = b @ 47 # zs" by (auto simp: prefix_def)
    then show "b = a" using a(2) b(2) by (metis append_sep_inject)
  qed (simp add: prefix_def)
  then show "starts_with (ni_key item @ 47 # rest) (ni_key other @ [47]) \<longleftrightarrow> other = item"
    using a b nav_key_inject [OF assms] by (auto simp: starts_with_def)
  have "\<not> prefix (b @ [47]) a" using a(2) set_mono_prefix by fastforce
  then show "\<not> starts_with (ni_key item) (ni_key other @ [47])"
    using a b by (simp add: starts_with_def)
qed

lemma find_unique:
  "x \<in> set xs \<Longrightarrow> (\<And>y. y \<in> set xs \<Longrightarrow> P y \<longleftrightarrow> y = x) \<Longrightarrow> find P xs = Some x"
  by (induction xs) auto

section \<open>Properties\<close>

text \<open>C7: No protected page without its session: whatever the router does, a page of the control plane is
  shown only to an authenticated administrator with a name, only the settings page while the password
  must be changed, and the administrators page only to a super administrator; the portal's pages are
  guarded alike for mailbox users.\<close>

theorem guarded_pages:
  "(app_view route_of s = Admin_view page \<longrightarrow>
      as_is_authenticated (cl_auth (ap_client s))
      \<and> (\<exists>a. current_admin (ap_client s) = Some a \<and> adm_username a \<noteq> []
          \<and> (adm_must_change_password a = Some True \<longrightarrow> ap_path s = js ''/settings'')
          \<and> (page = Admins \<longrightarrow> adm_role a = SUPER_ADMIN)))
   \<and> (app_view route_of s = Portal_view portal_page \<longrightarrow>
      mas_is_authenticated (cl_mailbox (ap_client s))
      \<and> (\<exists>u. current_mailbox_user (ap_client s) = Some u \<and> mbu_username u \<noteq> []
          \<and> (mbu_must_change_password u = Some True \<longrightarrow> ap_path s = js ''/mail/settings'')))"
  by (cases "route_of (ap_path s)")
    (auto simp: app_view_def protected_route_def mailbox_protected_route_def super_admin_route_def
      admin_session_bootstrap_def mailbox_session_bootstrap_def admin_needs_bootstrap_def
      mailbox_needs_bootstrap_def admin_must_change_def mailbox_must_change_def client_is_super_admin_def
      is_super_admin_def role_text_normal split: if_splits option.splits)

text \<open>C29: The client comes to rest: from every reachable state the automatic events (answers of session
  checks, redirects) number at most two, one of them is possible as long as a spinner or a redirect is
  shown, and they lead to a page.\<close>

theorem redirects_settle:
  assumes "\<forall>r p. route_path r = Some p \<longrightarrow> route_of p = r"
    and "reach (app_start route_of) (app_step route_of) s"
  shows "(\<forall>es t. run (app_step route_of) s es t \<and> list_all automatic es \<longrightarrow> length es \<le> 2)
    \<and> (app_view route_of s \<in> {Spinner} \<union> range Redirect \<longrightarrow> (\<exists>e t. automatic e \<and> app_step route_of s e t))
    \<and> (\<exists>es t. run (app_step route_of) s es t \<and> list_all automatic es
         \<and> app_view route_of t \<notin> {Spinner} \<union> range Redirect)"
proof -
  have router: "router route_of" using assms(1) by unfold_locales blast
  have committed: "committed route_of s" using app_machine.inv_reach [OF assms(2)] .
  have "rank (app_view route_of s) \<le> 2" by (cases "app_view route_of s") simp_all
  then show ?thesis
    using automatic_run [OF router _ committed] automatic_progress [OF committed]
      automatic_rest [OF router committed] by (meson add_leE le_trans)
qed

definition demo_app :: app where
  "demo_app = commit exact_route
     \<lparr>ap_path = js ''/'',
      ap_client = \<lparr>cl_runtime = \<lparr>rt_epoch = 0, rt_cache = Map.empty, rt_pending = Map.empty, rt_flights = []\<rparr>,
        cl_auth = auth_initial, cl_mailbox = mailbox_initial, cl_next_ref = 0\<rparr>,
      ap_admin_boot = None, ap_mailbox_boot = None\<rparr>"

lemma guarded_pages_witness:
  "app_view (\<lambda>_. Admin_route Settings) \<lparr>ap_path = js ''/settings'', ap_client = (ap_client demo_app)\<lparr>cl_auth := \<lparr>as_admin = Some \<lparr>ref_id = 0,
       ref_value = \<lparr>adm_id = 1, adm_username = js ''root'', adm_email = None, adm_role = ADMIN,
         adm_must_change_password = Some True, adm_two_factor_enabled = None\<rparr>\<rparr>, as_is_authenticated = True\<rparr>\<rparr>,
       ap_admin_boot = None, ap_mailbox_boot = None\<rparr> = Admin_view Settings
   \<and> ap_path \<lparr>ap_path = js ''/settings'', ap_client = ap_client demo_app, ap_admin_boot = None, ap_mailbox_boot = None\<rparr> = js ''/settings''"
  (is "app_view ?r ?s = _ \<and> _")
proof -
  have view: "app_view ?r ?s = Admin_view Settings"
    by (simp add: app_view_def protected_route_def admin_needs_bootstrap_def admin_must_change_def current_admin_def)
  then show ?thesis using guarded_pages [of ?r ?s Settings Portal_inbox] by (auto simp: current_admin_def)
qed

lemma redirects_settle_witness:
  "\<exists>es t. run (app_step exact_route) demo_app es t \<and> list_all automatic es
     \<and> app_view exact_route t \<notin> {Spinner} \<union> range Redirect"
proof -
  have start: "app_start exact_route demo_app"
    by (auto simp: app_start_def demo_app_def commit_def mounted_def client_start_def runtime_start_def
        split: option.split)
  then have "reach (app_start exact_route) (app_step exact_route) demo_app"
    unfolding reach_def by (intro exI [of _ demo_app] exI [of _ "[]"]) simp
  from redirects_settle [OF _ this] show ?thesis using exact.path_route by blast
qed

text \<open>The menus match the guards: for an authenticated administrator the layout's menu offers a page,
  enabled, exactly when following its link shows that page; the same holds for the portal's menu.\<close>

theorem menus_match_guards:
  "(\<not> admin_needs_bootstrap c \<and> admin_path page = Some path \<longrightarrow>
      ((\<exists>item. ni_page item = page \<and> ni_key item = path \<and> (item, False) \<in> set (main_menu_items c)) \<longleftrightarrow>
         render_route c path admin_checking mailbox_checking (Admin_route page) = Admin_view page))
   \<and> (\<not> mailbox_needs_bootstrap c \<and> portal_path portal_page = Some path \<longrightarrow>
      (((portal_page, path), False) \<in> set (portal_menu_items c) \<longleftrightarrow>
         render_route c path admin_checking mailbox_checking (Portal_route portal_page) = Portal_view portal_page))"
proof (intro conjI impI)
  assume a: "\<not> admin_needs_bootstrap c \<and> admin_path page = Some path"
  have settings: "path = js ''/settings'' \<longleftrightarrow> page = Settings" using a settings_path by blast
  show "(\<exists>item. ni_page item = page \<and> ni_key item = path \<and> (item, False) \<in> set (main_menu_items c)) \<longleftrightarrow>
         render_route c path admin_checking mailbox_checking (Admin_route page) = Admin_view page"
    unfolding main_menu_pages [OF conjunct2 [OF a]]
    using a settings by (auto simp: protected_route_def super_admin_route_def)
next
  assume m: "\<not> mailbox_needs_bootstrap c \<and> portal_path portal_page = Some path"
  then show "((portal_page, path), False) \<in> set (portal_menu_items c) \<longleftrightarrow>
         render_route c path admin_checking mailbox_checking (Portal_route portal_page) = Portal_view portal_page"
    by (cases portal_page) (auto simp: portal_menu_items_def portal_navigation_def mailbox_protected_route_def)
qed

lemma menus_match_guards_witness:
  "render_route ((ap_client demo_app)\<lparr>cl_auth := \<lparr>as_admin = Some \<lparr>ref_id = 0, ref_value = \<lparr>adm_id = 1, adm_username = js ''root'',
       adm_email = None, adm_role = ADMIN, adm_must_change_password = None, adm_two_factor_enabled = None\<rparr>\<rparr>,
       as_is_authenticated = True\<rparr>\<rparr>) (js ''/emails'') False False (Admin_route Emails) = Admin_view Emails"
  (is "render_route ?c _ _ _ _ = _")
proof -
  have "\<not> admin_needs_bootstrap ?c" "\<not> admin_must_change ?c"
    by (simp_all add: admin_needs_bootstrap_def admin_must_change_def current_admin_def)
  then show ?thesis
    using menus_match_guards [of ?c Emails "js ''/emails''" False False Portal_inbox]
      main_menu_pages [of Emails "js ''/emails''" ?c] by simp
qed

text \<open>The title follows the page: the route description of a page's own path, and of every path below it,
  is the navigation item of that page.\<close>

theorem route_meta_finds_page:
  assumes "item \<in> set admin_navigation_items"
  shows "get_admin_route_meta (ni_key item) = item
    \<and> get_admin_route_meta (ni_key item @ js ''/'' @ rest) = item"
proof -
  have slash: "js ''/'' = [47]" by (simp add: js_def)
  have key: "ni_key item = ni_key y \<longleftrightarrow> y = item" if "y \<in> set admin_navigation_items" for y
    using nav_key_inject [OF assms that] by auto
  have longer: "ni_key item @ 47 # rest \<noteq> ni_key y" if y: "y \<in> set admin_navigation_items" for y
    using nav_key_shape [OF y] nav_key_shape [OF assms] by auto
  have "find (\<lambda>y. ni_key item = ni_key y \<or> starts_with (ni_key item) (ni_key y @ js ''/''))
      (sort_key (\<lambda>item. - int (length (ni_key item))) admin_navigation_items) = Some item"
    unfolding slash by (rule find_unique) (use assms key below_key(2) [OF assms] in auto)
  moreover have "find (\<lambda>y. ni_key item @ js ''/'' @ rest = ni_key y
        \<or> starts_with (ni_key item @ js ''/'' @ rest) (ni_key y @ js ''/''))
      (sort_key (\<lambda>item. - int (length (ni_key item))) admin_navigation_items) = Some item"
    unfolding slash by (rule find_unique) (use assms longer below_key(1) [OF assms] in auto)
  ultimately show ?thesis by (simp add: get_admin_route_meta_def)
qed

lemma route_meta_finds_page_witness:
  "ni_page (get_admin_route_meta (js ''/domains'' @ js ''/'' @ js ''7'')) = Domains"
  using route_meta_finds_page [of "nav Domains (js ''/domains'')" "js ''7''"]
  by (simp add: admin_navigation_items_def admin_navigation_groups_def) (simp add: nav_def)

end
