(* ===== verification/LoginFlow.thy ===== *)
theory LoginFlow
  imports RouteTheorems
begin

text \<open>
  The two login pages (web/src/pages/login/index.tsx and web/src/pages/mail-portal/login/index.tsx) as
  machines: the form, the one-time-password dialog, the requests under way and their answers, and what
  a successful login does to the two session stores. Messages shown are not modelled, except that the
  form's error is a value.
\<close>

section \<open>State\<close>

type_synonym credentials = "jstr \<times> jstr"

datatype call = Password_call credentials | Portal_call credentials | Otp_call credentials jstr

datatype form_error = Both_logins_failed | Wrong_credentials | Error_text jsval

record login_page =
  lp_loading :: bool
  lp_error :: "form_error option"
  lp_otp_visible :: bool
  lp_otp_loading :: bool
  lp_otp_code :: jstr
  lp_pending :: "credentials option"
  lp_calls :: "call list"
  lp_client :: client
  lp_goto :: "jstr option"

text \<open>The answer to a login request: a session (code 200), another code, or a rejection.\<close>

datatype answer =
    Admin_session "admin object_ref"
  | Mailbox_session "mailbox_user object_ref"
  | Other_code
  | Failed jsval

definition error_code :: "jsval \<Rightarrow> jstr" where
  "error_code err = to_upper (string_of (or_else (field (js ''code'') err) (Text [])))"

definition asks_otp :: "jsval \<Rightarrow> bool" where
  "asks_otp err \<longleftrightarrow> error_code err \<in> {js ''OTP_REQUIRED'', js ''INVALID_OTP''}"

section \<open>The administrator's login page\<close>

definition finish_login :: "admin object_ref \<Rightarrow> login_page \<Rightarrow> login_page" where
  "finish_login a s =
     s\<lparr>lp_client := update_auth (set_auth a) (update_mailbox clear_mailbox_auth (lp_client s)),
       lp_error := None,
       lp_goto := Some (if adm_must_change_password (ref_value a) = Some True then js ''/settings'' else js ''/'')\<rparr>"

definition finish_mailbox_login :: "mailbox_user object_ref \<Rightarrow> login_page \<Rightarrow> login_page" where
  "finish_mailbox_login u s =
     s\<lparr>lp_client := update_mailbox (set_mailbox_auth u) (update_auth clear_auth (lp_client s)),
       lp_error := None,
       lp_goto := Some (if mbu_must_change_password (ref_value u) = Some True then js ''/mail/settings''
                        else js ''/mail/inbox'')\<rparr>"

definition handle_submit :: "credentials \<Rightarrow> login_page \<Rightarrow> login_page" where
  "handle_submit creds s = s\<lparr>lp_loading := True, lp_error := None, lp_calls := Password_call creds # lp_calls s\<rparr>"

definition ask_otp :: "credentials \<Rightarrow> login_page \<Rightarrow> login_page" where
  "ask_otp creds s = s\<lparr>lp_pending := Some creds, lp_otp_code := [], lp_otp_visible := True\<rparr>"

definition on_password_answer :: "credentials \<Rightarrow> answer \<Rightarrow> login_page \<Rightarrow> login_page" where
  "on_password_answer creds answer s =
     (case answer of
        Admin_session a \<Rightarrow> (finish_login a s)\<lparr>lp_loading := False\<rparr>
      | Failed err \<Rightarrow>
          if asks_otp err then (ask_otp creds s)\<lparr>lp_loading := False\<rparr>
          else if error_code err = js ''INVALID_CREDENTIALS''
            then s\<lparr>lp_calls := Portal_call creds # lp_calls s\<rparr>
          else s\<lparr>lp_error := Some (Error_text err), lp_loading := False\<rparr>
      | _ \<Rightarrow> s\<lparr>lp_loading := False\<rparr>)"

definition on_portal_answer :: "answer \<Rightarrow> login_page \<Rightarrow> login_page" where
  "on_portal_answer answer s =
     (case answer of
        Mailbox_session u \<Rightarrow> (finish_mailbox_login u s)\<lparr>lp_loading := False\<rparr>
      | Failed err \<Rightarrow>
          s\<lparr>lp_error := Some (if error_code err = js ''INVALID_CREDENTIALS'' then Both_logins_failed
                             else Error_text err), lp_loading := False\<rparr>
      | _ \<Rightarrow> s\<lparr>lp_loading := False\<rparr>)"

text \<open>\<open>/^\d{6}$/\<close>\<close>

definition six_digits :: "jstr \<Rightarrow> bool" where
  "six_digits otp \<longleftrightarrow> length otp = 6 \<and> list_all is_digit otp"

definition handle_otp_confirm :: "login_page \<Rightarrow> login_page" where
  "handle_otp_confirm s =
     (case lp_pending s of
        None \<Rightarrow> s
      | Some creds \<Rightarrow>
          (let otp = trim (lp_otp_code s)
           in if \<not> six_digits otp then s
              else s\<lparr>lp_otp_loading := True, lp_calls := Otp_call creds otp # lp_calls s\<rparr>))"

definition close_otp :: "login_page \<Rightarrow> login_page" where
  "close_otp s = s\<lparr>lp_otp_visible := False, lp_pending := None, lp_otp_code := []\<rparr>"

definition on_otp_answer :: "answer \<Rightarrow> login_page \<Rightarrow> login_page" where
  "on_otp_answer answer s =
     (case answer of
        Admin_session a \<Rightarrow> (finish_login a (close_otp s))\<lparr>lp_otp_loading := False\<rparr>
      | _ \<Rightarrow> s\<lparr>lp_otp_loading := False\<rparr>)"

definition on_otp_change :: "jstr \<Rightarrow> login_page \<Rightarrow> login_page" where
  "on_otp_change text s = s\<lparr>lp_otp_code := take 6 (filter is_digit text)\<rparr>"

definition on_values_change :: "login_page \<Rightarrow> login_page" where
  "on_values_change s = s\<lparr>lp_error := None\<rparr>"

section \<open>The portal's login page\<close>

definition portal_finish_login :: "mailbox_user object_ref \<Rightarrow> login_page \<Rightarrow> login_page" where
  "portal_finish_login u s =
     s\<lparr>lp_client := update_mailbox (set_mailbox_auth u) (lp_client s), lp_error := None,
       lp_goto := Some (if mbu_must_change_password (ref_value u) = Some True then js ''/mail/settings''
                        else js ''/mail/inbox'')\<rparr>"

definition portal_submit :: "credentials \<Rightarrow> login_page \<Rightarrow> login_page" where
  "portal_submit creds s = s\<lparr>lp_loading := True, lp_error := None, lp_calls := Portal_call creds # lp_calls s\<rparr>"

definition portal_on_answer :: "credentials \<Rightarrow> answer \<Rightarrow> login_page \<Rightarrow> login_page" where
  "portal_on_answer creds answer s =
     (case answer of
        Mailbox_session u \<Rightarrow> (portal_finish_login u s)\<lparr>lp_loading := False\<rparr>
      | Failed err \<Rightarrow>
          if asks_otp err then (ask_otp creds s)\<lparr>lp_loading := False\<rparr>
          else if error_code err = js ''INVALID_CREDENTIALS''
            then s\<lparr>lp_error := Some Wrong_credentials, lp_loading := False\<rparr>
          else s\<lparr>lp_error := Some (Error_text err), lp_loading := False\<rparr>
      | _ \<Rightarrow> s\<lparr>lp_loading := False\<rparr>)"

definition portal_on_otp_answer :: "answer \<Rightarrow> login_page \<Rightarrow> login_page" where
  "portal_on_otp_answer answer s =
     (case answer of
        Mailbox_session u \<Rightarrow> (portal_finish_login u (close_otp s))\<lparr>lp_otp_loading := False\<rparr>
      | _ \<Rightarrow> s\<lparr>lp_otp_loading := False\<rparr>)"

section \<open>The machines\<close>

datatype login_event =
    Submitted credentials
  | Password_answered credentials answer
  | Portal_answered credentials answer
  | Otp_answered credentials jstr answer
  | Otp_confirmed
  | Otp_cancelled
  | Otp_typed jstr
  | Values_changed

definition done_call :: "call \<Rightarrow> login_page \<Rightarrow> login_page" where
  "done_call call s = s\<lparr>lp_calls := remove1 call (lp_calls s)\<rparr>"

definition is_admin_answer :: "answer \<Rightarrow> bool" where
  "is_admin_answer a \<longleftrightarrow> (case a of Mailbox_session _ \<Rightarrow> False | _ \<Rightarrow> True)"

definition is_portal_answer :: "answer \<Rightarrow> bool" where
  "is_portal_answer a \<longleftrightarrow> (case a of Admin_session _ \<Rightarrow> False | _ \<Rightarrow> True)"

inductive login_step :: "login_page \<Rightarrow> login_event \<Rightarrow> login_page \<Rightarrow> bool" where
  submitted: "login_step s (Submitted creds) (handle_submit creds s)"
| password_answered: "Password_call creds \<in> set (lp_calls s) \<Longrightarrow> is_admin_answer answer \<Longrightarrow>
     login_step s (Password_answered creds answer)
       (on_password_answer creds answer (done_call (Password_call creds) s))"
| portal_answered: "Portal_call creds \<in> set (lp_calls s) \<Longrightarrow> is_portal_answer answer \<Longrightarrow>
     login_step s (Portal_answered creds answer) (on_portal_answer answer (done_call (Portal_call creds) s))"
| otp_confirmed: "lp_otp_visible s \<Longrightarrow> login_step s Otp_confirmed (handle_otp_confirm s)"
| otp_answered: "Otp_call creds otp \<in> set (lp_calls s) \<Longrightarrow> is_admin_answer answer \<Longrightarrow>
     login_step s (Otp_answered creds otp answer) (on_otp_answer answer (done_call (Otp_call creds otp) s))"
| otp_cancelled: "lp_otp_visible s \<Longrightarrow> login_step s Otp_cancelled (close_otp s)"
| otp_typed: "lp_otp_visible s \<Longrightarrow> login_step s (Otp_typed text) (on_otp_change text s)"
| values_changed: "login_step s Values_changed (on_values_change s)"

inductive portal_login_step :: "login_page \<Rightarrow> login_event \<Rightarrow> login_page \<Rightarrow> bool" where
  portal_submitted: "portal_login_step s (Submitted creds) (portal_submit creds s)"
| portal_answered: "Portal_call creds \<in> set (lp_calls s) \<Longrightarrow> is_portal_answer answer \<Longrightarrow>
     portal_login_step s (Portal_answered creds answer)
       (portal_on_answer creds answer (done_call (Portal_call creds) s))"
| portal_confirmed: "lp_otp_visible s \<Longrightarrow> portal_login_step s Otp_confirmed (handle_otp_confirm s)"
| portal_otp_answered: "Otp_call creds otp \<in> set (lp_calls s) \<Longrightarrow> is_portal_answer answer \<Longrightarrow>
     portal_login_step s (Otp_answered creds otp answer)
       (portal_on_otp_answer answer (done_call (Otp_call creds otp) s))"
| portal_cancelled: "lp_otp_visible s \<Longrightarrow> portal_login_step s Otp_cancelled (close_otp s)"
| portal_typed: "lp_otp_visible s \<Longrightarrow> portal_login_step s (Otp_typed text) (on_otp_change text s)"
| portal_values_changed: "portal_login_step s Values_changed (on_values_change s)"

inductive_cases login_stepE: "login_step s e t"
inductive_cases portal_login_stepE: "portal_login_step s e t"

definition login_start :: "login_page \<Rightarrow> bool" where
  "login_start s \<longleftrightarrow> \<not> lp_loading s \<and> lp_error s = None \<and> \<not> lp_otp_visible s \<and> \<not> lp_otp_loading s
     \<and> lp_otp_code s = [] \<and> lp_pending s = None \<and> lp_calls s = [] \<and> lp_goto s = None"

section \<open>Invariant\<close>

lemmas page_ops = handle_submit_def on_password_answer_def on_portal_answer_def on_otp_answer_def
  handle_otp_confirm_def close_otp_def on_otp_change_def on_values_change_def finish_login_def
  finish_mailbox_login_def ask_otp_def done_call_def portal_submit_def portal_on_answer_def
  portal_on_otp_answer_def portal_finish_login_def

text \<open>
  The password is held exactly while the dialog is open, the code typed is digits only, and every
  one-time password sent has six.
\<close>

definition login_inv :: "login_page \<Rightarrow> bool" where
  "login_inv s \<longleftrightarrow> (lp_pending s \<noteq> None \<longleftrightarrow> lp_otp_visible s)
     \<and> length (lp_otp_code s) \<le> 6 \<and> list_all is_digit (lp_otp_code s)
     \<and> (\<forall>creds otp. Otp_call creds otp \<in> set (lp_calls s) \<longrightarrow> six_digits otp)"

lemma login_inv_done: "login_inv s \<Longrightarrow> login_inv (done_call call s)"
  by (auto simp: login_inv_def done_call_def dest: set_remove1_subset [THEN subsetD])

lemma login_inv_ops:
  assumes "login_inv s"
  shows "login_inv (handle_submit creds s)" "login_inv (portal_submit creds s)"
    "login_inv (on_password_answer creds answer s)" "login_inv (on_portal_answer answer s)"
    "login_inv (portal_on_answer creds answer s)" "login_inv (on_otp_answer answer s)"
    "login_inv (portal_on_otp_answer answer s)" "login_inv (handle_otp_confirm s)"
    "login_inv (close_otp s)" "login_inv (on_values_change s)"
    "lp_otp_visible s \<Longrightarrow> login_inv (on_otp_change text s)"
  using assms
  by (auto simp: login_inv_def page_ops list_all_iff Let_def split: answer.split option.split dest: in_set_takeD)

lemma login_inv_start: "login_start s \<Longrightarrow> login_inv s"
  by (simp add: login_start_def login_inv_def)

lemma login_inv_step: "login_inv s \<Longrightarrow> login_step s e t \<Longrightarrow> login_inv t"
  by (erule login_stepE) (simp_all add: login_inv_ops login_inv_done)

lemma portal_login_inv_step: "login_inv s \<Longrightarrow> portal_login_step s e t \<Longrightarrow> login_inv t"
  by (erule portal_login_stepE) (simp_all add: login_inv_ops login_inv_done)

interpretation login_machine: machine_invariant login_start login_step login_inv
  by unfold_locales (simp_all add: login_inv_start login_inv_step)

interpretation portal_login_machine: machine_invariant login_start portal_login_step login_inv
  by unfold_locales (simp_all add: login_inv_start portal_login_inv_step)

section \<open>Which credentials reach the portal\<close>

lemma portal_call_step:
  "login_step s e t \<Longrightarrow> Portal_call creds \<in> set (lp_calls t) \<Longrightarrow>
     Portal_call creds \<in> set (lp_calls s)
     \<or> (\<exists>err. e = Password_answered creds (Failed err) \<and> error_code err = js ''INVALID_CREDENTIALS'')"
  by (erule login_stepE)
    (auto simp: page_ops Let_def split: answer.splits if_splits option.splits dest: set_remove1_subset [THEN subsetD])

lemma portal_call_run:
  "run login_step s es t \<Longrightarrow> Portal_call creds \<in> set (lp_calls t) \<Longrightarrow>
     Portal_call creds \<in> set (lp_calls s)
     \<or> (\<exists>err. Password_answered creds (Failed err) \<in> set es \<and> error_code err = js ''INVALID_CREDENTIALS'')"
proof (induction rule: run.induct)
  case (run_Cons s e t es u)
  then show ?case using portal_call_step [OF run_Cons.hyps(1), of creds] by auto
qed simp

section \<open>Properties\<close>

text \<open>Passwords are held only for the dialog: in every reachable state of either login page the
  credentials are kept exactly while the one-time-password dialog is open, the code typed is at most six
  digits, and every one-time password sent is six digits.\<close>

theorem password_held_for_dialog:
  assumes "reach login_start login_step s \<or> reach login_start portal_login_step s"
  shows "(lp_pending s \<noteq> None \<longleftrightarrow> lp_otp_visible s)
    \<and> length (lp_otp_code s) \<le> 6 \<and> list_all is_digit (lp_otp_code s)
    \<and> (\<forall>creds otp. Otp_call creds otp \<in> set (lp_calls s) \<longrightarrow> length otp = 6 \<and> list_all is_digit otp)"
proof -
  have "login_inv s" using assms login_machine.inv_reach portal_login_machine.inv_reach by blast
  then show ?thesis by (simp add: login_inv_def six_digits_def)
qed

definition demo_login :: login_page where
  "demo_login = \<lparr>lp_loading = False, lp_error = None, lp_otp_visible = False, lp_otp_loading = False,
     lp_otp_code = [], lp_pending = None, lp_calls = [], lp_client = ap_client demo_app, lp_goto = None\<rparr>"

definition otp_needed :: jsval where
  "otp_needed = Object [(js ''code'', Text (js ''OTP_REQUIRED''))]"

lemma demo_login_asked:
  "run login_step demo_login [Submitted (js ''root'', js ''pw''), Password_answered (js ''root'', js ''pw'') (Failed otp_needed)]
     ((ask_otp (js ''root'', js ''pw'') demo_login)\<lparr>lp_loading := False\<rparr>)"
proof -
  have "asks_otp otp_needed"
    by (simp add: asks_otp_def error_code_def otp_needed_def field_def or_else_def js_eval)
  then have eq: "(ask_otp (js ''root'', js ''pw'') demo_login)\<lparr>lp_loading := False\<rparr> =
      on_password_answer (js ''root'', js ''pw'') (Failed otp_needed)
        (done_call (Password_call (js ''root'', js ''pw'')) (handle_submit (js ''root'', js ''pw'') demo_login))"
    by (simp add: page_ops demo_login_def)
  have "login_step (handle_submit (js ''root'', js ''pw'') demo_login)
      (Password_answered (js ''root'', js ''pw'') (Failed otp_needed))
      ((ask_otp (js ''root'', js ''pw'') demo_login)\<lparr>lp_loading := False\<rparr>)"
    unfolding eq by (rule password_answered) (simp_all add: handle_submit_def is_admin_answer_def)
  then show ?thesis using submitted [of demo_login] by auto
qed

lemma password_held_for_dialog_witness:
  "lp_pending ((ask_otp (js ''root'', js ''pw'') demo_login)\<lparr>lp_loading := False\<rparr>) \<noteq> None
   \<longleftrightarrow> lp_otp_visible ((ask_otp (js ''root'', js ''pw'') demo_login)\<lparr>lp_loading := False\<rparr>)"
proof -
  have "login_start demo_login" by (simp add: login_start_def demo_login_def)
  then have "reach login_start login_step ((ask_otp (js ''root'', js ''pw'') demo_login)\<lparr>lp_loading := False\<rparr>)"
    unfolding reach_def using demo_login_asked by blast
  then show ?thesis using password_held_for_dialog by blast
qed

text \<open>A login lands on its page: when the administrator's login is answered with a session, the
  administrator is authenticated, the mailbox session is gone, no session check is needed, and the path
  gone to shows the settings page when the password must be changed and leads to the dashboard
  otherwise.\<close>

theorem login_lands:
  assumes "\<forall>r p. route_path r = Some p \<longrightarrow> route_of p = r"
    and "adm_username (ref_value a) \<noteq> []"
    and "t = on_password_answer creds (Admin_session a) s \<or> t = on_otp_answer (Admin_session a) s"
  shows "current_admin (lp_client t) = Some (ref_value a) \<and> mailbox_needs_bootstrap (lp_client t)
    \<and> (\<exists>p. lp_goto t = Some p
        \<and> app_view route_of (commit route_of \<lparr>ap_path = p, ap_client = lp_client t, ap_admin_boot = None, ap_mailbox_boot = None\<rparr>)
          = (if adm_must_change_password (ref_value a) = Some True then Admin_view Settings
             else Redirect (js ''/dashboard'')))"
proof -
  have router: "router route_of" using assms(1) by unfold_locales blast
  have index: "route_of (js ''/'') = Admin_index" by (rule router.path_route [OF router]) simp
  have auth: "cl_auth (update_auth f c) = f (cl_auth c)" "cl_mailbox (update_auth f c) = cl_mailbox c" for f c
    by (simp_all add: update_auth_def Let_def)
  have mail: "cl_mailbox (update_mailbox f c) = f (cl_mailbox c)" "cl_auth (update_mailbox f c) = cl_auth c" for f c
    by (simp_all add: update_mailbox_def Let_def)
  let ?c = "lp_client t" and ?p = "if adm_must_change_password (ref_value a) = Some True then js ''/settings'' else js ''/''"
  have c: "as_admin (cl_auth ?c) = Some a" "as_is_authenticated (cl_auth ?c)"
      "mas_mailbox_user (cl_mailbox ?c) = None" "lp_goto t = Some ?p"
    using assms(3)
    by (auto simp: on_password_answer_def on_otp_answer_def finish_login_def close_otp_def auth mail
        set_auth_def clear_mailbox_auth_def)
  then have "current_admin ?c = Some (ref_value a)" "mailbox_needs_bootstrap ?c" "\<not> admin_needs_bootstrap ?c"
      "admin_must_change ?c \<longleftrightarrow> adm_must_change_password (ref_value a) = Some True"
    using assms(2)
    by (simp_all add: current_admin_def mailbox_needs_bootstrap_def current_mailbox_user_def
        admin_needs_bootstrap_def admin_must_change_def)
  then show ?thesis
    using c(4) index router.redirect_targets(4) [OF router]
    by (auto simp: app_view_def commit_def protected_route_def)
qed

lemma login_lands_witness:
  "\<exists>p. lp_goto (on_password_answer (js ''root'', js ''pw'')
      (Admin_session \<lparr>ref_id = 0, ref_value = \<lparr>adm_id = 1, adm_username = js ''root'', adm_email = None,
        adm_role = ADMIN, adm_must_change_password = Some True, adm_two_factor_enabled = None\<rparr>\<rparr>) demo_login) = Some p"
proof -
  let ?a = "\<lparr>ref_id = 0, ref_value = \<lparr>adm_id = 1, adm_username = js ''root'', adm_email = None,
        adm_role = ADMIN, adm_must_change_password = Some True, adm_two_factor_enabled = None\<rparr>\<rparr>"
  have laws: "\<forall>r p. route_path r = Some p \<longrightarrow> exact_route p = r" using exact.path_route by blast
  have name: "adm_username (ref_value ?a) \<noteq> []" by simp
  show ?thesis
    using login_lands [OF laws name disjI1 [OF refl], of "(js ''root'', js ''pw'')" demo_login] by blast
qed

text \<open>The portal sees credentials only as a second try: whenever the administrator's login page has sent
  credentials to the portal, the administrator's login with the same credentials was answered with
  INVALID_CREDENTIALS before.\<close>

theorem portal_fallback_after_refusal:
  assumes "login_start s" "run login_step s es t" "Portal_call creds \<in> set (lp_calls t)"
  shows "\<exists>err. Password_answered creds (Failed err) \<in> set es \<and> error_code err = js ''INVALID_CREDENTIALS''"
  using portal_call_run [OF assms(2,3)] assms(1) by (simp add: login_start_def)

definition bad_credentials :: jsval where
  "bad_credentials = Object [(js ''code'', Text (js ''INVALID_CREDENTIALS''))]"

lemma portal_fallback_after_refusal_witness:
  "\<exists>err. Password_answered (js ''u'', js ''p'') (Failed err)
      \<in> set [Submitted (js ''u'', js ''p''), Password_answered (js ''u'', js ''p'') (Failed bad_credentials)]
    \<and> error_code err = js ''INVALID_CREDENTIALS''"
proof -
  let ?creds = "(js ''u'', js ''p'')"
  have code: "error_code bad_credentials = js ''INVALID_CREDENTIALS''"
    by (simp add: error_code_def bad_credentials_def field_def or_else_def js_eval)
  then have "\<not> asks_otp bad_credentials" by (simp add: asks_otp_def)
  with code have calls: "Portal_call ?creds \<in> set (lp_calls (on_password_answer ?creds (Failed bad_credentials)
      (done_call (Password_call ?creds) (handle_submit ?creds demo_login))))"
    by (simp add: on_password_answer_def)
  have start: "login_start demo_login" by (simp add: login_start_def demo_login_def)
  have "run login_step demo_login [Submitted ?creds, Password_answered ?creds (Failed bad_credentials)]
     (on_password_answer ?creds (Failed bad_credentials) (done_call (Password_call ?creds) (handle_submit ?creds demo_login)))"
    using submitted [of demo_login ?creds]
      password_answered [of ?creds "handle_submit ?creds demo_login" "Failed bad_credentials"]
    by (auto simp: handle_submit_def is_admin_answer_def)
  from portal_fallback_after_refusal [OF start this calls] show ?thesis .
qed

end
