(* ===== verification/MailContent.thy ===== *)
theory MailContent
  imports JsObject
begin

text \<open>
  How the web client shows the content of a message (web/src/utils/mailContent.tsx): plain text with its
  links, and HTML that is sanitised and then rebuilt from a list of allowed tags. The browser's HTML
  parser, its serialiser and the URL parser are parameters; the document is a tree.
\<close>

section \<open>URLs\<close>

text \<open>\<open>new URL(t)\<close>: the protocol and the serialised URL, or \<open>None\<close> when it throws.\<close>

type_synonym url_parser = "jstr \<Rightarrow> (jstr \<times> jstr) option"

definition safe_protocols :: "jstr list" where
  "safe_protocols = [js ''http:'', js ''https:'', js ''mailto:'']"

definition normalize_url :: "url_parser \<Rightarrow> jstr \<Rightarrow> jstr option" where
  "normalize_url parse_url raw_value =
     (let trimmed = trim raw_value
      in if trimmed = [] then None
         else if js_includes trimmed (js ''@'') \<and> \<not> js_includes trimmed (js ''://'')
                 \<and> \<not> starts_with trimmed (js ''mailto:'')
           then Some (js ''mailto:'' @ trimmed)
         else if starts_with trimmed (js ''www.'') then Some (js ''https://'' @ trimmed)
         else case parse_url trimmed of
                None \<Rightarrow> None
              | Some (protocol, href) \<Rightarrow> if protocol \<in> set safe_protocols then Some href else None)"

section \<open>Plain text\<close>

text \<open>
  The link pattern: a web address, an address starting with \<open>www.\<close>, or an e-mail address, without regard
  to the case of ASCII letters. Each gives the length of its match at the start of the text.
\<close>

definition ascii_low :: "nat \<Rightarrow> nat" where
  "ascii_low c = (if 65 \<le> c \<and> c \<le> 90 then c + 32 else c)"

definition is_letter :: "nat \<Rightarrow> bool" where
  "is_letter c \<longleftrightarrow> 97 \<le> ascii_low c \<and> ascii_low c \<le> 122"

definition matches_ci :: "jstr \<Rightarrow> jstr \<Rightarrow> bool" where
  "matches_ci word s \<longleftrightarrow> map ascii_low (take (length word) s) = word"

definition link_unit :: "nat \<Rightarrow> bool" where
  "link_unit c \<longleftrightarrow> \<not> is_ws c \<and> c \<noteq> 60"

definition after_word :: "jstr \<Rightarrow> jstr \<Rightarrow> nat option" where
  "after_word word s =
     (let run = takeWhile link_unit (drop (length word) s)
      in if matches_ci word s \<and> run \<noteq> [] then Some (length word + length run) else None)"

definition match_email_link :: "jstr \<Rightarrow> nat option" where
  "match_email_link s =
     (let local_part = takeWhile (\<lambda>c. is_letter c \<or> is_digit c \<or> c \<in> {46, 95, 37, 43, 45}) s;
          rest = drop (length local_part) s;
          run = takeWhile (\<lambda>c. is_letter c \<or> is_digit c \<or> c \<in> {46, 45}) (tl rest);
          ends = filter (\<lambda>j. run ! j = 46 \<and> length (takeWhile is_letter (drop (Suc j) run)) \<ge> 2)
                   (rev [1..<length run])
      in if local_part = [] \<or> rest = [] \<or> hd rest \<noteq> 64 then None
         else case ends of
                [] \<Rightarrow> None
              | j # _ \<Rightarrow> Some (length local_part + 1 + Suc j + length (takeWhile is_letter (drop (Suc j) run))))"

definition match_link :: "jstr \<Rightarrow> nat option" where
  "match_link s =
     (case after_word (js ''https://'') s of
        Some n \<Rightarrow> Some n
      | None \<Rightarrow> case after_word (js ''http://'') s of
          Some n \<Rightarrow> Some n
        | None \<Rightarrow> case after_word (js ''www.'') s of
            Some n \<Rightarrow> Some n
          | None \<Rightarrow> match_email_link s)"

text \<open>\<open>split\<close> at the pattern; its group puts the matches between the pieces. \<open>before\<close> is the piece so far.\<close>

function split_links :: "jstr \<Rightarrow> jstr \<Rightarrow> jstr list" where
  "split_links before s =
     (case s of
        [] \<Rightarrow> [before]
      | c # cs \<Rightarrow>
          (case match_link s of
             Some n \<Rightarrow> if n = 0 then split_links (before @ [c]) cs
                       else before # take n s # split_links [] (drop n s)
           | None \<Rightarrow> split_links (before @ [c]) cs))"
  by pat_completeness auto
termination
  by (relation "measure (\<lambda>(before, s). length s)") auto

declare split_links.simps [simp del]

datatype text_part = Fragment jstr | Anchor jstr jstr

definition render_plain_text_with_links :: "url_parser \<Rightarrow> jstr \<Rightarrow> text_part list" where
  "render_plain_text_with_links parse_url value =
     map (\<lambda>part. case normalize_url parse_url part of None \<Rightarrow> Fragment part | Some href \<Rightarrow> Anchor href part)
       (split_links [] value)"

fun part_text :: "text_part \<Rightarrow> jstr" where
  "part_text (Fragment t) = t"
| "part_text (Anchor href t) = t"

section \<open>Documents\<close>

text \<open>
  A node of the body: a text, an element (whether it is an HTML element, its tag name, attributes and
  children), a template, whose content is not among its children, or anything else (a comment).
\<close>

datatype dom =
    Text_node jstr
  | Elem bool jstr "jstr obj" "dom list"
  | Template "jstr obj" "dom list"
  | Other_node

definition forbidden_tags :: "jstr list" where
  "forbidden_tags =
     [js ''script'', js ''style'', js ''iframe'', js ''object'', js ''embed'', js ''form'', js ''link'',
      js ''meta'', js ''base'', js ''img'']"

definition dropped_attribute :: "jstr \<Rightarrow> bool" where
  "dropped_attribute name \<longleftrightarrow> starts_with name (js ''on'')
     \<or> name \<in> {js ''srcdoc'', js ''style'', js ''formaction''}"

definition remove_attribute :: "jstr \<Rightarrow> jstr obj \<Rightarrow> jstr obj" where
  "remove_attribute name attrs = filter (\<lambda>(n, v). n \<noteq> name) attrs"

definition clean_attribute :: "url_parser \<Rightarrow> jstr \<times> jstr \<Rightarrow> jstr obj \<Rightarrow> jstr obj" where
  "clean_attribute parse_url = (\<lambda>(attribute, value) attrs.
     (let name = to_lower attribute
      in if dropped_attribute name then remove_attribute attribute attrs
         else if name = js ''href'' \<or> name = js ''src''
           then (case normalize_url parse_url value of
                   None \<Rightarrow> remove_attribute attribute attrs
                 | Some u \<Rightarrow> put_key attribute u attrs)
         else attrs))"

definition clean_attributes :: "url_parser \<Rightarrow> jstr obj \<Rightarrow> jstr obj" where
  "clean_attributes parse_url attrs = fold (clean_attribute parse_url) attrs attrs"

text \<open>
  The pass over all elements in document order: a forbidden element goes with everything below it, a
  link without target is replaced by its children, every other element keeps its place.
\<close>

fun sanitize_node :: "url_parser \<Rightarrow> dom \<Rightarrow> dom list" where
  "sanitize_node parse_url (Text_node t) = [Text_node t]"
| "sanitize_node parse_url Other_node = [Other_node]"
| "sanitize_node parse_url (Template attrs content) = [Template (clean_attributes parse_url attrs) content]"
| "sanitize_node parse_url (Elem html tag attrs children) =
     (let tag_name = to_lower tag; attrs1 = clean_attributes parse_url attrs;
          children1 = concat (map (sanitize_node parse_url) children)
      in if tag_name \<in> set forbidden_tags then []
         else if tag_name = js ''a''
           then (if get_key (js ''href'') attrs1 = None \<or> get_key (js ''href'') attrs1 = Some [] then children1
                 else [Elem html tag (put_key (js ''rel'') (js ''noreferrer noopener'')
                         (put_key (js ''target'') (js ''_blank'') attrs1)) children1])
         else [Elem html tag attrs1 children1])"

definition sanitize_email_html ::
  "url_parser \<Rightarrow> (jstr \<Rightarrow> dom list) \<Rightarrow> (dom list \<Rightarrow> jstr) \<Rightarrow> jstr \<Rightarrow> jstr" where
  "sanitize_email_html parse_url parse_html inner_html html =
     (if trim html = [] then []
      else inner_html (concat (map (sanitize_node parse_url) (parse_html html))))"

section \<open>Rebuilding\<close>

datatype react = React_text jstr | React_null | React_element jstr "jstr obj" "react list"

definition allowed_tags :: "jstr list" where
  "allowed_tags =
     [js ''a'', js ''p'', js ''div'', js ''span'', js ''br'', js ''strong'', js ''em'', js ''b'', js ''i'',
      js ''u'', js ''ul'', js ''ol'', js ''li'', js ''blockquote'', js ''pre'', js ''code'']"

definition node_key :: "nat \<Rightarrow> jstr" where
  "node_key n = js ''mail-html-'' @ nat_str n"

definition node_props :: "nat \<Rightarrow> jstr \<Rightarrow> jstr obj \<Rightarrow> jstr obj" where
  "node_props n tag_name attrs =
     (let props = [(js ''key'', node_key n)]
      in if tag_name \<noteq> js ''a'' then props
         else case get_key (js ''href'') attrs of
                None \<Rightarrow> props
              | Some href \<Rightarrow>
                  if href = [] then props
                  else props @ [(js ''href'', href), (js ''target'', js ''_blank''),
                                (js ''rel'', js ''noreferrer noopener'')])"

text \<open>\<open>n\<close> is the counter of keys, threaded through the nodes in order.\<close>

fun convert_node :: "nat \<Rightarrow> dom \<Rightarrow> react \<times> nat"
and convert_nodes :: "nat \<Rightarrow> dom list \<Rightarrow> react list \<times> nat" where
  "convert_node n (Text_node t) = (React_text t, n)"
| "convert_node n Other_node = (React_null, n)"
| "convert_node n (Template attrs content) =
     (React_element (js ''span'') (node_props (Suc n) (js ''span'') attrs) [], Suc n)"
| "convert_node n (Elem html tag attrs children) =
     (if \<not> html then (React_null, n)
      else
        (let tag_name = (if to_lower tag \<in> set allowed_tags then to_lower tag else js ''span'');
             (rs, m) = convert_nodes (Suc n) children
         in (React_element tag_name (node_props (Suc n) tag_name attrs) rs, m)))"
| "convert_nodes n [] = ([], n)"
| "convert_nodes n (d # ds) =
     (let (r, m) = convert_node n d; (rs, k) = convert_nodes m ds in (r # rs, k))"

definition render_sanitized_email_html ::
  "url_parser \<Rightarrow> (jstr \<Rightarrow> dom list) \<Rightarrow> (dom list \<Rightarrow> jstr) \<Rightarrow> jstr \<Rightarrow> react list option" where
  "render_sanitized_email_html parse_url parse_html inner_html html =
     (let sanitized = sanitize_email_html parse_url parse_html inner_html html
      in if trim sanitized = [] then None else Some (fst (convert_nodes 0 (parse_html sanitized))))"

end
