(* ===== verification/MailContentTheorems.thy ===== *)
theory MailContentTheorems
  imports MailContent
begin

text \<open>
  What showing a message guarantees: plain text keeps every unit and links only safe URLs, the sanitised
  tree holds no forbidden element, handler or URL, and the rebuilt elements come from the allowed list
  whatever the browser's parser returns.
\<close>

section \<open>URLs\<close>

definition safe_url :: "jstr \<Rightarrow> bool" where
  "safe_url u \<longleftrightarrow> (\<exists>protocol \<in> set safe_protocols. starts_with u protocol)"

text \<open>Documented of the URL parser: the serialised URL starts with its protocol.\<close>

definition url_parser_law :: "url_parser \<Rightarrow> bool" where
  "url_parser_law parse_url \<longleftrightarrow> (\<forall>t protocol href. parse_url t = Some (protocol, href) \<longrightarrow> starts_with href protocol)"

lemma normalize_url_safe:
  assumes "url_parser_law parse_url" "normalize_url parse_url raw = Some u"
  shows "safe_url u \<and> u \<noteq> []"
proof -
  have https: "js ''https://'' = js ''https:'' @ js ''//''" by (simp add: js_def)
  have "safe_url u"
    using assms unfolding safe_url_def normalize_url_def url_parser_law_def https
    by (auto simp: Let_def starts_with_def safe_protocols_def split: if_splits option.splits prod.splits)
  then show ?thesis by (auto simp: safe_url_def safe_protocols_def starts_with_def)
qed

section \<open>Plain text\<close>

lemma split_links_concat: "concat (split_links before s) = before @ s"
proof (induction before s rule: split_links.induct)
  case (1 before s)
  show ?case
  proof (cases s)
    case Nil
    then show ?thesis by (simp add: split_links.simps [of before "[]"])
  next
    case (Cons c cs)
    show ?thesis
    proof (cases "match_link s")
      case None
      then show ?thesis using 1 Cons by (simp add: split_links.simps [of before "c # cs"])
    next
      case (Some n)
      then show ?thesis
        using 1 Cons by (cases "n = 0") (simp_all add: split_links.simps [of before "c # cs"])
    qed
  qed
qed

lemma render_text: "concat (map part_text (render_plain_text_with_links parse_url value)) = value"
proof -
  have "map part_text (render_plain_text_with_links parse_url value) = split_links [] value"
    by (auto simp: render_plain_text_with_links_def intro!: map_idI split: option.split)
  then show ?thesis by (simp add: split_links_concat)
qed

section \<open>Attributes\<close>

definition cleaned :: "url_parser \<Rightarrow> jstr \<times> jstr \<Rightarrow> jstr obj" where
  "cleaned parse_url = (\<lambda>(attribute, value).
     if dropped_attribute (to_lower attribute) then []
     else if to_lower attribute = js ''href'' \<or> to_lower attribute = js ''src''
       then (case normalize_url parse_url value of None \<Rightarrow> [] | Some u \<Rightarrow> [(attribute, u)])
     else [(attribute, value)])"

lemma put_key_middle: "k \<notin> fst ` set xs \<Longrightarrow> put_key k u (xs @ (k, v) # ys) = xs @ (k, u) # ys"
  by (induction xs) auto

lemma remove_middle:
  "k \<notin> fst ` set xs \<Longrightarrow> k \<notin> fst ` set ys \<Longrightarrow> remove_attribute k (xs @ (k, v) # ys) = xs @ ys"
proof -
  assume "k \<notin> fst ` set xs" "k \<notin> fst ` set ys"
  then have "filter (\<lambda>(n, v). n \<noteq> k) xs = xs" "filter (\<lambda>(n, v). n \<noteq> k) ys = ys"
    by (force simp: filter_id_conv)+
  then show ?thesis by (simp add: remove_attribute_def)
qed

lemma clean_step:
  assumes "distinct (map fst (xs @ a # ys))"
  shows "clean_attribute parse_url a (xs @ a # ys) = xs @ cleaned parse_url a @ ys"
proof -
  obtain k v where a: "a = (k, v)" by (cases a)
  then show ?thesis
    using assms remove_middle [of k xs ys v] put_key_middle [of k xs _ v ys]
    by (simp add: clean_attribute_def cleaned_def Let_def split: option.split)
qed

lemma clean_fold:
  "distinct (map fst (xs @ ys)) \<Longrightarrow>
     fold (clean_attribute parse_url) ys (xs @ ys) = xs @ concat (map (cleaned parse_url) ys)"
proof (induction ys arbitrary: xs)
  case (Cons a ys)
  have "map fst (cleaned parse_url a) = [] \<or> map fst (cleaned parse_url a) = [fst a]"
    by (simp add: cleaned_def split: option.split prod.split)
  then have "distinct (map fst ((xs @ cleaned parse_url a) @ ys))"
  proof
    assume "map fst (cleaned parse_url a) = []"
    then show ?thesis using Cons.prems by auto
  next
    assume "map fst (cleaned parse_url a) = [fst a]"
    then have "map fst ((xs @ cleaned parse_url a) @ ys) = map fst (xs @ a # ys)" by simp
    then show ?thesis using Cons.prems by metis
  qed
  then show ?case using Cons.IH [of "xs @ cleaned parse_url a"] clean_step [OF Cons.prems] by simp
qed simp

lemma clean_attributes_eq:
  "distinct (map fst attrs) \<Longrightarrow> clean_attributes parse_url attrs = concat (map (cleaned parse_url) attrs)"
  using clean_fold [of "[]" attrs] by (simp add: clean_attributes_def)

definition safe_attribute :: "jstr \<times> jstr \<Rightarrow> bool" where
  "safe_attribute = (\<lambda>(attribute, value). \<not> dropped_attribute (to_lower attribute)
     \<and> (to_lower attribute \<in> {js ''href'', js ''src''} \<longrightarrow> safe_url value))"

lemma cleaned_safe: "url_parser_law parse_url \<Longrightarrow> b \<in> set (cleaned parse_url a) \<Longrightarrow> safe_attribute b"
  using normalize_url_safe [of parse_url "snd a"]
  by (cases "normalize_url parse_url (snd a)")
    (auto simp: cleaned_def safe_attribute_def split: prod.splits if_splits)

lemma clean_attributes_safe:
  "url_parser_law parse_url \<Longrightarrow> distinct (map fst attrs) \<Longrightarrow> list_all safe_attribute (clean_attributes parse_url attrs)"
  by (auto simp: clean_attributes_eq list_all_iff intro: cleaned_safe)

lemma link_attributes_safe:
  assumes "list_all safe_attribute attrs"
  shows "list_all safe_attribute (put_key (js ''rel'') v (put_key (js ''target'') w attrs))"
proof -
  have put: "list_all safe_attribute as \<Longrightarrow> safe_attribute (k, u) \<Longrightarrow> list_all safe_attribute (put_key k u as)" for k u as
    by (induction k u as rule: put_key.induct) auto
  have "safe_attribute (js ''rel'', v)" "safe_attribute (js ''target'', w)"
    by (simp_all add: safe_attribute_def dropped_attribute_def js_eval)
  then show ?thesis using assms put by blast
qed

section \<open>Trees\<close>

text \<open>Attribute names of an element are distinct, as in every document.\<close>

fun well_formed :: "dom \<Rightarrow> bool" where
  "well_formed (Elem html tag attrs children) =
     (distinct (map fst attrs) \<and> list_all well_formed children)"
| "well_formed (Template attrs content) = distinct (map fst attrs)"
| "well_formed _ = True"

fun safe_node :: "dom \<Rightarrow> bool" where
  "safe_node (Elem html tag attrs children) =
     (to_lower tag \<notin> set forbidden_tags \<and> list_all safe_attribute attrs
      \<and> (to_lower tag = js ''a'' \<longrightarrow> get_key (js ''rel'') attrs = Some (js ''noreferrer noopener''))
      \<and> list_all safe_node children)"
| "safe_node (Template attrs content) = (list_all safe_attribute attrs \<and> list_all safe_node content)"
| "safe_node _ = True"

text \<open>The sanitiser does not enter the content of templates.\<close>

fun templates_safe :: "dom \<Rightarrow> bool" where
  "templates_safe (Elem html tag attrs children) = list_all templates_safe children"
| "templates_safe (Template attrs content) = list_all safe_node content"
| "templates_safe _ = True"

lemma sanitize_safe:
  "url_parser_law parse_url \<Longrightarrow> well_formed d \<Longrightarrow> templates_safe d \<Longrightarrow> list_all safe_node (sanitize_node parse_url d)"
proof (induction parse_url d rule: sanitize_node.induct)
  case (3 parse_url attrs content)
  then show ?case by (simp add: clean_attributes_safe)
next
  case (4 parse_url html tag attrs children)
  have "list_all safe_node (concat (map (sanitize_node parse_url) children))"
    using 4 by (auto simp: list_all_iff)
  moreover have attrs: "list_all safe_attribute (clean_attributes parse_url attrs)"
    using 4 by (simp add: clean_attributes_safe)
  ultimately show ?case
    using link_attributes_safe [OF attrs] by (simp add: Let_def)
qed simp_all

section \<open>Rebuilt elements\<close>

definition allowed_props :: "jstr \<Rightarrow> jstr obj \<Rightarrow> bool" where
  "allowed_props tag_name props \<longleftrightarrow>
     (\<exists>n. props = [(js ''key'', node_key n)]
        \<or> (tag_name = js ''a'' \<and> (\<exists>href. props = [(js ''key'', node_key n), (js ''href'', href),
             (js ''target'', js ''_blank''), (js ''rel'', js ''noreferrer noopener'')])))"

fun allowed_react :: "react \<Rightarrow> bool" where
  "allowed_react (React_element tag_name props children) =
     (tag_name \<in> set allowed_tags \<and> allowed_props tag_name props \<and> list_all allowed_react children)"
| "allowed_react _ = True"

fun react_hrefs :: "react \<Rightarrow> jstr list" where
  "react_hrefs (React_element tag_name props children) =
     map snd (filter (\<lambda>(k, v). k = js ''href'') props) @ concat (map react_hrefs children)"
| "react_hrefs _ = []"

fun react_keys :: "react \<Rightarrow> jstr list" where
  "react_keys (React_element tag_name props children) =
     map snd (filter (\<lambda>(k, v). k = js ''key'') props) @ concat (map react_keys children)"
| "react_keys _ = []"

lemma node_props_allowed: "allowed_props tag_name (node_props n tag_name attrs)"
  by (auto simp: node_props_def allowed_props_def Let_def split: option.split)

lemma span_allowed: "js ''span'' \<in> set allowed_tags"
  by (simp add: allowed_tags_def)

lemma convert_allowed:
  "allowed_react (fst (convert_node n d))" "list_all allowed_react (fst (convert_nodes n ds))"
  by (induction n d and n ds rule: convert_node_convert_nodes.induct)
    (auto simp: node_props_allowed span_allowed Let_def split: prod.split)

lemma node_props_key: "map snd (filter (\<lambda>(k, v). k = js ''key'') (node_props n tag_name attrs)) = [node_key n]"
  by (simp add: node_props_def Let_def split: option.split)

lemma map_upt_split:
  "n \<le> m \<Longrightarrow> m \<le> k \<Longrightarrow> map f [Suc n..<Suc k] = map f [Suc n..<Suc m] @ map f [Suc m..<Suc k]"
proof -
  assume "n \<le> m" "m \<le> k"
  then have "[Suc n..<Suc k] = [Suc n..<Suc m] @ [Suc m..<Suc k]"
    using upt_add_eq_append [of "Suc n" "Suc m" "k - m"] by (simp del: upt_Suc)
  then show ?thesis by (simp only: map_append)
qed

lemma convert_keys:
  "react_keys (fst (convert_node n d)) = map node_key [Suc n..<Suc (snd (convert_node n d))] \<and> n \<le> snd (convert_node n d)"
  "concat (map react_keys (fst (convert_nodes n ds))) = map node_key [Suc n..<Suc (snd (convert_nodes n ds))]
     \<and> n \<le> snd (convert_nodes n ds)"
proof (induction n d and n ds rule: convert_node_convert_nodes.induct)
  case (4 n html tag attrs children)
  obtain rs m where rs: "convert_nodes (Suc n) children = (rs, m)" by fastforce
  then have keys: "html \<Longrightarrow> concat (map react_keys rs) = map node_key [Suc (Suc n)..<Suc m] \<and> Suc n \<le> m"
    using 4 by auto
  then have "html \<Longrightarrow> [Suc n..<Suc m] = Suc n # [Suc (Suc n)..<Suc m]"
    by (auto intro: upt_conv_Cons)
  then show ?case using keys rs by (cases html) (auto simp: node_props_key Let_def)
next
  case (6 n d ds)
  obtain r m where r: "convert_node n d = (r, m)" by fastforce
  obtain rs k where rs: "convert_nodes m ds = (rs, k)" by fastforce
  have "n \<le> m" "m \<le> k" "react_keys r = map node_key [Suc n..<Suc m]"
    "concat (map react_keys rs) = map node_key [Suc m..<Suc k]"
    using 6 r rs by (simp_all del: upt_Suc)
  then show ?case using r rs map_upt_split [of n m k node_key] by (simp del: upt_Suc)
qed (simp_all add: node_props_key)

lemma node_key_inject: "node_key m = node_key n \<longleftrightarrow> m = n"
  by (simp add: node_key_def)

lemma convert_keys_distinct: "distinct (concat (map react_keys (fst (convert_nodes n ds))))"
  using node_key_inject by (auto simp: convert_keys distinct_map inj_on_def simp del: upt_Suc)

lemma get_key_mem: "get_key k xs = Some v \<Longrightarrow> (k, v) \<in> set xs"
  by (simp add: get_key_def map_of_SomeD)

lemma node_props_hrefs:
  assumes "list_all safe_attribute attrs" "(js ''href'', u) \<in> set (node_props n tag_name attrs)"
  shows "safe_url u"
proof -
  have keys: "js ''key'' \<noteq> js ''href''" "js ''target'' \<noteq> js ''href''" "js ''rel'' \<noteq> js ''href''"
    "to_lower (js ''href'') = js ''href''" by (simp_all add: js_eval)
  have "get_key (js ''href'') attrs = Some u"
    using assms(2) keys by (auto simp: node_props_def Let_def split: if_splits option.splits)
  then have "safe_attribute (js ''href'', u)"
    using assms(1) get_key_mem by (fastforce simp: list_all_iff)
  then show ?thesis using keys by (simp add: safe_attribute_def)
qed

lemma convert_hrefs:
  "safe_node d \<Longrightarrow> list_all safe_url (react_hrefs (fst (convert_node n d)))"
  "list_all safe_node ds \<Longrightarrow> list_all safe_url (concat (map react_hrefs (fst (convert_nodes n ds))))"
proof (induction n d and n ds rule: convert_node_convert_nodes.induct)
  case (3 n attrs content)
  then show ?case by (auto simp: list_all_iff intro: node_props_hrefs)
next
  case (4 n html tag attrs children)
  obtain rs m where rs: "convert_nodes (Suc n) children = (rs, m)" by fastforce
  then have "html \<Longrightarrow> list_all safe_url (concat (map react_hrefs rs))" using 4 by auto
  then show ?case
    using 4 rs node_props_hrefs [of attrs] by (cases html) (auto simp: list_all_iff Let_def)
next
  case (6 n d ds)
  then show ?case by (auto simp: Let_def split: prod.split)
qed simp_all

section \<open>Properties\<close>

lemma forest_safe:
  assumes "url_parser_law parse_url" "list_all well_formed ds" "list_all templates_safe ds"
  shows "list_all safe_node (concat (map (sanitize_node parse_url) ds))"
  using sanitize_safe [OF assms(1)] assms(2,3) by (auto simp: list_all_iff)

text \<open>
  Showing a plain text loses nothing and links only safe addresses: the shown pieces concatenate to
  the text, unit for unit, and the address of every link starts with http:, https: or mailto:, whatever
  the message says.
\<close>

theorem plain_text_links:
  assumes "url_parser_law parse_url"
  shows "concat (map part_text (render_plain_text_with_links parse_url value)) = value
    \<and> (\<forall>part. part \<in> set (render_plain_text_with_links parse_url value) \<longrightarrow>
         (case part of Fragment t \<Rightarrow> True | Anchor href t \<Rightarrow> safe_url href))"
proof (intro conjI render_text)
  show "\<forall>part. part \<in> set (render_plain_text_with_links parse_url value) \<longrightarrow>
         (case part of Fragment t \<Rightarrow> True | Anchor href t \<Rightarrow> safe_url href)"
    using assms by (auto simp: render_plain_text_with_links_def split: option.split dest: normalize_url_safe)
qed

definition sample_parser :: url_parser where
  "sample_parser t = (if starts_with t (js ''https:'') then Some (js ''https:'', t)
     else if starts_with t (js ''javascript:'') then Some (js ''javascript:'', t) else None)"

lemma sample_parser_law: "url_parser_law sample_parser"
  by (simp add: url_parser_law_def sample_parser_def)

lemma plain_text_links_witness:
  "concat (map part_text (render_plain_text_with_links sample_parser (js ''see https://a.b now''))) = js ''see https://a.b now''"
  using plain_text_links [OF sample_parser_law, of "js ''see https://a.b now''"] by simp

text \<open>C31: 
  What an HTML message becomes on the page, for any parser and any message: only elements of the
  allowed list, only the properties key, href, target and rel (a link opens a new tab without opener),
  and no two elements with the same key.
\<close>

theorem rendered_html_is_allowed:
  "case render_sanitized_email_html parse_url parse_html inner_html html of
     None \<Rightarrow> True
   | Some rs \<Rightarrow> list_all allowed_react rs \<and> distinct (concat (map react_keys rs))"
  by (simp add: render_sanitized_email_html_def Let_def convert_allowed convert_keys_distinct)

text \<open>C30: What sanitising leaves of a document whose elements have distinct attributes and whose templates, which it does
  not enter, hold nothing unsafe: no script, style, frame, object, embed, form, link, meta, base or img element at any
  depth, no event handler, srcdoc, inline style or form action, only http:, https: and mailto: addresses in href and
  src, and links that open without opener; and the page built from that tree links safe addresses only. (The code
  serialises the tree and builds the page from what a second parse makes of it; the statement is about the tree.)\<close>

theorem sanitised_tree_safe:
  assumes "url_parser_law parse_url" "list_all well_formed document" "list_all templates_safe document"
  shows "let sanitized = concat (map (sanitize_node parse_url) document)
         in list_all safe_node sanitized \<and> list_all safe_url (concat (map react_hrefs (fst (convert_nodes n sanitized))))"
  using forest_safe [OF assms] convert_hrefs(2) by (simp add: Let_def)

text \<open>The content of a template passes the sanitiser as it is.\<close>

lemma template_content_kept:
  "sanitize_node parse_url (Template attrs content) = [Template (clean_attributes parse_url attrs) content]"
  by simp

definition sample_message :: "dom list" where
  "sample_message =
     [Elem True (js ''SCRIPT'') [] [Text_node (js ''x'')],
      Elem True (js ''A'') [(js ''href'', js ''javascript:x''), (js ''onclick'', js ''y'')] [Text_node (js ''in'')],
      Elem True (js ''A'') [(js ''href'', js ''www.a.b'')] [Text_node (js ''out'')]]"

definition sample_sanitized :: "dom list" where
  "sample_sanitized =
     [Text_node (js ''in''),
      Elem True (js ''A'') [(js ''href'', js ''https://www.a.b''), (js ''target'', js ''_blank''),
        (js ''rel'', js ''noreferrer noopener'')] [Text_node (js ''out'')]]"

lemma sample_sanitizes: "concat (map (sanitize_node sample_parser) sample_message) = sample_sanitized"
  by (simp add: sample_message_def sample_sanitized_def clean_attributes_def clean_attribute_def remove_attribute_def
      dropped_attribute_def normalize_url_def sample_parser_def safe_protocols_def forbidden_tags_def get_key_def
      trim_def trim_start_def trim_end_def js_eval Let_def)

lemma sanitised_tree_safe_witness:
  "list_all safe_node sample_sanitized"
proof -
  have "list_all well_formed sample_message" "list_all templates_safe sample_message"
    by (simp_all add: sample_message_def js_eval)
  then show ?thesis
    using sanitised_tree_safe [OF sample_parser_law, of sample_message 0] by (simp add: sample_sanitizes Let_def)
qed

end
