(* ===== verification/ImportWorkflow.thy ===== *)
theory ImportWorkflow
  imports ImportTheorems ImportFailures Machine
begin

text \<open>
  The import wizard (web/src/pages/emails/ImportWorkflow.tsx) as a machine: the pasted text, the file
  readers and the import request under way, the preview derived from the text, and the result with the
  rows to correct. Display texts come from the translator \<open>t\<close>, a parameter.
\<close>

section \<open>State\<close>

datatype wizard_step = Input_step | Preview_step | Result_step

record import_result =
  ix_success :: int
  ix_local :: nat
  ix_server :: int
  ix_failures :: "import_failure list"

text \<open>
  A call of \<open>handleImport\<close> under way: the request, and what its closure holds. \<open>ic_answered\<close>: the answer is
  in, and \<open>onImported\<close> is awaited.
\<close>

record import_call =
  ic_content :: jstr
  ic_separator :: jstr
  ic_group :: "int option"
  ic_rows :: "import_row list"
  ic_local :: "import_failure list"
  ic_answered :: bool

datatype notice = File_parsed nat | File_read_failed | Preview_empty | Separator_empty | No_importable_rows
  | Import_failed | No_failed_content

record workflow =
  wf_open :: bool
  wf_step :: wizard_step
  wf_content :: jstr
  wf_separator :: jstr
  wf_group :: "int option"
  wf_submitting :: bool
  wf_result :: "import_result option"
  wf_readers :: nat
  wf_calls :: "import_call list"
  wf_notices :: "notice list"
  wf_downloads :: "jstr list"

definition show_notice :: "notice \<Rightarrow> workflow \<Rightarrow> workflow" where
  "show_notice n s = s\<lparr>wf_notices := n # wf_notices s\<rparr>"

text \<open>The texts of failures.\<close>

datatype failure_text = Issue_text "issue_code option" | Server_failure_text jstr | Generic_failure_text

section \<open>Handlers\<close>

definition count_non_empty_lines :: "jstr \<Rightarrow> nat" where
  "count_non_empty_lines content =
     length (filter (\<lambda>line. trim line \<noteq> []) (split_text [10] (replace_crlf content)))"

definition importable_rows :: "import_row list \<Rightarrow> import_row list" where
  "importable_rows rows = filter (\<lambda>row. ir_severity row \<noteq> Error) rows"

definition preview_rows :: "workflow \<Rightarrow> import_row list" where
  "preview_rows s = is_rows (build_import_preview (wf_content s) (wf_separator s))"

definition ready_rows :: "workflow \<Rightarrow> import_row list" where
  "ready_rows s = importable_rows (preview_rows s)"

definition reset_workflow :: "workflow \<Rightarrow> workflow" where
  "reset_workflow s =
     s\<lparr>wf_step := Input_step, wf_content := [], wf_separator := js ''----'', wf_group := None,
       wf_submitting := False, wf_result := None\<rparr>"

text \<open>\<open>onClose\<close> makes the page pass \<open>open = false\<close>, and the effect on \<open>open\<close> resets again.\<close>

definition close_workflow :: "workflow \<Rightarrow> workflow" where
  "close_workflow s =
     (if wf_submitting s then s
      else reset_workflow ((reset_workflow s)\<lparr>wf_open := False\<rparr>))"

definition handle_file_upload :: "workflow \<Rightarrow> workflow" where
  "handle_file_upload s = s\<lparr>wf_readers := Suc (wf_readers s)\<rparr>"

definition on_file_text :: "jstr option \<Rightarrow> workflow \<Rightarrow> workflow" where
  "on_file_text file_content s =
     (case file_content of
        None \<Rightarrow> show_notice File_read_failed s
      | Some text \<Rightarrow>
          (let normalized = trim (replace_crlf text)
           in show_notice (File_parsed (count_non_empty_lines normalized)) (s\<lparr>wf_content := normalized\<rparr>)))"

definition handle_generate_preview :: "workflow \<Rightarrow> workflow" where
  "handle_generate_preview s =
     (if trim (wf_content s) = [] then show_notice Preview_empty s
      else if trim (wf_separator s) = [] then show_notice Separator_empty s
      else s\<lparr>wf_step := Preview_step\<rparr>)"

definition describe_server_failure :: "(failure_text \<Rightarrow> jstr) \<Rightarrow> jstr \<Rightarrow> jstr" where
  "describe_server_failure t detail =
     (let normalized = to_lower detail
      in if js_includes normalized (js ''email'') \<and> js_includes normalized (js ''invalid'')
           then t (Issue_text (Some Invalid_email))
         else if js_includes normalized (js ''missing required'')
           then t (Issue_text (Some Missing_required_fields))
         else t (Server_failure_text detail))"

definition local_failures :: "(failure_text \<Rightarrow> jstr) \<Rightarrow> import_row list \<Rightarrow> import_failure list" where
  "local_failures t rows =
     map (\<lambda>row. \<lparr>if_line = Some (ir_line row), if_raw = Some (ir_raw row), if_message = t (Issue_text (ir_issue row)),
                 if_source = From_preview, if_issue = ir_issue row\<rparr>)
       (filter (\<lambda>row. ir_severity row = Error) rows)"

definition handle_import :: "(failure_text \<Rightarrow> jstr) \<Rightarrow> workflow \<Rightarrow> workflow" where
  "handle_import t s =
     (if ready_rows s = [] then show_notice No_importable_rows s
      else s\<lparr>wf_submitting := True,
             wf_calls := \<lparr>ic_content = join [10] (map ir_raw (ready_rows s)), ic_separator = trim (wf_separator s),
                          ic_group = wf_group s, ic_rows = ready_rows s,
                          ic_local = local_failures t (preview_rows s), ic_answered = False\<rparr> # wf_calls s\<rparr>)"

text \<open>The answer: its code and data; a field the data lacks is \<open>None\<close>, as are \<open>errors\<close> that are no array.\<close>

record import_payload =
  ip_success :: "int option"
  ip_failed :: "int option"
  ip_errors :: "jstr list option"

definition or_zero :: "int option \<Rightarrow> int" where
  "or_zero n = (case n of Some k \<Rightarrow> k | None \<Rightarrow> 0)"

definition generic_failure :: "(failure_text \<Rightarrow> jstr) \<Rightarrow> import_failure" where
  "generic_failure t = \<lparr>if_line = None, if_raw = None, if_message = t Generic_failure_text,
     if_source = From_server, if_issue = None\<rparr>"

definition server_failures ::
  "(failure_text \<Rightarrow> jstr) \<Rightarrow> jstr list \<Rightarrow> import_row list \<Rightarrow> int \<Rightarrow> import_failure list" where
  "server_failures t errors rows rejected =
     (let failures = map (\<lambda>f. f\<lparr>if_message := describe_server_failure t (if_message f)\<rparr>)
                       (parse_server_import_failures errors rows)
      in failures @ replicate (nat rejected - length failures) (generic_failure t))"

definition import_result_of :: "(failure_text \<Rightarrow> jstr) \<Rightarrow> import_call \<Rightarrow> import_payload option \<Rightarrow> import_result" where
  "import_result_of t call payload =
     (let success = or_zero (Option.bind payload ip_success);
          rejected = or_zero (Option.bind payload ip_failed);
          errors = (case Option.bind payload ip_errors of Some es \<Rightarrow> es | None \<Rightarrow> [])
      in \<lparr>ix_success = success, ix_local = length (ic_local call), ix_server = rejected,
          ix_failures = ic_local call @ server_failures t errors (ic_rows call) rejected\<rparr>)"

definition finish_call :: "import_call \<Rightarrow> workflow \<Rightarrow> workflow" where
  "finish_call call s = s\<lparr>wf_submitting := False, wf_calls := remove1 call (wf_calls s)\<rparr>"

definition on_import_response ::
  "(failure_text \<Rightarrow> jstr) \<Rightarrow> import_call \<Rightarrow> int \<Rightarrow> import_payload option \<Rightarrow> workflow \<Rightarrow> workflow" where
  "on_import_response t call code payload s =
     (if code \<noteq> 200 then finish_call call (show_notice Import_failed s)
      else s\<lparr>wf_result := Some (import_result_of t call payload), wf_step := Result_step,
             wf_calls := call\<lparr>ic_answered := True\<rparr> # remove1 call (wf_calls s)\<rparr>)"

definition on_import_failure :: "import_call \<Rightarrow> workflow \<Rightarrow> workflow" where
  "on_import_failure call s = finish_call call (show_notice Import_failed s)"

definition result_failures :: "workflow \<Rightarrow> import_failure list" where
  "result_failures s = (case wf_result s of None \<Rightarrow> [] | Some r \<Rightarrow> ix_failures r)"

definition download_failed_rows :: "workflow \<Rightarrow> workflow" where
  "download_failed_rows s =
     (let failed_content = build_failed_import_content (result_failures s)
      in if failed_content = [] then show_notice No_failed_content s
         else s\<lparr>wf_downloads := failed_content # wf_downloads s\<rparr>)"

definition edit_failed_rows :: "workflow \<Rightarrow> workflow" where
  "edit_failed_rows s =
     (let failed_content = build_failed_import_content (result_failures s)
      in if failed_content = [] then show_notice No_failed_content s
         else s\<lparr>wf_content := failed_content, wf_result := None, wf_step := Input_step\<rparr>)"

section \<open>The machine\<close>

datatype workflow_event =
    Opened | Closed | Content_typed jstr | Separator_typed jstr | Group_selected "int option"
  | File_chosen | File_loaded "jstr option" | Preview_clicked | Back_clicked | Import_clicked
  | Import_answered import_call int "import_payload option" | Import_rejected import_call
  | Refreshed import_call bool | Download_clicked | Edit_clicked

text \<open>
  Which controls a step shows; a button that is loading takes no clicks. A reader or a request that was
  started answers at any time, also when the wizard is on another step or closed.
\<close>

inductive workflow_step :: "(failure_text \<Rightarrow> jstr) \<Rightarrow> workflow \<Rightarrow> workflow_event \<Rightarrow> workflow \<Rightarrow> bool" for t where
  opened: "\<not> wf_open s \<Longrightarrow> workflow_step t s Opened (s\<lparr>wf_open := True\<rparr>)"
| closed: "wf_open s \<Longrightarrow> workflow_step t s Closed (close_workflow s)"
| content_typed: "wf_open s \<Longrightarrow> wf_step s = Input_step \<Longrightarrow>
     workflow_step t s (Content_typed text) (s\<lparr>wf_content := text\<rparr>)"
| separator_typed: "wf_open s \<Longrightarrow> wf_step s = Input_step \<Longrightarrow>
     workflow_step t s (Separator_typed text) (s\<lparr>wf_separator := text\<rparr>)"
| group_selected: "wf_open s \<Longrightarrow> wf_step s = Input_step \<Longrightarrow>
     workflow_step t s (Group_selected g) (s\<lparr>wf_group := g\<rparr>)"
| file_chosen: "wf_open s \<Longrightarrow> wf_step s = Input_step \<Longrightarrow> workflow_step t s File_chosen (handle_file_upload s)"
| file_loaded: "wf_readers s = Suc n \<Longrightarrow>
     workflow_step t s (File_loaded text) (on_file_text text (s\<lparr>wf_readers := n\<rparr>))"
| preview_clicked: "wf_open s \<Longrightarrow> wf_step s = Input_step \<Longrightarrow>
     workflow_step t s Preview_clicked (handle_generate_preview s)"
| back_clicked: "wf_open s \<Longrightarrow> wf_step s = Preview_step \<Longrightarrow>
     workflow_step t s Back_clicked (s\<lparr>wf_step := Input_step\<rparr>)"
| import_clicked: "wf_open s \<Longrightarrow> wf_step s = Preview_step \<Longrightarrow> \<not> wf_submitting s \<Longrightarrow> ready_rows s \<noteq> [] \<Longrightarrow>
     workflow_step t s Import_clicked (handle_import t s)"
| import_answered: "call \<in> set (wf_calls s) \<Longrightarrow> \<not> ic_answered call \<Longrightarrow>
     workflow_step t s (Import_answered call code payload) (on_import_response t call code payload s)"
| import_rejected: "call \<in> set (wf_calls s) \<Longrightarrow> \<not> ic_answered call \<Longrightarrow>
     workflow_step t s (Import_rejected call) (on_import_failure call s)"
| refreshed: "call \<in> set (wf_calls s) \<Longrightarrow> ic_answered call \<Longrightarrow>
     workflow_step t s (Refreshed call ok) (if ok then finish_call call s else on_import_failure call s)"
| download_clicked: "wf_open s \<Longrightarrow> wf_step s = Result_step \<Longrightarrow> result_failures s \<noteq> [] \<Longrightarrow>
     workflow_step t s Download_clicked (download_failed_rows s)"
| edit_clicked: "wf_open s \<Longrightarrow> wf_step s = Result_step \<Longrightarrow> result_failures s \<noteq> [] \<Longrightarrow>
     workflow_step t s Edit_clicked (edit_failed_rows s)"

inductive_cases workflow_stepE: "workflow_step t s e u"

definition workflow_start :: "workflow \<Rightarrow> bool" where
  "workflow_start s \<longleftrightarrow> s = reset_workflow s \<and> \<not> wf_open s \<and> wf_readers s = 0 \<and> wf_calls s = []
     \<and> wf_notices s = [] \<and> wf_downloads s = []"

end
