(* ===== verification/ImportWizard.thy ===== *)
theory ImportWizard
  imports ImportWorkflow
begin

text \<open>
  What the import wizard guarantees: one request at a time with exactly the importable rows, a result that
  accounts for every row, a second round with exactly the failed lines, and what is left after closing.
\<close>

section \<open>Invariant\<close>

definition call_ok :: "(failure_text \<Rightarrow> jstr) \<Rightarrow> import_call \<Rightarrow> bool" where
  "call_ok t call \<longleftrightarrow> (\<exists>content separator.
     ic_rows call = importable_rows (is_rows (build_import_preview content separator))
     \<and> ic_rows call \<noteq> [] \<and> ic_separator call = trim separator
     \<and> ic_content call = join [10] (map ir_raw (ic_rows call))
     \<and> ic_local call = local_failures t (is_rows (build_import_preview content separator)))"

definition result_ok :: "(failure_text \<Rightarrow> jstr) \<Rightarrow> import_result \<Rightarrow> bool" where
  "result_ok t r \<longleftrightarrow> (\<exists>call payload. call_ok t call \<and> r = import_result_of t call payload)"

definition workflow_inv :: "(failure_text \<Rightarrow> jstr) \<Rightarrow> workflow \<Rightarrow> bool" where
  "workflow_inv t s \<longleftrightarrow>
     wf_calls s = [] \<and> \<not> wf_submitting s \<and> (wf_result s \<noteq> None \<longleftrightarrow> wf_step s = Result_step)
       \<and> (\<forall>r. wf_result s = Some r \<longrightarrow> result_ok t r)
   \<or> (\<exists>call. wf_calls s = [call] \<and> call_ok t call) \<and> wf_submitting s \<and> wf_open s
       \<and> (wf_result s \<noteq> None \<longleftrightarrow> wf_step s = Result_step)
       \<and> (\<forall>r. wf_result s = Some r \<longrightarrow> result_ok t r)"

lemmas workflow_ops = reset_workflow_def close_workflow_def handle_file_upload_def on_file_text_def
  handle_generate_preview_def finish_call_def on_import_response_def on_import_failure_def
  download_failed_rows_def edit_failed_rows_def show_notice_def

lemma call_ok_answered [simp]: "call_ok t (call\<lparr>ic_answered := b\<rparr>) = call_ok t call"
  by (simp add: call_ok_def)

lemma result_okI: "call_ok t call \<Longrightarrow> result_ok t (import_result_of t call payload)"
  by (auto simp: result_ok_def)

lemma workflow_inv_start: "workflow_start s \<Longrightarrow> workflow_inv t s"
  by (cases s) (auto simp: workflow_start_def workflow_inv_def reset_workflow_def)

lemma workflow_inv_import:
  assumes "workflow_inv t s" "wf_open s" "wf_step s = Preview_step" "\<not> wf_submitting s" "ready_rows s \<noteq> []"
  shows "workflow_inv t (handle_import t s)"
proof -
  have "call_ok t \<lparr>ic_content = join [10] (map ir_raw (ready_rows s)), ic_separator = trim (wf_separator s),
      ic_group = wf_group s, ic_rows = ready_rows s, ic_local = local_failures t (preview_rows s), ic_answered = False\<rparr>"
    using assms(5) unfolding call_ok_def ready_rows_def preview_rows_def
    by (intro exI [of _ "wf_content s"] exI [of _ "wf_separator s"]) simp
  then show ?thesis using assms by (auto simp: workflow_inv_def handle_import_def)
qed

lemma workflow_inv_step: "workflow_inv t s \<Longrightarrow> workflow_step t s e u \<Longrightarrow> workflow_inv t u"
proof (erule workflow_stepE)
  assume "workflow_inv t s" "u = close_workflow s"
  then show ?thesis by (auto simp: workflow_inv_def workflow_ops)
next
  fix call code payload
  assume "workflow_inv t s" "u = on_import_response t call code payload s" "call \<in> set (wf_calls s)"
  then show ?thesis by (auto simp: workflow_inv_def workflow_ops intro: result_okI)
next
  assume "workflow_inv t s" "u = handle_import t s" "wf_open s" "wf_step s = Preview_step" "\<not> wf_submitting s" "ready_rows s \<noteq> []"
  then show ?thesis by (simp add: workflow_inv_import)
qed (auto simp: workflow_inv_def workflow_ops Let_def split: option.splits if_splits)

interpretation wizard: machine_invariant workflow_start "workflow_step t" "workflow_inv t" for t
  by unfold_locales (simp_all add: workflow_inv_start workflow_inv_step)

section \<open>Rows\<close>

lemma preview_raws:
  assumes "row \<in> set (is_rows (build_import_preview content separator))"
  shows "ir_raw row \<in> snd ` set (content_lines content)"
proof -
  have sep: "trim separator \<noteq> []"
    using assms by (auto simp: build_import_preview_def Let_def)
  have "map ir_raw (is_rows (build_import_preview content separator)) = map snd (content_lines content)"
  proof -
    have "ir_raw (parse_import_line line raw s) = raw" for line raw s
      by (simp add: parse_identity)
    then show ?thesis by (simp add: preview_rows_eq [OF sep] mark_identity split_def)
  qed
  then show ?thesis using assms by (metis image_set in_set_conv_nth length_map nth_map list.set_map imageI)
qed

lemma importable_raws:
  "row \<in> set (importable_rows (is_rows (build_import_preview content separator))) \<Longrightarrow> line_text (ir_raw row)"
  using preview_raws content_lines_text by (fastforce simp: importable_rows_def)

lemma call_lines:
  assumes "call_ok t call"
  shows "content_lines (ic_content call) = enumerate 1 (map ir_raw (ic_rows call))"
proof -
  have "line_text x" if "x \<in> set (map ir_raw (ic_rows call))" for x
    using that assms importable_raws by (auto simp: call_ok_def)
  then show ?thesis using assms content_lines_join [of "map ir_raw (ic_rows call)"] by (auto simp: call_ok_def)
qed

lemma server_failures_raw:
  "f \<in> set (server_failures t errors rows rejected) \<Longrightarrow> if_raw f = Some raw \<Longrightarrow> raw \<in> ir_raw ` set rows"
  by (auto simp: server_failures_def Let_def parse_server_import_failures_def parse_server_import_failure_def
      submitted_row_def generic_failure_def split: option.splits if_splits)

lemma result_raws:
  assumes "result_ok t r"
  shows "\<exists>content. \<forall>f \<in> set (ix_failures r). \<forall>raw. if_raw f = Some raw \<longrightarrow> raw \<in> snd ` set (content_lines content)"
proof -
  obtain call payload content separator where r: "r = import_result_of t call payload"
    and call: "ic_rows call = importable_rows (is_rows (build_import_preview content separator))"
      "ic_local call = local_failures t (is_rows (build_import_preview content separator))"
    using assms unfolding result_ok_def call_ok_def by blast
  have "raw \<in> snd ` set (content_lines content)"
    if f: "f \<in> set (ix_failures r)" "if_raw f = Some raw" for f raw
  proof -
    have "raw \<in> ir_raw ` set (is_rows (build_import_preview content separator))"
      using f server_failures_raw [of f t _ "ic_rows call" _ raw] r call
      by (auto simp: import_result_of_def Let_def local_failures_def importable_rows_def)
    then show ?thesis using preview_raws by fastforce
  qed
  then show ?thesis by blast
qed

section \<open>Closed\<close>

definition last_loaded :: "workflow_event list \<Rightarrow> jstr \<Rightarrow> jstr" where
  "last_loaded = fold (\<lambda>e c. case e of File_loaded (Some text) \<Rightarrow> trim (replace_crlf text) | _ \<Rightarrow> c)"

lemma closed_step:
  assumes "workflow_step t s e u" "\<not> wf_open s" "wf_calls s = []" "e \<noteq> Opened"
  shows "\<not> wf_open u \<and> wf_calls u = [] \<and> wf_result u = wf_result s \<and> wf_step u = wf_step s
    \<and> wf_content u = last_loaded [e] (wf_content s)"
  using assms(1) by (rule workflow_stepE) (use assms in \<open>auto simp: last_loaded_def workflow_ops Let_def split: option.split\<close>)

lemma closed_run:
  "run (workflow_step t) s es u \<Longrightarrow> \<not> wf_open s \<Longrightarrow> wf_calls s = [] \<Longrightarrow> Opened \<notin> set es \<Longrightarrow>
     \<not> wf_open u \<and> wf_calls u = [] \<and> wf_result u = wf_result s \<and> wf_step u = wf_step s
     \<and> wf_content u = last_loaded es (wf_content s)"
proof (induction rule: run.induct)
  case (run_Cons s e v es u)
  then show ?case using closed_step [OF run_Cons.hyps(1)] by (auto simp: last_loaded_def)
qed (simp add: last_loaded_def)

section \<open>A run\<close>

definition demo_start :: workflow where
  "demo_start = \<lparr>wf_open = False, wf_step = Input_step, wf_content = [], wf_separator = js ''----'', wf_group = None,
     wf_submitting = False, wf_result = None, wf_readers = 0, wf_calls = [], wf_notices = [], wf_downloads = []\<rparr>"

definition demo_preview :: workflow where
  "demo_preview = demo_start\<lparr>wf_open := True, wf_content := sample_content, wf_separator := sample_separator,
     wf_step := Preview_step\<rparr>"

abbreviation plain_text :: "failure_text \<Rightarrow> jstr" where
  "plain_text \<equiv> (\<lambda>_. [])"

abbreviation wizard_reach :: "workflow \<Rightarrow> bool" where
  "wizard_reach \<equiv> reach workflow_start (workflow_step plain_text)"

lemma demo_start_reach: "wizard_reach demo_start"
  unfolding reach_def
  by (intro exI [of _ demo_start] exI [of _ "[]"]) (simp add: workflow_start_def demo_start_def reset_workflow_def)

lemma demo_preview_reach: "wizard_reach demo_preview"
proof -
  let ?o = "demo_start\<lparr>wf_open := True\<rparr>"
  have "trim sample_content \<noteq> []" by (simp add: sample_content_def js_eval)
  then have preview: "demo_preview = handle_generate_preview
      (?o\<lparr>wf_content := sample_content, wf_separator := sample_separator\<rparr>)"
    using sample_trim by (simp add: handle_generate_preview_def demo_preview_def js_def)
  have "wizard_reach ?o"
    by (rule reach_step [OF demo_start_reach opened]) (simp add: demo_start_def)
  then have "wizard_reach (?o\<lparr>wf_content := sample_content\<rparr>)"
    by (rule reach_step) (rule content_typed; simp add: demo_start_def)
  then have "wizard_reach (?o\<lparr>wf_content := sample_content, wf_separator := sample_separator\<rparr>)"
    by (rule reach_step) (rule separator_typed; simp add: demo_start_def)
  then show ?thesis
    unfolding preview by (rule reach_step) (rule preview_clicked; simp add: demo_start_def)
qed

lemma demo_rows:
  "ready_rows demo_preview \<noteq> []" "local_failures t (preview_rows demo_preview) \<noteq> []"
proof -
  obtain a b c where rows: "preview_rows demo_preview = [a, b, c]"
    and "ir_severity a = Ready" "ir_severity b = Error"
    using sample_preview_rows by (auto simp: preview_rows_def demo_preview_def map_eq_Cons_conv)
  then show "ready_rows demo_preview \<noteq> []" "local_failures t (preview_rows demo_preview) \<noteq> []"
    by (simp_all add: ready_rows_def importable_rows_def local_failures_def)
qed

definition demo_import :: workflow where
  "demo_import = handle_import plain_text demo_preview"

lemma demo_import_reach: "wizard_reach demo_import"
  unfolding demo_import_def
  by (rule reach_step [OF demo_preview_reach import_clicked]) (simp_all add: demo_rows, simp_all add: demo_preview_def demo_start_def)

lemma demo_call: "\<exists>call. wf_calls demo_import = [call] \<and> \<not> ic_answered call \<and> ic_local call \<noteq> []"
  using demo_rows by (simp add: demo_import_def handle_import_def) (simp add: demo_preview_def demo_start_def)

section \<open>Properties\<close>

text \<open>C33: One request with the importable rows: in every reachable state at most one import is under way, its
  window is open, and its text holds, line by line, exactly the rows of a preview that are not in error,
  while the rows in error are kept aside, each with its line.\<close>

theorem submitted_rows_importable:
  assumes "reach workflow_start (workflow_step t) s" "call \<in> set (wf_calls s)"
  shows "wf_calls s = [call] \<and> wf_open s \<and> wf_submitting s
    \<and> (\<exists>content separator. ic_separator call = trim separator \<and> trim separator \<noteq> []
        \<and> content_lines (ic_content call) = enumerate 1 (map ir_raw (ic_rows call)) \<and> ic_rows call \<noteq> []
        \<and> ic_rows call = filter (\<lambda>row. ir_severity row \<noteq> Error) (is_rows (build_import_preview content separator))
        \<and> map if_raw (ic_local call) = map (\<lambda>row. Some (ir_raw row))
            (filter (\<lambda>row. ir_severity row = Error) (is_rows (build_import_preview content separator))))"
proof -
  have inv: "workflow_inv t s" using wizard.inv_reach [OF assms(1)] .
  then have ok: "call_ok t call" and rest: "wf_calls s = [call] \<and> wf_open s \<and> wf_submitting s"
    using assms(2) by (auto simp: workflow_inv_def)
  obtain content separator where
    c: "ic_rows call = importable_rows (is_rows (build_import_preview content separator))" "ic_rows call \<noteq> []"
      "ic_separator call = trim separator" "ic_local call = local_failures t (is_rows (build_import_preview content separator))"
    using ok unfolding call_ok_def by blast
  then have "trim separator \<noteq> []"
    by (auto simp: build_import_preview_def importable_rows_def Let_def)
  with c call_lines [OF ok] rest show ?thesis
    by (intro conjI exI [of _ content] exI [of _ separator])
      (simp_all add: importable_rows_def local_failures_def comp_def)
qed

lemma submitted_rows_importable_witness: "wf_submitting demo_import"
proof -
  obtain call where "call \<in> set (wf_calls demo_import)" using demo_call by auto
  then show ?thesis using submitted_rows_importable [OF demo_import_reach] by blast
qed

text \<open>Failed rows come back: the result lists at least as many failures as it counts, and editing them
  puts exactly the distinct failed lines into the text, or only tells that no failure has a line.\<close>

theorem failed_rows_come_back:
  assumes "reach workflow_start (workflow_step t) s" "workflow_step t s Edit_clicked u"
    and "raws = {raw. raw \<noteq> [] \<and> (\<exists>f \<in> set (result_failures s). if_raw f = Some raw)}"
  shows "\<exists>r. wf_result s = Some r \<and> int (ix_local r) + ix_server r \<le> int (length (ix_failures r))
    \<and> (if raws = {} then u = show_notice No_failed_content s
       else wf_step u = Input_step \<and> wf_result u = None
         \<and> set (map snd (content_lines (wf_content u))) = raws
         \<and> distinct (map snd (content_lines (wf_content u))))"
proof -
  have "workflow_inv t s" using wizard.inv_reach [OF assms(1)] .
  moreover have edit: "wf_step s = Result_step" "u = edit_failed_rows s"
    using assms(2) by (auto elim: workflow_stepE)
  ultimately obtain r where r: "wf_result s = Some r" "result_ok t r" by (auto simp: workflow_inv_def)
  then have counted: "int (ix_local r) + ix_server r \<le> int (length (ix_failures r))"
    by (auto simp: result_ok_def import_result_of_def server_failures_def Let_def)
  obtain content where
    "\<forall>f \<in> set (result_failures s). \<forall>raw. if_raw f = Some raw \<longrightarrow> raw \<in> snd ` set (content_lines content)"
    using result_raws [OF r(2)] r(1) by (auto simp: result_failures_def)
  note lines = failed_lines [OF this]
  have "build_failed_import_content (result_failures s) = [] \<longleftrightarrow> raws = {}"
  proof
    assume "build_failed_import_content (result_failures s) = []"
    moreover have "content_lines [] = []" by (simp add: content_lines_def split_char_none)
    ultimately show "raws = {}" using lines assms(3) by auto
  next
    assume "raws = {}"
    then have "filter has_raw (result_failures s) = []"
      using assms(3) by (auto simp: filter_empty_conv has_raw_def) (metis not_None_eq)
    then show "build_failed_import_content (result_failures s) = []" by (simp add: build_failed_import_content_def)
  qed
  moreover have "set (map snd (content_lines (build_failed_import_content (result_failures s)))) = raws"
    "distinct (map snd (content_lines (build_failed_import_content (result_failures s))))"
    using lines assms(3) by blast+
  ultimately show ?thesis
    using r(1) edit(2) counted by (cases "raws = {}") (simp_all add: edit_failed_rows_def)
qed

lemma failed_rows_come_back_witness: "\<exists>s u r. workflow_step plain_text s Edit_clicked u \<and> wf_result s = Some r
  \<and> ix_failures r \<noteq> [] \<and> int (ix_local r) + ix_server r \<le> int (length (ix_failures r))"
proof -
  obtain call where call: "wf_calls demo_import = [call]" "\<not> ic_answered call" "ic_local call \<noteq> []"
    using demo_call by auto
  let ?s = "on_import_response plain_text call 200 None demo_import"
  have s: "wizard_reach ?s"
    by (rule reach_step [OF demo_import_reach import_answered]) (use call in simp_all)
  have result: "wf_result ?s = Some (import_result_of plain_text call None)" "wf_step ?s = Result_step" "wf_open ?s"
    by (simp_all add: on_import_response_def demo_import_def handle_import_def demo_rows)
      (simp add: demo_preview_def)
  then have failures: "ix_failures (import_result_of plain_text call None) \<noteq> []"
    using call by (simp add: import_result_of_def Let_def)
  then have step: "workflow_step plain_text ?s Edit_clicked (edit_failed_rows ?s)"
    using result by (intro edit_clicked) (simp_all add: result_failures_def)
  show ?thesis using failed_rows_come_back [OF s step refl] step result(1) failures by auto
qed

text \<open>Closing clears the text: the window closes unless a request is under way; from then on, until it is
  opened again, result and requests are gone, and the text is empty except for a file that is read to its
  end after the closing, whose text is taken over.\<close>

theorem closing_clears_text:
  assumes "workflow_step t s Closed u" "reach workflow_start (workflow_step t) s"
    and "run (workflow_step t) u es v" "Opened \<notin> set es"
  shows "if wf_submitting s then u = s
    else \<not> wf_open v \<and> wf_calls v = [] \<and> wf_result v = None \<and> wf_step v = Input_step
      \<and> wf_content v = last_loaded es []"
proof (cases "wf_submitting s")
  case True
  then show ?thesis using assms(1) by (auto elim!: workflow_stepE simp: close_workflow_def)
next
  case False
  have "workflow_inv t s" using wizard.inv_reach [OF assms(2)] .
  then have "\<not> wf_open u" "wf_calls u = []" "wf_result u = None" "wf_step u = Input_step" "wf_content u = []"
    using assms(1) False by (auto elim!: workflow_stepE simp: close_workflow_def reset_workflow_def workflow_inv_def)
  with closed_run [OF assms(3)] assms(4) False show ?thesis by simp
qed

lemma closing_clears_text_witness:
  "\<exists>v. wf_content v = js ''x'' \<and> \<not> wf_open v \<and>
     run (workflow_step plain_text) demo_start [Opened, File_chosen, Closed, File_loaded (Some (js ''x''))] v"
proof -
  let ?s = "handle_file_upload (demo_start\<lparr>wf_open := True\<rparr>)"
  let ?v = "on_file_text (Some (js ''x'')) ((close_workflow ?s)\<lparr>wf_readers := 0\<rparr>)"
  have steps: "workflow_step plain_text demo_start Opened (demo_start\<lparr>wf_open := True\<rparr>)"
    "workflow_step plain_text (demo_start\<lparr>wf_open := True\<rparr>) File_chosen ?s"
    "workflow_step plain_text ?s Closed (close_workflow ?s)"
    by (rule opened file_chosen closed; simp add: demo_start_def handle_file_upload_def)+
  have "workflow_step plain_text (close_workflow ?s) (File_loaded (Some (js ''x''))) ?v"
    by (rule file_loaded) (simp add: workflow_ops demo_start_def)
  then have last: "run (workflow_step plain_text) (close_workflow ?s) [File_loaded (Some (js ''x''))] ?v" by auto
  have "wizard_reach ?s" using reach_step [OF reach_step [OF demo_start_reach steps(1)] steps(2)] .
  moreover have "\<not> wf_submitting ?s" by (simp add: handle_file_upload_def demo_start_def)
  moreover have "last_loaded [File_loaded (Some (js ''x''))] [] = js ''x''"
    by (simp add: last_loaded_def js_eval)
  ultimately have "wf_content ?v = js ''x'' \<and> \<not> wf_open ?v"
    using closing_clears_text [OF steps(3) _ last] by simp
  moreover have "run (workflow_step plain_text) demo_start [Opened, File_chosen, Closed, File_loaded (Some (js ''x''))] ?v"
    using steps last by auto
  ultimately show ?thesis by blast
qed

end
