(* ===== verification/EmailForm.thy ===== *)
theory EmailForm
  imports Providers JsNumber JsValue
begin

text \<open>
  The form of an external mailbox (web/src/pages/emails/index.tsx): server settings as form values and back,
  optional numbers and texts, and what submitting the form sends,
  with the properties of these functions.
\<close>

section \<open>Values\<close>

definition number_of_value :: "jsval \<Rightarrow> jsnum" where
  "number_of_value v =
     (case v of Undefined \<Rightarrow> NaN | Null \<Rightarrow> Fin 0 | Boolean b \<Rightarrow> Fin (if b then 1 else 0) | _ \<Rightarrow> number_of_text (string_of v))"

definition to_optional_number :: "jsval \<Rightarrow> jsnum option" where
  "to_optional_number v =
     (if v = Undefined \<or> v = Null \<or> v = Text [] then None
      else let parsed = number_of_value v in if is_finite parsed then Some parsed else None)"

definition trim_optional_string :: "jsval \<Rightarrow> jstr option" where
  "trim_optional_string v =
     (case v of Text t \<Rightarrow> let trimmed = trim t in if trimmed = [] then None else Some trimmed | _ \<Rightarrow> None)"

lemma trim_optional_text: "trim_optional_string (Text t) = opt_trim (Some t)"
  by (simp add: trim_optional_string_def opt_trim_def Let_def)

section \<open>Server settings\<close>

text \<open>On the typed settings \<open>trimOptionalString\<close> is \<open>opt_trim\<close>, and a port is its own optional number.\<close>

definition trim_folders :: "folder_map option \<Rightarrow> folder_map" where
  "trim_folders f =
     \<lparr>fm_inbox = opt_trim (Option.bind f fm_inbox), fm_junk = opt_trim (Option.bind f fm_junk),
      fm_sent = opt_trim (Option.bind f fm_sent)\<rparr>"

definition build_provider_config_form_values :: "mail_provider_config option \<Rightarrow> mail_provider_config" where
  "build_provider_config_form_values config =
     \<lparr>mc_read_mode = None, mc_imap_host = opt_trim (Option.bind config mc_imap_host),
      mc_imap_port = Option.bind config mc_imap_port,
      mc_imap_tls = Some (case Option.bind config mc_imap_tls of None \<Rightarrow> True | Some b \<Rightarrow> b),
      mc_smtp_host = opt_trim (Option.bind config mc_smtp_host), mc_smtp_port = Option.bind config mc_smtp_port,
      mc_smtp_secure = Some (case Option.bind config mc_smtp_secure of None \<Rightarrow> True | Some b \<Rightarrow> b),
      mc_folders = Some (trim_folders (Option.bind config mc_folders))\<rparr>"

definition normalize_provider_config_input :: "mail_provider_config option \<Rightarrow> mail_provider_config option" where
  "normalize_provider_config_input value =
     (case value of None \<Rightarrow> None
      | Some config \<Rightarrow>
          let folders = trim_folders (mc_folders config)
          in Some \<lparr>mc_read_mode = Some (js ''IMAP''), mc_imap_host = opt_trim (mc_imap_host config),
               mc_imap_port = mc_imap_port config, mc_imap_tls = Some (mc_imap_tls config \<noteq> Some False),
               mc_smtp_host = opt_trim (mc_smtp_host config), mc_smtp_port = mc_smtp_port config,
               mc_smtp_secure = Some (mc_smtp_secure config \<noteq> Some False),
               mc_folders = (if fm_inbox folders \<noteq> None \<or> fm_junk folders \<noteq> None \<or> fm_sent folders \<noteq> None
                  then Some folders else None)\<rparr>)"

section \<open>Submitting\<close>

text \<open>A credential in a request: left out (\<open>undefined\<close>, keeps what is stored), \<open>null\<close>, or a text.\<close>

datatype credential = Keep | Clear | Give jstr

record email_values =
  ev_email :: "jstr option"
  ev_provider :: "email_provider option"
  ev_auth_type :: "email_auth_type option"
  ev_client_id :: "jstr option"
  ev_refresh_token :: "jstr option"
  ev_client_secret :: "jstr option"
  ev_password :: "jstr option"
  ev_login_password :: "jstr option"
  ev_status :: "jstr option"
  ev_group :: jsval
  ev_config :: "mail_provider_config option"

record email_payload =
  py_email :: "jstr option"
  py_provider :: email_provider
  py_auth_type :: "email_auth_type option"
  py_client_id :: credential
  py_refresh_token :: credential
  py_client_secret :: credential
  py_password :: credential
  py_login_password :: "jstr option"
  py_grant :: "jstr option"
  py_status :: "jstr option"
  py_group :: "jsnum option"
  py_config :: "mail_provider_config option"

definition normalize_credential_value :: "bool \<Rightarrow> jstr option \<Rightarrow> bool \<Rightarrow> credential" where
  "normalize_credential_value editing value enabled =
     (if \<not> enabled then Clear
      else case opt_trim value of Some v \<Rightarrow> Give v | None \<Rightarrow> if editing then Keep else Clear)"

text \<open>The provider and authentication type chosen, and what they need.\<close>

definition chosen_provider :: "email_values \<Rightarrow> email_provider" where
  "chosen_provider v = (case ev_provider v of None \<Rightarrow> OUTLOOK | Some p \<Rightarrow> p)"

definition chosen_auth :: "email_values \<Rightarrow> email_auth_type option" where
  "chosen_auth v = chosen_auth_type (chosen_provider v) (ev_auth_type v)"

definition requires_password_auth :: "email_values \<Rightarrow> bool" where
  "requires_password_auth v \<longleftrightarrow> chosen_auth v = Some APP_PASSWORD"

definition requires_oauth_fields :: "email_values \<Rightarrow> bool" where
  "requires_oauth_fields v \<longleftrightarrow>
     chosen_provider v = OUTLOOK \<or> chosen_provider v = GMAIL \<and> chosen_auth v = Some GOOGLE_OAUTH"

definition is_generic_imap_smtp :: "email_values \<Rightarrow> bool" where
  "is_generic_imap_smtp v \<longleftrightarrow>
     chosen_provider v \<noteq> OUTLOOK \<and> chosen_provider v \<noteq> GMAIL \<and> chosen_auth v = Some APP_PASSWORD"

definition normalized_payload :: "bool \<Rightarrow> jstr option \<Rightarrow> email_values \<Rightarrow> email_payload" where
  "normalized_payload editing grant v =
     \<lparr>py_email = map_option trim (ev_email v), py_provider = chosen_provider v, py_auth_type = chosen_auth v,
      py_client_id = normalize_credential_value editing (ev_client_id v) (requires_oauth_fields v),
      py_refresh_token = normalize_credential_value editing (ev_refresh_token v) (requires_oauth_fields v),
      py_client_secret = normalize_credential_value editing (ev_client_secret v) (requires_oauth_fields v),
      py_password = normalize_credential_value editing (ev_password v) (requires_password_auth v),
      py_login_password = opt_trim (ev_login_password v),
      py_grant = (if editing \<and> opt_trim (ev_login_password v) \<noteq> None then opt_text grant else None),
      py_status = ev_status v, py_group = to_optional_number (ev_group v),
      py_config = (if is_generic_imap_smtp v then normalize_provider_config_input (ev_config v) else None)\<rparr>"

datatype submission =
    Use_authorization_flow
  | Step_up_required
  | Update_mailbox nat email_payload
  | Create_mailbox email_payload

text \<open>A new mailbox is sent without \<open>null\<close>s: \<open>x || undefined\<close>.\<close>

definition given :: "credential \<Rightarrow> credential" where
  "given c = (case c of Give v \<Rightarrow> Give v | _ \<Rightarrow> Keep)"

definition handle_email_submit :: "nat option \<Rightarrow> jstr option \<Rightarrow> email_values \<Rightarrow> submission" where
  "handle_email_submit editing grant v =
     (let p = normalized_payload (editing \<noteq> None) grant v;
          no_email = (case py_email p of None \<Rightarrow> True | Some e \<Rightarrow> e = [])
      in case editing of
           None \<Rightarrow>
             if no_email \<and> (py_provider p = GMAIL \<and> py_auth_type p = Some GOOGLE_OAUTH
                 \<or> py_provider p = OUTLOOK \<and> py_auth_type p = Some MICROSOFT_OAUTH)
             then Use_authorization_flow
             else Create_mailbox (p\<lparr>py_client_id := given (py_client_id p), py_refresh_token := given (py_refresh_token p),
               py_client_secret := given (py_client_secret p), py_password := given (py_password p), py_status := None\<rparr>)
         | Some i \<Rightarrow>
             if py_login_password p \<noteq> None \<and> py_grant p = None then Step_up_required else Update_mailbox i p)"

section \<open>Properties\<close>

lemma trim_folders_idem [simp]: "trim_folders (Some (trim_folders f)) = trim_folders f"
  by (simp add: trim_folders_def)

text \<open>C36: Server settings survive editing: settings that were saved from the form are, when the form is filled with
  them and saved unchanged, saved again exactly as they were.\<close>

theorem server_settings_roundtrip:
  assumes "normalize_provider_config_input form = Some config"
  shows "normalize_provider_config_input (Some (build_provider_config_form_values (Some config))) = Some config"
proof -
  obtain f where f: "form = Some f" using assms by (cases form) (simp_all add: normalize_provider_config_input_def)
  define t where "t = trim_folders (mc_folders f)"
  have tt: "trim_folders (Some t) = t" by (simp add: t_def)
  show ?thesis
  proof (cases "fm_inbox t = None \<and> fm_junk t = None \<and> fm_sent t = None")
    case True
    then have "mc_folders config = None" using assms f by (auto simp: normalize_provider_config_input_def Let_def t_def)
    moreover have "trim_folders None = \<lparr>fm_inbox = None, fm_junk = None, fm_sent = None\<rparr>"
      "trim_folders (Some \<lparr>fm_inbox = None, fm_junk = None, fm_sent = None\<rparr>) = \<lparr>fm_inbox = None, fm_junk = None, fm_sent = None\<rparr>"
      by (simp_all add: trim_folders_def)
    ultimately show ?thesis using assms f
      by (auto simp: normalize_provider_config_input_def build_provider_config_form_values_def Let_def)
  next
    case False
    then have "mc_folders config = Some t" using assms f by (auto simp: normalize_provider_config_input_def Let_def t_def)
    then show ?thesis using assms f tt False
      by (auto simp: normalize_provider_config_input_def build_provider_config_form_values_def Let_def t_def)
  qed
qed

text \<open>C10: Submitting the form of a stored mailbox, on every branch. Either the mailbox itself is updated, and each
  credential of the request is decided by the provider and authentication type that the request carries and by
  the text typed into the credential's own field: the password is cleared unless the authentication is by app
  password, the client id, the refresh token and the client secret are cleared unless the provider is Outlook or
  Gmail with Google OAuth; a credential that is used is left as stored when nothing but blanks was typed and is
  otherwise replaced by that text, trimmed. The login password travels trimmed, and with the active grant. Or
  nothing is sent but a step-up asked for: exactly when a login password was typed and there is no grant.\<close>

theorem update_credentials:
  "case handle_email_submit (Some i) grant v of
     Update_mailbox j p \<Rightarrow>
       (let oauth = (py_provider p = OUTLOOK \<or> py_provider p = GMAIL \<and> py_auth_type p = Some GOOGLE_OAUTH);
            app_password = (py_auth_type p = Some APP_PASSWORD)
        in j = i
           \<and> list_all (\<lambda>(sent, typed, used).
               sent = (if used then (case opt_trim typed of None \<Rightarrow> Keep | Some t \<Rightarrow> Give t) else Clear))
             [(py_password p, ev_password v, app_password), (py_client_id p, ev_client_id v, oauth),
              (py_refresh_token p, ev_refresh_token v, oauth), (py_client_secret p, ev_client_secret v, oauth)]
           \<and> py_login_password p = opt_trim (ev_login_password v)
           \<and> py_grant p = (if py_login_password p = None then None else grant)
           \<and> (py_login_password p = None \<or> grant \<noteq> None \<and> grant \<noteq> Some []))
   | Step_up_required \<Rightarrow>
       (\<exists>typed. ev_login_password v = Some typed \<and> trim typed \<noteq> []) \<and> (grant = None \<or> grant = Some [])
   | Use_authorization_flow \<Rightarrow> False
   | Create_mailbox p \<Rightarrow> False"
proof -
  have sent: "normalize_credential_value True typed used =
      (if used then (case opt_trim typed of None \<Rightarrow> Keep | Some t \<Rightarrow> Give t) else Clear)" for typed used
    by (simp add: normalize_credential_value_def split: option.split)
  define p where "p = normalized_payload True grant v"
  have login: "py_login_password p = opt_trim (ev_login_password v)"
    and grant: "py_grant p = (if py_login_password p = None then None else opt_text grant)"
    by (simp_all add: p_def normalized_payload_def)
  have credentials: "list_all (\<lambda>(sent, typed, used).
               sent = (if used then (case opt_trim typed of None \<Rightarrow> Keep | Some t \<Rightarrow> Give t) else Clear))
      [(py_password p, ev_password v, py_auth_type p = Some APP_PASSWORD),
       (py_client_id p, ev_client_id v, py_provider p = OUTLOOK \<or> py_provider p = GMAIL \<and> py_auth_type p = Some GOOGLE_OAUTH),
       (py_refresh_token p, ev_refresh_token v, py_provider p = OUTLOOK \<or> py_provider p = GMAIL \<and> py_auth_type p = Some GOOGLE_OAUTH),
       (py_client_secret p, ev_client_secret v, py_provider p = OUTLOOK \<or> py_provider p = GMAIL \<and> py_auth_type p = Some GOOGLE_OAUTH)]"
    by (simp add: p_def normalized_payload_def sent requires_password_auth_def requires_oauth_fields_def)
  have submit: "handle_email_submit (Some i) grant v =
      (if py_login_password p \<noteq> None \<and> py_grant p = None then Step_up_required else Update_mailbox i p)"
    by (simp add: handle_email_submit_def p_def Let_def)
  show ?thesis
  proof (cases "py_login_password p \<noteq> None \<and> py_grant p = None")
    case True
    then have "(\<exists>typed. ev_login_password v = Some typed \<and> trim typed \<noteq> []) \<and> (grant = None \<or> grant = Some [])"
      using login grant by (auto simp: opt_trim_def opt_text_def split: option.splits if_splits)
    then show ?thesis by (simp add: submit True)
  next
    case False
    then have up: "handle_email_submit (Some i) grant v = Update_mailbox i p" using submit by simp
    from False have "py_grant p = (if py_login_password p = None then None else grant)"
      "py_login_password p = None \<or> grant \<noteq> None \<and> grant \<noteq> Some []"
      using grant by (auto simp: opt_text_def split: option.splits if_splits)
    then show ?thesis unfolding up submission.case Let_def
      by (intro conjI refl credentials login)
  qed
qed

text \<open>New mailboxes: one that is authorized by Google or Microsoft is only created directly with an address;
  a new mailbox carries no cleared credential, no grant and no status.\<close>

theorem created_mailboxes:
  assumes "handle_email_submit None grant v = Create_mailbox p"
  shows "(py_auth_type p = Some MICROSOFT_OAUTH \<and> py_provider p = OUTLOOK \<or> py_auth_type p = Some GOOGLE_OAUTH \<and> py_provider p = GMAIL
      \<longrightarrow> (\<exists>e. py_email p = Some e \<and> e \<noteq> [] \<and> trim e = e))
    \<and> Clear \<notin> {py_password p, py_client_id p, py_refresh_token p, py_client_secret p}
    \<and> py_grant p = None \<and> py_status p = None"
proof -
  have given: "given c \<noteq> Clear" for c by (simp add: given_def split: credential.split)
  show ?thesis using assms given [symmetric]
    by (auto simp: handle_email_submit_def Let_def normalized_payload_def split: if_splits option.splits)
qed

section \<open>Witnesses\<close>

definition demo_config :: mail_provider_config where
  "demo_config = no_overrides\<lparr>mc_imap_host := Some (js ''imap.test''), mc_imap_port := Some 993\<rparr>"

lemma server_settings_roundtrip_witness:
  "normalize_provider_config_input (Some (build_provider_config_form_values
     (Some (the (normalize_provider_config_input (Some demo_config)))))) = normalize_provider_config_input (Some demo_config)"
proof -
  have "normalize_provider_config_input (Some demo_config) = Some (the (normalize_provider_config_input (Some demo_config)))"
    by (simp add: normalize_provider_config_input_def Let_def)
  then show ?thesis using server_settings_roundtrip by metis
qed

definition demo_values :: email_values where
  "demo_values = \<lparr>ev_email = Some (js ''a@b.test''), ev_provider = Some QQ, ev_auth_type = Some APP_PASSWORD,
     ev_client_id = None, ev_refresh_token = None, ev_client_secret = None, ev_password = Some (js ''pw''),
     ev_login_password = None, ev_status = None, ev_group = Undefined, ev_config = None\<rparr>"

lemma update_credentials_witness:
  "\<exists>p. handle_email_submit (Some 7) None demo_values = Update_mailbox 7 p \<and> py_client_id p = Clear
     \<and> py_password p = Give (js ''pw'')"
proof -
  define p where "p = normalized_payload True None demo_values"
  have u: "handle_email_submit (Some 7) None demo_values = Update_mailbox 7 p"
    by (simp add: p_def handle_email_submit_def Let_def normalized_payload_def demo_values_def opt_trim_def)
  have kind: "py_provider p = QQ" "py_auth_type p = Some APP_PASSWORD"
    by (simp_all add: p_def normalized_payload_def chosen_provider_def chosen_auth_def chosen_auth_type_def demo_values_def)
  have typed: "opt_trim (ev_password demo_values) = Some (js ''pw'')"
    by (simp add: demo_values_def opt_trim_def js_eval)
  have sent: "py_client_id p = Clear \<and> py_password p = Give (js ''pw'')"
    using update_credentials [where i = 7 and grant = None and v = demo_values]
    by (simp only: u submission.case Let_def kind typed list.pred_inject prod.case option.case simp_thms
        email_provider.distinct email_auth_type.distinct if_True if_False)
  show ?thesis by (rule exI [of _ p], intro conjI u conjunct1 [OF sent] conjunct2 [OF sent])
qed

lemma created_mailboxes_witness: "\<exists>p. handle_email_submit None None demo_values = Create_mailbox p \<and> py_grant p = None"
proof -
  have "\<exists>p. handle_email_submit None None demo_values = Create_mailbox p"
    by (simp add: handle_email_submit_def Let_def normalized_payload_def demo_values_def chosen_provider_def)
  then show ?thesis using created_mailboxes by blast
qed

end
