(* ===== verification/SecretReveal.thy ===== *)
theory SecretReveal
  imports LoginFlow EmailForm
begin

text \<open>
  Revealing stored secrets on the mailbox page (web/src/pages/emails/index.tsx): the edit window, the
  one-time-password dialog that unlocks a grant, the requests under way, the timers that hide secrets
  and forget the grant, and the part of saving that depends on them. The server is a parameter:
  \<open>details_of\<close> and \<open>vault\<close> give an account's details and stored secrets, \<open>two_factor\<close> tells whether the
  administrator has two-factor authentication. A browser's timer may fire late: \<open>late\<close> is the longest delay, in
  milliseconds. Messages shown are not modelled.
\<close>

section \<open>State\<close>

datatype secret_field = Password_field | Refresh_token_field | Account_password_field

datatype reveal_source = From_edit | From_row

type_synonym secrets = "(secret_field \<times> jstr option) list"

record details =
  de_email :: jstr
  de_uses_oauth :: bool
  de_provider :: email_provider
  de_auth_type :: email_auth_type
  de_client_id :: "jstr option"
  de_status :: jstr
  de_group :: jsval
  de_config :: "mail_provider_config option"

text \<open>
  The edit form holds what it was filled with, changed by what the user has entered since. \<open>resetFields\<close>
  empties it and an answer of details sets every field.
\<close>

datatype form_edit =
    Email_edit "jstr option"
  | Provider_edit email_provider
  | Auth_edit email_auth_type
  | Client_id_edit "jstr option"
  | Refresh_token_edit "jstr option"
  | Client_secret_edit "jstr option"
  | Password_edit "jstr option"
  | Login_password_edit "jstr option"
  | Status_edit "jstr option"
  | Group_edit jsval
  | Config_edit "mail_provider_config option"

fun apply_edit :: "form_edit \<Rightarrow> email_values \<Rightarrow> email_values" where
  "apply_edit (Email_edit x) v = v\<lparr>ev_email := x\<rparr>"
| "apply_edit (Provider_edit p) v = v\<lparr>ev_provider := Some p\<rparr>"
| "apply_edit (Auth_edit a) v = v\<lparr>ev_auth_type := Some a\<rparr>"
| "apply_edit (Client_id_edit x) v = v\<lparr>ev_client_id := x\<rparr>"
| "apply_edit (Refresh_token_edit x) v = v\<lparr>ev_refresh_token := x\<rparr>"
| "apply_edit (Client_secret_edit x) v = v\<lparr>ev_client_secret := x\<rparr>"
| "apply_edit (Password_edit x) v = v\<lparr>ev_password := x\<rparr>"
| "apply_edit (Login_password_edit x) v = v\<lparr>ev_login_password := x\<rparr>"
| "apply_edit (Status_edit x) v = v\<lparr>ev_status := x\<rparr>"
| "apply_edit (Group_edit g) v = v\<lparr>ev_group := g\<rparr>"
| "apply_edit (Config_edit c) v = v\<lparr>ev_config := c\<rparr>"

definition details_config :: "details \<Rightarrow> mail_provider_config option" where
  "details_config d = (case de_config d of Some c \<Rightarrow> Some c
     | None \<Rightarrow> Option.bind (get_provider_profile_definition (de_provider d) (Some (de_auth_type d))) pp_config_defaults)"

definition filled_values :: "details option \<Rightarrow> email_values" where
  "filled_values filled =
     (case filled of
        None \<Rightarrow> \<lparr>ev_email = None, ev_provider = None, ev_auth_type = None, ev_client_id = None, ev_refresh_token = None,
          ev_client_secret = None, ev_password = None, ev_login_password = None, ev_status = None, ev_group = Undefined,
          ev_config = None\<rparr>
      | Some d \<Rightarrow> \<lparr>ev_email = Some (de_email d), ev_provider = Some (de_provider d), ev_auth_type = Some (de_auth_type d),
          ev_client_id = de_client_id d, ev_refresh_token = None, ev_client_secret = None, ev_password = None,
          ev_login_password = None, ev_status = Some (de_status d), ev_group = de_group d,
          ev_config = Some (build_provider_config_form_values (details_config d))\<rparr>)"

definition values_after :: "details option \<Rightarrow> form_edit list \<Rightarrow> email_values" where
  "values_after filled edits = foldr apply_edit edits (filled_values filled)"

text \<open>What a request keeps in its closure; a reveal that follows an unlock ends the dialog's loading.\<close>

datatype reveal_call =
    Details_call nat
  | Unlock_call jstr nat secret_field reveal_source "jstr option"
  | Reveal_call nat secret_field jstr reveal_source "jstr option" bool

text \<open>An update that was sent: the account, what it sends, and the form it was made of.\<close>

record save_request =
  sv_id :: nat
  sv_filled :: "details option"
  sv_edits :: "form_edit list"
  sv_payload :: email_payload

record reveal_page =
  sr_now :: int
  sr_modal :: bool
  sr_editing :: "nat option"
  sr_form :: "details option"
  sr_edits :: "form_edit list"
  sr_edit_loading :: bool
  sr_otp_modal :: bool
  sr_loading :: bool
  sr_otp :: jstr
  sr_grant :: "jstr option"
  sr_grant_expires :: "int option"
  sr_target_id :: "nat option"
  sr_source :: "reveal_source option"
  sr_label :: "jstr option"
  sr_field :: "secret_field option"
  sr_secrets :: secrets
  sr_expires :: "int option"
  sr_row_visible :: bool
  sr_row_password :: "jstr option"
  sr_row_expires :: "int option"
  sr_calls :: "reveal_call list"
  sr_saves :: "save_request list"
  sr_saving :: nat
  sr_left :: bool

section \<open>Handlers\<close>

definition reset_secret_reveal_state :: "reveal_page \<Rightarrow> reveal_page" where
  "reset_secret_reveal_state s =
     s\<lparr>sr_otp_modal := False, sr_otp := [], sr_loading := False, sr_target_id := None, sr_source := None,
       sr_label := None, sr_field := None, sr_secrets := [], sr_expires := None\<rparr>"

definition reset_row_reveal_state :: "reveal_page \<Rightarrow> reveal_page" where
  "reset_row_reveal_state s = s\<lparr>sr_row_visible := False, sr_row_password := None, sr_row_expires := None\<rparr>"

definition close_email_modal :: "reveal_page \<Rightarrow> reveal_page" where
  "close_email_modal s = (reset_secret_reveal_state s)\<lparr>sr_modal := False\<rparr>"

text \<open>What choosing a profile enters, and what a new mailbox starts with; the latest change stands first.\<close>

definition profile_edits :: "provider_profile \<Rightarrow> form_edit list" where
  "profile_edits p =
     [Config_edit (Some (build_provider_config_form_values (pp_config_defaults p))),
      Login_password_edit None, Password_edit None, Client_secret_edit None, Refresh_token_edit None,
      Client_id_edit None, Auth_edit (pp_auth_type p), Provider_edit (pp_provider p)]"

definition new_mailbox_edits :: "provider_profile \<Rightarrow> form_edit list" where
  "new_mailbox_edits p =
     [Config_edit (Some (build_provider_config_form_values (pp_config_defaults p))),
      Status_edit (Some (js ''ACTIVE'')), Auth_edit (pp_auth_type p), Provider_edit (pp_provider p)]"

definition handle_create :: "provider_profile \<Rightarrow> reveal_page \<Rightarrow> reveal_page" where
  "handle_create p s =
     (reset_secret_reveal_state (s\<lparr>sr_editing := None, sr_edit_loading := False\<rparr>))
       \<lparr>sr_form := None, sr_edits := new_mailbox_edits p, sr_modal := True\<rparr>"

definition handle_edit :: "nat \<Rightarrow> reveal_page \<Rightarrow> reveal_page" where
  "handle_edit i s =
     (reset_secret_reveal_state (s\<lparr>sr_editing := Some i, sr_edit_loading := True\<rparr>))
       \<lparr>sr_form := None, sr_edits := [], sr_modal := True, sr_calls := Details_call i # sr_calls s\<rparr>"

text \<open>The account's details, or \<open>None\<close> for another code or a failed request.\<close>

definition on_details :: "nat \<Rightarrow> details option \<Rightarrow> reveal_page \<Rightarrow> reveal_page" where
  "on_details i answer s =
     (case answer of
        None \<Rightarrow> s\<lparr>sr_edit_loading := False\<rparr>
      | Some d \<Rightarrow>
          s\<lparr>sr_target_id := Some i, sr_source := Some From_edit, sr_label := Some (de_email d),
            sr_field := Some (if de_uses_oauth d then Refresh_token_field else Password_field),
            sr_form := Some d, sr_edits := [], sr_edit_loading := False\<rparr>)"

definition clear_grant :: "reveal_page \<Rightarrow> reveal_page" where
  "clear_grant s = s\<lparr>sr_grant := None, sr_grant_expires := None\<rparr>"

definition get_active_reveal_grant_token :: "reveal_page \<Rightarrow> jstr option \<times> reveal_page" where
  "get_active_reveal_grant_token s =
     (case (sr_grant s, sr_grant_expires s) of
        (Some token, Some e) \<Rightarrow>
          if token = [] \<or> e = 0 then (None, s)
          else if e \<le> sr_now s then (None, clear_grant s)
          else (Some token, s)
      | _ \<Rightarrow> (None, s))"

definition open_reveal_modal_for_target ::
  "bool \<Rightarrow> nat \<Rightarrow> secret_field \<Rightarrow> reveal_source \<Rightarrow> jstr option \<Rightarrow> reveal_page \<Rightarrow> reveal_page" where
  "open_reveal_modal_for_target two_factor i fld source label s =
     (if \<not> two_factor then s
      else s\<lparr>sr_target_id := Some i, sr_field := Some fld, sr_source := Some source,
             sr_label := (if label = Some [] then None else label), sr_otp := [], sr_otp_modal := True\<rparr>)"

definition execute_reveal_with_grant ::
  "nat \<Rightarrow> secret_field \<Rightarrow> jstr \<Rightarrow> reveal_source \<Rightarrow> jstr option \<Rightarrow> bool \<Rightarrow> reveal_page \<Rightarrow> reveal_page" where
  "execute_reveal_with_grant i fld token source label unlocking s =
     s\<lparr>sr_calls := Reveal_call i fld token source label unlocking # sr_calls s\<rparr>"

text \<open>With an active grant the secret is asked for at once, otherwise the dialog opens.\<close>

definition reveal_or_unlock ::
  "bool \<Rightarrow> nat \<Rightarrow> secret_field \<Rightarrow> reveal_source \<Rightarrow> jstr option \<Rightarrow> reveal_page \<Rightarrow> reveal_page" where
  "reveal_or_unlock two_factor i fld source label s =
     (case get_active_reveal_grant_token s of
        (Some token, s1) \<Rightarrow> execute_reveal_with_grant i fld token source label False s1
      | (None, s1) \<Rightarrow> open_reveal_modal_for_target two_factor i fld source label s1)"

definition handle_open_reveal_modal :: "bool \<Rightarrow> reveal_page \<Rightarrow> reveal_page" where
  "handle_open_reveal_modal two_factor s =
     (case (sr_editing s, sr_field s) of
        (Some i, Some fld) \<Rightarrow> reveal_or_unlock two_factor i fld From_edit (sr_label s) s
      | _ \<Rightarrow> s)"

definition handle_open_account_login_password_access :: "bool \<Rightarrow> reveal_page \<Rightarrow> reveal_page" where
  "handle_open_account_login_password_access two_factor s =
     (case sr_editing s of
        None \<Rightarrow> s
      | Some i \<Rightarrow>
          reveal_or_unlock two_factor i Account_password_field From_edit (sr_label s)
            (s\<lparr>sr_field := Some Account_password_field, sr_source := Some From_edit\<rparr>))"

definition handle_row_password_reveal :: "bool \<Rightarrow> nat \<Rightarrow> jstr \<Rightarrow> bool \<Rightarrow> reveal_page \<Rightarrow> reveal_page" where
  "handle_row_password_reveal two_factor i email stored s =
     (if \<not> stored then s
      else reveal_or_unlock two_factor i Account_password_field From_row (Some email) s)"

definition handle_confirm_reveal :: "reveal_page \<Rightarrow> reveal_page" where
  "handle_confirm_reveal s =
     (case (sr_target_id s, sr_field s, sr_source s) of
        (Some i, Some fld, Some source) \<Rightarrow>
          (let otp = trim (sr_otp s)
           in if \<not> six_digits otp then s
              else s\<lparr>sr_loading := True, sr_calls := Unlock_call otp i fld source (sr_label s) # sr_calls s\<rparr>)
      | _ \<Rightarrow> s)"

text \<open>The answer to an unlock: a grant with the time its text gives (\<open>None\<close> if it is no date), another code, or an error code.\<close>

datatype unlock_answer = Granted jstr "int option" | Unlock_other | Unlock_failed jstr

text \<open>The effect on \<open>revealGrantExpiresAt\<close>, when the grant is already over.\<close>

definition settle_grant :: "reveal_page \<Rightarrow> reveal_page" where
  "settle_grant s =
     (case sr_grant_expires s of
        None \<Rightarrow> s
      | Some e \<Rightarrow> if e \<noteq> 0 \<and> e \<le> sr_now s then clear_grant s else s)"

definition on_unlock ::
  "nat \<Rightarrow> secret_field \<Rightarrow> reveal_source \<Rightarrow> jstr option \<Rightarrow> unlock_answer \<Rightarrow> reveal_page \<Rightarrow> reveal_page" where
  "on_unlock i fld source label answer s =
     (case answer of
        Granted token expires \<Rightarrow>
          execute_reveal_with_grant i fld token source label True
            (settle_grant (s\<lparr>sr_grant := Some token,
               sr_grant_expires := Some (case expires of Some e \<Rightarrow> e | None \<Rightarrow> sr_now s + 600000),
               sr_otp := [], sr_otp_modal := False\<rparr>))
      | Unlock_other \<Rightarrow> s\<lparr>sr_loading := False\<rparr>
      | Unlock_failed code \<Rightarrow>
          (if code = js ''TWO_FACTOR_REQUIRED''
             then s\<lparr>sr_otp_modal := False, sr_loading := False, sr_left := True\<rparr>
           else s\<lparr>sr_loading := False\<rparr>))"

datatype reveal_answer = Revealed | Reveal_other | Reveal_failed jstr

definition reveal_answered ::
  "bool \<Rightarrow> (nat \<Rightarrow> secrets) \<Rightarrow> nat \<Rightarrow> secret_field \<Rightarrow> reveal_source \<Rightarrow> jstr option \<Rightarrow> reveal_answer
     \<Rightarrow> reveal_page \<Rightarrow> reveal_page" where
  "reveal_answered two_factor vault i fld source label answer s =
     (case answer of
        Revealed \<Rightarrow>
          (if source = From_row \<and> fld = Account_password_field
             then s\<lparr>sr_label := (if label = Some [] then None else label),
                    sr_row_password := Option.bind (map_of (vault i) Account_password_field) (\<lambda>v. v),
                    sr_row_visible := True, sr_row_expires := Some (sr_now s + 60000)\<rparr>
           else s\<lparr>sr_secrets := filter (\<lambda>(f, v). f = fld) (vault i), sr_expires := Some (sr_now s + 60000)\<rparr>)
      | Reveal_other \<Rightarrow> s
      | Reveal_failed code \<Rightarrow>
          (if code = js ''PASSWORD_NOT_PRESENT'' \<or> code = js ''ACCOUNT_LOGIN_PASSWORD_NOT_PRESENT''
             then (if source = From_edit
                   then s\<lparr>sr_secrets := [(fld, None)], sr_expires := Some (sr_now s + 60000)\<rparr> else s)
           else if code = js ''REVEAL_UNLOCK_EXPIRED''
             then open_reveal_modal_for_target two_factor i fld source label (clear_grant s)
           else if code = js ''TWO_FACTOR_REQUIRED'' then s\<lparr>sr_otp_modal := False, sr_left := True\<rparr>
           else s))"

definition on_reveal ::
  "bool \<Rightarrow> (nat \<Rightarrow> secrets) \<Rightarrow> nat \<Rightarrow> secret_field \<Rightarrow> reveal_source \<Rightarrow> jstr option \<Rightarrow> bool \<Rightarrow> reveal_answer
     \<Rightarrow> reveal_page \<Rightarrow> reveal_page" where
  "on_reveal two_factor vault i fld source label unlocking answer s =
     (let t = reveal_answered two_factor vault i fld source label answer s
      in if unlocking then t\<lparr>sr_loading := False\<rparr> else t)"

text \<open>
  Saving an edited account, whether or not its details have come: a new login password needs an active
  grant. (Creating an account is \<open>handle_email_submit\<close> without an account.) A saved account closes the window.
\<close>

definition handle_submit_edit :: "reveal_page \<Rightarrow> reveal_page" where
  "handle_submit_edit s =
     (case sr_editing s of
        None \<Rightarrow> s
      | Some i \<Rightarrow>
          (let v = values_after (sr_form s) (sr_edits s);
               (grant, s1) = (if opt_trim (ev_login_password v) = None then (None, s) else get_active_reveal_grant_token s)
           in case handle_email_submit (Some i) grant v of
                Update_mailbox j p \<Rightarrow>
                  s1\<lparr>sr_saves := \<lparr>sv_id = j, sv_filled = sr_form s, sv_edits = sr_edits s, sv_payload = p\<rparr> # sr_saves s1,
                     sr_saving := Suc (sr_saving s1)\<rparr>
              | _ \<Rightarrow> s1))"

definition on_saved :: "bool \<Rightarrow> reveal_page \<Rightarrow> reveal_page" where
  "on_saved ok s = (let t = s\<lparr>sr_saving := sr_saving s - 1\<rparr> in if ok then close_email_modal t else t)"

section \<open>The machine\<close>

datatype reveal_event =
    Edit_clicked nat | Create_clicked representative_protocol | Edit_closed | Form_edited form_edit
  | Profile_chosen provider_profile | Details_answered nat bool
  | Stored_secret_clicked | Account_access_clicked | Row_reveal_clicked nat jstr bool
  | Otp_entered jstr | Otp_dialog_cancelled | Otp_dialog_confirmed
  | Unlock_answered jstr nat secret_field reveal_source unlock_answer
  | Reveal_answered nat secret_field jstr reveal_source reveal_answer
  | Row_closed | Secret_timer | Row_timer | Grant_timer | Tick int | Save_clicked | Save_answered bool

definition page_idle :: "reveal_page \<Rightarrow> bool" where
  "page_idle s \<longleftrightarrow> \<not> sr_modal s \<and> \<not> sr_otp_modal s \<and> \<not> sr_row_visible s"

definition end_call :: "reveal_call \<Rightarrow> reveal_page \<Rightarrow> reveal_page" where
  "end_call c s = s\<lparr>sr_calls := remove1 c (sr_calls s)\<rparr>"

definition deadlines :: "reveal_page \<Rightarrow> int list" where
  "deadlines s = (case sr_expires s of Some e \<Rightarrow> [e] | None \<Rightarrow> [])
     @ (case sr_row_expires s of Some e \<Rightarrow> [e] | None \<Rightarrow> [])
     @ (case sr_grant_expires s of Some e \<Rightarrow> if e = 0 then [] else [e] | None \<Rightarrow> [])"

text \<open>
  A dialog covers what lies below it: rows need an idle page, the edit window needs that no dialog lies
  over it. Answers come at any time. A timer fires at its deadline or up to \<open>late\<close> milliseconds later. The form's
  own rules decide whether a click on save gets as far as saving; a refused one is no step. A page that was
  left takes no more steps.
\<close>

inductive reveal_step ::
  "nat \<Rightarrow> bool \<Rightarrow> (nat \<Rightarrow> details) \<Rightarrow> (nat \<Rightarrow> secrets) \<Rightarrow> reveal_page \<Rightarrow> reveal_event \<Rightarrow> reveal_page \<Rightarrow> bool"
  for late two_factor details_of vault where
  edit: "\<not> sr_left s \<Longrightarrow> page_idle s \<Longrightarrow> reveal_step late two_factor details_of vault s (Edit_clicked i) (handle_edit i s)"
| create: "\<not> sr_left s \<Longrightarrow> page_idle s \<Longrightarrow> get_default_profile_for_representative_protocol protocol = Some p \<Longrightarrow>
     reveal_step late two_factor details_of vault s (Create_clicked protocol) (handle_create p s)"
| close_edit: "\<not> sr_left s \<Longrightarrow> sr_modal s \<Longrightarrow> \<not> sr_otp_modal s \<Longrightarrow>
     reveal_step late two_factor details_of vault s Edit_closed (close_email_modal s)"
| form_edited: "\<not> sr_left s \<Longrightarrow> sr_modal s \<Longrightarrow> \<not> sr_otp_modal s \<Longrightarrow>
     reveal_step late two_factor details_of vault s (Form_edited x) (s\<lparr>sr_edits := x # sr_edits s\<rparr>)"
| profile_chosen: "\<not> sr_left s \<Longrightarrow> sr_modal s \<Longrightarrow> \<not> sr_otp_modal s \<Longrightarrow>
     reveal_step late two_factor details_of vault s (Profile_chosen p) (s\<lparr>sr_edits := profile_edits p @ sr_edits s\<rparr>)"
| details: "\<not> sr_left s \<Longrightarrow> Details_call i \<in> set (sr_calls s) \<Longrightarrow>
     reveal_step late two_factor details_of vault s (Details_answered i ok)
       (on_details i (if ok then Some (details_of i) else None) (end_call (Details_call i) s))"
| stored_secret: "\<not> sr_left s \<Longrightarrow> sr_modal s \<Longrightarrow> \<not> sr_otp_modal s \<Longrightarrow> two_factor \<Longrightarrow> sr_source s \<noteq> Some From_row \<Longrightarrow>
     reveal_step late two_factor details_of vault s Stored_secret_clicked (handle_open_reveal_modal two_factor s)"
| account_access: "\<not> sr_left s \<Longrightarrow> sr_modal s \<Longrightarrow> \<not> sr_otp_modal s \<Longrightarrow> two_factor \<Longrightarrow>
     reveal_step late two_factor details_of vault s Account_access_clicked
       (handle_open_account_login_password_access two_factor s)"
| row_reveal: "\<not> sr_left s \<Longrightarrow> page_idle s \<Longrightarrow>
     reveal_step late two_factor details_of vault s (Row_reveal_clicked i email stored)
       (handle_row_password_reveal two_factor i email stored s)"
| otp_entered: "\<not> sr_left s \<Longrightarrow> sr_otp_modal s \<Longrightarrow>
     reveal_step late two_factor details_of vault s (Otp_entered text) (s\<lparr>sr_otp := take 6 (filter is_digit text)\<rparr>)"
| otp_cancelled: "\<not> sr_left s \<Longrightarrow> sr_otp_modal s \<Longrightarrow>
     reveal_step late two_factor details_of vault s Otp_dialog_cancelled (s\<lparr>sr_otp_modal := False, sr_otp := []\<rparr>)"
| otp_confirmed: "\<not> sr_left s \<Longrightarrow> sr_otp_modal s \<Longrightarrow> \<not> sr_loading s \<Longrightarrow>
     reveal_step late two_factor details_of vault s Otp_dialog_confirmed (handle_confirm_reveal s)"
| unlock_answered: "\<not> sr_left s \<Longrightarrow> Unlock_call otp i fld source label \<in> set (sr_calls s) \<Longrightarrow>
     reveal_step late two_factor details_of vault s (Unlock_answered otp i fld source answer)
       (on_unlock i fld source label answer (end_call (Unlock_call otp i fld source label) s))"
| reveal_answered: "\<not> sr_left s \<Longrightarrow> Reveal_call i fld token source label unlocking \<in> set (sr_calls s) \<Longrightarrow>
     reveal_step late two_factor details_of vault s (Reveal_answered i fld token source answer)
       (on_reveal two_factor vault i fld source label unlocking answer
          (end_call (Reveal_call i fld token source label unlocking) s))"
| row_closed: "\<not> sr_left s \<Longrightarrow> sr_row_visible s \<Longrightarrow>
     reveal_step late two_factor details_of vault s Row_closed (reset_row_reveal_state s)"
| secret_timer: "\<not> sr_left s \<Longrightarrow> sr_expires s = Some e \<Longrightarrow> e \<le> sr_now s \<Longrightarrow>
     reveal_step late two_factor details_of vault s Secret_timer (s\<lparr>sr_secrets := [], sr_expires := None\<rparr>)"
| row_timer: "\<not> sr_left s \<Longrightarrow> sr_row_expires s = Some e \<Longrightarrow> e \<le> sr_now s \<Longrightarrow>
     reveal_step late two_factor details_of vault s Row_timer (reset_row_reveal_state s)"
| grant_timer: "\<not> sr_left s \<Longrightarrow> sr_grant_expires s = Some e \<Longrightarrow> e \<noteq> 0 \<Longrightarrow> e \<le> sr_now s \<Longrightarrow>
     reveal_step late two_factor details_of vault s Grant_timer (clear_grant s)"
| tick: "\<not> sr_left s \<Longrightarrow> 0 < d \<Longrightarrow> \<forall>e \<in> set (deadlines s). sr_now s + d \<le> e + int late \<Longrightarrow>
     reveal_step late two_factor details_of vault s (Tick d) (s\<lparr>sr_now := sr_now s + d\<rparr>)"
| save: "\<not> sr_left s \<Longrightarrow> sr_modal s \<Longrightarrow> \<not> sr_otp_modal s \<Longrightarrow>
     reveal_step late two_factor details_of vault s Save_clicked (handle_submit_edit s)"
| saved: "\<not> sr_left s \<Longrightarrow> 0 < sr_saving s \<Longrightarrow> reveal_step late two_factor details_of vault s (Save_answered ok) (on_saved ok s)"

inductive_cases reveal_stepE: "reveal_step late two_factor details_of vault s e u"

definition reveal_start :: "reveal_page \<Rightarrow> bool" where
  "reveal_start s \<longleftrightarrow> page_idle s \<and> sr_editing s = None \<and> sr_form s = None \<and> \<not> sr_loading s \<and> sr_grant s = None
     \<and> sr_grant_expires s = None \<and> sr_target_id s = None \<and> sr_source s = None \<and> sr_field s = None
     \<and> sr_secrets s = [] \<and> sr_expires s = None \<and> sr_row_password s = None \<and> sr_row_expires s = None
     \<and> sr_calls s = [] \<and> sr_saves s = [] \<and> sr_saving s = 0 \<and> \<not> sr_left s"

end
