(* ===== verification/SecretSafety.thy ===== *)
theory SecretSafety
  imports SecretReveal
begin

text \<open>
  What revealing secrets guarantees: shown secrets and grants end on time, nothing is asked for or saved
  without a grant, and when secrets and details belong to the account being edited (and when not).
\<close>

lemmas reveal_ops = reset_secret_reveal_state_def reset_row_reveal_state_def close_email_modal_def
  handle_create_def handle_edit_def on_details_def clear_grant_def open_reveal_modal_for_target_def
  execute_reveal_with_grant_def handle_open_reveal_modal_def handle_open_account_login_password_access_def
  handle_row_password_reveal_def handle_confirm_reveal_def settle_grant_def on_unlock_def reveal_answered_def
  on_reveal_def handle_submit_edit_def on_saved_def end_call_def

section \<open>Time\<close>

definition time_inv :: "nat \<Rightarrow> reveal_page \<Rightarrow> bool" where
  "time_inv late s \<longleftrightarrow>
     (sr_secrets s \<noteq> [] \<longrightarrow> sr_expires s \<noteq> None)
     \<and> (sr_row_visible s \<or> sr_row_password s \<noteq> None \<longrightarrow> sr_row_expires s \<noteq> None)
     \<and> (sr_grant s \<noteq> None \<longleftrightarrow> sr_grant_expires s \<noteq> None)
     \<and> (\<forall>e. sr_expires s = Some e \<longrightarrow> sr_now s \<le> e + int late \<and> e \<le> sr_now s + 60000)
     \<and> (\<forall>e. sr_row_expires s = Some e \<longrightarrow> sr_now s \<le> e + int late \<and> e \<le> sr_now s + 60000)
     \<and> (\<forall>e. sr_grant_expires s = Some e \<longrightarrow> e = 0 \<or> sr_now s \<le> e + int late)"

lemma time_start: "reveal_start s \<Longrightarrow> time_inv late s"
  by (simp add: reveal_start_def time_inv_def page_idle_def)

lemma grant_token_cases:
  obtains "get_active_reveal_grant_token s = (None, s)"
  | "get_active_reveal_grant_token s = (None, clear_grant s)"
  | token e where "get_active_reveal_grant_token s = (Some token, s)" "sr_grant s = Some token"
      "sr_grant_expires s = Some e" "sr_now s < e"
proof -
  have "get_active_reveal_grant_token s = (None, s) \<or> get_active_reveal_grant_token s = (None, clear_grant s)
    \<or> (\<exists>token e. get_active_reveal_grant_token s = (Some token, s) \<and> sr_grant s = Some token
          \<and> sr_grant_expires s = Some e \<and> sr_now s < e)"
    by (simp add: get_active_reveal_grant_token_def split: option.split)
  then show ?thesis using that by blast
qed

text \<open>Saving does nothing, forgets a grant that is over, or sends what the form says; a login password only with the grant.\<close>

lemma submit_cases:
  obtains "handle_submit_edit s = s" | "handle_submit_edit s = clear_grant s"
  | i p where "sr_editing s = Some i"
      "handle_submit_edit s = s\<lparr>sr_saves := \<lparr>sv_id = i, sv_filled = sr_form s, sv_edits = sr_edits s, sv_payload = p\<rparr> # sr_saves s,
         sr_saving := Suc (sr_saving s)\<rparr>"
      "p = normalized_payload True (py_grant p) (values_after (sr_form s) (sr_edits s))"
      "py_login_password p = None \<or> py_grant p \<noteq> None" "py_grant p = None \<or> py_grant p = sr_grant s"
proof (cases "sr_editing s")
  case None
  then show ?thesis using that(1) by (simp add: handle_submit_edit_def)
next
  case (Some i)
  let ?v = "values_after (sr_form s) (sr_edits s)"
  let ?p = "\<lambda>grant. normalized_payload True grant ?v"
  have login: "py_login_password (?p g) = opt_trim (ev_login_password ?v)" for g by (simp add: normalized_payload_def)
  have grant: "py_grant (?p g) = (if opt_trim (ev_login_password ?v) = None then None else opt_text g)" for g
    by (simp add: normalized_payload_def)
  have again: "?p g = ?p (py_grant (?p g))" for g by (simp add: normalized_payload_def opt_text_def split: option.split)
  have sent: "handle_email_submit (Some i) g ?v =
      (if py_login_password (?p g) \<noteq> None \<and> py_grant (?p g) = None then Step_up_required else Update_mailbox i (?p g))" for g
    by (simp add: handle_email_submit_def Let_def)
  show ?thesis
  proof (cases "opt_trim (ev_login_password ?v) = None")
    case True
    show ?thesis
    proof (rule that(3) [OF Some _ again])
      show "handle_submit_edit s = s\<lparr>sr_saves := \<lparr>sv_id = i, sv_filled = sr_form s, sv_edits = sr_edits s, sv_payload = ?p None\<rparr> # sr_saves s,
         sr_saving := Suc (sr_saving s)\<rparr>"
        using True by (simp add: handle_submit_edit_def Let_def Some sent login grant)
    qed (use True login grant in simp_all)
  next
    case False
    show ?thesis
    proof (rule grant_token_cases [of s])
      fix token e
      assume g: "get_active_reveal_grant_token s = (Some token, s)" "sr_grant s = Some token"
      then have "token \<noteq> []" by (auto simp: get_active_reveal_grant_token_def split: option.splits if_splits)
      then have t: "opt_text (Some token) = Some token" by (simp add: opt_text_def)
      show ?thesis
      proof (rule that(3) [OF Some _ again])
        show "handle_submit_edit s = s\<lparr>sr_saves := \<lparr>sv_id = i, sv_filled = sr_form s, sv_edits = sr_edits s, sv_payload = ?p (Some token)\<rparr> # sr_saves s,
           sr_saving := Suc (sr_saving s)\<rparr>"
          using False t by (simp add: handle_submit_edit_def Let_def Some g sent login grant)
      qed (use False t g login grant in simp_all)
    next
      assume "get_active_reveal_grant_token s = (None, s)"
      then show ?thesis using that(1) False by (simp add: handle_submit_edit_def Let_def Some sent login grant opt_text_def)
    next
      assume "get_active_reveal_grant_token s = (None, clear_grant s)"
      then show ?thesis using that(2) False by (simp add: handle_submit_edit_def Let_def Some sent login grant opt_text_def)
    qed
  qed
qed

lemma time_end_call [simp]: "time_inv late (end_call c s) = time_inv late s"
  by (simp add: time_inv_def end_call_def)

lemma time_open [simp]: "time_inv late (open_reveal_modal_for_target tf i fld source label s) = time_inv late s"
  by (simp add: time_inv_def open_reveal_modal_for_target_def)

lemma time_clear: "time_inv late s \<Longrightarrow> time_inv late (clear_grant s)"
  by (simp add: time_inv_def clear_grant_def)

lemma time_reveal_or_unlock: "time_inv late s \<Longrightarrow> time_inv late (reveal_or_unlock tf i fld source label s)"
  by (rule grant_token_cases [of s])
    (simp_all add: reveal_or_unlock_def time_clear, simp add: time_inv_def execute_reveal_with_grant_def)

lemma time_frame:
  assumes "time_inv late s" "sr_now u = sr_now s" "sr_secrets u = sr_secrets s \<or> sr_secrets u = []"
    "sr_expires u = sr_expires s \<or> sr_secrets u = [] \<and> sr_expires u = None"
    "sr_row_visible u = sr_row_visible s" "sr_row_password u = sr_row_password s"
    "sr_row_expires u = sr_row_expires s" "sr_grant u = sr_grant s" "sr_grant_expires u = sr_grant_expires s"
  shows "time_inv late u"
proof (cases "sr_secrets u = []")
  case True
  then show ?thesis using assms(1,2,4-9) unfolding time_inv_def by (elim disjE conjE) simp_all
next
  case False
  then show ?thesis using assms unfolding time_inv_def by simp
qed

lemma time_reset_row: "time_inv late s \<Longrightarrow> time_inv late (reset_row_reveal_state s)"
  by (simp add: time_inv_def reset_row_reveal_state_def)

lemma time_answered:
  assumes "time_inv late s"
  shows "time_inv late (reveal_answered tf vault i fld source label answer s)"
proof (cases answer)
  case Revealed
  then show ?thesis using assms by (simp add: reveal_answered_def time_inv_def)
next
  case Reveal_other
  then show ?thesis using assms by (simp add: reveal_answered_def)
next
  case (Reveal_failed code)
  have "time_inv late (s\<lparr>sr_secrets := x, sr_expires := Some (sr_now s + 60000)\<rparr>)" for x
    using assms by (simp add: time_inv_def)
  moreover have "time_inv late (s\<lparr>sr_otp_modal := b, sr_left := l\<rparr>)" for b l
    by (rule time_frame [OF assms]) simp_all
  ultimately show ?thesis using assms time_clear [OF assms] by (simp add: reveal_answered_def Reveal_failed)
qed

lemma time_unlock:
  assumes "time_inv late s"
  shows "time_inv late (on_unlock i fld source label answer s)"
proof (cases answer)
  case (Granted token expires)
  have "time_inv late (execute_reveal_with_grant i fld token source label b t) = time_inv late t" for b t
    by (simp add: time_inv_def execute_reveal_with_grant_def)
  moreover have "time_inv late (settle_grant (s\<lparr>sr_grant := Some token, sr_grant_expires := Some x, sr_otp := [], sr_otp_modal := False\<rparr>))" for x
    using assms by (auto simp: time_inv_def settle_grant_def clear_grant_def)
  ultimately show ?thesis by (simp add: on_unlock_def Granted)
next
  case Unlock_other
  show ?thesis by (rule time_frame [OF assms]) (simp_all add: on_unlock_def Unlock_other)
next
  case (Unlock_failed code)
  show ?thesis by (rule time_frame [OF assms]) (simp_all add: on_unlock_def Unlock_failed)
qed

lemma time_submit: "time_inv late s \<Longrightarrow> time_inv late (handle_submit_edit s)"
  by (rule submit_cases [of s]) (simp_all add: time_clear, simp add: time_inv_def)

lemma time_saved: "time_inv late s \<Longrightarrow> time_inv late (on_saved ok s)"
  by (rule time_frame [of late s]) (simp_all add: on_saved_def Let_def close_email_modal_def reset_secret_reveal_state_def)

lemma time_step:
  assumes "time_inv late s" "reveal_step late tf details_of vault s e u"
  shows "time_inv late u"
  using assms(2)
proof (cases rule: reveal_step.cases)
  case account_access
  have "time_inv late (s\<lparr>sr_field := f, sr_source := so\<rparr>)" for f so by (rule time_frame [OF assms(1)]) simp_all
  then show ?thesis using account_access
    by (simp add: handle_open_account_login_password_access_def time_reveal_or_unlock assms(1) split: option.split)
next
  case (reveal_answered i fld token source label unlocking answer)
  have loading: "time_inv late (t\<lparr>sr_loading := b\<rparr>) = time_inv late t" for t b by (simp add: time_inv_def)
  show ?thesis using reveal_answered assms(1) by (simp add: on_reveal_def Let_def loading time_answered)
next
  case (tick d)
  then have "sr_expires s = Some x \<Longrightarrow> sr_now s + d \<le> x + int late"
    "sr_row_expires s = Some x \<Longrightarrow> sr_now s + d \<le> x + int late"
    "sr_grant_expires s = Some x \<Longrightarrow> x \<noteq> 0 \<Longrightarrow> sr_now s + d \<le> x + int late" for x
    by (simp_all add: deadlines_def)
  with assms(1) \<open>0 < d\<close> show ?thesis unfolding tick time_inv_def by fastforce
next
  case stored_secret
  then show ?thesis using assms(1)
    by (simp add: handle_open_reveal_modal_def time_reveal_or_unlock split: option.split)
next
  case row_reveal
  then show ?thesis using assms(1) by (simp add: handle_row_password_reveal_def time_reveal_or_unlock)
next
  case secret_timer
  show ?thesis by (rule time_frame [OF assms(1)]) (simp_all add: secret_timer)
next
  case otp_confirmed
  show ?thesis
    by (rule time_frame [OF assms(1)]) (simp_all add: otp_confirmed handle_confirm_reveal_def Let_def split: option.split)
next
  case details
  show ?thesis
    by (rule time_frame [OF assms(1)]) (simp_all add: details on_details_def end_call_def)
qed (simp_all add: time_submit time_saved time_unlock time_clear time_reset_row assms(1),
    (rule time_frame [OF assms(1)];
     simp add: handle_edit_def handle_create_def close_email_modal_def reset_secret_reveal_state_def)+)

interpretation reveal_time: machine_invariant reveal_start "reveal_step late tf details_of vault" "time_inv late"
  for late tf details_of vault
  by unfold_locales (simp_all add: time_start time_step)

section \<open>Grants\<close>

text \<open>The tokens a page holds: its grant, those of requests under way and of saves.\<close>

definition tokens :: "reveal_page \<Rightarrow> jstr set" where
  "tokens s = {t. sr_grant s = Some t}
     \<union> {t. \<exists>i fld source label unlocking. Reveal_call i fld t source label unlocking \<in> set (sr_calls s)}
     \<union> {t. \<exists>sv \<in> set (sr_saves s). py_grant (sv_payload sv) = Some t}"

definition otps_ok :: "reveal_page \<Rightarrow> bool" where
  "otps_ok s \<longleftrightarrow> (\<forall>otp i fld source label. Unlock_call otp i fld source label \<in> set (sr_calls s) \<longrightarrow> six_digits otp)
     \<and> (\<forall>sv \<in> set (sr_saves s). py_login_password (sv_payload sv) \<noteq> None \<longrightarrow> py_grant (sv_payload sv) \<noteq> None)"

definition granted_by :: "reveal_event \<Rightarrow> jstr set" where
  "granted_by e = {t. \<exists>otp i fld source x. e = Unlock_answered otp i fld source (Granted t x) \<and> six_digits otp}"

lemma tokens_simps:
  "tokens (clear_grant s) \<subseteq> tokens s" "tokens (end_call c s) \<subseteq> tokens s"
  "tokens (open_reveal_modal_for_target tf i fld source label s) = tokens s"
  by (auto simp: tokens_def clear_grant_def end_call_def open_reveal_modal_for_target_def
      dest: set_remove1_subset [THEN subsetD])

lemma tokens_reveal_or_unlock: "tokens (reveal_or_unlock tf i fld source label s) \<subseteq> tokens s"
proof (rule grant_token_cases [of s])
  fix token e
  assume a: "get_active_reveal_grant_token s = (Some token, s)" "sr_grant s = Some token"
  then show ?thesis by (auto simp: reveal_or_unlock_def execute_reveal_with_grant_def tokens_def)
qed (use tokens_simps in \<open>simp_all add: reveal_or_unlock_def\<close>)

lemma otps_simps:
  "otps_ok (clear_grant s) = otps_ok s" "otps_ok s \<Longrightarrow> otps_ok (end_call c s)"
  "otps_ok (open_reveal_modal_for_target tf i fld source label s) = otps_ok s"
proof -
  assume "otps_ok s"
  then show "otps_ok (end_call c s)"
    unfolding otps_ok_def end_call_def using set_remove1_subset [of c "sr_calls s"] by auto blast
qed (simp_all add: otps_ok_def clear_grant_def open_reveal_modal_for_target_def)

lemma otps_reveal_or_unlock: "otps_ok s \<Longrightarrow> otps_ok (reveal_or_unlock tf i fld source label s)"
  by (rule grant_token_cases [of s])
    (simp_all add: reveal_or_unlock_def otps_simps, simp add: otps_ok_def execute_reveal_with_grant_def)

lemma submit_tokens: "tokens (handle_submit_edit s) \<subseteq> tokens s"
  by (rule submit_cases [of s]) (simp_all add: tokens_simps(1), auto simp: tokens_def)

lemma submit_otps: "otps_ok s \<Longrightarrow> otps_ok (handle_submit_edit s)"
  by (rule submit_cases [of s]) (simp_all add: otps_simps(1), auto simp: otps_ok_def)

lemma answered_tokens: "tokens (reveal_answered tf vault i fld source label answer s) \<subseteq> tokens s"
proof (cases answer)
  case (Reveal_failed code)
  then show ?thesis using tokens_simps(1) [of s]
    by (simp add: reveal_answered_def tokens_simps(3)) (auto simp: tokens_def)
qed (auto simp: reveal_answered_def tokens_def)

lemma answered_otps: "otps_ok s \<Longrightarrow> otps_ok (reveal_answered tf vault i fld source label answer s)"
  by (auto simp: reveal_answered_def otps_simps split: reveal_answer.split) (auto simp: otps_ok_def)

lemma unlock_tokens: "tokens (on_unlock i fld source label answer s) \<subseteq> tokens s \<union> {t. \<exists>x. answer = Granted t x}"
  by (cases answer)
    (auto simp: on_unlock_def settle_grant_def clear_grant_def execute_reveal_with_grant_def tokens_def split: option.splits)

lemma unlock_otps: "otps_ok s \<Longrightarrow> otps_ok (on_unlock i fld source label answer s)"
  by (cases answer)
    (auto simp: on_unlock_def settle_grant_def clear_grant_def execute_reveal_with_grant_def otps_ok_def split: option.splits)

lemma token_frames [simp]:
  "tokens (on_details i a s) = tokens s" "tokens (handle_edit i s) = tokens s" "tokens (handle_create p s) = tokens s"
  "tokens (close_email_modal s) = tokens s" "tokens (reset_row_reveal_state s) = tokens s"
  "tokens (on_saved ok s) = tokens s" "tokens (s\<lparr>sr_edits := ed\<rparr>) = tokens s"
  "tokens (s\<lparr>sr_otp := text\<rparr>) = tokens s" "tokens (s\<lparr>sr_otp_modal := b\<rparr>) = tokens s"
  "tokens (s\<lparr>sr_secrets := sec\<rparr>) = tokens s" "tokens (s\<lparr>sr_expires := x\<rparr>) = tokens s" "tokens (s\<lparr>sr_now := n\<rparr>) = tokens s"
  "tokens (s\<lparr>sr_field := f\<rparr>) = tokens s" "tokens (s\<lparr>sr_source := so\<rparr>) = tokens s" "tokens (s\<lparr>sr_loading := b\<rparr>) = tokens s"
  by (simp_all add: tokens_def on_details_def handle_edit_def handle_create_def close_email_modal_def on_saved_def Let_def
      reset_secret_reveal_state_def reset_row_reveal_state_def split: option.split)

lemma otps_frames [simp]:
  "otps_ok (on_details i a s) = otps_ok s" "otps_ok (handle_edit i s) = otps_ok s" "otps_ok (handle_create p s) = otps_ok s"
  "otps_ok (close_email_modal s) = otps_ok s" "otps_ok (reset_row_reveal_state s) = otps_ok s"
  "otps_ok (on_saved ok s) = otps_ok s" "otps_ok (s\<lparr>sr_edits := ed\<rparr>) = otps_ok s"
  "otps_ok (s\<lparr>sr_otp := text\<rparr>) = otps_ok s" "otps_ok (s\<lparr>sr_otp_modal := b\<rparr>) = otps_ok s"
  "otps_ok (s\<lparr>sr_secrets := sec\<rparr>) = otps_ok s" "otps_ok (s\<lparr>sr_expires := x\<rparr>) = otps_ok s" "otps_ok (s\<lparr>sr_now := n\<rparr>) = otps_ok s"
  "otps_ok (s\<lparr>sr_field := f\<rparr>) = otps_ok s" "otps_ok (s\<lparr>sr_source := so\<rparr>) = otps_ok s" "otps_ok (s\<lparr>sr_loading := b\<rparr>) = otps_ok s"
  by (simp_all add: otps_ok_def on_details_def handle_edit_def handle_create_def close_email_modal_def on_saved_def Let_def
      reset_secret_reveal_state_def reset_row_reveal_state_def split: option.split)

lemma token_step:
  assumes "otps_ok s" "reveal_step late tf details_of vault s e u"
  shows "otps_ok u \<and> tokens u \<subseteq> tokens s \<union> granted_by e"
  using assms(2)
proof (cases rule: reveal_step.cases)
  case (account_access)
  have "tokens (reveal_or_unlock tf i fld source label t) \<subseteq> tokens t" for i fld source label t
    by (rule tokens_reveal_or_unlock)
  then show ?thesis using assms(1) unfolding account_access handle_open_account_login_password_access_def
    by (cases "sr_editing s") (simp_all add: otps_reveal_or_unlock le_supI1 subset_trans, metis token_frames le_supI1)
next
  case (reveal_answered i fld token source label unlocking answer)
  have "otps_ok (reveal_answered tf vault i fld source label answer (end_call c s))"
    "tokens (reveal_answered tf vault i fld source label answer (end_call c s)) \<subseteq> tokens s" for c
    using assms(1) answered_tokens tokens_simps(2) by (simp_all add: answered_otps otps_simps(2)) blast
  then show ?thesis unfolding reveal_answered on_reveal_def Let_def
    by (cases unlocking) (simp_all add: le_supI1)
next
  case save
  then show ?thesis using assms(1) submit_tokens submit_otps by blast
next
  case (unlock_answered otp i fld source label answer)
  have "six_digits otp" using unlock_answered assms(1) unfolding otps_ok_def by blast
  moreover have "otps_ok (end_call (Unlock_call otp i fld source label) s)"
    "tokens (end_call (Unlock_call otp i fld source label) s) \<subseteq> tokens s"
    using assms(1) otps_simps(2) tokens_simps(2) by blast+
  ultimately show ?thesis
    using unlock_tokens [of i fld source label answer "end_call (Unlock_call otp i fld source label) s"]
    unfolding unlock_answered by (auto simp: unlock_otps granted_by_def)
next
  case (otp_confirmed)
  then show ?thesis using assms(1)
    by (auto simp: handle_confirm_reveal_def Let_def otps_ok_def tokens_def split: option.split) blast
next
  case (details i ok)
  then show ?thesis using otps_simps(2) [OF assms(1)] tokens_simps(2) by (simp add: le_supI1)
next
  case (grant_timer)
  then show ?thesis using assms(1) tokens_simps(1) by (auto simp: otps_simps)
next
  case (stored_secret)
  then show ?thesis using assms(1) tokens_reveal_or_unlock
    by (simp add: handle_open_reveal_modal_def otps_reveal_or_unlock le_supI1 split: option.split)
next
  case (row_reveal)
  then show ?thesis using assms(1) tokens_reveal_or_unlock
    by (simp add: handle_row_password_reveal_def otps_reveal_or_unlock le_supI1)
qed (use assms(1) in simp_all)

lemma token_run:
  "run (reveal_step late tf details_of vault) s es u \<Longrightarrow> otps_ok s \<Longrightarrow>
     otps_ok u \<and> tokens u \<subseteq> tokens s \<union> \<Union> (granted_by ` set es)"
proof (induction rule: run.induct)
  case (run_Cons s e v es u)
  then show ?case using token_step [OF run_Cons.prems run_Cons.hyps(1)] by auto
qed simp

section \<open>Whose secrets are shown\<close>

text \<open>A target is sound: an edited account's own, or a row's login password while no edit window is open.\<close>

definition sound_target :: "reveal_page \<Rightarrow> nat \<Rightarrow> secret_field \<Rightarrow> reveal_source \<Rightarrow> bool" where
  "sound_target s i fld source \<longleftrightarrow>
     (case source of From_edit \<Rightarrow> sr_editing s = Some i
      | From_row \<Rightarrow> fld = Account_password_field \<and> \<not> sr_modal s)"

definition sound_call :: "reveal_page \<Rightarrow> reveal_call \<Rightarrow> bool" where
  "sound_call s c = (case c of Details_call i \<Rightarrow> sr_editing s = Some i
     | Unlock_call otp i fld source label \<Rightarrow> sound_target s i fld source
     | Reveal_call i fld token source label unlocking \<Rightarrow> sound_target s i fld source)"

text \<open>A save that writes an account's own details, as far as the form had them, changed by what was entered.\<close>

definition own_save :: "(nat \<Rightarrow> details) \<Rightarrow> save_request \<Rightarrow> bool" where
  "own_save details_of sv \<longleftrightarrow> (sv_filled sv = None \<or> sv_filled sv = Some (details_of (sv_id sv)))
     \<and> sv_payload sv = normalized_payload True (py_grant (sv_payload sv)) (values_after (sv_filled sv) (sv_edits sv))"

definition owned :: "(nat \<Rightarrow> details) \<Rightarrow> (nat \<Rightarrow> secrets) \<Rightarrow> reveal_page \<Rightarrow> bool" where
  "owned details_of vault s \<longleftrightarrow>
     list_all (sound_call s) (sr_calls s)
     \<and> (sr_source s \<noteq> Some From_row \<longrightarrow> (\<forall>j. sr_target_id s = Some j \<longrightarrow> sr_editing s = Some j))
     \<and> (sr_source s = Some From_row \<longrightarrow> sr_field s = Some Account_password_field \<and> \<not> sr_modal s)
     \<and> list_all (\<lambda>(f, v). \<exists>i. sr_editing s = Some i \<and> (v = None \<or> (f, v) \<in> set (vault i))) (sr_secrets s)
     \<and> (\<forall>d. sr_form s = Some d \<longrightarrow> (\<exists>i. sr_editing s = Some i \<and> d = details_of i))
     \<and> list_all (own_save details_of) (sr_saves s)"

lemma sound_frame:
  "sr_editing u = sr_editing s \<Longrightarrow> sr_modal u = sr_modal s \<Longrightarrow> sound_call u = sound_call s"
  by (rule ext) (auto simp: sound_call_def sound_target_def split: reveal_call.split reveal_source.split)

lemma owned_frame:
  assumes "sr_editing u = sr_editing s" "sr_modal u = sr_modal s" "set (sr_calls u) \<subseteq> set (sr_calls s)"
    "sr_source u = sr_source s" "sr_target_id u = sr_target_id s" "sr_field u = sr_field s"
    "sr_secrets u = sr_secrets s" "sr_form u = sr_form s" "sr_saves u = sr_saves s"
    and "owned details_of vault s"
  shows "owned details_of vault u"
  using assms sound_frame [OF assms(1,2)] by (auto simp: owned_def list_all_iff)

lemma owned_clear: "owned details_of vault s \<Longrightarrow> owned details_of vault (clear_grant s)"
  by (rule owned_frame [of _ s]) (simp_all add: clear_grant_def)

lemma owned_end: "owned details_of vault s \<Longrightarrow> owned details_of vault (end_call c s)"
  by (rule owned_frame [of _ s]) (simp_all add: end_call_def set_remove1_subset)

lemma owned_open:
  "owned details_of vault s \<Longrightarrow> sound_target s i fld source \<Longrightarrow>
     owned details_of vault (open_reveal_modal_for_target tf i fld source label s)"
  using sound_frame [of "open_reveal_modal_for_target tf i fld source label s" s]
  by (auto simp: owned_def open_reveal_modal_for_target_def sound_target_def split: reveal_source.splits)

lemma owned_execute:
  "owned details_of vault s \<Longrightarrow> sound_target s i fld source \<Longrightarrow>
     owned details_of vault (execute_reveal_with_grant i fld token source label unlocking s)"
  using sound_frame [of "execute_reveal_with_grant i fld token source label unlocking s" s]
  by (auto simp: owned_def execute_reveal_with_grant_def sound_call_def)

lemma owned_reveal_or_unlock:
  assumes "owned details_of vault s" "sound_target s i fld source"
  shows "owned details_of vault (reveal_or_unlock tf i fld source label s)"
proof (rule grant_token_cases [of s])
  have "sound_target (clear_grant s) i fld source" using assms(2)
    by (simp add: sound_target_def clear_grant_def split: reveal_source.splits)
  moreover assume "get_active_reveal_grant_token s = (None, clear_grant s)"
  ultimately show ?thesis using owned_open [OF owned_clear [OF assms(1)]] by (simp add: reveal_or_unlock_def)
qed (use assms owned_open owned_execute in \<open>simp_all add: reveal_or_unlock_def\<close>)

text \<open>Runs in which no edit window is opened while a request is under way.\<close>

definition calm_step ::
  "nat \<Rightarrow> bool \<Rightarrow> (nat \<Rightarrow> details) \<Rightarrow> (nat \<Rightarrow> secrets) \<Rightarrow> reveal_page \<Rightarrow> reveal_event \<Rightarrow> reveal_page \<Rightarrow> bool" where
  "calm_step late two_factor details_of vault s e u \<longleftrightarrow> reveal_step late two_factor details_of vault s e u
     \<and> (case e of Edit_clicked i \<Rightarrow> sr_calls s = [] | Create_clicked protocol \<Rightarrow> sr_calls s = [] | _ \<Rightarrow> True)"

lemma owned_answered:
  assumes "owned details_of vault s" "sound_target s i fld source"
  shows "owned details_of vault (reveal_answered tf vault i fld source label answer s)"
proof (cases answer)
  case Revealed
  have "sound_call (s\<lparr>sr_secrets := x, sr_expires := y\<rparr>) = sound_call s"
    "sound_call (s\<lparr>sr_label := l, sr_row_password := p, sr_row_visible := b, sr_row_expires := y\<rparr>) = sound_call s" for x y l p b
    by (rule sound_frame; simp)+
  then show ?thesis using assms Revealed
    by (auto simp: reveal_answered_def owned_def sound_target_def list_all_iff split: reveal_source.splits)
next
  case Reveal_other
  then show ?thesis using assms by (simp add: reveal_answered_def)
next
  case (Reveal_failed code)
  have "sound_target (clear_grant s) i fld source"
    using assms(2) by (simp add: sound_target_def clear_grant_def split: reveal_source.splits)
  note opened = owned_open [OF owned_clear [OF assms(1)] this]
  have left: "owned details_of vault (s\<lparr>sr_otp_modal := b, sr_left := l\<rparr>)" for b l
    by (rule owned_frame [OF _ _ _ _ _ _ _ _ _ assms(1)]) simp_all
  have frame: "sound_call (s\<lparr>sr_secrets := x, sr_expires := y\<rparr>) = sound_call s" for x y
    by (rule sound_frame) simp_all
  have missing: "source = From_edit \<Longrightarrow> owned details_of vault (s\<lparr>sr_secrets := [(fld, None)], sr_expires := y\<rparr>)" for y
    using assms frame by (auto simp: owned_def sound_target_def)
  show ?thesis using assms(1) opened left missing Reveal_failed by (simp add: reveal_answered_def)
qed

lemma owned_unlock:
  assumes "owned details_of vault s" "sound_target s i fld source"
  shows "owned details_of vault (on_unlock i fld source label answer s)"
proof (cases answer)
  case (Granted token expires)
  let ?g = "settle_grant (s\<lparr>sr_grant := Some token,
      sr_grant_expires := Some (case expires of Some e \<Rightarrow> e | None \<Rightarrow> sr_now s + 600000), sr_otp := [], sr_otp_modal := False\<rparr>)"
  have "owned details_of vault ?g"
    by (rule owned_frame [OF _ _ _ _ _ _ _ _ _ assms(1)]) (simp_all add: settle_grant_def clear_grant_def split: option.split)
  moreover have "sound_target ?g i fld source"
    using assms(2) by (auto simp: sound_target_def settle_grant_def clear_grant_def split: reveal_source.splits option.split)
  ultimately show ?thesis using Granted by (simp add: on_unlock_def owned_execute)
next
  case Unlock_other
  show ?thesis
    by (rule owned_frame [OF _ _ _ _ _ _ _ _ _ assms(1)]) (simp_all add: on_unlock_def Unlock_other)
next
  case (Unlock_failed code)
  show ?thesis
    by (rule owned_frame [OF _ _ _ _ _ _ _ _ _ assms(1)]) (simp_all add: on_unlock_def Unlock_failed)
qed

lemma sound_end: "sound_target (end_call c s) i fld source = sound_target s i fld source"
  by (simp add: sound_target_def end_call_def split: reveal_source.split)

lemma owned_reset:
  assumes "sr_editing u = i" "sr_calls u = cs" "sr_source u = None" "sr_target_id u = None" "sr_secrets u = []"
    "sr_form u = None" "sr_saves u = sr_saves s" "list_all (sound_call u) cs" "owned details_of vault s"
  shows "owned details_of vault u"
  using assms by (simp add: owned_def)

lemma owned_close:
  assumes "owned details_of vault s"
  shows "owned details_of vault (close_email_modal s)"
proof -
  have "sound_call s c \<Longrightarrow> sound_call (close_email_modal s) c" for c
    by (auto simp: sound_call_def sound_target_def close_email_modal_def reset_secret_reveal_state_def
        split: reveal_call.splits reveal_source.splits)
  then show ?thesis using assms
    by (auto simp: owned_def close_email_modal_def reset_secret_reveal_state_def list_all_iff)
qed

lemma owned_details:
  assumes "owned details_of vault s" "sr_editing s = Some i"
  shows "owned details_of vault (on_details i (if ok then Some (details_of i) else None) s)"
  using assms sound_frame [of "on_details i (if ok then Some (details_of i) else None) s" s]
  by (auto simp: owned_def on_details_def)

lemma owned_confirm:
  assumes "owned details_of vault s"
  shows "owned details_of vault (handle_confirm_reveal s)"
proof -
  have "sound_target s i fld source" if "sr_target_id s = Some i" "sr_field s = Some fld" "sr_source s = Some source" for i fld source
    using that assms by (cases source) (auto simp: owned_def sound_target_def)
  then show ?thesis
    using assms sound_frame [of "handle_confirm_reveal s" s]
    by (auto simp: handle_confirm_reveal_def Let_def owned_def sound_call_def split: option.splits)
qed

lemma owned_save:
  assumes "owned details_of vault s"
  shows "owned details_of vault (handle_submit_edit s)"
proof (rule submit_cases [of s])
  fix i p
  let ?sv = "\<lparr>sv_id = i, sv_filled = sr_form s, sv_edits = sr_edits s, sv_payload = p\<rparr>"
  assume i: "sr_editing s = Some i"
    and u: "handle_submit_edit s = s\<lparr>sr_saves := ?sv # sr_saves s, sr_saving := Suc (sr_saving s)\<rparr>"
    and p: "p = normalized_payload True (py_grant p) (values_after (sr_form s) (sr_edits s))"
  have "sr_form s = None \<or> sr_form s = Some (details_of i)" using assms i by (cases "sr_form s") (auto simp: owned_def)
  then have "own_save details_of ?sv" using p by (simp add: own_save_def)
  then show ?thesis using assms sound_frame [of "handle_submit_edit s" s] unfolding u by (simp add: owned_def)
qed (use assms owned_clear in simp_all)

lemma owned_saved:
  assumes "owned details_of vault s"
  shows "owned details_of vault (on_saved ok s)"
proof -
  have "owned details_of vault (s\<lparr>sr_saving := n\<rparr>)" for n
    by (rule owned_frame [OF _ _ _ _ _ _ _ _ _ assms]) simp_all
  then show ?thesis using owned_close by (simp add: on_saved_def Let_def)
qed

lemma owned_step:
  assumes "owned details_of vault s" "calm_step late tf details_of vault s e u"
  shows "owned details_of vault u"
proof -
  have step: "reveal_step late tf details_of vault s e u" using assms(2) by (simp add: calm_step_def)
  then show ?thesis
  proof (cases rule: reveal_step.cases)
    case (edit i)
    then have "sr_calls s = []" using assms(2) by (simp add: calm_step_def)
    then show ?thesis using edit
      by (intro owned_reset [OF _ refl _ _ _ _ _ _ assms(1)])
        (simp_all add: handle_edit_def reset_secret_reveal_state_def sound_call_def)
  next
    case create
    then have "sr_calls s = []" using assms(2) by (simp add: calm_step_def)
    then show ?thesis using create
      by (intro owned_reset [OF _ refl _ _ _ _ _ _ assms(1)])
        (simp_all add: handle_create_def reset_secret_reveal_state_def)
  next
    case close_edit
    then show ?thesis using assms(1) owned_close by simp
  next
    case (details i ok)
    then have "sr_editing s = Some i" using assms(1) by (auto simp: owned_def list_all_iff sound_call_def)
    then show ?thesis using details owned_details [OF owned_end [OF assms(1)]] by (simp add: end_call_def)
  next
    case stored_secret
    then show ?thesis using assms(1) owned_reveal_or_unlock
      by (auto simp: handle_open_reveal_modal_def sound_target_def split: option.split)
  next
    case account_access
    have "sound_call (s\<lparr>sr_field := f, sr_source := so\<rparr>) = sound_call s" for f so by (rule sound_frame) simp_all
    then have "owned details_of vault (s\<lparr>sr_field := Some Account_password_field, sr_source := Some From_edit\<rparr>)"
      using assms(1) account_access by (auto simp: owned_def)
    then show ?thesis using account_access assms(1) owned_reveal_or_unlock
      by (auto simp: handle_open_account_login_password_access_def sound_target_def split: option.split)
  next
    case (row_reveal i email stored)
    then show ?thesis using assms(1) owned_reveal_or_unlock
      by (auto simp: handle_row_password_reveal_def sound_target_def page_idle_def)
  next
    case otp_confirmed
    then show ?thesis using assms(1) owned_confirm by simp
  next
    case (unlock_answered otp i fld source label answer)
    then have "sound_target s i fld source" using assms(1) by (auto simp: owned_def list_all_iff sound_call_def)
    then show ?thesis using unlock_answered assms(1) by (simp add: owned_unlock owned_end sound_end)
  next
    case (reveal_answered i fld token source label unlocking answer)
    then have "sound_target s i fld source" using assms(1) by (fastforce simp: owned_def list_all_iff sound_call_def)
    then have answered: "owned details_of vault (reveal_answered tf vault i fld source label answer
        (end_call (Reveal_call i fld token source label unlocking) s))" (is "owned _ _ ?t")
      using assms(1) by (simp add: owned_answered owned_end sound_end)
    have "owned details_of vault (?t\<lparr>sr_loading := False\<rparr>)"
      by (rule owned_frame [OF _ _ _ _ _ _ _ _ _ answered]) simp_all
    with answered show ?thesis
      unfolding reveal_answered on_reveal_def Let_def by (cases unlocking) simp_all
  next
    case (secret_timer)
    have "sound_call (s\<lparr>sr_secrets := x, sr_expires := y\<rparr>) = sound_call s" for x y by (rule sound_frame) simp_all
    then show ?thesis using assms(1) secret_timer by (auto simp: owned_def)
  next
    case grant_timer
    then show ?thesis using assms(1) owned_clear by simp
  next
    case save
    then show ?thesis using assms(1) owned_save by simp
  next
    case saved
    then show ?thesis using assms(1) owned_saved by simp
  qed (rule owned_frame [OF _ _ _ _ _ _ _ _ _ assms(1)]; simp add: reset_row_reveal_state_def)+
qed

lemma owned_start: "reveal_start s \<Longrightarrow> owned details_of vault s"
  by (simp add: reveal_start_def owned_def)

interpretation calm: machine_invariant reveal_start "calm_step late tf details_of vault" "owned details_of vault"
  for late tf details_of vault
  by unfold_locales (simp_all add: owned_start owned_step)

section \<open>Between reveals\<close>

definition shown :: "reveal_page \<Rightarrow> secrets \<times> int option \<times> jstr option \<times> int option" where
  "shown s = (sr_secrets s, sr_expires s, sr_row_password s, sr_row_expires s)"

definition shrunk :: "reveal_page \<Rightarrow> reveal_page \<Rightarrow> bool" where
  "shrunk s u \<longleftrightarrow> (sr_secrets u = sr_secrets s \<and> sr_expires u = sr_expires s \<or> sr_secrets u = [] \<and> sr_expires u = None)
     \<and> (sr_row_password u = sr_row_password s \<and> sr_row_expires u = sr_row_expires s
        \<or> sr_row_password u = None \<and> sr_row_expires u = None)"

lemma shrunk_trans: "shrunk s t \<Longrightarrow> shrunk t u \<Longrightarrow> shrunk s u"
  unfolding shrunk_def by metis

lemma shrunk_shown: "shown u = shown s \<Longrightarrow> shrunk s u"
  by (simp add: shrunk_def shown_def)

lemma shown_frames [simp]:
  "shown (clear_grant s) = shown s" "shown (end_call c s) = shown s"
  "shown (open_reveal_modal_for_target tf i fld source label s) = shown s"
  "shown (execute_reveal_with_grant i fld token source label b s) = shown s"
  "shown (on_details i a s) = shown s" "shown (settle_grant s) = shown s"
  "shown (s\<lparr>sr_field := f, sr_source := so\<rparr>) = shown s"
  "shown (s\<lparr>sr_otp_modal := m, sr_otp := otp\<rparr>) = shown s"
  by (simp_all add: shown_def clear_grant_def end_call_def open_reveal_modal_for_target_def
      execute_reveal_with_grant_def on_details_def settle_grant_def split: option.split)

lemma shown_reveal_or_unlock [simp]: "shown (reveal_or_unlock tf i fld source label s) = shown s"
  by (rule grant_token_cases [of s]) (simp_all add: reveal_or_unlock_def)

lemma shown_unlock: "shown (on_unlock i fld source label answer s) = shown s"
  by (cases answer) (simp_all add: on_unlock_def, simp_all add: shown_def)

lemma shown_submit: "shown (handle_submit_edit s) = shown s"
  by (rule submit_cases [of s]) (simp_all, simp add: shown_def)

lemma shown_confirm: "shown (handle_confirm_reveal s) = shown s"
  by (simp add: handle_confirm_reveal_def Let_def shown_def split: option.split)

lemma shrunk_step:
  assumes "reveal_step late tf details_of vault s e u" "\<forall>i fld token source answer. e \<noteq> Reveal_answered i fld token source answer"
  shows "shrunk s u"
  using assms(1)
proof (cases rule: reveal_step.cases)
  case reveal_answered
  then show ?thesis using assms(2) by blast
next
  case stored_secret
  show ?thesis by (rule shrunk_shown) (simp add: stored_secret handle_open_reveal_modal_def split: option.split)
next
  case account_access
  show ?thesis
    by (rule shrunk_shown) (simp add: account_access handle_open_account_login_password_access_def split: option.split)
next
  case row_reveal
  show ?thesis by (rule shrunk_shown) (simp add: row_reveal handle_row_password_reveal_def)
next
  case unlock_answered
  show ?thesis by (rule shrunk_shown) (simp add: unlock_answered shown_unlock)
next
  case save
  show ?thesis by (rule shrunk_shown) (simp add: save shown_submit)
next
  case otp_confirmed
  show ?thesis by (rule shrunk_shown) (simp add: otp_confirmed shown_confirm)
next
  case details
  show ?thesis by (rule shrunk_shown) (simp add: details)
next
  case grant_timer
  show ?thesis by (rule shrunk_shown) (simp add: grant_timer)
qed (simp_all add: shrunk_def handle_edit_def handle_create_def close_email_modal_def on_saved_def Let_def
    reset_secret_reveal_state_def reset_row_reveal_state_def)

lemma shrunk_run:
  "run (reveal_step late tf details_of vault) s es u \<Longrightarrow>
     \<forall>i fld token source answer. Reveal_answered i fld token source answer \<notin> set es \<Longrightarrow> shrunk s u"
proof (induction rule: run.induct)
  case (run_Cons s e t es u)
  have "\<forall>i fld token source answer. e \<noteq> Reveal_answered i fld token source answer"
    using run_Cons.prems by (metis list.set_intros(1))
  then have "shrunk s t" by (rule shrunk_step [OF run_Cons.hyps(1)])
  moreover have "shrunk t u" using run_Cons by simp
  ultimately show ?case by (rule shrunk_trans)
qed (simp add: shrunk_def)

section \<open>Properties\<close>

text \<open>C5: Shown secrets end: a minute after the last answer that reveals something, whatever else happens, no
  secret and no row password is left on the page; and a grant is kept no longer than the time the
  server gave. Both hold to within the lateness of the browser's timers (any bound; with punctual ones, on time).\<close>

theorem secrets_hide_in_time:
  assumes "reach reveal_start (reveal_step late two_factor details_of vault) s"
    and "run (reveal_step late two_factor details_of vault) s es u"
    and "\<forall>i fld token source answer. Reveal_answered i fld token source answer \<notin> set es"
    and "sr_now s + 60000 + int late < sr_now u"
  shows "sr_secrets u = [] \<and> sr_row_password u = None
    \<and> (\<forall>token. sr_grant u = Some token \<longrightarrow> (\<exists>e. sr_grant_expires u = Some e \<and> (e = 0 \<or> sr_now u \<le> e + int late)))"
proof -
  have s: "time_inv late s" using reveal_time.inv_reach [OF assms(1)] .
  have u: "time_inv late u" using reveal_time.inv_run [OF assms(2) s] .
  have "shrunk s u" using shrunk_run [OF assms(2,3)] .
  have over: "\<not> (x \<le> sr_now s + 60000 \<and> sr_now u \<le> x + int late)" for x using assms(4) by linarith
  have "sr_secrets u = []"
  proof (rule ccontr)
    assume "sr_secrets u \<noteq> []"
    then obtain x where "sr_expires u = Some x" "sr_expires s = Some x"
      using \<open>shrunk s u\<close> u unfolding shrunk_def time_inv_def by auto
    then show False using s u over unfolding time_inv_def by metis
  qed
  moreover have "sr_row_password u = None"
  proof (rule ccontr)
    assume "sr_row_password u \<noteq> None"
    then obtain x where "sr_row_expires u = Some x" "sr_row_expires s = Some x"
      using \<open>shrunk s u\<close> u unfolding shrunk_def time_inv_def by auto
    then show False using s u over unfolding time_inv_def by metis
  qed
  ultimately show ?thesis using u unfolding time_inv_def by auto
qed

text \<open>C6: Step-up is required: on every run from the start, each request for a secret and each save that sets a
  login password carries a token that the server granted on this run for a one-time password of six digits.\<close>

theorem step_up_required:
  assumes "reveal_start s" "run (reveal_step late two_factor details_of vault) s es u"
  shows "(\<forall>i fld token source label unlocking. Reveal_call i fld token source label unlocking \<in> set (sr_calls u) \<longrightarrow>
        (\<exists>otp j g so x. Unlock_answered otp j g so (Granted token x) \<in> set es \<and> six_digits otp))
    \<and> (\<forall>sv \<in> set (sr_saves u). py_login_password (sv_payload sv) \<noteq> None \<longrightarrow>
        (\<exists>token otp j g so x. py_grant (sv_payload sv) = Some token
           \<and> Unlock_answered otp j g so (Granted token x) \<in> set es \<and> six_digits otp))"
proof -
  have "otps_ok s" "tokens s = {}" using assms(1) by (simp_all add: reveal_start_def otps_ok_def tokens_def)
  then have ok: "otps_ok u" and sub: "tokens u \<subseteq> \<Union> (granted_by ` set es)"
    using token_run [OF assms(2)] by auto
  have granted: "\<exists>otp j g so x. Unlock_answered otp j g so (Granted token x) \<in> set es \<and> six_digits otp"
    if "token \<in> tokens u" for token
    using that sub by (force simp: granted_by_def)
  show ?thesis
  proof (intro conjI allI impI ballI)
    fix i fld token source label unlocking
    assume "Reveal_call i fld token source label unlocking \<in> set (sr_calls u)"
    then have "token \<in> tokens u" by (auto simp: tokens_def)
    then show "\<exists>otp j g so x. Unlock_answered otp j g so (Granted token x) \<in> set es \<and> six_digits otp"
      by (rule granted)
  next
    fix sv assume sv: "sv \<in> set (sr_saves u)" "py_login_password (sv_payload sv) \<noteq> None"
    then obtain token where "py_grant (sv_payload sv) = Some token" using ok by (auto simp: otps_ok_def)
    moreover from this sv(1) have "token \<in> tokens u" by (auto simp: tokens_def)
    ultimately show "\<exists>token otp j g so x. py_grant (sv_payload sv) = Some token
        \<and> Unlock_answered otp j g so (Granted token x) \<in> set es \<and> six_digits otp"
      using granted by blast
  qed
qed

text \<open>C13: The account being edited: as long as no edit window is opened while a request is under way, what the
  form was filled with are the details of the account being edited, the secrets shown are its own, and every save
  writes to an account its own details, changed only by what was entered into that form since (if the details
  have not come, nothing but what was entered into the empty form).\<close>

theorem secrets_of_edited_account:
  assumes "reach reveal_start (calm_step late two_factor details_of vault) s"
  shows "(\<forall>d. sr_form s = Some d \<longrightarrow> (\<exists>i. sr_editing s = Some i \<and> d = details_of i))
    \<and> (\<forall>fld v. (fld, Some v) \<in> set (sr_secrets s) \<longrightarrow>
         (\<exists>i. sr_editing s = Some i \<and> (fld, Some v) \<in> set (vault i)))
    \<and> (\<forall>sv \<in> set (sr_saves s). (sv_filled sv = None \<or> sv_filled sv = Some (details_of (sv_id sv)))
         \<and> sv_payload sv = normalized_payload True (py_grant (sv_payload sv)) (values_after (sv_filled sv) (sv_edits sv)))"
  using calm.inv_reach [OF assms] by (fastforce simp: owned_def own_save_def list_all_iff)

end
