(* ===== verification/SecretRace.thy ===== *)
theory SecretRace
  imports SecretSafety
begin

text \<open>
  A run of the mailbox page in which answers for one account arrive while another is being edited; the
  other properties of revealing secrets are applied along it.
\<close>

definition race_start :: reveal_page where
  "race_start = \<lparr>sr_now = 1, sr_modal = False, sr_editing = None, sr_form = None, sr_edits = [], sr_edit_loading = False,
     sr_otp_modal = False, sr_loading = False, sr_otp = [], sr_grant = None, sr_grant_expires = None,
     sr_target_id = None, sr_source = None, sr_label = None, sr_field = None, sr_secrets = [], sr_expires = None,
     sr_row_visible = False, sr_row_password = None, sr_row_expires = None, sr_calls = [], sr_saves = [], sr_saving = 0, sr_left = False\<rparr>"

definition demo_details :: details where
  "demo_details = \<lparr>de_email = js ''a@b.test'', de_uses_oauth = False, de_provider = QQ, de_auth_type = APP_PASSWORD,
     de_client_id = None, de_status = js ''ACTIVE'', de_group = Null, de_config = None\<rparr>"

definition race_otp :: jstr where
  "race_otp = js ''123456''"

definition race_token :: jstr where
  "race_token = js ''t''"

abbreviation race_reveal :: reveal_call where
  "race_reveal \<equiv> Reveal_call 7 Account_password_field race_token From_edit None True"

text \<open>The first account's edit window with its secret unlocked, and both requests under way.\<close>

definition race_unlocked :: reveal_page where
  "race_unlocked = race_start\<lparr>sr_modal := True, sr_editing := Some 7, sr_edit_loading := True, sr_loading := True,
     sr_grant := Some race_token, sr_grant_expires := Some 600001, sr_target_id := Some 7, sr_source := Some From_edit,
     sr_field := Some Account_password_field, sr_calls := [race_reveal, Details_call 7]\<rparr>"

definition race_second :: "details \<Rightarrow> reveal_page" where
  "race_second d = race_start\<lparr>sr_modal := True, sr_editing := Some 8, sr_form := Some d, sr_grant := Some race_token,
     sr_grant_expires := Some 600001, sr_target_id := Some 8, sr_source := Some From_edit, sr_label := Some (de_email d),
     sr_field := Some (if de_uses_oauth d then Refresh_token_field else Password_field),
     sr_calls := [race_reveal, Details_call 7]\<rparr>"

definition race_unlock_events :: "reveal_event list" where
  "race_unlock_events = [Edit_clicked 7, Account_access_clicked, Otp_entered race_otp, Otp_dialog_confirmed,
     Unlock_answered race_otp 7 Account_password_field From_edit (Granted race_token None)]"

definition race_switch_events :: "reveal_event list" where
  "race_switch_events = [Edit_closed, Edit_clicked 8, Details_answered 8 True]"

lemma race_otp_ok: "six_digits race_otp" "trim race_otp = race_otp" "take 6 (filter is_digit race_otp) = race_otp"
  by (simp_all add: race_otp_def six_digits_def js_eval)

lemma race_starts: "reveal_start race_start"
  by (simp add: reveal_start_def page_idle_def race_start_def)

lemma race_unlock_run: "run (reveal_step late True details_of vault) race_start race_unlock_events race_unlocked"
proof -
  let ?s1 = "handle_edit 7 race_start"
  let ?s2 = "handle_open_account_login_password_access True ?s1"
  let ?s3 = "?s2\<lparr>sr_otp := race_otp\<rparr>"
  let ?s4 = "handle_confirm_reveal ?s3"
  let ?c = "Unlock_call race_otp 7 Account_password_field From_edit None"
  have s1: "?s1 = race_start\<lparr>sr_modal := True, sr_editing := Some 7, sr_edit_loading := True, sr_calls := [Details_call 7]\<rparr>"
    by (simp add: handle_edit_def reset_secret_reveal_state_def race_start_def)
  have s2: "?s2 = race_start\<lparr>sr_modal := True, sr_editing := Some 7, sr_edit_loading := True, sr_calls := [Details_call 7],
      sr_field := Some Account_password_field, sr_source := Some From_edit, sr_target_id := Some 7, sr_otp_modal := True\<rparr>"
    unfolding s1 by (simp add: handle_open_account_login_password_access_def reveal_or_unlock_def
        get_active_reveal_grant_token_def open_reveal_modal_for_target_def race_start_def)
  have s4: "?s4 = race_start\<lparr>sr_modal := True, sr_editing := Some 7, sr_edit_loading := True, sr_otp := race_otp,
      sr_field := Some Account_password_field, sr_source := Some From_edit, sr_target_id := Some 7, sr_otp_modal := True,
      sr_loading := True, sr_calls := [?c, Details_call 7]\<rparr>"
    unfolding s2 by (simp add: handle_confirm_reveal_def race_otp_ok race_start_def)
  have "reveal_step late True details_of vault race_start (Edit_clicked 7) ?s1"
    by (rule edit) (simp_all add: race_start_def page_idle_def)
  moreover have "reveal_step late True details_of vault ?s1 Account_access_clicked ?s2"
    by (rule account_access; (simp only: s1)?; simp add: race_start_def)
  moreover have "reveal_step late True details_of vault ?s2 (Otp_entered race_otp) ?s3"
    using otp_entered [of ?s2 late True details_of vault race_otp] unfolding s2 by (simp add: race_start_def race_otp_ok)
  moreover have "reveal_step late True details_of vault ?s3 Otp_dialog_confirmed ?s4"
    unfolding s2 by (rule otp_confirmed) (simp_all add: race_start_def)
  moreover have "race_unlocked = on_unlock 7 Account_password_field From_edit None (Granted race_token None) (end_call ?c ?s4)"
    unfolding s4 by (simp add: race_unlocked_def race_start_def on_unlock_def end_call_def settle_grant_def
        execute_reveal_with_grant_def)
  moreover have "reveal_step late True details_of vault ?s4
      (Unlock_answered race_otp 7 Account_password_field From_edit (Granted race_token None))
      (on_unlock 7 Account_password_field From_edit None (Granted race_token None) (end_call ?c ?s4))"
    unfolding s4 by (rule unlock_answered) (simp_all add: race_start_def)
  ultimately show ?thesis unfolding race_unlock_events_def by (metis run_Cons run_Nil)
qed

lemma race_switch_run:
  "run (reveal_step late True details_of vault) race_unlocked race_switch_events (race_second (details_of 8))"
proof -
  let ?s1 = "close_email_modal race_unlocked"
  let ?s2 = "handle_edit 8 ?s1"
  have s1: "?s1 = race_start\<lparr>sr_editing := Some 7, sr_edit_loading := True, sr_grant := Some race_token,
      sr_grant_expires := Some 600001, sr_calls := [race_reveal, Details_call 7]\<rparr>"
    by (simp add: close_email_modal_def reset_secret_reveal_state_def race_unlocked_def race_start_def)
  have s2: "?s2 = race_start\<lparr>sr_modal := True, sr_editing := Some 8, sr_edit_loading := True, sr_grant := Some race_token,
      sr_grant_expires := Some 600001, sr_calls := [Details_call 8, race_reveal, Details_call 7]\<rparr>"
    unfolding s1 by (simp add: handle_edit_def reset_secret_reveal_state_def race_start_def)
  have "reveal_step late True details_of vault race_unlocked Edit_closed ?s1"
    by (rule close_edit) (simp_all add: race_unlocked_def race_start_def)
  moreover have "reveal_step late True details_of vault ?s1 (Edit_clicked 8) ?s2"
    by (rule edit) (simp_all add: s1 page_idle_def race_start_def)
  moreover have "race_second (details_of 8) = on_details 8 (Some (details_of 8)) (end_call (Details_call 8) ?s2)"
    unfolding s2 by (simp add: race_second_def on_details_def end_call_def race_start_def)
  moreover have "reveal_step late True details_of vault ?s2 (Details_answered 8 True)
      (on_details 8 (Some (details_of 8)) (end_call (Details_call 8) ?s2))"
    using details [of ?s2 8 late True details_of vault True] unfolding s2 by (simp add: race_start_def)
  ultimately show ?thesis unfolding race_switch_events_def by (metis run_Cons run_Nil)
qed

lemma race_reach: "reach reveal_start (reveal_step late True details_of vault) (race_second (details_of 8))"
  using reach_run [OF reach_run [OF _ race_unlock_run] race_switch_run] race_starts run_Nil
  unfolding reach_def by metis

section \<open>Properties\<close>

text \<open>Answers are not tied to the account: an answer for one account that arrives while another one is being
  edited puts the first account's login password into the other's edit window and the first account's
  details into its form, and saving then writes them to the other account.\<close>

theorem stale_answers_cross_accounts:
  "\<exists>i j s u. i \<noteq> j \<and> reach reveal_start (reveal_step late True details_of vault) s
    \<and> sr_modal s \<and> sr_editing s = Some j \<and> sr_form s = Some (details_of i)
    \<and> sr_secrets s = filter (\<lambda>(fld, v). fld = Account_password_field) (vault i)
    \<and> reveal_step late True details_of vault s Save_clicked u
    \<and> sv_id (hd (sr_saves u)) = j \<and> sv_filled (hd (sr_saves u)) = Some (details_of i) \<and> sv_edits (hd (sr_saves u)) = []"
proof -
  let ?s = "race_second (details_of 8)"
  let ?t = "on_reveal True vault 7 Account_password_field From_edit None True Revealed (end_call race_reveal ?s)"
  let ?u = "on_details 7 (Some (details_of 7)) (end_call (Details_call 7) ?t)"
  have t: "?t = ?s\<lparr>sr_secrets := filter (\<lambda>(fld, v). fld = Account_password_field) (vault 7),
      sr_expires := Some 60001, sr_calls := [Details_call 7]\<rparr>"
    by (simp add: on_reveal_def reveal_answered_def end_call_def race_second_def race_start_def)
  have "reveal_step late True details_of vault ?s (Reveal_answered 7 Account_password_field race_token From_edit Revealed) ?t"
    by (rule reveal_answered) (simp_all add: race_second_def race_start_def)
  moreover have "reveal_step late True details_of vault ?t (Details_answered 7 True) ?u"
    using details [of ?t 7 late True details_of vault True] unfolding t by (simp add: race_second_def race_start_def)
  ultimately have "reach reveal_start (reveal_step late True details_of vault) ?u"
    using reach_step race_reach by metis
  moreover have u: "sr_modal ?u" "\<not> sr_otp_modal ?u" "\<not> sr_left ?u" "sr_editing ?u = Some 8" "sr_form ?u = Some (details_of 7)"
    "sr_edits ?u = []" "sr_secrets ?u = filter (\<lambda>(fld, v). fld = Account_password_field) (vault 7)"
    unfolding t by (simp_all add: on_details_def end_call_def race_second_def race_start_def)
  moreover have "reveal_step late True details_of vault ?u Save_clicked (handle_submit_edit ?u)"
    by (rule save) (rule u)+
  moreover have "sv_id (hd (sr_saves (handle_submit_edit ?u))) = 8 \<and> sv_filled (hd (sr_saves (handle_submit_edit ?u))) = Some (details_of 7)
      \<and> sv_edits (hd (sr_saves (handle_submit_edit ?u))) = []"
  proof -
    have "opt_trim (ev_login_password (values_after (sr_form ?u) (sr_edits ?u))) = None"
      unfolding u(5,6) by (simp add: values_after_def filled_values_def opt_trim_def)
    then show ?thesis using u(4-6)
      by (simp add: handle_submit_edit_def Let_def handle_email_submit_def normalized_payload_def)
  qed
  ultimately show ?thesis by (intro exI [of _ 7] exI [of _ 8] exI [of _ ?u] exI [of _ "handle_submit_edit ?u"] conjI) simp_all
qed

lemma race_unlocked_reach: "reach reveal_start (reveal_step late True details_of vault) race_unlocked"
  using reach_run [OF _ race_unlock_run] race_starts run_Nil unfolding reach_def by metis

section \<open>Witnesses\<close>

definition race_shown :: "secrets \<Rightarrow> reveal_page" where
  "race_shown sec = race_unlocked\<lparr>sr_loading := False, sr_secrets := sec, sr_expires := Some 60001, sr_calls := [Details_call 7]\<rparr>"

definition one_secret :: "nat \<Rightarrow> secrets" where
  "one_secret i = [(Account_password_field, Some (js ''pw''))]"

lemma race_shown_step:
  "reveal_step late True details_of one_secret race_unlocked
     (Reveal_answered 7 Account_password_field race_token From_edit Revealed) (race_shown (one_secret 7))"
proof -
  have "race_shown (one_secret 7) = on_reveal True one_secret 7 Account_password_field From_edit None True Revealed
      (end_call race_reveal race_unlocked)"
    by (simp add: on_reveal_def reveal_answered_def end_call_def race_shown_def race_unlocked_def race_start_def one_secret_def)
  then show ?thesis
    using reveal_answered [of race_unlocked 7 Account_password_field race_token From_edit None True late True details_of one_secret Revealed]
    by (simp add: race_unlocked_def race_start_def)
qed

lemma secrets_hide_in_time_witness:
  "\<exists>u. run (reveal_step 16 True (\<lambda>i. demo_details) one_secret)
     (race_shown (one_secret 7)) [Tick 60010, Secret_timer, Tick 7] u \<and> sr_secrets (race_shown (one_secret 7)) \<noteq> [] \<and> sr_secrets u = []"
proof -
  let ?step = "reveal_step 16 True (\<lambda>i. demo_details) one_secret"
  let ?s = "race_shown (one_secret 7)"
  let ?a = "?s\<lparr>sr_now := sr_now ?s + 60010\<rparr>"
  let ?b = "?a\<lparr>sr_secrets := [], sr_expires := None\<rparr>"
  let ?u = "?b\<lparr>sr_now := sr_now ?b + 7\<rparr>"
  have t1: "?step ?s (Tick 60010) ?a"
    by (rule tick) (auto simp: deadlines_def race_shown_def race_unlocked_def race_start_def)
  have t2: "?step ?a Secret_timer ?b"
    by (rule secret_timer [of _ 60001]) (simp_all add: race_shown_def race_unlocked_def race_start_def)
  have t3: "?step ?b (Tick 7) ?u"
    by (rule tick) (auto simp: deadlines_def race_shown_def race_unlocked_def race_start_def)
  have run: "run ?step ?s [Tick 60010, Secret_timer, Tick 7] ?u"
    unfolding run_Cons_iff run_Nil_iff using t1 t2 t3 by blast
  have "reach reveal_start ?step ?s" by (rule reach_step [OF race_unlocked_reach race_shown_step])
  then have "sr_secrets ?u = []"
    using secrets_hide_in_time [OF _ run] by (simp add: race_shown_def)
  moreover have "sr_secrets ?s \<noteq> []" by (simp add: race_shown_def one_secret_def)
  ultimately show ?thesis using run by blast
qed

lemma step_up_required_witness:
  "\<exists>otp j g so x. Unlock_answered otp j g so (Granted race_token x) \<in> set race_unlock_events \<and> six_digits otp"
proof -
  have "race_reveal \<in> set (sr_calls race_unlocked)" by (simp add: race_unlocked_def)
  then show ?thesis
    using step_up_required [OF race_starts race_unlock_run [of 0 "\<lambda>i. demo_details" one_secret]] by blast
qed

text \<open>The address of an account is changed in its form, and saved.\<close>

definition edited_form :: reveal_page where
  "edited_form = (on_details 7 (Some demo_details) (end_call (Details_call 7) (handle_edit 7 race_start)))
     \<lparr>sr_edits := [Email_edit (Some (js ''b@b.test''))]\<rparr>"

lemma edited_form_eq:
  "edited_form = race_start\<lparr>sr_modal := True, sr_editing := Some 7, sr_form := Some demo_details,
     sr_edits := [Email_edit (Some (js ''b@b.test''))], sr_target_id := Some 7, sr_source := Some From_edit,
     sr_label := Some (de_email demo_details), sr_field := Some Password_field\<rparr>"
  by (simp add: edited_form_def on_details_def end_call_def handle_edit_def reset_secret_reveal_state_def race_start_def
      demo_details_def)

lemma edited_form_reach: "reach reveal_start (calm_step 0 True (\<lambda>i. demo_details) one_secret) edited_form"
proof -
  let ?d = "\<lambda>i::nat. demo_details"
  let ?e = "handle_edit 7 race_start"
  let ?s = "on_details 7 (Some demo_details) (end_call (Details_call 7) ?e)"
  have "calm_step 0 True ?d one_secret race_start (Edit_clicked 7) ?e"
    unfolding calm_step_def by (intro conjI edit) (simp_all add: race_start_def page_idle_def)
  moreover have "calm_step 0 True ?d one_secret ?e (Details_answered 7 True) ?s"
    using details [of ?e 7 0 True ?d one_secret True]
    by (simp add: calm_step_def handle_edit_def reset_secret_reveal_state_def race_start_def)
  moreover have "calm_step 0 True ?d one_secret ?s (Form_edited (Email_edit (Some (js ''b@b.test'')))) edited_form"
    using form_edited [of ?s 0 True ?d one_secret "Email_edit (Some (js ''b@b.test''))"]
    by (simp add: calm_step_def edited_form_def on_details_def end_call_def handle_edit_def reset_secret_reveal_state_def race_start_def)
  ultimately show ?thesis
    using race_starts unfolding reach_def by (metis run_Cons run_Nil)
qed

lemma ev_demo:
  "map_option trim (ev_email (values_after (Some demo_details) [Email_edit (Some x)])) = Some (trim x)"
  "chosen_provider (values_after (Some demo_details) [Email_edit (Some x)]) = QQ"
  by (simp_all add: values_after_def filled_values_def demo_details_def chosen_provider_def)

lemma secrets_of_edited_account_witness:
  "\<exists>sv. sr_saves (handle_submit_edit edited_form) = [sv] \<and> sv_id sv = 7 \<and> sv_filled sv = Some demo_details
     \<and> py_email (sv_payload sv) = Some (trim (js ''b@b.test'')) \<and> py_provider (sv_payload sv) = QQ"
proof -
  let ?u = "handle_submit_edit edited_form"
  have "calm_step 0 True (\<lambda>i. demo_details) one_secret edited_form Save_clicked ?u"
    unfolding calm_step_def by (intro conjI save) (simp_all add: edited_form_eq race_start_def)
  then have reach: "reach reveal_start (calm_step 0 True (\<lambda>i. demo_details) one_secret) ?u"
    by (rule reach_step [OF edited_form_reach])
  have "opt_trim (ev_login_password (values_after (sr_form edited_form) (sr_edits edited_form))) = None"
    by (simp add: edited_form_eq values_after_def filled_values_def opt_trim_def)
  then obtain sv where sv: "sr_saves ?u = [sv]" "sv_id sv = 7" "sv_filled sv = Some demo_details"
      "sv_edits sv = [Email_edit (Some (js ''b@b.test''))]"
    by (simp add: handle_submit_edit_def Let_def handle_email_submit_def normalized_payload_def edited_form_eq race_start_def)
  then have "sv_payload sv = normalized_payload True (py_grant (sv_payload sv))
      (values_after (Some demo_details) [Email_edit (Some (js ''b@b.test''))])"
    using secrets_of_edited_account [OF reach] by (metis list.set_intros(1))
  then have "py_email (sv_payload sv) = Some (trim (js ''b@b.test'')) \<and> py_provider (sv_payload sv) = QQ"
    using ev_demo by (metis email_payload.select_convs(1,2) normalized_payload_def)
  then show ?thesis using sv by blast
qed

end
