(* ===== verification/MailboxViewer.thy ===== *)
theory MailboxViewer
  imports JsPrelude Machine
begin

text \<open>
  The mailbox viewer of the page (web/src/pages/emails/index.tsx): the list of messages with its selection
  and pages, the message shown, the requests under way with their request numbers, and the per-mailbox
  status of the accounts. Notices and the text of dates are not modelled; \<open>now\<close> is an argument. Account ids
  are database keys and never 0.
\<close>

section \<open>Messages and status\<close>

datatype mailbox_name = Box_inbox | Box_sent | Box_junk

record mail_item =
  mi_id :: jstr
  mi_from :: jstr
  mi_to :: jstr
  mi_subject :: jstr
  mi_text :: "jstr option"
  mi_html :: "jstr option"
  mi_date :: jstr

record mailbox_state =
  mb_latest_id :: "jstr option"
  mb_latest_date :: "jstr option"
  mb_count :: nat
  mb_has_new :: bool
  mb_synced :: "jstr option"
  mb_viewed :: "jstr option"

type_synonym mailbox_status = "mailbox_name \<Rightarrow> mailbox_state option"

record mail_account =
  ma_id :: nat
  ma_status :: "mailbox_status option"

definition create_empty_mailbox_state :: mailbox_state where
  "create_empty_mailbox_state =
     \<lparr>mb_latest_id = None, mb_latest_date = None, mb_count = 0, mb_has_new = False, mb_synced = None, mb_viewed = None\<rparr>"

definition normalize_mailbox_status :: "mailbox_status option \<Rightarrow> mailbox_name \<Rightarrow> mailbox_state" where
  "normalize_mailbox_status status box =
     (case Option.bind status (\<lambda>f. f box) of None \<Rightarrow> create_empty_mailbox_state | Some x \<Rightarrow> x)"

text \<open>A patch: \<open>None\<close> is a key that is \<open>undefined\<close> and is left out.\<close>

record mailbox_patch =
  mp_latest_id :: "jstr option"
  mp_latest_date :: "jstr option"
  mp_count :: nat
  mp_has_new :: "bool option"
  mp_synced :: jstr
  mp_viewed :: "jstr option"

definition patch_state :: "mailbox_patch \<Rightarrow> mailbox_state \<Rightarrow> mailbox_state" where
  "patch_state p x =
     \<lparr>mb_latest_id = mp_latest_id p, mb_latest_date = mp_latest_date p, mb_count = mp_count p,
      mb_has_new = (case mp_has_new p of None \<Rightarrow> mb_has_new x | Some b \<Rightarrow> b), mb_synced = Some (mp_synced p),
      mb_viewed = (case mp_viewed p of None \<Rightarrow> mb_viewed x | Some t \<Rightarrow> Some t)\<rparr>"

definition patch_mailbox_status_for_email ::
  "nat \<Rightarrow> mailbox_name \<Rightarrow> mailbox_patch \<Rightarrow> mail_account list \<Rightarrow> mail_account list" where
  "patch_mailbox_status_for_email email_id mailbox p accounts =
     map (\<lambda>item. if ma_id item \<noteq> email_id then item
        else item\<lparr>ma_status := Some (\<lambda>box. let x = normalize_mailbox_status (ma_status item) box
               in Some (if box = mailbox then patch_state p x else x))\<rparr>) accounts"

definition has_new_mailbox_messages :: "mail_account \<Rightarrow> mailbox_name \<Rightarrow> bool" where
  "has_new_mailbox_messages record1 mailbox = mb_has_new (normalize_mailbox_status (ma_status record1) mailbox)"

definition list_patch :: "mail_item list \<Rightarrow> bool option \<Rightarrow> jstr \<Rightarrow> jstr option \<Rightarrow> mailbox_patch" where
  "list_patch messages has_new now viewed =
     \<lparr>mp_latest_id = (case messages of [] \<Rightarrow> None | m # _ \<Rightarrow> if mi_id m = [] then None else Some (mi_id m)),
      mp_latest_date = (case messages of [] \<Rightarrow> None | m # _ \<Rightarrow> if mi_date m = [] then None else Some (mi_date m)),
      mp_count = length messages, mp_has_new = has_new, mp_synced = now, mp_viewed = viewed\<rparr>"

section \<open>Pages\<close>

definition max_page :: "nat \<Rightarrow> nat \<Rightarrow> nat" where
  "max_page n size1 = max 1 ((n + size1 - 1) div size1)"

definition page_slice :: "nat \<Rightarrow> nat \<Rightarrow> 'a list \<Rightarrow> 'a list" where
  "page_slice page size1 xs = take size1 (drop ((page - 1) * size1) xs)"

section \<open>State\<close>

datatype mail_call =
    List_call nat nat mailbox_name bool
  | Detail_call nat nat mailbox_name jstr
  | Clear_call nat mailbox_name
  | Delete_call nat mailbox_name "jstr list"
  | Send_call nat

record viewer =
  mv_accounts :: "mail_account list"
  mv_visible :: bool
  mv_email_id :: "nat option"
  mv_mailbox :: mailbox_name
  mv_list :: "mail_item list"
  mv_selected :: "jstr list"
  mv_page :: nat
  mv_page_size :: nat
  mv_loading :: bool
  mv_list_request :: nat
  mv_detail :: "mail_item option"
  mv_detail_visible :: bool
  mv_detail_loading :: bool
  mv_detail_request :: nat
  mv_deleting :: bool
  mv_compose :: bool
  mv_sending :: bool
  mv_calls :: "mail_call list"

definition paginated_mail_list :: "viewer \<Rightarrow> mail_item list" where
  "paginated_mail_list s = page_slice (mv_page s) (mv_page_size s) (mv_list s)"

definition all_mails_selected :: "viewer \<Rightarrow> bool" where
  "all_mails_selected s \<longleftrightarrow> mv_list s \<noteq> [] \<and> length (mv_selected s) = length (mv_list s)"

text \<open>The effect that keeps the page within the list.\<close>

definition settle_page :: "viewer \<Rightarrow> viewer" where
  "settle_page s =
     (let m = max_page (length (mv_list s)) (mv_page_size s)
      in if mv_page s > m then s\<lparr>mv_page := m\<rparr> else s)"

section \<open>Handlers\<close>

definition toggle_mail_selection :: "jstr \<Rightarrow> bool \<Rightarrow> viewer \<Rightarrow> viewer" where
  "toggle_mail_selection mail_id checked s =
     s\<lparr>mv_selected :=
        (if checked then (if mail_id \<in> set (mv_selected s) then mv_selected s else mv_selected s @ [mail_id])
         else filter (\<lambda>item. item \<noteq> mail_id) (mv_selected s))\<rparr>"

definition toggle_select_all_mails :: "bool \<Rightarrow> viewer \<Rightarrow> viewer" where
  "toggle_select_all_mails checked s =
     s\<lparr>mv_selected := (if checked then map mi_id (mv_list s) else [])\<rparr>"

definition load_mails :: "nat \<Rightarrow> mailbox_name \<Rightarrow> bool \<Rightarrow> viewer \<Rightarrow> viewer" where
  "load_mails email_id mailbox mark s =
     s\<lparr>mv_list_request := Suc (mv_list_request s), mv_loading := True, mv_selected := [], mv_list := [], mv_page := 1,
       mv_calls := List_call (Suc (mv_list_request s)) email_id mailbox mark # mv_calls s\<rparr>"

definition on_mail_list ::
  "nat \<Rightarrow> nat \<Rightarrow> mailbox_name \<Rightarrow> bool \<Rightarrow> jstr \<Rightarrow> mail_item list option \<Rightarrow> viewer \<Rightarrow> viewer" where
  "on_mail_list request_id email_id mailbox mark now result s =
     (if request_id \<noteq> mv_list_request s then s
      else case result of
        None \<Rightarrow> s\<lparr>mv_loading := False\<rparr>
      | Some messages \<Rightarrow>
          settle_page (s\<lparr>mv_list := messages, mv_loading := False,
            mv_accounts := patch_mailbox_status_for_email email_id mailbox
              (list_patch messages (if mark then Some False else None) now (if mark then Some now else None))
              (mv_accounts s)\<rparr>))"

definition handle_view_mails :: "nat \<Rightarrow> mailbox_name \<Rightarrow> viewer \<Rightarrow> viewer" where
  "handle_view_mails email_id mailbox s =
     load_mails email_id mailbox True (s\<lparr>mv_email_id := Some email_id, mv_mailbox := mailbox, mv_visible := True\<rparr>)"

text \<open>\<open>current\<close> is the account the handler's closure holds; the view key's effect goes to the first page.\<close>

definition handle_mailbox_tab_change :: "nat option \<Rightarrow> mailbox_name \<Rightarrow> viewer \<Rightarrow> viewer" where
  "handle_mailbox_tab_change current mailbox s =
     (let s1 = s\<lparr>mv_mailbox := mailbox, mv_page := (if mailbox = mv_mailbox s then mv_page s else 1)\<rparr>
      in case current of None \<Rightarrow> s1 | Some email_id \<Rightarrow> load_mails email_id mailbox True s1)"

definition handle_refresh_mails :: "viewer \<Rightarrow> viewer" where
  "handle_refresh_mails s =
     (case mv_email_id s of None \<Rightarrow> s | Some email_id \<Rightarrow> load_mails email_id (mv_mailbox s) True s)"

definition handle_clear_mailbox :: "viewer \<Rightarrow> viewer" where
  "handle_clear_mailbox s =
     (case mv_email_id s of None \<Rightarrow> s
      | Some email_id \<Rightarrow> s\<lparr>mv_calls := Clear_call email_id (mv_mailbox s) # mv_calls s\<rparr>)"

definition on_cleared :: "nat \<Rightarrow> mailbox_name \<Rightarrow> bool \<Rightarrow> jstr \<Rightarrow> viewer \<Rightarrow> viewer" where
  "on_cleared email_id mailbox ok now s =
     (if \<not> ok then s
      else settle_page (s\<lparr>mv_selected := [], mv_list := [],
        mv_accounts := patch_mailbox_status_for_email email_id mailbox (list_patch [] (Some False) now (Some now))
          (mv_accounts s)\<rparr>))"

definition handle_delete_selected_mails :: "viewer \<Rightarrow> viewer" where
  "handle_delete_selected_mails s =
     (case mv_email_id s of None \<Rightarrow> s
      | Some email_id \<Rightarrow>
          if mv_selected s = [] then s
          else s\<lparr>mv_deleting := True, mv_calls := Delete_call email_id (mv_mailbox s) (mv_selected s) # mv_calls s\<rparr>)"

definition on_deleted :: "nat \<Rightarrow> mailbox_name \<Rightarrow> mail_item list option \<Rightarrow> jstr \<Rightarrow> viewer \<Rightarrow> viewer" where
  "on_deleted email_id mailbox result now s =
     (case result of
        None \<Rightarrow> s\<lparr>mv_deleting := False\<rparr>
      | Some messages \<Rightarrow>
          settle_page (s\<lparr>mv_selected := [], mv_list := messages, mv_deleting := False,
            mv_accounts := patch_mailbox_status_for_email email_id mailbox
              (list_patch messages (Some False) now (Some now)) (mv_accounts s)\<rparr>))"

definition close_mail_detail :: "viewer \<Rightarrow> viewer" where
  "close_mail_detail s =
     s\<lparr>mv_detail_request := Suc (mv_detail_request s), mv_detail_visible := False, mv_detail_loading := False,
       mv_detail := None\<rparr>"

definition close_mailbox_modal :: "viewer \<Rightarrow> viewer" where
  "close_mailbox_modal s =
     close_mail_detail (settle_page (s\<lparr>mv_list_request := Suc (mv_list_request s), mv_loading := False,
       mv_selected := [], mv_list := [], mv_visible := False\<rparr>))"

definition handle_view_email_detail :: "mail_item \<Rightarrow> viewer \<Rightarrow> viewer" where
  "handle_view_email_detail item s =
     (case mv_email_id s of None \<Rightarrow> s
      | Some email_id \<Rightarrow>
          s\<lparr>mv_detail_request := Suc (mv_detail_request s), mv_detail := Some item, mv_detail_visible := True,
            mv_detail_loading := True,
            mv_calls := Detail_call (Suc (mv_detail_request s)) email_id (mv_mailbox s) (mi_id item) # mv_calls s\<rparr>)"

definition on_mail_detail :: "nat \<Rightarrow> mail_item option \<Rightarrow> viewer \<Rightarrow> viewer" where
  "on_mail_detail request_id result s =
     (if request_id \<noteq> mv_detail_request s then s
      else s\<lparr>mv_detail := (case result of None \<Rightarrow> mv_detail s | Some item \<Rightarrow> Some item), mv_detail_loading := False\<rparr>)"

text \<open>The valid form's recipients are a list; without one nothing is sent.\<close>

definition handle_send_mail :: "jstr list \<Rightarrow> viewer \<Rightarrow> viewer" where
  "handle_send_mail recipients s =
     (case mv_email_id s of None \<Rightarrow> s
      | Some email_id \<Rightarrow>
          if recipients = [] then s
          else s\<lparr>mv_sending := True, mv_calls := Send_call email_id # mv_calls s\<rparr>)"

definition on_sent :: "nat \<Rightarrow> bool \<Rightarrow> viewer \<Rightarrow> viewer" where
  "on_sent email_id ok s =
     (if \<not> ok then s\<lparr>mv_sending := False\<rparr>
      else handle_mailbox_tab_change (Some email_id) Box_sent (s\<lparr>mv_sending := False, mv_compose := False\<rparr>))"

section \<open>The machine\<close>

datatype viewer_event =
    View_clicked nat mailbox_name | Tab_clicked mailbox_name | Refresh_clicked | Viewer_closed
  | Mail_toggled jstr bool | All_toggled bool | Page_changed nat nat | Clear_clicked | Delete_clicked
  | Detail_clicked mail_item | Detail_closed | Compose_opened | Compose_cancelled | Send_clicked "jstr list"
  | List_answered mail_call jstr "mail_item list option" | Detail_answered mail_call "mail_item option"
  | Cleared mail_call bool jstr | Deleted mail_call "mail_item list option" jstr | Sent mail_call bool

definition end_mail_call :: "mail_call \<Rightarrow> viewer \<Rightarrow> viewer" where
  "end_mail_call c s = s\<lparr>mv_calls := remove1 c (mv_calls s)\<rparr>"

definition viewer_front :: "viewer \<Rightarrow> bool" where
  "viewer_front s \<longleftrightarrow> mv_visible s \<and> \<not> mv_detail_visible s \<and> \<not> mv_compose s"

text \<open>
  \<open>holds\<close> tells which messages the server has in a mailbox of an account: answers are about the mailbox
  that was asked. A window covers what lies below it. Whether an account's mailbox can be cleared or used
  for sending does not matter here.
\<close>

inductive viewer_step ::
  "(nat \<Rightarrow> mailbox_name \<Rightarrow> mail_item \<Rightarrow> bool) \<Rightarrow> viewer \<Rightarrow> viewer_event \<Rightarrow> viewer \<Rightarrow> bool" for holds where
  view: "\<not> mv_visible s \<Longrightarrow> \<not> mv_compose s \<Longrightarrow> viewer_step holds s (View_clicked i box) (handle_view_mails i box s)"
| tab: "viewer_front s \<Longrightarrow> viewer_step holds s (Tab_clicked box) (handle_mailbox_tab_change (mv_email_id s) box s)"
| refresh: "viewer_front s \<Longrightarrow> \<not> mv_loading s \<Longrightarrow> viewer_step holds s Refresh_clicked (handle_refresh_mails s)"
| close_viewer: "viewer_front s \<Longrightarrow> viewer_step holds s Viewer_closed (close_mailbox_modal s)"
| toggle: "viewer_front s \<Longrightarrow> \<not> mv_loading s \<Longrightarrow> item \<in> set (paginated_mail_list s) \<Longrightarrow>
     viewer_step holds s (Mail_toggled (mi_id item) checked) (toggle_mail_selection (mi_id item) checked s)"
| toggle_all: "viewer_front s \<Longrightarrow> \<not> mv_loading s \<Longrightarrow>
     viewer_step holds s (All_toggled checked) (toggle_select_all_mails checked s)"
| page_changed: "viewer_front s \<Longrightarrow> 1 \<le> page \<Longrightarrow> 1 \<le> size1 \<Longrightarrow>
     viewer_step holds s (Page_changed page size1) (settle_page (s\<lparr>mv_page := page, mv_page_size := size1\<rparr>))"
| clear: "viewer_front s \<Longrightarrow> \<not> mv_loading s \<Longrightarrow> mv_mailbox s \<noteq> Box_sent \<Longrightarrow>
     viewer_step holds s Clear_clicked (handle_clear_mailbox s)"
| delete: "viewer_front s \<Longrightarrow> \<not> mv_deleting s \<Longrightarrow> mv_selected s \<noteq> [] \<Longrightarrow>
     viewer_step holds s Delete_clicked (handle_delete_selected_mails s)"
| view_detail: "viewer_front s \<Longrightarrow> \<not> mv_loading s \<Longrightarrow> item \<in> set (paginated_mail_list s) \<Longrightarrow>
     viewer_step holds s (Detail_clicked item) (handle_view_email_detail item s)"
| close_detail: "mv_detail_visible s \<Longrightarrow> viewer_step holds s Detail_closed (close_mail_detail s)"
| compose: "viewer_front s \<Longrightarrow> viewer_step holds s Compose_opened (s\<lparr>mv_compose := True\<rparr>)"
| compose_cancel: "mv_compose s \<Longrightarrow> viewer_step holds s Compose_cancelled (s\<lparr>mv_compose := False\<rparr>)"
| send: "mv_compose s \<Longrightarrow> \<not> mv_sending s \<Longrightarrow> viewer_step holds s (Send_clicked recipients) (handle_send_mail recipients s)"
| list_answered: "c = List_call rid i box mark \<Longrightarrow> c \<in> set (mv_calls s) \<Longrightarrow>
     \<forall>items. result = Some items \<longrightarrow> list_all (holds i box) items \<Longrightarrow>
     viewer_step holds s (List_answered c now result) (on_mail_list rid i box mark now result (end_mail_call c s))"
| detail_answered: "c = Detail_call rid i box mail \<Longrightarrow> c \<in> set (mv_calls s) \<Longrightarrow>
     \<forall>item. result = Some item \<longrightarrow> holds i box item \<Longrightarrow>
     viewer_step holds s (Detail_answered c result) (on_mail_detail rid result (end_mail_call c s))"
| cleared: "c = Clear_call i box \<Longrightarrow> c \<in> set (mv_calls s) \<Longrightarrow>
     viewer_step holds s (Cleared c ok now) (on_cleared i box ok now (end_mail_call c s))"
| deleted: "c = Delete_call i box ids \<Longrightarrow> c \<in> set (mv_calls s) \<Longrightarrow>
     \<forall>items. result = Some items \<longrightarrow> list_all (holds i box) items \<Longrightarrow>
     viewer_step holds s (Deleted c result now) (on_deleted i box result now (end_mail_call c s))"
| sent: "c = Send_call i \<Longrightarrow> c \<in> set (mv_calls s) \<Longrightarrow>
     viewer_step holds s (Sent c ok) (on_sent i ok (end_mail_call c s))"

definition viewer_start :: "viewer \<Rightarrow> bool" where
  "viewer_start s \<longleftrightarrow> \<not> mv_visible s \<and> mv_email_id s = None \<and> mv_mailbox s = Box_inbox \<and> mv_list s = []
     \<and> mv_selected s = [] \<and> mv_page s = 1 \<and> mv_page_size s = 10 \<and> \<not> mv_loading s \<and> mv_list_request s = 0
     \<and> mv_detail s = None \<and> \<not> mv_detail_visible s \<and> \<not> mv_detail_loading s \<and> mv_detail_request s = 0
     \<and> \<not> mv_deleting s \<and> \<not> mv_compose s \<and> \<not> mv_sending s \<and> mv_calls s = []"

end
