(* ===== verification/MailboxSafety.thy ===== *)
theory MailboxSafety
  imports MailboxViewer
begin

text \<open>
  What the mailbox viewer guarantees: pages cut the list into pieces, and list, selection and requests
  belong to the mailbox shown as long as the view is not switched while a change is under way.
\<close>

lemmas viewer_ops = handle_view_mails_def handle_mailbox_tab_change_def handle_refresh_mails_def
  close_mailbox_modal_def close_mail_detail_def toggle_mail_selection_def toggle_select_all_mails_def
  handle_clear_mailbox_def handle_delete_selected_mails_def handle_view_email_detail_def handle_send_mail_def
  on_mail_list_def on_mail_detail_def on_cleared_def on_deleted_def on_sent_def load_mails_def end_mail_call_def

section \<open>Pages\<close>

lemma max_page_covers: "0 < k \<Longrightarrow> n \<le> max_page n k * k"
proof -
  assume k: "0 < k"
  have "n \<le> ((n + k - 1) div k) * k"
  proof -
    have "(n + k - 1) div k * k = n + k - 1 - (n + k - 1) mod k" by (simp add: minus_mod_eq_div_mult [symmetric])
    moreover have "(n + k - 1) mod k \<le> k - 1" using k mod_less_divisor [of k "n + k - 1"] by linarith
    ultimately show ?thesis using k by linarith
  qed
  also have "\<dots> \<le> max_page n k * k" by (simp add: max_page_def)
  finally show ?thesis .
qed

lemma slices_take: "concat (map (\<lambda>p. page_slice p k xs) [1..<Suc m]) = take (m * k) xs"
proof (induction m)
  case (Suc m)
  have "[1..<Suc (Suc m)] = [1..<Suc m] @ [Suc m]" by simp
  then show ?case using Suc
    by (simp del: upt_Suc add: page_slice_def take_add add.commute [of k])
qed simp

lemma slices_all: "0 < k \<Longrightarrow> concat (map (\<lambda>p. page_slice p k xs) [1..<Suc (max_page (length xs) k)]) = xs"
  using max_page_covers [of k "length xs"] unfolding slices_take by simp

lemma slice_nonempty:
  assumes "0 < k" "xs \<noteq> []" "1 \<le> p" "p \<le> max_page (length xs) k"
  shows "page_slice p k xs \<noteq> []"
proof -
  have n: "1 \<le> length xs" using assms(2) by (cases xs) auto
  have "(p - 1) * k < length xs"
  proof (cases "p = 1")
    case True
    then show ?thesis using assms(2) by simp
  next
    case False
    then have "p \<le> (length xs + k - 1) div k" using assms(3,4) by (simp add: max_page_def)
    then have "p * k \<le> (length xs + k - 1) div k * k" by (rule mult_le_mono1)
    also have "\<dots> \<le> length xs + k - 1" by simp
    finally have "p * k \<le> length xs + k - 1" .
    then show ?thesis using assms(1,3) n by (simp add: diff_mult_distrib)
  qed
  then show ?thesis using assms(1) by (simp add: page_slice_def)
qed

definition page_inv :: "viewer \<Rightarrow> bool" where
  "page_inv s \<longleftrightarrow> 1 \<le> mv_page s \<and> 1 \<le> mv_page_size s \<and> mv_page s \<le> max_page (length (mv_list s)) (mv_page_size s)"

lemma page_settled: "1 \<le> mv_page s \<Longrightarrow> 1 \<le> mv_page_size s \<Longrightarrow> page_inv (settle_page s)"
  by (auto simp: page_inv_def settle_page_def Let_def max_page_def)

lemma page_frame:
  "mv_page u = mv_page s \<Longrightarrow> mv_page_size u = mv_page_size s \<Longrightarrow> mv_list u = mv_list s \<Longrightarrow> page_inv s \<Longrightarrow> page_inv u"
  by (simp add: page_inv_def)

lemma page_load: "page_inv s \<Longrightarrow> page_inv (load_mails i box mark s)"
  by (simp add: page_inv_def load_mails_def max_page_def)

lemma page_tab:
  assumes "page_inv s"
  shows "page_inv (handle_mailbox_tab_change current box s)"
proof -
  have "page_inv (s\<lparr>mv_mailbox := box, mv_page := (if box = mv_mailbox s then mv_page s else 1)\<rparr>)"
    using assms by (simp add: page_inv_def max_page_def)
  then show ?thesis
    unfolding handle_mailbox_tab_change_def Let_def by (cases current) (simp_all only: option.case page_load)
qed

lemma page_settle_frame:
  "page_inv t \<Longrightarrow> mv_page u = mv_page t \<Longrightarrow> mv_page_size u = mv_page_size t \<Longrightarrow> page_inv (settle_page u)"
  by (rule page_settled) (simp_all add: page_inv_def)

lemma page_on_list: "page_inv t \<Longrightarrow> page_inv (on_mail_list rid i box mark now result t)"
  by (cases result) (auto simp: on_mail_list_def intro: page_frame page_settle_frame)

lemma page_on_deleted: "page_inv t \<Longrightarrow> page_inv (on_deleted i box result now t)"
  by (cases result) (auto simp: on_deleted_def intro: page_frame page_settle_frame)

lemma page_on_cleared: "page_inv t \<Longrightarrow> page_inv (on_cleared i box ok now t)"
  by (auto simp: on_cleared_def intro: page_settle_frame)

lemma page_end: "page_inv s \<Longrightarrow> page_inv (end_mail_call c s)"
  by (simp add: page_inv_def end_mail_call_def)

lemma page_step:
  assumes "page_inv s" "viewer_step holds s e u"
  shows "page_inv u"
proof -
  have pos: "1 \<le> mv_page s" "1 \<le> mv_page_size s" using assms(1) by (simp_all add: page_inv_def)
  have upd: "page_inv (s\<lparr>mv_email_id := i, mv_mailbox := b, mv_visible := v\<rparr>)"
    "page_inv (s\<lparr>mv_sending := b', mv_compose := v', mv_calls := cs\<rparr>)" for i b v b' v' cs
    using assms(1) by (rule page_frame [rotated 3]; simp)+
  show ?thesis
    using assms(2)
  proof (cases rule: viewer_step.cases)
    case view
    then show ?thesis using page_load [OF upd(1)] by (simp add: handle_view_mails_def)
  next
    case tab
    then show ?thesis using page_tab [OF assms(1)] by simp
  next
    case refresh
    then show ?thesis using page_load [OF assms(1)] assms(1) by (simp add: handle_refresh_mails_def split: option.split)
  next
    case close_viewer
    have "page_inv (close_mail_detail t) = page_inv t" for t by (simp add: page_inv_def close_mail_detail_def)
    then show ?thesis using close_viewer pos by (simp add: close_mailbox_modal_def page_settled)
  next
    case page_changed
    then show ?thesis by (simp add: page_settled)
  next
    case list_answered
    then show ?thesis using assms(1) by (simp only: page_on_list page_end)
  next
    case cleared
    then show ?thesis using assms(1) by (simp only: page_on_cleared page_end)
  next
    case deleted
    then show ?thesis using assms(1) by (simp only: page_on_deleted page_end)
  next
    case (sent c i ok)
    have "page_inv ((end_mail_call c s)\<lparr>mv_sending := False\<rparr>)"
      "page_inv ((end_mail_call c s)\<lparr>mv_sending := False, mv_compose := False\<rparr>)"
      using assms(1) by (rule page_frame [rotated 3]; simp add: end_mail_call_def)+
    then show ?thesis using sent page_tab by (simp add: on_sent_def)
  qed (rule page_frame [OF _ _ _ assms(1)];
      simp add: toggle_mail_selection_def toggle_select_all_mails_def handle_clear_mailbox_def close_mail_detail_def
        handle_delete_selected_mails_def handle_view_email_detail_def handle_send_mail_def on_mail_detail_def
        end_mail_call_def split: option.split)+
qed

lemma page_start: "viewer_start s \<Longrightarrow> page_inv s"
  by (simp add: viewer_start_def page_inv_def max_page_def)

interpretation pages: machine_invariant viewer_start "viewer_step holds" page_inv for holds
  by unfold_locales (simp_all add: page_start page_step)

section \<open>List requests\<close>

definition current_list :: "viewer \<Rightarrow> mail_call \<Rightarrow> bool" where
  "current_list s c = (case c of List_call rid i box mark \<Rightarrow> rid = mv_list_request s | _ \<Rightarrow> False)"

definition rid_within :: "nat \<Rightarrow> mail_call \<Rightarrow> bool" where
  "rid_within n c = (case c of List_call rid i box mark \<Rightarrow> rid \<le> n | _ \<Rightarrow> True)"

lemma rid_within_Suc: "rid_within n c \<Longrightarrow> rid_within (Suc n) c"
  by (cases c) (simp_all add: rid_within_def)

lemma rid_within_old: "rid_within n c \<Longrightarrow> mv_list_request s = Suc n \<Longrightarrow> \<not> current_list s c"
  by (cases c) (simp_all add: rid_within_def current_list_def)

text \<open>At most one list request is current, and while it is under way nothing is selected.\<close>

definition list_inv :: "viewer \<Rightarrow> bool" where
  "list_inv s \<longleftrightarrow> list_all (rid_within (mv_list_request s)) (mv_calls s)
     \<and> length (filter (current_list s) (mv_calls s)) \<le> 1
     \<and> (filter (current_list s) (mv_calls s) \<noteq> [] \<longrightarrow> mv_loading s \<and> mv_selected s = [])"

lemma current_frame: "mv_list_request u = mv_list_request s \<Longrightarrow> current_list u = current_list s"
  by (rule ext) (simp add: current_list_def split: mail_call.split)

lemma list_inv_frame:
  assumes "list_inv s" "mv_list_request u = mv_list_request s"
    "mv_calls u = mv_calls s \<or> (\<exists>c. mv_calls u = c # mv_calls s \<and> (case c of List_call _ _ _ _ \<Rightarrow> False | _ \<Rightarrow> True))"
    "mv_loading s \<longrightarrow> mv_loading u" "mv_loading s \<longrightarrow> mv_selected s = [] \<longrightarrow> mv_selected u = []"
  shows "list_inv u"
  using assms(3)
proof
  assume "mv_calls u = mv_calls s"
  then show ?thesis using assms current_frame [OF assms(2)] by (simp add: list_inv_def)
next
  assume "\<exists>c. mv_calls u = c # mv_calls s \<and> (case c of List_call _ _ _ _ \<Rightarrow> False | _ \<Rightarrow> True)"
  then obtain c where c: "mv_calls u = c # mv_calls s" "case c of List_call _ _ _ _ \<Rightarrow> False | _ \<Rightarrow> True" by blast
  then have "\<not> current_list s c" by (simp add: current_list_def split: mail_call.splits)
  with c show ?thesis using assms current_frame [OF assms(2)]
    by (simp add: list_inv_def rid_within_def split: mail_call.splits)
qed

lemma list_inv_load: "list_inv s \<Longrightarrow> list_inv (load_mails i box mark s)"
proof -
  assume inv: "list_inv s"
  have "\<not> current_list (load_mails i box mark s) c" if "c \<in> set (mv_calls s)" for c
    using that inv rid_within_old [of "mv_list_request s" c "load_mails i box mark s"]
    by (simp add: list_inv_def list_all_iff) (simp add: load_mails_def)
  then have "filter (current_list (load_mails i box mark s)) (mv_calls s) = []" by (simp add: filter_empty_conv)
  moreover have "current_list (load_mails i box mark s) (List_call (Suc (mv_list_request s)) i box mark)"
    by (simp add: current_list_def load_mails_def)
  moreover have "list_all (rid_within (Suc (mv_list_request s))) (mv_calls s)"
    using inv rid_within_Suc by (simp add: list_inv_def list_all_iff)
  ultimately show ?thesis by (simp add: list_inv_def) (simp add: load_mails_def rid_within_def)
qed

lemma list_inv_close: "list_inv s \<Longrightarrow> list_inv (close_mailbox_modal s)"
proof -
  assume inv: "list_inv s"
  have eqs: "mv_calls (close_mailbox_modal s) = mv_calls s" "mv_list_request (close_mailbox_modal s) = Suc (mv_list_request s)"
    by (simp_all add: close_mailbox_modal_def close_mail_detail_def settle_page_def Let_def)
  have "\<not> current_list (close_mailbox_modal s) c" if "c \<in> set (mv_calls s)" for c
    using that inv rid_within_old [of "mv_list_request s" c "close_mailbox_modal s"]
    by (simp add: list_inv_def list_all_iff eqs)
  then have "filter (current_list (close_mailbox_modal s)) (mv_calls s) = []" by (simp add: filter_empty_conv)
  moreover have "list_all (rid_within (Suc (mv_list_request s))) (mv_calls s)"
    using inv rid_within_Suc by (simp add: list_inv_def list_all_iff)
  ultimately show ?thesis by (simp add: list_inv_def eqs)
qed

lemma list_inv_end: "list_inv s \<Longrightarrow> list_inv (end_mail_call c s)"
proof -
  assume inv: "list_inv s"
  have cur: "current_list (end_mail_call c s) = current_list s" by (rule current_frame) (simp add: end_mail_call_def)
  have sub: "set (remove1 c (mv_calls s)) \<subseteq> set (mv_calls s)" by (rule set_remove1_subset)
  have "length (remove1 c (filter (current_list s) (mv_calls s))) \<le> length (filter (current_list s) (mv_calls s))"
    by (simp add: length_remove1)
  moreover have "remove1 c (filter (current_list s) (mv_calls s)) \<noteq> [] \<Longrightarrow> filter (current_list s) (mv_calls s) \<noteq> []" by auto
  ultimately show ?thesis using inv sub unfolding list_inv_def cur
    by (simp add: end_mail_call_def filter_remove1 list_all_iff subset_iff)
qed

text \<open>The current answer's request is the only one of its number.\<close>

lemma answered_current:
  assumes "list_inv s" "List_call rid i box mark \<in> set (mv_calls s)" "rid = mv_list_request s"
  shows "filter (current_list s) (mv_calls (end_mail_call (List_call rid i box mark) s)) = []"
    "mv_selected s = []"
proof -
  have "List_call rid i box mark \<in> set (filter (current_list s) (mv_calls s))"
    using assms(2,3) by (simp add: current_list_def)
  moreover have "length (filter (current_list s) (mv_calls s)) \<le> 1"
    "filter (current_list s) (mv_calls s) \<noteq> [] \<longrightarrow> mv_selected s = []"
    using assms(1) by (simp_all add: list_inv_def)
  ultimately show "filter (current_list s) (mv_calls (end_mail_call (List_call rid i box mark) s)) = []" "mv_selected s = []"
    by (cases "filter (current_list s) (mv_calls s)"; auto simp: end_mail_call_def filter_remove1)+
qed

section \<open>Whose messages are shown\<close>

text \<open>A change under way is for the mailbox shown, a current request number for the current view.\<close>

definition coherent_call :: "viewer \<Rightarrow> mail_call \<Rightarrow> bool" where
  "coherent_call s c = (case c of
       List_call rid i box mark \<Rightarrow> rid \<le> mv_list_request s
         \<and> (rid = mv_list_request s \<longrightarrow> mv_email_id s = Some i \<and> mv_mailbox s = box)
     | Detail_call rid i box mail \<Rightarrow> rid \<le> mv_detail_request s
         \<and> (rid = mv_detail_request s \<longrightarrow> mv_visible s \<and> mv_email_id s = Some i)
     | Clear_call i box \<Rightarrow> mv_email_id s = Some i \<and> mv_mailbox s = box
     | Delete_call i box ids \<Rightarrow> mv_email_id s = Some i \<and> mv_mailbox s = box
     | Send_call i \<Rightarrow> mv_email_id s = Some i)"

definition coherent :: "(nat \<Rightarrow> mailbox_name \<Rightarrow> mail_item \<Rightarrow> bool) \<Rightarrow> viewer \<Rightarrow> bool" where
  "coherent holds s \<longleftrightarrow> list_all (coherent_call s) (mv_calls s)
     \<and> list_all (\<lambda>m. \<exists>i. mv_email_id s = Some i \<and> holds i (mv_mailbox s) m) (mv_list s)
     \<and> set (mv_selected s) \<subseteq> mi_id ` set (mv_list s)
     \<and> (\<forall>m. mv_detail s = Some m \<longrightarrow> mv_visible s \<and> (\<exists>i box. mv_email_id s = Some i \<and> holds i box m))
     \<and> (mv_detail_visible s \<longrightarrow> mv_visible s)"

definition changing :: "mail_call \<Rightarrow> bool" where
  "changing c = (case c of List_call _ _ _ _ \<Rightarrow> False | Detail_call _ _ _ _ \<Rightarrow> False | _ \<Rightarrow> True)"

text \<open>Runs in which the view is not switched while a change is under way; a mail that was sent switches it.\<close>

definition settled_step ::
  "(nat \<Rightarrow> mailbox_name \<Rightarrow> mail_item \<Rightarrow> bool) \<Rightarrow> viewer \<Rightarrow> viewer_event \<Rightarrow> viewer \<Rightarrow> bool" where
  "settled_step holds s e u \<longleftrightarrow> viewer_step holds s e u
     \<and> (case e of View_clicked i box \<Rightarrow> \<not> list_ex changing (mv_calls s)
        | Tab_clicked box \<Rightarrow> \<not> list_ex changing (mv_calls s)
        | Sent c ok \<Rightarrow> \<not> list_ex changing (remove1 c (mv_calls s))
        | _ \<Rightarrow> True)"

lemma coherent_call_frame:
  "mv_email_id u = mv_email_id s \<Longrightarrow> mv_mailbox u = mv_mailbox s \<Longrightarrow> mv_visible u = mv_visible s \<Longrightarrow>
     mv_list_request u = mv_list_request s \<Longrightarrow> mv_detail_request u = mv_detail_request s \<Longrightarrow>
     coherent_call u = coherent_call s"
  by (rule ext) (simp add: coherent_call_def split: mail_call.split)

lemma coherent_frame:
  assumes "mv_email_id u = mv_email_id s" "mv_mailbox u = mv_mailbox s" "mv_visible u = mv_visible s"
    "mv_list_request u = mv_list_request s" "mv_detail_request u = mv_detail_request s"
    "set (mv_calls u) \<subseteq> set (mv_calls s)" "mv_list u = mv_list s" "set (mv_selected u) \<subseteq> mi_id ` set (mv_list s)"
    "mv_detail u = mv_detail s" "mv_detail_visible u = mv_detail_visible s"
    and "coherent holds s"
  shows "coherent holds u"
  using assms coherent_call_frame [OF assms(1-5)] by (auto simp: coherent_def list_all_iff)

lemma coherent_settle [simp]: "coherent holds (settle_page s) = coherent holds s"
proof -
  have "coherent_call (s\<lparr>mv_page := p\<rparr>) = coherent_call s" for p by (rule coherent_call_frame) simp_all
  then show ?thesis by (simp add: settle_page_def Let_def coherent_def)
qed

lemma coherent_end: "coherent holds s \<Longrightarrow> coherent holds (end_mail_call c s)"
  by (rule coherent_frame [where s = s]) (auto simp: end_mail_call_def coherent_def dest: set_remove1_subset [THEN subsetD])

lemma coherent_list:
  assumes "coherent holds s" "mv_email_id s = Some i" "list_all (holds i (mv_mailbox s)) items"
    "set (mv_selected s) \<subseteq> mi_id ` set items"
  shows "coherent holds (s\<lparr>mv_list := items, mv_loading := l, mv_accounts := a\<rparr>)"
    "coherent holds (s\<lparr>mv_list := items, mv_deleting := l, mv_accounts := a\<rparr>)"
    "coherent holds (s\<lparr>mv_list := items, mv_accounts := a\<rparr>)"
proof -
  have "coherent_call (s\<lparr>mv_list := items, mv_loading := l, mv_accounts := a\<rparr>) = coherent_call s"
    "coherent_call (s\<lparr>mv_list := items, mv_deleting := l, mv_accounts := a\<rparr>) = coherent_call s"
    "coherent_call (s\<lparr>mv_list := items, mv_accounts := a\<rparr>) = coherent_call s"
    by (rule coherent_call_frame; simp)+
  then show "coherent holds (s\<lparr>mv_list := items, mv_loading := l, mv_accounts := a\<rparr>)"
    "coherent holds (s\<lparr>mv_list := items, mv_deleting := l, mv_accounts := a\<rparr>)"
    "coherent holds (s\<lparr>mv_list := items, mv_accounts := a\<rparr>)"
    using assms by (auto simp: coherent_def)
qed

lemma coherent_switch:
  assumes "coherent holds s" "\<not> list_ex changing (mv_calls s) \<or> mv_email_id s = Some i \<and> mv_mailbox s = box"
    "\<not> mv_visible s \<or> mv_email_id s = Some i" "mv_visible s \<longrightarrow> mv_visible u"
    and "mv_email_id u = Some i" "mv_mailbox u = box"
    "mv_list_request u = mv_list_request s" "mv_detail_request u = mv_detail_request s" "mv_calls u = mv_calls s"
    "mv_detail u = mv_detail s" "mv_detail_visible u = mv_detail_visible s"
  shows "coherent holds (load_mails i box mark u)"
proof -
  have "coherent_call (load_mails i box mark u) c" if "c \<in> set (mv_calls s)" for c
  proof -
    have "coherent_call s c" using that assms(1) by (simp add: coherent_def list_all_iff)
    moreover have "\<not> changing c \<or> mv_email_id s = Some i \<and> mv_mailbox s = box"
      using that assms(2) by (auto simp: list_ex_iff)
    ultimately show ?thesis using assms(3-8)
      by (auto simp: coherent_call_def changing_def load_mails_def split: mail_call.splits)
  qed
  moreover have "coherent_call (load_mails i box mark u) (List_call (Suc (mv_list_request u)) i box mark)"
    using assms(5,6) by (simp add: coherent_call_def load_mails_def)
  ultimately have "list_all (coherent_call (load_mails i box mark u)) (mv_calls (load_mails i box mark u))"
    using assms(9) by (simp add: list_all_iff load_mails_def)
  moreover have "\<forall>m. mv_detail u = Some m \<longrightarrow> mv_visible u \<and> (\<exists>i box. mv_email_id u = Some i \<and> holds i box m)"
    "mv_detail_visible u \<longrightarrow> mv_visible u"
    using assms(1,3,4,5,10,11) by (auto simp: coherent_def)
  ultimately show ?thesis by (simp add: coherent_def) (simp add: load_mails_def)
qed

lemma list_inv_step:
  assumes "list_inv s" "viewer_step holds s e u"
  shows "list_inv u"
  using assms(2)
proof (cases rule: viewer_step.cases)
  case view
  have "list_inv (s\<lparr>mv_email_id := i, mv_mailbox := b, mv_visible := v\<rparr>)" for i b v
    by (rule list_inv_frame [OF assms(1)]) simp_all
  then show ?thesis using view by (simp add: handle_view_mails_def list_inv_load)
next
  case tab
  have "list_inv (s\<lparr>mv_mailbox := b, mv_page := p\<rparr>)" for b p by (rule list_inv_frame [OF assms(1)]) simp_all
  then show ?thesis unfolding tab handle_mailbox_tab_change_def Let_def
    by (cases "mv_email_id s") (simp_all only: option.case list_inv_load)
next
  case refresh
  then show ?thesis using assms(1) by (simp add: handle_refresh_mails_def list_inv_load split: option.split)
next
  case close_viewer
  then show ?thesis using assms(1) list_inv_close by simp
next
  case (list_answered c rid i box mark result now)
  let ?t = "end_mail_call c s"
  have t: "list_inv ?t" using list_inv_end [OF assms(1)] .
  show ?thesis
  proof (cases "rid = mv_list_request ?t")
    case True
    then have none: "filter (current_list s) (mv_calls ?t) = []"
      using answered_current(1) [OF assms(1), of rid i box mark] list_answered by (simp add: end_mail_call_def)
    have "list_inv v" if "mv_list_request v = mv_list_request s" "mv_calls v = mv_calls ?t" for v
      using t none that current_frame [OF that(1)] by (simp add: list_inv_def) (simp add: end_mail_call_def)
    then show ?thesis unfolding list_answered on_mail_list_def
      by (cases result) (auto simp: settle_page_def Let_def end_mail_call_def)
  next
    case False
    then show ?thesis using t list_answered by (simp add: on_mail_list_def)
  qed
next
  case (cleared c i box ok now)
  show ?thesis unfolding cleared
    by (rule list_inv_frame [OF list_inv_end [OF assms(1), of c]])
      (simp_all add: on_cleared_def settle_page_def Let_def cleared)
next
  case (deleted c i box ids result now)
  show ?thesis unfolding deleted
    by (rule list_inv_frame [OF list_inv_end [OF assms(1), of c]])
      (simp_all add: on_deleted_def settle_page_def Let_def deleted split: option.split)
next
  case (sent c i ok)
  have "list_inv ((end_mail_call c s)\<lparr>mv_sending := False\<rparr>)"
    "list_inv ((end_mail_call c s)\<lparr>mv_sending := False, mv_compose := False, mv_mailbox := b, mv_page := p\<rparr>)" for b p
    by (rule list_inv_frame [OF list_inv_end [OF assms(1), of c]]; simp)+
  then show ?thesis unfolding sent on_sent_def handle_mailbox_tab_change_def Let_def
    by (cases ok) (simp_all add: list_inv_load sent)
next
  case (detail_answered c rid i box mail result)
  show ?thesis unfolding detail_answered
    by (rule list_inv_frame [OF list_inv_end [OF assms(1), of c]]) (simp_all add: on_mail_detail_def detail_answered)
qed (rule list_inv_frame [OF assms(1)];
    simp add: toggle_mail_selection_def toggle_select_all_mails_def handle_clear_mailbox_def close_mail_detail_def
      handle_delete_selected_mails_def handle_view_email_detail_def handle_send_mail_def settle_page_def Let_def
      split: option.split)+

lemma coherent_changed:
  assumes "coherent holds s" "mv_email_id s = Some i" "mv_mailbox s = box"
    "\<forall>items. result = Some items \<longrightarrow> list_all (holds i box) items"
  shows "coherent holds (on_deleted i box result now s)" "coherent holds (on_cleared i box ok now s)"
proof -
  have sel: "coherent holds (s\<lparr>mv_selected := []\<rparr>)" by (rule coherent_frame [OF _ _ _ _ _ _ _ _ _ _ assms(1)]) simp_all
  have del: "coherent holds (s\<lparr>mv_deleting := False\<rparr>)"
    by (rule coherent_frame [OF _ _ _ _ _ _ _ _ _ _ assms(1)]) (use assms(1) in \<open>simp_all add: coherent_def\<close>)
  have upd: "list_all (holds i box) items \<Longrightarrow> coherent holds (s\<lparr>mv_selected := [], mv_list := items, mv_deleting := False, mv_accounts := a\<rparr>)"
    "list_all (holds i box) items \<Longrightarrow> coherent holds (s\<lparr>mv_selected := [], mv_list := items, mv_accounts := a\<rparr>)" for items a
    using coherent_list(2,3) [OF sel, of i items] assms(2,3) by simp_all
  show "coherent holds (on_deleted i box result now s)"
    using del upd(1) assms(4) by (cases result) (simp_all add: on_deleted_def)
  show "coherent holds (on_cleared i box ok now s)" using assms(1) upd(2) by (simp add: on_cleared_def)
qed

lemma coherent_answered:
  assumes "coherent holds s" "mv_selected s = []" "\<forall>items. result = Some items \<longrightarrow> list_all (holds i box) items"
    "rid = mv_list_request s \<Longrightarrow> mv_email_id s = Some i \<and> mv_mailbox s = box"
  shows "coherent holds (on_mail_list rid i box mark now result s)"
proof -
  have "coherent holds (s\<lparr>mv_loading := False\<rparr>)"
    by (rule coherent_frame [OF _ _ _ _ _ _ _ _ _ _ assms(1)]) (use assms(1) in \<open>simp_all add: coherent_def\<close>)
  then show ?thesis using assms coherent_list(1) [OF assms(1), of i]
    by (cases result) (simp_all add: on_mail_list_def)
qed

lemma page_slice_subset: "x \<in> set (page_slice p k xs) \<Longrightarrow> x \<in> set xs"
  by (auto simp: page_slice_def dest: in_set_takeD in_set_dropD)

lemma coherent_push:
  assumes "coherent holds s" "coherent_call s c"
    and "mv_email_id u = mv_email_id s" "mv_mailbox u = mv_mailbox s" "mv_visible u = mv_visible s"
    "mv_list_request u = mv_list_request s" "mv_detail_request u = mv_detail_request s"
    "mv_calls u = c # mv_calls s" "mv_list u = mv_list s" "mv_selected u = mv_selected s" "mv_detail u = mv_detail s"
    "mv_detail_visible u = mv_detail_visible s"
  shows "coherent holds u"
  using assms(1,2,8-12) coherent_call_frame [OF assms(3-7)] assms(3,4,5) by (simp add: coherent_def)

lemma coherent_older:
  assumes "coherent_call s c" "mv_email_id u = mv_email_id s" "mv_mailbox u = mv_mailbox s"
    "mv_list_request u = mv_list_request s \<or> mv_list_request u = Suc (mv_list_request s)"
    "mv_detail_request u = Suc (mv_detail_request s)"
  shows "coherent_call u c"
  using assms by (cases c) (auto simp: coherent_call_def)

lemma coherent_calls: "coherent holds s \<Longrightarrow> c \<in> set (mv_calls s) \<Longrightarrow> coherent_call s c"
  by (simp add: coherent_def list_all_iff)

lemma coherent_view_detail:
  assumes "coherent holds s" "mv_visible s" "item \<in> set (mv_list s)"
  shows "coherent holds (handle_view_email_detail item s)"
proof (cases "mv_email_id s")
  case None
  then show ?thesis using assms(1) by (simp add: handle_view_email_detail_def)
next
  case (Some i)
  define u where "u = handle_view_email_detail item s"
  have u: "mv_email_id u = Some i" "mv_mailbox u = mv_mailbox s" "mv_visible u" "mv_list u = mv_list s"
    "mv_selected u = mv_selected s" "mv_list_request u = mv_list_request s" "mv_detail u = Some item"
    "mv_detail_request u = Suc (mv_detail_request s)"
    "mv_calls u = Detail_call (Suc (mv_detail_request s)) i (mv_mailbox s) (mi_id item) # mv_calls s"
    using Some assms(2) by (simp_all add: u_def handle_view_email_detail_def)
  have "\<exists>i. mv_email_id s = Some i \<and> holds i (mv_mailbox s) item"
    using assms(1,3) unfolding coherent_def list_all_iff by blast
  moreover have "coherent_call u c" if "c \<in> set (mv_calls s)" for c
    by (rule coherent_older [OF coherent_calls [OF assms(1) that]]) (simp_all add: u Some)
  moreover have "coherent_call u (Detail_call (Suc (mv_detail_request s)) i (mv_mailbox s) (mi_id item))"
    using u by (simp add: coherent_call_def)
  ultimately have "list_all (coherent_call u) (mv_calls u)" "holds i (mv_mailbox s) item"
    using Some by (simp_all add: u list_all_iff)
  moreover have "list_all (\<lambda>m. \<exists>i. mv_email_id s = Some i \<and> holds i (mv_mailbox s) m) (mv_list s)"
    "set (mv_selected s) \<subseteq> mi_id ` set (mv_list s)" using assms(1) by (simp_all add: coherent_def)
  ultimately have "coherent holds u" using Some u(3) unfolding coherent_def by (auto simp: u)
  then show ?thesis by (simp add: u_def)
qed

lemma coherent_close_detail:
  assumes "coherent holds s"
  shows "coherent holds (close_mail_detail s)"
proof -
  define u where "u = close_mail_detail s"
  have u: "mv_email_id u = mv_email_id s" "mv_mailbox u = mv_mailbox s" "mv_list u = mv_list s" "mv_detail u = None"
    "mv_selected u = mv_selected s" "mv_list_request u = mv_list_request s" "\<not> mv_detail_visible u"
    "mv_detail_request u = Suc (mv_detail_request s)" "mv_calls u = mv_calls s"
    by (simp_all add: u_def close_mail_detail_def)
  have "coherent_call u c" if "c \<in> set (mv_calls s)" for c
    by (rule coherent_older [OF coherent_calls [OF assms that]]) (simp_all add: u)
  then have "list_all (coherent_call u) (mv_calls u)" by (simp add: u list_all_iff)
  then have "coherent holds u" using assms unfolding coherent_def by (simp add: u)
  then show ?thesis by (simp add: u_def)
qed

lemma coherent_close:
  assumes "coherent holds s"
  shows "coherent holds (close_mailbox_modal s)"
proof -
  define u where "u = close_mailbox_modal s"
  have u: "mv_email_id u = mv_email_id s" "mv_mailbox u = mv_mailbox s" "mv_list u = []" "mv_detail u = None"
    "mv_selected u = []" "mv_list_request u = Suc (mv_list_request s)" "\<not> mv_detail_visible u"
    "mv_detail_request u = Suc (mv_detail_request s)" "mv_calls u = mv_calls s"
    by (simp_all add: u_def close_mailbox_modal_def close_mail_detail_def settle_page_def Let_def)
  have "coherent_call u c" if "c \<in> set (mv_calls s)" for c
    by (rule coherent_older [OF coherent_calls [OF assms that]]) (simp_all add: u)
  then have "list_all (coherent_call u) (mv_calls u)" by (simp add: u list_all_iff)
  then have "coherent holds u" unfolding coherent_def by (simp add: u)
  then show ?thesis by (simp add: u_def)
qed

lemma coherent_detail:
  assumes "coherent holds s" "\<forall>item. result = Some item \<longrightarrow> holds i box item"
    "rid = mv_detail_request s \<longrightarrow> mv_visible s \<and> mv_email_id s = Some i"
  shows "coherent holds (on_mail_detail rid result s)"
proof -
  have "coherent_call (s\<lparr>mv_detail := d, mv_detail_loading := l\<rparr>) = coherent_call s" for d l
    by (rule coherent_call_frame) simp_all
  then show ?thesis using assms by (auto simp: on_mail_detail_def coherent_def split: option.split)
qed

lemma coherent_tab:
  assumes "coherent holds s" "\<not> list_ex changing (mv_calls s)"
  shows "coherent holds (handle_mailbox_tab_change (mv_email_id s) box s)"
proof (cases "mv_email_id s")
  case None
  define u where "u = s\<lparr>mv_mailbox := box, mv_page := (if box = mv_mailbox s then mv_page s else 1)\<rparr>"
  have "coherent_call u c" if "c \<in> set (mv_calls s)" for c
    using coherent_calls [OF assms(1) that] None by (cases c) (auto simp: coherent_call_def u_def)
  then have "list_all (coherent_call u) (mv_calls u)" by (simp add: u_def list_all_iff)
  then have "coherent holds u" using assms(1) None unfolding coherent_def by (auto simp: u_def list_all_iff)
  then show ?thesis using None by (simp add: handle_mailbox_tab_change_def u_def)
next
  case (Some i)
  show ?thesis unfolding Some handle_mailbox_tab_change_def Let_def option.case
    by (rule coherent_switch [OF assms(1)]) (use assms(2) Some in simp_all)
qed

lemma coherent_sent:
  assumes "coherent holds s" "mv_email_id s = Some i" "\<not> list_ex changing (mv_calls s)"
  shows "coherent holds (on_sent i ok s)"
proof (cases ok)
  case True
  then have "on_sent i ok s = load_mails i Box_sent True (s\<lparr>mv_sending := False, mv_compose := False,
      mv_mailbox := Box_sent, mv_page := (if Box_sent = mv_mailbox s then mv_page s else 1)\<rparr>)"
    by (simp add: on_sent_def handle_mailbox_tab_change_def Let_def)
  also have "coherent holds \<dots>" by (rule coherent_switch [OF assms(1)]) (use assms(2,3) in simp_all)
  finally show ?thesis .
next
  case False
  have "coherent holds (s\<lparr>mv_sending := False\<rparr>)"
    by (rule coherent_frame [OF _ _ _ _ _ _ _ _ _ _ assms(1)]) (use assms(1) in \<open>simp_all add: coherent_def\<close>)
  then show ?thesis using False by (simp add: on_sent_def)
qed

lemma coherent_toggle:
  assumes "coherent holds s" "item \<in> set (paginated_mail_list s)"
  shows "coherent holds (toggle_mail_selection (mi_id item) checked s)"
proof -
  have "item \<in> set (mv_list s)" using assms(2) page_slice_subset by (auto simp: paginated_mail_list_def)
  then have "set (mv_selected (toggle_mail_selection (mi_id item) checked s)) \<subseteq> mi_id ` set (mv_list s)"
    using assms(1) by (auto simp: toggle_mail_selection_def coherent_def)
  then show ?thesis
    by (intro coherent_frame [OF _ _ _ _ _ _ _ _ _ _ assms(1)]) (simp_all add: toggle_mail_selection_def)
qed

lemma coherent_step:
  assumes inv: "coherent holds s" "list_inv s" and step: "settled_step holds s e u"
  shows "coherent holds u"
proof -
  have v: "viewer_step holds s e u" using step by (simp add: settled_step_def)
  have sel: "set (mv_selected s) \<subseteq> mi_id ` set (mv_list s)" using inv(1) by (simp add: coherent_def)
  have ended: "coherent holds (end_mail_call c s)" for c using inv(1) by (rule coherent_end)
  have end_eqs: "mv_email_id (end_mail_call c s) = mv_email_id s" "mv_mailbox (end_mail_call c s) = mv_mailbox s"
    "mv_list_request (end_mail_call c s) = mv_list_request s" "mv_detail_request (end_mail_call c s) = mv_detail_request s"
    "mv_visible (end_mail_call c s) = mv_visible s" "mv_selected (end_mail_call c s) = mv_selected s"
    "mv_calls (end_mail_call c s) = remove1 c (mv_calls s)" for c
    by (simp_all add: end_mail_call_def)
  show ?thesis
    using v
  proof (cases rule: viewer_step.cases)
    case (view i box)
    then show ?thesis unfolding view handle_view_mails_def
      by (intro coherent_switch [OF inv(1)]) (use step view in \<open>simp_all add: settled_step_def\<close>)
  next
    case (tab box)
    then show ?thesis using coherent_tab [OF inv(1)] step by (simp add: settled_step_def)
  next
    case refresh
    show ?thesis
    proof (cases "mv_email_id s")
      case (Some i)
      show ?thesis unfolding refresh handle_refresh_mails_def Some option.case
        by (rule coherent_switch [OF inv(1)]) (use Some in simp_all)
    qed (use inv(1) refresh in \<open>simp add: handle_refresh_mails_def\<close>)
  next
    case close_viewer
    then show ?thesis using coherent_close [OF inv(1)] by simp
  next
    case toggle
    then show ?thesis using coherent_toggle [OF inv(1)] by simp
  next
    case toggle_all
    show ?thesis unfolding toggle_all
      by (rule coherent_frame [OF _ _ _ _ _ _ _ _ _ _ inv(1)]) (auto simp: toggle_select_all_mails_def)
  next
    case page_changed
    show ?thesis unfolding page_changed coherent_settle
      by (rule coherent_frame [OF _ _ _ _ _ _ _ _ _ _ inv(1)]) (use sel in simp_all)
  next
    case clear
    show ?thesis
    proof (cases "mv_email_id s")
      case (Some i)
      show ?thesis unfolding clear handle_clear_mailbox_def Some option.case
        by (rule coherent_push [OF inv(1), where c = "Clear_call i (mv_mailbox s)"]) (use Some in \<open>simp_all add: coherent_call_def\<close>)
    qed (use inv(1) clear in \<open>simp add: handle_clear_mailbox_def\<close>)
  next
    case delete
    show ?thesis
    proof (cases "mv_email_id s")
      case (Some i)
      have "coherent holds (s\<lparr>mv_deleting := True, mv_calls := Delete_call i (mv_mailbox s) (mv_selected s) # mv_calls s\<rparr>)"
        by (rule coherent_push [OF inv(1), where c = "Delete_call i (mv_mailbox s) (mv_selected s)"])
          (use Some in \<open>simp_all add: coherent_call_def\<close>)
      then show ?thesis using delete Some by (simp add: handle_delete_selected_mails_def)
    qed (use inv(1) delete in \<open>simp add: handle_delete_selected_mails_def\<close>)
  next
    case (view_detail item)
    then have "item \<in> set (mv_list s)" "mv_visible s"
      using page_slice_subset by (auto simp: paginated_mail_list_def viewer_front_def)
    then show ?thesis using coherent_view_detail [OF inv(1)] view_detail by simp
  next
    case close_detail
    then show ?thesis using coherent_close_detail [OF inv(1)] by simp
  next
    case (send recipients)
    show ?thesis
    proof (cases "mv_email_id s")
      case (Some i)
      have "coherent holds (s\<lparr>mv_sending := True, mv_calls := Send_call i # mv_calls s\<rparr>)"
        by (rule coherent_push [OF inv(1), where c = "Send_call i"]) (use Some in \<open>simp_all add: coherent_call_def\<close>)
      then show ?thesis using inv(1) send Some by (simp add: handle_send_mail_def)
    qed (use inv(1) send in \<open>simp add: handle_send_mail_def\<close>)
  next
    case (list_answered c rid i box mark result now)
    then have call: "coherent_call s (List_call rid i box mark)" using coherent_calls [OF inv(1)] by simp
    show ?thesis
    proof (cases "rid = mv_list_request s")
      case True
      have "mv_selected (end_mail_call c s) = []"
        using answered_current(2) [OF inv(2)] list_answered True by (simp add: end_eqs)
      then show ?thesis unfolding list_answered(2)
        by (rule coherent_answered [OF ended]) (use call list_answered in \<open>simp_all add: coherent_call_def end_eqs\<close>)
    next
      case False
      then show ?thesis using ended list_answered by (simp add: on_mail_list_def end_eqs)
    qed
  next
    case (detail_answered c rid i box mail result)
    then have "coherent_call s (Detail_call rid i box mail)" using coherent_calls [OF inv(1)] by simp
    then show ?thesis unfolding detail_answered(2)
      by (intro coherent_detail [OF ended, where i = i and box = box])
        (use detail_answered in \<open>simp_all add: coherent_call_def end_eqs\<close>)
  next
    case (cleared c i box ok now)
    then have "coherent_call s (Clear_call i box)" using coherent_calls [OF inv(1)] by simp
    then show ?thesis unfolding cleared(2)
      by (intro coherent_changed(2) [OF ended, where result = None]) (simp_all add: coherent_call_def end_eqs)
  next
    case (deleted c i box ids result now)
    then have "coherent_call s (Delete_call i box ids)" using coherent_calls [OF inv(1)] by simp
    then show ?thesis unfolding deleted(2)
      by (intro coherent_changed(1) [OF ended]) (use deleted in \<open>simp_all add: coherent_call_def end_eqs\<close>)
  next
    case (sent c i ok)
    then have "coherent_call s (Send_call i)" using coherent_calls [OF inv(1)] by simp
    then show ?thesis unfolding sent(2)
      by (intro coherent_sent [OF ended]) (use step sent in \<open>simp_all add: coherent_call_def end_eqs settled_step_def\<close>)
  qed (rule coherent_frame [OF _ _ _ _ _ _ _ _ _ _ inv(1)]; use sel in simp)+
qed

lemma coherent_start: "viewer_start s \<Longrightarrow> coherent holds s \<and> list_inv s"
  by (simp add: viewer_start_def coherent_def list_inv_def)

lemma settled_list_inv: "list_inv s \<Longrightarrow> settled_step holds s e u \<Longrightarrow> list_inv u"
  unfolding settled_step_def using list_inv_step by blast

interpretation shown: machine_invariant viewer_start "settled_step holds" "\<lambda>s. coherent holds s \<and> list_inv s" for holds
  by unfold_locales (auto simp: coherent_start intro: coherent_step settled_list_inv)

end
