(* ===== verification/MailboxTheorems.thy ===== *)
theory MailboxTheorems
  imports MailboxSafety
begin

text \<open>
  The properties of the mailbox viewer, and a run that shows why answers to changes have to be tied to
  the mailbox they were asked for.
\<close>

section \<open>An example run\<close>

definition mail_start :: viewer where
  "mail_start = \<lparr>mv_accounts = [], mv_visible = False, mv_email_id = None, mv_mailbox = Box_inbox, mv_list = [],
     mv_selected = [], mv_page = 1, mv_page_size = 10, mv_loading = False, mv_list_request = 0, mv_detail = None,
     mv_detail_visible = False, mv_detail_loading = False, mv_detail_request = 0, mv_deleting = False,
     mv_compose = False, mv_sending = False, mv_calls = []\<rparr>"

definition shown_list :: "nat \<Rightarrow> mail_item list \<Rightarrow> viewer" where
  "shown_list i items = mail_start\<lparr>mv_visible := True, mv_email_id := Some i, mv_list := items, mv_list_request := 1\<rparr>"

definition deleting_in :: "nat \<Rightarrow> jstr list \<Rightarrow> mail_item list \<Rightarrow> viewer" where
  "deleting_in i ids items = (shown_list i items)\<lparr>mv_selected := ids, mv_deleting := True,
     mv_calls := [Delete_call i Box_inbox ids]\<rparr>"

definition switched_to :: "nat \<Rightarrow> nat \<Rightarrow> jstr list \<Rightarrow> viewer" where
  "switched_to j i ids = mail_start\<lparr>mv_visible := True, mv_email_id := Some j, mv_list_request := 3, mv_detail_request := 1,
     mv_deleting := True, mv_calls := [Delete_call i Box_inbox ids]\<rparr>"

lemma mail_starts: "viewer_start mail_start"
  by (simp add: viewer_start_def mail_start_def)

lemmas demo_states = mail_start_def shown_list_def deleting_in_def switched_to_def

lemma one_page: "length items \<le> 10 \<Longrightarrow> items = [] \<or> max_page (length items) 10 = 1"
  by (cases items) (auto simp: max_page_def)

lemma open_step: "viewer_step holds mail_start (View_clicked i Box_inbox) (handle_view_mails i Box_inbox mail_start)"
  by (rule view) (simp_all add: mail_start_def)

lemma listed_step:
  assumes "list_all (holds i Box_inbox) items"
  shows "viewer_step holds (handle_view_mails i Box_inbox mail_start)
    (List_answered (List_call 1 i Box_inbox True) now (Some items)) (shown_list i items)"
proof -
  let ?s = "handle_view_mails i Box_inbox mail_start"
  let ?c = "List_call 1 i Box_inbox True"
  have "on_mail_list 1 i Box_inbox True now (Some items) (end_mail_call ?c ?s) = shown_list i items"
    by (simp add: viewer_ops demo_states settle_page_def max_page_def patch_mailbox_status_for_email_def)
  then show ?thesis
    using list_answered [of ?c 1 i Box_inbox True ?s "Some items" holds now] assms
    by (simp add: handle_view_mails_def load_mails_def mail_start_def)
qed

lemma shown_run:
  "list_all (holds i Box_inbox) items \<Longrightarrow> run (viewer_step holds) mail_start
     [View_clicked i Box_inbox, List_answered (List_call 1 i Box_inbox True) now (Some items)] (shown_list i items)"
  using open_step listed_step run_Cons run_Nil by metis

lemma shown_settled:
  "list_all (holds i Box_inbox) items \<Longrightarrow> reach viewer_start (settled_step holds) (shown_list i items)"
proof -
  assume items: "list_all (holds i Box_inbox) items"
  have "settled_step holds mail_start (View_clicked i Box_inbox) (handle_view_mails i Box_inbox mail_start)"
    using open_step by (simp add: settled_step_def mail_start_def)
  moreover have "settled_step holds (handle_view_mails i Box_inbox mail_start)
      (List_answered (List_call 1 i Box_inbox True) [] (Some items)) (shown_list i items)"
    using listed_step items by (simp add: settled_step_def)
  ultimately show ?thesis unfolding reach_def using mail_starts run_Cons run_Nil by metis
qed

lemma delete_run:
  assumes "m \<in> set items" "length items \<le> 10"
  shows "run (viewer_step holds) (shown_list i items) [Mail_toggled (mi_id m) True, Delete_clicked]
    (deleting_in i [mi_id m] items)"
proof -
  let ?s = "shown_list i items"
  let ?t = "?s\<lparr>mv_selected := [mi_id m]\<rparr>"
  have t: "toggle_mail_selection (mi_id m) True ?s = ?t" by (simp add: toggle_mail_selection_def demo_states)
  have "viewer_step holds ?s (Mail_toggled (mi_id m) True) ?t"
    unfolding t [symmetric]
    by (rule toggle) (use assms in \<open>simp_all add: demo_states viewer_front_def paginated_mail_list_def page_slice_def\<close>)
  moreover have "handle_delete_selected_mails ?t = deleting_in i [mi_id m] items"
    by (simp add: handle_delete_selected_mails_def demo_states)
  then have "viewer_step holds ?t Delete_clicked (deleting_in i [mi_id m] items)"
    using delete [of ?t holds] by (simp add: demo_states viewer_front_def)
  ultimately show ?thesis using run_Cons run_Nil by metis
qed

lemma switch_run:
  "run (viewer_step holds) (deleting_in i ids items)
     [Viewer_closed, View_clicked j Box_inbox, List_answered (List_call 3 j Box_inbox True) now (Some [])] (switched_to j i ids)"
proof -
  let ?s = "deleting_in i ids items"
  let ?t = "close_mailbox_modal ?s"
  let ?u = "handle_view_mails j Box_inbox ?t"
  let ?c = "List_call 3 j Box_inbox True"
  have t: "?t = mail_start\<lparr>mv_email_id := Some i, mv_list_request := 2, mv_detail_request := 1, mv_deleting := True,
      mv_calls := [Delete_call i Box_inbox ids]\<rparr>"
    by (simp add: viewer_ops demo_states settle_page_def max_page_def)
  have u: "?u = (switched_to j i ids)\<lparr>mv_loading := True, mv_calls := [?c, Delete_call i Box_inbox ids]\<rparr>"
    unfolding t by (simp add: viewer_ops demo_states)
  have "viewer_step holds ?s Viewer_closed ?t" by (rule close_viewer) (simp add: viewer_front_def demo_states)
  moreover have "viewer_step holds ?t (View_clicked j Box_inbox) ?u" by (rule view) (simp_all add: t mail_start_def)
  moreover have "on_mail_list 3 j Box_inbox True now (Some []) (end_mail_call ?c ?u) = switched_to j i ids"
    unfolding u by (simp add: viewer_ops demo_states settle_page_def max_page_def patch_mailbox_status_for_email_def)
  then have "viewer_step holds ?u (List_answered ?c now (Some [])) (switched_to j i ids)"
    using list_answered [of ?c 3 j Box_inbox True ?u "Some []" holds now] by (simp add: u)
  ultimately show ?thesis using run_Cons run_Nil by metis
qed

lemma stale_step:
  assumes "list_all (holds i Box_inbox) items"
  shows "viewer_step holds (switched_to j i ids) (Deleted (Delete_call i Box_inbox ids) (Some items) now)
    ((shown_list j items)\<lparr>mv_list_request := 3, mv_detail_request := 1\<rparr>)"
proof -
  let ?c = "Delete_call i Box_inbox ids"
  have "on_deleted i Box_inbox (Some items) now (end_mail_call ?c (switched_to j i ids)) =
      (shown_list j items)\<lparr>mv_list_request := 3, mv_detail_request := 1\<rparr>"
    by (simp add: viewer_ops demo_states settle_page_def max_page_def patch_mailbox_status_for_email_def)
  then show ?thesis
    using deleted [of ?c i Box_inbox ids "switched_to j i ids" "Some items" holds now] assms by (simp add: switched_to_def)
qed

section \<open>Properties\<close>

text \<open>Pages of the viewer: the page shown is one of the pages of the list, the pages together are the
  list, each message once and in order, and the page shown is empty only when the list is.\<close>

theorem viewer_pages:
  assumes "reach viewer_start (viewer_step holds) s"
  shows "1 \<le> mv_page s \<and> mv_page s \<le> max_page (length (mv_list s)) (mv_page_size s)
    \<and> concat (map (\<lambda>p. page_slice p (mv_page_size s) (mv_list s))
         [1..<Suc (max_page (length (mv_list s)) (mv_page_size s))]) = mv_list s
    \<and> (mv_list s \<noteq> [] \<longrightarrow> paginated_mail_list s \<noteq> [])"
proof -
  have inv: "1 \<le> mv_page s" "0 < mv_page_size s" "mv_page s \<le> max_page (length (mv_list s)) (mv_page_size s)"
    using pages.inv_reach [OF assms] by (auto simp: page_inv_def)
  then show ?thesis
    using slices_all [OF inv(2), of "mv_list s"] slice_nonempty [OF inv(2) _ inv(1), of "mv_list s"] inv(3)
    unfolding paginated_mail_list_def by blast
qed

text \<open>C11: As long as the view is not switched while a change is under way, only messages of the mailbox shown
  are listed, and a delete is for that mailbox and names only messages the server has in it.\<close>

theorem viewer_shows_its_mailbox:
  assumes "reach viewer_start (settled_step holds) s" "mv_list s \<noteq> []"
  shows "\<exists>i. mv_email_id s = Some i \<and> list_all (holds i (mv_mailbox s)) (mv_list s)
    \<and> (\<forall>u. viewer_step holds s Delete_clicked u \<longrightarrow>
         (\<exists>ids. mv_calls u = Delete_call i (mv_mailbox s) ids # mv_calls s \<and> ids \<noteq> []
            \<and> (\<forall>mail_id \<in> set ids. \<exists>x. holds i (mv_mailbox s) x \<and> mi_id x = mail_id)))"
proof -
  have coh: "coherent holds s" using shown.inv_reach [OF assms(1)] by simp
  then have held: "\<forall>m\<in>set (mv_list s). \<exists>i. mv_email_id s = Some i \<and> holds i (mv_mailbox s) m"
    "set (mv_selected s) \<subseteq> mi_id ` set (mv_list s)" by (simp_all add: coherent_def list_all_iff)
  then obtain i where i: "mv_email_id s = Some i" using assms(2) by (cases "mv_list s") auto
  then have all: "list_all (holds i (mv_mailbox s)) (mv_list s)" using held(1) by (simp add: list_all_iff)
  then have ids: "\<forall>mail_id \<in> set (mv_selected s). \<exists>x. holds i (mv_mailbox s) x \<and> mi_id x = mail_id"
    using held(2) by (fastforce simp: list_all_iff)
  have "\<exists>ids. mv_calls u = Delete_call i (mv_mailbox s) ids # mv_calls s \<and> ids \<noteq> []
      \<and> (\<forall>mail_id \<in> set ids. \<exists>x. holds i (mv_mailbox s) x \<and> mi_id x = mail_id)"
    if "viewer_step holds s Delete_clicked u" for u
  proof -
    have "u = handle_delete_selected_mails s" "mv_selected s \<noteq> []" using that by (auto elim: viewer_step.cases)
    then show ?thesis using i ids by (simp add: handle_delete_selected_mails_def)
  qed
  with i all show ?thesis by blast
qed

text \<open>The answer of a delete is not tied to the view: when it arrives after another account's mailbox was
  opened, the messages of the first account are listed there, and deleting one of them sends its id to the
  other account.\<close>

theorem stale_delete_crosses_mailboxes:
  assumes "holds i Box_inbox m" "holds i Box_inbox rest"
  shows "\<exists>s u. reach viewer_start (viewer_step holds) s \<and> mv_email_id s = Some j \<and> mv_list s = [rest]
    \<and> run (viewer_step holds) s [Mail_toggled (mi_id rest) True, Delete_clicked] u
    \<and> Delete_call j Box_inbox [mi_id rest] \<in> set (mv_calls u)"
proof -
  let ?v = "(shown_list j [rest])\<lparr>mv_list_request := 3, mv_detail_request := 1\<rparr>"
  let ?w = "?v\<lparr>mv_selected := [mi_id rest]\<rparr>"
  have rest: "list_all (holds i Box_inbox) [rest]" and both: "list_all (holds i Box_inbox) [m, rest]"
    using assms by simp_all
  have "reach viewer_start (viewer_step holds) (shown_list i [m, rest])"
    unfolding reach_def using shown_run [of holds i "[m, rest]", OF both] mail_starts by blast
  then have "reach viewer_start (viewer_step holds) (deleting_in i [mi_id m] [m, rest])"
    by (rule reach_run [OF _ delete_run]) simp_all
  then have "reach viewer_start (viewer_step holds) (switched_to j i [mi_id m])" by (rule reach_run [OF _ switch_run])
  then have "reach viewer_start (viewer_step holds) ?v" using stale_step [of holds i "[rest]", OF rest] by (rule reach_step)
  moreover have tog: "viewer_step holds ?v (Mail_toggled (mi_id rest) True) (toggle_mail_selection (mi_id rest) True ?v)"
    by (rule toggle) (simp_all add: demo_states viewer_front_def paginated_mail_list_def page_slice_def)
  have w: "toggle_mail_selection (mi_id rest) True ?v = ?w" by (simp add: toggle_mail_selection_def demo_states)
  have "viewer_step holds ?w Delete_clicked (handle_delete_selected_mails ?w)"
    by (rule delete) (simp_all add: demo_states viewer_front_def)
  then have "run (viewer_step holds) ?v [Mail_toggled (mi_id rest) True, Delete_clicked] (handle_delete_selected_mails ?w)"
    using tog unfolding w by (metis run_Cons run_Nil)
  moreover have "mv_email_id ?v = Some j" "mv_list ?v = [rest]"
    "Delete_call j Box_inbox [mi_id rest] \<in> set (mv_calls (handle_delete_selected_mails ?w))"
    by (simp_all add: handle_delete_selected_mails_def demo_states)
  ultimately show ?thesis by blast
qed

section \<open>Witnesses\<close>

definition demo_mail :: "jstr \<Rightarrow> mail_item" where
  "demo_mail x = \<lparr>mi_id = x, mi_from = [], mi_to = [], mi_subject = [], mi_text = None, mi_html = None, mi_date = []\<rparr>"

definition demo_holds :: "nat \<Rightarrow> mailbox_name \<Rightarrow> mail_item \<Rightarrow> bool" where
  "demo_holds i box m \<longleftrightarrow> i = 7 \<and> box = Box_inbox"

lemma viewer_pages_witness: "paginated_mail_list (shown_list 7 [demo_mail (js ''a'')]) \<noteq> []"
proof -
  have "list_all (demo_holds 7 Box_inbox) [demo_mail (js ''a'')]" by (simp add: demo_holds_def)
  then have "reach viewer_start (viewer_step demo_holds) (shown_list 7 [demo_mail (js ''a'')])"
    unfolding reach_def using shown_run mail_starts by blast
  moreover have "mv_list (shown_list 7 [demo_mail (js ''a'')]) \<noteq> []" by (simp add: shown_list_def)
  ultimately show ?thesis using viewer_pages by blast
qed

lemma viewer_shows_its_mailbox_witness:
  "demo_holds 7 Box_inbox (demo_mail (js ''a''))
   \<and> (\<exists>u. viewer_step demo_holds ((shown_list 7 [demo_mail (js ''a'')])\<lparr>mv_selected := [js ''a'']\<rparr>) Delete_clicked u)"
proof -
  let ?s = "shown_list 7 [demo_mail (js ''a'')]"
  have s: "reach viewer_start (settled_step demo_holds) ?s"
    by (rule shown_settled) (simp add: demo_holds_def)
  let ?t = "?s\<lparr>mv_selected := [js ''a'']\<rparr>"
  have t: "toggle_mail_selection (mi_id (demo_mail (js ''a''))) True ?s = ?t"
    by (simp add: toggle_mail_selection_def demo_states demo_mail_def)
  have "viewer_step demo_holds ?s (Mail_toggled (mi_id (demo_mail (js ''a''))) True)
      (toggle_mail_selection (mi_id (demo_mail (js ''a''))) True ?s)"
    by (rule toggle) (simp_all add: demo_states viewer_front_def paginated_mail_list_def page_slice_def)
  then have "settled_step demo_holds ?s (Mail_toggled (mi_id (demo_mail (js ''a''))) True) ?t"
    unfolding t by (simp add: settled_step_def)
  then have "reach viewer_start (settled_step demo_holds) ?t" by (rule reach_step [OF s])
  moreover have "mv_list ?t = [demo_mail (js ''a'')]" "mv_email_id ?t = Some 7" "mv_mailbox ?t = Box_inbox"
    by (simp_all add: demo_states)
  moreover have "viewer_step demo_holds ?t Delete_clicked (handle_delete_selected_mails ?t)"
    by (rule delete) (simp_all add: demo_states viewer_front_def)
  ultimately show ?thesis using viewer_shows_its_mailbox [of demo_holds ?t] by auto
qed

lemma stale_delete_crosses_mailboxes_witness:
  "demo_holds 7 Box_inbox (demo_mail (js ''b'')) \<and> \<not> demo_holds 8 Box_inbox (demo_mail (js ''b''))
   \<and> (\<exists>s. reach viewer_start (viewer_step demo_holds) s \<and> mv_email_id s = Some 8 \<and> mv_list s = [demo_mail (js ''b'')])"
  using stale_delete_crosses_mailboxes [of demo_holds 7 "demo_mail (js ''a'')" "demo_mail (js ''b'')" 8]
  by (auto simp: demo_holds_def)

end
