(* ===== verification/DomainConfig.thy ===== *)
theory DomainConfig
  imports JsPrelude Machine
begin

text \<open>
  The domains page (web/src/pages/domains/index.tsx) with the window that configures a domain
  (DomainConfigModal.tsx): the list of domains, the domain's form, and for the window the loaded details,
  its forms, the saving flags and the requests under way, each with the steps that follow its answer.
  Texts shown are not modelled. Ids are database keys and never 0. The forms' values outlive the closed
  window (the form library keeps the values of unmounted fields).
\<close>

section \<open>Data\<close>

datatype domain_status = Domain_pending | Domain_active | Domain_disabled | Domain_error

record domain_row =
  dr_id :: nat
  dr_name :: jstr
  dr_display :: "jstr option"
  dr_status :: domain_status
  dr_receive :: bool
  dr_send :: bool

datatype box_status = Mailbox_active | Mailbox_disabled | Mailbox_suspended

record domain_mailbox =
  dm_id :: nat
  dm_address :: jstr
  dm_status :: box_status

record sending_config =
  sc_from_name :: "jstr option"
  sc_reply_to :: "jstr option"

datatype check_status = Check_pass | Check_warn | Check_fail | Check_info

record domain_detail =
  dd_id :: nat
  dd_can_send :: bool
  dd_mailboxes :: "domain_mailbox list"
  dd_sending_configs :: "sending_config list"
  dd_token :: "jstr option"
  dd_catch_all :: bool
  dd_target :: "nat option"
  dd_zone :: "jstr option"
  dd_has_saved_token :: bool
  dd_checks :: "check_status list option"

record domain_alias =
  al_id :: nat
  al_mailbox :: nat
  al_part :: jstr
  al_active :: bool

definition get_primary_sending_config :: "domain_detail option \<Rightarrow> sending_config option" where
  "get_primary_sending_config detail =
     (case detail of None \<Rightarrow> None
      | Some d \<Rightarrow> (case dd_sending_configs d of [] \<Rightarrow> None | c # _ \<Rightarrow> Some c))"

fun count_check :: "check_status \<Rightarrow> nat \<times> nat \<times> nat \<Rightarrow> nat \<times> nat \<times> nat" where
  "count_check Check_pass (p, w, f) = (p + 1, w, f)"
| "count_check Check_warn (p, w, f) = (p, w + 1, f)"
| "count_check Check_fail (p, w, f) = (p, w, f + 1)"
| "count_check Check_info (p, w, f) = (p, w, f)"

definition cloudflare_validation_counts :: "check_status list option \<Rightarrow> nat \<times> nat \<times> nat" where
  "cloudflare_validation_counts checks =
     (case checks of None \<Rightarrow> (0, 0, 0) | Some cs \<Rightarrow> fold count_check cs (0, 0, 0))"

text \<open>The mailboxes offered as the target of catch-all (others are shown disabled) and of aliases.\<close>

definition active_mailbox_options :: "domain_detail option \<Rightarrow> nat list" where
  "active_mailbox_options detail =
     (case detail of None \<Rightarrow> []
      | Some d \<Rightarrow> map dm_id (filter (\<lambda>m. dm_status m = Mailbox_active) (dd_mailboxes d)))"

section \<open>State\<close>

record config_forms =
  cf_token :: "jstr option"
  cf_api_token :: "jstr option"
  cf_zone :: "jstr option"
  cf_enabled :: bool
  cf_target :: "nat option"
  cf_from_name :: "jstr option"
  cf_reply_to :: "jstr option"
  cf_key :: "jstr option"
  cf_alias_mailbox :: "nat option"
  cf_alias_part :: "jstr option"

record domain_form =
  df_name :: "jstr option"
  df_display :: "jstr option"
  df_status :: "domain_status option"
  df_receive :: bool
  df_send :: bool

datatype busy = Verification_busy | Cloudflare_busy | Validation_busy | Catch_all_busy | Sending_busy | Alias_busy | Domain_busy

text \<open>What is left to do when the lists were loaded again after a change. \<open>Cloudflare_then i tok has\<close> goes on
  with the validation of domain \<open>i\<close>; a token was typed (\<open>tok\<close>) or had been saved before (\<open>has\<close>).\<close>

datatype saver = Busy busy | Cloudflare_then nat bool bool | Toggling_alias | Deleting_alias | Deleting_domain

datatype config_call =
    Load_config nat "saver option"
  | Domains_load "saver option"
  | Verify_call nat "jstr option"
  | Cloudflare_call nat "jstr option" "jstr option" bool saver
  | Validate_call nat
  | Catch_all_call nat bool "nat option"
  | Sending_call nat "jstr option" "jstr option" "jstr option"
  | Alias_create nat nat jstr
  | Alias_update nat nat bool
  | Alias_delete nat nat
  | Domain_create domain_form
  | Domain_update nat domain_form
  | Domain_set_status nat domain_status
  | Domain_delete nat

record domains_page =
  dp_loading :: bool
  dp_domains :: "domain_row list"
  dp_modal :: bool
  dp_editing :: "nat option"
  dp_form :: domain_form
  dp_config :: "nat option"
  dp_deleting :: "nat option"
  cm_loading :: bool
  cm_detail :: "domain_detail option"
  cm_aliases :: "domain_alias list"
  cm_alias_modal :: bool
  cm_busy :: "busy \<Rightarrow> bool"
  cm_toggling :: "nat option"
  cm_deleting :: "nat option"
  cm_forms :: config_forms
  dp_calls :: "config_call list"

definition set_busy :: "busy \<Rightarrow> bool \<Rightarrow> domains_page \<Rightarrow> domains_page" where
  "set_busy b v s = s\<lparr>cm_busy := (cm_busy s)(b := v)\<rparr>"

definition send_call :: "config_call \<Rightarrow> domains_page \<Rightarrow> domains_page" where
  "send_call c s = s\<lparr>dp_calls := c # dp_calls s\<rparr>"

definition end_config_call :: "config_call \<Rightarrow> domains_page \<Rightarrow> domains_page" where
  "end_config_call c s = s\<lparr>dp_calls := remove1 c (dp_calls s)\<rparr>"

section \<open>Loading\<close>

definition load_config :: "nat \<Rightarrow> saver option \<Rightarrow> domains_page \<Rightarrow> domains_page" where
  "load_config i k s = send_call (Load_config i k) (s\<lparr>cm_loading := True\<rparr>)"

definition load_domains :: "saver option \<Rightarrow> domains_page \<Rightarrow> domains_page" where
  "load_domains k s = send_call (Domains_load k) (s\<lparr>dp_loading := True\<rparr>)"

definition start_validation :: "nat \<Rightarrow> domains_page \<Rightarrow> domains_page" where
  "start_validation i s = send_call (Validate_call i) (set_busy Validation_busy True s)"

text \<open>The end of a handler; a validation that waited for its settings to be saved goes on.\<close>

fun finish :: "saver \<Rightarrow> domains_page \<Rightarrow> domains_page" where
  "finish (Busy b) s = set_busy b False s"
| "finish (Cloudflare_then i tok has) s =
     (let s1 = set_busy Cloudflare_busy False s
      in if \<not> tok \<and> \<not> has then s1 else start_validation i s1)"
| "finish Toggling_alias s = s\<lparr>cm_toggling := None\<rparr>"
| "finish Deleting_alias s = s\<lparr>cm_deleting := None\<rparr>"
| "finish Deleting_domain s = s\<lparr>dp_deleting := None\<rparr>"

text \<open>Changes of aliases only load the window's data again, the other changes the list of domains too.\<close>

fun aliases_only :: "saver \<Rightarrow> bool" where
  "aliases_only (Busy b) = (b = Alias_busy)"
| "aliases_only Toggling_alias = True"
| "aliases_only Deleting_alias = True"
| "aliases_only _ = False"

definition after_config :: "saver option \<Rightarrow> domains_page \<Rightarrow> domains_page" where
  "after_config k s =
     (case k of None \<Rightarrow> s
      | Some sv \<Rightarrow> if aliases_only sv then finish sv s else load_domains (Some sv) s)"

definition forms_of_detail :: "domain_detail \<Rightarrow> config_forms \<Rightarrow> config_forms" where
  "forms_of_detail d f =
     f\<lparr>cf_token := dd_token d, cf_zone := dd_zone d, cf_api_token := None, cf_enabled := dd_catch_all d,
       cf_target := dd_target d,
       cf_from_name := Option.bind (get_primary_sending_config (Some d)) sc_from_name,
       cf_reply_to := Option.bind (get_primary_sending_config (Some d)) sc_reply_to, cf_key := None\<rparr>"

definition on_config ::
  "saver option \<Rightarrow> domain_detail option \<Rightarrow> domain_alias list option \<Rightarrow> domains_page \<Rightarrow> domains_page" where
  "on_config k detail_result alias_result s =
     (let s1 = (case detail_result of None \<Rightarrow> s
                | Some d \<Rightarrow> s\<lparr>cm_detail := Some d, cm_forms := forms_of_detail d (cm_forms s)\<rparr>)
      in after_config k
           (s1\<lparr>cm_aliases := (case alias_result of None \<Rightarrow> [] | Some a \<Rightarrow> a), cm_loading := False\<rparr>))"

definition on_domains :: "saver option \<Rightarrow> domain_row list option \<Rightarrow> domains_page \<Rightarrow> domains_page" where
  "on_domains k result s =
     (let s1 = (case result of None \<Rightarrow> s | Some rows \<Rightarrow> s\<lparr>dp_domains := rows\<rparr>);
          s2 = s1\<lparr>dp_loading := False\<rparr>
      in case k of None \<Rightarrow> s2 | Some sv \<Rightarrow> finish sv s2)"

text \<open>Opening the window starts its load.\<close>

definition open_config_modal :: "nat \<Rightarrow> domains_page \<Rightarrow> domains_page" where
  "open_config_modal i s = load_config i None (s\<lparr>dp_config := Some i\<rparr>)"

definition handle_close :: "domains_page \<Rightarrow> domains_page" where
  "handle_close s = s\<lparr>cm_alias_modal := False, dp_config := None\<rparr>"

section \<open>Changes of the configuration\<close>

definition handle_regenerate_verification :: "domains_page \<Rightarrow> domains_page" where
  "handle_regenerate_verification s =
     (case dp_config s of None \<Rightarrow> s
      | Some i \<Rightarrow> send_call (Verify_call i None) (set_busy Verification_busy True s))"

definition handle_save_verification :: "domains_page \<Rightarrow> domains_page" where
  "handle_save_verification s =
     (case dp_config s of None \<Rightarrow> s
      | Some i \<Rightarrow> send_call (Verify_call i (opt_trim (cf_token (cm_forms s)))) (set_busy Verification_busy True s))"

definition save_cloudflare_config :: "bool \<Rightarrow> saver \<Rightarrow> nat \<Rightarrow> domains_page \<Rightarrow> domains_page" where
  "save_cloudflare_config clear sv i s =
     send_call (Cloudflare_call i (if clear then None else opt_trim (cf_api_token (cm_forms s)))
         (opt_trim (cf_zone (cm_forms s))) clear sv)
       (set_busy Cloudflare_busy True s)"

definition handle_save_cloudflare_config :: "bool \<Rightarrow> domains_page \<Rightarrow> domains_page" where
  "handle_save_cloudflare_config clear s =
     (case dp_config s of None \<Rightarrow> s | Some i \<Rightarrow> save_cloudflare_config clear (Busy Cloudflare_busy) i s)"

definition handle_run_cloudflare_validation :: "domains_page \<Rightarrow> domains_page" where
  "handle_run_cloudflare_validation s =
     (case dp_config s of None \<Rightarrow> s
      | Some i \<Rightarrow>
          let tok = opt_trim (cf_api_token (cm_forms s)) \<noteq> None;
              zone = opt_trim (cf_zone (cm_forms s));
              current_zone = Option.bind (cm_detail s) (\<lambda>d. opt_text (dd_zone d));
              has = (case cm_detail s of None \<Rightarrow> False | Some d \<Rightarrow> dd_has_saved_token d)
          in if tok \<or> zone \<noteq> current_zone then save_cloudflare_config False (Cloudflare_then i tok has) i s
             else if \<not> tok \<and> \<not> has then s
             else start_validation i s)"

definition handle_save_catch_all :: "domains_page \<Rightarrow> domains_page" where
  "handle_save_catch_all s =
     (case dp_config s of None \<Rightarrow> s
      | Some i \<Rightarrow>
          send_call (Catch_all_call i (cf_enabled (cm_forms s))
              (if cf_enabled (cm_forms s) then cf_target (cm_forms s) else None))
            (set_busy Catch_all_busy True s))"

definition handle_save_sending_config :: "domains_page \<Rightarrow> domains_page" where
  "handle_save_sending_config s =
     (case dp_config s of None \<Rightarrow> s
      | Some i \<Rightarrow>
          if get_primary_sending_config (cm_detail s) = None \<and> opt_trim (cf_key (cm_forms s)) = None then s
          else send_call (Sending_call i (opt_trim (cf_from_name (cm_forms s))) (opt_trim (cf_reply_to (cm_forms s)))
                   (opt_trim (cf_key (cm_forms s))))
                 (set_busy Sending_busy True s))"

definition open_alias_modal :: "domains_page \<Rightarrow> domains_page" where
  "open_alias_modal s =
     s\<lparr>cm_forms := (cm_forms s)\<lparr>cf_alias_part := None,
          cf_alias_mailbox := (case active_mailbox_options (cm_detail s) of [] \<Rightarrow> None | m # _ \<Rightarrow> Some m)\<rparr>,
       cm_alias_modal := True\<rparr>"

definition handle_create_alias :: "domains_page \<Rightarrow> domains_page" where
  "handle_create_alias s =
     (case (dp_config s, cf_alias_mailbox (cm_forms s), opt_trim (cf_alias_part (cm_forms s))) of
        (Some i, Some m, Some part) \<Rightarrow> send_call (Alias_create i m part) (set_busy Alias_busy True s)
      | _ \<Rightarrow> s)"

definition handle_toggle_alias :: "domain_alias \<Rightarrow> domains_page \<Rightarrow> domains_page" where
  "handle_toggle_alias a s =
     (case dp_config s of None \<Rightarrow> s
      | Some i \<Rightarrow> send_call (Alias_update i (al_id a) (\<not> al_active a)) (s\<lparr>cm_toggling := Some (al_id a)\<rparr>))"

definition handle_delete_alias :: "domain_alias \<Rightarrow> domains_page \<Rightarrow> domains_page" where
  "handle_delete_alias a s =
     (case dp_config s of None \<Rightarrow> s
      | Some i \<Rightarrow> send_call (Alias_delete i (al_id a)) (s\<lparr>cm_deleting := Some (al_id a)\<rparr>))"

section \<open>Answers\<close>

text \<open>The answer of a change: what the handler does at once, and how it goes on. \<open>if (!saved) return\<close> ends a
  validation whose settings could not be saved.\<close>

definition refused :: "saver \<Rightarrow> domains_page \<Rightarrow> domains_page" where
  "refused sv s = (case sv of Cloudflare_then i tok has \<Rightarrow> set_busy Cloudflare_busy False s | _ \<Rightarrow> finish sv s)"

definition saver_of :: "config_call \<Rightarrow> saver option" where
  "saver_of c =
     (case c of Load_config i k \<Rightarrow> k | Domains_load k \<Rightarrow> k | Verify_call _ _ \<Rightarrow> Some (Busy Verification_busy)
      | Cloudflare_call _ _ _ _ sv \<Rightarrow> Some sv | Validate_call _ \<Rightarrow> Some (Busy Validation_busy)
      | Catch_all_call _ _ _ \<Rightarrow> Some (Busy Catch_all_busy) | Sending_call _ _ _ _ \<Rightarrow> Some (Busy Sending_busy)
      | Alias_create _ _ _ \<Rightarrow> Some (Busy Alias_busy) | Alias_update _ _ _ \<Rightarrow> Some Toggling_alias
      | Alias_delete _ _ \<Rightarrow> Some Deleting_alias | Domain_create _ \<Rightarrow> Some (Busy Domain_busy)
      | Domain_update _ _ \<Rightarrow> Some (Busy Domain_busy) | Domain_set_status _ _ \<Rightarrow> None
      | Domain_delete _ \<Rightarrow> Some Deleting_domain)"

definition saved_at_once :: "config_call \<Rightarrow> domains_page \<Rightarrow> domains_page" where
  "saved_at_once c s =
     (case c of
        Cloudflare_call _ _ _ _ _ \<Rightarrow> s\<lparr>cm_forms := (cm_forms s)\<lparr>cf_api_token := None\<rparr>\<rparr>
      | Validate_call _ \<Rightarrow> s\<lparr>cm_forms := (cm_forms s)\<lparr>cf_api_token := None\<rparr>\<rparr>
      | Sending_call _ _ _ _ \<Rightarrow> s\<lparr>cm_forms := (cm_forms s)\<lparr>cf_key := None\<rparr>\<rparr>
      | Alias_create _ _ _ \<Rightarrow>
          s\<lparr>cm_alias_modal := False, cm_forms := (cm_forms s)\<lparr>cf_alias_mailbox := None, cf_alias_part := None\<rparr>\<rparr>
      | Domain_create _ \<Rightarrow> s\<lparr>dp_modal := False\<rparr>
      | Domain_update _ _ \<Rightarrow> s\<lparr>dp_modal := False\<rparr>
      | _ \<Rightarrow> s)"

text \<open>The domain whose configuration a change is for.\<close>

definition config_target :: "config_call \<Rightarrow> nat option" where
  "config_target c =
     (case c of Verify_call i _ \<Rightarrow> Some i | Cloudflare_call i _ _ _ _ \<Rightarrow> Some i | Validate_call i \<Rightarrow> Some i
      | Catch_all_call i _ _ \<Rightarrow> Some i | Sending_call i _ _ _ \<Rightarrow> Some i | Alias_create i _ _ \<Rightarrow> Some i
      | Alias_update i _ _ \<Rightarrow> Some i | Alias_delete i _ \<Rightarrow> Some i | _ \<Rightarrow> None)"

definition is_load :: "config_call \<Rightarrow> bool" where
  "is_load c = (case c of Load_config i k \<Rightarrow> True | Domains_load k \<Rightarrow> True | _ \<Rightarrow> False)"

definition on_changed :: "config_call \<Rightarrow> bool \<Rightarrow> domains_page \<Rightarrow> domains_page" where
  "on_changed c ok s =
     (if ok then
        let s1 = saved_at_once c s
        in case config_target c of Some i \<Rightarrow> load_config i (saver_of c) s1 | None \<Rightarrow> load_domains (saver_of c) s1
      else case saver_of c of None \<Rightarrow> s | Some sv \<Rightarrow> refused sv s)"

section \<open>The list of domains\<close>

definition open_create_modal :: "domains_page \<Rightarrow> domains_page" where
  "open_create_modal s =
     s\<lparr>dp_editing := None,
       dp_form := \<lparr>df_name = None, df_display = None, df_status = None, df_receive = True, df_send = False\<rparr>,
       dp_modal := True\<rparr>"

definition open_edit_modal :: "domain_row \<Rightarrow> domains_page \<Rightarrow> domains_page" where
  "open_edit_modal r s =
     s\<lparr>dp_editing := Some (dr_id r),
       dp_form := \<lparr>df_name = Some (dr_name r), df_display = dr_display r, df_status = Some (dr_status r),
          df_receive = dr_receive r, df_send = dr_send r\<rparr>,
       dp_modal := True\<rparr>"

text \<open>Only the fields shown are submitted: the name of a new domain, the status of an edited one.\<close>

definition handle_domain_submit :: "domains_page \<Rightarrow> domains_page" where
  "handle_domain_submit s =
     send_call (case dp_editing s of
          None \<Rightarrow> Domain_create ((dp_form s)\<lparr>df_status := None\<rparr>)
        | Some i \<Rightarrow> Domain_update i ((dp_form s)\<lparr>df_name := None\<rparr>))
       (set_busy Domain_busy True s)"

definition set_domain_status :: "domain_row \<Rightarrow> domain_status \<Rightarrow> domains_page \<Rightarrow> domains_page" where
  "set_domain_status r status s = send_call (Domain_set_status (dr_id r) status) s"

definition handle_domain_delete :: "domain_row \<Rightarrow> domains_page \<Rightarrow> domains_page" where
  "handle_domain_delete r s = send_call (Domain_delete (dr_id r)) (s\<lparr>dp_deleting := Some (dr_id r)\<rparr>)"

section \<open>The machine\<close>

datatype domains_event =
    Create_opened | Edit_opened domain_row | Domain_typed domain_form | Domain_cancelled | Domain_submitted
  | Status_clicked domain_row | Delete_confirmed domain_row | Configure_clicked domain_row | Config_closed
  | Config_typed config_forms | Refresh_config | Regenerate | Save_verification | Save_cloudflare bool | Run_validation
  | Save_catch_all | Save_sending | Alias_opened | Alias_cancelled | Alias_submitted
  | Alias_toggled domain_alias | Alias_deleted domain_alias
  | Config_answered config_call "domain_detail option" "domain_alias list option"
  | Domains_answered config_call "domain_row list option" | Changed config_call bool

definition list_front :: "domains_page \<Rightarrow> bool" where
  "list_front s \<longleftrightarrow> \<not> dp_modal s \<and> dp_config s = None"

text \<open>The window's content is shown once it is loaded; the alias window covers it.\<close>

definition config_shown :: "domains_page \<Rightarrow> bool" where
  "config_shown s \<longleftrightarrow> dp_config s \<noteq> None \<and> \<not> cm_loading s \<and> cm_detail s \<noteq> None \<and> \<not> cm_alias_modal s"

text \<open>What can be chosen in the selects of the window. A new domain is only submitted with a name that is not empty.\<close>

definition choice :: "domains_page \<Rightarrow> nat option \<Rightarrow> bool" where
  "choice s m \<longleftrightarrow> (\<forall>x. m = Some x \<longrightarrow> x \<in> set (active_mailbox_options (cm_detail s)))"

inductive domains_step :: "domains_page \<Rightarrow> domains_event \<Rightarrow> domains_page \<Rightarrow> bool" where
  create_opened: "list_front s \<Longrightarrow> domains_step s Create_opened (open_create_modal s)"
| edit_opened: "list_front s \<Longrightarrow> r \<in> set (dp_domains s) \<Longrightarrow> domains_step s (Edit_opened r) (open_edit_modal r s)"
| domain_typed: "dp_modal s \<Longrightarrow> domains_step s (Domain_typed f) (s\<lparr>dp_form := f\<rparr>)"
| domain_cancelled: "dp_modal s \<Longrightarrow> domains_step s Domain_cancelled (s\<lparr>dp_modal := False\<rparr>)"
| domain_submitted: "dp_modal s \<Longrightarrow> \<not> cm_busy s Domain_busy \<Longrightarrow> (dp_editing s = None \<longrightarrow> df_name (dp_form s) \<noteq> None \<and> df_name (dp_form s) \<noteq> Some []) \<Longrightarrow>
     domains_step s Domain_submitted (handle_domain_submit s)"
| status_clicked: "list_front s \<Longrightarrow> r \<in> set (dp_domains s) \<Longrightarrow>
     domains_step s (Status_clicked r)
       (set_domain_status r (if dr_status r \<noteq> Domain_active then Domain_active else Domain_disabled) s)"
| delete_confirmed: "list_front s \<Longrightarrow> r \<in> set (dp_domains s) \<Longrightarrow> dp_deleting s \<noteq> Some (dr_id r) \<Longrightarrow>
     domains_step s (Delete_confirmed r) (handle_domain_delete r s)"
| configure: "list_front s \<Longrightarrow> r \<in> set (dp_domains s) \<Longrightarrow>
     domains_step s (Configure_clicked r) (open_config_modal (dr_id r) s)"
| config_closed: "dp_config s \<noteq> None \<Longrightarrow> \<not> cm_alias_modal s \<Longrightarrow> domains_step s Config_closed (handle_close s)"
| config_typed: "config_shown s \<or> cm_alias_modal s \<Longrightarrow>
     cf_target f = cf_target (cm_forms s) \<or> choice s (cf_target f) \<Longrightarrow>
     cf_alias_mailbox f = cf_alias_mailbox (cm_forms s) \<or> choice s (cf_alias_mailbox f) \<Longrightarrow>
     domains_step s (Config_typed f) (s\<lparr>cm_forms := f\<rparr>)"
| refresh_config: "config_shown s \<Longrightarrow> dp_config s = Some i \<Longrightarrow> domains_step s Refresh_config (load_config i None s)"
| regenerate: "config_shown s \<Longrightarrow> \<not> cm_busy s Verification_busy \<Longrightarrow>
     domains_step s Regenerate (handle_regenerate_verification s)"
| save_verification: "config_shown s \<Longrightarrow> \<not> cm_busy s Verification_busy \<Longrightarrow>
     domains_step s Save_verification (handle_save_verification s)"
| save_cloudflare: "config_shown s \<Longrightarrow> \<not> cm_busy s Cloudflare_busy \<Longrightarrow>
     (clear \<longrightarrow> (\<exists>d. cm_detail s = Some d \<and> dd_has_saved_token d)) \<Longrightarrow>
     domains_step s (Save_cloudflare clear) (handle_save_cloudflare_config clear s)"
| run_validation: "config_shown s \<Longrightarrow> \<not> cm_busy s Validation_busy \<Longrightarrow>
     domains_step s Run_validation (handle_run_cloudflare_validation s)"
| save_catch_all: "config_shown s \<Longrightarrow> \<not> cm_busy s Catch_all_busy \<Longrightarrow>
     (cf_enabled (cm_forms s) \<longrightarrow> cf_target (cm_forms s) \<noteq> None) \<Longrightarrow>
     domains_step s Save_catch_all (handle_save_catch_all s)"
| save_sending: "config_shown s \<Longrightarrow> \<not> cm_busy s Sending_busy \<Longrightarrow> (\<exists>d. cm_detail s = Some d \<and> dd_can_send d) \<Longrightarrow>
     domains_step s Save_sending (handle_save_sending_config s)"
| alias_opened: "config_shown s \<Longrightarrow> active_mailbox_options (cm_detail s) \<noteq> [] \<Longrightarrow>
     domains_step s Alias_opened (open_alias_modal s)"
| alias_cancelled: "cm_alias_modal s \<Longrightarrow> domains_step s Alias_cancelled (s\<lparr>cm_alias_modal := False\<rparr>)"
| alias_submitted: "cm_alias_modal s \<Longrightarrow> \<not> cm_busy s Alias_busy \<Longrightarrow> domains_step s Alias_submitted (handle_create_alias s)"
| alias_toggled: "config_shown s \<Longrightarrow> a \<in> set (cm_aliases s) \<Longrightarrow> cm_toggling s \<noteq> Some (al_id a) \<Longrightarrow>
     domains_step s (Alias_toggled a) (handle_toggle_alias a s)"
| alias_deleted: "config_shown s \<Longrightarrow> a \<in> set (cm_aliases s) \<Longrightarrow> cm_deleting s \<noteq> Some (al_id a) \<Longrightarrow>
     domains_step s (Alias_deleted a) (handle_delete_alias a s)"
| config_answered: "c = Load_config i k \<Longrightarrow> c \<in> set (dp_calls s) \<Longrightarrow> (\<forall>d. result = Some d \<longrightarrow> dd_id d = i) \<Longrightarrow>
     domains_step s (Config_answered c result aliases) (on_config k result aliases (end_config_call c s))"
| domains_answered: "c = Domains_load k \<Longrightarrow> c \<in> set (dp_calls s) \<Longrightarrow>
     domains_step s (Domains_answered c result) (on_domains k result (end_config_call c s))"
| changed: "c \<in> set (dp_calls s) \<Longrightarrow> \<not> is_load c \<Longrightarrow>
     domains_step s (Changed c ok) (on_changed c ok (end_config_call c s))"

text \<open>The page starts with the load of the list under way.\<close>

definition domains_start :: "domains_page \<Rightarrow> bool" where
  "domains_start s \<longleftrightarrow> dp_loading s \<and> dp_domains s = [] \<and> \<not> dp_modal s \<and> dp_editing s = None \<and> dp_config s = None
     \<and> dp_deleting s = None \<and> \<not> cm_loading s \<and> cm_detail s = None \<and> cm_aliases s = [] \<and> \<not> cm_alias_modal s
     \<and> (\<forall>b. \<not> cm_busy s b) \<and> cm_toggling s = None \<and> cm_deleting s = None
     \<and> cm_forms s = \<lparr>cf_token = None, cf_api_token = None, cf_zone = None, cf_enabled = False, cf_target = None,
          cf_from_name = None, cf_reply_to = None, cf_key = None, cf_alias_mailbox = None, cf_alias_part = None\<rparr>
     \<and> dp_calls s = [Domains_load None]"

end
