(* ===== verification/DomainSafety.thy ===== *)
theory DomainSafety
  imports DomainConfig
begin

text \<open>
  Invariants of the domains page: a flag that is set has a request under way that will clear it, requests
  are well formed, and, when the window is only opened on a quiet page and no first load fails, its contents
  belong to the open domain.
\<close>

section \<open>Flags and requests\<close>

fun base :: "saver \<Rightarrow> saver" where
  "base (Cloudflare_then i tok has) = Busy Cloudflare_busy"
| "base sv = sv"

definition flags :: "domains_page \<Rightarrow> saver set" where
  "flags s = Busy ` Collect (cm_busy s) \<union> (if cm_toggling s = None then {} else {Toggling_alias})
     \<union> (if cm_deleting s = None then {} else {Deleting_alias}) \<union> (if dp_deleting s = None then {} else {Deleting_domain})"

definition owes :: "config_call \<Rightarrow> saver set" where
  "owes c = base ` set_option (saver_of c)"

definition owed :: "domains_page \<Rightarrow> saver set" where
  "owed s = \<Union> (owes ` set (dp_calls s))"

definition loads_owed :: "domains_page \<Rightarrow> bool" where
  "loads_owed s \<longleftrightarrow> (cm_loading s \<longrightarrow> (\<exists>i k. Load_config i k \<in> set (dp_calls s)))
     \<and> (dp_loading s \<longrightarrow> (\<exists>k. Domains_load k \<in> set (dp_calls s)))"

definition busy_inv :: "domains_page \<Rightarrow> bool" where
  "busy_inv s \<longleftrightarrow> flags s \<subseteq> owed s \<and> loads_owed s"

lemmas busy_defs = busy_inv_def loads_owed_def owed_def

lemma flags_frame:
  "cm_busy u = cm_busy s \<Longrightarrow> cm_toggling u = cm_toggling s \<Longrightarrow> cm_deleting u = cm_deleting s \<Longrightarrow>
     dp_deleting u = dp_deleting s \<Longrightarrow> flags u = flags s"
  by (simp add: flags_def)

lemma flags_set_busy: "flags (set_busy b v s) = (if v then insert (Busy b) (flags s) else flags s - {Busy b})"
  by (auto simp: flags_def set_busy_def image_iff split: if_splits)

lemma set_busy_fields [simp]:
  "dp_calls (set_busy b v s) = dp_calls s" "cm_loading (set_busy b v s) = cm_loading s"
  "dp_loading (set_busy b v s) = dp_loading s" "cm_forms (set_busy b v s) = cm_forms s"
  "cm_detail (set_busy b v s) = cm_detail s" "dp_config (set_busy b v s) = dp_config s"
  by (simp_all add: set_busy_def)

lemma flags_calls [simp]: "flags (send_call c s) = flags s" "flags (end_config_call c s) = flags s"
  by (simp_all add: flags_def send_call_def end_config_call_def)

lemma flags_rows:
  "flags (s\<lparr>cm_toggling := Some a\<rparr>) = insert Toggling_alias (flags s)"
  "flags (s\<lparr>cm_deleting := Some a\<rparr>) = insert Deleting_alias (flags s)"
  "flags (s\<lparr>dp_deleting := Some a\<rparr>) = insert Deleting_domain (flags s)"
  "flags (s\<lparr>cm_toggling := None\<rparr>) = flags s - {Toggling_alias}"
  "flags (s\<lparr>cm_deleting := None\<rparr>) = flags s - {Deleting_alias}"
  "flags (s\<lparr>dp_deleting := None\<rparr>) = flags s - {Deleting_domain}"
  by (auto simp: flags_def)

lemma busy_frame:
  assumes "busy_inv s" "cm_busy u = cm_busy s" "cm_toggling u = cm_toggling s" "cm_deleting u = cm_deleting s"
    "dp_deleting u = dp_deleting s" "dp_calls u = dp_calls s" "cm_loading u = cm_loading s" "dp_loading u = dp_loading s"
  shows "busy_inv u"
  using assms flags_frame [OF assms(2-5)] by (simp add: busy_defs)

lemma busy_send:
  assumes "busy_inv s" "flags t \<subseteq> flags s \<union> owes c" "dp_calls t = dp_calls s"
    "cm_loading t = cm_loading s" "dp_loading t = dp_loading s"
  shows "busy_inv (send_call c t)"
  using assms by (auto simp: busy_inv_def loads_owed_def owed_def) (auto simp: send_call_def)

lemma busy_load_config:
  "flags s \<subseteq> owed s \<union> base ` set_option k \<Longrightarrow> (dp_loading s \<longrightarrow> (\<exists>k. Domains_load k \<in> set (dp_calls s))) \<Longrightarrow>
     busy_inv (load_config i k s)"
proof -
  have "flags (load_config i k s) = flags s" unfolding load_config_def flags_calls by (rule flags_frame) simp_all
  moreover assume "flags s \<subseteq> owed s \<union> base ` set_option k" "dp_loading s \<longrightarrow> (\<exists>k. Domains_load k \<in> set (dp_calls s))"
  ultimately show ?thesis
    unfolding busy_inv_def loads_owed_def owed_def
    by (auto simp: load_config_def send_call_def owes_def saver_of_def)
qed

lemma busy_load_domains:
  "flags s \<subseteq> owed s \<union> base ` set_option k \<Longrightarrow> (cm_loading s \<longrightarrow> (\<exists>i k. Load_config i k \<in> set (dp_calls s))) \<Longrightarrow>
     busy_inv (load_domains k s)"
proof -
  have "flags (load_domains k s) = flags s" unfolding load_domains_def flags_calls by (rule flags_frame) simp_all
  moreover assume "flags s \<subseteq> owed s \<union> base ` set_option k" "cm_loading s \<longrightarrow> (\<exists>i k. Load_config i k \<in> set (dp_calls s))"
  ultimately show ?thesis
    unfolding busy_inv_def loads_owed_def owed_def
    by (auto simp: load_domains_def send_call_def owes_def saver_of_def)
qed

text \<open>The end of a handler clears the flag its requests owe.\<close>

lemma finish_busy:
  assumes "flags s \<subseteq> owed s \<union> {base sv}" "loads_owed s"
  shows "busy_inv (finish sv s)"
proof -
  have clear: "busy_inv t" if "flags t = flags s - {base sv}" "dp_calls t = dp_calls s" "cm_loading t = cm_loading s"
    "dp_loading t = dp_loading s" for t
    using assms that by (auto simp: busy_defs)
  show ?thesis
  proof (cases sv)
    case (Busy b)
    then show ?thesis by (simp add: clear flags_set_busy)
  next
    case (Cloudflare_then i tok has)
    have c: "busy_inv (set_busy Cloudflare_busy False s)"
      by (rule clear) (simp_all add: flags_set_busy Cloudflare_then)
    have "busy_inv (start_validation i (set_busy Cloudflare_busy False s))"
      unfolding start_validation_def
      by (rule busy_send [OF c]) (auto simp: flags_set_busy owes_def saver_of_def)
    then show ?thesis using c Cloudflare_then by (simp add: Let_def)
  qed (simp_all add: clear flags_rows)
qed

lemma refused_busy:
  assumes "flags s \<subseteq> owed s \<union> {base sv}" "loads_owed s"
  shows "busy_inv (refused sv s)"
proof (cases sv)
  case (Cloudflare_then i tok has)
  then show ?thesis using finish_busy [of s "Busy Cloudflare_busy"] assms by (simp add: refused_def)
qed (use finish_busy [OF assms] in \<open>simp_all add: refused_def\<close>)

lemma owed_end: "flags s \<subseteq> owed s \<Longrightarrow> flags (end_config_call c s) \<subseteq> owed (end_config_call c s) \<union> owes c"
proof -
  have "owed s \<subseteq> owed (end_config_call c s) \<union> owes c"
  proof
    fix x assume "x \<in> owed s"
    then obtain d where d: "d \<in> set (dp_calls s)" "x \<in> owes d" by (auto simp: owed_def)
    then show "x \<in> owed (end_config_call c s) \<union> owes c"
      by (cases "d = c") (auto simp: owed_def end_config_call_def intro!: bexI [of _ d])
  qed
  moreover assume "flags s \<subseteq> owed s"
  ultimately show ?thesis by auto
qed

text \<open>An ended request that is no load leaves the loads under way.\<close>

lemma loads_end: "loads_owed s \<Longrightarrow> \<not> is_load c \<Longrightarrow> loads_owed (end_config_call c s)"
proof -
  assume l: "loads_owed s" and c: "\<not> is_load c"
  have "c \<noteq> Load_config i k" "c \<noteq> Domains_load k" for i k using c by (auto simp: is_load_def)
  then have "Load_config i k \<in> set (remove1 c (dp_calls s)) \<longleftrightarrow> Load_config i k \<in> set (dp_calls s)"
    "Domains_load k \<in> set (remove1 c (dp_calls s)) \<longleftrightarrow> Domains_load k \<in> set (dp_calls s)" for i k
    by (metis in_set_remove1)+
  then show ?thesis using l by (simp add: loads_owed_def end_config_call_def)
qed

lemma busy_changed:
  assumes "busy_inv s" "\<not> is_load c"
  shows "busy_inv (on_changed c ok (end_config_call c s))"
proof -
  let ?t = "end_config_call c s"
  have f: "flags ?t \<subseteq> owed ?t \<union> base ` set_option (saver_of c)" and l: "loads_owed ?t"
    using owed_end [of s c] loads_end assms by (simp_all add: busy_inv_def owes_def)
  have once: "flags (saved_at_once c ?t) = flags ?t" "owed (saved_at_once c ?t) = owed ?t"
    "cm_loading (saved_at_once c ?t) = cm_loading ?t" "dp_loading (saved_at_once c ?t) = dp_loading ?t"
    "dp_calls (saved_at_once c ?t) = dp_calls ?t"
    by (cases c; simp add: saved_at_once_def flags_def owed_def)+
  show ?thesis
  proof (cases ok)
    case True
    have "busy_inv (load_config i (saver_of c) (saved_at_once c ?t))" for i
      by (rule busy_load_config) (use f l in \<open>unfold once loads_owed_def, blast+\<close>)
    moreover have "busy_inv (load_domains (saver_of c) (saved_at_once c ?t))"
      by (rule busy_load_domains) (use f l in \<open>unfold once loads_owed_def, blast+\<close>)
    ultimately show ?thesis using True by (simp add: on_changed_def Let_def split: option.split)
  next
    case False
    then show ?thesis
      using refused_busy [of ?t] f l by (cases "saver_of c") (simp_all add: on_changed_def busy_inv_def)
  qed
qed

lemma busy_on_domains:
  assumes "busy_inv s"
  shows "busy_inv (on_domains k result (end_config_call (Domains_load k) s))"
proof -
  let ?c = "Domains_load k"
  define u where "u = (case result of None \<Rightarrow> end_config_call ?c s | Some rows \<Rightarrow> (end_config_call ?c s)\<lparr>dp_domains := rows\<rparr>)\<lparr>dp_loading := False\<rparr>"
  have u: "flags u = flags (end_config_call ?c s)" "dp_calls u = dp_calls (end_config_call ?c s)"
    "cm_loading u = cm_loading s" "\<not> dp_loading u"
    by (cases result; simp add: u_def flags_def end_config_call_def)+
  have "loads_owed u" using assms u by (fastforce simp: busy_inv_def loads_owed_def end_config_call_def)
  moreover have "flags u \<subseteq> owed u \<union> base ` set_option k"
    using owed_end [of s ?c] assms unfolding busy_inv_def owed_def u owes_def by (simp add: saver_of_def)
  moreover have "on_domains k result (end_config_call ?c s) = (case k of None \<Rightarrow> u | Some sv \<Rightarrow> finish sv u)"
    unfolding on_domains_def Let_def u_def by (cases k) simp_all
  ultimately show ?thesis using finish_busy [of u] by (cases k) (simp_all add: busy_inv_def)
qed

lemma busy_on_config:
  assumes "busy_inv s"
  shows "busy_inv (on_config k result aliases (end_config_call (Load_config i k) s))"
proof -
  let ?c = "Load_config i k"
  let ?t = "end_config_call ?c s"
  define u where "u = (case result of None \<Rightarrow> ?t | Some d \<Rightarrow> ?t\<lparr>cm_detail := Some d, cm_forms := forms_of_detail d (cm_forms ?t)\<rparr>)
    \<lparr>cm_aliases := (case aliases of None \<Rightarrow> [] | Some a \<Rightarrow> a), cm_loading := False\<rparr>"
  have u: "flags u = flags ?t" "dp_calls u = dp_calls ?t" "\<not> cm_loading u" "dp_loading u = dp_loading s"
    by (cases result; simp add: u_def flags_def end_config_call_def)+
  have l: "loads_owed u" using assms u by (fastforce simp: busy_inv_def loads_owed_def end_config_call_def)
  have f: "flags u \<subseteq> owed u \<union> base ` set_option k"
    using owed_end [of s ?c] assms unfolding busy_inv_def owed_def u owes_def by (simp add: saver_of_def)
  have "on_config k result aliases ?t = after_config k u" by (simp add: on_config_def u_def Let_def)
  moreover have "busy_inv (after_config k u)"
    using finish_busy [of u] busy_load_domains [of u k] f l
    by (cases k) (simp_all add: after_config_def busy_inv_def loads_owed_def)
  ultimately show ?thesis by simp
qed

lemma busy_handlers:
  assumes "busy_inv s"
  shows "busy_inv (handle_regenerate_verification s)" "busy_inv (handle_save_verification s)"
    "busy_inv (save_cloudflare_config clear (Busy Cloudflare_busy) i s)"
    "busy_inv (save_cloudflare_config clear (Cloudflare_then i tok has) i s)" "busy_inv (start_validation i s)"
    "busy_inv (handle_save_catch_all s)" "busy_inv (handle_save_sending_config s)" "busy_inv (handle_create_alias s)"
    "busy_inv (handle_toggle_alias a s)" "busy_inv (handle_delete_alias a s)" "busy_inv (handle_domain_submit s)"
    "busy_inv (set_domain_status r st s)" "busy_inv (handle_domain_delete r s)"
proof -
  have send: "busy_inv (send_call c (set_busy b True s))" if "owes c = {Busy b}" for c b
    using that by (intro busy_send [OF assms]) (auto simp: flags_set_busy)
  have plain: "busy_inv (send_call c s)" for c by (rule busy_send [OF assms]) auto
  have rows: "busy_inv (send_call (Alias_update i x y) (s\<lparr>cm_toggling := Some z\<rparr>))"
    "busy_inv (send_call (Alias_delete i x) (s\<lparr>cm_deleting := Some z\<rparr>))"
    "busy_inv (send_call (Domain_delete i) (s\<lparr>dp_deleting := Some z\<rparr>))" for i x y z
    by (rule busy_send [OF assms]; auto simp: flags_rows owes_def saver_of_def)+
  note ow = owes_def saver_of_def
  show "busy_inv (handle_regenerate_verification s)" "busy_inv (handle_save_verification s)"
    "busy_inv (handle_save_catch_all s)" "busy_inv (handle_save_sending_config s)" "busy_inv (handle_create_alias s)"
    using assms
    by (auto simp: handle_regenerate_verification_def handle_save_verification_def handle_save_catch_all_def
        handle_save_sending_config_def handle_create_alias_def ow intro!: send split: option.split)
  show "busy_inv (save_cloudflare_config clear (Busy Cloudflare_busy) i s)"
    "busy_inv (save_cloudflare_config clear (Cloudflare_then i tok has) i s)" "busy_inv (start_validation i s)"
    by (auto simp: save_cloudflare_config_def start_validation_def ow intro!: send)
  show "busy_inv (handle_domain_submit s)"
    unfolding handle_domain_submit_def by (rule send) (simp add: ow split: option.split)
  show "busy_inv (handle_toggle_alias a s)" "busy_inv (handle_delete_alias a s)"
    "busy_inv (set_domain_status r st s)" "busy_inv (handle_domain_delete r s)"
    using assms by (auto simp: handle_toggle_alias_def handle_delete_alias_def set_domain_status_def handle_domain_delete_def
        intro: rows plain split: option.split)
qed

lemma busy_refresh: "busy_inv s \<Longrightarrow> busy_inv (load_config i None s)"
  by (rule busy_load_config) (auto simp: busy_inv_def loads_owed_def)

lemma busy_open: "busy_inv s \<Longrightarrow> busy_inv (open_config_modal i s)"
  unfolding open_config_modal_def by (rule busy_refresh) (rule busy_frame [of s]; simp)

lemma busy_step: "busy_inv s \<Longrightarrow> domains_step s e u \<Longrightarrow> busy_inv u"
proof -
  assume inv: "busy_inv s" and step: "domains_step s e u"
  from step show ?thesis
  proof (cases rule: domains_step.cases)
    case run_validation
    then show ?thesis using busy_handlers [OF inv] inv
      by (simp add: handle_run_cloudflare_validation_def Let_def split: option.split)
  next
    case save_cloudflare
    then show ?thesis using busy_handlers [OF inv] inv
      by (simp add: handle_save_cloudflare_config_def split: option.split)
  next
    case config_answered
    then show ?thesis using busy_on_config [OF inv] by simp
  next
    case domains_answered
    then show ?thesis using busy_on_domains [OF inv] by simp
  next
    case changed
    then show ?thesis using busy_changed [OF inv] by simp
  next
    case configure
    then show ?thesis using busy_open [OF inv] by simp
  next
    case refresh_config
    then show ?thesis using busy_refresh [OF inv] by simp
  qed (simp only: busy_handlers [OF inv];
      rule busy_frame [OF inv]; simp add: open_create_modal_def open_edit_modal_def handle_close_def open_alias_modal_def)+
qed

lemma busy_start: "domains_start s \<Longrightarrow> busy_inv s"
  by (auto simp: domains_start_def busy_defs flags_def)

interpretation busy: machine_invariant domains_start domains_step busy_inv
  by unfold_locales (simp_all add: busy_start busy_step)

section \<open>Well-formed requests\<close>

definition clean :: "jstr option \<Rightarrow> bool" where
  "clean x \<longleftrightarrow> (\<forall>v. x = Some v \<longrightarrow> v \<noteq> [] \<and> trim v = v)"

lemma clean_trim [simp]: "clean (opt_trim x)" "clean None"
  by (auto simp: clean_def opt_trim_def split: option.splits if_splits)

definition proper_call :: "config_call \<Rightarrow> bool" where
  "proper_call c =
     (case c of
        Verify_call i token \<Rightarrow> clean token
      | Cloudflare_call i token zone clear sv \<Rightarrow> clean token \<and> clean zone \<and> (clear \<longrightarrow> token = None)
      | Catch_all_call i enabled target \<Rightarrow> enabled \<longleftrightarrow> target \<noteq> None
      | Sending_call i from_name reply_to key \<Rightarrow> clean from_name \<and> clean reply_to \<and> clean key
      | Alias_create i m part \<Rightarrow> part \<noteq> [] \<and> trim part = part
      | Domain_create f \<Rightarrow> df_name f \<noteq> None \<and> df_name f \<noteq> Some [] \<and> df_status f = None
      | Domain_update i f \<Rightarrow> df_name f = None
      | _ \<Rightarrow> True)"

definition proper_calls :: "domains_page \<Rightarrow> bool" where
  "proper_calls s \<longleftrightarrow> list_all proper_call (dp_calls s)"

lemma proper_frame: "proper_calls s \<Longrightarrow> set (dp_calls u) \<subseteq> set (dp_calls s) \<Longrightarrow> proper_calls u"
  by (auto simp: proper_calls_def list_all_iff)

lemma proper_send: "proper_calls s \<Longrightarrow> proper_call c \<Longrightarrow> proper_calls (send_call c s)"
  by (simp add: proper_calls_def send_call_def)

lemma proper_flags [simp]:
  "proper_calls (set_busy b v s) = proper_calls s" "proper_calls (s\<lparr>cm_toggling := x\<rparr>) = proper_calls s"
  "proper_calls (s\<lparr>cm_deleting := x\<rparr>) = proper_calls s" "proper_calls (s\<lparr>dp_deleting := x\<rparr>) = proper_calls s"
  by (simp_all add: proper_calls_def)

lemma proper_end: "proper_calls s \<Longrightarrow> proper_calls (end_config_call c s)"
  by (rule proper_frame) (auto simp: end_config_call_def dest: set_remove1_subset [THEN subsetD])

lemma proper_load:
  "proper_calls s \<Longrightarrow> proper_calls (load_config i k s)" "proper_calls s \<Longrightarrow> proper_calls (load_domains k s)"
  "proper_calls s \<Longrightarrow> proper_calls (start_validation i s)"
  by (simp_all add: load_config_def load_domains_def start_validation_def send_call_def proper_calls_def proper_call_def)

lemma proper_finish: "proper_calls s \<Longrightarrow> proper_calls (finish sv s)"
  by (cases sv) (simp_all add: Let_def proper_load)

lemma proper_cloudflare: "proper_calls s \<Longrightarrow> proper_calls (save_cloudflare_config clear sv i s)"
  by (auto simp: save_cloudflare_config_def proper_call_def intro!: proper_send)

lemma proper_changed: "proper_calls s \<Longrightarrow> proper_calls (on_changed c ok s)"
proof -
  assume p: "proper_calls s"
  have once: "proper_calls (saved_at_once c s)"
    by (rule proper_frame [OF p]) (simp add: saved_at_once_def split: config_call.split)
  moreover have "proper_calls (refused sv s)" for sv
    using p proper_finish by (auto simp: refused_def split: saver.split)
  ultimately show ?thesis using p by (auto simp: on_changed_def Let_def proper_load split: option.split)
qed

lemma proper_on_config: "proper_calls s \<Longrightarrow> proper_calls (on_config k result aliases s)"
proof -
  assume p: "proper_calls s"
  define u where "u = (case result of None \<Rightarrow> s | Some d \<Rightarrow> s\<lparr>cm_detail := Some d, cm_forms := forms_of_detail d (cm_forms s)\<rparr>)
    \<lparr>cm_aliases := (case aliases of None \<Rightarrow> [] | Some a \<Rightarrow> a), cm_loading := False\<rparr>"
  have "proper_calls u" by (rule proper_frame [OF p]) (simp add: u_def split: option.split)
  moreover have "on_config k result aliases s = after_config k u" by (simp add: on_config_def u_def Let_def)
  ultimately show ?thesis by (simp add: after_config_def proper_finish proper_load split: option.split)
qed

lemma proper_on_domains: "proper_calls s \<Longrightarrow> proper_calls (on_domains k result s)"
proof -
  assume p: "proper_calls s"
  define u where "u = (case result of None \<Rightarrow> s | Some rows \<Rightarrow> s\<lparr>dp_domains := rows\<rparr>)\<lparr>dp_loading := False\<rparr>"
  have "proper_calls u" by (rule proper_frame [OF p]) (simp add: u_def split: option.split)
  moreover have "on_domains k result s = (case k of None \<Rightarrow> u | Some sv \<Rightarrow> finish sv u)"
    unfolding on_domains_def Let_def u_def by (cases k) simp_all
  ultimately show ?thesis by (simp add: proper_finish split: option.split)
qed

lemma proper_handlers:
  assumes "proper_calls s"
  shows "proper_calls (handle_regenerate_verification s)" "proper_calls (handle_save_verification s)"
    "proper_calls (handle_save_cloudflare_config clear s)" "proper_calls (handle_run_cloudflare_validation s)"
    "proper_calls (handle_save_sending_config s)" "proper_calls (handle_create_alias s)"
    "proper_calls (handle_toggle_alias a s)" "proper_calls (handle_delete_alias a s)"
    "proper_calls (set_domain_status r st s)" "proper_calls (handle_domain_delete r s)"
proof -
  show "proper_calls (handle_regenerate_verification s)" "proper_calls (handle_save_verification s)"
    "proper_calls (handle_save_cloudflare_config clear s)" "proper_calls (handle_run_cloudflare_validation s)"
    "proper_calls (handle_save_sending_config s)" "proper_calls (handle_create_alias s)"
    "proper_calls (handle_toggle_alias a s)" "proper_calls (handle_delete_alias a s)"
    "proper_calls (set_domain_status r st s)" "proper_calls (handle_domain_delete r s)"
    using assms
    by (auto simp: handle_regenerate_verification_def handle_save_verification_def handle_save_cloudflare_config_def
        handle_run_cloudflare_validation_def handle_save_sending_config_def handle_create_alias_def handle_toggle_alias_def
        handle_delete_alias_def set_domain_status_def handle_domain_delete_def Let_def proper_call_def
        intro!: proper_send proper_cloudflare proper_load dest!: opt_trim_Some split: option.split)
qed

lemma proper_step: "proper_calls s \<Longrightarrow> domains_step s e u \<Longrightarrow> proper_calls u"
proof -
  assume p: "proper_calls s" and step: "domains_step s e u"
  from step show ?thesis
  proof (cases rule: domains_step.cases)
    case domain_submitted
    then show ?thesis using p
      by (auto simp: handle_domain_submit_def proper_call_def intro!: proper_send split: option.split)
  next
    case save_catch_all
    then show ?thesis using p
      by (auto simp: handle_save_catch_all_def proper_call_def intro!: proper_send split: option.split)
  next
    case configure
    then show ?thesis using p proper_load(1) [of "s\<lparr>dp_config := Some i\<rparr>" for i]
      by (simp add: open_config_modal_def proper_calls_def)
  qed (simp only: proper_handlers [OF p] proper_on_config proper_on_domains proper_changed proper_end p proper_load;
      rule proper_frame [OF p]; simp add: open_create_modal_def open_edit_modal_def handle_close_def open_alias_modal_def)+
qed

interpretation proper: machine_invariant domains_start domains_step proper_calls
  by unfold_locales (simp_all add: proper_step, simp add: domains_start_def proper_calls_def proper_call_def)

section \<open>Whose configuration is shown\<close>

definition saver_about :: "nat \<Rightarrow> saver option \<Rightarrow> bool" where
  "saver_about j k \<longleftrightarrow> (\<forall>i tok has. k = Some (Cloudflare_then i tok has) \<longrightarrow> i = j)"

definition about :: "nat \<Rightarrow> config_call \<Rightarrow> bool" where
  "about j c \<longleftrightarrow> saver_about j (saver_of c) \<and> (\<forall>i. config_target c = Some i \<longrightarrow> i = j)
     \<and> (\<forall>i k. c = Load_config i k \<longrightarrow> i = j)"

definition form_ok :: "domain_detail \<Rightarrow> config_forms \<Rightarrow> bool" where
  "form_ok d f \<longleftrightarrow> cf_target f = None \<or> cf_target f = dd_target d
     \<or> (\<exists>m \<in> set (dd_mailboxes d). dm_status m = Mailbox_active \<and> cf_target f = Some (dm_id m))"

definition all_about :: "nat \<Rightarrow> domains_page \<Rightarrow> bool" where
  "all_about j s \<longleftrightarrow> list_all (about j) (dp_calls s)"

definition belongs :: "domains_page \<Rightarrow> bool" where
  "belongs s \<longleftrightarrow> (\<forall>d. cm_detail s = Some d \<longrightarrow> form_ok d (cm_forms s))
     \<and> (\<forall>j. dp_config s = Some j \<longrightarrow> all_about j s \<and> (cm_loading s \<or> (\<exists>d. cm_detail s = Some d \<and> dd_id d = j)))"

text \<open>Runs in which the window is opened only when no request about another domain's configuration is under
  way, and the first load of a domain's configuration does not fail.\<close>

definition calm_domains_step :: "domains_page \<Rightarrow> domains_event \<Rightarrow> domains_page \<Rightarrow> bool" where
  "calm_domains_step s e u \<longleftrightarrow> domains_step s e u
     \<and> (case e of Configure_clicked r \<Rightarrow> all_about (dr_id r) s
        | Config_answered c None aliases \<Rightarrow> (\<forall>j. dp_config s = Some j \<longrightarrow> (\<exists>d. cm_detail s = Some d \<and> dd_id d = j))
        | _ \<Rightarrow> True)"

lemma belongs_frame:
  assumes "belongs s" "cm_detail u = cm_detail s" "cf_target (cm_forms u) = cf_target (cm_forms s)"
    "dp_config u = dp_config s \<or> dp_config u = None" "cm_loading u = cm_loading s \<or> cm_loading u"
    "\<forall>j. dp_config u = Some j \<longrightarrow> all_about j s \<longrightarrow> all_about j u"
  shows "belongs u"
  using assms by (auto simp: belongs_def form_ok_def)

lemma about_frame: "all_about j s \<Longrightarrow> dp_calls u = dp_calls s \<Longrightarrow> all_about j u"
  by (simp add: all_about_def)

lemma about_send: "all_about j (send_call c s) \<longleftrightarrow> about j c \<and> all_about j s"
  by (simp add: all_about_def send_call_def)

lemma about_busy [simp]: "all_about j (set_busy b v s) = all_about j s"
  by (simp add: all_about_def)

lemma about_end: "all_about j s \<Longrightarrow> all_about j (end_config_call c s)"
  by (auto simp: all_about_def end_config_call_def list_all_iff dest: set_remove1_subset [THEN subsetD])

lemmas about_defs = about_def saver_about_def saver_of_def config_target_def

lemma about_load:
  "all_about j s \<Longrightarrow> saver_about j k \<Longrightarrow> all_about j (load_config j k s)"
  "all_about j s \<Longrightarrow> saver_about j k \<Longrightarrow> all_about j (load_domains k s)"
  "all_about j s \<Longrightarrow> all_about j (start_validation j s)"
proof -
  assume s: "all_about j s"
  have "all_about j (s\<lparr>cm_loading := b\<rparr>)" "all_about j (s\<lparr>dp_loading := b\<rparr>)" for b
    by (rule about_frame [OF s]; simp)+
  then show "saver_about j k \<Longrightarrow> all_about j (load_config j k s)" "saver_about j k \<Longrightarrow> all_about j (load_domains k s)"
    "all_about j (start_validation j s)"
    using s by (simp_all add: load_config_def load_domains_def start_validation_def about_send about_def saver_of_def config_target_def)
      (simp add: saver_about_def)
qed

lemma finish_about: "all_about j s \<Longrightarrow> saver_about j (Some sv) \<Longrightarrow> all_about j (finish sv s)"
  by (cases sv) (auto simp: Let_def saver_about_def about_load intro: about_frame)

lemma finish_fields [simp]:
  "cm_detail (finish sv s) = cm_detail s" "cm_forms (finish sv s) = cm_forms s" "dp_config (finish sv s) = dp_config s"
  "cm_loading (finish sv s) = cm_loading s"
  by (cases sv; simp add: Let_def start_validation_def send_call_def)+

lemma belongs_finish:
  assumes "belongs s" "\<forall>j. dp_config s = Some j \<longrightarrow> saver_about j (Some sv)"
  shows "belongs (finish sv s)"
  by (rule belongs_frame [OF assms(1)]) (use assms(2) finish_about in simp_all)

lemma belongs_load_domains:
  assumes "belongs s" "\<forall>j. dp_config s = Some j \<longrightarrow> saver_about j k"
  shows "belongs (load_domains k s)"
  by (rule belongs_frame [OF assms(1)]) (use assms(2) about_load(2) in \<open>simp_all add: load_domains_def send_call_def\<close>)

lemma belongs_end: "belongs s \<Longrightarrow> belongs (end_config_call c s)"
  by (rule belongs_frame [of s]) (simp_all add: about_end, simp_all add: end_config_call_def)

lemma belongs_send:
  assumes "belongs s" "\<forall>j. dp_config s = Some j \<longrightarrow> about j c" "cm_detail t = cm_detail s" "cm_forms t = cm_forms s"
    "dp_config t = dp_config s" "cm_loading t = cm_loading s" "dp_calls t = dp_calls s"
  shows "belongs (send_call c t)"
proof (rule belongs_frame [OF assms(1)])
  show "\<forall>j. dp_config (send_call c t) = Some j \<longrightarrow> all_about j s \<longrightarrow> all_about j (send_call c t)"
    using assms(2,5) about_frame [of _ s t] assms(7) by (simp add: about_send) (simp add: send_call_def)
qed (use assms in \<open>simp_all add: send_call_def\<close>)

lemma belongs_load:
  assumes "\<forall>d. cm_detail s = Some d \<longrightarrow> form_ok d (cm_forms s)"
    "\<forall>j. dp_config s = Some j \<longrightarrow> j = i \<and> all_about j s \<and> saver_about j k"
  shows "belongs (load_config i k s)"
proof -
  have "all_about j (load_config i k s)" if "dp_config s = Some j" for j
    using that assms(2) about_load(1) by blast
  then show ?thesis using assms(1) unfolding belongs_def by (simp add: load_config_def send_call_def)
qed

lemma belongs_changed:
  assumes "belongs s" "c \<in> set (dp_calls s)" "\<not> is_load c"
  shows "belongs (on_changed c ok (end_config_call c s))"
proof -
  let ?t = "end_config_call c s"
  have t: "belongs ?t" using assms(1) by (rule belongs_end)
  have ab: "about j c" if "dp_config ?t = Some j" for j
    using that assms(1,2) by (simp add: belongs_def all_about_def list_all_iff end_config_call_def)
  have once: "belongs (saved_at_once c ?t)"
    by (rule belongs_frame [OF t]; cases c; simp add: saved_at_once_def all_about_def)
  have cfg: "dp_config (saved_at_once c ?t) = dp_config ?t" by (cases c) (simp_all add: saved_at_once_def)
  have "belongs (load_config i (saver_of c) (saved_at_once c ?t))" if "config_target c = Some i" for i
    by (rule belongs_load) (use once ab cfg that in \<open>auto simp: belongs_def about_def\<close>)
  moreover have "belongs (load_domains (saver_of c) (saved_at_once c ?t))"
    by (rule belongs_load_domains [OF once]) (use ab cfg in \<open>auto simp: about_def\<close>)
  moreover have "belongs (refused sv ?t)" if "saver_of c = Some sv" for sv
  proof (cases sv)
    case (Cloudflare_then i tok has)
    have "belongs (set_busy Cloudflare_busy False ?t)" by (rule belongs_frame [OF t]) simp_all
    then show ?thesis using Cloudflare_then by (simp add: refused_def)
  qed (use belongs_finish [OF t, of sv] in \<open>simp_all add: refused_def saver_about_def\<close>)
  ultimately show ?thesis using t
    by (cases "config_target c"; cases "saver_of c") (simp_all add: on_changed_def Let_def)
qed

lemma belongs_on_domains:
  assumes "belongs s" "Domains_load k \<in> set (dp_calls s)"
  shows "belongs (on_domains k result (end_config_call (Domains_load k) s))"
proof -
  let ?t = "end_config_call (Domains_load k) s"
  define u where "u = (case result of None \<Rightarrow> ?t | Some rows \<Rightarrow> ?t\<lparr>dp_domains := rows\<rparr>)\<lparr>dp_loading := False\<rparr>"
  have u: "belongs u" by (rule belongs_frame [OF belongs_end [OF assms(1), of "Domains_load k"]]; cases result; simp add: u_def all_about_def)
  have "dp_config u = dp_config s" by (cases result) (simp_all add: u_def end_config_call_def)
  then have "about j (Domains_load k)" if "dp_config u = Some j" for j
    using that assms by (simp add: belongs_def all_about_def list_all_iff)
  then have "saver_about j k" if "dp_config u = Some j" for j
    using that by (simp add: about_def saver_of_def)
  moreover have "on_domains k result ?t = (case k of None \<Rightarrow> u | Some sv \<Rightarrow> finish sv u)"
    unfolding on_domains_def Let_def u_def by (cases k) simp_all
  ultimately show ?thesis using u belongs_finish [OF u] by (cases k) auto
qed

lemma belongs_on_config:
  assumes "belongs s" "Load_config i k \<in> set (dp_calls s)" "\<forall>d. result = Some d \<longrightarrow> dd_id d = i"
    "result = None \<longrightarrow> (\<forall>j. dp_config s = Some j \<longrightarrow> (\<exists>d. cm_detail s = Some d \<and> dd_id d = j))"
  shows "belongs (on_config k result aliases (end_config_call (Load_config i k) s))"
proof -
  let ?t = "end_config_call (Load_config i k) s"
  define u where "u = (case result of None \<Rightarrow> ?t | Some d \<Rightarrow> ?t\<lparr>cm_detail := Some d, cm_forms := forms_of_detail d (cm_forms ?t)\<rparr>)
    \<lparr>cm_aliases := (case aliases of None \<Rightarrow> [] | Some a \<Rightarrow> a), cm_loading := False\<rparr>"
  have cfg: "dp_config u = dp_config s" by (cases result) (simp_all add: u_def end_config_call_def)
  have ab: "about j (Load_config i k)" if "dp_config s = Some j" for j
    using that assms(1,2) by (simp add: belongs_def all_about_def list_all_iff)
  have "all_about j u" if "dp_config s = Some j" for j
  proof -
    have "all_about j ?t" using that assms(1) about_end by (simp add: belongs_def)
    then show ?thesis by (rule about_frame) (cases result; simp add: u_def)
  qed
  moreover have "\<exists>d. cm_detail u = Some d \<and> dd_id d = j" if "dp_config s = Some j" for j
    using that assms(3,4) ab [OF that] by (cases result) (auto simp: u_def end_config_call_def about_def)
  moreover have "\<forall>d. cm_detail u = Some d \<longrightarrow> form_ok d (cm_forms u)"
    using assms(1) by (cases result) (auto simp: u_def end_config_call_def belongs_def form_ok_def forms_of_detail_def)
  ultimately have u: "belongs u" using cfg by (simp add: belongs_def)
  have k: "\<forall>j. dp_config u = Some j \<longrightarrow> saver_about j k" using ab cfg by (simp add: about_def saver_of_def)
  have "on_config k result aliases ?t = after_config k u" by (simp add: on_config_def u_def Let_def)
  then show ?thesis
    using belongs_finish [OF u] belongs_load_domains [OF u k] u k by (cases k) (simp_all add: after_config_def)
qed

lemma belongs_handlers:
  assumes "belongs s"
  shows "belongs (handle_regenerate_verification s)" "belongs (handle_save_verification s)"
    "belongs (handle_save_cloudflare_config clear s)" "belongs (handle_run_cloudflare_validation s)"
    "belongs (handle_save_catch_all s)" "belongs (handle_save_sending_config s)" "belongs (handle_create_alias s)"
    "belongs (handle_toggle_alias a s)" "belongs (handle_delete_alias a s)" "belongs (handle_domain_submit s)"
    "belongs (set_domain_status r st s)" "belongs (handle_domain_delete r s)"
proof -
  have send: "belongs (send_call c (set_busy b v s))" if "\<forall>j. dp_config s = Some j \<longrightarrow> about j c" for c b v
    by (rule belongs_send [OF assms that]) simp_all
  have cf: "belongs (save_cloudflare_config clear (Busy Cloudflare_busy) i s)"
    "belongs (save_cloudflare_config clear (Cloudflare_then i tok has) i s)" "belongs (start_validation i s)"
    if "dp_config s = Some i" for clear i tok has
    unfolding save_cloudflare_config_def start_validation_def by (rule send, use that in \<open>simp add: about_defs\<close>)+
  have rows: "belongs (send_call c (s\<lparr>cm_toggling := x\<rparr>))" "belongs (send_call c (s\<lparr>cm_deleting := x\<rparr>))"
    "belongs (send_call c (s\<lparr>dp_deleting := x\<rparr>))" "belongs (send_call c s)"
    if "\<forall>j. dp_config s = Some j \<longrightarrow> about j c" for c x
    by (rule belongs_send [OF assms that]; simp)+
  show "belongs (handle_regenerate_verification s)" "belongs (handle_save_verification s)"
    "belongs (handle_save_catch_all s)" "belongs (handle_save_sending_config s)" "belongs (handle_create_alias s)"
    using assms
    by (auto simp: handle_regenerate_verification_def handle_save_verification_def handle_save_catch_all_def
        handle_save_sending_config_def handle_create_alias_def about_defs intro!: send split: option.split)
  show "belongs (handle_save_cloudflare_config clear s)" "belongs (handle_run_cloudflare_validation s)"
    using assms cf by (auto simp: handle_save_cloudflare_config_def handle_run_cloudflare_validation_def Let_def split: option.split)
  show "belongs (handle_toggle_alias a s)" "belongs (handle_delete_alias a s)" "belongs (set_domain_status r st s)"
    "belongs (handle_domain_delete r s)"
    using assms by (auto simp: handle_toggle_alias_def handle_delete_alias_def set_domain_status_def handle_domain_delete_def
        about_defs intro!: rows split: option.split)
  show "belongs (handle_domain_submit s)"
    unfolding handle_domain_submit_def by (rule send) (simp add: about_defs split: option.split)
qed

lemma belongs_step: "belongs s \<Longrightarrow> calm_domains_step s e u \<Longrightarrow> belongs u"
proof -
  assume b: "belongs s" and calm: "calm_domains_step s e u"
  then have "domains_step s e u" by (simp add: calm_domains_step_def)
  then show ?thesis
  proof (cases rule: domains_step.cases)
    case (configure r)
    then have "all_about (dr_id r) (s\<lparr>dp_config := Some (dr_id r)\<rparr>)"
      using calm about_frame by (simp add: calm_domains_step_def all_about_def)
    then show ?thesis unfolding configure open_config_modal_def
      by (intro belongs_load) (use b in \<open>simp_all add: belongs_def saver_about_def\<close>)
  next
    case (config_typed f)
    have "form_ok d f" if "cm_detail s = Some d" for d
      using that config_typed b
      by (auto simp: belongs_def form_ok_def choice_def active_mailbox_options_def split: option.splits)
    then show ?thesis using b config_typed by (simp add: belongs_def all_about_def)
  next
    case (refresh_config i)
    have "belongs (load_config i None s)"
      by (rule belongs_load) (use b refresh_config in \<open>simp_all add: belongs_def saver_about_def\<close>)
    then show ?thesis using refresh_config by simp
  next
    case (config_answered c i k result aliases)
    then show ?thesis using belongs_on_config [OF b, of i k result aliases] calm
      by (cases result) (simp_all add: calm_domains_step_def)
  next
    case domains_answered
    then show ?thesis using belongs_on_domains [OF b] by simp
  next
    case changed
    then show ?thesis using belongs_changed [OF b] by simp
  next
    case alias_opened
    show ?thesis unfolding alias_opened
      by (rule belongs_frame [OF b]) (simp_all add: open_alias_modal_def all_about_def)
  qed (simp only: belongs_handlers [OF b];
      rule belongs_frame [OF b]; simp add: open_create_modal_def open_edit_modal_def handle_close_def all_about_def)+
qed

lemma belongs_start: "domains_start s \<Longrightarrow> belongs s"
  by (simp add: domains_start_def belongs_def)

interpretation calm: machine_invariant domains_start calm_domains_step belongs
  by unfold_locales (simp_all add: belongs_start belongs_step)

end
