(* ===== verification/DomainTheorems.thy ===== *)
theory DomainTheorems
  imports DomainSafety
begin

text \<open>
  The properties of the domains page, and a run in which the window shows, and saves, the configuration of
  another domain because the first load of a domain's configuration failed.
\<close>

section \<open>An example run\<close>

definition domains_page0 :: domains_page where
  "domains_page0 = \<lparr>dp_loading = True, dp_domains = [], dp_modal = False, dp_editing = None,
     dp_form = \<lparr>df_name = None, df_display = None, df_status = None, df_receive = False, df_send = False\<rparr>,
     dp_config = None, dp_deleting = None, cm_loading = False, cm_detail = None, cm_aliases = [], cm_alias_modal = False,
     cm_busy = (\<lambda>_. False), cm_toggling = None, cm_deleting = None,
     cm_forms = \<lparr>cf_token = None, cf_api_token = None, cf_zone = None, cf_enabled = False, cf_target = None,
          cf_from_name = None, cf_reply_to = None, cf_key = None, cf_alias_mailbox = None, cf_alias_part = None\<rparr>,
     dp_calls = [Domains_load None]\<rparr>"

definition listed :: "domain_row list \<Rightarrow> domains_page" where
  "listed rows = domains_page0\<lparr>dp_loading := False, dp_domains := rows, dp_calls := []\<rparr>"

definition shows_detail :: "nat \<Rightarrow> domain_row list \<Rightarrow> domain_detail \<Rightarrow> domains_page" where
  "shows_detail i rows d = (listed rows)\<lparr>dp_config := Some i, cm_detail := Some d,
     cm_forms := forms_of_detail d (cm_forms domains_page0)\<rparr>"

lemmas domain_states = domains_page0_def listed_def shows_detail_def

lemma domains_page0_start: "domains_start domains_page0"
  by (simp add: domains_start_def domains_page0_def)

lemma domains_listed_step: "domains_step domains_page0 (Domains_answered (Domains_load None) (Some rows)) (listed rows)"
proof -
  have "on_domains None (Some rows) (end_config_call (Domains_load None) domains_page0) = listed rows"
    by (simp add: on_domains_def end_config_call_def domain_states)
  then show ?thesis using domains_answered [of "Domains_load None" None domains_page0 "Some rows"]
    by (simp add: domains_page0_def)
qed

lemma configure_step:
  "r \<in> set rows \<Longrightarrow> domains_step (listed rows) (Configure_clicked r) (open_config_modal (dr_id r) (listed rows))"
  by (rule configure) (simp_all add: list_front_def domain_states)

lemma detail_step:
  assumes "dd_id d = i"
  shows "domains_step (open_config_modal i (listed rows)) (Config_answered (Load_config i None) (Some d) (Some [])) (shows_detail i rows d)"
proof -
  let ?s = "open_config_modal i (listed rows)"
  have "on_config None (Some d) (Some []) (end_config_call (Load_config i None) ?s) = shows_detail i rows d"
    by (simp add: on_config_def after_config_def end_config_call_def open_config_modal_def load_config_def send_call_def domain_states)
  then show ?thesis using config_answered [of "Load_config i None" i None ?s "Some d" "Some []"] assms
    by (simp add: open_config_modal_def load_config_def send_call_def)
qed

lemma shows_reach:
  assumes "r \<in> set rows" "dd_id d = dr_id r"
  shows "reach domains_start domains_step (shows_detail (dr_id r) rows d)"
    "reach domains_start calm_domains_step (shows_detail (dr_id r) rows d)"
proof -
  note steps = domains_listed_step [of rows] configure_step [OF assms(1)] detail_step [OF assms(2), of rows]
  show "reach domains_start domains_step (shows_detail (dr_id r) rows d)"
    using domains_page0_start steps by (rule reach_steps3)
  have "calm_domains_step domains_page0 (Domains_answered (Domains_load None) (Some rows)) (listed rows)"
    "calm_domains_step (listed rows) (Configure_clicked r) (open_config_modal (dr_id r) (listed rows))"
    "calm_domains_step (open_config_modal (dr_id r) (listed rows))
       (Config_answered (Load_config (dr_id r) None) (Some d) (Some [])) (shows_detail (dr_id r) rows d)"
    using steps by (simp_all add: calm_domains_step_def) (simp add: all_about_def listed_def)
  with domains_page0_start show "reach domains_start calm_domains_step (shows_detail (dr_id r) rows d)"
    by (rule reach_steps3)
qed

lemma failed_run:
  assumes "r2 \<in> set rows"
  shows "run domains_step (shows_detail i rows d)
    [Config_closed, Configure_clicked r2, Config_answered (Load_config (dr_id r2) None) None None] (shows_detail (dr_id r2) rows d)"
proof -
  let ?s = "shows_detail i rows d"
  let ?t = "handle_close ?s"
  let ?u = "open_config_modal (dr_id r2) ?t"
  let ?c = "Load_config (dr_id r2) None"
  have "domains_step ?s Config_closed ?t" by (rule config_closed) (simp_all add: domain_states)
  moreover have "domains_step ?t (Configure_clicked r2) ?u"
    by (rule configure) (use assms in \<open>simp_all add: list_front_def handle_close_def domain_states\<close>)
  moreover have "on_config None None None (end_config_call ?c ?u) = shows_detail (dr_id r2) rows d"
    by (simp add: on_config_def after_config_def end_config_call_def open_config_modal_def load_config_def send_call_def
        handle_close_def domain_states)
  then have "domains_step ?u (Config_answered ?c None None) (shows_detail (dr_id r2) rows d)"
    using config_answered [of ?c "dr_id r2" None ?u None None] by (simp add: open_config_modal_def load_config_def send_call_def)
  ultimately show ?thesis using run_Cons run_Nil by metis
qed

section \<open>Properties\<close>

text \<open>C14: Nothing stays busy: when no request is under way, neither list nor window is loading, and no button,
  of the page or of the window, is left in its loading state.\<close>

theorem nothing_left_busy:
  assumes "reach domains_start domains_step s" "dp_calls s = []"
  shows "\<not> dp_loading s \<and> \<not> cm_loading s \<and> (\<forall>b. \<not> cm_busy s b)
    \<and> cm_toggling s = None \<and> cm_deleting s = None \<and> dp_deleting s = None"
proof -
  have inv: "flags s \<subseteq> owed s" "loads_owed s" using busy.inv_reach [OF assms(1)] by (simp_all add: busy_inv_def)
  then have "flags s = {}" using assms(2) by (simp add: owed_def)
  then show ?thesis using inv(2) assms(2) by (auto simp: loads_owed_def flags_def split: if_splits)
qed

text \<open>C23: What the page sends. A verification token, an API token, a zone, a sender name, a reply address and a
  sending key are, when they are sent, trimmed and not blank, and so is the local part of a new alias; clearing
  the saved API token sends none; catch-all has a target exactly when it is enabled. The form of a domain is sent
  as it was typed, without trimming: a new domain has a name that is not empty (though it may be blanks) and no
  status, and a changed domain is never renamed.\<close>

theorem domain_requests_proper:
  assumes "reach domains_start domains_step s" "c \<in> set (dp_calls s)"
  shows "(case c of
        Verify_call i token \<Rightarrow> clean token
      | Cloudflare_call i token zone clear sv \<Rightarrow> clean token \<and> clean zone \<and> (clear \<longrightarrow> token = None)
      | Catch_all_call i enabled target \<Rightarrow> enabled \<longleftrightarrow> target \<noteq> None
      | Sending_call i from_name reply_to key \<Rightarrow> clean from_name \<and> clean reply_to \<and> clean key
      | Alias_create i m part \<Rightarrow> part \<noteq> [] \<and> trim part = part
      | Domain_create f \<Rightarrow> df_name f \<noteq> None \<and> df_name f \<noteq> Some [] \<and> df_status f = None
      | Domain_update i f \<Rightarrow> df_name f = None
      | _ \<Rightarrow> True)"
  using proper.inv_reach [OF assms(1)] assms(2) unfolding proper_calls_def list_all_iff proper_call_def by blast

text \<open>C12: The window configures the domain it was opened for, in calm use: in every run in which the window is
  opened for a domain only while no request about the configuration of another one is under way, and no load
  of a configuration fails before the open domain's has been loaded, whenever the window's content is shown the
  details are those of the open domain and every configuration request under way, of whatever kind, is about it;
  and saving catch-all then sends that domain with the switch as shown and a target that the domain has stored or
  that is one of its active mailboxes.\<close>

theorem config_of_open_domain:
  assumes "reach domains_start calm_domains_step s" "config_shown s"
  shows "\<exists>d. cm_detail s = Some d \<and> dp_config s = Some (dd_id d) \<and> list_all (about (dd_id d)) (dp_calls s)
    \<and> (\<forall>u. domains_step s Save_catch_all u \<longrightarrow>
         (\<exists>target. dp_calls u = Catch_all_call (dd_id d) (cf_enabled (cm_forms s)) target # dp_calls s
           \<and> (target = None \<or> target = dd_target d
              \<or> (\<exists>m \<in> set (dd_mailboxes d). dm_status m = Mailbox_active \<and> target = Some (dm_id m)))))"
proof -
  have b: "belongs s" using calm.inv_reach [OF assms(1)] .
  obtain i where i: "dp_config s = Some i" "\<not> cm_loading s" using assms(2) by (auto simp: config_shown_def)
  then obtain d where d: "cm_detail s = Some d" "dd_id d = i" "all_about i s" "form_ok d (cm_forms s)"
    using b by (auto simp: belongs_def)
  have "dp_calls u = Catch_all_call i (cf_enabled (cm_forms s)) (if cf_enabled (cm_forms s) then cf_target (cm_forms s) else None) # dp_calls s"
    if "domains_step s Save_catch_all u" for u
  proof -
    have "u = handle_save_catch_all s" using that by (auto elim: domains_step.cases)
    then show ?thesis by (simp add: handle_save_catch_all_def i send_call_def set_busy_def)
  qed
  then show ?thesis using i d unfolding form_ok_def all_about_def by auto
qed

text \<open>A failed first load leaves the configuration of the domain opened before on the screen: saving then sends
  that domain's catch-all mailbox to the domain that is open now.\<close>

theorem failed_load_crosses_domains:
  fixes r r2 :: domain_row and d :: domain_detail
  assumes "dd_id d = dr_id r" "dd_catch_all d" "dd_target d = Some m"
  shows "\<exists>s u. reach domains_start domains_step s \<and> dp_config s = Some (dr_id r2) \<and> cm_detail s = Some d
    \<and> domains_step s Save_catch_all u \<and> Catch_all_call (dr_id r2) True (Some m) \<in> set (dp_calls u)"
proof -
  let ?rows = "[r, r2]"
  let ?s = "shows_detail (dr_id r2) ?rows d"
  have "reach domains_start domains_step (shows_detail (dr_id r) ?rows d)" by (rule shows_reach) (simp_all add: assms(1))
  then have "reach domains_start domains_step ?s" by (rule reach_run [OF _ failed_run]) simp
  moreover have "domains_step ?s Save_catch_all (handle_save_catch_all ?s)"
    by (rule save_catch_all) (use assms in \<open>simp_all add: config_shown_def domain_states forms_of_detail_def\<close>)
  moreover have "Catch_all_call (dr_id r2) True (Some m) \<in> set (dp_calls (handle_save_catch_all ?s))"
    using assms by (simp add: handle_save_catch_all_def send_call_def set_busy_def domain_states forms_of_detail_def)
  moreover have "dp_config ?s = Some (dr_id r2)" "cm_detail ?s = Some d" by (simp_all add: shows_detail_def)
  ultimately show ?thesis by blast
qed

section \<open>Witnesses\<close>

definition demo_row :: "nat \<Rightarrow> domain_row" where
  "demo_row i = \<lparr>dr_id = i, dr_name = js ''a.test'', dr_display = None, dr_status = Domain_active, dr_receive = True, dr_send = False\<rparr>"

definition demo_detail :: "nat \<Rightarrow> nat \<Rightarrow> domain_detail" where
  "demo_detail i m = \<lparr>dd_id = i, dd_can_send = False,
     dd_mailboxes = [\<lparr>dm_id = m, dm_address = js ''x@a.test'', dm_status = Mailbox_active\<rparr>],
     dd_sending_configs = [], dd_token = None, dd_catch_all = True, dd_target = Some m, dd_zone = None,
     dd_has_saved_token = False, dd_checks = None\<rparr>"

lemma nothing_left_busy_witness:
  "dp_calls (shows_detail 7 [demo_row 7] (demo_detail 7 8)) = [] \<and> \<not> cm_loading (shows_detail 7 [demo_row 7] (demo_detail 7 8))"
proof -
  let ?s = "shows_detail 7 [demo_row 7] (demo_detail 7 8)"
  have "reach domains_start domains_step ?s"
    using shows_reach(1) [of "demo_row 7" "[demo_row 7]" "demo_detail 7 8"] by (simp add: demo_row_def demo_detail_def)
  moreover have "dp_calls ?s = []" by (simp add: domain_states)
  ultimately show ?thesis using nothing_left_busy [of ?s] by blast
qed

lemma config_of_open_domain_witness:
  "\<exists>u. domains_step (shows_detail 7 [demo_row 7] (demo_detail 7 8)) Save_catch_all u
     \<and> dp_calls u = [Catch_all_call 7 True (Some 8)]"
proof -
  let ?s = "shows_detail 7 [demo_row 7] (demo_detail 7 8)"
  have r: "reach domains_start calm_domains_step ?s"
    using shows_reach(2) [of "demo_row 7" "[demo_row 7]" "demo_detail 7 8"] by (simp add: demo_row_def demo_detail_def)
  have st: "domains_step ?s Save_catch_all (handle_save_catch_all ?s)"
    by (rule save_catch_all) (simp_all add: config_shown_def domain_states forms_of_detail_def demo_detail_def)
  have "dp_config ?s = Some 7" "dp_calls ?s = []" by (simp_all add: domain_states)
  moreover have "dp_calls (handle_save_catch_all ?s) = [Catch_all_call 7 True (Some 8)]"
    by (simp add: handle_save_catch_all_def send_call_def set_busy_def domain_states forms_of_detail_def demo_detail_def)
  moreover have "config_shown ?s" by (simp add: config_shown_def domain_states)
  ultimately show ?thesis using config_of_open_domain [OF r] st by (auto simp: domain_states)
qed

lemma domain_requests_proper_witness:
  "\<exists>s. reach domains_start domains_step s \<and> Catch_all_call 7 True (Some 8) \<in> set (dp_calls s) \<and> True = (Some (8::nat) \<noteq> None)"
proof -
  let ?s = "shows_detail 7 [demo_row 7] (demo_detail 7 8)"
  let ?u = "handle_save_catch_all ?s"
  have "reach domains_start domains_step ?s"
    using shows_reach(1) [of "demo_row 7" "[demo_row 7]" "demo_detail 7 8"] by (simp add: demo_row_def demo_detail_def)
  moreover have "domains_step ?s Save_catch_all ?u"
    by (rule save_catch_all) (simp_all add: config_shown_def domain_states forms_of_detail_def demo_detail_def)
  ultimately have r: "reach domains_start domains_step ?u" by (rule reach_step)
  have c: "Catch_all_call 7 True (Some 8) \<in> set (dp_calls ?u)"
    by (simp add: handle_save_catch_all_def send_call_def set_busy_def domain_states forms_of_detail_def demo_detail_def)
  show ?thesis using r c domain_requests_proper [OF r c] by auto
qed

lemma failed_load_crosses_domains_witness:
  "\<exists>s u. reach domains_start domains_step s \<and> dp_config s = Some 9 \<and> cm_detail s = Some (demo_detail 7 8)
    \<and> domains_step s Save_catch_all u \<and> Catch_all_call 9 True (Some 8) \<in> set (dp_calls u)"
  using failed_load_crosses_domains [of "demo_detail 7 8" "demo_row 7" 8 "demo_row 9"]
  by (simp add: demo_detail_def demo_row_def)

end
