(* ===== verification/EmailList.thy ===== *)
theory EmailList
  imports Providers JsNumber Machine
begin

text \<open>
  The list of external mailboxes (web/src/pages/emails/index.tsx): filters with the debounced keyword, pages,
  the numbered list requests, the selection, and the operations on single and selected mailboxes, each with the
  reload that follows its answer. A reload after an operation uses the parameters that its handler saw when
  it was started; this holds also of the reloads after saving the mailbox form, importing mailboxes and polling
  an authorization, whose own states are other machines. Ids are database keys and never 0; the groups' own
  list and messages are left out.
\<close>

section \<open>Filters\<close>

datatype account_status = Account_active | Account_error | Account_disabled

definition parse_email_status :: "jstr option \<Rightarrow> account_status option" where
  "parse_email_status value =
     (case value of None \<Rightarrow> None
      | Some v \<Rightarrow>
          let normalized = to_upper v
          in if normalized = js ''ACTIVE'' then Some Account_active
             else if normalized = js ''ERROR'' then Some Account_error
             else if normalized = js ''DISABLED'' then Some Account_disabled
             else None)"

definition is_integer :: "jsnum \<Rightarrow> bool" where
  "is_integer x = (case x of Fin r \<Rightarrow> of_int \<lfloor>r\<rfloor> = r | _ \<Rightarrow> False)"

definition parse_positive_int :: "jstr option \<Rightarrow> int option" where
  "parse_positive_int value =
     (case value of None \<Rightarrow> None
      | Some v \<Rightarrow>
          if v = [] then None
          else let parsed = number_of_text v
               in if is_integer parsed \<and> num_gt parsed 0 then Some (int_of_num parsed) else None)"

record email_params =
  ep_page :: nat
  ep_size :: nat
  ep_keyword :: jstr
  ep_group :: "nat option"
  ep_provider :: "email_provider option"
  ep_protocol :: "representative_protocol option"
  ep_status :: "account_status option"

record email_row =
  er_id :: nat
  er_email :: jstr
  er_group :: "nat option"

text \<open>The scope of a batch operation: the selected mailboxes, or those that match the filters.\<close>

record batch_scope =
  bs_ids :: "nat list option"
  bs_keyword :: "jstr option"
  bs_group :: "nat option"
  bs_provider :: "email_provider option"
  bs_protocol :: "representative_protocol option"
  bs_status :: "account_status option"

section \<open>State\<close>

text \<open>What a handler still does once the reload it waits for has been answered.\<close>

datatype after_fetch = No_more | Batch_fetch_done | Check_done nat | Batch_clear_done

datatype clear_box = Clear_inbox | Clear_junk

text \<open>Operations of the page's dialogs that reload the list when they succeed: saving the mailbox form, an
  import, and a poll that finds an authorization completed.\<close>

datatype dialog_operation = Form_save | Import_submit | Authorization_poll

datatype list_call =
    Fetch_call nat email_params after_fetch
  | Delete_account nat email_params
  | Batch_delete_call "nat list" email_params
  | Batch_fetch_call batch_scope email_params
  | Check_call nat email_params
  | Batch_clear_call batch_scope clear_box email_params
  | Assign_call nat "nat list" email_params
  | Remove_call nat "nat list" "(nat \<times> nat list) list" email_params
  | Delete_group nat email_params
  | Dialog_call dialog_operation email_params

record email_list =
  el_keyword :: jstr
  el_debounced :: jstr
  el_typing :: bool
  el_group :: "nat option"
  el_provider :: "email_provider option"
  el_protocol :: "representative_protocol option"
  el_status :: "account_status option"
  el_focused :: "int option"
  el_page :: nat
  el_size :: nat
  el_data :: "email_row list"
  el_total :: nat
  el_loading :: bool
  el_request :: nat
  el_due :: bool
  el_selected :: "nat list"
  el_batch_fetch_loading :: bool
  el_checking :: "nat list"
  el_clear_visible :: bool
  el_clear_loading :: bool
  el_clear_box :: clear_box
  el_assign_visible :: bool
  el_assign_target :: "nat option"
  el_calls :: "list_call list"

definition current_params :: "email_list \<Rightarrow> email_params" where
  "current_params s =
     \<lparr>ep_page = el_page s, ep_size = el_size s, ep_keyword = el_debounced s, ep_group = el_group s,
      ep_provider = el_provider s, ep_protocol = el_protocol s, ep_status = el_status s\<rparr>"

definition push_call :: "list_call \<Rightarrow> email_list \<Rightarrow> email_list" where
  "push_call c s = s\<lparr>el_calls := c # el_calls s\<rparr>"

definition end_list_call :: "list_call \<Rightarrow> email_list \<Rightarrow> email_list" where
  "end_list_call c s = s\<lparr>el_calls := remove1 c (el_calls s)\<rparr>"

section \<open>Loading the list\<close>

definition fetch_data :: "email_params \<Rightarrow> after_fetch \<Rightarrow> email_list \<Rightarrow> email_list" where
  "fetch_data params k s =
     push_call (Fetch_call (Suc (el_request s)) params k) (s\<lparr>el_request := Suc (el_request s), el_loading := True\<rparr>)"

fun go_on :: "after_fetch \<Rightarrow> email_list \<Rightarrow> email_list" where
  "go_on No_more s = s"
| "go_on Batch_fetch_done s = s\<lparr>el_batch_fetch_loading := False\<rparr>"
| "go_on (Check_done i) s = s\<lparr>el_checking := filter (\<lambda>x. x \<noteq> i) (el_checking s)\<rparr>"
| "go_on Batch_clear_done s = s\<lparr>el_clear_loading := False\<rparr>"

definition on_email_list ::
  "nat \<Rightarrow> after_fetch \<Rightarrow> (email_row list \<times> nat) option \<Rightarrow> email_list \<Rightarrow> email_list" where
  "on_email_list request_id k result s =
     go_on k
       (if request_id \<noteq> el_request s then s
        else case result of None \<Rightarrow> s\<lparr>el_loading := False\<rparr>
             | Some (rows, n) \<Rightarrow> s\<lparr>el_data := rows, el_total := n, el_loading := False\<rparr>)"

section \<open>Filters, keyword and pages\<close>

text \<open>The effects of a change: a provider the protocol does not offer is dropped, and a new load is due.\<close>

definition filter_provider_options :: "representative_protocol option \<Rightarrow> email_provider list" where
  "filter_provider_options protocol =
     (case protocol of None \<Rightarrow> provider_order
      | Some p \<Rightarrow> filter (\<lambda>x. x \<in> set (map pp_provider (get_provider_profiles_by_representative_protocol p))) provider_order)"

definition drop_hidden_provider :: "email_list \<Rightarrow> email_list" where
  "drop_hidden_provider s =
     (case (el_protocol s, el_provider s) of
        (Some protocol, Some provider) \<Rightarrow>
          if provider \<in> set (filter_provider_options (Some protocol)) then s else s\<lparr>el_provider := None\<rparr>
      | _ \<Rightarrow> s)"

definition with_params :: "(email_list \<Rightarrow> email_list) \<Rightarrow> email_list \<Rightarrow> email_list" where
  "with_params f s =
     (let t = drop_hidden_provider (f s)
      in if current_params t = current_params s then t else t\<lparr>el_due := True\<rparr>)"

definition type_keyword :: "jstr \<Rightarrow> email_list \<Rightarrow> email_list" where
  "type_keyword text s = s\<lparr>el_keyword := text, el_typing := True\<rparr>"

definition debounce_keyword :: "email_list \<Rightarrow> email_list" where
  "debounce_keyword s = with_params (\<lambda>s. s\<lparr>el_debounced := trim (el_keyword s), el_typing := False\<rparr>) s"

definition change_protocol :: "representative_protocol option \<Rightarrow> email_list \<Rightarrow> email_list" where
  "change_protocol value s = with_params (\<lambda>s. s\<lparr>el_protocol := value, el_page := 1\<rparr>) s"

definition change_provider :: "email_provider option \<Rightarrow> email_list \<Rightarrow> email_list" where
  "change_provider value s = with_params (\<lambda>s. s\<lparr>el_provider := value, el_page := 1\<rparr>) s"

definition change_status :: "account_status option \<Rightarrow> email_list \<Rightarrow> email_list" where
  "change_status value s = with_params (\<lambda>s. s\<lparr>el_status := value, el_page := 1\<rparr>) s"

definition change_group :: "nat option \<Rightarrow> email_list \<Rightarrow> email_list" where
  "change_group value s = with_params (\<lambda>s. s\<lparr>el_group := value, el_page := 1\<rparr>) s"

definition change_page :: "nat \<Rightarrow> nat \<Rightarrow> email_list \<Rightarrow> email_list" where
  "change_page page size1 s = with_params (\<lambda>s. s\<lparr>el_page := page, el_size := size1\<rparr>) s"

text \<open>The effect of another address of the page, with its \<open>keyword\<close>, \<open>status\<close> and \<open>emailId\<close>.\<close>

definition apply_url :: "jstr option \<Rightarrow> jstr option \<Rightarrow> jstr option \<Rightarrow> email_list \<Rightarrow> email_list" where
  "apply_url keyword status email_id s =
     (let next_keyword = (case keyword of None \<Rightarrow> [] | Some k \<Rightarrow> trim k);
          next_status = parse_email_status status;
          next_focused = parse_positive_int email_id
      in with_params (\<lambda>s. s\<lparr>el_keyword := next_keyword, el_debounced := next_keyword,
           el_typing := (if next_keyword = el_keyword s then el_typing s else True),
           el_status := next_status, el_focused := next_focused,
           el_page := (if next_keyword \<noteq> [] \<or> next_status \<noteq> None \<or> next_focused \<noteq> None then 1 else el_page s)\<rparr>) s)"

section \<open>Operations\<close>

definition build_batch_action_payload :: "email_list \<Rightarrow> batch_scope" where
  "build_batch_action_payload s =
     (if el_selected s \<noteq> [] then
        \<lparr>bs_ids = Some (el_selected s), bs_keyword = None, bs_group = None, bs_provider = None, bs_protocol = None,
         bs_status = None\<rparr>
      else
        \<lparr>bs_ids = None, bs_keyword = (if el_debounced s = [] then None else Some (el_debounced s)),
         bs_group = el_group s, bs_provider = el_provider s, bs_protocol = el_protocol s, bs_status = el_status s\<rparr>)"

definition handle_delete :: "nat \<Rightarrow> email_list \<Rightarrow> email_list" where
  "handle_delete i s = push_call (Delete_account i (current_params s)) s"

definition handle_batch_delete :: "email_list \<Rightarrow> email_list" where
  "handle_batch_delete s =
     (if el_selected s = [] then s else push_call (Batch_delete_call (el_selected s) (current_params s)) s)"

definition handle_batch_fetch_mailboxes :: "email_list \<Rightarrow> email_list" where
  "handle_batch_fetch_mailboxes s =
     push_call (Batch_fetch_call (build_batch_action_payload s) (current_params s)) (s\<lparr>el_batch_fetch_loading := True\<rparr>)"

definition handle_check_single_mailbox :: "nat \<Rightarrow> email_list \<Rightarrow> email_list" where
  "handle_check_single_mailbox i s =
     push_call (Check_call i (current_params s))
       (s\<lparr>el_checking := (if i \<in> set (el_checking s) then el_checking s else el_checking s @ [i])\<rparr>)"

definition handle_batch_clear_mailbox :: "email_list \<Rightarrow> email_list" where
  "handle_batch_clear_mailbox s =
     push_call (Batch_clear_call (build_batch_action_payload s) (el_clear_box s) (current_params s))
       (s\<lparr>el_clear_loading := True\<rparr>)"

definition handle_batch_assign_group :: "email_list \<Rightarrow> email_list" where
  "handle_batch_assign_group s =
     (if el_selected s = [] then s
      else case el_assign_target s of None \<Rightarrow> s
           | Some g \<Rightarrow> push_call (Assign_call g (el_selected s) (current_params s)) s)"

text \<open>Removing from groups: the selected mailboxes of the page, group by group.\<close>

definition remove_plan :: "nat list \<Rightarrow> email_row list \<Rightarrow> (nat \<times> nat list) list" where
  "remove_plan selected rows =
     (let selected_emails = filter (\<lambda>e. er_id e \<in> set selected) rows;
          group_ids = distinct_values (List.map_filter er_group selected_emails)
      in map (\<lambda>g. (g, map er_id (filter (\<lambda>e. er_group e = Some g) selected_emails))) group_ids)"

definition run_removals :: "(nat \<times> nat list) list \<Rightarrow> email_params \<Rightarrow> email_list \<Rightarrow> email_list" where
  "run_removals todo params s =
     (case todo of
        [] \<Rightarrow> fetch_data params No_more (s\<lparr>el_selected := []\<rparr>)
      | (g, ids) # rest \<Rightarrow> push_call (Remove_call g ids rest params) s)"

definition handle_batch_remove_group :: "email_list \<Rightarrow> email_list" where
  "handle_batch_remove_group s =
     (if el_selected s = [] then s
      else run_removals (remove_plan (el_selected s) (el_data s)) (current_params s) s)"

definition handle_delete_group :: "nat \<Rightarrow> email_list \<Rightarrow> email_list" where
  "handle_delete_group g s = push_call (Delete_group g (current_params s)) s"

text \<open>The answer of an operation.\<close>

definition on_operation :: "list_call \<Rightarrow> bool \<Rightarrow> email_list \<Rightarrow> email_list" where
  "on_operation c ok s =
     (case c of
        Delete_account i p \<Rightarrow> if ok then fetch_data p No_more s else s
      | Batch_delete_call ids p \<Rightarrow> if ok then fetch_data p No_more (s\<lparr>el_selected := []\<rparr>) else s
      | Batch_fetch_call scope p \<Rightarrow>
          if ok then fetch_data p Batch_fetch_done s else s\<lparr>el_batch_fetch_loading := False\<rparr>
      | Check_call i p \<Rightarrow> if ok then fetch_data p (Check_done i) s else go_on (Check_done i) s
      | Batch_clear_call scope box p \<Rightarrow>
          if ok then fetch_data p Batch_clear_done (s\<lparr>el_clear_visible := False\<rparr>) else s\<lparr>el_clear_loading := False\<rparr>
      | Assign_call g ids p \<Rightarrow>
          if ok then fetch_data p No_more (s\<lparr>el_assign_visible := False, el_assign_target := None, el_selected := []\<rparr>) else s
      | Remove_call g ids rest p \<Rightarrow> if ok then run_removals rest p s else s
      | Delete_group g p \<Rightarrow> if ok then fetch_data p No_more s else s
      | Dialog_call d p \<Rightarrow> if ok then fetch_data p No_more s else s
      | Fetch_call _ _ _ \<Rightarrow> s)"

text \<open>An operation of a dialog is under way; its answer calls the \<open>fetchData\<close> of the moment it was started.\<close>

definition start_dialog_operation :: "dialog_operation \<Rightarrow> email_list \<Rightarrow> email_list" where
  "start_dialog_operation d s = push_call (Dialog_call d (current_params s)) s"

text \<open>The buttons ``refresh after authorization'', and the effect that finds the result of an authorization in
  the page's address.\<close>

definition refresh_list :: "email_list \<Rightarrow> email_list" where
  "refresh_list s = fetch_data (current_params s) No_more s"

section \<open>The machine\<close>

datatype list_event =
    Keyword_typed jstr | Keyword_settled | Protocol_chosen "representative_protocol option"
  | Provider_chosen "email_provider option" | Status_chosen "account_status option" | Group_chosen "nat option"
  | Page_chosen nat nat | Url_changed "jstr option" "jstr option" "jstr option" | Load_due
  | Rows_selected "nat list" | Account_deleted nat | Selected_deleted | Check_all | Check_one nat
  | Clear_opened | Clear_cancelled | Clear_chosen clear_box | Clear_confirmed
  | Assign_opened | Assign_cancelled | Target_chosen "nat option" | Assign_confirmed | Removed_from_groups
  | Group_deleted nat | Dialog_operation_started dialog_operation | List_refreshed
  | List_loaded list_call "(email_row list \<times> nat) option" | Operation_answered list_call bool

definition is_fetch :: "list_call \<Rightarrow> bool" where
  "is_fetch c = (case c of Fetch_call _ _ _ \<Rightarrow> True | _ \<Rightarrow> False)"

text \<open>\<open>holds params row\<close>: the server lists the row for these parameters. Only rows of the page shown can be
  ticked; the table keeps the ticks of other pages until the selection is changed.\<close>

inductive list_step :: "(email_params \<Rightarrow> email_row \<Rightarrow> bool) \<Rightarrow> email_list \<Rightarrow> list_event \<Rightarrow> email_list \<Rightarrow> bool" for holds where
  typed: "list_step holds s (Keyword_typed text) (type_keyword text s)"
| settled: "el_typing s \<Longrightarrow> list_step holds s Keyword_settled (debounce_keyword s)"
| protocol: "list_step holds s (Protocol_chosen v1) (change_protocol v1 s)"
| provider: "(\<forall>p. v2 = Some p \<longrightarrow> p \<in> set (filter_provider_options (el_protocol s))) \<Longrightarrow>
     list_step holds s (Provider_chosen v2) (change_provider v2 s)"
| status: "list_step holds s (Status_chosen v3) (change_status v3 s)"
| group: "list_step holds s (Group_chosen v4) (change_group v4 s)"
| page: "1 \<le> p \<Longrightarrow> 1 \<le> n \<Longrightarrow> list_step holds s (Page_chosen p n) (change_page p n s)"
| url: "list_step holds s (Url_changed k st i) (apply_url k st i s)"
| load: "el_due s \<Longrightarrow> list_step holds s Load_due (fetch_data (current_params s) No_more (s\<lparr>el_due := False\<rparr>))"
| selected: "set ids \<subseteq> er_id ` set (el_data s) \<Longrightarrow> list_step holds s (Rows_selected ids) (s\<lparr>el_selected := ids\<rparr>)"
| deleted_one: "i \<in> er_id ` set (el_data s) \<Longrightarrow> list_step holds s (Account_deleted i) (handle_delete i s)"
| deleted_selected: "list_step holds s Selected_deleted (handle_batch_delete s)"
| check_all: "\<not> el_batch_fetch_loading s \<Longrightarrow> list_step holds s Check_all (handle_batch_fetch_mailboxes s)"
| check_one: "i \<in> er_id ` set (el_data s) \<Longrightarrow> i \<notin> set (el_checking s) \<Longrightarrow>
     list_step holds s (Check_one i) (handle_check_single_mailbox i s)"
| clear_opened: "list_step holds s Clear_opened (s\<lparr>el_clear_visible := True\<rparr>)"
| clear_cancelled: "el_clear_visible s \<Longrightarrow> list_step holds s Clear_cancelled (s\<lparr>el_clear_visible := False\<rparr>)"
| clear_chosen: "el_clear_visible s \<Longrightarrow> list_step holds s (Clear_chosen b) (s\<lparr>el_clear_box := b\<rparr>)"
| clear_confirmed: "el_clear_visible s \<Longrightarrow> \<not> el_clear_loading s \<Longrightarrow>
     list_step holds s Clear_confirmed (handle_batch_clear_mailbox s)"
| assign_opened: "el_selected s \<noteq> [] \<Longrightarrow> list_step holds s Assign_opened (s\<lparr>el_assign_visible := True\<rparr>)"
| assign_cancelled: "el_assign_visible s \<Longrightarrow> list_step holds s Assign_cancelled (s\<lparr>el_assign_visible := False\<rparr>)"
| target_chosen: "el_assign_visible s \<Longrightarrow> list_step holds s (Target_chosen g) (s\<lparr>el_assign_target := g\<rparr>)"
| assign_confirmed: "el_assign_visible s \<Longrightarrow> list_step holds s Assign_confirmed (handle_batch_assign_group s)"
| removed: "el_selected s \<noteq> [] \<Longrightarrow> list_step holds s Removed_from_groups (handle_batch_remove_group s)"
| group_deleted: "list_step holds s (Group_deleted g) (handle_delete_group g s)"
| dialog: "list_step holds s (Dialog_operation_started d) (start_dialog_operation d s)"
| refreshed: "list_step holds s List_refreshed (refresh_list s)"
| loaded: "c = Fetch_call rid p k \<Longrightarrow> c \<in> set (el_calls s) \<Longrightarrow>
     (\<forall>rows n. result = Some (rows, n) \<longrightarrow> list_all (holds p) rows) \<Longrightarrow>
     list_step holds s (List_loaded c result) (on_email_list rid k result (end_list_call c s))"
| answered: "c \<in> set (el_calls s) \<Longrightarrow> \<not> is_fetch c \<Longrightarrow>
     list_step holds s (Operation_answered c ok) (on_operation c ok (end_list_call c s))"

definition list_start :: "email_list \<Rightarrow> bool" where
  "list_start s \<longleftrightarrow> el_debounced s = el_keyword s \<and> el_group s = None \<and> el_provider s = None \<and> el_protocol s = None
     \<and> el_page s = 1 \<and> el_size s = 10 \<and> el_data s = [] \<and> el_total s = 0 \<and> \<not> el_loading s \<and> el_request s = 0
     \<and> el_due s \<and> el_typing s \<and> el_selected s = [] \<and> \<not> el_batch_fetch_loading s \<and> el_checking s = []
     \<and> \<not> el_clear_visible s \<and> \<not> el_clear_loading s \<and> el_clear_box s = Clear_inbox \<and> \<not> el_assign_visible s
     \<and> el_assign_target s = None \<and> el_calls s = []"

end
