(* ===== verification/EmailListTheorems.thy ===== *)
theory EmailListTheorems
  imports EmailList
begin

text \<open>
  What the list of external mailboxes shows: the answer to the newest request, and, as long as the filters are
  not changed while an operation is under way and loads succeed, the mailboxes for the filters on the screen;
  the scope of batch operations; and which memberships are removed.
\<close>

section \<open>Parameters and requests\<close>

definition op_params :: "list_call \<Rightarrow> email_params option" where
  "op_params c =
     (case c of Fetch_call _ _ _ \<Rightarrow> None | Delete_account _ p \<Rightarrow> Some p | Batch_delete_call _ p \<Rightarrow> Some p
      | Batch_fetch_call _ p \<Rightarrow> Some p | Check_call _ p \<Rightarrow> Some p | Batch_clear_call _ _ p \<Rightarrow> Some p
      | Assign_call _ _ p \<Rightarrow> Some p | Remove_call _ _ _ p \<Rightarrow> Some p | Delete_group _ p \<Rightarrow> Some p
      | Dialog_call _ p \<Rightarrow> Some p)"

text \<open>The newest list request is for the current parameters, unless a load for them is due, and so are the
  reloads of operations.\<close>

definition current_call :: "email_list \<Rightarrow> list_call \<Rightarrow> bool" where
  "current_call s c \<longleftrightarrow> (\<forall>p. op_params c = Some p \<longrightarrow> p = current_params s)
     \<and> (\<forall>rid p k. c = Fetch_call rid p k \<longrightarrow>
          rid \<le> el_request s \<and> (rid = el_request s \<longrightarrow> el_due s \<or> p = current_params s))"

definition list_fresh :: "(email_params \<Rightarrow> email_row \<Rightarrow> bool) \<Rightarrow> email_list \<Rightarrow> bool" where
  "list_fresh holds s \<longleftrightarrow> list_all (current_call s) (el_calls s)
     \<and> (el_due s \<or> el_loading s \<or> list_all (holds (current_params s)) (el_data s))"

definition calm_list_step ::
  "(email_params \<Rightarrow> email_row \<Rightarrow> bool) \<Rightarrow> email_list \<Rightarrow> list_event \<Rightarrow> email_list \<Rightarrow> bool" where
  "calm_list_step holds s e u \<longleftrightarrow> list_step holds s e u
     \<and> (current_params u \<noteq> current_params s \<longrightarrow> list_all is_fetch (el_calls s))
     \<and> (\<forall>c. e \<noteq> List_loaded c None)"

lemma fresh_frame:
  assumes "list_fresh holds s" "current_params u = current_params s" "el_request u = el_request s" "el_due u = el_due s"
    "el_loading u = el_loading s" "el_data u = el_data s" "set (el_calls u) \<subseteq> set (el_calls s)"
  shows "list_fresh holds u"
proof -
  have "current_call u = current_call s" by (rule ext) (simp add: current_call_def assms)
  then show ?thesis using assms by (auto simp: list_fresh_def list_all_iff)
qed

lemma fresh_push:
  assumes "list_fresh holds s" "op_params c = Some (current_params s)"
    "current_params t = current_params s" "el_request t = el_request s" "el_due t = el_due s"
    "el_loading t = el_loading s" "el_data t = el_data s" "el_calls t = el_calls s"
  shows "list_fresh holds (push_call c t)"
proof -
  have "current_params (push_call c t) = current_params t" by (simp add: push_call_def current_params_def)
  moreover have "c \<noteq> Fetch_call rid p k" for rid p k using assms(2) by (auto simp: op_params_def)
  ultimately show ?thesis
    using assms unfolding list_fresh_def list_all_iff current_call_def by (simp add: push_call_def)
qed

lemma fresh_fetch:
  assumes "list_all (current_call s) (el_calls s)" "current_params t = current_params s" "el_request t = el_request s"
    "el_calls t = el_calls s"
  shows "list_fresh holds (fetch_data (current_params s) k t)"
proof -
  let ?u = "fetch_data (current_params s) k t"
  have u: "current_params ?u = current_params s" "el_request ?u = Suc (el_request s)" "el_loading ?u"
    "el_calls ?u = Fetch_call (Suc (el_request s)) (current_params s) k # el_calls s"
    using assms(2-4) by (simp_all add: fetch_data_def push_call_def current_params_def)
  have "current_call ?u c" if "c \<in> set (el_calls s)" for c
    using that assms(1) u unfolding current_call_def list_all_iff by (metis le_SucI not_less_eq_eq order_refl)
  moreover have "current_call ?u (Fetch_call (Suc (el_request s)) (current_params s) k)"
    using u by (simp add: current_call_def op_params_def)
  ultimately show ?thesis using u(3) by (simp add: list_fresh_def u list_all_iff)
qed

lemma fresh_calls: "list_fresh holds s \<Longrightarrow> list_all (current_call s) (el_calls s)"
  by (simp add: list_fresh_def)

lemma fresh_end: "list_fresh holds s \<Longrightarrow> list_fresh holds (end_list_call c s)"
  by (rule fresh_frame) (auto simp: end_list_call_def current_params_def dest: set_remove1_subset [THEN subsetD])

lemma fresh_fetch_same:
  "list_fresh holds s \<Longrightarrow> p = current_params s \<Longrightarrow> current_params t = current_params s \<Longrightarrow> el_request t = el_request s \<Longrightarrow>
     el_calls t = el_calls s \<Longrightarrow> list_fresh holds (fetch_data p k t)"
  using fresh_fetch fresh_calls by blast

lemma fresh_go_on: "list_fresh holds s \<Longrightarrow> list_fresh holds (go_on k s)"
  by (rule fresh_frame [of holds s]; cases k; simp add: current_params_def)

lemma fresh_with_params:
  assumes "list_fresh holds s" "el_request (f s) = el_request s" "el_calls (f s) = el_calls s" "el_due (f s) = el_due s"
    "el_loading (f s) = el_loading s" "el_data (f s) = el_data s"
    "current_params (with_params f s) \<noteq> current_params s \<longrightarrow> list_all is_fetch (el_calls s)"
  shows "list_fresh holds (with_params f s)"
proof -
  define t where "t = drop_hidden_provider (f s)"
  have t: "el_request t = el_request s" "el_calls t = el_calls s" "el_due t = el_due s" "el_loading t = el_loading s"
    "el_data t = el_data s"
    using assms(2-6) by (simp_all add: t_def drop_hidden_provider_def split: option.split)
  show ?thesis
  proof (cases "current_params t = current_params s")
    case True
    then have "with_params f s = t" by (simp add: with_params_def t_def Let_def)
    then show ?thesis using fresh_frame [OF assms(1) True t(1,3,4,5)] t(2) by simp
  next
    case False
    then have w: "with_params f s = t\<lparr>el_due := True\<rparr>" by (simp add: with_params_def t_def Let_def)
    have cur: "current_params (t\<lparr>el_due := True\<rparr>) = current_params t" by (simp add: current_params_def)
    then have "list_all is_fetch (el_calls s)" using assms(7) False w by simp
    then have "list_all (current_call (t\<lparr>el_due := True\<rparr>)) (el_calls s)"
      using assms(1) t unfolding list_fresh_def list_all_iff current_call_def
      by (auto simp: is_fetch_def op_params_def split: list_call.splits)
    then show ?thesis unfolding w by (simp add: list_fresh_def t)
  qed
qed

lemma fresh_loaded:
  assumes "list_fresh holds s" "Fetch_call rid p k \<in> set (el_calls s)" "list_all (holds p) rows"
  shows "list_fresh holds (on_email_list rid k (Some (rows, n)) (end_list_call (Fetch_call rid p k) s))"
proof -
  let ?t = "end_list_call (Fetch_call rid p k) s"
  have t: "list_fresh holds ?t" using assms(1) by (rule fresh_end)
  show ?thesis
  proof (cases "rid = el_request ?t")
    case True
    define u where "u = ?t\<lparr>el_data := rows, el_total := n, el_loading := False\<rparr>"
    have u: "current_params u = current_params s" "el_request u = el_request ?t" "el_due u = el_due ?t" "el_calls u = el_calls ?t"
      "current_params ?t = current_params s" "el_due ?t = el_due s" "el_data u = rows"
      by (simp_all add: u_def end_list_call_def current_params_def)
    have "el_due s \<or> p = current_params s"
      using assms(1,2) True unfolding list_fresh_def list_all_iff current_call_def by (auto simp: end_list_call_def)
    then have "list_fresh holds u"
      using t assms(3) unfolding list_fresh_def list_all_iff current_call_def by (auto simp: u)
    then show ?thesis using True fresh_go_on by (simp add: on_email_list_def u_def)
  next
    case False
    then show ?thesis using t fresh_go_on by (simp add: on_email_list_def)
  qed
qed

lemma fresh_removals:
  "list_fresh holds s \<Longrightarrow> p = current_params s \<Longrightarrow> list_fresh holds (run_removals todo p s)"
proof (cases todo)
  case Nil
  assume "list_fresh holds s" "p = current_params s"
  then show ?thesis unfolding Nil run_removals_def list.case
    by (intro fresh_fetch_same) (simp_all add: current_params_def)
next
  case (Cons x rest)
  assume s: "list_fresh holds s" "p = current_params s"
  obtain g ids where x: "x = (g, ids)" by (cases x)
  show ?thesis unfolding Cons run_removals_def x list.case prod.case
    by (rule fresh_push [OF s(1)]) (simp_all add: op_params_def s(2))
qed

lemma fresh_operation:
  assumes "list_fresh holds s" "c \<in> set (el_calls s)" "\<not> is_fetch c"
  shows "list_fresh holds (on_operation c ok (end_list_call c s))"
proof -
  let ?t = "end_list_call c s"
  have t: "list_fresh holds ?t" using assms(1) by (rule fresh_end)
  have cur: "current_params ?t = current_params s" by (simp add: end_list_call_def current_params_def)
  have p: "op_params c = Some q \<Longrightarrow> q = current_params ?t" for q
    using assms(1,2) cur unfolding list_fresh_def list_all_iff current_call_def by auto
  have same: "list_fresh holds (?t\<lparr>el_batch_fetch_loading := b\<rparr>)" "list_fresh holds (?t\<lparr>el_clear_loading := b\<rparr>)" for b
    by (rule fresh_frame [OF t]; simp add: current_params_def)+
  have fetch: "list_fresh holds (fetch_data q k v)" if "op_params c = Some q" "current_params v = current_params ?t"
    "el_request v = el_request ?t" "el_calls v = el_calls ?t" for q k v
    using fresh_fetch_same [OF t p [OF that(1)] that(2-4)] .
  show ?thesis
  proof (cases c)
    case Remove_call
    then show ?thesis using fresh_removals [OF t p] t by (simp add: on_operation_def op_params_def)
  qed (use assms(3) t same fresh_go_on [OF t, of "Check_done i" for i] in
      \<open>auto simp: on_operation_def op_params_def current_params_def is_fetch_def intro!: fetch\<close>)
qed

lemma fresh_list_step: "list_fresh holds s \<Longrightarrow> calm_list_step holds s e u \<Longrightarrow> list_fresh holds u"
proof -
  assume fresh: "list_fresh holds s" and calm: "calm_list_step holds s e u"
  then have step: "list_step holds s e u" and ops: "current_params u \<noteq> current_params s \<longrightarrow> list_all is_fetch (el_calls s)"
    and loads: "e \<noteq> List_loaded c None" for c
    by (simp_all add: calm_list_step_def)
  note wp = type_keyword_def debounce_keyword_def change_protocol_def change_provider_def change_status_def change_group_def
    change_page_def apply_url_def Let_def
  from step show ?thesis
  proof (cases rule: list_step.cases)
    case load
    then show ?thesis using fresh_fetch [OF fresh_calls [OF fresh], of "s\<lparr>el_due := False\<rparr>"] by (simp add: current_params_def)
  next
    case (loaded c rid p k result)
    then obtain rows n where r: "result = Some (rows, n)" using loads by (cases result) auto
    then show ?thesis using loaded fresh_loaded [OF fresh] by simp
  next
    case answered
    then show ?thesis using fresh_operation [OF fresh] by simp
  next
    case removed
    then show ?thesis using fresh fresh_removals [OF fresh] by (simp add: handle_batch_remove_group_def)
  next
    case deleted_selected
    then show ?thesis using fresh by (auto simp: handle_batch_delete_def op_params_def intro!: fresh_push)
  next
    case assign_confirmed
    then show ?thesis using fresh
      by (auto simp: handle_batch_assign_group_def op_params_def intro!: fresh_push split: option.split)
  next
    case settled
    show ?thesis using ops unfolding settled wp by (rule fresh_with_params [OF fresh, rotated -1]) simp_all
  next
    case protocol
    show ?thesis using ops unfolding protocol wp by (rule fresh_with_params [OF fresh, rotated -1]) simp_all
  next
    case provider
    show ?thesis using ops unfolding provider wp by (rule fresh_with_params [OF fresh, rotated -1]) simp_all
  next
    case status
    show ?thesis using ops unfolding status wp by (rule fresh_with_params [OF fresh, rotated -1]) simp_all
  next
    case group
    show ?thesis using ops unfolding group wp by (rule fresh_with_params [OF fresh, rotated -1]) simp_all
  next
    case page
    show ?thesis using ops unfolding page wp by (rule fresh_with_params [OF fresh, rotated -1]) simp_all
  next
    case url
    show ?thesis using ops unfolding url wp by (rule fresh_with_params [OF fresh, rotated -1]) simp_all
  next
    case (deleted_one i)
    show ?thesis unfolding deleted_one handle_delete_def by (rule fresh_push [OF fresh]) (simp_all add: op_params_def)
  next
    case check_all
    show ?thesis unfolding check_all handle_batch_fetch_mailboxes_def
      by (rule fresh_push [OF fresh]) (simp_all add: op_params_def current_params_def)
  next
    case check_one
    show ?thesis unfolding check_one handle_check_single_mailbox_def
      by (rule fresh_push [OF fresh]) (simp_all add: op_params_def current_params_def)
  next
    case clear_confirmed
    show ?thesis unfolding clear_confirmed handle_batch_clear_mailbox_def
      by (rule fresh_push [OF fresh]) (simp_all add: op_params_def current_params_def)
  next
    case refreshed
    then show ?thesis using fresh_fetch [OF fresh_calls [OF fresh], of s] by (simp add: refresh_list_def)
  next
    case dialog
    show ?thesis unfolding dialog start_dialog_operation_def by (rule fresh_push [OF fresh]) (simp_all add: op_params_def)
  next
    case group_deleted
    show ?thesis unfolding group_deleted handle_delete_group_def by (rule fresh_push [OF fresh]) (simp_all add: op_params_def)
  qed (rule fresh_frame [OF fresh]; simp add: current_params_def type_keyword_def)+
qed

lemma fresh_start: "list_start s \<Longrightarrow> list_fresh holds s"
  by (simp add: list_start_def list_fresh_def)

interpretation fresh: machine_invariant list_start "calm_list_step holds" "list_fresh holds" for holds
  by unfold_locales (simp_all add: fresh_start fresh_list_step)

section \<open>An example run\<close>

definition email_list0 :: email_list where
  "email_list0 = \<lparr>el_keyword = [], el_debounced = [], el_typing = True, el_group = None, el_provider = None, el_protocol = None,
     el_status = None, el_focused = None, el_page = 1, el_size = 10, el_data = [], el_total = 0, el_loading = False,
     el_request = 0, el_due = True, el_selected = [], el_batch_fetch_loading = False, el_checking = [],
     el_clear_visible = False, el_clear_loading = False, el_clear_box = Clear_inbox, el_assign_visible = False,
     el_assign_target = None, el_calls = []\<rparr>"

definition listed_page :: "email_row list \<Rightarrow> email_list" where
  "listed_page rows = email_list0\<lparr>el_due := False, el_data := rows, el_total := length rows, el_request := 1\<rparr>"

lemmas list_states = email_list0_def listed_page_def current_params_def

lemma email_list0_start: "list_start email_list0"
  by (simp add: list_start_def email_list0_def)

lemma load_steps:
  assumes "el_due s" "list_all (holds (current_params s)) rows"
  shows "run (list_step holds) s
    [Load_due, List_loaded (Fetch_call (Suc (el_request s)) (current_params s) No_more) (Some (rows, length rows))]
    (s\<lparr>el_due := False, el_request := Suc (el_request s), el_data := rows, el_total := length rows, el_loading := False\<rparr>)"
    (is "run _ _ [_, List_loaded ?c _] ?u")
proof -
  let ?t = "fetch_data (current_params s) No_more (s\<lparr>el_due := False\<rparr>)"
  have "list_step holds s Load_due ?t" by (rule load) (rule assms(1))
  moreover have "on_email_list (Suc (el_request s)) No_more (Some (rows, length rows)) (end_list_call ?c ?t) = ?u"
    by (simp add: on_email_list_def end_list_call_def fetch_data_def push_call_def)
  then have "list_step holds ?t (List_loaded ?c (Some (rows, length rows))) ?u"
    using loaded [of ?c "Suc (el_request s)" "current_params s" No_more ?t "Some (rows, length rows)" holds] assms(2)
    by (simp add: fetch_data_def push_call_def)
  ultimately show ?thesis using run_Cons run_Nil by metis
qed

lemma listed_run:
  assumes "list_all (holds (current_params email_list0)) rows"
  shows "run (list_step holds) email_list0
    [Load_due, List_loaded (Fetch_call 1 (current_params email_list0) No_more) (Some (rows, length rows))] (listed_page rows)"
  using load_steps [of email_list0 holds rows] assms by (simp add: listed_page_def) (simp add: email_list0_def)

lemma listed_reach: "list_all (holds (current_params email_list0)) rows \<Longrightarrow> reach list_start (list_step holds) (listed_page rows)"
  using reach_run [OF reach_start [of list_start email_list0 "list_step holds", OF email_list0_start]] listed_run by blast

section \<open>Properties\<close>

text \<open>C9: Filters and list agree, in calm use: in every run in which no load of the list failed and the parameters
  (keyword, filters, page, page size) did not change while an operation, a save of the mailbox form, an import or
  a poll of an authorization was under way, whenever no load is due or under way every mailbox listed is one that
  the server lists for the parameters on the screen. Loads themselves may overlap with each other and with
  changes of the parameters in any way.\<close>

theorem list_matches_filters:
  assumes "reach list_start (calm_list_step holds) s" "\<not> el_due s" "\<not> el_loading s"
  shows "list_all (holds (current_params s)) (el_data s)"
  using fresh.inv_reach [OF assms(1)] assms(2,3) by (simp add: list_fresh_def)

text \<open>The reload after an operation uses the filters its handler saw: when the status filter is changed before
  the answer of a delete arrives, that reload is the newest request, and the list then shows the mailboxes for
  the old filters under the new one.\<close>

theorem stale_reload_wins:
  fixes gone rest :: email_row
  assumes "holds (current_params email_list0) gone" "holds (current_params email_list0) rest"
  shows "\<exists>s. reach list_start (list_step holds) s \<and> \<not> el_due s \<and> \<not> el_loading s \<and> el_calls s = []
    \<and> el_status s = Some Account_error \<and> el_data s = [rest]"
proof -
  let ?p = "current_params email_list0"
  let ?s = "listed_page [gone, rest]"
  let ?d = "Delete_account (er_id gone) ?p"
  have cur: "current_params ?s = ?p" by (simp add: list_states)
  have "list_all (holds ?p) [gone, rest]" using assms by simp
  then have s: "reach list_start (list_step holds) ?s" by (rule listed_reach)
  define t where "t = ?s\<lparr>el_status := Some Account_error, el_due := True, el_calls := [?d]\<rparr>"
  have "list_step holds ?s (Account_deleted (er_id gone)) (handle_delete (er_id gone) ?s)"
    by (rule deleted_one) (simp add: listed_page_def)
  moreover have "change_status (Some Account_error) (handle_delete (er_id gone) ?s) = t"
    unfolding handle_delete_def cur
    by (simp add: change_status_def with_params_def drop_hidden_provider_def push_call_def t_def Let_def list_states)
  then have "list_step holds (handle_delete (er_id gone) ?s) (Status_chosen (Some Account_error)) t"
    using status [of holds "handle_delete (er_id gone) ?s" "Some Account_error"] by simp
  ultimately have t: "reach list_start (list_step holds) t" using s reach_step by metis
  define v where "v = t\<lparr>el_due := False, el_request := Suc (el_request t), el_data := [],
    el_total := length ([] :: email_row list), el_loading := False\<rparr>"
  have "reach list_start (list_step holds) v"
    unfolding v_def by (rule reach_run [OF t load_steps]) (simp_all add: t_def)
  moreover have "list_step holds v (Operation_answered ?d True) (fetch_data ?p No_more (v\<lparr>el_calls := []\<rparr>))"
    using answered [of ?d v holds True] by (simp add: on_operation_def end_list_call_def is_fetch_def v_def t_def)
  ultimately have w: "reach list_start (list_step holds) (fetch_data ?p No_more (v\<lparr>el_calls := []\<rparr>))" by (rule reach_step)
  let ?f = "Fetch_call 3 ?p No_more"
  let ?u = "v\<lparr>el_calls := [], el_request := 3, el_data := [rest], el_total := 1\<rparr>"
  have "on_email_list 3 No_more (Some ([rest], 1)) (end_list_call ?f (fetch_data ?p No_more (v\<lparr>el_calls := []\<rparr>))) = ?u"
    by (simp add: on_email_list_def end_list_call_def fetch_data_def push_call_def v_def t_def listed_page_def email_list0_def)
  moreover have "?f \<in> set (el_calls (fetch_data ?p No_more (v\<lparr>el_calls := []\<rparr>)))"
    by (simp add: fetch_data_def push_call_def v_def t_def listed_page_def)
  ultimately have "list_step holds (fetch_data ?p No_more (v\<lparr>el_calls := []\<rparr>)) (List_loaded ?f (Some ([rest], 1))) ?u"
    using loaded [of ?f 3 ?p No_more "fetch_data ?p No_more (v\<lparr>el_calls := []\<rparr>)" "Some ([rest], 1)" holds] assms(2) by simp
  then have "reach list_start (list_step holds) ?u" by (rule reach_step [OF w])
  then show ?thesis by (intro exI [of _ ?u] conjI) (simp_all add: v_def t_def listed_page_def email_list0_def)
qed

lemma map_filter_set: "x \<in> set (List.map_filter f xs) \<longleftrightarrow> (\<exists>y \<in> set xs. f y = Some x)"
  by (induction xs) (auto simp: List.map_filter_simps split: option.split)

text \<open>Removing from groups: a request names each group once, and takes a mailbox out of a group exactly when it
  is selected, is on the page shown and is in that group.\<close>

theorem removals_of_page:
  "distinct (map fst (remove_plan selected rows))
   \<and> ((\<exists>ids. (g, ids) \<in> set (remove_plan selected rows) \<and> i \<in> set ids) \<longleftrightarrow>
      (\<exists>e. e \<in> set rows \<and> er_id e = i \<and> er_group e = Some g \<and> i \<in> set selected))"
proof -
  let ?sel = "filter (\<lambda>e. er_id e \<in> set selected) rows"
  let ?groups = "distinct_values (List.map_filter er_group ?sel)"
  have plan: "remove_plan selected rows = map (\<lambda>g. (g, map er_id (filter (\<lambda>e. er_group e = Some g) ?sel))) ?groups"
    by (simp add: remove_plan_def Let_def)
  have "g \<in> set ?groups \<longleftrightarrow> (\<exists>e \<in> set ?sel. er_group e = Some g)" by (simp add: map_filter_set)
  then show ?thesis unfolding plan by (auto simp: comp_def)
qed

text \<open>Mailboxes selected on another page are forgotten: the selection survives a change of the page, but
  removing from groups then sends nothing for them and clears the selection all the same.\<close>

theorem unseen_selection_dropped:
  fixes r r2 :: email_row
  assumes "\<And>p. holds p r" "\<And>p. holds p r2" "er_group r = Some g" "er_id r2 \<noteq> er_id r"
  shows "\<exists>s u. reach list_start (list_step holds) s \<and> el_selected s = [er_id r]
    \<and> list_step holds s Removed_from_groups u \<and> el_selected u = [] \<and> list_all is_fetch (el_calls u)"
proof -
  let ?s = "listed_page [r]"
  let ?t = "?s\<lparr>el_selected := [er_id r]\<rparr>"
  let ?u = "?t\<lparr>el_page := 2, el_due := True\<rparr>"
  let ?v = "?u\<lparr>el_due := False, el_request := Suc (el_request ?u), el_data := [r2], el_total := length [r2], el_loading := False\<rparr>"
  have "reach list_start (list_step holds) ?s" by (rule listed_reach) (simp add: assms(1))
  moreover have "list_step holds ?s (Rows_selected [er_id r]) ?t" by (rule selected) (simp add: listed_page_def)
  moreover have "change_page 2 10 ?t = ?u"
    by (simp add: change_page_def with_params_def drop_hidden_provider_def Let_def list_states)
  then have "list_step holds ?t (Page_chosen 2 10) ?u" using page [of 2 10 holds ?t] by simp
  ultimately have u: "reach list_start (list_step holds) ?u" using reach_step by metis
  have v: "reach list_start (list_step holds) ?v"
    by (rule reach_run [OF u load_steps]) (simp_all add: assms(2))
  have "remove_plan [er_id r] [r2] = []" using assms(4) by (simp add: remove_plan_def List.map_filter_simps)
  then have plan: "handle_batch_remove_group ?v = fetch_data (current_params ?v) No_more (?v\<lparr>el_selected := []\<rparr>)"
    by (simp add: handle_batch_remove_group_def run_removals_def)
  have "list_step holds ?v Removed_from_groups (handle_batch_remove_group ?v)" by (rule removed) simp
  moreover have "el_selected (handle_batch_remove_group ?v) = []" "list_all is_fetch (el_calls (handle_batch_remove_group ?v))"
    "el_selected ?v = [er_id r]"
    unfolding plan by (simp_all add: fetch_data_def push_call_def is_fetch_def listed_page_def email_list0_def)
  ultimately show ?thesis using v by blast
qed

section \<open>Witnesses\<close>

definition demo_email :: "nat \<Rightarrow> email_row" where
  "demo_email i = \<lparr>er_id = i, er_email = js ''a@b.test'', er_group = Some 7\<rparr>"

lemma list_matches_filters_witness:
  "list_all (\<lambda>r. er_group r = Some 7) (el_data (listed_page [demo_email 8]))"
proof -
  let ?holds = "\<lambda>(p :: email_params) r. er_group r = Some (7 :: nat)"
  let ?s = "listed_page [demo_email 8]"
  let ?t = "fetch_data (current_params email_list0) No_more (email_list0\<lparr>el_due := False\<rparr>)"
  let ?c = "Fetch_call 1 (current_params email_list0) No_more"
  have "list_step ?holds email_list0 Load_due ?t" by (rule load) (simp add: email_list0_def)
  then have "calm_list_step ?holds email_list0 Load_due ?t"
    by (simp add: calm_list_step_def) (simp add: fetch_data_def push_call_def list_states)
  moreover have "on_email_list 1 No_more (Some ([demo_email 8], 1)) (end_list_call ?c ?t) = ?s"
    by (simp add: on_email_list_def end_list_call_def fetch_data_def push_call_def listed_page_def email_list0_def)
  then have "list_step ?holds ?t (List_loaded ?c (Some ([demo_email 8], 1))) ?s"
    using loaded [of ?c 1 "current_params email_list0" No_more ?t "Some ([demo_email 8], 1)" ?holds]
    by (simp add: fetch_data_def push_call_def demo_email_def email_list0_def)
  then have "calm_list_step ?holds ?t (List_loaded ?c (Some ([demo_email 8], 1))) ?s"
    by (simp add: calm_list_step_def) (simp add: fetch_data_def push_call_def list_states)
  ultimately have "reach list_start (calm_list_step ?holds) ?s"
    using reach_step [OF reach_step [OF reach_start [of list_start email_list0 "calm_list_step ?holds", OF email_list0_start]]]
    by blast
  then show ?thesis using list_matches_filters [of ?holds ?s] by (simp add: listed_page_def email_list0_def)
qed

lemma stale_reload_wins_witness:
  "\<exists>s. reach list_start (list_step (\<lambda>p r. ep_status p = None)) s \<and> el_status s = Some Account_error
     \<and> el_data s = [demo_email 8] \<and> \<not> el_loading s"
  using stale_reload_wins [of "\<lambda>p r. ep_status p = None" "demo_email 9" "demo_email 8"]
  by (auto simp: list_states)

lemma unseen_selection_dropped_witness:
  "\<exists>s u. reach list_start (list_step (\<lambda>p r. True)) s \<and> el_selected s = [8]
     \<and> list_step (\<lambda>p r. True) s Removed_from_groups u \<and> el_selected u = []"
  using unseen_selection_dropped [of "\<lambda>p r. True" "demo_email 8" "demo_email 9" 7]
  by (auto simp: demo_email_def)

end
