(* ===== verification/Listing.thy ===== *)
theory Listing
  imports Machine
begin

text \<open>
  Lists that a page loads again whenever their parameters change. What matters of the page's state is its
  \<open>view\<close>: the parameters on the screen, whether a load is still to be started, the parameters of the loads under
  way, and the rows shown. A page shows rows of other parameters only after a load has failed, or after
  one for other parameters was under way: in every other run the rows fit the screen once nothing is pending.
\<close>

record ('p, 'r) listing =
  ls_par :: 'p
  ls_due :: bool
  ls_loads :: "'p list"
  ls_rows :: "'r list"

text \<open>What a step may do to a list; \<open>ok\<close> says that the step is not the failure of a load.\<close>

inductive listing_step ::
  "('p \<Rightarrow> 'r \<Rightarrow> bool) \<Rightarrow> bool \<Rightarrow> ('p, 'r) listing \<Rightarrow> ('p, 'r) listing \<Rightarrow> bool" for holds ok where
  quiet: "ls_par w = ls_par v \<Longrightarrow> ls_due v \<longrightarrow> ls_due w \<Longrightarrow> ls_loads w = ls_loads v \<Longrightarrow> set (ls_rows w) \<subseteq> set (ls_rows v) \<Longrightarrow>
    listing_step holds ok v w"
| change: "ls_due w \<Longrightarrow> listing_step holds ok v w"
| cleared: "ls_rows w = [] \<Longrightarrow> listing_step holds ok v w"
| loading: "ls_loads w \<noteq> [] \<Longrightarrow> listing_step holds ok v w"
| answered: "p \<in> set (ls_loads v) \<Longrightarrow> list_all (holds p) (ls_rows w) \<Longrightarrow> ls_par w = ls_par v \<Longrightarrow> listing_step holds ok v w"
| failed: "\<not> ok \<Longrightarrow> listing_step holds ok v w"

definition listing_calm :: "('p, 'r) listing \<Rightarrow> bool" where
  "listing_calm v \<longleftrightarrow> (\<forall>p \<in> set (ls_loads v). p = ls_par v)"

definition listing_settled :: "('p, 'r) listing \<Rightarrow> bool" where
  "listing_settled v \<longleftrightarrow> \<not> ls_due v \<and> ls_loads v = []"

definition listing_fresh :: "('p \<Rightarrow> 'r \<Rightarrow> bool) \<Rightarrow> ('p, 'r) listing \<Rightarrow> bool" where
  "listing_fresh holds v \<longleftrightarrow>
     listing_calm v \<and> (ls_due v \<or> ls_loads v \<noteq> [] \<or> list_all (holds (ls_par v)) (ls_rows v))"

text \<open>Steps that are no failure and leave no load for other parameters under way.\<close>

definition calm_step ::
  "('s \<Rightarrow> ('p, 'r) listing) \<Rightarrow> ('e \<Rightarrow> bool) \<Rightarrow> ('s \<Rightarrow> 'e \<Rightarrow> 's \<Rightarrow> bool) \<Rightarrow> 's \<Rightarrow> 'e \<Rightarrow> 's \<Rightarrow> bool" where
  "calm_step view fails step s e t \<longleftrightarrow> step s e t \<and> \<not> fails e \<and> listing_calm (view t)"

lemma calm_stepI: "step s e t \<Longrightarrow> \<not> fails e \<Longrightarrow> listing_calm (view t) \<Longrightarrow> calm_step view fails step s e t"
  by (simp add: calm_step_def)

lemma calm_reach: "reach start (calm_step view fails step) s \<Longrightarrow> reach start step s"
proof -
  have "run (calm_step view fails step) s es t \<Longrightarrow> run step s es t" for s es t
    by (induction rule: run.induct) (auto simp: calm_step_def)
  then show "reach start (calm_step view fails step) s \<Longrightarrow> reach start step s" unfolding reach_def by blast
qed

lemma listing_kept:
  assumes "listing_step holds True v w" "listing_fresh holds v" "listing_calm w"
  shows "listing_fresh holds w"
  using assms(1)
proof cases
  case quiet
  then show ?thesis using assms(2,3) by (auto simp: listing_fresh_def list_all_iff)
next
  case (answered p)
  then have "p = ls_par v" using assms(2) by (auto simp: listing_fresh_def listing_calm_def)
  then show ?thesis using answered assms(3) by (simp add: listing_fresh_def)
qed (use assms(3) in \<open>auto simp: listing_fresh_def\<close>)

text \<open>The loads under way, as the requests of a page that \<open>f\<close> recognises.\<close>

lemma map_filter_remove1_None:
  "f c = None \<Longrightarrow> List.map_filter f (remove1 c xs) = List.map_filter f xs"
  by (induction xs) (auto simp: List.map_filter_simps split: option.splits)

lemma map_filter_mem: "c \<in> set xs \<Longrightarrow> f c = Some p \<Longrightarrow> p \<in> set (List.map_filter f xs)"
  by (induction xs) (auto simp: List.map_filter_simps split: option.splits)

lemma map_filter_Nil: "(\<And>c. c \<in> set xs \<Longrightarrow> f c = None) \<Longrightarrow> List.map_filter f xs = []"
  by (induction xs) (auto simp: List.map_filter_simps)

lemma start_load: "ls_loads w = p # ls_loads v \<Longrightarrow> listing_step holds ok v w"
  by (simp add: listing_step.loading)

lemma listing_same: "w = v \<Longrightarrow> listing_step holds ok v w"
  by (simp add: listing_step.quiet)

lemma fresh_empty: "ls_loads v = [] \<and> (ls_due v \<or> ls_rows v = []) \<Longrightarrow> listing_fresh holds v"
  by (auto simp: listing_fresh_def listing_calm_def)

locale listing =
  fixes start :: "'s \<Rightarrow> bool"
    and step :: "'s \<Rightarrow> 'e \<Rightarrow> 's \<Rightarrow> bool"
    and view :: "'s \<Rightarrow> ('p, 'r) listing"
    and fails :: "'e \<Rightarrow> bool"
    and holds :: "'p \<Rightarrow> 'r \<Rightarrow> bool"
  assumes start_view: "start s \<Longrightarrow> listing_fresh holds (view s)"
    and step_view: "step s e t \<Longrightarrow> listing_step holds (\<not> fails e) (view s) (view t)"
begin

lemma listing_run: "run (calm_step view fails step) s es t \<Longrightarrow> listing_fresh holds (view s) \<Longrightarrow> listing_fresh holds (view t)"
proof (induction rule: run.induct)
  case (run_Cons s e t es u)
  then show ?case using step_view [of s e t] by (auto simp: calm_step_def intro: listing_kept)
qed

lemma listing_reach: "reach start (calm_step view fails step) s \<Longrightarrow> listing_fresh holds (view s)"
  unfolding reach_def using listing_run start_view by blast

lemma settled_rows:
  "reach start (calm_step view fails step) s \<Longrightarrow> listing_settled (view s) \<Longrightarrow>
     list_all (holds (ls_par (view s))) (ls_rows (view s))"
  using listing_reach by (auto simp: listing_fresh_def listing_settled_def)

end

end
