(* ===== verification/PortalInbox.thy ===== *)
theory PortalInbox
  imports Providers WebText Listing
begin

text \<open>
  The inbox of the mailbox portal (web/src/pages/mail-portal/inbox/index.tsx): its mailboxes, the two folders with
  their loads, the message drawer and the compose drawer, as a machine; and what the drawer and the lists
  show. Ids of mailboxes are database keys and never 0. Loads ask for page 1 with 50 items. Opening the page with
  \<open>compose=1\<close> starts with the compose drawer open.
\<close>

section \<open>Data\<close>

datatype forward_mode = Forward_disabled | Forward_copy | Forward_move

record portal_mailbox =
  pm_id :: nat
  pm_address :: jstr
  pm_provisioning :: "provisioning_mode option"
  pm_forward_mode :: "forward_mode option"
  pm_forward_to :: "jstr option"
  pm_profile :: "hosted_profile_key option"
  pm_send_ready :: bool
  pm_domain_can_send :: bool

record inbox_item =
  ii_id :: jstr
  ii_from :: jstr
  ii_subject :: "jstr option"
  ii_text :: "jstr option"
  ii_code :: "jstr option"
  ii_mailbox :: "jstr option"
  ii_read :: bool

record sent_item =
  si_id :: jstr
  si_from :: jstr
  si_to :: "jstr list"
  si_subject :: "jstr option"
  si_status :: jstr
  si_mailbox :: "jstr option"

record send_form =
  sf_to :: jstr
  sf_subject :: jstr
  sf_text :: jstr

datatype mail_folder = Inbox | Sent_mail

datatype inbox_toast = Select_first | No_channel | Inbound_only | No_recipient | Mail_sent

section \<open>What is shown\<close>

datatype sent_label = Label_sent | Label_failed | Label_running | Label_skipped | Label_pending

definition get_sent_status_label :: "jstr \<Rightarrow> sent_label" where
  "get_sent_status_label status =
     (if status = js ''SENT'' then Label_sent
      else if status = js ''FAILED'' then Label_failed
      else if status = js ''RUNNING'' then Label_running
      else if status = js ''SKIPPED'' then Label_skipped
      else Label_pending)"

text \<open>\<open>[...].filter(Boolean).some(value => value.toLowerCase().includes(keyword))\<close>.\<close>

definition some_includes :: "jstr \<Rightarrow> jstr option list \<Rightarrow> bool" where
  "some_includes keyword values =
     list_ex (\<lambda>value. js_includes (to_lower value) keyword) (List.map_filter opt_text values)"

definition filtered_inbox_messages :: "jstr \<Rightarrow> inbox_item list \<Rightarrow> inbox_item list" where
  "filtered_inbox_messages keyword messages =
     (let normalized = to_lower (trim keyword)
      in if normalized = [] then messages
         else filter (\<lambda>item. some_includes normalized
           [ii_subject item, Some (ii_from item), ii_text item, ii_code item, ii_mailbox item]) messages)"

definition filtered_sent_messages :: "jstr \<Rightarrow> sent_item list \<Rightarrow> sent_item list" where
  "filtered_sent_messages keyword messages =
     (let normalized = to_lower (trim keyword)
      in if normalized = [] then messages
         else filter (\<lambda>item. some_includes normalized
           [si_subject item, Some (si_from item), Some (join (js '','') (si_to item)), si_mailbox item,
            Some (si_status item)]) messages)"

definition inbox_stats :: "inbox_item list \<Rightarrow> nat \<times> nat \<times> nat" where
  "inbox_stats messages =
     (length messages, length (filter (\<lambda>item. \<not> ii_read item) messages),
      length (filter (\<lambda>item. opt_text (ii_code item) \<noteq> None) messages))"

definition sent_stats :: "sent_item list \<Rightarrow> nat \<times> nat \<times> nat" where
  "sent_stats messages =
     (length messages, length (filter (\<lambda>item. si_status item = js ''SENT'') messages),
      length (filter (\<lambda>item. si_status item = js ''FAILED'') messages))"

text \<open>The body of the drawer, from a payload of any shape: \<open>Null\<close> stands for no message.\<close>

datatype body_card = Html_card jstr | Text_card jstr | Body_card jstr

definition text_field :: "jstr \<Rightarrow> jstr \<Rightarrow> jsval \<Rightarrow> jstr" where
  "text_field k l message = trim (string_of (or_else (or_else (field k message) (field l message)) (Text [])))"

definition render_message_body :: "jsval \<Rightarrow> body_card list" where
  "render_message_body message =
     (let html_preview = text_field (js ''htmlPreview'') (js ''htmlBody'') message;
          text_preview = text_field (js ''textPreview'') (js ''textBody'') message
      in (if html_preview = [] then [] else [Html_card html_preview])
         @ (if text_preview = [] then [] else [if html_preview = [] then Body_card text_preview else Text_card text_preview])
         @ (if html_preview = [] \<and> text_preview = [] then [Body_card (js ''-'')] else []))"

section \<open>State\<close>

datatype inbox_call =
    Mailboxes_call "nat option"
  | Inbox_call "nat option" bool
  | Sent_list_call nat
  | Inbox_detail_call jstr
  | Sent_detail_call jstr
  | Send_message_call nat "jstr list" jstr jstr

record portal_inbox =
  pi_folder :: mail_folder
  pi_loading :: bool
  pi_detail_loading :: bool
  pi_mailboxes :: "portal_mailbox list"
  pi_messages :: "inbox_item list"
  pi_sent :: "sent_item list"
  pi_mailbox :: "nat option"
  pi_shown :: jsval
  pi_detail_visible :: bool
  pi_compose :: bool
  pi_sending :: bool
  pi_unread :: bool
  pi_keyword :: jstr
  pi_mailboxes_due :: bool
  pi_list_due :: bool
  pi_toasts :: "inbox_toast list"
  pi_calls :: "inbox_call list"

definition push_inbox :: "inbox_call \<Rightarrow> portal_inbox \<Rightarrow> portal_inbox" where
  "push_inbox c s = s\<lparr>pi_calls := c # pi_calls s\<rparr>"

definition end_inbox_call :: "inbox_call \<Rightarrow> portal_inbox \<Rightarrow> portal_inbox" where
  "end_inbox_call c s = s\<lparr>pi_calls := remove1 c (pi_calls s)\<rparr>"

definition toast :: "inbox_toast \<Rightarrow> portal_inbox \<Rightarrow> portal_inbox" where
  "toast m s = s\<lparr>pi_toasts := pi_toasts s @ [m]\<rparr>"

definition mailbox_options :: "portal_inbox \<Rightarrow> nat list" where
  "mailbox_options s = map pm_id (pi_mailboxes s)"

definition selected_mailbox :: "portal_inbox \<Rightarrow> portal_mailbox option" where
  "selected_mailbox s = find (\<lambda>item. Some (pm_id item) = pi_mailbox s) (pi_mailboxes s)"

definition domain_can_send :: "portal_inbox \<Rightarrow> bool" where
  "domain_can_send s = (case selected_mailbox s of None \<Rightarrow> False | Some m \<Rightarrow> pm_domain_can_send m)"

definition can_send :: "portal_inbox \<Rightarrow> bool" where
  "can_send s = (case selected_mailbox s of None \<Rightarrow> False | Some m \<Rightarrow> pm_send_ready m)"

definition selected_mailbox_profile :: "portal_inbox \<Rightarrow> hosted_profile option" where
  "selected_mailbox_profile s =
     (case selected_mailbox s of None \<Rightarrow> None
      | Some m \<Rightarrow> Some (case pm_profile m of
            Some p \<Rightarrow> hosted_internal_profile_definitions p
          | None \<Rightarrow> get_hosted_internal_profile_by_provisioning_mode
              (case pm_provisioning m of None \<Rightarrow> MANUAL | Some mode \<Rightarrow> mode)))"

section \<open>Effects\<close>

text \<open>A change of the folder, the mailbox, the filter or the language starts the effects again: the mailboxes when
  their loader has changed, the list of the folder when a mailbox is selected.\<close>

definition run_effects :: "bool \<Rightarrow> portal_inbox \<Rightarrow> portal_inbox \<Rightarrow> portal_inbox" where
  "run_effects language_changed s t =
     t\<lparr>pi_mailboxes_due := (pi_mailboxes_due t \<or> language_changed \<or> pi_mailbox t \<noteq> pi_mailbox s),
       pi_list_due :=
         (if language_changed \<or> pi_folder t \<noteq> pi_folder s \<or> pi_mailbox t \<noteq> pi_mailbox s \<or> pi_unread t \<noteq> pi_unread s
          then pi_mailbox t \<noteq> None else pi_list_due t)\<rparr>"

section \<open>Handlers\<close>

definition load_mailboxes :: "portal_inbox \<Rightarrow> portal_inbox" where
  "load_mailboxes s = push_inbox (Mailboxes_call (pi_mailbox s)) s"

definition on_mailboxes :: "nat option \<Rightarrow> portal_mailbox list option \<Rightarrow> portal_inbox \<Rightarrow> portal_inbox" where
  "on_mailboxes seen result s =
     (case result of
        None \<Rightarrow> s
      | Some items \<Rightarrow>
          run_effects False s (s\<lparr>pi_mailboxes := items,
            pi_mailbox := (case items of
                [] \<Rightarrow> pi_mailbox s
              | m # _ \<Rightarrow> if seen = None then Some (pm_id m) else pi_mailbox s)\<rparr>))"

definition load_inbox_messages :: "nat option \<Rightarrow> bool \<Rightarrow> portal_inbox \<Rightarrow> portal_inbox" where
  "load_inbox_messages mailbox_id unread s = push_inbox (Inbox_call mailbox_id unread) (s\<lparr>pi_loading := True\<rparr>)"

definition on_inbox_messages :: "inbox_item list option \<Rightarrow> portal_inbox \<Rightarrow> portal_inbox" where
  "on_inbox_messages result s =
     (case result of None \<Rightarrow> s | Some items \<Rightarrow> s\<lparr>pi_messages := items\<rparr>)\<lparr>pi_loading := False\<rparr>"

definition load_sent_messages :: "nat option \<Rightarrow> portal_inbox \<Rightarrow> portal_inbox" where
  "load_sent_messages mailbox_id s =
     (case mailbox_id of
        None \<Rightarrow> s\<lparr>pi_sent := []\<rparr>
      | Some m \<Rightarrow> push_inbox (Sent_list_call m) (s\<lparr>pi_loading := True\<rparr>))"

definition on_sent_messages :: "sent_item list option \<Rightarrow> portal_inbox \<Rightarrow> portal_inbox" where
  "on_sent_messages result s =
     (case result of None \<Rightarrow> s | Some items \<Rightarrow> s\<lparr>pi_sent := items\<rparr>)\<lparr>pi_loading := False\<rparr>"

definition reload_current_folder :: "portal_inbox \<Rightarrow> portal_inbox" where
  "reload_current_folder s =
     (if pi_folder s = Inbox then load_inbox_messages (pi_mailbox s) (pi_unread s) s
      else load_sent_messages (pi_mailbox s) s)"

definition open_inbox_message :: "jstr \<Rightarrow> portal_inbox \<Rightarrow> portal_inbox" where
  "open_inbox_message i s = push_inbox (Inbox_detail_call i) (s\<lparr>pi_detail_loading := True, pi_detail_visible := True\<rparr>)"

definition mark_read :: "jstr \<Rightarrow> inbox_item list \<Rightarrow> inbox_item list" where
  "mark_read i items = map (\<lambda>item. if ii_id item = i then item\<lparr>ii_read := True\<rparr> else item) items"

definition on_inbox_detail :: "jstr \<Rightarrow> jsval option \<Rightarrow> portal_inbox \<Rightarrow> portal_inbox" where
  "on_inbox_detail i result s =
     (case result of None \<Rightarrow> s
      | Some message \<Rightarrow> s\<lparr>pi_shown := message, pi_messages := mark_read i (pi_messages s)\<rparr>)\<lparr>pi_detail_loading := False\<rparr>"

definition open_sent_message :: "jstr \<Rightarrow> portal_inbox \<Rightarrow> portal_inbox" where
  "open_sent_message i s = push_inbox (Sent_detail_call i) (s\<lparr>pi_detail_loading := True, pi_detail_visible := True\<rparr>)"

definition on_sent_detail :: "jsval option \<Rightarrow> portal_inbox \<Rightarrow> portal_inbox" where
  "on_sent_detail result s =
     (case result of None \<Rightarrow> s | Some message \<Rightarrow> s\<lparr>pi_shown := message\<rparr>)\<lparr>pi_detail_loading := False\<rparr>"

definition is_portal_separator :: "nat \<Rightarrow> bool" where
  [js_eval]: "is_portal_separator c \<longleftrightarrow> c = 10 \<or> c = 44 \<or> c = 59"

definition portal_recipients :: "jstr \<Rightarrow> jstr list" where
  "portal_recipients text = filter (\<lambda>item. item \<noteq> []) (map trim (split_runs is_portal_separator text))"

definition handle_send :: "send_form \<Rightarrow> portal_inbox \<Rightarrow> portal_inbox" where
  "handle_send values s =
     (case pi_mailbox s of
        None \<Rightarrow> toast Select_first s
      | Some mailbox_id \<Rightarrow>
          if \<not> can_send s then toast (if domain_can_send s then No_channel else Inbound_only) s
          else let recipients = portal_recipients (sf_to values)
               in if recipients = [] then toast No_recipient s
                  else push_inbox (Send_message_call mailbox_id recipients (sf_subject values) (sf_text values))
                         (s\<lparr>pi_sending := True\<rparr>))"

definition on_message_sent :: "nat \<Rightarrow> bool \<Rightarrow> portal_inbox \<Rightarrow> portal_inbox" where
  "on_message_sent mailbox_id ok s =
     (let s1 = s\<lparr>pi_sending := False\<rparr>
      in if \<not> ok then s1
         else load_sent_messages (Some mailbox_id)
           (run_effects False s1 (toast Mail_sent (s1\<lparr>pi_compose := False, pi_folder := Sent_mail\<rparr>))))"

definition select_folder :: "mail_folder \<Rightarrow> portal_inbox \<Rightarrow> portal_inbox" where
  "select_folder folder s = run_effects False s (s\<lparr>pi_folder := folder\<rparr>)"

definition select_mailbox :: "nat \<Rightarrow> portal_inbox \<Rightarrow> portal_inbox" where
  "select_mailbox mailbox_id s = run_effects False s (s\<lparr>pi_mailbox := Some mailbox_id\<rparr>)"

definition switch_unread :: "bool \<Rightarrow> portal_inbox \<Rightarrow> portal_inbox" where
  "switch_unread unread s = run_effects False s (s\<lparr>pi_unread := unread\<rparr>)"

definition run_list_effect :: "portal_inbox \<Rightarrow> portal_inbox" where
  "run_list_effect s =
     (let t = s\<lparr>pi_list_due := False\<rparr>
      in case pi_mailbox s of
           None \<Rightarrow> t
         | Some m \<Rightarrow> if pi_folder s = Inbox then load_inbox_messages (Some m) (pi_unread s) t
                    else load_sent_messages (Some m) t)"

section \<open>The machine\<close>

datatype inbox_event =
    Mailboxes_timer | List_timer | Language_switched | Folder_chosen mail_folder | Mailbox_chosen nat | Unread_switched bool
  | Keyword_entered jstr | Reload_clicked | Message_opened jstr | Sent_opened jstr | Drawer_closed
  | Compose_clicked | Compose_closed | Send_submitted send_form
  | Mailboxes_answered inbox_call "portal_mailbox list option"
  | Inbox_answered inbox_call "inbox_item list option"
  | Sent_answered inbox_call "sent_item list option"
  | Detail_arrived inbox_call "jsval option"
  | Send_answered inbox_call bool

text \<open>A drawer covers the page below it.\<close>

definition page_front :: "portal_inbox \<Rightarrow> bool" where
  "page_front s \<longleftrightarrow> \<not> pi_detail_visible s \<and> \<not> pi_compose s"

text \<open>\<open>inbox_of m unread i\<close> and \<open>sent_of m i\<close>: the server lists message \<open>i\<close> for these parameters.\<close>

inductive inbox_step ::
  "(nat option \<times> bool \<Rightarrow> jstr \<Rightarrow> bool) \<Rightarrow> (nat \<Rightarrow> jstr \<Rightarrow> bool) \<Rightarrow> portal_inbox \<Rightarrow> inbox_event \<Rightarrow> portal_inbox \<Rightarrow> bool"
  for inbox_of sent_of where
  mailboxes_timer: "pi_mailboxes_due s \<Longrightarrow>
     inbox_step inbox_of sent_of s Mailboxes_timer (load_mailboxes (s\<lparr>pi_mailboxes_due := False\<rparr>))"
| list_timer: "pi_list_due s \<Longrightarrow> inbox_step inbox_of sent_of s List_timer (run_list_effect s)"
| language: "inbox_step inbox_of sent_of s Language_switched (run_effects True s s)"
| folder: "page_front s \<Longrightarrow> inbox_step inbox_of sent_of s (Folder_chosen f) (select_folder f s)"
| mailbox: "page_front s \<Longrightarrow> m \<in> set (mailbox_options s) \<Longrightarrow>
     inbox_step inbox_of sent_of s (Mailbox_chosen m) (select_mailbox m s)"
| unread: "page_front s \<Longrightarrow> pi_folder s = Inbox \<Longrightarrow>
     inbox_step inbox_of sent_of s (Unread_switched b) (switch_unread b s)"
| keyword: "page_front s \<Longrightarrow> inbox_step inbox_of sent_of s (Keyword_entered text) (s\<lparr>pi_keyword := text\<rparr>)"
| reload: "page_front s \<Longrightarrow> inbox_step inbox_of sent_of s Reload_clicked (reload_current_folder s)"
| open_inbox: "page_front s \<Longrightarrow> \<not> pi_loading s \<Longrightarrow> pi_folder s = Inbox \<Longrightarrow>
     item \<in> set (filtered_inbox_messages (pi_keyword s) (pi_messages s)) \<Longrightarrow>
     inbox_step inbox_of sent_of s (Message_opened (ii_id item)) (open_inbox_message (ii_id item) s)"
| open_sent: "page_front s \<Longrightarrow> \<not> pi_loading s \<Longrightarrow> pi_folder s = Sent_mail \<Longrightarrow>
     entry \<in> set (filtered_sent_messages (pi_keyword s) (pi_sent s)) \<Longrightarrow>
     inbox_step inbox_of sent_of s (Sent_opened (si_id entry)) (open_sent_message (si_id entry) s)"
| close_drawer: "pi_detail_visible s \<Longrightarrow> inbox_step inbox_of sent_of s Drawer_closed (s\<lparr>pi_detail_visible := False\<rparr>)"
| compose: "page_front s \<Longrightarrow> can_send s \<Longrightarrow> pi_mailbox s \<noteq> None \<Longrightarrow>
     inbox_step inbox_of sent_of s Compose_clicked (s\<lparr>pi_compose := True\<rparr>)"
| compose_closed: "pi_compose s \<Longrightarrow> inbox_step inbox_of sent_of s Compose_closed (s\<lparr>pi_compose := False\<rparr>)"
| send: "pi_compose s \<Longrightarrow> \<not> pi_sending s \<Longrightarrow> can_send s \<Longrightarrow> pi_mailbox s \<noteq> None \<Longrightarrow>
     sf_to values \<noteq> [] \<Longrightarrow> sf_subject values \<noteq> [] \<Longrightarrow> sf_text values \<noteq> [] \<Longrightarrow>
     inbox_step inbox_of sent_of s (Send_submitted values) (handle_send values s)"
| mailboxes_answered: "c = Mailboxes_call seen \<Longrightarrow> c \<in> set (pi_calls s) \<Longrightarrow>
     inbox_step inbox_of sent_of s (Mailboxes_answered c result) (on_mailboxes seen result (end_inbox_call c s))"
| inbox_answered: "c = Inbox_call m b \<Longrightarrow> c \<in> set (pi_calls s) \<Longrightarrow>
     \<forall>items. result = Some items \<longrightarrow> list_all (\<lambda>item. inbox_of (m, b) (ii_id item)) items \<Longrightarrow>
     inbox_step inbox_of sent_of s (Inbox_answered c result) (on_inbox_messages result (end_inbox_call c s))"
| sent_answered: "c = Sent_list_call m' \<Longrightarrow> c \<in> set (pi_calls s) \<Longrightarrow>
     \<forall>entries. listed = Some entries \<longrightarrow> list_all (\<lambda>entry. sent_of m' (si_id entry)) entries \<Longrightarrow>
     inbox_step inbox_of sent_of s (Sent_answered c listed) (on_sent_messages listed (end_inbox_call c s))"
| inbox_detail: "c = Inbox_detail_call i \<Longrightarrow> c \<in> set (pi_calls s) \<Longrightarrow>
     inbox_step inbox_of sent_of s (Detail_arrived c message) (on_inbox_detail i message (end_inbox_call c s))"
| sent_detail: "c = Sent_detail_call i \<Longrightarrow> c \<in> set (pi_calls s) \<Longrightarrow>
     inbox_step inbox_of sent_of s (Detail_arrived c message) (on_sent_detail message (end_inbox_call c s))"
| send_answered: "c = Send_message_call m' to subject body \<Longrightarrow> c \<in> set (pi_calls s) \<Longrightarrow>
     inbox_step inbox_of sent_of s (Send_answered c ok) (on_message_sent m' ok (end_inbox_call c s))"

definition inbox_start :: "portal_inbox \<Rightarrow> bool" where
  "inbox_start s \<longleftrightarrow> pi_folder s = Inbox \<and> pi_loading s \<and> \<not> pi_detail_loading s \<and> pi_mailboxes s = [] \<and> pi_messages s = []
     \<and> pi_sent s = [] \<and> pi_mailbox s = None \<and> pi_shown s = Null \<and> \<not> pi_detail_visible s \<and> \<not> pi_sending s
     \<and> \<not> pi_unread s \<and> pi_keyword s = [] \<and> pi_mailboxes_due s \<and> \<not> pi_list_due s \<and> pi_toasts s = [] \<and> pi_calls s = []"

end
