(* ===== verification/PortalInboxTheorems.thy ===== *)
theory PortalInboxTheorems
  imports PortalInbox
begin

text \<open>
  What the portal inbox shows and sends: with no load for another mailbox under way, the lists are those of
  the mailbox on the screen; otherwise a late answer or a finished send shows another mailbox's mail. One
  message is sent at a time, and only to recipients that are there. Without a mailbox the page never stops loading,
  and a message that cannot be loaded leaves the previous one in the drawer.
\<close>

section \<open>The two lists\<close>

fun inbox_load :: "inbox_call \<Rightarrow> (nat option \<times> bool) option" where
  "inbox_load (Inbox_call m b) = Some (m, b)"
| "inbox_load _ = None"

fun sent_load :: "inbox_call \<Rightarrow> nat option option" where
  "sent_load (Sent_list_call m) = Some (Some m)"
| "sent_load _ = None"

definition inbox_view :: "portal_inbox \<Rightarrow> (nat option \<times> bool, jstr) listing" where
  "inbox_view s =
     \<lparr>ls_par = (pi_mailbox s, pi_unread s), ls_due = (pi_list_due s \<or> pi_folder s \<noteq> Inbox \<or> pi_mailbox s = None),
      ls_loads = List.map_filter inbox_load (pi_calls s), ls_rows = map ii_id (pi_messages s)\<rparr>"

definition sent_view :: "portal_inbox \<Rightarrow> (nat option, jstr) listing" where
  "sent_view s =
     \<lparr>ls_par = pi_mailbox s, ls_due = (pi_list_due s \<or> pi_folder s \<noteq> Sent_mail \<or> pi_mailbox s = None),
      ls_loads = List.map_filter sent_load (pi_calls s), ls_rows = map si_id (pi_sent s)\<rparr>"

definition inbox_fails :: "inbox_event \<Rightarrow> bool" where
  "inbox_fails e = (case e of Inbox_answered c None \<Rightarrow> True | _ \<Rightarrow> False)"

definition sent_fails :: "inbox_event \<Rightarrow> bool" where
  "sent_fails e = (case e of Sent_answered c None \<Rightarrow> True | _ \<Rightarrow> False)"

definition sent_holds :: "(nat \<Rightarrow> jstr \<Rightarrow> bool) \<Rightarrow> nat option \<Rightarrow> jstr \<Rightarrow> bool" where
  "sent_holds sent_of m i = (case m of None \<Rightarrow> True | Some x \<Rightarrow> sent_of x i)"

lemmas inbox_ops = push_inbox_def end_inbox_call_def toast_def load_mailboxes_def load_inbox_messages_def
  load_sent_messages_def reload_current_folder_def open_inbox_message_def open_sent_message_def run_list_effect_def

lemma mark_read_ids [simp]: "map ii_id (mark_read i items) = map ii_id items"
  by (simp add: mark_read_def)

text \<open>What an effect leaves: either nothing has changed or the list of the folder shown is due.\<close>

lemma effects_inbox:
  assumes "pi_calls t = pi_calls s" "pi_messages t = pi_messages s" "pi_list_due t = pi_list_due s"
  shows "listing_step holds ok (inbox_view s) (inbox_view (run_effects l s t))"
proof (cases "l \<or> pi_folder t \<noteq> pi_folder s \<or> pi_mailbox t \<noteq> pi_mailbox s \<or> pi_unread t \<noteq> pi_unread s")
  case True
  then show ?thesis using assms by (intro listing_step.change) (auto simp: inbox_view_def run_effects_def)
next
  case False
  then show ?thesis using assms by (intro listing_same) (simp add: inbox_view_def run_effects_def)
qed

lemma effects_sent:
  assumes "pi_calls t = pi_calls s" "pi_sent t = pi_sent s" "pi_list_due t = pi_list_due s"
  shows "listing_step holds ok (sent_view s) (sent_view (run_effects l s t))"
proof (cases "l \<or> pi_folder t \<noteq> pi_folder s \<or> pi_mailbox t \<noteq> pi_mailbox s \<or> pi_unread t \<noteq> pi_unread s")
  case True
  then show ?thesis using assms by (intro listing_step.change) (auto simp: sent_view_def run_effects_def)
next
  case False
  then show ?thesis using assms by (intro listing_same) (simp add: sent_view_def run_effects_def)
qed

lemma inbox_quiet:
  assumes "pi_mailbox t = pi_mailbox s" "pi_unread t = pi_unread s" "pi_list_due s \<longrightarrow> pi_list_due t"
    "pi_folder t = pi_folder s" "List.map_filter inbox_load (pi_calls t) = List.map_filter inbox_load (pi_calls s)"
    "map ii_id (pi_messages t) = map ii_id (pi_messages s)"
  shows "listing_step holds ok (inbox_view s) (inbox_view t)"
  using assms by (intro listing_step.quiet) (auto simp: inbox_view_def)

lemma sent_quiet:
  assumes "pi_mailbox t = pi_mailbox s" "pi_list_due s \<longrightarrow> pi_list_due t"
    "pi_folder t = pi_folder s" "List.map_filter sent_load (pi_calls t) = List.map_filter sent_load (pi_calls s)"
    "set (map si_id (pi_sent t)) \<subseteq> set (map si_id (pi_sent s))"
  shows "listing_step holds ok (sent_view s) (sent_view t)"
  using assms by (intro listing_step.quiet) (auto simp: sent_view_def)

text \<open>The steps that answer a request, reload a folder or start a load.\<close>

lemma inbox_reload: "listing_step holds ok (inbox_view s) (inbox_view (reload_current_folder s))"
proof (cases "pi_folder s = Inbox")
  case True
  then show ?thesis
    by (intro start_load [where p = "(pi_mailbox s, pi_unread s)"])
      (simp add: inbox_view_def inbox_ops List.map_filter_simps)
next
  case False
  then show ?thesis
    by (intro inbox_quiet) (simp_all add: inbox_ops List.map_filter_simps split: option.split)
qed

lemma sent_reload: "listing_step holds ok (sent_view s) (sent_view (reload_current_folder s))"
proof (cases "pi_folder s = Inbox \<or> pi_mailbox s = None")
  case True
  then show ?thesis
    by (intro sent_quiet) (auto simp: inbox_ops List.map_filter_simps)
next
  case False
  then show ?thesis
    by (intro start_load [where p = "pi_mailbox s"])
      (auto simp: sent_view_def inbox_ops List.map_filter_simps)
qed

lemma inbox_effect: "listing_step holds ok (inbox_view s) (inbox_view (run_list_effect s))"
proof (cases "pi_folder s = Inbox \<and> pi_mailbox s \<noteq> None")
  case True
  then show ?thesis
    by (intro start_load [where p = "(pi_mailbox s, pi_unread s)"])
      (auto simp: inbox_view_def inbox_ops List.map_filter_simps)
next
  case False
  then show ?thesis
    by (intro listing_step.change) (auto simp: inbox_view_def inbox_ops Let_def List.map_filter_simps split: option.split)
qed

lemma sent_effect: "listing_step holds ok (sent_view s) (sent_view (run_list_effect s))"
proof (cases "pi_folder s = Sent_mail \<and> pi_mailbox s \<noteq> None")
  case True
  then show ?thesis
    by (intro start_load [where p = "pi_mailbox s"])
      (auto simp: sent_view_def inbox_ops List.map_filter_simps)
next
  case False
  then show ?thesis
    by (intro listing_step.change; cases "pi_folder s";
        auto simp: sent_view_def inbox_ops Let_def List.map_filter_simps split: option.split)
qed

lemma inbox_frame_end:
  "inbox_load c = None \<Longrightarrow> inbox_view (end_inbox_call c s) = inbox_view s"
  "sent_load c = None \<Longrightarrow> sent_view (end_inbox_call c s) = sent_view s"
  by (simp_all add: inbox_view_def sent_view_def end_inbox_call_def map_filter_remove1_None)

lemma inbox_send_done: "listing_step holds ok (inbox_view s) (inbox_view (on_message_sent m sent s))"
proof (cases sent)
  case True
  then show ?thesis
    by (intro listing_step.change)
      (simp_all add: on_message_sent_def Let_def inbox_view_def run_effects_def inbox_ops List.map_filter_simps)
next
  case False
  then show ?thesis by (intro listing_same) (simp add: on_message_sent_def inbox_view_def)
qed

lemma sent_send_done: "listing_step holds ok (sent_view s) (sent_view (on_message_sent m sent s))"
proof (cases sent)
  case True
  then show ?thesis
    by (intro start_load [where p = "Some m"])
      (simp add: on_message_sent_def Let_def sent_view_def run_effects_def inbox_ops List.map_filter_simps)
next
  case False
  then show ?thesis by (intro listing_same) (simp add: on_message_sent_def sent_view_def)
qed

lemma mailboxes_views:
  "listing_step holds ok (inbox_view s) (inbox_view (on_mailboxes seen result s))"
  "listing_step holds' ok (sent_view s) (sent_view (on_mailboxes seen result s))"
proof -
  show "listing_step holds ok (inbox_view s) (inbox_view (on_mailboxes seen result s))"
    unfolding on_mailboxes_def by (cases result; simp only: option.case; rule listing_same effects_inbox; simp)
  show "listing_step holds' ok (sent_view s) (sent_view (on_mailboxes seen result s))"
    unfolding on_mailboxes_def by (cases result; simp only: option.case; rule listing_same effects_sent; simp)
qed

lemma inbox_view_step:
  assumes "inbox_step inbox_of sent_of s e t"
  shows "listing_step inbox_of (\<not> inbox_fails e) (inbox_view s) (inbox_view t)"
  using assms
proof cases
  case list_timer
  show ?thesis unfolding list_timer by (rule inbox_effect)
next
  case reload
  show ?thesis unfolding reload by (rule inbox_reload)
next
  case language
  show ?thesis unfolding language by (rule effects_inbox) simp_all
next
  case (folder f)
  show ?thesis unfolding folder select_folder_def by (rule effects_inbox) simp_all
next
  case (mailbox m)
  show ?thesis unfolding mailbox select_mailbox_def by (rule effects_inbox) simp_all
next
  case (unread b)
  show ?thesis unfolding unread switch_unread_def by (rule effects_inbox) simp_all
next
  case (send form)
  then show ?thesis
    by (intro inbox_quiet) (simp_all add: handle_send_def Let_def inbox_ops List.map_filter_simps split: option.split)
next
  case (mailboxes_answered c seen result)
  then have "inbox_view (end_inbox_call c s) = inbox_view s" by (simp add: inbox_frame_end)
  then show ?thesis using mailboxes_views(1) [of _ _ "end_inbox_call c s"] unfolding mailboxes_answered by simp
next
  case (inbox_answered c m b result)
  show ?thesis
  proof (cases result)
    case None
    then show ?thesis using inbox_answered by (intro listing_step.failed) (simp add: inbox_fails_def)
  next
    case (Some items)
    have "(m, b) \<in> set (List.map_filter inbox_load (pi_calls s))"
      using inbox_answered by (intro map_filter_mem [of c]) simp_all
    then show ?thesis using inbox_answered Some
      by (intro listing_step.answered [of "(m, b)"])
        (simp_all add: inbox_view_def on_inbox_messages_def end_inbox_call_def list_all_iff)
  qed
next
  case (sent_answered c m result)
  then show ?thesis
    by (intro inbox_quiet) (simp_all add: on_sent_messages_def end_inbox_call_def map_filter_remove1_None split: option.split)
next
  case (inbox_detail c i message)
  then show ?thesis
    by (intro inbox_quiet) (simp_all add: on_inbox_detail_def end_inbox_call_def map_filter_remove1_None split: option.split)
next
  case (sent_detail c i message)
  then show ?thesis
    by (intro inbox_quiet) (simp_all add: on_sent_detail_def end_inbox_call_def map_filter_remove1_None split: option.split)
next
  case (send_answered c m recipients subject body ok)
  have "inbox_view (end_inbox_call c s) = inbox_view s" using send_answered by (simp add: inbox_frame_end)
  then show ?thesis using inbox_send_done [of inbox_of _ "end_inbox_call c s"] unfolding send_answered by simp
qed (rule inbox_quiet; simp add: inbox_ops List.map_filter_simps)+

lemma sent_view_step:
  assumes "inbox_step inbox_of sent_of s e t"
  shows "listing_step (sent_holds sent_of) (\<not> sent_fails e) (sent_view s) (sent_view t)"
  using assms
proof cases
  case list_timer
  show ?thesis unfolding list_timer by (rule sent_effect)
next
  case reload
  show ?thesis unfolding reload by (rule sent_reload)
next
  case language
  show ?thesis unfolding language by (rule effects_sent) simp_all
next
  case (folder f)
  show ?thesis unfolding folder select_folder_def by (rule effects_sent) simp_all
next
  case (mailbox m)
  show ?thesis unfolding mailbox select_mailbox_def by (rule effects_sent) simp_all
next
  case (unread b)
  show ?thesis unfolding unread switch_unread_def by (rule effects_sent) simp_all
next
  case (send form)
  then show ?thesis
    by (intro sent_quiet) (simp_all add: handle_send_def Let_def inbox_ops List.map_filter_simps split: option.split)
next
  case (mailboxes_answered c seen result)
  then have "sent_view (end_inbox_call c s) = sent_view s" by (simp add: inbox_frame_end)
  then show ?thesis using mailboxes_views(2) [of _ _ "end_inbox_call c s"] unfolding mailboxes_answered by simp
next
  case (sent_answered c m result)
  show ?thesis
  proof (cases result)
    case None
    then show ?thesis using sent_answered by (intro listing_step.failed) (simp add: sent_fails_def)
  next
    case (Some items)
    have "Some m \<in> set (List.map_filter sent_load (pi_calls s))"
      using sent_answered by (intro map_filter_mem [of c]) simp_all
    then show ?thesis using sent_answered Some
      by (intro listing_step.answered [of "Some m"])
        (simp_all add: sent_view_def sent_holds_def on_sent_messages_def end_inbox_call_def list_all_iff)
  qed
next
  case (inbox_answered c m b result)
  then show ?thesis
    by (intro sent_quiet) (simp_all add: on_inbox_messages_def end_inbox_call_def map_filter_remove1_None split: option.split)
next
  case (inbox_detail c i message)
  then show ?thesis
    by (intro sent_quiet) (simp_all add: on_inbox_detail_def end_inbox_call_def map_filter_remove1_None split: option.split)
next
  case (sent_detail c i message)
  then show ?thesis
    by (intro sent_quiet) (simp_all add: on_sent_detail_def end_inbox_call_def map_filter_remove1_None split: option.split)
next
  case (send_answered c m recipients subject body ok)
  have "sent_view (end_inbox_call c s) = sent_view s" using send_answered by (simp add: inbox_frame_end)
  then show ?thesis using sent_send_done [of "sent_holds sent_of" _ "end_inbox_call c s"] unfolding send_answered by simp
qed (rule sent_quiet; simp add: inbox_ops List.map_filter_simps)+

lemma inbox_start_views:
  "inbox_start s \<Longrightarrow> ls_loads (inbox_view s) = [] \<and> (ls_due (inbox_view s) \<or> ls_rows (inbox_view s) = [])"
  "inbox_start s \<Longrightarrow> ls_loads (sent_view s) = [] \<and> (ls_due (sent_view s) \<or> ls_rows (sent_view s) = [])"
  by (auto simp: inbox_start_def inbox_view_def sent_view_def)

interpretation inbox_list: listing inbox_start "inbox_step inbox_of sent_of" inbox_view inbox_fails inbox_of
  for inbox_of sent_of
  by unfold_locales (rule fresh_empty, rule inbox_start_views, assumption, rule inbox_view_step)

interpretation sent_list: listing inbox_start "inbox_step inbox_of sent_of" sent_view sent_fails "sent_holds sent_of"
  for inbox_of sent_of
  by unfold_locales (rule fresh_empty, rule inbox_start_views, assumption, rule sent_view_step)

text \<open>C40: The inbox in calm use: in every run in which no load of the inbox has failed and, after every step, the loads of
  the inbox under way are all for the mailbox and the unread filter on the screen, with no load due or under way the inbox
  lists only messages that the server gives for that mailbox and that filter.\<close>

theorem inbox_list_of_mailbox:
  assumes "reach inbox_start (calm_step inbox_view inbox_fails (inbox_step inbox_of sent_of)) s"
    "pi_folder s = Inbox" "pi_mailbox s = Some m" "\<not> pi_list_due s" "\<forall>c \<in> set (pi_calls s). inbox_load c = None"
  shows "list_all (\<lambda>item. inbox_of (Some m, pi_unread s) (ii_id item)) (pi_messages s)"
proof -
  have "listing_settled (inbox_view s)" using assms(2-5) by (simp add: listing_settled_def inbox_view_def map_filter_Nil)
  from inbox_list.settled_rows [OF assms(1) this] show ?thesis
    using assms(3) by (simp add: inbox_view_def list_all_iff)
qed

theorem sent_list_of_mailbox:
  assumes "reach inbox_start (calm_step sent_view sent_fails (inbox_step inbox_of sent_of)) s"
    "pi_folder s = Sent_mail" "pi_mailbox s = Some m" "\<not> pi_list_due s" "\<forall>c \<in> set (pi_calls s). sent_load c = None"
  shows "list_all (\<lambda>entry. sent_of m (si_id entry)) (pi_sent s)"
proof -
  have "listing_settled (sent_view s)" using assms(2-5) by (simp add: listing_settled_def sent_view_def map_filter_Nil)
  from sent_list.settled_rows [OF assms(1) this] show ?thesis
    using assms(3) by (simp add: sent_view_def sent_holds_def list_all_iff)
qed

section \<open>Sending\<close>

fun is_send :: "inbox_call \<Rightarrow> bool" where
  "is_send (Send_message_call m recipients subject body) = True"
| "is_send _ = False"

fun proper_send :: "inbox_call \<Rightarrow> bool" where
  "proper_send (Send_message_call m recipients subject body) \<longleftrightarrow>
     recipients \<noteq> [] \<and> list_all (\<lambda>r. r \<noteq> [] \<and> trim r = r \<and> \<not> list_ex is_portal_separator r) recipients
     \<and> subject \<noteq> [] \<and> body \<noteq> []"
| "proper_send _ = True"

definition sends_well :: "portal_inbox \<Rightarrow> bool" where
  "sends_well s \<longleftrightarrow> length (filter is_send (pi_calls s)) = (if pi_sending s then 1 else 0) \<and> list_all proper_send (pi_calls s)"

lemma split_runs_parts: "x \<in> set (split_runs P s) \<Longrightarrow> c \<in> set x \<Longrightarrow> \<not> P c"
proof (induction P s rule: split_runs.induct)
  case (1 P s)
  show ?case
  proof (cases "dropWhile (\<lambda>c. \<not> P c) s")
    case Nil
    then have "split_runs P s = [takeWhile (\<lambda>c. \<not> P c) s]" by (rule split_runs_last)
    then show ?thesis using 1(2,3) by (auto dest: set_takeWhileD)
  next
    case (Cons d rest)
    then have "split_runs P s = takeWhile (\<lambda>c. \<not> P c) s # split_runs P (dropWhile P rest)"
      by (rule split_runs_first)
    then show ?thesis using 1 Cons by (auto dest: set_takeWhileD)
  qed
qed

lemma portal_recipients_proper:
  "list_all (\<lambda>r. r \<noteq> [] \<and> trim r = r \<and> \<not> list_ex is_portal_separator r) (portal_recipients v)"
  by (auto simp: portal_recipients_def list_all_iff list_ex_iff dest!: set_trim dest: split_runs_parts)

lemma sends_frame:
  assumes "sends_well s" "filter is_send (pi_calls t) = filter is_send (pi_calls s)" "pi_sending t = pi_sending s"
  shows "sends_well t"
proof -
  have "proper_send c" if "c \<in> set (pi_calls t)" for c
  proof (cases "is_send c")
    case True
    then have "c \<in> set (filter is_send (pi_calls t))" using that by simp
    then show ?thesis using assms(1,2) by (auto simp: sends_well_def list_all_iff)
  qed (cases c; simp)
  then show ?thesis using assms by (simp add: sends_well_def list_all_iff)
qed

lemma sends_end: "sends_well s \<Longrightarrow> \<not> is_send c \<Longrightarrow> sends_well (end_inbox_call c s)"
  by (rule sends_frame) (simp_all add: end_inbox_call_def filter_remove1_other)

lemma sends_submitted:
  assumes "sends_well s" "\<not> pi_sending s" "sf_subject values \<noteq> []" "sf_text values \<noteq> []"
  shows "sends_well (handle_send values s)"
  using assms portal_recipients_proper [of "sf_to values"]
  by (auto simp: handle_send_def Let_def sends_well_def inbox_ops split: option.split)

lemma sends_answered:
  assumes "sends_well s" "c = Send_message_call m recipients subject body" "c \<in> set (pi_calls s)"
  shows "sends_well (on_message_sent m ok (end_inbox_call c s))"
proof -
  have mem: "c \<in> set (filter is_send (pi_calls s))" using assms(2,3) by simp
  then have "filter is_send (pi_calls s) \<noteq> []" by (metis list.distinct(1) list.set_cases)
  then have one: "length (filter is_send (pi_calls s)) = 1" "list_all proper_send (pi_calls s)"
    using assms(1) by (auto simp: sends_well_def split: if_splits)
  moreover have "filter is_send (remove1 c (pi_calls s)) = remove1 c (filter is_send (pi_calls s))" by (rule filter_remove1)
  ultimately have "filter is_send (remove1 c (pi_calls s)) = []" using mem by (simp only: remove1_only)
  then have "sends_well (end_inbox_call c s\<lparr>pi_sending := False\<rparr>)"
    using one(2) by (auto simp: sends_well_def end_inbox_call_def list_all_iff dest: notin_set_remove1 set_remove1_subset [THEN subsetD])
  then show ?thesis
    by (rule sends_frame) (simp_all add: on_message_sent_def Let_def run_effects_def inbox_ops)
qed

lemma sends_step: "sends_well s \<Longrightarrow> inbox_step inbox_of sent_of s e t \<Longrightarrow> sends_well t"
proof (erule inbox_step.cases; hypsubst)
  fix s and form :: send_form
  assume "sends_well s" "\<not> pi_sending s" "sf_subject form \<noteq> []" "sf_text form \<noteq> []"
  then show "sends_well (handle_send form s)" by (rule sends_submitted)
next
  fix s m recipients subject body ok
  assume "sends_well s" "Send_message_call m recipients subject body \<in> set (pi_calls s)"
  then show "sends_well (on_message_sent m ok (end_inbox_call (Send_message_call m recipients subject body) s))"
    by (intro sends_answered) simp_all
qed (erule sends_frame;
     simp add: filter_remove1_other inbox_ops run_effects_def select_folder_def select_mailbox_def switch_unread_def
       on_mailboxes_def on_inbox_messages_def on_sent_messages_def on_inbox_detail_def on_sent_detail_def Let_def
       split: option.split)+

lemma sends_start: "inbox_start s \<Longrightarrow> sends_well s"
  by (simp add: inbox_start_def sends_well_def)

interpretation inbox_sends: machine_invariant inbox_start "inbox_step inbox_of sent_of" sends_well for inbox_of sent_of
  by unfold_locales (fact sends_start, rule sends_step)

text \<open>One message is on its way at a time, exactly while the button says so, and it goes to at least one recipient,
  each a non-empty trimmed text without separators.\<close>

theorem one_proper_send:
  assumes "reach inbox_start (inbox_step inbox_of sent_of) s"
  shows "length (filter is_send (pi_calls s)) = (if pi_sending s then 1 else 0) \<and> list_all proper_send (pi_calls s)"
  using inbox_sends.inv_reach [OF assms] by (simp add: sends_well_def)

text \<open>The portal splits recipients as the administrator's form does, except at the two full-width separators.\<close>

lemma split_runs_cong: "(\<And>c. c \<in> set s \<Longrightarrow> P c = Q c) \<Longrightarrow> split_runs P s = split_runs Q s"
proof (induction P s rule: split_runs.induct)
  case (1 P s)
  have w: "dropWhile (\<lambda>c. \<not> P c) s = dropWhile (\<lambda>c. \<not> Q c) s" "takeWhile (\<lambda>c. \<not> P c) s = takeWhile (\<lambda>c. \<not> Q c) s"
    using 1(2) by (auto intro: dropWhile_cong takeWhile_cong)
  show ?case
  proof (cases "dropWhile (\<lambda>c. \<not> P c) s")
    case Nil
    then have "split_runs Q s = [takeWhile (\<lambda>c. \<not> Q c) s]" using w(1) by (intro split_runs_last) simp
    then show ?thesis using split_runs_last [OF Nil] w(2) by simp
  next
    case (Cons d rest)
    have sub: "set rest \<subseteq> set s" using Cons set_dropWhileD [of _ "\<lambda>c. \<not> P c" s] by auto
    then have "dropWhile P rest = dropWhile Q rest" using 1(2) by (intro dropWhile_cong) auto
    moreover have "split_runs P (dropWhile P rest) = split_runs Q (dropWhile P rest)"
      using Cons sub 1(2) by (intro 1(1)) (auto dest: set_dropWhileD)
    moreover have "split_runs Q s = takeWhile (\<lambda>c. \<not> Q c) s # split_runs Q (dropWhile Q rest)"
      using Cons w(1) by (intro split_runs_first) simp
    ultimately show ?thesis using split_runs_first [OF Cons] w(2) by simp
  qed
qed

lemma portal_recipients_agree:
  "65292 \<notin> set v \<Longrightarrow> 65307 \<notin> set v \<Longrightarrow> portal_recipients v = parse_recipient_input v"
  unfolding portal_recipients_def parse_recipient_input_def
  by (subst split_runs_cong [of v is_portal_separator is_recipient_separator])
    (auto simp: is_portal_separator_def is_recipient_separator_def)

section \<open>A portal without mailboxes\<close>

text \<open>As long as no mailbox has been reported and the list is not reloaded by hand, the page keeps loading: it asks for no
  list at all.\<close>

definition idle_event :: "inbox_event \<Rightarrow> bool" where
  "idle_event e \<longleftrightarrow> e \<noteq> Reload_clicked \<and> (\<forall>c m ms. e \<noteq> Mailboxes_answered c (Some (m # ms)))"

fun list_call :: "inbox_call \<Rightarrow> bool" where
  "list_call (Mailboxes_call m) = False"
| "list_call _ = True"

definition spins :: "portal_inbox \<Rightarrow> bool" where
  "spins s \<longleftrightarrow> pi_loading s \<and> pi_mailbox s = None \<and> pi_mailboxes s = [] \<and> \<not> pi_list_due s \<and> list_all (\<lambda>c. \<not> list_call c) (pi_calls s)"

lemma spins_step: "inbox_step inbox_of sent_of s e t \<Longrightarrow> idle_event e \<Longrightarrow> spins s \<Longrightarrow> spins t"
proof (induction rule: inbox_step.induct)
  case (mailboxes_answered c seen s result)
  then have "result = None \<or> result = Some []" by (metis idle_event_def list.exhaust option.exhaust)
  then show ?case using mailboxes_answered(4)
    by (auto simp: spins_def on_mailboxes_def run_effects_def end_inbox_call_def list_all_iff dest: set_remove1_subset [THEN subsetD])
next
  case (mailbox s m)
  then show ?case by (auto simp: spins_def mailbox_options_def)
qed (auto simp: spins_def idle_event_def inbox_ops run_effects_def select_folder_def switch_unread_def list_all_iff)

theorem no_mailbox_spins:
  assumes "inbox_start s" "run (inbox_step inbox_of sent_of) s es t" "list_all idle_event es"
  shows "pi_loading t \<and> list_all (\<lambda>c. \<not> list_call c) (pi_calls t)"
proof -
  have "run (inbox_step inbox_of sent_of) s es t \<Longrightarrow> list_all idle_event es \<Longrightarrow> spins s \<Longrightarrow> spins t"
  proof (induction rule: run.induct)
    case (run_Cons s e t es u)
    then show ?case by (auto intro: spins_step)
  qed
  moreover have "spins s" using assms(1) by (simp add: inbox_start_def spins_def)
  ultimately show ?thesis using assms(2,3) by (simp add: spins_def)
qed

section \<open>The drawer\<close>

text \<open>A message that cannot be loaded leaves the message opened before it in the drawer, under no sign of a failure but
  a passing notice; and the answer of the message opened first replaces the one opened last.\<close>

theorem failed_detail_shows_previous:
  assumes "page_front s" "\<not> pi_loading s" "pi_folder s = Inbox"
    "item \<in> set (filtered_inbox_messages (pi_keyword s) (pi_messages s))"
  shows "\<exists>t. run (inbox_step inbox_of sent_of) s
      [Message_opened (ii_id item), Detail_arrived (Inbox_detail_call (ii_id item)) None] t
    \<and> pi_detail_visible t \<and> \<not> pi_detail_loading t \<and> pi_shown t = pi_shown s"
proof -
  let ?c = "Inbox_detail_call (ii_id item)"
  let ?t = "open_inbox_message (ii_id item) s"
  let ?u = "on_inbox_detail (ii_id item) None (end_inbox_call ?c ?t)"
  have "inbox_step inbox_of sent_of s (Message_opened (ii_id item)) ?t" using assms by (rule open_inbox)
  moreover have "inbox_step inbox_of sent_of ?t (Detail_arrived ?c None) ?u"
    by (rule inbox_detail) (simp_all add: inbox_ops)
  ultimately have "run (inbox_step inbox_of sent_of) s [Message_opened (ii_id item), Detail_arrived ?c None] ?u" by auto
  then show ?thesis by (intro exI [of _ ?u]) (simp add: on_inbox_detail_def inbox_ops)
qed

lemma mark_read_stats:
  "fst (inbox_stats (mark_read i items)) = fst (inbox_stats items)"
  "fst (snd (inbox_stats (mark_read i items))) = length (filter (\<lambda>item. \<not> ii_read item \<and> ii_id item \<noteq> i) items)"
  "snd (snd (inbox_stats (mark_read i items))) = snd (snd (inbox_stats items))"
  by (induction items) (auto simp: inbox_stats_def mark_read_def)

section \<open>Late answers\<close>

text \<open>A portal with two mailboxes, the first of them selected by the page, its list being loaded.\<close>

definition portal0 :: portal_inbox where
  "portal0 =
     \<lparr>pi_folder = Inbox, pi_loading = True, pi_detail_loading = False, pi_mailboxes = [], pi_messages = [], pi_sent = [],
      pi_mailbox = None, pi_shown = Null, pi_detail_visible = False, pi_compose = False, pi_sending = False,
      pi_unread = False, pi_keyword = [], pi_mailboxes_due = True, pi_list_due = False, pi_toasts = [], pi_calls = []\<rparr>"

lemma portal0_start: "inbox_start portal0"
  by (simp add: inbox_start_def portal0_def)

definition portal_at :: "portal_mailbox list \<Rightarrow> nat \<Rightarrow> bool \<Rightarrow> inbox_call list \<Rightarrow> portal_inbox" where
  "portal_at boxes m due calls =
     portal0\<lparr>pi_mailboxes := boxes, pi_mailbox := Some m, pi_list_due := due, pi_calls := calls\<rparr>"

lemmas portal_states = portal_at_def portal0_def inbox_ops run_effects_def on_mailboxes_def

abbreviation calm_inbox where
  "calm_inbox inbox_of sent_of \<equiv> calm_step inbox_view inbox_fails (inbox_step inbox_of sent_of)"

lemma portal_listed_calm: "reach inbox_start (calm_inbox inbox_of sent_of) (portal_at (a # boxes) (pm_id a) True [])"
proof (rule reach_steps3 [of inbox_start portal0])
  show "inbox_start portal0" by (rule portal0_start)
  let ?c = "Mailboxes_call None"
  let ?s = "load_mailboxes (portal0\<lparr>pi_mailboxes_due := False\<rparr>)"
  have calm: "listing_calm (inbox_view s)" if "\<forall>c \<in> set (pi_calls s). inbox_load c = None" for s
    using that by (simp add: listing_calm_def inbox_view_def map_filter_Nil)
  have "inbox_step inbox_of sent_of portal0 Mailboxes_timer ?s" by (rule mailboxes_timer) (simp add: portal0_def)
  then show "calm_inbox inbox_of sent_of portal0 Mailboxes_timer ?s"
    by (rule calm_stepI) (simp add: inbox_fails_def, rule calm, simp add: portal_states)
  let ?t = "on_mailboxes None (Some (a # boxes)) (end_inbox_call ?c ?s)"
  have "inbox_step inbox_of sent_of ?s (Mailboxes_answered ?c (Some (a # boxes))) ?t"
    by (rule mailboxes_answered) (simp_all add: portal_states)
  then show "calm_inbox inbox_of sent_of ?s (Mailboxes_answered ?c (Some (a # boxes))) ?t"
    by (rule calm_stepI) (simp add: inbox_fails_def, rule calm, simp add: portal_states)
  have "inbox_step inbox_of sent_of ?t (Keyword_entered []) (portal_at (a # boxes) (pm_id a) True [])"
    using keyword [of ?t inbox_of sent_of "[]"] by (simp add: portal_states page_front_def)
  then show "calm_inbox inbox_of sent_of ?t (Keyword_entered []) (portal_at (a # boxes) (pm_id a) True [])"
    by (rule calm_stepI) (simp add: inbox_fails_def, rule calm, simp add: portal_states)
qed

lemma portal_listed: "reach inbox_start (inbox_step inbox_of sent_of) (portal_at (a # boxes) (pm_id a) True [])"
  using portal_listed_calm by (rule calm_reach)

lemma portal_inbox_load:
  "inbox_step inbox_of sent_of (portal_at boxes m True calls) List_timer (portal_at boxes m False (Inbox_call (Some m) False # calls))"
  using list_timer [of "portal_at boxes m True calls" inbox_of sent_of] by (simp add: portal_states Let_def)

lemma portal_switch:
  "m' \<in> pm_id ` set boxes \<Longrightarrow>
     inbox_step inbox_of sent_of (portal_at boxes m due calls) (Mailbox_chosen m')
       (if m' = m then portal_at boxes m due calls else portal_at boxes m' True calls)"
  using mailbox [of "portal_at boxes m due calls" m' inbox_of sent_of]
  by (auto simp: portal_states select_mailbox_def mailbox_options_def page_front_def)

text \<open>The answer for a mailbox that is no longer selected replaces the list of the selected one, and stays.\<close>

theorem late_inbox_answer:
  fixes a b :: portal_mailbox
  assumes "pm_id a \<noteq> pm_id b" "list_all (\<lambda>item. inbox_of (Some (pm_id a), False) (ii_id item)) items"
  shows "\<exists>s. reach inbox_start (inbox_step inbox_of sent_of) s \<and> pi_folder s = Inbox \<and> pi_mailbox s = Some (pm_id b)
    \<and> \<not> pi_list_due s \<and> \<not> pi_loading s \<and> pi_calls s = [] \<and> pi_messages s = items"
proof -
  let ?a = "Inbox_call (Some (pm_id a)) False" and ?b = "Inbox_call (Some (pm_id b)) False"
  let ?at = "portal_at [a, b]"
  let ?u = "on_inbox_messages (Some []) (end_inbox_call ?b (?at (pm_id b) False [?b, ?a]))"
  let ?v = "on_inbox_messages (Some items) (end_inbox_call ?a ?u)"
  have "inbox_step inbox_of sent_of (?at (pm_id a) False [?a]) (Mailbox_chosen (pm_id b)) (?at (pm_id b) True [?a])"
    using portal_switch [of "pm_id b" "[a, b]" inbox_of sent_of "pm_id a" False "[?a]"] assms(1) by simp
  moreover have "inbox_step inbox_of sent_of (?at (pm_id b) False [?b, ?a]) (Inbox_answered ?b (Some [])) ?u"
    by (rule inbox_answered [OF refl]) (simp_all add: portal_at_def)
  moreover have "inbox_step inbox_of sent_of ?u (Inbox_answered ?a (Some items)) ?v"
    using assms by (intro inbox_answered [OF refl]) (simp_all add: portal_states on_inbox_messages_def)
  ultimately have "reach inbox_start (inbox_step inbox_of sent_of) ?v"
    using portal_listed portal_inbox_load reach_step by metis
  then show ?thesis using assms(1) by (intro exI [of _ ?v]) (simp add: on_inbox_messages_def portal_states)
qed

definition sending_at :: "portal_mailbox \<Rightarrow> portal_mailbox \<Rightarrow> send_form \<Rightarrow> portal_inbox" where
  "sending_at a b form =
     (portal_at [a, b] (pm_id a) True
        [Send_message_call (pm_id a) (portal_recipients (sf_to form)) (sf_subject form) (sf_text form)])
       \<lparr>pi_compose := True, pi_sending := True\<rparr>"

lemma portal_sending:
  assumes "pm_send_ready a" "portal_recipients (sf_to form) \<noteq> []" "sf_subject form \<noteq> []" "sf_text form \<noteq> []"
  shows "reach inbox_start (inbox_step inbox_of sent_of) (sending_at a b form)"
proof -
  let ?st = "inbox_step inbox_of sent_of"
  define r where "r = portal_at [a, b] (pm_id a) True []"
  have r: "selected_mailbox r = Some a" "pi_mailbox r = Some (pm_id a)" by (simp_all add: r_def selected_mailbox_def portal_states)
  define s where "s = r\<lparr>pi_compose := True\<rparr>"
  have s: "selected_mailbox s = Some a" "pi_mailbox s = Some (pm_id a)" using r by (simp_all add: s_def selected_mailbox_def)
  have rs: "?st r Compose_clicked s"
    using compose [of r inbox_of sent_of] r assms(1) by (simp add: s_def can_send_def) (simp add: r_def page_front_def portal_states)
  have "sf_to form \<noteq> []" using assms(2) by (auto simp: portal_recipients_def split_runs_last)
  moreover have "handle_send form s = sending_at a b form"
    using assms(1,2) s by (simp add: handle_send_def can_send_def push_inbox_def sending_at_def) (simp add: s_def r_def portal_states)
  ultimately have "?st s (Send_submitted form) (sending_at a b form)"
    using send [of s form inbox_of sent_of] s assms(1,3,4) by (simp add: can_send_def) (simp add: s_def r_def portal_states)
  moreover have "reach inbox_start ?st r" unfolding r_def by (rule portal_listed)
  ultimately show ?thesis using rs reach_step by metis
qed

text \<open>A message sent from one mailbox shows that mailbox's sent messages under the mailbox selected meanwhile.\<close>

theorem send_shows_old_mailbox:
  fixes a b :: portal_mailbox and form :: send_form
  assumes "pm_id a \<noteq> pm_id b" "pm_send_ready a" "list_all (\<lambda>entry. sent_of (pm_id a) (si_id entry)) entries"
    "portal_recipients (sf_to form) \<noteq> []" "sf_subject form \<noteq> []" "sf_text form \<noteq> []"
  shows "\<exists>s. reach inbox_start (inbox_step inbox_of sent_of) s \<and> pi_folder s = Sent_mail \<and> pi_mailbox s = Some (pm_id b)
    \<and> \<not> pi_list_due s \<and> \<not> pi_loading s \<and> pi_calls s = [] \<and> pi_sent s = entries"
proof -
  let ?st = "inbox_step inbox_of sent_of"
  let ?m = "Send_message_call (pm_id a) (portal_recipients (sf_to form)) (sf_subject form) (sf_text form)"
  let ?a = "Sent_list_call (pm_id a)" and ?b = "Sent_list_call (pm_id b)"
  define t where "t = sending_at a b form"
  define u where "u = t\<lparr>pi_compose := False, pi_mailbox := Some (pm_id b)\<rparr>"
  have tu: "?st t Compose_closed (t\<lparr>pi_compose := False\<rparr>)" 
    "?st (t\<lparr>pi_compose := False\<rparr>) (Mailbox_chosen (pm_id b)) u"
    using compose_closed [of t inbox_of sent_of] mailbox [of "t\<lparr>pi_compose := False\<rparr>" "pm_id b" inbox_of sent_of] assms(1)
    by (simp_all add: u_def select_mailbox_def run_effects_def) (simp_all add: t_def sending_at_def page_front_def mailbox_options_def portal_states)
  define v where "v = on_message_sent (pm_id a) True (end_inbox_call ?m u)"
  have v: "?st u (Send_answered ?m True) v" unfolding v_def by (rule send_answered [OF refl]) (simp_all add: u_def t_def sending_at_def portal_at_def)
  define w where "w = run_list_effect v"
  have w: "?st v List_timer w" unfolding w_def
    by (rule list_timer) (simp add: v_def on_message_sent_def portal_states sending_at_def u_def t_def)
  define x where "x = on_sent_messages (Some []) (end_inbox_call ?b w)"
  have x: "?st w (Sent_answered ?b (Some [])) x" unfolding x_def
    by (rule sent_answered [OF refl]) (simp_all add: w_def v_def on_message_sent_def portal_states sending_at_def u_def t_def)
  define y where "y = on_sent_messages (Some entries) (end_inbox_call ?a x)"
  have y: "?st x (Sent_answered ?a (Some entries)) y" unfolding y_def
    by (rule sent_answered [OF refl])
      (use assms(1,3) in \<open>simp_all add: x_def w_def v_def on_sent_messages_def on_message_sent_def portal_states sending_at_def u_def t_def\<close>)
  have "reach inbox_start ?st t" unfolding t_def using assms(2,4-6) by (rule portal_sending)
  then have "reach inbox_start ?st y"
    using reach_run [of inbox_start ?st t "[Compose_closed, Mailbox_chosen (pm_id b), Send_answered ?m True, List_timer,
      Sent_answered ?b (Some []), Sent_answered ?a (Some entries)]" y] tu v w x y
    by (meson run_Cons run_Nil)
  then show ?thesis
    using assms(1) by (intro exI [of _ y])
      (simp add: y_def x_def w_def v_def on_sent_messages_def on_message_sent_def portal_states sending_at_def u_def t_def)
qed

section \<open>Witnesses\<close>

definition demo_mailbox :: "nat \<Rightarrow> portal_mailbox" where
  "demo_mailbox i =
     \<lparr>pm_id = i, pm_address = js ''a@b.test'', pm_provisioning = None, pm_forward_mode = None, pm_forward_to = None, pm_profile = None,
      pm_send_ready = True, pm_domain_can_send = True\<rparr>"

definition demo_message :: "jstr \<Rightarrow> inbox_item" where
  "demo_message i =
     \<lparr>ii_id = i, ii_from = js ''c@d.test'', ii_subject = None, ii_text = None, ii_code = None, ii_mailbox = None, ii_read = False\<rparr>"

definition demo_form :: send_form where
  "demo_form = \<lparr>sf_to = js ''c@d.test'', sf_subject = js ''s'', sf_text = js ''t''\<rparr>"

lemma inbox_list_of_mailbox_witness:
  "list_all (\<lambda>item. Some (7 :: nat) = Some 7 \<and> ii_id item = js ''m'') [demo_message (js ''m'')]"
proof -
  let ?in = "\<lambda>p i. fst p = Some 7 \<and> i = js ''m''" and ?out = "\<lambda>(m :: nat) (i :: jstr). False"
  let ?c = "Inbox_call (Some 7) False"
  let ?s = "portal_at [demo_mailbox 7] 7 False [?c]"
  let ?t = "on_inbox_messages (Some [demo_message (js ''m'')]) (end_inbox_call ?c ?s)"
  have "reach inbox_start (calm_inbox ?in ?out) (portal_at [demo_mailbox 7] 7 True [])"
    using portal_listed_calm [of ?in ?out "demo_mailbox 7" "[]"] by (simp add: demo_mailbox_def)
  moreover have "calm_inbox ?in ?out (portal_at [demo_mailbox 7] 7 True []) List_timer ?s"
    using portal_inbox_load [of ?in ?out "[demo_mailbox 7]" 7 "[]"]
    by (rule calm_stepI) (simp_all add: inbox_fails_def listing_calm_def inbox_view_def portal_at_def portal0_def List.map_filter_simps)
  moreover have "inbox_step ?in ?out ?s (Inbox_answered ?c (Some [demo_message (js ''m'')])) ?t"
    by (rule inbox_answered [OF refl]) (simp_all add: portal_at_def demo_message_def)
  then have "calm_inbox ?in ?out ?s (Inbox_answered ?c (Some [demo_message (js ''m'')])) ?t"
    by (rule calm_stepI)
      (simp_all add: inbox_fails_def listing_calm_def inbox_view_def on_inbox_messages_def portal_states List.map_filter_simps)
  ultimately have "reach inbox_start (calm_inbox ?in ?out) ?t" by (blast intro: reach_step)
  from inbox_list_of_mailbox [OF this, of 7] show ?thesis
    by (simp add: on_inbox_messages_def portal_states)
qed

lemma demo_recipients: "portal_recipients (sf_to demo_form) = [js ''c@d.test'']"
proof -
  have "split_runs is_portal_separator (js ''c@d.test'') = [js ''c@d.test'']"
    using split_runs_last [of is_portal_separator "js ''c@d.test''"] by (simp add: js_def is_portal_separator_def)
  moreover have "trim (js ''c@d.test'') = js ''c@d.test''" by (simp add: js_eval)
  moreover have "js ''c@d.test'' \<noteq> []" by (simp add: js_def)
  ultimately show ?thesis by (simp only: demo_form_def portal_recipients_def send_form.simps list.map filter.simps if_True simp_thms)
qed

lemma one_proper_send_witness:
  "length (filter is_send (pi_calls (sending_at (demo_mailbox 7) (demo_mailbox 8) demo_form))) = 1"
proof -
  let ?s = "sending_at (demo_mailbox 7) (demo_mailbox 8) demo_form"
  have "pm_send_ready (demo_mailbox 7)" "portal_recipients (sf_to demo_form) \<noteq> []" "sf_subject demo_form \<noteq> []"
    "sf_text demo_form \<noteq> []"
    by (simp_all add: demo_mailbox_def demo_recipients) (simp_all add: demo_form_def js_def)
  then have "reach inbox_start (inbox_step (\<lambda>p i. True) (\<lambda>m i. True)) ?s" by (rule portal_sending)
  from one_proper_send [OF this] show ?thesis by (simp add: sending_at_def)
qed

lemma no_mailbox_spins_witness:
  "\<exists>t. run (inbox_step (\<lambda>p i. True) (\<lambda>m i. True)) portal0
     [Mailboxes_timer, Mailboxes_answered (Mailboxes_call None) (Some [])] t \<and> pi_mailboxes t = [] \<and> pi_loading t"
proof -
  let ?st = "inbox_step (\<lambda>p i. True) (\<lambda>m i. True)" and ?c = "Mailboxes_call None"
  let ?s = "load_mailboxes (portal0\<lparr>pi_mailboxes_due := False\<rparr>)"
  let ?t = "on_mailboxes None (Some []) (end_inbox_call ?c ?s)"
  have "?st portal0 Mailboxes_timer ?s" by (rule mailboxes_timer) (simp add: portal0_def)
  moreover have "?st ?s (Mailboxes_answered ?c (Some [])) ?t" by (rule mailboxes_answered [OF refl]) (simp add: portal_states)
  ultimately have "run ?st portal0 [Mailboxes_timer, Mailboxes_answered ?c (Some [])] ?t" by auto
  moreover from no_mailbox_spins [OF portal0_start this] have "pi_loading ?t" by (simp add: idle_event_def)
  ultimately show ?thesis by (intro exI [of _ ?t]) (simp add: portal_states)
qed

lemma send_shows_old_mailbox_witness:
  "\<exists>s. reach inbox_start (inbox_step (\<lambda>p i. True) (\<lambda>m i. m = 7)) s \<and> pi_mailbox s = Some 8 \<and> map si_id (pi_sent s) = [js ''m'']"
proof -
  let ?e = "\<lparr>si_id = js ''m'', si_from = [], si_to = [], si_subject = None, si_status = [], si_mailbox = None\<rparr>"
  have "sf_subject demo_form \<noteq> []" "sf_text demo_form \<noteq> []" by (simp_all add: demo_form_def js_def)
  moreover have "pm_id (demo_mailbox 7) = 7" "pm_id (demo_mailbox 8) = 8" "pm_send_ready (demo_mailbox 7)"
    by (simp_all add: demo_mailbox_def)
  ultimately show ?thesis
    using send_shows_old_mailbox [of "demo_mailbox 7" "demo_mailbox 8" "\<lambda>m i. m = 7" "[?e]" demo_form "\<lambda>p i. True"]
    by (auto simp: demo_recipients)
qed

end
