(* ===== verification/AdminSettings.thy ===== *)
theory AdminSettings
  imports AuthStores LoginFlow Machine
begin

text \<open>
  The administrator's settings page (web/src/pages/settings/index.tsx): changing the password, setting up, enabling and
  disabling the second factor, and the status that is loaded around them. One visit of the page is a machine
  together with the session store, which outlives it: when the page is left, its state is gone but its requests
  are still answered. Texts, layout and the password form's own fields are left out.
\<close>

section \<open>State\<close>

record two_factor_status =
  tf_enabled :: bool
  tf_pending :: bool

record setup_data =
  sd_secret :: jstr
  sd_url :: jstr

text \<open>A request with what its handler still needs: the administrator and the flag that its closure holds.\<close>

datatype settings_call =
    Change_password_call "admin object_ref option"
  | Effect_status_call nat
  | Reload_status_call
  | Setup_call
  | Enable_call jstr bool
  | Disable_call jstr jstr bool

record admin_settings =
  st_store :: auth_state
  st_next_ref :: nat
  st_mounted :: bool
  st_password_loading :: bool
  st_factor_loading :: bool
  st_status_loading :: bool
  st_status :: two_factor_status
  st_setup :: "setup_data option"
  st_enable_otp :: jstr
  st_effect :: nat
  st_calls :: "settings_call list"

definition admin_must_change_now :: "auth_state \<Rightarrow> bool" where
  "admin_must_change_now store =
     (case as_admin store of None \<Rightarrow> False | Some a \<Rightarrow> adm_must_change_password (ref_value a) = Some True)"

definition must_change_now :: "admin_settings \<Rightarrow> bool" where
  "must_change_now s = admin_must_change_now (st_store s)"

definition effective_status :: "admin_settings \<Rightarrow> two_factor_status" where
  "effective_status s = (if must_change_now s then \<lparr>tf_enabled = False, tf_pending = False\<rparr> else st_status s)"

definition push_setting :: "settings_call \<Rightarrow> admin_settings \<Rightarrow> admin_settings" where
  "push_setting c s = s\<lparr>st_calls := c # st_calls s\<rparr>"

definition end_setting :: "settings_call \<Rightarrow> admin_settings \<Rightarrow> admin_settings" where
  "end_setting c s = s\<lparr>st_calls := remove1 c (st_calls s)\<rparr>"

text \<open>Setting the state of a page that has been left does nothing; the store is always set.\<close>

definition on_page :: "(admin_settings \<Rightarrow> admin_settings) \<Rightarrow> admin_settings \<Rightarrow> admin_settings" where
  "on_page f s = (if st_mounted s then f s else s)"

definition store_admin :: "admin \<Rightarrow> admin_settings \<Rightarrow> admin_settings" where
  "store_admin a s =
     s\<lparr>st_store := set_auth \<lparr>ref_id = st_next_ref s, ref_value = a\<rparr> (st_store s), st_next_ref := Suc (st_next_ref s)\<rparr>"

section \<open>Status\<close>

definition sync_store_two_factor :: "bool \<Rightarrow> admin_settings \<Rightarrow> admin_settings" where
  "sync_store_two_factor enabled s =
     (case as_admin (st_store s) of
        None \<Rightarrow> s
      | Some a \<Rightarrow> if adm_two_factor_enabled (ref_value a) = Some enabled then s
                 else store_admin (ref_value a\<lparr>adm_two_factor_enabled := Some enabled\<rparr>) s)"

definition apply_status :: "two_factor_status \<Rightarrow> admin_settings \<Rightarrow> admin_settings" where
  "apply_status result s =
     sync_store_two_factor (tf_enabled result)
       (on_page (\<lambda>s. s\<lparr>st_status := result, st_setup := (if tf_pending result then st_setup s else None)\<rparr>) s)"

text \<open>The effect of a change of \<open>mustChangePassword\<close> or of the language: an older run of it is cancelled.\<close>

definition run_status_effect :: "admin_settings \<Rightarrow> admin_settings" where
  "run_status_effect s =
     (let t = s\<lparr>st_effect := Suc (st_effect s)\<rparr>
      in if must_change_now s then t\<lparr>st_status_loading := False\<rparr> else push_setting (Effect_status_call (st_effect t)) t)"

definition with_effect :: "(admin_settings \<Rightarrow> admin_settings) \<Rightarrow> admin_settings \<Rightarrow> admin_settings" where
  "with_effect f s =
     (let t = f s in if st_mounted t \<and> must_change_now t \<noteq> must_change_now s then run_status_effect t else t)"

definition on_effect_status :: "nat \<Rightarrow> two_factor_status option \<Rightarrow> admin_settings \<Rightarrow> admin_settings" where
  "on_effect_status n result s =
     (if \<not> st_mounted s \<or> n \<noteq> st_effect s then s
      else (case result of None \<Rightarrow> s | Some r \<Rightarrow> apply_status r s)\<lparr>st_status_loading := False\<rparr>)"

text \<open>\<open>loadTwoFactorStatus\<close> as the handlers call it; \<open>must\<close> is the flag of their closure, and the button is released
  after its answer.\<close>

definition release_factor :: "admin_settings \<Rightarrow> admin_settings" where
  "release_factor s = on_page (\<lambda>s. s\<lparr>st_factor_loading := False\<rparr>) s"

definition reload_status :: "bool \<Rightarrow> admin_settings \<Rightarrow> admin_settings" where
  "reload_status must s =
     (if must then release_factor (on_page (\<lambda>s. s\<lparr>st_status_loading := False\<rparr>) s) else push_setting Reload_status_call s)"

definition on_reload_status :: "two_factor_status option \<Rightarrow> admin_settings \<Rightarrow> admin_settings" where
  "on_reload_status result s =
     release_factor (on_page (\<lambda>s. s\<lparr>st_status_loading := False\<rparr>)
       (case result of None \<Rightarrow> s | Some r \<Rightarrow> apply_status r s))"

section \<open>Handlers\<close>

definition handle_change_password :: "jstr \<Rightarrow> jstr \<Rightarrow> admin_settings \<Rightarrow> admin_settings" where
  "handle_change_password new_password confirm_password s =
     (if new_password \<noteq> confirm_password then s
      else push_setting (Change_password_call (as_admin (st_store s))) (s\<lparr>st_password_loading := True\<rparr>))"

definition on_password_changed :: "admin object_ref option \<Rightarrow> bool \<Rightarrow> admin_settings \<Rightarrow> admin_settings" where
  "on_password_changed captured ok s =
     on_page (\<lambda>s. s\<lparr>st_password_loading := False\<rparr>)
       (if ok then (case captured of None \<Rightarrow> s
          | Some a \<Rightarrow> store_admin (ref_value a\<lparr>adm_must_change_password := Some False\<rparr>) s) else s)"

definition handle_setup_2fa :: "admin_settings \<Rightarrow> admin_settings" where
  "handle_setup_2fa s = push_setting Setup_call (s\<lparr>st_factor_loading := True\<rparr>)"

definition on_setup :: "setup_data option \<Rightarrow> admin_settings \<Rightarrow> admin_settings" where
  "on_setup result s =
     on_page (\<lambda>s. (case result of None \<Rightarrow> s
         | Some d \<Rightarrow> s\<lparr>st_setup := Some d, st_status := \<lparr>tf_enabled = False, tf_pending = True\<rparr>\<rparr>)\<lparr>st_factor_loading := False\<rparr>) s"

definition handle_enable_2fa :: "admin_settings \<Rightarrow> admin_settings" where
  "handle_enable_2fa s =
     (let otp = trim (st_enable_otp s)
      in if \<not> six_digits otp then s
         else push_setting (Enable_call otp (must_change_now s)) (s\<lparr>st_factor_loading := True\<rparr>))"

definition on_enabled :: "bool \<Rightarrow> bool \<Rightarrow> admin_settings \<Rightarrow> admin_settings" where
  "on_enabled must ok s =
     (if \<not> ok then release_factor s
      else reload_status must (on_page (\<lambda>s. s\<lparr>st_enable_otp := [], st_setup := None\<rparr>) s))"

definition handle_disable_2fa :: "jstr \<Rightarrow> jstr \<Rightarrow> admin_settings \<Rightarrow> admin_settings" where
  "handle_disable_2fa password otp s =
     push_setting (Disable_call password otp (must_change_now s)) (s\<lparr>st_factor_loading := True\<rparr>)"

definition on_disabled :: "bool \<Rightarrow> bool \<Rightarrow> admin_settings \<Rightarrow> admin_settings" where
  "on_disabled must ok s = (if ok then reload_status must s else release_factor s)"

text \<open>What is typed into the code field keeps its digits only, at most six.\<close>

definition type_enable_otp :: "jstr \<Rightarrow> admin_settings \<Rightarrow> admin_settings" where
  "type_enable_otp value s = s\<lparr>st_enable_otp := take 6 (filter is_digit value)\<rparr>"

section \<open>The machine\<close>

datatype settings_event =
    Password_submitted jstr jstr jstr | Setup_clicked | Otp_typed jstr | Enable_clicked | Disable_submitted jstr jstr
  | Settings_language_switched | Page_left | Signed_out | Signed_in admin
  | Password_answered settings_call bool | Effect_status settings_call "two_factor_status option"
  | Reload_status settings_call "two_factor_status option" | Setup_answered settings_call "setup_data option"
  | Enable_answered settings_call bool | Disable_answered settings_call bool

definition factor_shown :: "admin_settings \<Rightarrow> bool" where
  "factor_shown s \<longleftrightarrow> st_mounted s \<and> \<not> must_change_now s \<and> \<not> st_status_loading s"

text \<open>The answers of a handler may change the store, and with it \<open>mustChangePassword\<close>. Signing out leaves the page.\<close>

inductive settings_step :: "admin_settings \<Rightarrow> settings_event \<Rightarrow> admin_settings \<Rightarrow> bool" where
  submit_password: "st_mounted s \<Longrightarrow> \<not> st_password_loading s \<Longrightarrow> old_password \<noteq> [] \<Longrightarrow> 8 \<le> length new_password \<Longrightarrow>
     confirm = new_password \<Longrightarrow>
     settings_step s (Password_submitted old_password new_password confirm) (handle_change_password new_password confirm s)"
| setup_2fa: "factor_shown s \<Longrightarrow> \<not> st_factor_loading s \<Longrightarrow> \<not> tf_enabled (effective_status s) \<Longrightarrow>
     settings_step s Setup_clicked (handle_setup_2fa s)"
| type_otp: "factor_shown s \<Longrightarrow> st_setup s \<noteq> None \<Longrightarrow> settings_step s (Otp_typed v) (type_enable_otp v s)"
| enable_2fa: "factor_shown s \<Longrightarrow> \<not> st_factor_loading s \<Longrightarrow> st_setup s \<noteq> None \<Longrightarrow>
     settings_step s Enable_clicked (handle_enable_2fa s)"
| disable_2fa: "factor_shown s \<Longrightarrow> \<not> st_factor_loading s \<Longrightarrow> tf_enabled (effective_status s) \<Longrightarrow> password \<noteq> [] \<Longrightarrow>
     six_digits code \<Longrightarrow> settings_step s (Disable_submitted password code) (handle_disable_2fa password code s)"
| language: "st_mounted s \<Longrightarrow> settings_step s Settings_language_switched (run_status_effect s)"
| leave: "st_mounted s \<Longrightarrow> settings_step s Page_left (s\<lparr>st_mounted := False\<rparr>)"
| sign_out: "settings_step s Signed_out (s\<lparr>st_store := clear_auth (st_store s), st_mounted := False\<rparr>)"
| sign_in: "\<not> st_mounted s \<Longrightarrow> \<not> as_is_authenticated (st_store s) \<Longrightarrow> settings_step s (Signed_in a) (store_admin a s)"
| password_answered: "c = Change_password_call captured \<Longrightarrow> c \<in> set (st_calls s) \<Longrightarrow>
     settings_step s (Password_answered c ok) (with_effect (on_password_changed captured ok) (end_setting c s))"
| effect_status: "c = Effect_status_call n \<Longrightarrow> c \<in> set (st_calls s) \<Longrightarrow>
     settings_step s (Effect_status c result) (with_effect (on_effect_status n result) (end_setting c s))"
| reload_status: "c = Reload_status_call \<Longrightarrow> c \<in> set (st_calls s) \<Longrightarrow>
     settings_step s (Reload_status c result) (with_effect (on_reload_status result) (end_setting c s))"
| setup_answered: "c = Setup_call \<Longrightarrow> c \<in> set (st_calls s) \<Longrightarrow>
     settings_step s (Setup_answered c data) (on_setup data (end_setting c s))"
| enable_answered: "c = Enable_call v must \<Longrightarrow> c \<in> set (st_calls s) \<Longrightarrow>
     settings_step s (Enable_answered c ok) (on_enabled must ok (end_setting c s))"
| disable_answered: "c = Disable_call password v must \<Longrightarrow> c \<in> set (st_calls s) \<Longrightarrow>
     settings_step s (Disable_answered c ok) (on_disabled must ok (end_setting c s))"

text \<open>A visit starts signed in, with the effect's first run.\<close>

definition settings_start :: "admin_settings \<Rightarrow> bool" where
  "settings_start s \<longleftrightarrow> (\<exists>store n. as_is_authenticated store \<and> as_admin store \<noteq> None \<and> n > 0 \<and> s = run_status_effect
     \<lparr>st_store = store, st_next_ref = n, st_mounted = True, st_password_loading = False, st_factor_loading = False,
      st_status_loading = True, st_status = \<lparr>tf_enabled = False, tf_pending = False\<rparr>, st_setup = None, st_enable_otp = [],
      st_effect = 0, st_calls = []\<rparr>)"

end
