(* ===== verification/AdminSettingsTheorems.thy ===== *)
theory AdminSettingsTheorems
  imports AdminSettings
begin

text \<open>
  The administrator's settings page sends one operation at a time with well-formed codes, shows binding data only
  while a set-up is pending, and never changes who is signed in - unless somebody signs out while a password
  change is under way: its answer then signs the former administrator in again.
\<close>

lemma effect_frame [simp]:
  "st_mounted (run_status_effect s) = st_mounted s" "st_store (run_status_effect s) = st_store s"
  "st_password_loading (run_status_effect s) = st_password_loading s"
  "st_factor_loading (run_status_effect s) = st_factor_loading s"
  by (simp_all add: run_status_effect_def Let_def push_setting_def)

section \<open>Operations under way\<close>

fun is_password_call :: "settings_call \<Rightarrow> bool" where
  "is_password_call (Change_password_call a) = True"
| "is_password_call _ = False"

fun is_factor_call :: "settings_call \<Rightarrow> bool" where
  "is_factor_call Setup_call = True"
| "is_factor_call (Enable_call v must) = True"
| "is_factor_call (Disable_call p v must) = True"
| "is_factor_call Reload_status_call = True"
| "is_factor_call _ = False"

fun proper_setting :: "settings_call \<Rightarrow> bool" where
  "proper_setting (Enable_call v must) \<longleftrightarrow> six_digits v \<and> \<not> must"
| "proper_setting (Disable_call p v must) \<longleftrightarrow> p \<noteq> [] \<and> six_digits v \<and> \<not> must"
| "proper_setting _ \<longleftrightarrow> True"

definition settings_inv :: "admin_settings \<Rightarrow> bool" where
  "settings_inv s \<longleftrightarrow>
     (st_mounted s \<longrightarrow> length (filter is_password_call (st_calls s)) = one_if (st_password_loading s)
        \<and> length (filter is_factor_call (st_calls s)) = one_if (st_factor_loading s)
        \<and> (st_setup s \<noteq> None \<longrightarrow> tf_pending (st_status s)))
     \<and> list_all proper_setting (st_calls s)"

lemmas settings_ops = push_setting_def end_setting_def on_page_def store_admin_def release_factor_def

text \<open>What does not touch the fields of the invariant: the store, and the effect with its status.\<close>

lemma inv_frame:
  assumes "settings_inv s" "st_mounted t \<longrightarrow> st_mounted s" "st_password_loading t = st_password_loading s"
    "st_factor_loading t = st_factor_loading s" "filter is_password_call (st_calls t) = filter is_password_call (st_calls s)"
    "filter is_factor_call (st_calls t) = filter is_factor_call (st_calls s)"
    "list_all proper_setting (st_calls s) \<longrightarrow> list_all proper_setting (st_calls t)"
    "st_setup t \<noteq> None \<longrightarrow> tf_pending (st_status t) \<or> (st_setup s \<noteq> None \<and> st_status t = st_status s)"
  shows "settings_inv t"
  using assms by (auto simp: settings_inv_def)

lemma inv_effect: "settings_inv s \<Longrightarrow> settings_inv (run_status_effect s)"
  by (erule inv_frame) (simp_all add: run_status_effect_def Let_def settings_ops)

lemma inv_with_effect: "settings_inv (f s) \<Longrightarrow> settings_inv (with_effect f s)"
  by (simp add: with_effect_def Let_def inv_effect)

lemma inv_status: "settings_inv s \<Longrightarrow> settings_inv (apply_status r s)"
  by (erule inv_frame) (auto simp: apply_status_def sync_store_two_factor_def settings_ops split: option.split)

lemma inv_page:
  "settings_inv s \<Longrightarrow> settings_inv (s\<lparr>st_status_loading := b\<rparr>)"
  "settings_inv s \<Longrightarrow> settings_inv (store_admin a s)"
  "settings_inv s \<Longrightarrow> settings_inv (s\<lparr>st_enable_otp := v\<rparr>)"
  "settings_inv s \<Longrightarrow> settings_inv (s\<lparr>st_setup := None\<rparr>)"
  by (erule inv_frame; simp add: settings_ops)+

text \<open>A call that has been answered, with what its handler does before it releases its button.\<close>

lemma inv_password_answer:
  assumes "settings_inv s" "Change_password_call a \<in> set (st_calls s)"
  shows "settings_inv (on_password_changed a ok (end_setting (Change_password_call a) s))"
proof -
  have "settings_inv (on_page (\<lambda>s. s\<lparr>st_password_loading := False\<rparr>) (end_setting (Change_password_call a) s))"
    using assms unfolding settings_inv_def
    by (auto simp: settings_ops count_remove1 proper_remove1 one_if_def split: if_splits)
  moreover have "on_page (\<lambda>s. s\<lparr>st_password_loading := False\<rparr>) (store_admin x u) =
      store_admin x (on_page (\<lambda>s. s\<lparr>st_password_loading := False\<rparr>) u)" for x u
    by (simp add: settings_ops)
  ultimately show ?thesis by (auto simp: on_password_changed_def intro: inv_page split: option.split)
qed

definition factor_free :: "admin_settings \<Rightarrow> bool" where
  "factor_free s \<longleftrightarrow> settings_inv (release_factor s) \<and> (st_mounted s \<longrightarrow> filter is_factor_call (st_calls s) = [] \<and> st_factor_loading s)"

lemma factor_answered:
  assumes "settings_inv s" "c \<in> set (st_calls s)" "is_factor_call c"
  shows "factor_free (end_setting c s)"
proof -
  have c: "\<not> is_password_call c" using assms(3) by (cases c) simp_all
  have some: "filter is_factor_call (st_calls s) \<noteq> []" using assms(2,3) by (auto simp: filter_empty_conv)
  have free: "filter is_factor_call (remove1 c (st_calls s)) = [] \<and> st_factor_loading s" if "st_mounted s"
  proof -
    have "length (filter is_factor_call (st_calls s)) = one_if (st_factor_loading s)" using assms(1) that by (simp add: settings_inv_def)
    then have "st_factor_loading s" "length (filter is_factor_call (st_calls s)) = Suc 0"
      using some by (auto simp: one_if_def split: if_splits)
    then show ?thesis using assms(2,3) by (simp add: filter_remove1_call)
  qed
  have pw: "filter is_password_call (remove1 c (st_calls s)) = filter is_password_call (st_calls s)"
    using c by (rule filter_remove1_other)
  show ?thesis using assms(1) free pw
    by (auto simp: settings_inv_def factor_free_def settings_ops proper_remove1 one_if_def)
qed

lemma factor_reload: "factor_free s \<Longrightarrow> settings_inv (reload_status must s)"
proof (cases must)
  case True
  assume "factor_free s"
  then have "settings_inv (release_factor s)" by (simp add: factor_free_def)
  then show ?thesis by (rule inv_frame) (simp_all add: True reload_status_def settings_ops)
qed (auto simp: factor_free_def reload_status_def settings_inv_def settings_ops one_if_def split: if_splits)

lemma factor_release: "factor_free s \<Longrightarrow> settings_inv (release_factor s)"
  by (simp add: factor_free_def)

lemma factor_page: "factor_free s \<Longrightarrow> factor_free (on_page (\<lambda>s. s\<lparr>st_enable_otp := [], st_setup := None\<rparr>) s)"
  unfolding factor_free_def
  by (intro conjI) (erule conjE, erule inv_frame, simp_all add: settings_ops)

lemma inv_handle_password:
  "settings_inv s \<Longrightarrow> \<not> st_password_loading s \<Longrightarrow> settings_inv (handle_change_password v w s)"
  by (simp add: handle_change_password_def settings_inv_def settings_ops one_if_def)

lemma inv_factor_call:
  assumes "settings_inv s" "\<not> st_factor_loading s" "is_factor_call c" "proper_setting c"
  shows "settings_inv (push_setting c (s\<lparr>st_factor_loading := True\<rparr>))"
proof -
  have "\<not> is_password_call c" using assms(3) by (cases c) simp_all
  then show ?thesis using assms by (simp add: settings_inv_def settings_ops one_if_def)
qed

lemma inv_on_setup: "factor_free s \<Longrightarrow> settings_inv (on_setup data s)"
  by (cases data) (auto simp: on_setup_def factor_free_def settings_inv_def settings_ops one_if_def split: if_splits)

lemma inv_end_effect: "settings_inv s \<Longrightarrow> settings_inv (end_setting (Effect_status_call n) s)"
  by (erule inv_frame) (simp_all add: settings_ops filter_remove1_other proper_remove1)

lemma inv_on_reload: "factor_free s \<Longrightarrow> settings_inv (on_reload_status result s)"
proof -
  assume "factor_free s"
  then have "settings_inv (release_factor s)" by (rule factor_release)
  then have "settings_inv (release_factor (case result of None \<Rightarrow> s | Some r \<Rightarrow> apply_status r s))"
    by (rule inv_frame) (auto simp: apply_status_def sync_store_two_factor_def settings_ops split: option.splits)
  then show "settings_inv (on_reload_status result s)"
    by (rule inv_frame) (simp_all add: on_reload_status_def settings_ops)
qed

lemma inv_settings_step: "settings_step s e t \<Longrightarrow> settings_inv s \<Longrightarrow> settings_inv t"
proof (induction rule: settings_step.induct)
  case (submit_password s old_password new_password confirm)
  then show ?case by (simp add: inv_handle_password)
next
  case (setup_2fa s)
  then show ?case by (simp add: handle_setup_2fa_def inv_factor_call)
next
  case (type_otp s v)
  then show ?case by (simp add: type_enable_otp_def inv_page)
next
  case (enable_2fa s)
  then show ?case by (auto simp: handle_enable_2fa_def Let_def factor_shown_def intro: inv_factor_call)
next
  case (disable_2fa s password code)
  then show ?case by (auto simp: handle_disable_2fa_def factor_shown_def intro: inv_factor_call)
next
  case (language s)
  then show ?case by (simp add: inv_effect)
next
  case (password_answered c captured s ok)
  then show ?case by (auto intro: inv_with_effect inv_password_answer)
next
  case (effect_status c n s result)
  then have "settings_inv (end_setting c s)" by (simp add: inv_end_effect)
  then have "settings_inv (on_effect_status n result (end_setting c s))"
    by (auto simp: on_effect_status_def intro: inv_page inv_status split: option.split)
  then show ?case by (rule inv_with_effect)
next
  case (reload_status c s result)
  then have "factor_free (end_setting c s)" by (intro factor_answered) simp_all
  then show ?case by (intro inv_with_effect inv_on_reload)
next
  case (setup_answered c s data)
  then have "factor_free (end_setting c s)" by (intro factor_answered) simp_all
  then show ?case by (rule inv_on_setup)
next
  case (enable_answered c v must s ok)
  then have "factor_free (end_setting c s)" by (intro factor_answered) simp_all
  then show ?case by (auto simp: on_enabled_def intro: factor_release factor_reload factor_page)
next
  case (disable_answered c password v must s ok)
  then have "factor_free (end_setting c s)" by (intro factor_answered) simp_all
  then show ?case by (auto simp: on_disabled_def intro: factor_release factor_reload)
qed (auto simp: settings_inv_def settings_ops)

lemma inv_settings_start: "settings_start s \<Longrightarrow> settings_inv s"
  by (auto simp: settings_start_def intro!: inv_effect) (simp_all add: settings_inv_def one_if_def)

interpretation settings: machine_invariant settings_start settings_step settings_inv
  by unfold_locales (fact inv_settings_start, rule inv_settings_step)

text \<open>While the page is shown, at most one password change and one operation on the second factor are under way, exactly
  while their buttons say so; codes have six digits; binding data is shown only while a set-up is pending; and an
  administrator who still has to change the initial password sends nothing about the second factor.\<close>

theorem one_settings_operation:
  assumes "reach settings_start settings_step s" "st_mounted s"
  shows "length (filter is_password_call (st_calls s)) = one_if (st_password_loading s)
    \<and> length (filter is_factor_call (st_calls s)) = one_if (st_factor_loading s)
    \<and> (st_setup s \<noteq> None \<longrightarrow> tf_pending (st_status s)) \<and> list_all proper_setting (st_calls s)"
  using settings.inv_reach [OF assms(1)] assms(2) by (simp add: settings_inv_def)

section \<open>Who is signed in\<close>

definition person :: "admin_settings \<Rightarrow> (int \<times> jstr \<times> admin_role) option" where
  "person s = map_option (\<lambda>a. (adm_id (ref_value a), adm_username (ref_value a), adm_role (ref_value a))) (as_admin (st_store s))"

definition quiet_step :: "admin_settings \<Rightarrow> settings_event \<Rightarrow> admin_settings \<Rightarrow> bool" where
  "quiet_step s e t \<longleftrightarrow> settings_step s e t \<and> (e = Signed_out \<longrightarrow> \<not> list_ex is_password_call (st_calls s))"

definition same_session :: "admin_settings \<Rightarrow> admin_settings \<Rightarrow> bool" where
  "same_session s t \<longleftrightarrow> person t = person s \<and> as_is_authenticated (st_store t) = as_is_authenticated (st_store s)"

text \<open>Every password change under way is the signed-in administrator's.\<close>

definition own_password_calls :: "admin_settings \<Rightarrow> bool" where
  "own_password_calls s \<longleftrightarrow>
     (as_is_authenticated (st_store s) \<longleftrightarrow> as_admin (st_store s) \<noteq> None)
     \<and> (\<forall>a. Change_password_call (Some a) \<in> set (st_calls s) \<longrightarrow>
          person s = Some (adm_id (ref_value a), adm_username (ref_value a), adm_role (ref_value a)))"

text \<open>A step keeps who is signed in, and starts password changes for that administrator only.\<close>

definition password_calls :: "admin_settings \<Rightarrow> admin object_ref set" where
  "password_calls s = {a. Change_password_call (Some a) \<in> set (st_calls s)}"

definition keeps :: "admin_settings \<Rightarrow> admin_settings \<Rightarrow> bool" where
  "keeps s t \<longleftrightarrow> same_session s t \<and> password_calls t \<subseteq> password_calls s \<union> {a. as_admin (st_store s) = Some a}"

lemma keeps_own: "keeps s t \<Longrightarrow> own_password_calls s \<Longrightarrow> own_password_calls t"
  by (auto simp: keeps_def own_password_calls_def same_session_def password_calls_def person_def)

lemma keeps_simple:
  "st_store t = st_store s \<Longrightarrow> password_calls t \<subseteq> password_calls s \<Longrightarrow> keeps s t"
  by (auto simp: keeps_def same_session_def person_def)

lemma keeps_trans: "keeps s t \<Longrightarrow> keeps t u \<Longrightarrow> st_store t = st_store s \<Longrightarrow> keeps s u"
  by (auto simp: keeps_def same_session_def)

lemma keeps_end: "keeps s (end_setting c s)"
  by (rule keeps_simple) (auto simp: settings_ops password_calls_def dest: set_remove1_subset [THEN subsetD])

lemma keeps_effect: "keeps s t \<Longrightarrow> keeps s (run_status_effect t)"
  by (auto simp: keeps_def same_session_def person_def password_calls_def run_status_effect_def Let_def settings_ops)

lemma keeps_with_effect: "keeps s (f s) \<Longrightarrow> keeps s (with_effect f s)"
  by (simp add: with_effect_def Let_def keeps_effect)

lemma keeps_status: "own_password_calls s \<Longrightarrow> keeps s (apply_status r s)"
  by (auto simp: own_password_calls_def keeps_def same_session_def person_def password_calls_def apply_status_def
      sync_store_two_factor_def settings_ops set_auth_def split: option.splits)

lemma keeps_page:
  "keeps s t \<Longrightarrow> keeps s (on_page (\<lambda>s. s\<lparr>st_status_loading := b\<rparr>) t)"
  "keeps s t \<Longrightarrow> keeps s (t\<lparr>st_status_loading := b\<rparr>)"
  "keeps s t \<Longrightarrow> keeps s (release_factor t)"
  "keeps s t \<Longrightarrow> keeps s (on_page (\<lambda>s. s\<lparr>st_enable_otp := [], st_setup := None\<rparr>) t)"
  by (auto simp: keeps_def same_session_def person_def password_calls_def settings_ops)

lemma keeps_refl: "keeps s s"
  by (simp add: keeps_simple)

lemma keeps_reload: "keeps s t \<Longrightarrow> keeps s (reload_status must t)"
proof (cases must)
  case False
  assume "keeps s t"
  then show ?thesis using False
    by (auto simp: reload_status_def keeps_def same_session_def person_def password_calls_def settings_ops)
qed (simp add: reload_status_def keeps_page)

lemma keeps_password:
  assumes "own_password_calls s" "Change_password_call captured \<in> set (st_calls s)"
  shows "keeps (end_setting (Change_password_call captured) s)
    (on_password_changed captured ok (end_setting (Change_password_call captured) s))"
proof -
  have "person s = Some (adm_id (ref_value a), adm_username (ref_value a), adm_role (ref_value a))" "as_is_authenticated (st_store s)"
    if "captured = Some a" for a
    using assms that by (auto simp: own_password_calls_def person_def)
  then show ?thesis
    by (auto simp: on_password_changed_def keeps_def same_session_def password_calls_def settings_ops person_def set_auth_def
        split: option.split)
qed

lemma step_keeps:
  "settings_step s e t \<Longrightarrow> own_password_calls s \<Longrightarrow> e \<noteq> Signed_out \<Longrightarrow> (\<And>a. e \<noteq> Signed_in a) \<Longrightarrow> keeps s t"
proof (induction rule: settings_step.induct)
  case (submit_password s old_password new_password confirm)
  then show ?case
    by (auto simp: handle_change_password_def keeps_def same_session_def person_def password_calls_def settings_ops)
next
  case (language s)
  then show ?case by (intro keeps_effect keeps_refl)
next
  case (password_answered c captured s ok)
  have "keeps (end_setting c s) (with_effect (on_password_changed captured ok) (end_setting c s))"
    using keeps_password password_answered by (intro keeps_with_effect) simp
  then show ?case by (rule keeps_trans [OF keeps_end]) (simp add: settings_ops)
next
  case (effect_status c n s result)
  then have own: "own_password_calls (end_setting c s)" using keeps_own keeps_end by blast
  have "keeps (end_setting c s) (on_effect_status n result (end_setting c s))"
    unfolding on_effect_status_def by (auto intro: keeps_page keeps_refl keeps_status [OF own] split: option.split)
  then have "keeps (end_setting c s) (with_effect (on_effect_status n result) (end_setting c s))" by (rule keeps_with_effect)
  then show ?case by (rule keeps_trans [OF keeps_end]) (simp add: settings_ops)
next
  case (reload_status c s result)
  then have own: "own_password_calls (end_setting c s)" using keeps_own keeps_end by blast
  have "keeps (end_setting c s) (on_reload_status result (end_setting c s))"
    unfolding on_reload_status_def by (intro keeps_page; cases result; simp add: keeps_refl keeps_status own)
  then have "keeps (end_setting c s) (with_effect (on_reload_status result) (end_setting c s))" by (rule keeps_with_effect)
  then show ?case by (rule keeps_trans [OF keeps_end]) (simp add: settings_ops)
next
  case (enable_answered c v must s ok)
  show ?case unfolding on_enabled_def by (auto intro: keeps_page keeps_reload keeps_end)
next
  case (disable_answered c password v must s ok)
  show ?case unfolding on_disabled_def by (auto intro: keeps_page keeps_reload keeps_end)
next
  case (setup_answered c s data)
  have "st_store (on_setup data (end_setting c s)) = st_store s"
    "st_calls (on_setup data (end_setting c s)) = st_calls (end_setting c s)"
    by (auto simp: on_setup_def settings_ops split: option.split)
  then show ?case using keeps_end [of s c] by (auto simp: keeps_def same_session_def person_def password_calls_def settings_ops)
qed (auto intro!: keeps_simple simp: password_calls_def handle_setup_2fa_def handle_enable_2fa_def handle_disable_2fa_def
      type_enable_otp_def Let_def settings_ops)

lemma own_quiet_step: "quiet_step s e t \<Longrightarrow> own_password_calls s \<Longrightarrow> own_password_calls t"
proof (cases "e = Signed_out \<or> (\<exists>a. e = Signed_in a)")
  case True
  assume q: "quiet_step s e t" and own: "own_password_calls s"
  from True have "st_calls t = st_calls s \<and> (as_is_authenticated (st_store t) \<longleftrightarrow> as_admin (st_store t) \<noteq> None)
      \<and> (\<forall>a. Change_password_call (Some a) \<notin> set (st_calls s))"
  proof
    assume "e = Signed_out"
    then show ?thesis using q by (auto simp: quiet_step_def list_ex_iff clear_auth_def elim!: settings_step.cases)
  next
    assume "\<exists>a. e = Signed_in a"
    then have "\<not> as_is_authenticated (st_store s)" "st_calls t = st_calls s"
        "as_is_authenticated (st_store t)" "as_admin (st_store t) \<noteq> None"
      using q by (auto simp: quiet_step_def set_auth_def settings_ops elim!: settings_step.cases)
    then show ?thesis using own by (auto simp: own_password_calls_def person_def)
  qed
  then show ?thesis by (simp add: own_password_calls_def)
next
  case False
  assume "quiet_step s e t" "own_password_calls s"
  then have "keeps s t" using False step_keeps by (auto simp: quiet_step_def)
  then show ?thesis using \<open>own_password_calls s\<close> by (rule keeps_own)
qed

lemma own_start: "settings_start s \<Longrightarrow> own_password_calls s"
  by (auto simp: settings_start_def own_password_calls_def run_status_effect_def Let_def settings_ops)

interpretation own_calls: machine_invariant settings_start quiet_step own_password_calls
  by unfold_locales (fact own_start, rule own_quiet_step)

text \<open>The page's own steps and answers keep who is signed in, in every run in which nobody signs out while a
  password change is under way.\<close>

theorem settings_keep_session:
  assumes "reach settings_start quiet_step s" "settings_step s e t" "e \<noteq> Signed_out" "\<And>a. e \<noteq> Signed_in a"
  shows "same_session s t"
  using step_keeps [OF assms(2) own_calls.inv_reach [OF assms(1)] assms(3,4)] by (simp add: keeps_def)

text \<open>C39: A password change that is answered after its administrator has signed out signs that administrator in again, in
  the place of nobody, or of the one who has signed in meanwhile.\<close>

theorem signed_out_undone:
  assumes "settings_start s" "as_admin (st_store s) = Some a" "old_password \<noteq> []" "8 \<le> length new_password"
    and "switched = [] \<or> switched = [Signed_in b]"
  shows "\<exists>t. run settings_step s
      ([Password_submitted old_password new_password new_password, Signed_out] @ switched
        @ [Password_answered (Change_password_call (Some a)) True]) t
    \<and> as_is_authenticated (st_store t)
    \<and> map_option ref_value (as_admin (st_store t)) = Some (ref_value a\<lparr>adm_must_change_password := Some False\<rparr>)"
proof -
  let ?c = "Change_password_call (Some a)"
  define t where "t = handle_change_password new_password new_password s"
  have t: "?c \<in> set (st_calls t)" using assms(2) by (simp add: t_def handle_change_password_def settings_ops)
  have "st_mounted s" "\<not> st_password_loading s"
    using assms(1) by (auto simp: settings_start_def)
  then have st: "settings_step s (Password_submitted old_password new_password new_password) t"
    unfolding t_def using assms(3,4) by (intro submit_password) simp_all
  define u where "u = t\<lparr>st_store := clear_auth (st_store t), st_mounted := False\<rparr>"
  have tu: "settings_step t Signed_out u" unfolding u_def by (rule sign_out)
  define v where "v = (if switched = [] then u else store_admin b u)"
  have "settings_step u (Signed_in b) (store_admin b u)" by (rule sign_in) (simp_all add: u_def clear_auth_def)
  then have uv: "run settings_step u switched v" using assms(5) by (auto simp: v_def)
  define w where "w = with_effect (on_password_changed (Some a) True) (end_setting ?c v)"
  have v: "\<not> st_mounted v" "st_calls v = st_calls t" by (simp_all add: v_def u_def settings_ops)
  then have "settings_step v (Password_answered ?c True) w" unfolding w_def using t by (intro password_answered) simp_all
  then have "run settings_step s ([Password_submitted old_password new_password new_password, Signed_out] @ switched
      @ [Password_answered ?c True]) w"
    using st tu uv by (simp del: run_Cons_iff add: run_Cons run_append run_Nil)
  moreover have "as_is_authenticated (st_store w)"
    "map_option ref_value (as_admin (st_store w)) = Some (ref_value a\<lparr>adm_must_change_password := Some False\<rparr>)"
    using v by (simp_all add: w_def with_effect_def Let_def on_password_changed_def settings_ops set_auth_def)
  ultimately show ?thesis by blast
qed

section \<open>Witnesses\<close>

definition demo_admin :: "int \<Rightarrow> admin" where
  "demo_admin i =
     \<lparr>adm_id = i, adm_username = js ''ann'', adm_email = None, adm_role = ADMIN, adm_must_change_password = Some True,
      adm_two_factor_enabled = None\<rparr>"

definition demo_visit :: admin_settings where
  "demo_visit = run_status_effect
     \<lparr>st_store = \<lparr>as_admin = Some \<lparr>ref_id = 1, ref_value = demo_admin 7\<rparr>, as_is_authenticated = True\<rparr>, st_next_ref = 2,
      st_mounted = True, st_password_loading = False, st_factor_loading = False, st_status_loading = True,
      st_status = \<lparr>tf_enabled = False, tf_pending = False\<rparr>, st_setup = None, st_enable_otp = [], st_effect = 0, st_calls = []\<rparr>"

lemma demo_visit_start: "settings_start demo_visit"
  unfolding settings_start_def demo_visit_def
  by (intro exI [of _ "\<lparr>as_admin = Some \<lparr>ref_id = 1, ref_value = demo_admin 7\<rparr>, as_is_authenticated = True\<rparr>"] exI [of _ 2]) simp

lemma demo_password: "8 \<le> length (js ''new-secret'')"
  by simp

lemma demo_submit:
  "settings_step demo_visit (Password_submitted (js ''old'') (js ''new-secret'') (js ''new-secret''))
     (handle_change_password (js ''new-secret'') (js ''new-secret'') demo_visit)"
  by (rule submit_password) (simp_all add: demo_visit_def)

lemma demo_submitted_reach:
  "reach settings_start settings_step (handle_change_password (js ''new-secret'') (js ''new-secret'') demo_visit)"
  by (rule reach_step [of settings_start settings_step demo_visit]) (rule reach_start, rule demo_visit_start, rule demo_submit)

lemma one_settings_operation_witness:
  "length (filter is_password_call
     (st_calls (handle_change_password (js ''new-secret'') (js ''new-secret'') demo_visit))) = 1"
  using one_settings_operation [OF demo_submitted_reach]
  by (simp add: handle_change_password_def demo_visit_def push_setting_def one_if_def)

lemma settings_keep_session_witness:
  "same_session demo_visit (handle_change_password (js ''new-secret'') (js ''new-secret'') demo_visit)"
  by (rule settings_keep_session [OF _ demo_submit]) (rule reach_start, rule demo_visit_start, simp_all)

lemma signed_out_undone_witness:
  "\<exists>t es. run settings_step demo_visit (es @ [Signed_in (demo_admin 8), Password_answered
       (Change_password_call (as_admin (st_store demo_visit))) True]) t
     \<and> map_option (\<lambda>a. adm_id (ref_value a)) (as_admin (st_store t)) = Some 7"
proof -
  let ?a = "\<lparr>ref_id = 1, ref_value = demo_admin 7\<rparr>"
  have a: "as_admin (st_store demo_visit) = Some ?a" by (simp add: demo_visit_def)
  obtain t where "run settings_step demo_visit
      ([Password_submitted (js ''old'') (js ''new-secret'') (js ''new-secret''), Signed_out] @ [Signed_in (demo_admin 8)]
        @ [Password_answered (Change_password_call (Some ?a)) True]) t"
    and t: "map_option ref_value (as_admin (st_store t)) = Some (demo_admin 7\<lparr>adm_must_change_password := Some False\<rparr>)"
    using signed_out_undone [OF demo_visit_start a, of "js ''old''" "js ''new-secret''" "[Signed_in (demo_admin 8)]" "demo_admin 8"]
    by auto
  moreover have "map_option (\<lambda>a. adm_id (ref_value a)) (as_admin (st_store t)) = Some 7"
    using t by (cases "as_admin (st_store t)") (simp_all add: demo_admin_def)
  ultimately show ?thesis unfolding a
    by (intro exI [of _ t] exI [of _ "[Password_submitted (js ''old'') (js ''new-secret'') (js ''new-secret''), Signed_out]"]) simp
qed

end
