(* ===== verification/PortalSettings.thy ===== *)
theory PortalSettings
  imports AuthStores LoginFlow PortalInbox
begin

text \<open>
  The settings of the mailbox portal (web/src/pages/mail-portal/settings/index.tsx): the password, the second factor,
  the forwarding form with its mailboxes, and the recent forwarding jobs of the mailbox selected in the form. Timers of
  effects are flags that say what is due. After the page has been left no answer changes anything.
\<close>

section \<open>State\<close>

record portal_session =
  ps_id :: int
  ps_username :: jstr
  ps_must_change :: "bool option"

record forward_form =
  ff_mailbox :: "nat option"
  ff_mode :: "forward_mode option"
  ff_to :: "jstr option"

record forward_payload =
  fp_mailbox :: nat
  fp_mode :: forward_mode
  fp_to :: "jstr option"

datatype job_status = Job_pending | Job_running | Job_sent | Job_failed | Job_skipped

record forwarding_job =
  fj_id :: jstr
  fj_status :: job_status
  fj_mode :: forward_mode
  fj_to :: jstr

text \<open>What a handler still does once its reloads have been answered.\<close>

datatype after_mailboxes = Mailboxes_only | Password_done | Forward_jobs nat

datatype portal_call =
    Session_call bool "nat option"
  | Portal_mailboxes_call "nat option" "nat option" after_mailboxes
  | Jobs_call nat bool
  | Status_call bool
  | Portal_password_call "nat option"
  | Forwarding_call forward_payload "nat option"
  | Portal_setup_call
  | Portal_enable_call jstr bool
  | Portal_disable_call jstr jstr bool

datatype jobs_due = No_jobs_due | Jobs_load_due | Jobs_clear_due

record portal_settings =
  pt_user :: "mailbox_user option"
  pt_mounted :: bool
  pt_password_loading :: bool
  pt_forward_loading :: bool
  pt_factor_loading :: bool
  pt_status_loading :: bool
  pt_enabled :: bool
  pt_pending :: bool
  pt_setup :: "(jstr \<times> jstr) option"
  pt_mailboxes :: "portal_mailbox list"
  pt_jobs :: "forwarding_job list"
  pt_session :: "portal_session option"
  pt_form :: forward_form
  pt_session_due :: bool
  pt_status_due :: bool
  pt_mailboxes_due :: bool
  pt_jobs_due :: jobs_due
  pt_calls :: "portal_call list"

section \<open>Labels and counts\<close>

datatype send_status = Send_ready | Send_pending_setup | Inbox_only

definition get_send_status :: "portal_mailbox \<Rightarrow> send_status" where
  "get_send_status mailbox =
     (if pm_send_ready mailbox then Send_ready else if pm_domain_can_send mailbox then Send_pending_setup else Inbox_only)"

text \<open>\<open>None\<close> is the label of a mailbox that does not forward.\<close>

definition get_forward_status_label :: "forward_mode option \<Rightarrow> forward_mode option" where
  "get_forward_status_label mode = (case mode of None \<Rightarrow> None | Some m \<Rightarrow> if m = Forward_disabled then None else Some m)"

definition forwarding_enabled_count :: "portal_mailbox list \<Rightarrow> nat" where
  "forwarding_enabled_count mailboxes = length (filter (\<lambda>item. get_forward_status_label (pm_forward_mode item) \<noteq> None) mailboxes)"

definition send_enabled_count :: "portal_mailbox list \<Rightarrow> nat" where
  "send_enabled_count mailboxes = length (filter pm_send_ready mailboxes)"

section \<open>Session and permissions\<close>

definition push_portal :: "portal_call \<Rightarrow> portal_settings \<Rightarrow> portal_settings" where
  "push_portal c s = s\<lparr>pt_calls := c # pt_calls s\<rparr>"

definition end_portal :: "portal_call \<Rightarrow> portal_settings \<Rightarrow> portal_settings" where
  "end_portal c s = s\<lparr>pt_calls := remove1 c (pt_calls s)\<rparr>"

text \<open>\<open>session?.mailboxUser.mustChangePassword ?? portalMailboxUser?.mustChangePassword\<close>.\<close>

definition portal_must_change :: "portal_settings \<Rightarrow> bool" where
  "portal_must_change s =
     (case Option.bind (pt_session s) ps_must_change of
        Some b \<Rightarrow> b
      | None \<Rightarrow> Option.bind (pt_user s) mbu_must_change_password = Some True)"

definition can_manage_two_factor :: "portal_settings \<Rightarrow> bool" where
  "can_manage_two_factor s \<longleftrightarrow> pt_session s \<noteq> None \<and> \<not> portal_must_change s"

section \<open>Effects\<close>

definition empty_form :: forward_form where
  "empty_form = \<lparr>ff_mailbox = None, ff_mode = None, ff_to = None\<rparr>"

text \<open>The effects run again when something they depend on has changed: the session with the language, the status
  with the language and the permission, the mailboxes with the language, the flag and the mailbox of the form, the
  jobs with the same. A user who must change the password gets an empty form and no jobs.\<close>

definition portal_effects :: "bool \<Rightarrow> portal_settings \<Rightarrow> portal_settings \<Rightarrow> portal_settings" where
  "portal_effects language_changed s t =
     (let must = portal_must_change t;
          form_changed = (language_changed \<or> must \<noteq> portal_must_change s \<or> ff_mailbox (pt_form t) \<noteq> ff_mailbox (pt_form s))
      in t\<lparr>pt_session_due := (pt_session_due t \<or> language_changed),
           pt_status_due := (if language_changed \<or> can_manage_two_factor t \<noteq> can_manage_two_factor s
                             then can_manage_two_factor t else pt_status_due t),
           pt_form := (if form_changed \<and> must then empty_form else pt_form t),
           pt_mailboxes_due := (if form_changed then \<not> must else pt_mailboxes_due t),
           pt_jobs_due := (if form_changed then (if must then Jobs_clear_due else Jobs_load_due) else pt_jobs_due t)\<rparr>)"

definition sync_forward_form :: "portal_mailbox option \<Rightarrow> portal_settings \<Rightarrow> portal_settings" where
  "sync_forward_form mailbox s =
     (case mailbox of None \<Rightarrow> s
      | Some m \<Rightarrow> if \<not> pt_mounted s then s
          else s\<lparr>pt_form := \<lparr>ff_mailbox = Some (pm_id m),
                 ff_mode = Some (case pm_forward_mode m of None \<Rightarrow> Forward_disabled | Some mode \<Rightarrow> mode),
                 ff_to = opt_text (pm_forward_to m)\<rparr>\<rparr>)"

section \<open>Loads\<close>

text \<open>\<open>seen\<close> is the form's mailbox in the closure of \<open>loadMailboxes\<close>.\<close>

definition portal_load_mailboxes :: "nat option \<Rightarrow> nat option \<Rightarrow> after_mailboxes \<Rightarrow> portal_settings \<Rightarrow> portal_settings" where
  "portal_load_mailboxes preferred seen k s = push_portal (Portal_mailboxes_call preferred seen k) s"

definition mailbox_to_focus :: "nat option \<Rightarrow> nat option \<Rightarrow> portal_mailbox list \<Rightarrow> portal_mailbox option" where
  "mailbox_to_focus preferred seen items =
     (case find (\<lambda>item. Some (pm_id item) = preferred) items of
        Some m \<Rightarrow> Some m
      | None \<Rightarrow> (case find (\<lambda>item. Some (pm_id item) = seen) items of
            Some m \<Rightarrow> Some m
          | None \<Rightarrow> (case items of [] \<Rightarrow> None | m # _ \<Rightarrow> Some m)))"

definition load_forwarding_jobs :: "nat option \<Rightarrow> bool \<Rightarrow> portal_settings \<Rightarrow> portal_settings" where
  "load_forwarding_jobs mailbox_id saving s =
     (case mailbox_id of
        None \<Rightarrow> s\<lparr>pt_jobs := []\<rparr>
      | Some m \<Rightarrow> push_portal (Jobs_call m saving) s)"

definition on_forwarding_jobs :: "bool \<Rightarrow> forwarding_job list option \<Rightarrow> portal_settings \<Rightarrow> portal_settings" where
  "on_forwarding_jobs saving result s =
     (if \<not> pt_mounted s then s
      else (s\<lparr>pt_jobs := (case result of None \<Rightarrow> [] | Some jobs \<Rightarrow> jobs)\<rparr>)
             \<lparr>pt_forward_loading := (if saving then False else pt_forward_loading s)\<rparr>)"

definition after_mailboxes_loaded :: "after_mailboxes \<Rightarrow> portal_settings \<Rightarrow> portal_settings" where
  "after_mailboxes_loaded k s =
     (case k of
        Mailboxes_only \<Rightarrow> s
      | Password_done \<Rightarrow> if pt_mounted s then s\<lparr>pt_password_loading := False\<rparr> else s
      | Forward_jobs m \<Rightarrow> load_forwarding_jobs (Some m) True s)"

definition on_portal_mailboxes ::
  "nat option \<Rightarrow> nat option \<Rightarrow> after_mailboxes \<Rightarrow> portal_mailbox list option \<Rightarrow> portal_settings \<Rightarrow> portal_settings" where
  "on_portal_mailboxes preferred seen k result s =
     after_mailboxes_loaded k
       (case result of
          None \<Rightarrow> s
        | Some items \<Rightarrow> if \<not> pt_mounted s then s
            else portal_effects False s (sync_forward_form (mailbox_to_focus preferred seen items) (s\<lparr>pt_mailboxes := items\<rparr>)))"

text \<open>The session's user is laid over the stored one; a field the session does not carry is kept.\<close>

definition merge_user :: "portal_session \<Rightarrow> mailbox_user \<Rightarrow> mailbox_user" where
  "merge_user p u =
     u\<lparr>mbu_id := ps_id p, mbu_username := ps_username p,
       mbu_must_change_password := (case ps_must_change p of None \<Rightarrow> mbu_must_change_password u | Some b \<Rightarrow> Some b)\<rparr>"

text \<open>\<open>saving\<close>: the load belongs to a password change, which goes on with the mailboxes.\<close>

definition on_portal_session :: "bool \<Rightarrow> nat option \<Rightarrow> portal_session option \<Rightarrow> portal_settings \<Rightarrow> portal_settings" where
  "on_portal_session saving seen result s =
     (let t = (case result of
                 None \<Rightarrow> s
               | Some p \<Rightarrow> if \<not> pt_mounted s then s
                   else portal_effects False s (s\<lparr>pt_session := Some p, pt_user := map_option (merge_user p) (pt_user s)\<rparr>))
      in if saving then portal_load_mailboxes None seen Password_done t else t)"

definition load_two_factor_status :: "bool \<Rightarrow> bool \<Rightarrow> portal_settings \<Rightarrow> portal_settings" where
  "load_two_factor_status can_manage saving s =
     (if \<not> can_manage then (if saving \<and> pt_mounted s then s\<lparr>pt_factor_loading := False\<rparr> else s)
      else push_portal (Status_call saving) (if pt_mounted s then s\<lparr>pt_status_loading := True\<rparr> else s))"

definition on_two_factor_status :: "bool \<Rightarrow> (bool \<times> bool) option \<Rightarrow> portal_settings \<Rightarrow> portal_settings" where
  "on_two_factor_status saving result s =
     (if \<not> pt_mounted s then s
      else (case result of
              None \<Rightarrow> s
            | Some (enabled, pending) \<Rightarrow>
                s\<lparr>pt_enabled := enabled, pt_pending := pending, pt_setup := (if pending then pt_setup s else None)\<rparr>)
           \<lparr>pt_status_loading := False, pt_factor_loading := (if saving then False else pt_factor_loading s)\<rparr>)"

section \<open>Handlers\<close>

definition handle_password_submit :: "jstr \<Rightarrow> jstr \<Rightarrow> portal_settings \<Rightarrow> portal_settings" where
  "handle_password_submit new_password confirm_password s =
     (if new_password \<noteq> confirm_password then s
      else push_portal (Portal_password_call (ff_mailbox (pt_form s))) (s\<lparr>pt_password_loading := True\<rparr>))"

definition on_portal_password :: "nat option \<Rightarrow> bool \<Rightarrow> portal_settings \<Rightarrow> portal_settings" where
  "on_portal_password seen ok s =
     (if \<not> pt_mounted s then s
      else if ok then push_portal (Session_call True seen) s
      else s\<lparr>pt_password_loading := False\<rparr>)"

definition forward_request :: "nat \<Rightarrow> forward_mode \<Rightarrow> jstr option \<Rightarrow> forward_payload" where
  "forward_request mailbox_id mode target =
     \<lparr>fp_mailbox = mailbox_id, fp_mode = mode, fp_to = (if mode = Forward_disabled then None else opt_text target)\<rparr>"

definition handle_forward_submit :: "nat \<Rightarrow> forward_mode \<Rightarrow> jstr option \<Rightarrow> portal_settings \<Rightarrow> portal_settings" where
  "handle_forward_submit mailbox_id mode target s =
     push_portal (Forwarding_call (forward_request mailbox_id mode target) (ff_mailbox (pt_form s))) (s\<lparr>pt_forward_loading := True\<rparr>)"

definition on_forwarding_saved :: "forward_payload \<Rightarrow> nat option \<Rightarrow> bool \<Rightarrow> portal_settings \<Rightarrow> portal_settings" where
  "on_forwarding_saved p seen ok s =
     (if \<not> pt_mounted s then s
      else if ok then portal_load_mailboxes (Some (fp_mailbox p)) seen (Forward_jobs (fp_mailbox p)) s
      else s\<lparr>pt_forward_loading := False\<rparr>)"

definition handle_setup_two_factor :: "portal_settings \<Rightarrow> portal_settings" where
  "handle_setup_two_factor s = push_portal Portal_setup_call (s\<lparr>pt_factor_loading := True\<rparr>)"

definition on_two_factor_setup :: "(jstr \<times> jstr) option \<Rightarrow> portal_settings \<Rightarrow> portal_settings" where
  "on_two_factor_setup result s =
     (if \<not> pt_mounted s then s
      else (case result of None \<Rightarrow> s
            | Some d \<Rightarrow> s\<lparr>pt_setup := Some d, pt_enabled := False, pt_pending := True\<rparr>)\<lparr>pt_factor_loading := False\<rparr>)"

definition handle_enable_two_factor :: "jstr \<Rightarrow> portal_settings \<Rightarrow> portal_settings" where
  "handle_enable_two_factor value s =
     (let otp = trim value
      in if \<not> six_digits otp then s
         else push_portal (Portal_enable_call otp (can_manage_two_factor s)) (s\<lparr>pt_factor_loading := True\<rparr>))"

definition on_two_factor_enabled :: "bool \<Rightarrow> bool \<Rightarrow> portal_settings \<Rightarrow> portal_settings" where
  "on_two_factor_enabled can_manage ok s =
     (if \<not> pt_mounted s then s
      else if ok then load_two_factor_status can_manage True (s\<lparr>pt_setup := None\<rparr>)
      else s\<lparr>pt_factor_loading := False\<rparr>)"

definition handle_disable_two_factor :: "jstr \<Rightarrow> jstr \<Rightarrow> portal_settings \<Rightarrow> portal_settings" where
  "handle_disable_two_factor password otp s =
     push_portal (Portal_disable_call password otp (can_manage_two_factor s)) (s\<lparr>pt_factor_loading := True\<rparr>)"

definition on_two_factor_disabled :: "bool \<Rightarrow> bool \<Rightarrow> portal_settings \<Rightarrow> portal_settings" where
  "on_two_factor_disabled can_manage ok s =
     (if \<not> pt_mounted s then s
      else if ok then load_two_factor_status can_manage True s
      else s\<lparr>pt_factor_loading := False\<rparr>)"

text \<open>The code fields keep digits only, at most six. Choosing a mailbox fills the form from the list.\<close>

definition normalize_otp :: "jstr \<Rightarrow> jstr" where
  "normalize_otp value = take 6 (filter is_digit value)"

definition choose_mailbox :: "nat \<Rightarrow> portal_settings \<Rightarrow> portal_settings" where
  "choose_mailbox m s =
     portal_effects False s
       (sync_forward_form (find (\<lambda>item. pm_id item = m) (pt_mailboxes s)) (s\<lparr>pt_form := (pt_form s)\<lparr>ff_mailbox := Some m\<rparr>\<rparr>))"

definition run_jobs_effect :: "portal_settings \<Rightarrow> portal_settings" where
  "run_jobs_effect s =
     (let t = s\<lparr>pt_jobs_due := No_jobs_due\<rparr>
      in case pt_jobs_due s of
           No_jobs_due \<Rightarrow> s
         | Jobs_clear_due \<Rightarrow> t\<lparr>pt_jobs := []\<rparr>
         | Jobs_load_due \<Rightarrow> load_forwarding_jobs (ff_mailbox (pt_form s)) False t)"

section \<open>The machine\<close>

datatype portal_event =
    Session_timer | Status_timer | Boxes_timer | Jobs_timer | Portal_language_switched | Portal_left
  | Portal_password_submitted jstr jstr jstr | Mailbox_picked nat | Mode_chosen forward_mode | Target_typed jstr
  | Forward_submitted | Portal_setup_clicked | Portal_enable_submitted jstr | Portal_disable_submitted jstr jstr
  | Session_loaded portal_call "portal_session option" | Boxes_loaded portal_call "portal_mailbox list option"
  | Jobs_loaded portal_call "forwarding_job list option" | Status_loaded portal_call "(bool \<times> bool) option"
  | Portal_password_answered portal_call bool | Forwarding_saved portal_call bool
  | Portal_setup_answered portal_call "(jstr \<times> jstr) option" | Portal_enable_answered portal_call bool
  | Portal_disable_answered portal_call bool

definition forward_shown :: "portal_settings \<Rightarrow> bool" where
  "forward_shown s \<longleftrightarrow> pt_mounted s \<and> \<not> portal_must_change s"

definition portal_factor_shown :: "portal_settings \<Rightarrow> bool" where
  "portal_factor_shown s \<longleftrightarrow> pt_mounted s \<and> can_manage_two_factor s \<and> \<not> pt_status_loading s"

text \<open>\<open>valid_email\<close> is the form library's check of an address; \<open>jobs_of m i\<close>: the server lists job \<open>i\<close> for mailbox \<open>m\<close>. The
  target's field is there, and checked, only for a mode that forwards.\<close>

inductive portal_step ::
  "(jstr \<Rightarrow> bool) \<Rightarrow> (nat \<Rightarrow> jstr \<Rightarrow> bool) \<Rightarrow> portal_settings \<Rightarrow> portal_event \<Rightarrow> portal_settings \<Rightarrow> bool"
  for valid_email jobs_of where
  session_timer: "pt_session_due s \<Longrightarrow>
     portal_step valid_email jobs_of s Session_timer (push_portal (Session_call False None) (s\<lparr>pt_session_due := False\<rparr>))"
| status_timer: "pt_status_due s \<Longrightarrow>
     portal_step valid_email jobs_of s Status_timer (load_two_factor_status True False (s\<lparr>pt_status_due := False\<rparr>))"
| boxes_timer: "pt_mailboxes_due s \<Longrightarrow>
     portal_step valid_email jobs_of s Boxes_timer
       (portal_load_mailboxes None (ff_mailbox (pt_form s)) Mailboxes_only (s\<lparr>pt_mailboxes_due := False\<rparr>))"
| jobs_timer: "pt_jobs_due s \<noteq> No_jobs_due \<Longrightarrow> portal_step valid_email jobs_of s Jobs_timer (run_jobs_effect s)"
| portal_language: "pt_mounted s \<Longrightarrow> portal_step valid_email jobs_of s Portal_language_switched (portal_effects True s s)"
| portal_leave: "pt_mounted s \<Longrightarrow>
     portal_step valid_email jobs_of s Portal_left
       (s\<lparr>pt_mounted := False, pt_session_due := False, pt_status_due := False, pt_mailboxes_due := False, pt_jobs_due := No_jobs_due\<rparr>)"
| portal_password: "pt_mounted s \<Longrightarrow> \<not> pt_password_loading s \<Longrightarrow> old_password \<noteq> [] \<Longrightarrow> 8 \<le> length new_password \<Longrightarrow>
     confirm = new_password \<Longrightarrow>
     portal_step valid_email jobs_of s (Portal_password_submitted old_password new_password confirm)
       (handle_password_submit new_password confirm s)"
| pick_mailbox: "forward_shown s \<Longrightarrow> m \<in> set (map pm_id (pt_mailboxes s)) \<Longrightarrow>
     portal_step valid_email jobs_of s (Mailbox_picked m) (choose_mailbox m s)"
| choose_mode: "forward_shown s \<Longrightarrow>
     portal_step valid_email jobs_of s (Mode_chosen mode) (s\<lparr>pt_form := (pt_form s)\<lparr>ff_mode := Some mode\<rparr>\<rparr>)"
| type_target: "forward_shown s \<Longrightarrow> ff_mode (pt_form s) \<noteq> Some Forward_disabled \<Longrightarrow>
     portal_step valid_email jobs_of s (Target_typed v) (s\<lparr>pt_form := (pt_form s)\<lparr>ff_to := Some v\<rparr>\<rparr>)"
| submit_forward: "forward_shown s \<Longrightarrow> \<not> pt_forward_loading s \<Longrightarrow> ff_mailbox (pt_form s) = Some m \<Longrightarrow>
     ff_mode (pt_form s) = Some mode \<Longrightarrow>
     mode \<noteq> Forward_disabled \<longrightarrow> (\<exists>v. ff_to (pt_form s) = Some v \<and> v \<noteq> [] \<and> valid_email v) \<Longrightarrow>
     portal_step valid_email jobs_of s Forward_submitted
       (handle_forward_submit m mode (if mode = Forward_disabled then None else ff_to (pt_form s)) s)"
| portal_setup: "portal_factor_shown s \<Longrightarrow> \<not> pt_factor_loading s \<Longrightarrow> \<not> pt_enabled s \<Longrightarrow>
     portal_step valid_email jobs_of s Portal_setup_clicked (handle_setup_two_factor s)"
| portal_enable: "portal_factor_shown s \<Longrightarrow> \<not> pt_factor_loading s \<Longrightarrow> \<not> pt_enabled s \<Longrightarrow> pt_setup s \<noteq> None \<Longrightarrow>
     six_digits (normalize_otp v) \<Longrightarrow>
     portal_step valid_email jobs_of s (Portal_enable_submitted v) (handle_enable_two_factor (normalize_otp v) s)"
| portal_disable: "portal_factor_shown s \<Longrightarrow> \<not> pt_factor_loading s \<Longrightarrow> pt_enabled s \<Longrightarrow> password \<noteq> [] \<Longrightarrow>
     six_digits (normalize_otp v) \<Longrightarrow>
     portal_step valid_email jobs_of s (Portal_disable_submitted password v) (handle_disable_two_factor password (normalize_otp v) s)"
| session_loaded: "c = Session_call saving seen \<Longrightarrow> c \<in> set (pt_calls s) \<Longrightarrow>
     portal_step valid_email jobs_of s (Session_loaded c session) (on_portal_session saving seen session (end_portal c s))"
| boxes_loaded: "c = Portal_mailboxes_call preferred seen k \<Longrightarrow> c \<in> set (pt_calls s) \<Longrightarrow>
     portal_step valid_email jobs_of s (Boxes_loaded c boxes) (on_portal_mailboxes preferred seen k boxes (end_portal c s))"
| jobs_loaded: "c = Jobs_call m saving \<Longrightarrow> c \<in> set (pt_calls s) \<Longrightarrow>
     \<forall>items. jobs = Some items \<longrightarrow> list_all (\<lambda>job. jobs_of m (fj_id job)) items \<Longrightarrow>
     portal_step valid_email jobs_of s (Jobs_loaded c jobs) (on_forwarding_jobs saving jobs (end_portal c s))"
| status_loaded: "c = Status_call saving \<Longrightarrow> c \<in> set (pt_calls s) \<Longrightarrow>
     portal_step valid_email jobs_of s (Status_loaded c status) (on_two_factor_status saving status (end_portal c s))"
| password_saved: "c = Portal_password_call seen \<Longrightarrow> c \<in> set (pt_calls s) \<Longrightarrow>
     portal_step valid_email jobs_of s (Portal_password_answered c ok) (on_portal_password seen ok (end_portal c s))"
| forwarding_saved: "c = Forwarding_call p seen \<Longrightarrow> c \<in> set (pt_calls s) \<Longrightarrow>
     portal_step valid_email jobs_of s (Forwarding_saved c ok) (on_forwarding_saved p seen ok (end_portal c s))"
| portal_setup_done: "c = Portal_setup_call \<Longrightarrow> c \<in> set (pt_calls s) \<Longrightarrow>
     portal_step valid_email jobs_of s (Portal_setup_answered c data) (on_two_factor_setup data (end_portal c s))"
| portal_enabled: "c = Portal_enable_call v can \<Longrightarrow> c \<in> set (pt_calls s) \<Longrightarrow>
     portal_step valid_email jobs_of s (Portal_enable_answered c ok) (on_two_factor_enabled can ok (end_portal c s))"
| portal_disabled: "c = Portal_disable_call password v can \<Longrightarrow> c \<in> set (pt_calls s) \<Longrightarrow>
     portal_step valid_email jobs_of s (Portal_disable_answered c ok) (on_two_factor_disabled can ok (end_portal c s))"

definition portal_fresh :: "mailbox_user option \<Rightarrow> portal_settings" where
  "portal_fresh user =
     \<lparr>pt_user = user, pt_mounted = True, pt_password_loading = False, pt_forward_loading = False, pt_factor_loading = False,
      pt_status_loading = False, pt_enabled = False, pt_pending = False, pt_setup = None, pt_mailboxes = [], pt_jobs = [],
      pt_session = None, pt_form = empty_form, pt_session_due = False, pt_status_due = False, pt_mailboxes_due = False,
      pt_jobs_due = No_jobs_due, pt_calls = []\<rparr>"

text \<open>The first run of the effects.\<close>

definition portal_start :: "portal_settings \<Rightarrow> bool" where
  "portal_start s \<longleftrightarrow> (\<exists>user. s = portal_effects True (portal_fresh user) (portal_fresh user))"

end
