(* ===== verification/PortalSettingsTheorems.thy ===== *)
theory PortalSettingsTheorems
  imports PortalSettings
begin

text \<open>
  The portal's settings: a page that has been left stays as it was; requests are well formed; the jobs shown belong
  to the mailbox of the form, unless jobs of another mailbox were being loaded; and a reload of the mailboxes
  takes back what has been typed into the form.
\<close>

lemmas portal_ops = push_portal_def end_portal_def portal_load_mailboxes_def load_forwarding_jobs_def

lemmas portal_answers = on_portal_session_def on_portal_mailboxes_def after_mailboxes_loaded_def on_forwarding_jobs_def
  on_two_factor_status_def on_portal_password_def on_forwarding_saved_def on_two_factor_setup_def on_two_factor_enabled_def
  on_two_factor_disabled_def

lemma must_frame:
  assumes "pt_session t = pt_session s" "pt_user t = pt_user s"
  shows "portal_must_change t = portal_must_change s" "can_manage_two_factor t = can_manage_two_factor s"
  unfolding can_manage_two_factor_def portal_must_change_def assms by (rule refl)+

lemma must_sync [simp]: "portal_must_change (sync_forward_form m s) = portal_must_change s"
  by (rule must_frame) (simp_all add: sync_forward_form_def split: option.split)

lemma effects_form: "\<not> portal_must_change t \<Longrightarrow> pt_form (portal_effects l s t) = pt_form t"
  by (simp add: portal_effects_def Let_def)

section \<open>A page that has been left\<close>

text \<open>No answer changes the page or the stored user any more; only requests come and go.\<close>

definition left_page :: "portal_settings \<Rightarrow> bool" where
  "left_page s \<longleftrightarrow> \<not> pt_mounted s \<and> \<not> pt_session_due s \<and> \<not> pt_status_due s \<and> \<not> pt_mailboxes_due s \<and> pt_jobs_due s = No_jobs_due"

definition same_page :: "portal_settings \<Rightarrow> portal_settings \<Rightarrow> bool" where
  "same_page s t \<longleftrightarrow> t\<lparr>pt_calls := []\<rparr> = s\<lparr>pt_calls := []\<rparr>"

lemma same_pageI: "t\<lparr>pt_calls := []\<rparr> = s\<lparr>pt_calls := []\<rparr> \<Longrightarrow> same_page s t"
  by (simp add: same_page_def)

lemma left_session:
  "\<not> pt_mounted s \<Longrightarrow> on_portal_session saving seen r s = (if saving then portal_load_mailboxes None seen Password_done s else s)"
  by (cases r) (simp_all add: on_portal_session_def Let_def)

lemma left_mailboxes: "\<not> pt_mounted s \<Longrightarrow> on_portal_mailboxes preferred seen k r s = after_mailboxes_loaded k s"
  by (cases r) (simp_all add: on_portal_mailboxes_def)

lemma left_step: "portal_step valid_email jobs_of s e t \<Longrightarrow> left_page s \<Longrightarrow> same_page s t"
proof (erule portal_step.cases; hypsubst)
  fix s saving seen session
  assume "left_page s"
  then show "same_page s (on_portal_session saving seen session (end_portal (Session_call saving seen) s))"
    by (simp add: left_session left_page_def portal_ops same_page_def)
next
  fix s preferred seen k boxes
  assume "left_page s"
  then have "\<not> pt_mounted (end_portal (Portal_mailboxes_call preferred seen k) s)" by (simp add: left_page_def portal_ops)
  then show "same_page s (on_portal_mailboxes preferred seen k boxes (end_portal (Portal_mailboxes_call preferred seen k) s))"
    by (cases k) (simp_all add: left_mailboxes after_mailboxes_loaded_def portal_ops same_page_def)
qed ((simp add: left_page_def forward_shown_def portal_factor_shown_def; fail)
    | (rule same_pageI; simp add: left_page_def portal_answers portal_ops))+

lemma left_same: "left_page s \<Longrightarrow> same_page s t \<Longrightarrow> left_page t"
proof -
  assume "left_page s" "same_page s t"
  moreover have "left_page (t\<lparr>pt_calls := []\<rparr>) = left_page t" "left_page (s\<lparr>pt_calls := []\<rparr>) = left_page s"
    by (simp_all add: left_page_def)
  ultimately show ?thesis by (simp add: same_page_def)
qed

theorem left_page_unchanged:
  assumes "left_page s" "run (portal_step valid_email jobs_of) s es t"
  shows "same_page s t"
  using assms(2,1)
proof (induction rule: run.induct)
  case (run_Cons s e t es u)
  then have "same_page s t" using left_step by blast
  then show ?case using run_Cons left_same by (auto simp: same_page_def)
qed (simp add: same_page_def)

section \<open>Jobs\<close>

fun jobs_load :: "portal_call \<Rightarrow> nat option option" where
  "jobs_load (Jobs_call m saving) = Some (Some m)"
| "jobs_load _ = None"

definition jobs_view :: "portal_settings \<Rightarrow> (nat option, jstr) listing" where
  "jobs_view s =
     \<lparr>ls_par = ff_mailbox (pt_form s),
      ls_due = (pt_jobs_due s \<noteq> No_jobs_due \<or> ff_mailbox (pt_form s) = None \<or> \<not> pt_mounted s),
      ls_loads = List.map_filter jobs_load (pt_calls s), ls_rows = map fj_id (pt_jobs s)\<rparr>"

definition jobs_hold :: "(nat \<Rightarrow> jstr \<Rightarrow> bool) \<Rightarrow> nat option \<Rightarrow> jstr \<Rightarrow> bool" where
  "jobs_hold jobs_of m i = (case m of None \<Rightarrow> True | Some x \<Rightarrow> jobs_of x i)"

lemma jobs_quiet:
  assumes "ff_mailbox (pt_form t) = ff_mailbox (pt_form s)" "pt_mounted t = pt_mounted s" "pt_jobs_due t = pt_jobs_due s"
    "List.map_filter jobs_load (pt_calls t) = List.map_filter jobs_load (pt_calls s)" "pt_jobs t = pt_jobs s"
  shows "listing_step holds ok (jobs_view s) (jobs_view t)"
  using assms by (intro listing_same) (simp add: jobs_view_def)

lemma jobs_effects:
  assumes "pt_calls t = pt_calls s" "pt_jobs t = pt_jobs s" "pt_mounted t = pt_mounted s" "pt_jobs_due t = pt_jobs_due s"
  shows "listing_step holds ok (jobs_view s) (jobs_view (portal_effects l s t))"
proof (cases "l \<or> portal_must_change t \<noteq> portal_must_change s \<or> ff_mailbox (pt_form t) \<noteq> ff_mailbox (pt_form s)")
  case True
  then show ?thesis using assms by (intro listing_step.change) (auto simp: jobs_view_def portal_effects_def Let_def)
next
  case False
  then show ?thesis using assms by (intro listing_same) (simp add: jobs_view_def portal_effects_def Let_def)
qed

lemma jobs_left: "\<not> pt_mounted t \<Longrightarrow> listing_step holds ok (jobs_view s) (jobs_view t)"
  by (rule listing_step.change) (simp add: jobs_view_def)

lemma jobs_effect: "listing_step holds ok (jobs_view s) (jobs_view (run_jobs_effect s))"
proof (cases "pt_jobs_due s = Jobs_load_due \<and> ff_mailbox (pt_form s) \<noteq> None")
  case True
  then show ?thesis
    by (intro start_load [where p = "ff_mailbox (pt_form s)"])
      (auto simp: jobs_view_def run_jobs_effect_def portal_ops Let_def List.map_filter_simps)
next
  case False
  then show ?thesis
    by (cases "pt_jobs_due s")
      (auto simp: run_jobs_effect_def portal_ops Let_def jobs_view_def intro: listing_same listing_step.cleared)
qed

lemma jobs_mailboxes:
  "jobs_load c = None \<Longrightarrow> listing_step holds ok (jobs_view s) (jobs_view (on_portal_mailboxes preferred seen k boxes (end_portal c s)))"
proof (cases "pt_mounted s")
  case True
  assume c: "jobs_load c = None"
  define u where "u = (case boxes of None \<Rightarrow> end_portal c s | Some items \<Rightarrow>
      portal_effects False (end_portal c s) (sync_forward_form (mailbox_to_focus preferred seen items) (end_portal c s\<lparr>pt_mailboxes := items\<rparr>)))"
  have done_eq: "on_portal_mailboxes preferred seen k boxes (end_portal c s) = after_mailboxes_loaded k u"
    using True by (simp add: on_portal_mailboxes_def u_def end_portal_def split: option.split)
  have view: "jobs_view (end_portal c s) = jobs_view s"
    using c by (simp add: jobs_view_def end_portal_def map_filter_remove1_None)
  have loads: "ls_loads (jobs_view u) = ls_loads (jobs_view s)"
    unfolding view [symmetric]
    by (simp add: u_def jobs_view_def portal_effects_def sync_forward_form_def Let_def split: option.split)
  have "listing_step holds ok (jobs_view (end_portal c s)) (jobs_view u)"
    unfolding u_def
    by (cases boxes; simp only: option.case; rule listing_same jobs_effects; simp add: sync_forward_form_def split: option.split)
  then have u: "listing_step holds ok (jobs_view s) (jobs_view u)" by (simp add: view)
  show ?thesis
  proof (cases k)
    case (Forward_jobs m)
    then show ?thesis unfolding done_eq using loads
      by (intro start_load [where p = "Some m"])
        (simp add: after_mailboxes_loaded_def portal_ops jobs_view_def List.map_filter_simps)
  next
    case Password_done
    then have "jobs_view (after_mailboxes_loaded k u) = jobs_view u" by (simp add: after_mailboxes_loaded_def jobs_view_def)
    then show ?thesis using u by (simp add: done_eq)
  next
    case Mailboxes_only
    then have "after_mailboxes_loaded k u = u" by (simp add: after_mailboxes_loaded_def)
    then show ?thesis using u by (simp only: done_eq)
  qed
next
  case False
  then have "\<not> pt_mounted (end_portal c s)" by (simp add: end_portal_def)
  then show ?thesis
    by (cases k) (auto simp: left_mailboxes after_mailboxes_loaded_def portal_ops intro!: jobs_left)
qed

lemma jobs_session:
  "jobs_load c = None \<Longrightarrow> listing_step holds ok (jobs_view s) (jobs_view (on_portal_session saving seen session (end_portal c s)))"
proof -
  assume c: "jobs_load c = None"
  define u where "u = (case session of None \<Rightarrow> end_portal c s | Some p \<Rightarrow>
      if \<not> pt_mounted (end_portal c s) then end_portal c s else portal_effects False (end_portal c s)
        (end_portal c s\<lparr>pt_session := Some p, pt_user := map_option (merge_user p) (pt_user (end_portal c s))\<rparr>))"
  have "listing_step holds ok (jobs_view (end_portal c s)) (jobs_view u)"
    unfolding u_def by (cases session; cases "pt_mounted (end_portal c s)"; simp only: option.case if_True if_False simp_thms;
        rule listing_same jobs_effects; simp)
  then have "listing_step holds ok (jobs_view s) (jobs_view u)"
    using c by (simp add: jobs_view_def end_portal_def map_filter_remove1_None)
  moreover have "on_portal_session saving seen session (end_portal c s) =
      (if saving then portal_load_mailboxes None seen Password_done u else u)"
    unfolding on_portal_session_def u_def by (simp only: Let_def)
  moreover have "jobs_view (portal_load_mailboxes None seen Password_done u) = jobs_view u"
    by (simp add: jobs_view_def portal_ops List.map_filter_simps)
  ultimately show ?thesis by simp
qed

lemma jobs_view_step:
  assumes "portal_step valid_email jobs_of s e t"
  shows "listing_step (jobs_hold jobs_of) True (jobs_view s) (jobs_view t)"
  using assms
proof cases
  case jobs_timer
  show ?thesis unfolding jobs_timer by (rule jobs_effect)
next
  case portal_language
  show ?thesis unfolding portal_language by (rule jobs_effects) simp_all
next
  case portal_leave
  show ?thesis unfolding portal_leave by (rule jobs_left) simp
next
  case (pick_mailbox m)
  show ?thesis unfolding pick_mailbox choose_mailbox_def
    by (rule jobs_effects) (simp_all add: sync_forward_form_def split: option.split)
next
  case (session_loaded c saving seen session)
  then show ?thesis by (simp add: jobs_session)
next
  case (boxes_loaded c preferred seen k boxes)
  then show ?thesis by (simp add: jobs_mailboxes)
next
  case (jobs_loaded c m saving jobs)
  show ?thesis
  proof (cases "pt_mounted s")
    case True
    have "Some m \<in> set (List.map_filter jobs_load (pt_calls s))" using jobs_loaded by (intro map_filter_mem [of c]) simp_all
    then show ?thesis using jobs_loaded True
      by (intro listing_step.answered [of "Some m"])
        (auto simp: jobs_view_def jobs_hold_def on_forwarding_jobs_def end_portal_def list_all_iff split: option.split)
  next
    case False
    then show ?thesis unfolding jobs_loaded by (intro jobs_left) (simp add: on_forwarding_jobs_def end_portal_def)
  qed
qed (rule jobs_quiet; simp add: portal_answers portal_ops load_two_factor_status_def handle_password_submit_def
      handle_forward_submit_def handle_setup_two_factor_def handle_enable_two_factor_def handle_disable_two_factor_def
      Let_def List.map_filter_simps map_filter_remove1_None split: option.split)+

interpretation jobs_list: listing portal_start "portal_step valid_email jobs_of" jobs_view "\<lambda>_. False" "jobs_hold jobs_of"
  for valid_email jobs_of
proof unfold_locales
  show "listing_fresh (jobs_hold jobs_of) (jobs_view s)" if "portal_start s" for s
    using that by (intro fresh_empty) (auto simp: portal_start_def portal_fresh_def portal_effects_def Let_def jobs_view_def)
qed (simp add: jobs_view_step)

text \<open>With nothing due or loading, the recent jobs are those of the mailbox in the form, in every run in which no jobs of
  another mailbox are being loaded.\<close>

theorem jobs_of_selected_mailbox:
  assumes "reach portal_start (calm_step jobs_view (\<lambda>_. False) (portal_step valid_email jobs_of)) s"
    "pt_mounted s" "ff_mailbox (pt_form s) = Some m" "pt_jobs_due s = No_jobs_due" "\<forall>c \<in> set (pt_calls s). jobs_load c = None"
  shows "list_all (\<lambda>job. jobs_of m (fj_id job)) (pt_jobs s)"
proof -
  have "listing_settled (jobs_view s)" using assms(2-5) by (simp add: listing_settled_def jobs_view_def map_filter_Nil)
  from jobs_list.settled_rows [OF assms(1) this] show ?thesis
    using assms(3) by (simp add: jobs_view_def jobs_hold_def list_all_iff)
qed

section \<open>Operations and requests\<close>

fun password_operation :: "portal_call \<Rightarrow> bool" where
  "password_operation (Portal_password_call seen) = True"
| "password_operation (Session_call saving seen) = saving"
| "password_operation (Portal_mailboxes_call preferred seen k) = (k = Password_done)"
| "password_operation _ = False"

fun forward_operation :: "portal_call \<Rightarrow> bool" where
  "forward_operation (Forwarding_call p seen) = True"
| "forward_operation (Portal_mailboxes_call preferred seen k) = (case k of Forward_jobs m \<Rightarrow> True | _ \<Rightarrow> False)"
| "forward_operation (Jobs_call m saving) = saving"
| "forward_operation _ = False"

fun factor_operation :: "portal_call \<Rightarrow> bool" where
  "factor_operation Portal_setup_call = True"
| "factor_operation (Portal_enable_call v can) = True"
| "factor_operation (Portal_disable_call p v can) = True"
| "factor_operation (Status_call saving) = saving"
| "factor_operation _ = False"

text \<open>Forwarding names a valid target exactly when it is on; codes have six digits.\<close>

fun proper_portal_call :: "(jstr \<Rightarrow> bool) \<Rightarrow> portal_call \<Rightarrow> bool" where
  "proper_portal_call valid_email (Forwarding_call p seen) \<longleftrightarrow>
     (case fp_to p of None \<Rightarrow> fp_mode p = Forward_disabled
      | Some v \<Rightarrow> fp_mode p \<noteq> Forward_disabled \<and> v \<noteq> [] \<and> valid_email v)"
| "proper_portal_call valid_email (Portal_enable_call v can) \<longleftrightarrow> six_digits v \<and> can"
| "proper_portal_call valid_email (Portal_disable_call p v can) \<longleftrightarrow> p \<noteq> [] \<and> six_digits v \<and> can"
| "proper_portal_call valid_email _ \<longleftrightarrow> True"

definition portal_inv :: "(jstr \<Rightarrow> bool) \<Rightarrow> portal_settings \<Rightarrow> bool" where
  "portal_inv valid_email s \<longleftrightarrow>
     (pt_mounted s \<longrightarrow> busy_with password_operation (pt_password_loading s) (pt_calls s)
        \<and> busy_with forward_operation (pt_forward_loading s) (pt_calls s)
        \<and> busy_with factor_operation (pt_factor_loading s) (pt_calls s)
        \<and> (pt_setup s \<noteq> None \<longrightarrow> pt_pending s))
     \<and> list_all (proper_portal_call valid_email) (pt_calls s)"

lemma effects_calm [simp]:
  "pt_mounted (portal_effects l s t) = pt_mounted t" "pt_calls (portal_effects l s t) = pt_calls t"
  "pt_password_loading (portal_effects l s t) = pt_password_loading t"
  "pt_forward_loading (portal_effects l s t) = pt_forward_loading t"
  "pt_factor_loading (portal_effects l s t) = pt_factor_loading t"
  "pt_setup (portal_effects l s t) = pt_setup t" "pt_pending (portal_effects l s t) = pt_pending t"
  by (simp_all add: portal_effects_def Let_def)

lemma sync_calm [simp]:
  "pt_mounted (sync_forward_form m t) = pt_mounted t" "pt_calls (sync_forward_form m t) = pt_calls t"
  "pt_password_loading (sync_forward_form m t) = pt_password_loading t"
  "pt_forward_loading (sync_forward_form m t) = pt_forward_loading t"
  "pt_factor_loading (sync_forward_form m t) = pt_factor_loading t"
  "pt_setup (sync_forward_form m t) = pt_setup t" "pt_pending (sync_forward_form m t) = pt_pending t"
  by (simp_all add: sync_forward_form_def split: option.split)

lemma portal_frame:
  assumes "portal_inv valid_email s" "pt_mounted t = pt_mounted s" "pt_calls t = pt_calls s"
    "pt_password_loading t = pt_password_loading s" "pt_forward_loading t = pt_forward_loading s"
    "pt_factor_loading t = pt_factor_loading s" "pt_setup t = pt_setup s" "pt_pending t = pt_pending s"
  shows "portal_inv valid_email t"
  using assms by (simp add: portal_inv_def)

text \<open>A request is added that belongs to no operation, or a request that belongs to none has been answered.\<close>

lemma portal_push_free:
  "portal_inv valid_email s \<Longrightarrow> \<not> password_operation c \<Longrightarrow> \<not> forward_operation c \<Longrightarrow> \<not> factor_operation c \<Longrightarrow>
     proper_portal_call valid_email c \<Longrightarrow> portal_inv valid_email (push_portal c s)"
  by (simp add: portal_inv_def push_portal_def)

lemma portal_end_free:
  "portal_inv valid_email s \<Longrightarrow> \<not> password_operation c \<Longrightarrow> \<not> forward_operation c \<Longrightarrow> \<not> factor_operation c \<Longrightarrow>
     portal_inv valid_email (end_portal c s)"
  by (simp add: portal_inv_def end_portal_def proper_remove1)

lemma portal_mailboxes_inv:
  assumes "portal_inv valid_email s" "Portal_mailboxes_call preferred seen k \<in> set (pt_calls s)"
  shows "portal_inv valid_email (on_portal_mailboxes preferred seen k boxes (end_portal (Portal_mailboxes_call preferred seen k) s))"
proof -
  let ?c = "Portal_mailboxes_call preferred seen k"
  define u where "u = (case boxes of None \<Rightarrow> end_portal ?c s | Some items \<Rightarrow>
      if \<not> pt_mounted (end_portal ?c s) then end_portal ?c s else portal_effects False (end_portal ?c s)
        (sync_forward_form (mailbox_to_focus preferred seen items) (end_portal ?c s\<lparr>pt_mailboxes := items\<rparr>)))"
  have u: "pt_mounted u = pt_mounted s" "pt_calls u = remove1 ?c (pt_calls s)" "pt_password_loading u = pt_password_loading s"
    "pt_forward_loading u = pt_forward_loading s" "pt_factor_loading u = pt_factor_loading s" "pt_setup u = pt_setup s"
    "pt_pending u = pt_pending s"
    by (cases boxes; simp add: u_def end_portal_def)+
  have eq: "on_portal_mailboxes preferred seen k boxes (end_portal ?c s) = after_mailboxes_loaded k u"
    unfolding on_portal_mailboxes_def u_def ..
  show ?thesis unfolding eq using assms
    by (cases k) (auto simp: after_mailboxes_loaded_def portal_inv_def portal_ops u proper_remove1 intro: busy_end busy_next)
qed

lemma portal_session_inv:
  assumes "portal_inv valid_email s" "Session_call saving seen \<in> set (pt_calls s)"
  shows "portal_inv valid_email (on_portal_session saving seen session (end_portal (Session_call saving seen) s))"
proof -
  let ?c = "Session_call saving seen"
  define u where "u = (case session of None \<Rightarrow> end_portal ?c s | Some p \<Rightarrow>
      if \<not> pt_mounted (end_portal ?c s) then end_portal ?c s else portal_effects False (end_portal ?c s)
        (end_portal ?c s\<lparr>pt_session := Some p, pt_user := map_option (merge_user p) (pt_user (end_portal ?c s))\<rparr>))"
  have u: "pt_mounted u = pt_mounted s" "pt_calls u = remove1 ?c (pt_calls s)" "pt_password_loading u = pt_password_loading s"
    "pt_forward_loading u = pt_forward_loading s" "pt_factor_loading u = pt_factor_loading s" "pt_setup u = pt_setup s"
    "pt_pending u = pt_pending s"
    by (cases session; simp add: u_def end_portal_def)+
  have eq: "on_portal_session saving seen session (end_portal ?c s) =
      (if saving then portal_load_mailboxes None seen Password_done u else u)"
    unfolding on_portal_session_def u_def by (simp only: Let_def)
  show ?thesis unfolding eq using assms
    by (cases saving) (auto simp: portal_inv_def portal_ops u proper_remove1 intro: busy_next)
qed

lemma portal_inv_step: "portal_step valid_email jobs_of s e t \<Longrightarrow> portal_inv valid_email s \<Longrightarrow> portal_inv valid_email t"
proof (induction rule: portal_step.induct)
  case (portal_password s old_password new_password confirm)
  then show ?case by (simp add: handle_password_submit_def portal_inv_def portal_ops busy_begin)
next
  case (submit_forward s m mode)
  then show ?case
    by (auto simp: handle_forward_submit_def forward_request_def portal_inv_def portal_ops busy_begin opt_text_def)
next
  case (portal_setup s)
  then show ?case by (simp add: handle_setup_two_factor_def portal_inv_def portal_ops busy_begin)
next
  case (portal_enable s v)
  then show ?case
    by (simp add: handle_enable_two_factor_def Let_def portal_factor_shown_def portal_inv_def portal_ops busy_begin)
next
  case (portal_disable s password v)
  then show ?case by (simp add: handle_disable_two_factor_def portal_factor_shown_def portal_inv_def portal_ops busy_begin)
next
  case (session_loaded c saving seen s session)
  then show ?case by (simp add: portal_session_inv)
next
  case (boxes_loaded c preferred seen k s boxes)
  then show ?case by (simp add: portal_mailboxes_inv)
next
  case (jobs_loaded c m saving s jobs)
  then show ?case
    by (cases saving) (auto simp: on_forwarding_jobs_def portal_inv_def portal_ops proper_remove1 intro: busy_end)
next
  case (status_loaded c saving s status)
  then show ?case
    by (cases saving) (auto simp: on_two_factor_status_def portal_inv_def portal_ops proper_remove1 intro: busy_end split: option.split)
next
  case (password_saved c seen s ok)
  then show ?case by (auto simp: on_portal_password_def portal_inv_def portal_ops proper_remove1 intro: busy_end busy_next)
next
  case (forwarding_saved c p seen s ok)
  then show ?case by (auto simp: on_forwarding_saved_def portal_inv_def portal_ops proper_remove1 intro: busy_end busy_next)
next
  case (portal_setup_done c s data)
  then show ?case
    by (auto simp: on_two_factor_setup_def portal_inv_def portal_ops proper_remove1 intro: busy_end split: option.split)
next
  case (portal_enabled c v can s ok)
  then show ?case
    by (auto simp: on_two_factor_enabled_def load_two_factor_status_def portal_inv_def portal_ops proper_remove1
        intro: busy_end busy_next)
next
  case (portal_disabled c password v can s ok)
  then show ?case
    by (auto simp: on_two_factor_disabled_def load_two_factor_status_def portal_inv_def portal_ops proper_remove1
        intro: busy_end busy_next)
next
  case (pick_mailbox s m)
  show ?case by (rule portal_frame [OF pick_mailbox(3)]) (simp_all add: choose_mailbox_def)
next
  case (portal_language s)
  show ?case by (rule portal_frame [OF portal_language(2)]) simp_all
qed (auto simp: portal_inv_def portal_ops load_two_factor_status_def run_jobs_effect_def Let_def split: option.split jobs_due.split)

lemma portal_inv_start: "portal_start s \<Longrightarrow> portal_inv valid_email s"
  by (auto simp: portal_start_def portal_inv_def portal_fresh_def busy_with_def one_if_def)

interpretation portal: machine_invariant portal_start "portal_step valid_email jobs_of" "portal_inv valid_email"
  for valid_email jobs_of
  by unfold_locales (fact portal_inv_start, rule portal_inv_step)

text \<open>While the page is shown, each of its three buttons is busy exactly while one request of its operation is under
  way; every forwarding request has a valid target exactly when it forwards; codes have six digits.\<close>

theorem portal_operations_proper:
  assumes "reach portal_start (portal_step valid_email jobs_of) s" "pt_mounted s"
  shows "busy_with password_operation (pt_password_loading s) (pt_calls s)
    \<and> busy_with forward_operation (pt_forward_loading s) (pt_calls s)
    \<and> busy_with factor_operation (pt_factor_loading s) (pt_calls s)
    \<and> (pt_setup s \<noteq> None \<longrightarrow> pt_pending s) \<and> list_all (proper_portal_call valid_email) (pt_calls s)"
  using portal.inv_reach [OF assms(1)] assms(2) by (simp add: portal_inv_def)

section \<open>Edits that are taken back\<close>

text \<open>Choosing a mailbox loads the mailboxes again, and the answer fills the form again: a target typed in the meantime
  is replaced by the one the server has.\<close>

theorem typed_target_taken_back:
  assumes "forward_shown s" "ff_mailbox (pt_form s) \<noteq> Some (pm_id b)" "find (\<lambda>item. pm_id item = pm_id b) (pt_mailboxes s) = Some b"
    "pm_forward_mode b = Some mode" "mode \<noteq> Forward_disabled"
  shows "\<exists>t u. run (portal_step valid_email jobs_of) s [Mailbox_picked (pm_id b), Boxes_timer, Target_typed v] t
    \<and> ff_to (pt_form t) = Some v \<and> \<not> list_ex forward_operation (filter (\<lambda>c. c \<notin> set (pt_calls s)) (pt_calls t))
    \<and> portal_step valid_email jobs_of t
         (Boxes_loaded (Portal_mailboxes_call None (Some (pm_id b)) Mailboxes_only) (Some (pt_mailboxes s))) u
    \<and> ff_mailbox (pt_form u) = Some (pm_id b) \<and> ff_to (pt_form u) = opt_text (pm_forward_to b)"
proof -
  let ?st = "portal_step valid_email jobs_of" and ?c = "Portal_mailboxes_call None (Some (pm_id b)) Mailboxes_only"
  have shown: "pt_mounted s" "\<not> portal_must_change s" using assms(1) by (simp_all add: forward_shown_def)
  let ?form = "\<lparr>ff_mailbox = Some (pm_id b), ff_mode = Some mode, ff_to = opt_text (pm_forward_to b)\<rparr>"
  define p where "p = s\<lparr>pt_form := ?form, pt_mailboxes_due := True, pt_jobs_due := Jobs_load_due\<rparr>"
  have must: "portal_must_change (s\<lparr>pt_form := f\<rparr>) = portal_must_change s"
    "can_manage_two_factor (s\<lparr>pt_form := f\<rparr>) = can_manage_two_factor s" for f
    by (rule must_frame; simp)+
  have "choose_mailbox (pm_id b) s = p"
    using assms(2-4) shown
    by (simp add: choose_mailbox_def sync_forward_form_def portal_effects_def Let_def must p_def)
  moreover have "pm_id b \<in> set (map pm_id (pt_mailboxes s))" using assms(3) by (auto simp: find_Some_iff)
  ultimately have sp: "?st s (Mailbox_picked (pm_id b)) p" using pick_mailbox [OF assms(1), of "pm_id b"] by simp
  define q where "q = portal_load_mailboxes None (Some (pm_id b)) Mailboxes_only (p\<lparr>pt_mailboxes_due := False\<rparr>)"
  have pq: "?st p Boxes_timer q" using boxes_timer [of p valid_email jobs_of] by (simp add: q_def p_def)
  define t where "t = q\<lparr>pt_form := (pt_form q)\<lparr>ff_to := Some v\<rparr>\<rparr>"
  have t: "pt_mounted t" "\<not> portal_must_change t" "pt_calls t = ?c # pt_calls s" "pt_mailboxes t = pt_mailboxes s"
    "pt_form t = ?form\<lparr>ff_to := Some v\<rparr>"
    using shown must_frame(1) [of t s] by (simp_all add: t_def q_def p_def portal_ops)
  have qt: "?st q (Target_typed v) t" unfolding t_def
    by (rule type_target) (use shown assms(5) must_frame(1) [of q s] in \<open>simp_all add: forward_shown_def q_def p_def portal_ops\<close>)
  define u where "u = on_portal_mailboxes None (Some (pm_id b)) Mailboxes_only (Some (pt_mailboxes s)) (end_portal ?c t)"
  have tu: "?st t (Boxes_loaded ?c (Some (pt_mailboxes s))) u" unfolding u_def by (rule boxes_loaded) (simp_all add: t)
  have focus: "mailbox_to_focus None (Some (pm_id b)) (pt_mailboxes s) = Some b"
  proof -
    have "find (\<lambda>item. Some (pm_id item) = None) (pt_mailboxes s) = None" by (simp add: find_None_iff)
    moreover have "find (\<lambda>item. Some (pm_id item) = Some (pm_id b)) (pt_mailboxes s) = Some b" using assms(3) by simp
    ultimately show ?thesis unfolding mailbox_to_focus_def by (simp only: option.case)
  qed
  define x where "x = sync_forward_form (Some b) (end_portal ?c t\<lparr>pt_mailboxes := pt_mailboxes s\<rparr>)"
  have "u = portal_effects False (end_portal ?c t) x"
    using t(1) focus by (simp add: u_def on_portal_mailboxes_def after_mailboxes_loaded_def x_def end_portal_def)
  moreover have "\<not> portal_must_change x"
    using t(2) must_frame(1) [of "end_portal ?c t\<lparr>pt_mailboxes := pt_mailboxes s\<rparr>" t] by (simp add: x_def end_portal_def)
  moreover have "pt_form x = ?form" using t(1) assms(4) by (simp add: x_def sync_forward_form_def end_portal_def)
  ultimately have "pt_form u = ?form" by (simp add: effects_form)
  moreover have "filter (\<lambda>c. c \<notin> set (pt_calls s)) (pt_calls t) = (if ?c \<in> set (pt_calls s) then [] else [?c])" by (simp add: t)
  ultimately show ?thesis using sp pq qt tu t(5) by (intro exI [of _ t] exI [of _ u]) auto
qed

section \<open>Witnesses\<close>

definition portal_first :: portal_settings where
  "portal_first = portal_effects True (portal_fresh None) (portal_fresh None)"

lemma portal_first_start: "portal_start portal_first"
  by (auto simp: portal_start_def portal_first_def)

text \<open>The page with its two mailboxes loaded, the first of them in the form.\<close>

definition portal_boxes :: "portal_mailbox list \<Rightarrow> portal_settings" where
  "portal_boxes boxes =
     on_portal_mailboxes None None Mailboxes_only (Some boxes)
       (end_portal (Portal_mailboxes_call None None Mailboxes_only)
         (portal_load_mailboxes None None Mailboxes_only (portal_first\<lparr>pt_mailboxes_due := False\<rparr>)))"

lemmas portal_demo = portal_boxes_def portal_first_def portal_fresh_def portal_effects_def empty_form_def
  on_portal_mailboxes_def after_mailboxes_loaded_def sync_forward_form_def mailbox_to_focus_def portal_must_change_def
  portal_ops Let_def

lemma portal_boxes_reach:
  "reach portal_start (calm_step jobs_view (\<lambda>_. False) (portal_step valid_email jobs_of)) (portal_boxes boxes)"
proof -
  let ?c = "Portal_mailboxes_call None None Mailboxes_only" and ?st = "portal_step valid_email jobs_of"
  let ?s = "portal_load_mailboxes None None Mailboxes_only (portal_first\<lparr>pt_mailboxes_due := False\<rparr>)"
  have calm: "listing_calm (jobs_view s)" if "\<forall>c \<in> set (pt_calls s). jobs_load c = None" for s
    using that by (simp add: listing_calm_def jobs_view_def map_filter_Nil)
  have "?st portal_first Boxes_timer ?s"
    using boxes_timer [of portal_first valid_email jobs_of] by (simp add: portal_demo)
  then have "calm_step jobs_view (\<lambda>_. False) ?st portal_first Boxes_timer ?s"
    by (rule calm_stepI) (simp, rule calm, simp add: portal_demo)
  moreover have "?st ?s (Boxes_loaded ?c (Some boxes)) (portal_boxes boxes)"
    unfolding portal_boxes_def by (rule boxes_loaded) (simp_all add: portal_ops)
  then have "calm_step jobs_view (\<lambda>_. False) ?st ?s (Boxes_loaded ?c (Some boxes)) (portal_boxes boxes)"
    by (rule calm_stepI) (simp, rule calm, simp add: portal_boxes_def on_portal_mailboxes_def after_mailboxes_loaded_def portal_ops portal_first_def portal_fresh_def)
  moreover have "reach portal_start (calm_step jobs_view (\<lambda>_. False) ?st) portal_first" using portal_first_start by (rule reach_start)
  ultimately show ?thesis by (blast intro: reach_step)
qed

definition forwarding_box :: "nat \<Rightarrow> portal_mailbox" where
  "forwarding_box i =
     \<lparr>pm_id = i, pm_address = js ''a@b.test'', pm_provisioning = None, pm_forward_mode = Some Forward_copy,
      pm_forward_to = Some (js ''x@y.test''), pm_profile = None, pm_send_ready = True, pm_domain_can_send = True\<rparr>"

lemma left_page_unchanged_witness:
  "pt_jobs (end_portal (Status_call False) (push_portal (Status_call False) (portal_fresh None)\<lparr>pt_mounted := False\<rparr>)) = []"
proof -
  let ?s = "push_portal (Status_call False) (portal_fresh None)\<lparr>pt_mounted := False\<rparr>"
  let ?t = "on_two_factor_status False (Some (True, False)) (end_portal (Status_call False) ?s)"
  have "portal_step (\<lambda>v. True) (\<lambda>m i. True) ?s (Status_loaded (Status_call False) (Some (True, False))) ?t"
    by (rule status_loaded) (simp_all add: portal_ops)
  then have run: "run (portal_step (\<lambda>v. True) (\<lambda>m i. True)) ?s [Status_loaded (Status_call False) (Some (True, False))] ?t" by simp
  have "left_page ?s" by (simp add: left_page_def portal_ops portal_fresh_def)
  from left_page_unchanged [OF this run] have "same_page ?s ?t" .
  then show ?thesis by (simp add: portal_ops portal_fresh_def)
qed

lemma portal_operations_proper_witness:
  "busy_with password_operation False (pt_calls (portal_boxes [forwarding_box 7]))"
proof -
  have "reach portal_start (portal_step (\<lambda>v. True) (\<lambda>m i. True)) (portal_boxes [forwarding_box 7])"
    using portal_boxes_reach by (rule calm_reach)
  from portal_operations_proper [OF this] show ?thesis by (simp add: portal_demo forwarding_box_def)
qed

lemma typed_target_taken_back_witness:
  "\<exists>es t. run (portal_step (\<lambda>v. True) (\<lambda>m i. True)) (portal_boxes [forwarding_box 7, forwarding_box 8]) es t
     \<and> Target_typed (js ''new@y.test'') \<in> set es \<and> ff_to (pt_form t) = Some (js ''x@y.test'')"
proof -
  let ?s = "portal_boxes [forwarding_box 7, forwarding_box 8]" and ?v = "js ''new@y.test''"
  have "forward_shown ?s" "ff_mailbox (pt_form ?s) \<noteq> Some (pm_id (forwarding_box 8))"
    "find (\<lambda>item. pm_id item = pm_id (forwarding_box 8)) (pt_mailboxes ?s) = Some (forwarding_box 8)"
    by (simp_all add: forward_shown_def portal_demo forwarding_box_def)
  moreover have mode: "pm_forward_mode (forwarding_box 8) = Some Forward_copy" "Forward_copy \<noteq> Forward_disabled"
    and target: "opt_text (pm_forward_to (forwarding_box 8)) = Some (js ''x@y.test'')"
    by (simp_all add: forwarding_box_def opt_text_def)
  ultimately obtain t u where t: "run (portal_step (\<lambda>v. True) (\<lambda>m i. True)) ?s
        [Mailbox_picked (pm_id (forwarding_box 8)), Boxes_timer, Target_typed ?v] t"
      and "portal_step (\<lambda>v. True) (\<lambda>m i. True) t (Boxes_loaded
         (Portal_mailboxes_call None (Some (pm_id (forwarding_box 8))) Mailboxes_only) (Some (pt_mailboxes ?s))) u"
      and "ff_to (pt_form u) = Some (js ''x@y.test'')"
    unfolding target [symmetric] using typed_target_taken_back [of ?s "forwarding_box 8" Forward_copy "\<lambda>v. True" "\<lambda>m i. True" ?v]
    by blast
  moreover obtain e where "e = Boxes_loaded
         (Portal_mailboxes_call None (Some (pm_id (forwarding_box 8))) Mailboxes_only) (Some (pt_mailboxes ?s))" by blast
  ultimately have "portal_step (\<lambda>v. True) (\<lambda>m i. True) t e u" "ff_to (pt_form u) = Some (js ''x@y.test'')" by simp_all
  with run_snoc [OF t, of e u] show ?thesis
    by (intro exI [of _ "[Mailbox_picked (pm_id (forwarding_box 8)), Boxes_timer, Target_typed ?v] @ [e]"] exI [of _ u] conjI)
      (assumption, simp_all)
qed

end
