(* ===== verification/PortalOverview.thy ===== *)
theory PortalOverview
  imports PortalSettings
begin

text \<open>
  The first page of the mail portal (web/src/pages/mail-portal/overview/index.tsx): its load of the session, the mailboxes and the unread
  messages, the demonstration data of a local host, and the figures it shows. A change of the language loads everything again and
  drops the answer that was waited for.
\<close>

section \<open>Data\<close>

record overview_mailbox =
  om_id :: nat
  om_send_ready :: bool
  om_can_send :: "bool option"
  om_forward :: "forward_mode option"

record overview_session =
  os_id :: int
  os_username :: jstr
  os_email :: "jstr option option"
  os_must_change :: "bool option"
  os_mailbox_ids :: "int list option"

definition overview_send_status :: "overview_mailbox \<Rightarrow> send_status" where
  "overview_send_status m =
     (if om_send_ready m then Send_ready else if om_can_send m = Some True then Send_pending_setup else Inbox_only)"

definition portal_overview_proof_mode :: jstr where
  "portal_overview_proof_mode = js ''unread-demo''"

definition proof_mailboxes :: "overview_mailbox list" where
  "proof_mailboxes =
     [\<lparr>om_id = 1, om_send_ready = True, om_can_send = Some True, om_forward = Some Forward_copy\<rparr>,
      \<lparr>om_id = 2, om_send_ready = False, om_can_send = Some True, om_forward = Some Forward_disabled\<rparr>,
      \<lparr>om_id = 3, om_send_ready = True, om_can_send = Some True, om_forward = Some Forward_move\<rparr>,
      \<lparr>om_id = 4, om_send_ready = False, om_can_send = Some False, om_forward = Some Forward_copy\<rparr>,
      \<lparr>om_id = 5, om_send_ready = True, om_can_send = Some True, om_forward = Some Forward_disabled\<rparr>]"

definition proof_messages :: "jstr list" where
  "proof_messages = [js ''demo-001'', js ''demo-002'', js ''demo-003'']"

definition is_portal_proof_host :: "jstr option \<Rightarrow> bool" where
  "is_portal_proof_host hostname =
     (case hostname of None \<Rightarrow> False | Some h \<Rightarrow> h = js ''127.0.0.1'' \<or> h = js ''localhost'')"

definition is_unread_proof :: "jstr option \<Rightarrow> jstr option \<Rightarrow> bool" where
  "is_unread_proof hostname param \<longleftrightarrow>
     (if is_portal_proof_host hostname then (case param of None \<Rightarrow> [] | Some p \<Rightarrow> trim p) else []) = portal_overview_proof_mode"

section \<open>State\<close>

text \<open>A load carries the flag its effect sets when it is cleaned up.\<close>

type_synonym overview_call = bool

record overview_answer =
  oa_session :: "overview_session option"
  oa_mailboxes :: "overview_mailbox list option"
  oa_unread :: "(jstr list \<times> nat) option"

record overview_page =
  ov_proof :: bool
  ov_mounted :: bool
  ov_loading :: bool
  ov_session :: "overview_session option"
  ov_mailboxes :: "overview_mailbox list"
  ov_unread :: "jstr list"
  ov_unread_total :: nat
  ov_user :: "mailbox_user option"
  ov_calls :: "overview_call list"

definition overview_cleanup :: "overview_page \<Rightarrow> overview_page" where
  "overview_cleanup s = s\<lparr>ov_calls := map (\<lambda>disposed. True) (ov_calls s)\<rparr>"

definition overview_effect :: "overview_page \<Rightarrow> overview_page" where
  "overview_effect s = (if ov_proof s then s else s\<lparr>ov_loading := True, ov_calls := False # ov_calls s\<rparr>)"

definition lay_over :: "overview_session \<Rightarrow> mailbox_user \<Rightarrow> mailbox_user" where
  "lay_over p u =
     u\<lparr>mbu_id := os_id p, mbu_username := os_username p, mbu_email := (case os_email p of None \<Rightarrow> mbu_email u | Some e \<Rightarrow> e),
       mbu_must_change_password := (case os_must_change p of None \<Rightarrow> mbu_must_change_password u | Some b \<Rightarrow> Some b),
       mbu_mailbox_ids := (case os_mailbox_ids p of None \<Rightarrow> mbu_mailbox_ids u | Some ids \<Rightarrow> Some ids)\<rparr>"

definition on_overview :: "bool \<Rightarrow> overview_answer \<Rightarrow> overview_page \<Rightarrow> overview_page" where
  "on_overview disposed a s =
     (if disposed then s
      else
        let s1 = (case oa_session a of None \<Rightarrow> s | Some p \<Rightarrow> s\<lparr>ov_session := Some p, ov_user := map_option (lay_over p) (ov_user s)\<rparr>);
            s2 = (case oa_mailboxes a of None \<Rightarrow> s1 | Some ms \<Rightarrow> s1\<lparr>ov_mailboxes := ms\<rparr>);
            s3 = (case oa_unread a of None \<Rightarrow> s2 | Some (ms, n) \<Rightarrow> s2\<lparr>ov_unread := ms, ov_unread_total := n\<rparr>)
        in s3\<lparr>ov_loading := False\<rparr>)"

section \<open>What is shown\<close>

definition display_loading :: "overview_page \<Rightarrow> bool" where
  "display_loading s \<longleftrightarrow> \<not> ov_proof s \<and> ov_loading s"

definition display_mailboxes :: "overview_page \<Rightarrow> overview_mailbox list" where
  "display_mailboxes s = (if ov_proof s then proof_mailboxes else ov_mailboxes s)"

definition display_unread_total :: "overview_page \<Rightarrow> nat" where
  "display_unread_total s = (if ov_proof s then length proof_messages else ov_unread_total s)"

definition overview_send_enabled :: "overview_mailbox list \<Rightarrow> nat" where
  "overview_send_enabled ms = length (filter (\<lambda>m. om_can_send m = Some True) ms)"

definition overview_forwarding_enabled :: "overview_mailbox list \<Rightarrow> nat" where
  "overview_forwarding_enabled ms = length (filter (\<lambda>m. om_forward m \<noteq> None \<and> om_forward m \<noteq> Some Forward_disabled) ms)"

definition mailbox_highlights :: "overview_page \<Rightarrow> overview_mailbox list" where
  "mailbox_highlights s = take 4 (display_mailboxes s)"

section \<open>The machine\<close>

datatype overview_event = Overview_language | Overview_done bool overview_answer | Overview_left | Overview_signed_out

inductive overview_step :: "overview_page \<Rightarrow> overview_event \<Rightarrow> overview_page \<Rightarrow> bool" where
  overview_language: "ov_mounted s \<Longrightarrow> overview_step s Overview_language (overview_effect (overview_cleanup s))"
| overview_done: "disposed \<in> set (ov_calls s) \<Longrightarrow>
     overview_step s (Overview_done disposed a) (on_overview disposed a (s\<lparr>ov_calls := remove1 disposed (ov_calls s)\<rparr>))"
| overview_left: "ov_mounted s \<Longrightarrow> overview_step s Overview_left ((overview_cleanup s)\<lparr>ov_mounted := False\<rparr>)"
| overview_signed_out: "overview_step s Overview_signed_out (s\<lparr>ov_user := None\<rparr>)"

definition mount_overview :: "bool \<Rightarrow> mailbox_user option \<Rightarrow> overview_page" where
  "mount_overview degraded user =
     overview_effect \<lparr>ov_proof = degraded, ov_mounted = True, ov_loading = True, ov_session = None, ov_mailboxes = [], ov_unread = [],
       ov_unread_total = 0, ov_user = user, ov_calls = []\<rparr>"

definition overview_start :: "overview_page \<Rightarrow> bool" where
  "overview_start s \<longleftrightarrow> (\<exists>degraded user. s = mount_overview degraded user)"

section \<open>Properties\<close>

definition overview_inv :: "overview_page \<Rightarrow> bool" where
  "overview_inv s \<longleftrightarrow>
     length (filter Not (ov_calls s)) = (if ov_mounted s \<and> \<not> ov_proof s \<and> ov_loading s then 1 else 0)"

lemma overview_cleaned [simp]: "filter Not (map (\<lambda>disposed. True) cs) = []"
  by (induction cs) simp_all

lemma overview_inv_done:
  assumes "overview_inv s" "disposed \<in> set (ov_calls s)"
  shows "overview_inv (on_overview disposed a (s\<lparr>ov_calls := remove1 disposed (ov_calls s)\<rparr>))"
proof (cases disposed)
  case True
  then show ?thesis using assms by (simp add: overview_inv_def on_overview_def filter_remove1_other)
next
  case False
  then have "filter Not (ov_calls s) \<noteq> []" using assms(2) by (auto simp: filter_empty_conv)
  then have "length (filter Not (ov_calls s)) = Suc 0" using assms(1) by (auto simp: overview_inv_def split: if_splits)
  then have "filter Not (remove1 disposed (ov_calls s)) = []" using assms(2) False by (intro filter_remove1_call) simp_all
  then show ?thesis using False
    by (simp add: overview_inv_def on_overview_def Let_def split: option.split prod.split)
qed

lemma overview_inv_step: "overview_inv s \<Longrightarrow> overview_step s e t \<Longrightarrow> overview_inv t"
  by (erule overview_step.cases)
    (auto simp: overview_inv_done, auto simp: overview_inv_def overview_effect_def overview_cleanup_def)

interpretation portal_overviews: machine_invariant overview_start overview_step overview_inv
proof unfold_locales
  have "overview_inv (mount_overview degraded user)" for degraded user
    by (cases degraded) (simp_all add: mount_overview_def overview_effect_def overview_inv_def)
  then show "overview_start s \<Longrightarrow> overview_inv s" for s by (auto simp: overview_start_def)
qed (rule overview_inv_step)

text \<open>
  The page waits for one load at most, and shows that it is loading exactly while it waits for one: when no answer is outstanding
  nothing is loading.
\<close>

theorem overview_waits_for_one:
  assumes "reach overview_start overview_step s" "ov_mounted s"
  shows "length (filter Not (ov_calls s)) = (if display_loading s then 1 else 0)"
  using portal_overviews.inv_reach [OF assms(1)] assms(2) by (simp add: overview_inv_def display_loading_def)

lemma signed_out_step: "overview_step s e t \<Longrightarrow> ov_user s = None \<Longrightarrow> ov_user t = None"
  by (erule overview_step.cases)
    (auto simp: overview_effect_def overview_cleanup_def on_overview_def Let_def split: option.splits prod.splits)

text \<open>An answer that arrives after the user has signed out never signs the user in again.\<close>

theorem overview_keeps_signed_out:
  assumes "run overview_step s es t" "ov_user s = None"
  shows "ov_user t = None"
  using assms by (induction rule: run.induct) (auto dest: signed_out_step)

text \<open>
  The figure of mailboxes that can send counts those whose own label says that sending is still to be set up, and leaves out the ones
  that are ready although their domain cannot send.
\<close>

theorem send_figure_counts_pending:
  "overview_send_enabled ms =
     length (filter (\<lambda>m. overview_send_status m = Send_pending_setup) ms) +
     length (filter (\<lambda>m. overview_send_status m = Send_ready \<and> om_can_send m = Some True) ms)"
  by (induction ms) (auto simp: overview_send_enabled_def overview_send_status_def)

section \<open>Examples\<close>

theorem overview_waits_for_one_witness: "length (filter Not (ov_calls (mount_overview False None))) = 1"
proof -
  have "reach overview_start overview_step (mount_overview False None)" by (rule reach_start) (auto simp: overview_start_def)
  moreover have "ov_mounted (mount_overview False None)" "display_loading (mount_overview False None)"
    by (simp_all add: mount_overview_def overview_effect_def display_loading_def)
  ultimately show ?thesis using overview_waits_for_one by simp
qed

definition sample_overview_answer :: overview_answer where
  "sample_overview_answer =
     \<lparr>oa_session = Some \<lparr>os_id = 7, os_username = js ''eve'', os_email = None, os_must_change = None, os_mailbox_ids = None\<rparr>,
      oa_mailboxes = None, oa_unread = None\<rparr>"

theorem overview_keeps_signed_out_witness:
  "ov_user (on_overview False sample_overview_answer ((mount_overview False None)\<lparr>ov_calls := []\<rparr>)) = None"
proof -
  let ?s = "mount_overview False None"
  have "overview_step ?s (Overview_done False sample_overview_answer)
      (on_overview False sample_overview_answer (?s\<lparr>ov_calls := remove1 False (ov_calls ?s)\<rparr>))"
    by (rule overview_done) (simp add: mount_overview_def overview_effect_def)
  then have "run overview_step ?s [Overview_done False sample_overview_answer]
      (on_overview False sample_overview_answer (?s\<lparr>ov_calls := []\<rparr>))"
    by (simp add: mount_overview_def overview_effect_def)
  from overview_keeps_signed_out [OF this] show ?thesis by (simp add: mount_overview_def overview_effect_def)
qed

end
