(* ===== verification/OAuthSetup.thy ===== *)
theory OAuthSetup
  imports OAuthProfiles EmailForm Machine
begin

text \<open>
  Connecting a mailbox by OAuth in the mailbox window (web/src/pages/emails/index.tsx): the client configuration of
  Google and Microsoft, the import of a client secret file, the steps that produce an authorization link, and the
  polling of its status. The page has one copy of the flow per provider; the model has one, indexed by the provider.
  A text field that is unset is \<open>None\<close>; states, links and ids come from the server. Handlers change the state
  at once; the polling effects run in steps of their own, at any time after it, as React runs them after a render.
\<close>

section \<open>Data\<close>

record oauth_status =
  st_configured :: bool
  st_redirect :: "jstr option"
  st_client :: "jstr option"
  st_profile :: "jstr option"
  st_tenant :: "jstr option"

definition empty_oauth_status :: oauth_status where
  "empty_oauth_status =
     \<lparr>st_configured = False, st_redirect = None, st_client = None, st_profile = Some (profile_text Minimal), st_tenant = None\<rparr>"

record oauth_fields =
  of_callback :: "jstr option"
  of_client :: "jstr option"
  of_secret :: "jstr option"
  of_tenant :: "jstr option"
  of_scope :: "jstr option"
  of_json :: "jstr option"

definition no_oauth_fields :: oauth_fields where
  "no_oauth_fields =
     \<lparr>of_callback = None, of_client = None, of_secret = None, of_tenant = None, of_scope = None, of_json = None\<rparr>"

text \<open>\<open>value || fallback\<close> on an optional string.\<close>

definition or_text :: "jstr option \<Rightarrow> jstr \<Rightarrow> jstr" where
  "or_text value fallback = (case value of None \<Rightarrow> fallback | Some v \<Rightarrow> if v = [] then fallback else v)"

definition or_none :: "jstr option \<Rightarrow> jstr option" where
  "or_none value = (if or_text value [] = [] then None else value)"

definition scope_field :: "jstr option \<Rightarrow> jstr option" where
  "scope_field value = Some (profile_text (normalize_oauth_scope_profile value))"

fun oauth_form_defaults :: "oauth_provider \<Rightarrow> oauth_status \<Rightarrow> oauth_fields" where
  "oauth_form_defaults OA_GMAIL status =
     \<lparr>of_callback = Some (or_text (st_redirect status) []), of_client = Some (or_text (st_client status) []), of_secret = Some [],
      of_tenant = None, of_scope = scope_field (st_profile status), of_json = Some []\<rparr>"
| "oauth_form_defaults OA_OUTLOOK status =
     \<lparr>of_callback = Some (or_text (st_redirect status) []), of_client = Some (or_text (st_client status) []), of_secret = Some [],
      of_tenant = Some (or_text (st_tenant status) (js ''consumers'')), of_scope = scope_field (st_profile status), of_json = None\<rparr>"

text \<open>What saving a configuration sends.\<close>

record oauth_config =
  oc_redirect :: "jstr option"
  oc_client :: "jstr option"
  oc_secret :: "jstr option"
  oc_tenant :: "jstr option"
  oc_profile :: oauth_scope_profile

definition oauth_config_of :: "oauth_provider \<Rightarrow> oauth_fields \<Rightarrow> oauth_config" where
  "oauth_config_of p f =
     \<lparr>oc_redirect = of_callback f, oc_client = of_client f, oc_secret = or_none (of_secret f),
      oc_tenant = (case p of OA_GMAIL \<Rightarrow> None | OA_OUTLOOK \<Rightarrow> of_tenant f),
      oc_profile = normalize_oauth_scope_profile (of_scope f)\<rparr>"

record parsed_secret =
  pa_client :: jstr
  pa_secret :: jstr
  pa_redirect :: jstr

datatype completion_status = Oauth_success | Oauth_warning | Oauth_error

record completion =
  cp_provider :: oauth_provider
  cp_status :: completion_status
  cp_code :: jstr
  cp_action :: "jstr option"

datatype link_status = Link_pending | Link_processing | Link_completed "completion option" | Link_expired

section \<open>State\<close>

datatype poll_status = Poll_idle | Poll_pending | Poll_processing

record oauth_flow =
  fl_url :: jstr
  fl_pending :: jstr
  fl_poll :: poll_status
  fl_expires :: "nat option"
  fl_parsing :: bool
  fl_saving :: bool
  fl_generating :: bool
  fl_watch :: nat
  fl_watched :: jstr

text \<open>Saving and parsing happen alone or on the way to a link, for the mailbox edited when the link was asked for.\<close>

datatype chain = Alone | For_link "nat option"

datatype oauth_call =
    Poll_call oauth_provider jstr nat
  | Import_call jstr
  | Parse_call chain "jstr option" "jstr option"
  | Config_call oauth_provider chain oauth_config
  | Statuses_call "(oauth_provider \<times> chain) option"
  | Start_call oauth_provider "nat option" "nat option"
  | Account_call nat

datatype oauth_toast = Completed completion | Link_gone oauth_provider | Config_refused oauth_provider

record oauth_setup =
  oa_statuses :: "oauth_provider \<Rightarrow> oauth_status"
  oa_flow :: "oauth_provider \<Rightarrow> oauth_flow"
  oa_fields :: "oauth_provider \<Rightarrow> oauth_fields"
  oa_group :: "nat option"
  oa_editing :: "nat option"
  oa_visible :: bool
  oa_loading :: bool
  oa_provider :: email_provider
  oa_auth :: email_auth_type
  oa_toasts :: "oauth_toast list"
  oa_reloads :: nat
  oa_calls :: "oauth_call list"

definition push_oauth :: "oauth_call \<Rightarrow> oauth_setup \<Rightarrow> oauth_setup" where
  "push_oauth c s = s\<lparr>oa_calls := c # oa_calls s\<rparr>"

definition end_oauth :: "oauth_call \<Rightarrow> oauth_setup \<Rightarrow> oauth_setup" where
  "end_oauth c s = s\<lparr>oa_calls := remove1 c (oa_calls s)\<rparr>"

definition set_flow :: "oauth_provider \<Rightarrow> (oauth_flow \<Rightarrow> oauth_flow) \<Rightarrow> oauth_setup \<Rightarrow> oauth_setup" where
  "set_flow p f s = s\<lparr>oa_flow := (oa_flow s)(p := f (oa_flow s p))\<rparr>"

definition set_fields :: "oauth_provider \<Rightarrow> (oauth_fields \<Rightarrow> oauth_fields) \<Rightarrow> oauth_setup \<Rightarrow> oauth_setup" where
  "set_fields p f s = s\<lparr>oa_fields := (oa_fields s)(p := f (oa_fields s p))\<rparr>"

section \<open>Polling\<close>

text \<open>A run of the effect, for the link waited for at that time: the polls of the run before are cancelled, and
  the link is polled at once and by a timer. The run goes on polling that link until the effect runs again.\<close>

definition watch_again :: "oauth_provider \<Rightarrow> oauth_setup \<Rightarrow> oauth_setup" where
  "watch_again p s =
     (let t = set_flow p (\<lambda>f. f\<lparr>fl_watch := Suc (fl_watch f), fl_watched := fl_pending f\<rparr>) s;
          f = oa_flow t p
      in if fl_watched f = [] then t else push_oauth (Poll_call p (fl_watched f) (fl_watch f)) t)"

definition run_effect :: "oauth_provider \<Rightarrow> oauth_setup \<Rightarrow> oauth_setup" where
  "run_effect p s = (if fl_pending (oa_flow s p) = fl_watched (oa_flow s p) then s else watch_again p s)"

definition dependencies_changed :: "oauth_setup \<Rightarrow> oauth_setup" where
  "dependencies_changed s = watch_again OA_OUTLOOK (watch_again OA_GMAIL s)"

definition poll_tick :: "oauth_provider \<Rightarrow> oauth_setup \<Rightarrow> oauth_setup" where
  "poll_tick p s =
     (let f = oa_flow s p in if fl_watched f = [] then s else push_oauth (Poll_call p (fl_watched f) (fl_watch f)) s)"

definition reset_flow :: "oauth_flow \<Rightarrow> oauth_flow" where
  "reset_flow f = f\<lparr>fl_url := [], fl_pending := [], fl_poll := Poll_idle, fl_expires := None\<rparr>"

definition reset_oauth_flow :: "oauth_provider \<Rightarrow> oauth_setup \<Rightarrow> oauth_setup" where
  "reset_oauth_flow p = set_flow p reset_flow"

definition reset_all_oauth_flows :: "oauth_setup \<Rightarrow> oauth_setup" where
  "reset_all_oauth_flows s = reset_oauth_flow OA_OUTLOOK (reset_oauth_flow OA_GMAIL s)"

definition close_oauth_window :: "oauth_setup \<Rightarrow> oauth_setup" where
  "close_oauth_window s = (reset_all_oauth_flows s)\<lparr>oa_visible := False\<rparr>"

definition handle_oauth_completion_feedback :: "completion \<Rightarrow> oauth_setup \<Rightarrow> oauth_setup" where
  "handle_oauth_completion_feedback result s =
     (let t = s\<lparr>oa_toasts := Completed result # oa_toasts s\<rparr>;
          u = (if cp_status result \<noteq> Oauth_error then close_oauth_window t else t);
          v = reset_oauth_flow (cp_provider result) u
      in v\<lparr>oa_reloads := Suc (oa_reloads v)\<rparr>)"

definition on_poll :: "oauth_provider \<Rightarrow> nat \<Rightarrow> (link_status \<times> nat option) option \<Rightarrow> oauth_setup \<Rightarrow> oauth_setup" where
  "on_poll p run1 result s =
     (case result of
        None \<Rightarrow> s
      | Some (status, expires) \<Rightarrow>
          if run1 \<noteq> fl_watch (oa_flow s p) then s
          else case status of
              Link_expired \<Rightarrow> (reset_oauth_flow p s)\<lparr>oa_toasts := Link_gone p # oa_toasts s\<rparr>
            | Link_completed (Some r) \<Rightarrow> handle_oauth_completion_feedback r s
            | _ \<Rightarrow> set_flow p (\<lambda>f. f\<lparr>fl_poll := (if status = Link_processing then Poll_processing else Poll_pending),
                     fl_expires := expires\<rparr>) s)"

text \<open>Polls of the same link that are under way together share one request, so its answer goes to all of them,
  in the order in which they were started.\<close>

definition is_poll :: "oauth_provider \<Rightarrow> jstr \<Rightarrow> oauth_call \<Rightarrow> bool" where
  "is_poll p st c = (case c of Poll_call q st' n \<Rightarrow> q = p \<and> st' = st | _ \<Rightarrow> False)"

definition resume_poll :: "(link_status \<times> nat option) option \<Rightarrow> oauth_call \<Rightarrow> oauth_setup \<Rightarrow> oauth_setup" where
  "resume_poll result c s = (case c of Poll_call p st n \<Rightarrow> on_poll p n result s | _ \<Rightarrow> s)"

definition on_poll_answer ::
  "oauth_provider \<Rightarrow> jstr \<Rightarrow> (link_status \<times> nat option) option \<Rightarrow> oauth_setup \<Rightarrow> oauth_setup" where
  "on_poll_answer p st result s =
     foldr (resume_poll result) (filter (is_poll p st) (oa_calls s))
       (s\<lparr>oa_calls := filter (\<lambda>c. \<not> is_poll p st c) (oa_calls s)\<rparr>)"

text \<open>The answer of the provider when it redirects the browser back to the page.\<close>

definition completion_of_params :: "(jstr \<Rightarrow> jstr option) \<Rightarrow> completion option" where
  "completion_of_params get =
     (let status = get (js ''oauth_status''); provider = get (js ''oauth_provider''); code = get (js ''oauth_code'')
      in if or_text status [] = [] \<or> or_text provider [] = [] \<or> or_text code [] = [] then None
         else Some \<lparr>cp_provider = (if provider = Some (js ''GMAIL'') then OA_GMAIL else OA_OUTLOOK),
           cp_status = (if status = Some (js ''success'') then Oauth_success
                        else if status = Some (js ''warning'') then Oauth_warning else Oauth_error),
           cp_code = the code, cp_action = or_none (get (js ''oauth_action''))\<rparr>)"

definition redirected_back :: "(jstr \<Rightarrow> jstr option) \<Rightarrow> oauth_setup \<Rightarrow> oauth_setup" where
  "redirected_back get s =
     (case completion_of_params get of None \<Rightarrow> s | Some r \<Rightarrow> handle_oauth_completion_feedback r s)"

section \<open>Configuration and links\<close>

text \<open>The section that is shown: Microsoft's for every Outlook mailbox, Google's for OAuth only.\<close>

definition shown_section :: "email_provider \<Rightarrow> email_auth_type \<Rightarrow> oauth_provider option" where
  "shown_section provider auth =
     (if provider = OUTLOOK then Some OA_OUTLOOK
      else if provider = GMAIL \<and> auth = GOOGLE_OAUTH then Some OA_GMAIL else None)"

definition section_shown :: "oauth_provider \<Rightarrow> oauth_setup \<Rightarrow> bool" where
  "section_shown p s \<longleftrightarrow> oa_visible s \<and> shown_section (oa_provider s) (oa_auth s) = Some p"

text \<open>The form validates the fields that are shown; the callback and the client id are required.\<close>

definition fields_valid :: "oauth_provider \<Rightarrow> oauth_setup \<Rightarrow> bool" where
  "fields_valid p s \<longleftrightarrow>
     \<not> section_shown p s \<or>
     or_text (of_callback (oa_fields s p)) [] \<noteq> [] \<and> or_text (of_client (oa_fields s p)) [] \<noteq> [] \<and>
     or_text (of_scope (oa_fields s p)) [] \<noteq> []"

fun end_chain :: "oauth_provider \<Rightarrow> chain \<Rightarrow> oauth_setup \<Rightarrow> oauth_setup" where
  "end_chain p Alone s = s"
| "end_chain p (For_link editing) s = set_flow p (\<lambda>f. f\<lparr>fl_generating := False\<rparr>) s"

definition save_oauth_config :: "oauth_provider \<Rightarrow> chain \<Rightarrow> oauth_setup \<Rightarrow> oauth_setup" where
  "save_oauth_config p chain s =
     (if \<not> fields_valid p s then
        (case chain of Alone \<Rightarrow> s
         | For_link editing \<Rightarrow> (end_chain p chain s)\<lparr>oa_toasts := Config_refused p # oa_toasts s\<rparr>)
      else push_oauth (Config_call p chain (oauth_config_of p (oa_fields s p))) (set_flow p (\<lambda>f. f\<lparr>fl_saving := True\<rparr>) s))"

definition on_config_saved :: "oauth_provider \<Rightarrow> chain \<Rightarrow> bool \<Rightarrow> oauth_setup \<Rightarrow> oauth_setup" where
  "on_config_saved p chain ok s =
     (if ok then push_oauth (Statuses_call (Some (p, chain))) s
      else end_chain p chain (set_flow p (\<lambda>f. f\<lparr>fl_saving := False\<rparr>) s))"

definition start_authorization :: "oauth_provider \<Rightarrow> nat option \<Rightarrow> oauth_setup \<Rightarrow> oauth_setup" where
  "start_authorization p editing s = push_oauth (Start_call p (oa_group s) editing) s"

definition on_statuses ::
  "(oauth_provider \<times> chain) option \<Rightarrow> (oauth_provider \<Rightarrow> oauth_status) option \<Rightarrow> oauth_setup \<Rightarrow> oauth_setup" where
  "on_statuses purpose result s =
     (let t = (case result of None \<Rightarrow> s | Some statuses \<Rightarrow> s\<lparr>oa_statuses := statuses\<rparr>)
      in case purpose of
           None \<Rightarrow> t
         | Some (p, chain) \<Rightarrow>
             (let u = set_flow p (\<lambda>f. f\<lparr>fl_saving := False\<rparr>) t
              in case chain of Alone \<Rightarrow> u | For_link editing \<Rightarrow> start_authorization p editing u))"

definition on_started :: "oauth_provider \<Rightarrow> (jstr \<times> jstr \<times> nat) option \<Rightarrow> oauth_setup \<Rightarrow> oauth_setup" where
  "on_started p result s =
     set_flow p (\<lambda>f. case result of
         None \<Rightarrow> f\<lparr>fl_generating := False\<rparr>
       | Some (url, state1, expires) \<Rightarrow>
           if url = [] then f\<lparr>fl_generating := False\<rparr>
           else f\<lparr>fl_url := url, fl_pending := state1, fl_poll := Poll_pending, fl_expires := Some expires, fl_generating := False\<rparr>) s"

definition with_parsed :: "parsed_secret \<Rightarrow> oauth_setup \<Rightarrow> oauth_setup" where
  "with_parsed result s =
     set_fields OA_GMAIL (\<lambda>f. f\<lparr>of_callback := Some (pa_redirect result), of_client := Some (pa_client result),
       of_secret := Some (pa_secret result), of_scope := scope_field (of_scope f)\<rparr>) s"

definition set_parsing :: "bool \<Rightarrow> oauth_setup \<Rightarrow> oauth_setup" where
  "set_parsing b = set_flow OA_GMAIL (\<lambda>f. f\<lparr>fl_parsing := b\<rparr>)"

definition handle_parse_client_secret :: "chain \<Rightarrow> oauth_setup \<Rightarrow> oauth_setup" where
  "handle_parse_client_secret chain s =
     (let f = oa_fields s OA_GMAIL in push_oauth (Parse_call chain (or_none (of_json f)) (or_none (of_callback f))) (set_parsing True s))"

definition on_parsed :: "chain \<Rightarrow> parsed_secret option \<Rightarrow> oauth_setup \<Rightarrow> oauth_setup" where
  "on_parsed chain result s =
     (case result of
        None \<Rightarrow> end_chain OA_GMAIL chain (set_parsing False s)
      | Some r \<Rightarrow>
          (let t = set_parsing False (with_parsed r (reset_oauth_flow OA_GMAIL s))
           in case chain of Alone \<Rightarrow> t | For_link editing \<Rightarrow> save_oauth_config OA_GMAIL chain t))"

definition apply_google_json_import :: "jstr \<Rightarrow> oauth_setup \<Rightarrow> oauth_setup" where
  "apply_google_json_import content s =
     push_oauth (Import_call content)
       (set_parsing True (set_fields OA_GMAIL (\<lambda>f. f\<lparr>of_json := Some content\<rparr>) (reset_oauth_flow OA_GMAIL s)))"

text \<open>A file that cannot be read or is blank is refused before anything is sent.\<close>

definition handle_google_json_upload :: "jstr option \<Rightarrow> oauth_setup \<Rightarrow> oauth_setup" where
  "handle_google_json_upload content s =
     (case content of None \<Rightarrow> s | Some c \<Rightarrow> if trim c = [] then s else apply_google_json_import c s)"

definition on_imported :: "parsed_secret option \<Rightarrow> oauth_setup \<Rightarrow> oauth_setup" where
  "on_imported result s = set_parsing False (case result of None \<Rightarrow> s | Some r \<Rightarrow> with_parsed r s)"

definition has_json_source :: "oauth_setup \<Rightarrow> bool" where
  "has_json_source s \<longleftrightarrow> trim (or_text (of_json (oa_fields s OA_GMAIL)) []) \<noteq> []"

fun handle_generate_auth_url :: "oauth_provider \<Rightarrow> oauth_setup \<Rightarrow> oauth_setup" where
  "handle_generate_auth_url OA_GMAIL s =
     (let t = set_flow OA_GMAIL (\<lambda>f. f\<lparr>fl_generating := True\<rparr>) s
      in if has_json_source s then handle_parse_client_secret (For_link (oa_editing s)) t
         else save_oauth_config OA_GMAIL (For_link (oa_editing s)) t)"
| "handle_generate_auth_url OA_OUTLOOK s =
     save_oauth_config OA_OUTLOOK (For_link (oa_editing s)) (set_flow OA_OUTLOOK (\<lambda>f. f\<lparr>fl_generating := True\<rparr>) s)"

section \<open>The window\<close>

fun oauth_of_provider :: "email_provider \<Rightarrow> oauth_provider option" where
  "oauth_of_provider GMAIL = Some OA_GMAIL"
| "oauth_of_provider OUTLOOK = Some OA_OUTLOOK"
| "oauth_of_provider _ = None"

definition with_defaults :: "oauth_provider option \<Rightarrow> oauth_setup \<Rightarrow> oauth_setup" where
  "with_defaults section1 s =
     (case section1 of None \<Rightarrow> s | Some p \<Rightarrow> set_fields p (\<lambda>f. oauth_form_defaults p (oa_statuses s p)) s)"

definition apply_profile_selection :: "provider_profile \<Rightarrow> oauth_setup \<Rightarrow> oauth_setup" where
  "apply_profile_selection profile s =
     (with_defaults (oauth_of_provider (pp_provider profile)) (reset_all_oauth_flows s))
       \<lparr>oa_provider := pp_provider profile, oa_auth := pp_auth_type profile\<rparr>"

definition handle_auth_type_change :: "email_auth_type \<Rightarrow> oauth_setup \<Rightarrow> oauth_setup" where
  "handle_auth_type_change auth s = (reset_all_oauth_flows s)\<lparr>oa_auth := auth\<rparr>"

text \<open>A tab keeps the provider if it has a profile there.\<close>

definition compatible_profile :: "representative_protocol \<Rightarrow> email_provider \<Rightarrow> provider_profile option" where
  "compatible_profile protocol provider =
     (case find (\<lambda>profile. pp_provider profile = provider) (get_provider_profiles_by_representative_protocol protocol) of
        Some profile \<Rightarrow> Some profile
      | None \<Rightarrow> get_default_profile_for_representative_protocol protocol)"

definition open_create :: "provider_profile \<Rightarrow> oauth_setup \<Rightarrow> oauth_setup" where
  "open_create profile s =
     (with_defaults (oauth_of_provider (pp_provider profile))
        ((reset_all_oauth_flows s)\<lparr>oa_editing := None, oa_fields := \<lambda>p. no_oauth_fields, oa_group := None\<rparr>))
       \<lparr>oa_provider := pp_provider profile, oa_auth := pp_auth_type profile, oa_loading := False, oa_visible := True\<rparr>"

text \<open>While the details are loaded the form has no provider yet; Outlook is the provider shown then.\<close>

definition open_edit :: "nat \<Rightarrow> oauth_setup \<Rightarrow> oauth_setup" where
  "open_edit record1 s =
     push_oauth (Account_call record1)
       ((reset_all_oauth_flows s)\<lparr>oa_editing := Some record1, oa_fields := \<lambda>p. no_oauth_fields, oa_group := None,
          oa_provider := OUTLOOK, oa_auth := MICROSOFT_OAUTH, oa_loading := True, oa_visible := True\<rparr>)"

definition on_account ::
  "(email_provider \<times> email_auth_type \<times> nat option) option \<Rightarrow> oauth_setup \<Rightarrow> oauth_setup" where
  "on_account result s =
     (case result of
        None \<Rightarrow> s\<lparr>oa_loading := False\<rparr>
      | Some (provider, auth, grp) \<Rightarrow>
          (with_defaults (if provider = OUTLOOK \<and> auth = MICROSOFT_OAUTH then Some OA_OUTLOOK
                          else if provider = GMAIL \<and> auth = GOOGLE_OAUTH then Some OA_GMAIL else None) s)
            \<lparr>oa_loading := False, oa_group := grp, oa_provider := provider, oa_auth := auth\<rparr>)"

section \<open>The machine\<close>

datatype oauth_event =
    Create_clicked representative_protocol | Edit_clicked nat | Window_closed | Profile_chosen provider_profile | Protocol_chosen representative_protocol
  | Auth_type_chosen email_auth_type
  | Oauth_fields_edited oauth_provider oauth_fields | Group_chosen "nat option" | Json_uploaded "jstr option" | Parse_clicked
  | Config_save_clicked oauth_provider | Link_clicked oauth_provider | Poll_ticked oauth_provider | Effect_run oauth_provider | Feedback_changed
  | Redirected "jstr \<Rightarrow> jstr option"
  | Poll_answered oauth_provider jstr "(link_status \<times> nat option) option" | Import_answered oauth_call "parsed_secret option"
  | Parse_answered oauth_call "parsed_secret option" | Config_answered oauth_call bool
  | Statuses_answered oauth_call "(oauth_provider \<Rightarrow> oauth_status) option" | Start_answered oauth_call "(jstr \<times> jstr \<times> nat) option"
  | Account_answered oauth_call "(email_provider \<times> email_auth_type \<times> nat option) option"

definition section_open :: "oauth_provider \<Rightarrow> oauth_setup \<Rightarrow> bool" where
  "section_open p s \<longleftrightarrow> section_shown p s \<and> \<not> oa_loading s"

text \<open>The window also closes when saving the mailbox has succeeded, even if another one is open by then.\<close>

inductive oauth_step :: "oauth_setup \<Rightarrow> oauth_event \<Rightarrow> oauth_setup \<Rightarrow> bool" where
  create_window: "\<not> oa_visible s \<Longrightarrow> get_default_profile_for_representative_protocol protocol = Some profile \<Longrightarrow>
     oauth_step s (Create_clicked protocol) (open_create profile s)"
| edit_window: "\<not> oa_visible s \<Longrightarrow> oauth_step s (Edit_clicked i) (open_edit i s)"
| close_window: "oauth_step s Window_closed (close_oauth_window s)"
| choose_profile: "oa_visible s \<Longrightarrow> \<not> oa_loading s \<Longrightarrow> oauth_step s (Profile_chosen profile) (apply_profile_selection profile s)"
| edit_fields: "section_open p s \<Longrightarrow> oauth_step s (Oauth_fields_edited p f) (set_fields p (\<lambda>_. f) s)"
| choose_protocol: "oa_visible s \<Longrightarrow> \<not> oa_loading s \<Longrightarrow> compatible_profile protocol (oa_provider s) = Some profile \<Longrightarrow>
     oauth_step s (Protocol_chosen protocol) (apply_profile_selection profile s)"
| choose_auth: "oa_visible s \<Longrightarrow> \<not> oa_loading s \<Longrightarrow> oa_provider s = GMAIL \<Longrightarrow>
     oauth_step s (Auth_type_chosen auth) (handle_auth_type_change auth s)"
| choose_group: "oa_visible s \<Longrightarrow> \<not> oa_loading s \<Longrightarrow> oauth_step s (Group_chosen g) (s\<lparr>oa_group := g\<rparr>)"
| upload_json: "section_open OA_GMAIL s \<Longrightarrow> oauth_step s (Json_uploaded content) (handle_google_json_upload content s)"
| click_parse: "section_open OA_GMAIL s \<Longrightarrow> \<not> fl_parsing (oa_flow s OA_GMAIL) \<Longrightarrow>
     oauth_step s Parse_clicked (handle_parse_client_secret Alone s)"
| click_save: "section_open p s \<Longrightarrow> \<not> fl_saving (oa_flow s p) \<Longrightarrow> oauth_step s (Config_save_clicked p) (save_oauth_config p Alone s)"
| click_link: "section_open p s \<Longrightarrow> \<not> fl_generating (oa_flow s p) \<Longrightarrow> oauth_step s (Link_clicked p) (handle_generate_auth_url p s)"
| tick: "oauth_step s (Poll_ticked p) (poll_tick p s)"
| effect: "oauth_step s (Effect_run p) (run_effect p s)"
| feedback_changed: "oauth_step s Feedback_changed (dependencies_changed s)"
| redirected: "oauth_step s (Redirected get) (redirected_back get s)"
| poll_answered: "c \<in> set (oa_calls s) \<Longrightarrow> is_poll p st c \<Longrightarrow>
     oauth_step s (Poll_answered p st result) (on_poll_answer p st result s)"
| import_answered: "c = Import_call content \<Longrightarrow> c \<in> set (oa_calls s) \<Longrightarrow>
     oauth_step s (Import_answered c parsed) (on_imported parsed (end_oauth c s))"
| parse_answered: "c = Parse_call chain json callback \<Longrightarrow> c \<in> set (oa_calls s) \<Longrightarrow>
     oauth_step s (Parse_answered c parsed) (on_parsed chain parsed (end_oauth c s))"
| config_answered: "c = Config_call p chain config \<Longrightarrow> c \<in> set (oa_calls s) \<Longrightarrow>
     oauth_step s (Config_answered c ok) (on_config_saved p chain ok (end_oauth c s))"
| statuses_answered: "c = Statuses_call purpose \<Longrightarrow> c \<in> set (oa_calls s) \<Longrightarrow>
     oauth_step s (Statuses_answered c statuses) (on_statuses purpose statuses (end_oauth c s))"
| start_answered: "c = Start_call p grp editing \<Longrightarrow> c \<in> set (oa_calls s) \<Longrightarrow>
     oauth_step s (Start_answered c link) (on_started p link (end_oauth c s))"
| account_answered: "c = Account_call i \<Longrightarrow> c \<in> set (oa_calls s) \<Longrightarrow>
     oauth_step s (Account_answered c account) (on_account account (end_oauth c s))"

definition idle_flow :: oauth_flow where
  "idle_flow = \<lparr>fl_url = [], fl_pending = [], fl_poll = Poll_idle, fl_expires = None, fl_parsing = False, fl_saving = False,
     fl_generating = False, fl_watch = 0, fl_watched = []\<rparr>"

definition oauth0 :: oauth_setup where
  "oauth0 = \<lparr>oa_statuses = \<lambda>p. empty_oauth_status, oa_flow = \<lambda>p. idle_flow, oa_fields = \<lambda>p. no_oauth_fields, oa_group = None,
     oa_editing = None, oa_visible = False, oa_loading = False, oa_provider = OUTLOOK, oa_auth = MICROSOFT_OAUTH, oa_toasts = [], oa_reloads = 0, oa_calls = [Statuses_call None]\<rparr>"

definition oauth_start :: "oauth_setup \<Rightarrow> bool" where
  "oauth_start s \<longleftrightarrow> s = oauth0"

end
