(* ===== verification/OAuthTheorems.thy ===== *)
theory OAuthTheorems
  imports OAuthSetup
begin

text \<open>
  Connecting a mailbox by OAuth: only polls of the current run of the effect count, a completed link is reported once for
  each of them, one link is generated at a time, and a failure on the way to a link leaves the flow ready for another attempt. A link is
  asked for the mailbox edited at that time, but shown in whatever window is open when it arrives.
\<close>

section \<open>Frames\<close>

lemma set_flow_simps [simp]:
  "oa_flow (set_flow p f s) q = (if q = p then f (oa_flow s q) else oa_flow s q)"
  "oa_calls (set_flow p f s) = oa_calls s" "oa_fields (set_flow p f s) = oa_fields s" "oa_group (set_flow p f s) = oa_group s"
  "oa_editing (set_flow p f s) = oa_editing s" "oa_visible (set_flow p f s) = oa_visible s"
  "oa_provider (set_flow p f s) = oa_provider s" "oa_auth (set_flow p f s) = oa_auth s"
  by (auto simp: set_flow_def)

lemma set_fields_simps [simp]:
  "oa_flow (set_fields p f s) = oa_flow s" "oa_calls (set_fields p f s) = oa_calls s" "oa_editing (set_fields p f s) = oa_editing s"
  by (simp_all add: set_fields_def)

lemma push_oauth_simps [simp]:
  "oa_flow (push_oauth c s) = oa_flow s" "oa_calls (push_oauth c s) = c # oa_calls s" "oa_editing (push_oauth c s) = oa_editing s"
  by (simp_all add: push_oauth_def)

lemma end_oauth_simps [simp]:
  "oa_flow (end_oauth c s) = oa_flow s" "oa_calls (end_oauth c s) = remove1 c (oa_calls s)"
  "oa_editing (end_oauth c s) = oa_editing s" "oa_fields (end_oauth c s) = oa_fields s" "oa_visible (end_oauth c s) = oa_visible s"
  "oa_toasts (end_oauth c s) = oa_toasts s" "oa_provider (end_oauth c s) = oa_provider s" "oa_auth (end_oauth c s) = oa_auth s" "oa_group (end_oauth c s) = oa_group s"
  by (simp_all add: end_oauth_def)

lemma reset_flow_simps [simp]:
  "fl_url (reset_flow f) = []" "fl_pending (reset_flow f) = []" "fl_poll (reset_flow f) = Poll_idle" "fl_expires (reset_flow f) = None"
  "fl_generating (reset_flow f) = fl_generating f" "fl_watch (reset_flow f) = fl_watch f" "fl_watched (reset_flow f) = fl_watched f" "fl_saving (reset_flow f) = fl_saving f"
  "fl_parsing (reset_flow f) = fl_parsing f"
  by (simp_all add: reset_flow_def)

lemma reset_all_simps [simp]:
  "oa_flow (reset_all_oauth_flows s) q = reset_flow (oa_flow s q)" "oa_calls (reset_all_oauth_flows s) = oa_calls s"
  "oa_editing (reset_all_oauth_flows s) = oa_editing s"
  by (cases q; simp add: reset_all_oauth_flows_def reset_oauth_flow_def)+

lemma with_defaults_simps [simp]:
  "oa_flow (with_defaults section1 s) = oa_flow s" "oa_calls (with_defaults section1 s) = oa_calls s"
  "oa_editing (with_defaults section1 s) = oa_editing s"
  by (simp_all add: with_defaults_def split: option.split)

lemma set_parsing_simps [simp]:
  "oa_calls (set_parsing b s) = oa_calls s" "fl_url (oa_flow (set_parsing b s) q) = fl_url (oa_flow s q)"
  "fl_pending (oa_flow (set_parsing b s) q) = fl_pending (oa_flow s q)" "fl_poll (oa_flow (set_parsing b s) q) = fl_poll (oa_flow s q)"
  "fl_expires (oa_flow (set_parsing b s) q) = fl_expires (oa_flow s q)" "fl_watch (oa_flow (set_parsing b s) q) = fl_watch (oa_flow s q)"
  "fl_watched (oa_flow (set_parsing b s) q) = fl_watched (oa_flow s q)"
  "fl_generating (oa_flow (set_parsing b s) q) = fl_generating (oa_flow s q)"
  by (simp_all add: set_parsing_def)

section \<open>Invariant\<close>

text \<open>The requests on the way to a link of a provider.\<close>

fun link_call :: "oauth_provider \<Rightarrow> oauth_call \<Rightarrow> bool" where
  "link_call p (Parse_call (For_link e) json callback) \<longleftrightarrow> p = OA_GMAIL"
| "link_call p (Config_call q (For_link e) config) \<longleftrightarrow> p = q"
| "link_call p (Statuses_call (Some (q, For_link e))) \<longleftrightarrow> p = q"
| "link_call p (Start_call q grp e) \<longleftrightarrow> p = q"
| "link_call p c \<longleftrightarrow> False"

definition flow_ok :: "oauth_flow \<Rightarrow> bool" where
  "flow_ok f \<longleftrightarrow> (fl_url f = [] \<longrightarrow> fl_pending f = [])"

text \<open>A poll is one of a run of the effect, and one of the current run asks for the link that this run watches.\<close>

definition poll_ok :: "oauth_provider \<Rightarrow> jstr \<Rightarrow> nat \<Rightarrow> oauth_call \<Rightarrow> bool" where
  "poll_ok p link run1 c =
     (case c of Poll_call q st n \<Rightarrow> q = p \<longrightarrow> st \<noteq> [] \<and> n \<le> run1 \<and> (n = run1 \<longrightarrow> st = link) | _ \<Rightarrow> True)"

definition polls_ok :: "oauth_provider \<Rightarrow> oauth_flow \<Rightarrow> oauth_call list \<Rightarrow> bool" where
  "polls_ok p f cs \<longleftrightarrow> list_all (poll_ok p (fl_watched f) (fl_watch f)) cs"

text \<open>What a handler that leads from \<open>s\<close> to \<open>t\<close> keeps of a provider: the effect and its polls, and the requests
  for a link.\<close>

definition between :: "oauth_provider \<Rightarrow> oauth_setup \<Rightarrow> oauth_setup \<Rightarrow> bool" where
  "between p s t \<longleftrightarrow>
     flow_ok (oa_flow t p) \<and> busy_with (link_call p) (fl_generating (oa_flow t p)) (oa_calls t) \<and>
     fl_watch (oa_flow t p) = fl_watch (oa_flow s p) \<and> fl_watched (oa_flow t p) = fl_watched (oa_flow s p) \<and>
     polls_ok p (oa_flow s p) (oa_calls t)"

definition oauth_inv :: "oauth_setup \<Rightarrow> bool" where
  "oauth_inv s \<longleftrightarrow> (\<forall>p. between p s s)"

lemma polls_ok_simps [simp]:
  "polls_ok p f [] " "polls_ok p f (c # cs) \<longleftrightarrow> poll_ok p (fl_watched f) (fl_watch f) c \<and> polls_ok p f cs"
  "polls_ok p f cs \<Longrightarrow> polls_ok p f (remove1 c cs)" "polls_ok p f cs \<Longrightarrow> polls_ok p f (filter Q cs)"
  by (auto simp: polls_ok_def list_all_iff dest: notin_set_remove1)

lemma between_same: "between p s t \<Longrightarrow> between p t t"
  by (simp add: between_def polls_ok_def)

lemma again_inv: "oauth_inv s \<Longrightarrow> oauth_inv (watch_again q s)"
proof -
  assume inv: "oauth_inv s"
  have "between p (watch_again q s) (watch_again q s)" for p
  proof (cases "p = q")
    case True
    let ?n = "fl_watch (oa_flow s p)"
    have later: "poll_ok p link ?n c \<Longrightarrow> poll_ok p link' (Suc ?n) c" for c link link'
      by (auto simp: poll_ok_def split: oauth_call.splits)
    have "list_all (poll_ok p (fl_watched (oa_flow s p)) ?n) (oa_calls s)"
      using inv by (simp add: oauth_inv_def between_def polls_ok_def)
    then have "list_all (poll_ok p link (Suc ?n)) (oa_calls s)" for link
      unfolding list_all_iff using later by blast
    moreover have "poll_ok p st n (Poll_call p st n) \<longleftrightarrow> st \<noteq> []" for st n by (simp add: poll_ok_def)
    ultimately show ?thesis using inv True
      by (auto simp: oauth_inv_def between_def watch_again_def Let_def flow_ok_def polls_ok_def)
  next
    case False
    have "poll_ok p st n (Poll_call q st' n')" for st n st' n' using False by (simp add: poll_ok_def)
    then show ?thesis using inv False by (simp add: oauth_inv_def between_def watch_again_def Let_def)
  qed
  then show ?thesis by (simp add: oauth_inv_def)
qed

section \<open>The handlers\<close>

text \<open>The two halves of \<open>between\<close>: the flow with its polls, and the requests for a link.\<close>

definition flow_kept :: "oauth_provider \<Rightarrow> oauth_setup \<Rightarrow> oauth_setup \<Rightarrow> bool" where
  "flow_kept p s t \<longleftrightarrow>
     flow_ok (oa_flow t p) \<and> fl_watch (oa_flow t p) = fl_watch (oa_flow s p) \<and>
     fl_watched (oa_flow t p) = fl_watched (oa_flow s p) \<and> polls_ok p (oa_flow s p) (oa_calls t)"

definition link_kept :: "oauth_provider \<Rightarrow> oauth_setup \<Rightarrow> bool" where
  "link_kept p t \<longleftrightarrow> busy_with (link_call p) (fl_generating (oa_flow t p)) (oa_calls t)"

text \<open>A link is asked for, and no request for it is under way.\<close>

definition link_due :: "oauth_provider \<Rightarrow> oauth_setup \<Rightarrow> bool" where
  "link_due p t \<longleftrightarrow> fl_generating (oa_flow t p) \<and> busy_with (link_call p) False (oa_calls t)"

lemma between_parts: "between p s t \<longleftrightarrow> flow_kept p s t \<and> link_kept p t"
  by (auto simp: between_def flow_kept_def link_kept_def)

lemma flow_ok_reset [simp]: "flow_ok (reset_flow f)"
  by (simp add: flow_ok_def)

lemma poll_ok_trivial [simp]:
  "poll_ok p st n (Import_call x)" "poll_ok p st n (Parse_call chain json cb)" "poll_ok p st n (Config_call q chain config)"
  "poll_ok p st n (Statuses_call purpose)" "poll_ok p st n (Start_call q grp e)" "poll_ok p st n (Account_call i)"
  by (simp_all add: poll_ok_def)

lemma flow_kept_frame:
  assumes "flow_kept p s t" "polls_ok p (oa_flow s p) (oa_calls u)"
    "fl_watch (oa_flow u p) = fl_watch (oa_flow t p)" "fl_watched (oa_flow u p) = fl_watched (oa_flow t p)"
    "fl_url (oa_flow u p) = [] \<longrightarrow> fl_pending (oa_flow u p) = []"
  shows "flow_kept p s u"
  using assms by (simp add: flow_kept_def flow_ok_def)

text \<open>Saving a configuration, alone or on the way to a link.\<close>

lemma flow_of_kept:
  "flow_kept p s t \<Longrightarrow> fl_url (oa_flow t p) = [] \<longrightarrow> fl_pending (oa_flow t p) = []"
  "flow_kept p s t \<Longrightarrow> polls_ok p (oa_flow s p) (oa_calls t)"
  by (simp_all add: flow_kept_def flow_ok_def)

lemma end_chain_simps [simp]:
  "oa_calls (end_chain p chain s) = oa_calls s" "fl_url (oa_flow (end_chain p chain s) q) = fl_url (oa_flow s q)"
  "fl_pending (oa_flow (end_chain p chain s) q) = fl_pending (oa_flow s q)"
  "fl_poll (oa_flow (end_chain p chain s) q) = fl_poll (oa_flow s q)"
  "fl_expires (oa_flow (end_chain p chain s) q) = fl_expires (oa_flow s q)"
  "fl_watch (oa_flow (end_chain p chain s) q) = fl_watch (oa_flow s q)"
  "fl_watched (oa_flow (end_chain p chain s) q) = fl_watched (oa_flow s q)"
  by (cases chain; simp)+

lemma save_flow_kept: "flow_kept q s t \<Longrightarrow> flow_kept q s (save_oauth_config p chain t)"
  by (rule flow_kept_frame, assumption) (auto simp: save_oauth_config_def dest: flow_of_kept split: chain.split)

lemma save_link_alone: "link_kept q t \<Longrightarrow> link_kept q (save_oauth_config p Alone t)"
  by (cases "q = p") (simp_all add: link_kept_def save_oauth_config_def)

lemma save_link_other: "q \<noteq> p \<Longrightarrow> link_kept q t \<Longrightarrow> link_kept q (save_oauth_config p chain t)"
  by (cases chain) (simp_all add: link_kept_def save_oauth_config_def)

lemma save_link_due: "link_due p t \<Longrightarrow> link_kept p (save_oauth_config p (For_link e) t)"
  by (simp add: link_kept_def link_due_def save_oauth_config_def busy_begin)

text \<open>An answer takes its request out; if it was one for a link, a link is due.\<close>

lemma flow_kept_end: "flow_kept p s s \<Longrightarrow> flow_kept p s (end_oauth c s)"
  by (simp add: flow_kept_def polls_ok_simps)

lemma link_kept_end: "link_kept p s \<Longrightarrow> \<not> link_call p c \<Longrightarrow> link_kept p (end_oauth c s)"
  by (simp add: link_kept_def)

lemma link_due_end: "link_kept p s \<Longrightarrow> link_call p c \<Longrightarrow> c \<in> set (oa_calls s) \<Longrightarrow> link_due p (end_oauth c s)"
  unfolding link_kept_def link_due_def by (auto intro: busy_end busy_flag)

lemma end_chain_kept:
  "link_due p t \<Longrightarrow> link_kept p (end_chain p (For_link e) t)"
  "link_kept q t \<Longrightarrow> q \<noteq> p \<Longrightarrow> link_kept q (end_chain p chain t)"
  "link_kept q t \<Longrightarrow> link_kept q (end_chain p Alone t)"
  by (cases chain; simp add: link_kept_def link_due_def)+

lemma link_frame:
  "oa_calls u = oa_calls t \<Longrightarrow> fl_generating (oa_flow u p) = fl_generating (oa_flow t p) \<Longrightarrow> link_kept p u = link_kept p t"
  "oa_calls u = oa_calls t \<Longrightarrow> fl_generating (oa_flow u p) = fl_generating (oa_flow t p) \<Longrightarrow> link_due p u = link_due p t"
  by (simp_all add: link_kept_def link_due_def)

lemma link_push:
  "link_due p t \<Longrightarrow> link_call p c \<Longrightarrow> link_kept p (push_oauth c t)"
  "link_kept p t \<Longrightarrow> \<not> link_call p c \<Longrightarrow> link_kept p (push_oauth c t)"
  by (simp_all add: link_kept_def link_due_def busy_begin)

lemma flow_push: "flow_kept p s t \<Longrightarrow> poll_ok p (fl_watched (oa_flow s p)) (fl_watch (oa_flow s p)) c \<Longrightarrow> flow_kept p s (push_oauth c t)"
  by (simp add: flow_kept_def)

lemma link_neutral [simp]:
  "link_kept p (set_parsing b t) = link_kept p t" "link_due p (set_parsing b t) = link_due p t"
  "link_kept p (with_parsed r t) = link_kept p t" "link_due p (with_parsed r t) = link_due p t"
  "link_kept p (reset_oauth_flow q t) = link_kept p t" "link_due p (reset_oauth_flow q t) = link_due p t"
  "link_kept p (set_flow q (\<lambda>f. f\<lparr>fl_saving := b\<rparr>) t) = link_kept p t"
  "link_due p (set_flow q (\<lambda>f. f\<lparr>fl_saving := b\<rparr>) t) = link_due p t"
  by (simp_all add: link_kept_def link_due_def with_parsed_def reset_oauth_flow_def)

lemma between_feedback: "between p s t \<Longrightarrow> between p s (handle_oauth_completion_feedback r t)"
  by (auto simp: between_def handle_oauth_completion_feedback_def Let_def close_oauth_window_def reset_oauth_flow_def)

lemma between_close: "between p s s \<Longrightarrow> between p s (close_oauth_window s)"
  by (simp add: between_def close_oauth_window_def)

lemma between_poll: "between p s t \<Longrightarrow> fl_url (oa_flow t q) = [] \<longrightarrow> fl_pending (oa_flow t q) = [] \<Longrightarrow>
    between p s (on_poll q n result t)"
  by (auto simp: on_poll_def between_feedback split: option.split link_status.split)
    (auto simp: between_def flow_ok_def reset_oauth_flow_def)

lemma between_flow: "between p s t \<Longrightarrow> fl_url (oa_flow t p) = [] \<longrightarrow> fl_pending (oa_flow t p) = []"
  by (simp add: between_def flow_ok_def)

lemma between_polls:
  assumes "\<And>p. between p s t"
  shows "between p s (foldr (resume_poll result) cs t)"
  using assms
proof (induction cs arbitrary: p)
  case (Cons c cs)
  then have kept: "between q s (foldr (resume_poll result) cs t)" for q by simp
  have "between p s (resume_poll result c (foldr (resume_poll result) cs t))"
    unfolding resume_poll_def [of result c]
    using kept between_poll [OF kept between_flow [OF kept]] by (simp split: oauth_call.split)
  then show ?case by simp
qed simp

lemma busy_filter: "(\<And>c. P c \<Longrightarrow> Q c) \<Longrightarrow> busy_with P b (filter Q cs) = busy_with P b cs"
proof -
  assume "\<And>c. P c \<Longrightarrow> Q c"
  then have "filter P (filter Q cs) = filter P cs" by (induction cs) auto
  then show ?thesis by (simp add: busy_with_def)
qed

lemma between_answer:
  assumes "\<And>p. between p s s"
  shows "between p s (on_poll_answer q st result s)"
proof -
  have "link_call p c \<Longrightarrow> \<not> is_poll q st c" for p c by (cases c) (auto simp: is_poll_def)
  then have "between p s (s\<lparr>oa_calls := filter (\<lambda>c. \<not> is_poll q st c) (oa_calls s)\<rparr>)" for p
    using assms [of p] by (simp add: between_def busy_filter)
  then show ?thesis unfolding on_poll_answer_def by (rule between_polls)
qed

lemma between_parsed:
  assumes "between p s s" "c = Parse_call chain json callback" "c \<in> set (oa_calls s)"
  shows "between p s (on_parsed chain result (end_oauth c s))"
proof -
  let ?u = "end_oauth c s"
  have kept: "flow_kept p s ?u" using assms(1) by (simp add: between_parts flow_kept_end)
  have loaded: "flow_kept p s (set_parsing False (with_parsed r (reset_oauth_flow OA_GMAIL ?u)))" for r
    using kept by (auto simp: flow_kept_def with_parsed_def reset_oauth_flow_def set_parsing_def flow_ok_def)
  have failed: "flow_kept p s (end_chain OA_GMAIL chain (set_parsing False ?u))"
    by (rule flow_kept_frame [OF kept]) (use flow_of_kept [OF kept] in auto)
  show ?thesis
  proof (cases "link_call p c")
    case False
    then have "link_kept p ?u" using assms(1) by (simp add: between_parts link_kept_end)
    moreover have "chain = Alone \<or> p \<noteq> OA_GMAIL" using False assms(2) by (cases chain) auto
    ultimately show ?thesis using kept loaded failed
      by (cases chain)
        (auto simp: on_parsed_def between_parts end_chain_kept save_link_other save_flow_kept
          simp del: end_chain.simps split: option.split)
  next
    case True
    then obtain e where chain: "chain = For_link e" "p = OA_GMAIL" using assms(2) by (cases chain) auto
    have "link_due p ?u" using True assms by (auto simp: between_parts intro: link_due_end)
    then show ?thesis using kept loaded failed chain
      by (auto simp: on_parsed_def between_parts save_link_due save_flow_kept end_chain_kept simp del: end_chain.simps
          split: option.split)
  qed
qed

lemma between_config:
  assumes "between p s s" "c = Config_call q chain config" "c \<in> set (oa_calls s)"
  shows "between p s (on_config_saved q chain ok (end_oauth c s))"
proof -
  let ?u = "end_oauth c s"
  let ?v = "set_flow q (\<lambda>f. f\<lparr>fl_saving := False\<rparr>) ?u"
  have kept: "flow_kept p s ?u" using assms(1) by (simp add: between_parts flow_kept_end)
  have failed: "flow_kept p s (end_chain q chain ?v)"
    by (rule flow_kept_frame [OF kept]) (use flow_of_kept [OF kept] in auto)
  show ?thesis
  proof (cases "link_call p c")
    case False
    then have "link_kept p ?u" using assms(1) by (simp add: between_parts link_kept_end)
    moreover have "\<not> link_call p (Statuses_call (Some (q, chain)))" "chain = Alone \<or> p \<noteq> q" using False assms(2) by (cases chain; simp)+
    ultimately show ?thesis using kept failed
      by (cases chain) (auto simp: on_config_saved_def between_parts end_chain_kept link_push flow_push
          simp del: end_chain.simps)
  next
    case True
    then obtain e where chain: "chain = For_link e" "p = q" using assms(2) by (cases chain) auto
    have "link_due p ?u" using True assms by (auto simp: between_parts intro: link_due_end)
    then show ?thesis using kept failed chain
      by (auto simp: on_config_saved_def between_parts end_chain_kept link_push flow_push simp del: end_chain.simps)
  qed
qed

lemma between_statuses:
  assumes "between p s s" "c = Statuses_call purpose" "c \<in> set (oa_calls s)"
  shows "between p s (on_statuses purpose result (end_oauth c s))"
proof -
  define t where "t = (case result of None \<Rightarrow> end_oauth c s | Some statuses \<Rightarrow> (end_oauth c s)\<lparr>oa_statuses := statuses\<rparr>)"
  have t: "oa_flow t = oa_flow s" "oa_calls t = remove1 c (oa_calls s)" by (simp_all add: t_def split: option.split)
  have kept: "flow_kept p s t" using assms(1) by (simp add: between_parts flow_kept_def t polls_ok_simps)
  have saving: "flow_kept p s (set_flow q (\<lambda>f. f\<lparr>fl_saving := False\<rparr>) t)" for q
    by (rule flow_kept_frame [OF kept]) (use flow_of_kept [OF kept] in auto)
  have same: "link_kept p t = link_kept p (end_oauth c s)" "link_due p t = link_due p (end_oauth c s)"
    by (simp_all add: link_kept_def link_due_def t)
  have handler: "on_statuses purpose result (end_oauth c s) =
      (case purpose of None \<Rightarrow> t
       | Some (q, chain) \<Rightarrow>
           (let u = set_flow q (\<lambda>f. f\<lparr>fl_saving := False\<rparr>) t
            in case chain of Alone \<Rightarrow> u | For_link editing \<Rightarrow> start_authorization q editing u))"
    by (simp only: on_statuses_def t_def Let_def)
  show ?thesis
  proof (cases "link_call p c")
    case False
    then have "link_kept p t" using assms(1) same by (simp add: between_parts link_kept_end)
    moreover have "purpose = Some (q, For_link e) \<Longrightarrow> p \<noteq> q" for q e using False assms(2) by auto
    ultimately show ?thesis unfolding handler using kept saving
      by (auto simp: between_parts Let_def start_authorization_def link_push flow_push split: option.split chain.split)
  next
    case True
    then obtain e where purpose: "purpose = Some (p, For_link e)" using assms(2)
      by (cases purpose) (auto elim: link_call.elims)
    have "link_due p t" using True assms same by (auto simp: between_parts intro: link_due_end)
    then show ?thesis unfolding handler using saving purpose
      by (simp add: between_parts start_authorization_def link_push flow_push)
  qed
qed

lemma between_started:
  assumes "between p s s" "c = Start_call q grp e" "c \<in> set (oa_calls s)"
  shows "between p s (on_started q result (end_oauth c s))"
proof (cases "p = q")
  case True
  then have "busy_with (link_call p) False (remove1 c (oa_calls s))"
    using assms by (auto simp: between_def intro: busy_end)
  then show ?thesis using assms True
    by (auto simp: on_started_def between_def flow_ok_def polls_ok_simps split: option.split)
next
  case False
  then show ?thesis using assms by (simp add: on_started_def between_def polls_ok_simps)
qed

lemma generate_due:
  assumes "flow_kept p s s" "link_kept p s" "\<not> fl_generating (oa_flow s q)"
  shows "flow_kept p s (set_flow q (\<lambda>f. f\<lparr>fl_generating := True\<rparr>) s)"
    "if p = q then link_due p (set_flow q (\<lambda>f. f\<lparr>fl_generating := True\<rparr>) s)
     else link_kept p (set_flow q (\<lambda>f. f\<lparr>fl_generating := True\<rparr>) s)"
  using assms by (auto simp: flow_kept_def flow_ok_def link_kept_def link_due_def)

lemma between_parse:
  assumes "flow_kept p s t" "if p = OA_GMAIL \<and> chain \<noteq> Alone then link_due p t else link_kept p t"
  shows "between p s (handle_parse_client_secret chain t)"
proof -
  have kept: "flow_kept p s (set_parsing True t)"
    by (rule flow_kept_frame [OF assms(1)]) (use flow_of_kept [OF assms(1)] in auto)
  have "\<not> link_call p (Parse_call Alone json callback)" "p \<noteq> OA_GMAIL \<Longrightarrow> \<not> link_call p (Parse_call chain json callback)"
    "p = OA_GMAIL \<Longrightarrow> chain \<noteq> Alone \<Longrightarrow> link_call p (Parse_call chain json callback)" for json callback
    by (cases chain; simp)+
  then show ?thesis using kept assms(2)
    by (cases "p = OA_GMAIL \<and> chain \<noteq> Alone")
      (auto simp: handle_parse_client_secret_def Let_def between_parts link_push flow_push)
qed

lemma between_generate:
  assumes "between p s s" "\<not> fl_generating (oa_flow s q)"
  shows "between p s (handle_generate_auth_url q s)"
proof -
  let ?t = "set_flow q (\<lambda>f. f\<lparr>fl_generating := True\<rparr>) s"
  have t: "flow_kept p s ?t" "if p = q then link_due p ?t else link_kept p ?t"
    using generate_due [of p s q] assms by (simp_all add: between_parts)
  have save: "between p s (save_oauth_config q (For_link e) ?t)" for e
    using t by (cases "p = q") (auto simp: between_parts save_flow_kept save_link_due save_link_other)
  then show ?thesis
  proof (cases q)
    case OA_GMAIL
    then have "between p s (handle_parse_client_secret (For_link e) ?t)" for e using t by (intro between_parse) simp_all
    then show ?thesis using save OA_GMAIL by (simp add: Let_def)
  qed simp
qed

lemma between_upload: "between p s s \<Longrightarrow> between p s (handle_google_json_upload content s)"
proof -
  assume kept: "between p s s"
  have "between p s (apply_google_json_import c s)" for c
    using kept by (auto simp: apply_google_json_import_def between_def flow_ok_def reset_oauth_flow_def set_parsing_def)
  then show ?thesis using kept by (simp add: handle_google_json_upload_def split: option.split)
qed

lemma between_end [simp]: "between p (end_oauth c s) t = between p s t"
  by (simp add: between_def)

lemma oauth_invI: "(\<And>p. between p s t) \<Longrightarrow> oauth_inv t"
  by (auto simp: oauth_inv_def intro: between_same)

lemma between_imported:
  assumes "between p s s" "\<not> link_call p c"
  shows "between p s (on_imported result (end_oauth c s))"
  using assms by (auto simp: on_imported_def between_def with_parsed_def flow_ok_def split: option.split)

lemma oauth_inv_step: "oauth_step s e t \<Longrightarrow> oauth_inv s \<Longrightarrow> oauth_inv t"
proof -
  assume step: "oauth_step s e t" and inv: "oauth_inv s"
  have start: "between p s s" for p using inv by (simp add: oauth_inv_def)
  consider (again) "t = dependencies_changed s" | (effect) p where "t = run_effect p s" | (other) "\<And>p. between p s t"
    using step
  proof cases
    case click_parse
    have "between p s (handle_parse_client_secret Alone s)" for p using start [of p] by (intro between_parse) (simp_all add: between_parts)
    then show ?thesis using that(3) click_parse by simp
  next
    case (parse_answered c chain json callback result)
    then show ?thesis using that(3) start between_parsed by simp
  next
    case (start_answered c q grp e link)
    then show ?thesis using that(3) start between_started by simp
  next
    case (account_answered c i account)
    have "between p s (on_account account (end_oauth c s))" for p
      using start [of p] account_answered by (auto simp: on_account_def between_def split: option.split)
    then show ?thesis using that(3) account_answered by simp
  next
    case (redirected get)
    have "between p s (redirected_back get s)" for p
      using start [of p] by (auto simp: redirected_back_def between_feedback split: option.split)
    then show ?thesis using that(3) redirected by simp
  next
    case (tick q)
    have "between p s (poll_tick q s)" for p using start [of p] by (auto simp: poll_tick_def Let_def between_def poll_ok_def)
    then show ?thesis using that(3) tick by simp
  next
    case (click_save q)
    have "between p s (save_oauth_config q Alone s)" for p
      using start [of p] by (simp add: between_parts save_flow_kept save_link_alone)
    then show ?thesis using that(3) click_save by simp
  next
    case (create_window protocol profile)
    show ?thesis by (rule that(3)) (use start in \<open>simp add: create_window open_create_def between_def\<close>)
  next
    case (edit_window i)
    show ?thesis by (rule that(3)) (use start in \<open>simp add: edit_window open_edit_def between_def\<close>)
  next
    case (choose_profile profile)
    show ?thesis by (rule that(3)) (use start in \<open>simp add: choose_profile apply_profile_selection_def between_def\<close>)
  next
    case (choose_protocol protocol profile)
    show ?thesis by (rule that(3)) (use start in \<open>simp add: choose_protocol apply_profile_selection_def between_def\<close>)
  next
    case (choose_auth auth)
    show ?thesis by (rule that(3)) (use start in \<open>simp add: choose_auth handle_auth_type_change_def between_def\<close>)
  next
    case (edit_fields p f)
    show ?thesis by (rule that(3)) (use start in \<open>simp add: edit_fields between_def\<close>)
  next
    case (choose_group g)
    show ?thesis by (rule that(3)) (use start in \<open>simp add: choose_group between_def\<close>)
  qed (use start that in \<open>auto simp: between_close between_upload between_generate between_imported between_answer
        between_config between_statuses\<close>)
  then show "oauth_inv t"
  proof cases
    case again
    then show ?thesis using again_inv inv by (simp add: dependencies_changed_def)
  next
    case (effect p)
    then show ?thesis using again_inv inv by (simp add: run_effect_def)
  next
    case other
    then show ?thesis by (rule oauth_invI)
  qed
qed

lemma oauth_inv_start: "oauth_start s \<Longrightarrow> oauth_inv s"
  by (simp add: oauth_start_def oauth0_def oauth_inv_def between_def flow_ok_def idle_flow_def busy_with_def one_if_def polls_ok_def poll_ok_def)

interpretation oauth_links: machine_invariant oauth_start oauth_step oauth_inv
  by unfold_locales (auto intro: oauth_inv_start oauth_inv_step)

lemma oauth_reach: "reach oauth_start oauth_step s \<Longrightarrow> between p s s"
  using oauth_links.inv_reach by (simp add: oauth_inv_def)

section \<open>Properties\<close>

lemma live_poll:
  assumes "between p s s" "Poll_call p st n \<in> set (oa_calls s)"
  shows "st \<noteq> []" "n = fl_watch (oa_flow s p) \<Longrightarrow> st = fl_watched (oa_flow s p)"
  using assms by (auto simp: between_def polls_ok_def list_all_iff poll_ok_def)

lemma stale_poll: "n \<noteq> fl_watch (oa_flow s p) \<Longrightarrow> on_poll p n result s = s"
  by (auto simp: on_poll_def split: option.split)

text \<open>Resuming the polls of a link: the polls of earlier runs do nothing, and the others each do the same.\<close>

abbreviation live_polls :: "oauth_provider \<Rightarrow> jstr \<Rightarrow> oauth_setup \<Rightarrow> nat" where
  "live_polls p st s \<equiv> length (filter (\<lambda>c. c = Poll_call p st (fl_watch (oa_flow s p))) (oa_calls s))"

lemma feedback_simps [simp]:
  "oa_toasts (handle_oauth_completion_feedback r s) = Completed r # oa_toasts s"
  "oa_reloads (handle_oauth_completion_feedback r s) = Suc (oa_reloads s)"
  "oa_calls (handle_oauth_completion_feedback r s) = oa_calls s"
  "fl_watch (oa_flow (handle_oauth_completion_feedback r s) p) = fl_watch (oa_flow s p)"
  "fl_watched (oa_flow (handle_oauth_completion_feedback r s) p) = fl_watched (oa_flow s p)"
  "fl_pending (oa_flow (handle_oauth_completion_feedback r s) (cp_provider r)) = []"
  by (auto simp: handle_oauth_completion_feedback_def Let_def close_oauth_window_def reset_oauth_flow_def
      reset_all_oauth_flows_def set_flow_def)

lemma completed_poll:
  "on_poll p n (Some (Link_completed (Some r), expires)) s =
     (if n = fl_watch (oa_flow s p) then handle_oauth_completion_feedback r s else s)"
  by (simp add: on_poll_def)

lemma resume_completed:
  assumes "\<forall>c \<in> set cs. is_poll p st c"
  shows "let u = foldr (resume_poll (Some (Link_completed (Some r), expires))) cs s;
             n = length (filter (\<lambda>c. c = Poll_call p st (fl_watch (oa_flow s p))) cs)
         in oa_toasts u = replicate n (Completed r) @ oa_toasts s \<and> oa_reloads u = n + oa_reloads s
            \<and> oa_calls u = oa_calls s \<and> fl_watch (oa_flow u p) = fl_watch (oa_flow s p)
            \<and> fl_watched (oa_flow u p) = fl_watched (oa_flow s p)
            \<and> (0 < n \<longrightarrow> fl_pending (oa_flow u (cp_provider r)) = [])"
  using assms
proof (induction cs)
  case (Cons c cs)
  then obtain k where c: "c = Poll_call p st k" by (cases c) (auto simp: is_poll_def)
  show ?case using Cons by (auto simp: Let_def c resume_poll_def completed_poll)
qed simp

lemma is_pollD: "is_poll p st c \<Longrightarrow> \<exists>n. c = Poll_call p st n"
  by (cases c) (simp_all add: is_poll_def)

lemma filter_live: "filter (\<lambda>c. is_poll p st c \<and> c = Poll_call p st k) cs = filter (\<lambda>c. c = Poll_call p st k) cs"
  by (rule filter_cong) (auto simp: is_poll_def)

lemma poll_answers: "oauth_step s (Poll_answered p st result) t \<Longrightarrow> t = on_poll_answer p st result s"
  by (erule oauth_step.cases) simp_all

lemma completed_answer:
  assumes "oauth_step s (Poll_answered p st (Some (Link_completed (Some r), expires))) t"
  shows "oa_toasts t = replicate (live_polls p st s) (Completed r) @ oa_toasts s"
    "oa_reloads t = live_polls p st s + oa_reloads s" "fl_watched (oa_flow t p) = fl_watched (oa_flow s p)"
    "0 < live_polls p st s \<Longrightarrow> fl_pending (oa_flow t (cp_provider r)) = []"
  using resume_completed [of "filter (is_poll p st) (oa_calls s)" p st r expires
      "s\<lparr>oa_calls := filter (\<lambda>c. \<not> is_poll p st c) (oa_calls s)\<rparr>"]
  by (simp_all add: poll_answers [OF assms] on_poll_answer_def Let_def filter_live)

lemma resume_stale:
  assumes "\<forall>c \<in> set cs. \<exists>q st n. c = Poll_call q st n \<and> n \<noteq> fl_watch (oa_flow s q)"
  shows "foldr (resume_poll result) cs s = s"
  using assms by (induction cs) (auto simp: resume_poll_def stale_poll)

text \<open>C18: 
  A completed authorization is reported, and the list loaded again, exactly once for every poll of the current run of the
  effect that waits for that answer: polls of the same link share one request, and polls of earlier runs are ignored. Once
  the effect has run after that, no answer to any poll of the provider is reported any more.
\<close>

theorem completion_reports:
  assumes "reach oauth_start oauth_step s" "Poll_call p st (fl_watch (oa_flow s p)) \<in> set (oa_calls s)" "cp_provider r = p"
    "oauth_step s (Poll_answered p st (Some (Link_completed (Some r), expires))) t"
  shows "let n = length (filter (\<lambda>c. c = Poll_call p st (fl_watch (oa_flow s p))) (oa_calls s))
         in oa_toasts t = replicate n (Completed r) @ oa_toasts s \<and> oa_reloads t = n + oa_reloads s \<and>
            (\<forall>st' result u. oauth_step (run_effect p t) (Poll_answered p st' result) u \<longrightarrow>
               oa_toasts u = oa_toasts t \<and> oa_reloads u = oa_reloads t)"
proof -
  let ?v = "run_effect p t"
  note answer = completed_answer [OF assms(4)]
  have "filter (\<lambda>c. c = Poll_call p st (fl_watch (oa_flow s p))) (oa_calls s) \<noteq> []"
    using assms(2) by (auto simp: filter_empty_conv)
  then have pending: "fl_pending (oa_flow t p) = []" using answer(4) assms(3) by simp
  have "fl_watched (oa_flow s p) \<noteq> []" using live_poll [OF oauth_reach [OF assms(1)] assms(2)] by auto
  then have effect: "?v = watch_again p t" using answer(3) pending by (simp add: run_effect_def)
  have v: "oa_toasts ?v = oa_toasts t" "oa_reloads ?v = oa_reloads t" "fl_watched (oa_flow ?v p) = []"
    using pending by (simp_all add: effect watch_again_def set_flow_def)
  have "reach oauth_start oauth_step t" using assms(1,4) by (rule reach_step)
  then have "reach oauth_start oauth_step ?v" by (rule reach_step) (rule oauth_step.effect)
  then have later: "between p ?v ?v" by (rule oauth_reach)
  have "oa_toasts u = oa_toasts t \<and> oa_reloads u = oa_reloads t" if "oauth_step ?v (Poll_answered p st' result) u" for st' result u
  proof -
    let ?w = "?v\<lparr>oa_calls := filter (\<lambda>c. \<not> is_poll p st' c) (oa_calls ?v)\<rparr>"
    have "\<exists>q st n. c = Poll_call q st n \<and> n \<noteq> fl_watch (oa_flow ?w q)" if mem: "c \<in> set (filter (is_poll p st') (oa_calls ?v))" for c
    proof -
      obtain n where c: "c = Poll_call p st' n" "c \<in> set (oa_calls ?v)" using mem by (auto dest: is_pollD)
      then have "n \<noteq> fl_watch (oa_flow ?v p)" using live_poll [OF later] v(3) by blast
      then show ?thesis using c by simp
    qed
    then have "u = ?w" unfolding poll_answers [OF that] on_poll_answer_def by (intro resume_stale) blast
    then show ?thesis using v by simp
  qed
  then show ?thesis using answer(1,2) by (simp only: Let_def) blast
qed

text \<open>
  So a completion can be reported twice: whenever a poll is still under way when the timer ticks again, the answer
  that both wait for shows two messages and loads the list twice.
\<close>

theorem completed_twice:
  assumes "reach oauth_start oauth_step s" "Poll_call p st (fl_watch (oa_flow s p)) \<in> set (oa_calls s)"
  shows "\<exists>t. run oauth_step s [Poll_ticked p, Poll_answered p st (Some (Link_completed (Some r), None))] t \<and>
           (\<exists>more. oa_toasts t = Completed r # Completed r # more) \<and> oa_reloads s + 2 \<le> oa_reloads t"
proof -
  let ?c = "Poll_call p st (fl_watch (oa_flow s p))"
  let ?u = "poll_tick p s"
  let ?t = "on_poll_answer p st (Some (Link_completed (Some r), None)) ?u"
  have link: "st = fl_watched (oa_flow s p)" "st \<noteq> []" using live_poll [OF oauth_reach [OF assms(1)] assms(2)] by auto
  then have u: "oa_calls ?u = ?c # oa_calls s" "oa_flow ?u = oa_flow s" "oa_reloads ?u = oa_reloads s"
    by (simp_all add: poll_tick_def Let_def push_oauth_def)
  have answered: "oauth_step ?u (Poll_answered p st (Some (Link_completed (Some r), None))) ?t"
    by (rule poll_answered [of ?c]) (simp_all add: u is_poll_def)
  have "filter (\<lambda>c. c = ?c) (oa_calls s) \<noteq> []" using assms(2) by (auto simp: filter_empty_conv)
  then obtain k where k: "live_polls p st ?u = Suc (Suc k)"
    by (cases "filter (\<lambda>c. c = ?c) (oa_calls s)") (simp_all add: u)
  have "oa_toasts ?t = Completed r # Completed r # replicate k (Completed r) @ oa_toasts ?u"
    "oa_reloads s + 2 \<le> oa_reloads ?t"
    using completed_answer(1,2) [OF answered] u(3) by (simp_all only: k) simp_all
  then show ?thesis using tick [of s p] answered by (blast intro: run.intros)
qed

text \<open>One link of a provider is generated at a time: its button is busy while one request for it is under way.\<close>

theorem one_link_at_a_time:
  assumes "reach oauth_start oauth_step s"
  shows "length (filter (link_call p) (oa_calls s)) = (if fl_generating (oa_flow s p) then 1 else 0)"
  using oauth_reach [OF assms, of p] by (simp add: between_def busy_with_def one_if_def)

fun link_failure :: "oauth_provider \<Rightarrow> oauth_event \<Rightarrow> bool" where
  "link_failure p (Parse_answered c None) = link_call p c"
| "link_failure p (Config_answered c False) = link_call p c"
| "link_failure p (Start_answered c None) = link_call p c"
| "link_failure p e = False"

text \<open>C17: 
  Whatever fails on the way to a link - reading the client secret, saving the configuration, starting the authorization - the
  answer that says so leaves the link shown and the link waited for as they were just before it (a Gmail client secret that
  was read with success earlier on the way has cleared them by then); after it no request on the way to a link of that
  provider is under way, and while the provider's section is open its button works again.
\<close>

theorem failed_link_recovers:
  assumes "reach oauth_start oauth_step s" "oauth_step s e t" "link_failure p e"
  shows "fl_url (oa_flow t p) = fl_url (oa_flow s p) \<and> fl_pending (oa_flow t p) = fl_pending (oa_flow s p) \<and>
         \<not> fl_generating (oa_flow t p) \<and> filter (link_call p) (oa_calls t) = [] \<and>
         (section_open p t \<longrightarrow> oauth_step t (Link_clicked p) (handle_generate_auth_url p t))"
proof -
  have flow: "fl_url (oa_flow t p) = fl_url (oa_flow s p) \<and> fl_pending (oa_flow t p) = fl_pending (oa_flow s p) \<and>
      \<not> fl_generating (oa_flow t p)"
    using assms(2)
  proof cases
    case (parse_answered c chain json callback result)
    then obtain x where chain: "chain = For_link x" "p = OA_GMAIL" "result = None" using assms(3) by (cases chain; cases result) auto
    then show ?thesis using parse_answered by (simp add: on_parsed_def)
  next
    case (config_answered c q chain config ok)
    then obtain x where "chain = For_link x" "p = q" "\<not> ok" using assms(3) by (cases chain; cases ok) auto
    then show ?thesis using config_answered by (simp add: on_config_saved_def)
  next
    case (start_answered c q grp x link)
    then have q: "p = q" "link = None" using assms(3) by (cases link; simp)+
    then show ?thesis using start_answered by (simp add: on_started_def)
  qed (use assms(3) in simp_all)
  have "length (filter (link_call p) (oa_calls t)) = 0"
    using oauth_reach [OF reach_step [OF assms(1,2)], of p] flow by (simp add: between_def busy_with_def one_if_def)
  then show ?thesis using flow click_link [of p t] by simp
qed

text \<open>
  A link that arrives after its window has been closed is shown in the window opened since: following it there
  authorizes the mailbox of the closed window.
\<close>

theorem link_for_other_mailbox:
  assumes "Start_call p grp (Some a) \<in> set (oa_calls s)" "url \<noteq> []"
  shows "\<exists>t. run oauth_step s [Window_closed, Edit_clicked b, Start_answered (Start_call p grp (Some a)) (Some (url, st, expires))] t \<and>
           fl_url (oa_flow t p) = url \<and> oa_visible t \<and> oa_editing t = Some b"
proof -
  let ?u = "close_oauth_window s"
  let ?v = "open_edit b ?u"
  let ?w = "on_started p (Some (url, st, expires)) (end_oauth (Start_call p grp (Some a)) ?v)"
  have closed: "\<not> oa_visible ?u" by (simp add: close_oauth_window_def)
  have pending: "Start_call p grp (Some a) \<in> set (oa_calls ?v)" using assms(1) by (simp add: open_edit_def close_oauth_window_def)
  have "run oauth_step s [Window_closed, Edit_clicked b, Start_answered (Start_call p grp (Some a)) (Some (url, st, expires))] ?w"
    using close_window [of s] edit_window [OF closed, of b] start_answered [OF refl pending]
    by (blast intro: run.intros)
  moreover have "fl_url (oa_flow ?w p) = url" "oa_visible ?w" "oa_editing ?w = Some b"
    using assms(2) by (simp_all add: on_started_def open_edit_def push_oauth_def)
  ultimately show ?thesis by blast
qed

lemma normalize_scope_field [simp]: "normalize_oauth_scope_profile (scope_field value) = normalize_oauth_scope_profile value"
  by (cases "normalize_oauth_scope_profile value")
    (simp_all add: scope_field_def normalize_oauth_scope_profile_def oauth_scope_profiles_def js_eval)

text \<open>
  A configuration that is saved as it was loaded stays: the secret, which the server does not tell, is not sent, and an
  Outlook configuration without a tenant gets the one the page proposes.
\<close>

theorem untouched_config_kept:
  assumes "st_redirect status = Some r" "st_client status = Some i"
  shows "oauth_config_of p (oauth_form_defaults p status) =
           \<lparr>oc_redirect = st_redirect status, oc_client = st_client status, oc_secret = None,
            oc_tenant = (case p of OA_GMAIL \<Rightarrow> None | OA_OUTLOOK \<Rightarrow> Some (or_text (st_tenant status) (js ''consumers''))),
            oc_profile = normalize_oauth_scope_profile (st_profile status)\<rparr>"
  using assms by (cases p) (simp_all add: oauth_config_of_def or_text_def or_none_def)

section \<open>Examples\<close>

definition sample_fields :: oauth_fields where
  "sample_fields = no_oauth_fields\<lparr>of_callback := Some (js ''r''), of_client := Some (js ''c''), of_scope := Some (js ''send'')\<rparr>"

definition sample_config :: oauth_call where
  "sample_config = Config_call OA_OUTLOOK (For_link (Some 4)) (oauth_config_of OA_OUTLOOK sample_fields)"

definition linking_handlers :: "(oauth_setup \<Rightarrow> oauth_setup) list" where
  "linking_handlers =
     [open_edit 4,
      (\<lambda>s. on_account (Some (OUTLOOK, MICROSOFT_OAUTH, None)) (end_oauth (Account_call 4) s)),
      set_fields OA_OUTLOOK (\<lambda>_. sample_fields),
      handle_generate_auth_url OA_OUTLOOK,
      (\<lambda>s. on_config_saved OA_OUTLOOK (For_link (Some 4)) True (end_oauth sample_config s)),
      (\<lambda>s. on_statuses (Some (OA_OUTLOOK, For_link (Some 4))) None
          (end_oauth (Statuses_call (Some (OA_OUTLOOK, For_link (Some 4)))) s)),
      (\<lambda>s. on_started OA_OUTLOOK (Some (js ''u'', js ''s'', 9)) (end_oauth (Start_call OA_OUTLOOK None (Some 4)) s)),
      run_effect OA_OUTLOOK]"

definition linking :: "nat \<Rightarrow> oauth_setup" where
  "linking n = foldl (\<lambda>s f. f s) oauth0 (take n linking_handlers)"

lemma linking_next: "n < length linking_handlers \<Longrightarrow> linking (Suc n) = (linking_handlers ! n) (linking n)"
  by (simp add: linking_def take_Suc_conv_app_nth)

lemma linking_eqs:
  "linking 1 = open_edit 4 (linking 0)"
  "linking 2 = on_account (Some (OUTLOOK, MICROSOFT_OAUTH, None)) (end_oauth (Account_call 4) (linking 1))"
  "linking 3 = set_fields OA_OUTLOOK (\<lambda>_. sample_fields) (linking 2)"
  "linking 4 = handle_generate_auth_url OA_OUTLOOK (linking 3)"
  "linking 5 = on_config_saved OA_OUTLOOK (For_link (Some 4)) True (end_oauth sample_config (linking 4))"
  "linking 6 = on_statuses (Some (OA_OUTLOOK, For_link (Some 4))) None
     (end_oauth (Statuses_call (Some (OA_OUTLOOK, For_link (Some 4)))) (linking 5))"
  "linking 7 = on_started OA_OUTLOOK (Some (js ''u'', js ''s'', 9)) (end_oauth (Start_call OA_OUTLOOK None (Some 4)) (linking 6))"
  "linking 8 = run_effect OA_OUTLOOK (linking 7)"
  using linking_next [of 0] linking_next [of 1] linking_next [of 2] linking_next [of 3] linking_next [of 4] linking_next [of 5]
    linking_next [of 6] linking_next [of 7]
  by (simp_all add: linking_handlers_def eval_nat_numeral del: handle_generate_auth_url.simps)

lemma linking_eval:
  "\<not> oa_visible (linking 0)" "Account_call 4 \<in> set (oa_calls (linking 1))" "section_open OA_OUTLOOK (linking 2)"
  "section_open OA_OUTLOOK (linking 3)" "\<not> fl_generating (oa_flow (linking 3) OA_OUTLOOK)" "sample_config \<in> set (oa_calls (linking 4))"
  "Statuses_call (Some (OA_OUTLOOK, For_link (Some 4))) \<in> set (oa_calls (linking 5))"
  "Start_call OA_OUTLOOK None (Some 4) \<in> set (oa_calls (linking 6))" "Poll_call OA_OUTLOOK (js ''s'') 1 \<in> set (oa_calls (linking 8))"
  "fl_watch (oa_flow (linking 8) OA_OUTLOOK) = 1" "oa_calls (linking 8) = [Poll_call OA_OUTLOOK (js ''s'') 1, Statuses_call None]"
  by code_simp+

lemma linking_steps:
  "oauth_step (linking 0) (Edit_clicked 4) (linking 1)"
  "oauth_step (linking 1) (Account_answered (Account_call 4) (Some (OUTLOOK, MICROSOFT_OAUTH, None))) (linking 2)"
  "oauth_step (linking 2) (Oauth_fields_edited OA_OUTLOOK sample_fields) (linking 3)"
  "oauth_step (linking 3) (Link_clicked OA_OUTLOOK) (linking 4)"
  "oauth_step (linking 4) (Config_answered sample_config True) (linking 5)"
  "oauth_step (linking 5) (Statuses_answered (Statuses_call (Some (OA_OUTLOOK, For_link (Some 4)))) None) (linking 6)"
  "oauth_step (linking 6) (Start_answered (Start_call OA_OUTLOOK None (Some 4)) (Some (js ''u'', js ''s'', 9))) (linking 7)"
  "oauth_step (linking 7) (Effect_run OA_OUTLOOK) (linking 8)"
  by (subst linking_eqs(1), rule edit_window [OF linking_eval(1)],
      subst linking_eqs(2), rule account_answered [OF refl linking_eval(2)],
      subst linking_eqs(3), rule edit_fields [OF linking_eval(3)],
      subst linking_eqs(4), rule click_link [OF linking_eval(4,5)],
      subst linking_eqs(5), rule config_answered [OF sample_config_def linking_eval(6)],
      subst linking_eqs(6), rule statuses_answered [OF refl linking_eval(7)],
      subst linking_eqs(7), rule start_answered [OF refl linking_eval(8)],
      subst linking_eqs(8), rule effect)

lemma linking_reach: "reach oauth_start oauth_step (linking 4) \<and> reach oauth_start oauth_step (linking 6) \<and> reach oauth_start oauth_step (linking 8)"
proof -
  have "reach oauth_start oauth_step (linking 0)" by (rule reach_start) (simp add: oauth_start_def linking_def)
  then show ?thesis by (meson linking_steps reach_step)
qed

definition sample_completion :: completion where
  "sample_completion = \<lparr>cp_provider = OA_OUTLOOK, cp_status = Oauth_success, cp_code = js ''ok'', cp_action = None\<rparr>"

theorem completion_reports_witness:
  "oa_toasts (on_poll_answer OA_OUTLOOK (js ''s'') (Some (Link_completed (Some sample_completion), None)) (linking 8)) =
     Completed sample_completion # oa_toasts (linking 8)"
proof -
  have polls: "filter (\<lambda>c. c = Poll_call OA_OUTLOOK (js ''s'') 1) [Poll_call OA_OUTLOOK (js ''s'') 1, Statuses_call None] =
      [Poll_call OA_OUTLOOK (js ''s'') 1]" by simp
  have "oauth_step (linking 8) (Poll_answered OA_OUTLOOK (js ''s'') (Some (Link_completed (Some sample_completion), None)))
      (on_poll_answer OA_OUTLOOK (js ''s'') (Some (Link_completed (Some sample_completion), None)) (linking 8))"
    by (rule poll_answered [OF linking_eval(9)]) (simp add: is_poll_def)
  then show ?thesis
    using completion_reports [of "linking 8" OA_OUTLOOK "js ''s''" sample_completion None] linking_reach linking_eval(9)
    by (simp add: linking_eval(10) sample_completion_def Let_def) (simp add: linking_eval(11) polls)
qed

theorem completed_twice_witness:
  "\<exists>t more. run oauth_step (linking 8) [Poll_ticked OA_OUTLOOK,
      Poll_answered OA_OUTLOOK (js ''s'') (Some (Link_completed (Some sample_completion), None))] t \<and>
     oa_toasts t = Completed sample_completion # Completed sample_completion # more"
  using completed_twice [of "linking 8" OA_OUTLOOK "js ''s''" sample_completion] linking_reach linking_eval(9,10) by auto

theorem one_link_at_a_time_witness: "length (filter (link_call OA_OUTLOOK) (oa_calls (linking 4))) = 1"
proof -
  have "fl_generating (oa_flow (linking 4) OA_OUTLOOK)" by code_simp
  then show ?thesis using one_link_at_a_time [of "linking 4" OA_OUTLOOK] linking_reach by simp
qed

theorem failed_link_recovers_witness:
  "\<not> fl_generating (oa_flow (on_config_saved OA_OUTLOOK (For_link (Some 4)) False (end_oauth sample_config (linking 4))) OA_OUTLOOK)"
proof -
  have "link_failure OA_OUTLOOK (Config_answered sample_config False)" by (simp add: sample_config_def)
  then show ?thesis
    using failed_link_recovers [of "linking 4" "Config_answered sample_config False"] linking_reach
      config_answered [OF sample_config_def linking_eval(6), of False] by blast
qed

theorem link_for_other_mailbox_witness:
  "\<exists>t. run oauth_step (linking 6) [Window_closed, Edit_clicked 5, Start_answered (Start_call OA_OUTLOOK None (Some 4)) (Some (js ''u'', js ''s'', 9))] t \<and>
     fl_url (oa_flow t OA_OUTLOOK) = js ''u'' \<and> oa_visible t \<and> oa_editing t = Some 5"
  by (rule link_for_other_mailbox [OF linking_eval(8)]) (simp add: js_eval)

theorem untouched_config_kept_witness:
  "oauth_config_of OA_OUTLOOK (oauth_form_defaults OA_OUTLOOK (empty_oauth_status\<lparr>st_redirect := Some (js ''r''), st_client := Some (js ''c'')\<rparr>)) =
     \<lparr>oc_redirect = Some (js ''r''), oc_client = Some (js ''c''), oc_secret = None, oc_tenant = Some (js ''consumers''), oc_profile = Minimal\<rparr>"
  using untouched_config_kept [of "empty_oauth_status\<lparr>st_redirect := Some (js ''r''), st_client := Some (js ''c'')\<rparr>" "js ''r''" "js ''c''" OA_OUTLOOK]
  by (simp add: empty_oauth_status_def or_text_def normalize_oauth_scope_profile_def oauth_scope_profiles_def)

end
