(* ===== verification/ApiKeyEditor.thy ===== *)
theory ApiKeyEditor
  imports LogActions Providers Listing
begin

text \<open>
  The list of API keys and the window that creates and edits them (web/src/pages/api-keys/index.tsx): numbered loads of
  the list, the form with its permissions and scopes, the details that an edit loads, and what is sent. Ids are
  database keys and never 0; dates are instants. The form keeps the values of fields that are not shown.
\<close>

section \<open>Data\<close>

datatype key_status = Key_active | Key_disabled

record api_key =
  ak_id :: nat
  ak_name :: jstr
  ak_rate :: nat
  ak_status :: key_status
  ak_expires :: "int option"

record api_key_detail = api_key +
  ad_permissions :: "(jstr \<times> bool) list option"
  ad_groups :: "nat list option"
  ad_emails :: "nat list option"
  ad_domains :: "nat list option"

record email_option =
  eo_id :: nat
  eo_group :: "nat option"

record key_form =
  kf_name :: jstr
  kf_rate :: "nat option"
  kf_status :: "key_status option"
  kf_expires :: "int option"
  kf_permissions :: "jstr list"
  kf_groups :: "nat list"
  kf_emails :: "nat list"
  kf_domains :: "nat list"

text \<open>What is sent; the permissions are the keys of an object whose values are all \<open>true\<close>.\<close>

record key_payload =
  kp_name :: jstr
  kp_rate :: "nat option"
  kp_status :: "key_status option"
  kp_expires :: "int option"
  kp_permissions :: "jstr list"
  kp_groups :: "nat list"
  kp_emails :: "nat list"
  kp_domains :: "nat list"

definition all_permission_actions :: "jstr list" where
  "all_permission_actions = map (\<lambda>(a, label). action_text a) api_key_permission_action_options"

text \<open>\<open>permission.replace(/-/g, '_')\<close>.\<close>

definition underscored :: "jstr \<Rightarrow> jstr" where
  "underscored p = map (\<lambda>c. if c = 45 then 95 else c) p"

definition selected_permissions :: "(jstr \<times> bool) list option \<Rightarrow> jstr list" where
  "selected_permissions permissions =
     (case permissions of
        None \<Rightarrow> all_permission_actions
      | Some entries \<Rightarrow> map (\<lambda>(p, allowed). underscored p) (filter snd entries))"

definition positive_ids :: "nat list \<Rightarrow> nat list" where
  "positive_ids items = distinct_values (filter (\<lambda>item. 0 < item) items)"

section \<open>State\<close>

datatype key_call =
    Keys_call nat nat nat
  | Email_options_call
  | Key_detail_call nat
  | Key_update_call nat key_payload nat nat
  | Key_create_call key_payload nat nat
  | Key_delete_call nat nat nat

record api_keys =
  ky_data :: "api_key list"
  ky_total :: nat
  ky_page :: nat
  ky_size :: nat
  ky_loading :: bool
  ky_request :: nat
  ky_options :: "email_option list"
  ky_visible :: bool
  ky_editing :: "nat option"
  ky_detail_loading :: bool
  ky_form :: key_form
  ky_new_key :: jstr
  ky_new_visible :: bool
  ky_calls :: "key_call list"

definition max_key_page_size :: nat where
  "max_key_page_size = 100"

definition push_key :: "key_call \<Rightarrow> api_keys \<Rightarrow> api_keys" where
  "push_key c s = s\<lparr>ky_calls := c # ky_calls s\<rparr>"

definition end_key :: "key_call \<Rightarrow> api_keys \<Rightarrow> api_keys" where
  "end_key c s = s\<lparr>ky_calls := remove1 c (ky_calls s)\<rparr>"

section \<open>The list\<close>

definition fetch_keys :: "nat \<Rightarrow> nat \<Rightarrow> api_keys \<Rightarrow> api_keys" where
  "fetch_keys page size1 s =
     push_key (Keys_call (Suc (ky_request s)) page (min size1 max_key_page_size))
       (s\<lparr>ky_request := Suc (ky_request s), ky_loading := True\<rparr>)"

definition on_keys :: "nat \<Rightarrow> (api_key list \<times> nat) option \<Rightarrow> api_keys \<Rightarrow> api_keys" where
  "on_keys request_id result s =
     (if request_id \<noteq> ky_request s then s
      else (case result of None \<Rightarrow> s | Some (rows, n) \<Rightarrow> s\<lparr>ky_data := rows, ky_total := n\<rparr>)\<lparr>ky_loading := False\<rparr>)"

definition change_key_page :: "nat \<Rightarrow> nat \<Rightarrow> api_keys \<Rightarrow> api_keys" where
  "change_key_page page size1 s =
     (let size2 = min size1 max_key_page_size;
          t = s\<lparr>ky_page := page, ky_size := size2\<rparr>
      in if page = ky_page s \<and> size2 = ky_size s then t else fetch_keys page size2 t)"

section \<open>Mailboxes that can be chosen\<close>

definition scoped_allowed_email_options :: "email_option list \<Rightarrow> nat list option \<Rightarrow> email_option list" where
  "scoped_allowed_email_options options1 groups =
     (let selected = filter (\<lambda>g. 0 < g) (case groups of None \<Rightarrow> [] | Some gs \<Rightarrow> gs)
      in if selected = [] then options1
         else filter (\<lambda>item. case eo_group item of None \<Rightarrow> False | Some g \<Rightarrow> g \<in> set selected) options1)"

text \<open>The groups that the page watches: those of the form while its fields are shown.\<close>

definition watched_groups :: "api_keys \<Rightarrow> nat list option" where
  "watched_groups s = (if ky_visible s then Some (kf_groups (ky_form s)) else None)"

definition prune_emails :: "api_keys \<Rightarrow> api_keys" where
  "prune_emails s =
     (let allowed = set (map eo_id (scoped_allowed_email_options (ky_options s) (watched_groups s)))
      in s\<lparr>ky_form := (ky_form s)\<lparr>kf_emails := filter (\<lambda>i. i \<in> allowed) (kf_emails (ky_form s))\<rparr>\<rparr>)"

text \<open>The effect that drops chosen mailboxes runs when the options have been computed again.\<close>

definition with_options :: "(api_keys \<Rightarrow> api_keys) \<Rightarrow> api_keys \<Rightarrow> api_keys" where
  "with_options f s =
     (let t = f s in if watched_groups t \<noteq> watched_groups s \<or> ky_options t \<noteq> ky_options s then prune_emails t else t)"

section \<open>The window\<close>

definition empty_key_form :: key_form where
  "empty_key_form =
     \<lparr>kf_name = [], kf_rate = Some 60, kf_status = None, kf_expires = None, kf_permissions = [], kf_groups = [], kf_emails = [],
      kf_domains = []\<rparr>"

definition handle_create_key :: "api_keys \<Rightarrow> api_keys" where
  "handle_create_key s =
     with_options (\<lambda>s. s\<lparr>ky_editing := None, ky_detail_loading := False,
       ky_form := empty_key_form\<lparr>kf_permissions := all_permission_actions\<rparr>, ky_visible := True\<rparr>) s"

definition handle_edit_key :: "api_key \<Rightarrow> api_keys \<Rightarrow> api_keys" where
  "handle_edit_key record1 s =
     push_key (Key_detail_call (ak_id record1))
       (with_options (\<lambda>s. s\<lparr>ky_editing := Some (ak_id record1), ky_detail_loading := True,
         ky_form := (ky_form s)\<lparr>kf_name := ak_name record1, kf_rate := Some (ak_rate record1), kf_status := Some (ak_status record1),
           kf_expires := ak_expires record1, kf_permissions := all_permission_actions\<rparr>, ky_visible := True\<rparr>) s)"

definition detail_form :: "api_key_detail \<Rightarrow> key_form" where
  "detail_form detail =
     \<lparr>kf_name = ak_name detail, kf_rate = Some (ak_rate detail), kf_status = Some (ak_status detail), kf_expires = ak_expires detail,
      kf_permissions = (let selected = selected_permissions (ad_permissions detail)
                        in if selected \<noteq> [] then selected else all_permission_actions),
      kf_groups = (case ad_groups detail of None \<Rightarrow> [] | Some ids \<Rightarrow> ids),
      kf_emails = (case ad_emails detail of None \<Rightarrow> [] | Some ids \<Rightarrow> ids),
      kf_domains = (case ad_domains detail of None \<Rightarrow> [] | Some ids \<Rightarrow> ids)\<rparr>"

definition on_key_detail :: "api_key_detail option \<Rightarrow> api_keys \<Rightarrow> api_keys" where
  "on_key_detail result s =
     with_options (\<lambda>s. (case result of None \<Rightarrow> s | Some detail \<Rightarrow> s\<lparr>ky_form := detail_form detail\<rparr>)\<lparr>ky_detail_loading := False\<rparr>) s"

definition close_key_window :: "api_keys \<Rightarrow> api_keys" where
  "close_key_window s = with_options (\<lambda>s. s\<lparr>ky_visible := False\<rparr>) s"

definition edit_key_form :: "key_form \<Rightarrow> api_keys \<Rightarrow> api_keys" where
  "edit_key_form f s = with_options (\<lambda>s. s\<lparr>ky_form := f\<rparr>) s"

text \<open>The status is a field of the form only while a key is edited.\<close>

definition key_submission :: "bool \<Rightarrow> key_form \<Rightarrow> key_payload" where
  "key_submission editing f =
     \<lparr>kp_name = kf_name f, kp_rate = kf_rate f, kp_status = (if editing then kf_status f else None), kp_expires = kf_expires f,
      kp_permissions = distinct_values (kf_permissions f), kp_groups = positive_ids (kf_groups f),
      kp_emails = positive_ids (kf_emails f), kp_domains = positive_ids (kf_domains f)\<rparr>"

definition valid_key_form :: "key_form \<Rightarrow> bool" where
  "valid_key_form f \<longleftrightarrow> kf_name f \<noteq> [] \<and> kf_permissions f \<noteq> []"

definition handle_submit_key :: "api_keys \<Rightarrow> api_keys" where
  "handle_submit_key s =
     (if \<not> valid_key_form (ky_form s) then s
      else case ky_editing s of
             Some i \<Rightarrow> push_key (Key_update_call i (key_submission True (ky_form s)) (ky_page s) (ky_size s)) s
           | None \<Rightarrow> push_key (Key_create_call (key_submission False (ky_form s)) (ky_page s) (ky_size s)) s)"

definition on_key_updated :: "nat \<Rightarrow> nat \<Rightarrow> bool \<Rightarrow> api_keys \<Rightarrow> api_keys" where
  "on_key_updated page size1 ok s = (if ok then fetch_keys page size1 (close_key_window s) else s)"

definition on_key_created :: "nat \<Rightarrow> nat \<Rightarrow> jstr option \<Rightarrow> api_keys \<Rightarrow> api_keys" where
  "on_key_created page size1 key s =
     (case key of None \<Rightarrow> s
      | Some k \<Rightarrow> fetch_keys page size1 ((close_key_window s)\<lparr>ky_new_key := k, ky_new_visible := True\<rparr>))"

definition handle_delete_key :: "nat \<Rightarrow> api_keys \<Rightarrow> api_keys" where
  "handle_delete_key i s = push_key (Key_delete_call i (ky_page s) (ky_size s)) s"

definition on_key_deleted :: "nat \<Rightarrow> nat \<Rightarrow> bool \<Rightarrow> api_keys \<Rightarrow> api_keys" where
  "on_key_deleted page size1 ok s = (if ok then fetch_keys page size1 s else s)"

section \<open>The machine\<close>

datatype key_event =
    Key_page_chosen nat nat | Keys_refreshed | Key_create_clicked | Key_edit_clicked api_key | Key_form_changed key_form
  | Key_language_switched | Key_submitted | Key_cancelled | New_key_closed | Key_deleted nat
  | Keys_loaded key_call "(api_key list \<times> nat) option" | Options_loaded key_call "email_option list option"
  | Key_detail_loaded key_call "api_key_detail option" | Key_updated key_call bool | Key_created key_call "jstr option"
  | Key_removed key_call bool

definition key_front :: "api_keys \<Rightarrow> bool" where
  "key_front s \<longleftrightarrow> \<not> ky_visible s \<and> \<not> ky_new_visible s"

text \<open>\<open>listed page size i\<close>: the server lists key \<open>i\<close> on that page. While the details are loaded the form cannot be edited, but
  the window's buttons work.\<close>

inductive key_step :: "(nat \<times> nat \<Rightarrow> nat \<Rightarrow> bool) \<Rightarrow> api_keys \<Rightarrow> key_event \<Rightarrow> api_keys \<Rightarrow> bool" for listed where
  key_page: "key_front s \<Longrightarrow> 1 \<le> page \<Longrightarrow> 1 \<le> size1 \<Longrightarrow> key_step listed s (Key_page_chosen page size1) (change_key_page page size1 s)"
| key_refresh: "key_front s \<Longrightarrow> key_step listed s Keys_refreshed (fetch_keys (ky_page s) (ky_size s) s)"
| key_language: "key_step listed s Key_language_switched (push_key Email_options_call (fetch_keys (ky_page s) (ky_size s) s))"
| key_create: "key_front s \<Longrightarrow> key_step listed s Key_create_clicked (handle_create_key s)"
| key_edit: "key_front s \<Longrightarrow> r \<in> set (ky_data s) \<Longrightarrow> key_step listed s (Key_edit_clicked r) (handle_edit_key r s)"
| key_form: "ky_visible s \<Longrightarrow> \<not> ky_detail_loading s \<Longrightarrow> key_step listed s (Key_form_changed f) (edit_key_form f s)"
| key_submit: "ky_visible s \<Longrightarrow> key_step listed s Key_submitted (handle_submit_key s)"
| key_cancel: "ky_visible s \<Longrightarrow> key_step listed s Key_cancelled (close_key_window s)"
| new_key_close: "ky_new_visible s \<Longrightarrow> key_step listed s New_key_closed (s\<lparr>ky_new_visible := False\<rparr>)"
| key_delete: "key_front s \<Longrightarrow> r \<in> set (ky_data s) \<Longrightarrow> key_step listed s (Key_deleted (ak_id r)) (handle_delete_key (ak_id r) s)"
| keys_loaded: "c = Keys_call n page size1 \<Longrightarrow> c \<in> set (ky_calls s) \<Longrightarrow>
     \<forall>rows k. result = Some (rows, k) \<longrightarrow> list_all (\<lambda>r. listed (page, size1) (ak_id r)) rows \<Longrightarrow>
     key_step listed s (Keys_loaded c result) (on_keys n result (end_key c s))"
| options_loaded: "c = Email_options_call \<Longrightarrow> c \<in> set (ky_calls s) \<Longrightarrow>
     key_step listed s (Options_loaded c options1)
       (with_options (\<lambda>s. case options1 of None \<Rightarrow> s | Some items \<Rightarrow> s\<lparr>ky_options := items\<rparr>) (end_key c s))"
| key_detail: "c = Key_detail_call i \<Longrightarrow> c \<in> set (ky_calls s) \<Longrightarrow> \<forall>d. detail = Some d \<longrightarrow> ak_id d = i \<Longrightarrow>
     key_step listed s (Key_detail_loaded c detail) (on_key_detail detail (end_key c s))"
| key_updated: "c = Key_update_call i payload page size1 \<Longrightarrow> c \<in> set (ky_calls s) \<Longrightarrow>
     key_step listed s (Key_updated c ok) (on_key_updated page size1 ok (end_key c s))"
| key_created: "c = Key_create_call payload page size1 \<Longrightarrow> c \<in> set (ky_calls s) \<Longrightarrow>
     key_step listed s (Key_created c key) (on_key_created page size1 key (end_key c s))"
| key_removed: "c = Key_delete_call i page size1 \<Longrightarrow> c \<in> set (ky_calls s) \<Longrightarrow>
     key_step listed s (Key_removed c ok) (on_key_deleted page size1 ok (end_key c s))"

definition keys0 :: api_keys where
  "keys0 = push_key Email_options_call (fetch_keys 1 10
     \<lparr>ky_data = [], ky_total = 0, ky_page = 1, ky_size = 10, ky_loading = False, ky_request = 0, ky_options = [], ky_visible = False,
      ky_editing = None, ky_detail_loading = False, ky_form = empty_key_form, ky_new_key = [], ky_new_visible = False, ky_calls = []\<rparr>)"

definition keys_start :: "api_keys \<Rightarrow> bool" where
  "keys_start s \<longleftrightarrow> s = keys0"

end
