(* ===== verification/ApiKeyTheorems.thy ===== *)
theory ApiKeyTheorems
  imports ApiKeyEditor
begin

text \<open>
  Creating and editing API keys: what is sent is well formed, and saving an edited key unchanged keeps it - once its
  details have been loaded and its mailboxes are among the options. Before that, saving grants every
  permission; a late answer gives one key the scopes of another; and mailboxes that are not offered are dropped.
\<close>

lemmas key_ops = push_key_def end_key_def fetch_keys_def

lemma all_actions: "all_permission_actions \<noteq> [] \<and> distinct all_permission_actions"
  by (simp add: all_permission_actions_def api_key_permission_action_options_def log_action_options_def all_log_actions_def)

section \<open>The list\<close>

definition key_load :: "api_keys \<Rightarrow> key_call \<Rightarrow> (nat \<times> nat) option" where
  "key_load s c = (case c of Keys_call n page size1 \<Rightarrow> if n = ky_request s then Some (page, size1) else None | _ \<Rightarrow> None)"

definition keys_view :: "api_keys \<Rightarrow> (nat \<times> nat, nat) listing" where
  "keys_view s =
     \<lparr>ls_par = (ky_page s, ky_size s), ls_due = False, ls_loads = List.map_filter (key_load s) (ky_calls s),
      ls_rows = map ak_id (ky_data s)\<rparr>"

definition keys_fail :: "key_event \<Rightarrow> bool" where
  "keys_fail e = (case e of Keys_loaded c None \<Rightarrow> True | _ \<Rightarrow> False)"

lemma keys_quiet:
  assumes "ky_page t = ky_page s" "ky_size t = ky_size s" "ky_request t = ky_request s" "ky_data t = ky_data s"
    "List.map_filter (key_load s) (ky_calls t) = List.map_filter (key_load s) (ky_calls s)"
  shows "keys_view t = keys_view s"
proof -
  have "key_load t = key_load s" using assms(3) by (auto simp: key_load_def fun_eq_iff split: key_call.split)
  then show ?thesis using assms by (simp add: keys_view_def)
qed

lemma keys_fetch: "listing_step holds ok v (keys_view (fetch_keys page size1 s))"
  by (rule listing_step.loading) (simp add: keys_view_def key_ops List.map_filter_simps key_load_def)

text \<open>Neither the options nor the form touch the list.\<close>

lemma prune_calm [simp]:
  "ky_page (prune_emails s) = ky_page s" "ky_size (prune_emails s) = ky_size s" "ky_request (prune_emails s) = ky_request s"
  "ky_data (prune_emails s) = ky_data s" "ky_calls (prune_emails s) = ky_calls s" "ky_visible (prune_emails s) = ky_visible s"
  "ky_editing (prune_emails s) = ky_editing s" "ky_options (prune_emails s) = ky_options s"
  "ky_detail_loading (prune_emails s) = ky_detail_loading s" "ky_new_visible (prune_emails s) = ky_new_visible s"
  by (simp_all add: prune_emails_def Let_def)

lemma with_options_calm [simp]:
  "ky_page (with_options f s) = ky_page (f s)" "ky_size (with_options f s) = ky_size (f s)"
  "ky_request (with_options f s) = ky_request (f s)" "ky_data (with_options f s) = ky_data (f s)"
  "ky_calls (with_options f s) = ky_calls (f s)" "ky_visible (with_options f s) = ky_visible (f s)"
  "ky_editing (with_options f s) = ky_editing (f s)" "ky_options (with_options f s) = ky_options (f s)"
  "ky_detail_loading (with_options f s) = ky_detail_loading (f s)" "ky_new_visible (with_options f s) = ky_new_visible (f s)"
  by (simp_all add: with_options_def Let_def)

lemma keys_view_step:
  assumes "key_step listed s e t"
  shows "listing_step listed (\<not> keys_fail e) (keys_view s) (keys_view t)"
  using assms
proof cases
  case (key_page page size1)
  show ?thesis
  proof (cases "page = ky_page s \<and> min size1 max_key_page_size = ky_size s")
    case True
    then show ?thesis unfolding key_page by (intro listing_same keys_quiet) (simp_all add: change_key_page_def Let_def)
  next
    case False
    then have "t = fetch_keys page (min size1 max_key_page_size) (s\<lparr>ky_page := page, ky_size := min size1 max_key_page_size\<rparr>)"
      unfolding key_page by (auto simp: change_key_page_def Let_def)
    then show ?thesis by (simp add: keys_fetch)
  qed
next
  case key_refresh
  show ?thesis unfolding key_refresh by (rule keys_fetch)
next
  case key_language
  have "keys_view t = keys_view (fetch_keys (ky_page s) (ky_size s) s)"
    unfolding key_language by (rule keys_quiet) (simp_all add: push_key_def List.map_filter_simps key_load_def)
  then show ?thesis by (simp add: keys_fetch)
next
  case key_submit
  then show ?thesis
    by (intro listing_same keys_quiet)
      (auto simp: handle_submit_key_def push_key_def List.map_filter_simps key_load_def split: option.split)
next
  case (keys_loaded c n page size1 result)
  show ?thesis
  proof (cases "n = ky_request s")
    case False
    then have "t = end_key c s" using keys_loaded by (simp add: on_keys_def end_key_def)
    then show ?thesis using False keys_loaded
      by (intro listing_same keys_quiet) (simp_all add: end_key_def map_filter_remove1_None key_load_def)
  next
    case True
    show ?thesis
    proof (cases result)
      case None
      then show ?thesis using keys_loaded by (intro listing_step.failed) (simp add: keys_fail_def)
    next
      case (Some x)
      obtain rows k where x: "x = (rows, k)" by fastforce
      have "(page, size1) \<in> set (List.map_filter (key_load s) (ky_calls s))"
        using keys_loaded True by (intro map_filter_mem [of c]) (simp_all add: key_load_def)
      then show ?thesis using keys_loaded True Some x
        by (intro listing_step.answered [of "(page, size1)"]) (simp_all add: keys_view_def on_keys_def end_key_def list_all_iff)
    qed
  qed
next
  case (options_loaded c options1)
  then show ?thesis
    by (intro listing_same keys_quiet)
      (simp_all add: end_key_def map_filter_remove1_None key_load_def split: option.split)
next
  case (key_detail c i detail)
  then show ?thesis
    by (intro listing_same keys_quiet)
      (simp_all add: on_key_detail_def end_key_def map_filter_remove1_None key_load_def split: option.split)
next
  case (key_updated c i payload page size1 ok)
  have "keys_view (end_key c s) = keys_view s"
    using key_updated by (intro keys_quiet) (simp_all add: end_key_def map_filter_remove1_None key_load_def)
  then show ?thesis unfolding key_updated by (auto simp: on_key_updated_def intro: keys_fetch listing_same)
next
  case (key_created c payload page size1 key)
  have "keys_view (end_key c s) = keys_view s"
    using key_created by (intro keys_quiet) (simp_all add: end_key_def map_filter_remove1_None key_load_def)
  then show ?thesis unfolding key_created by (auto simp: on_key_created_def intro: keys_fetch listing_same split: option.split)
next
  case (key_removed c i page size1 ok)
  have "keys_view (end_key c s) = keys_view s"
    using key_removed by (intro keys_quiet) (simp_all add: end_key_def map_filter_remove1_None key_load_def)
  then show ?thesis unfolding key_removed by (auto simp: on_key_deleted_def intro: keys_fetch listing_same)
qed (rule listing_same; rule keys_quiet;
    simp add: handle_create_key_def handle_edit_key_def edit_key_form_def close_key_window_def handle_delete_key_def push_key_def
      List.map_filter_simps key_load_def)+

interpretation key_list: listing keys_start "key_step listed" keys_view keys_fail listed
proof unfold_locales
  show "keys_start s \<Longrightarrow> listing_fresh listed (keys_view s)" for s
    by (simp add: listing_fresh_def listing_calm_def keys_start_def keys0_def keys_view_def key_ops List.map_filter_simps
        key_load_def max_key_page_size_def)
qed (rule keys_view_step)

text \<open>
  When no load for another page is under way and none has failed, the keys shown after the last answer are those of the
  page on the screen.
\<close>

theorem keys_of_page:
  assumes "reach keys_start (calm_step keys_view keys_fail (key_step listed)) s" "listing_settled (keys_view s)"
  shows "\<forall>r \<in> set (ky_data s). listed (ky_page s, ky_size s) (ak_id r)"
  using key_list.settled_rows [OF assms] by (auto simp: keys_view_def list_all_iff)

section \<open>What is sent\<close>

definition proper_key_payload :: "key_payload \<Rightarrow> bool" where
  "proper_key_payload p \<longleftrightarrow>
     kp_name p \<noteq> [] \<and> kp_permissions p \<noteq> [] \<and> distinct (kp_permissions p) \<and>
     list_all (\<lambda>ids. distinct ids \<and> 0 \<notin> set ids) [kp_groups p, kp_emails p, kp_domains p]"

definition proper_key_call :: "key_call \<Rightarrow> bool" where
  "proper_key_call c =
     (case c of
        Key_update_call i p page size1 \<Rightarrow> proper_key_payload p
      | Key_create_call p page size1 \<Rightarrow> proper_key_payload p \<and> kp_status p = None
      | Keys_call n page size1 \<Rightarrow> size1 \<le> max_key_page_size
      | _ \<Rightarrow> True)"

definition keys_inv :: "api_keys \<Rightarrow> bool" where
  "keys_inv s \<longleftrightarrow> list_all proper_key_call (ky_calls s)"

lemma submission_proper: "valid_key_form f \<Longrightarrow> proper_key_payload (key_submission editing f)"
  by (auto simp: valid_key_form_def proper_key_payload_def key_submission_def positive_ids_def simp flip: set_empty)

lemma calls_calm [simp]:
  "ky_calls (on_keys n result s) = ky_calls s" "ky_calls (on_key_detail detail s) = ky_calls s"
  "ky_calls (handle_create_key s) = ky_calls s" "ky_calls (close_key_window s) = ky_calls s"
  "ky_calls (edit_key_form f s) = ky_calls s"
  "ky_calls (handle_edit_key r s) = Key_detail_call (ak_id r) # ky_calls s"
  "ky_calls (handle_delete_key i s) = Key_delete_call i (ky_page s) (ky_size s) # ky_calls s"
  "ky_calls (end_key c s) = remove1 c (ky_calls s)"
  by (auto simp: on_keys_def on_key_detail_def handle_create_key_def close_key_window_def edit_key_form_def handle_edit_key_def
      handle_delete_key_def key_ops split: option.split)

lemma load_inv: "list_all proper_key_call (ky_calls (fetch_keys page size1 s)) = list_all proper_key_call (ky_calls s)"
  by (simp add: key_ops proper_key_call_def)

lemma submit_inv: "keys_inv s \<Longrightarrow> keys_inv (handle_submit_key s)"
proof -
  have "kp_status (key_submission False f) = None" for f by (simp add: key_submission_def)
  then show "keys_inv s \<Longrightarrow> keys_inv (handle_submit_key s)"
    by (simp add: handle_submit_key_def keys_inv_def push_key_def proper_key_call_def submission_proper split: option.split)
qed

lemma keys_inv_step: "keys_inv s \<Longrightarrow> key_step listed s e t \<Longrightarrow> keys_inv t"
proof (erule key_step.cases, goal_cases)
  case 7
  then show ?case by (simp add: submit_inv)
qed (simp_all add: keys_inv_def change_key_page_def Let_def load_inv on_key_updated_def on_key_created_def on_key_deleted_def
      push_key_def proper_key_call_def proper_remove1 split: option.split)

interpretation key_calls: machine_invariant keys_start "key_step listed" keys_inv
proof unfold_locales
  show "keys_start s \<Longrightarrow> keys_inv s" for s
    by (simp add: keys_start_def keys0_def keys_inv_def key_ops proper_key_call_def max_key_page_size_def)
qed (rule keys_inv_step)

text \<open>
  Every key that is created or updated has a name, at least one permission and only positive ids, none of them twice;
  a new key never carries a status, and no page of the list is asked for with more than a hundred rows.
\<close>

theorem key_requests_proper:
  assumes "reach keys_start (key_step listed) s"
  shows "list_all proper_key_call (ky_calls s)"
  using key_calls.inv_reach [OF assms] by (simp add: keys_inv_def)

section \<open>Editing\<close>

lemma submit_update:
  "valid_key_form (ky_form s) \<Longrightarrow> ky_editing s = Some i \<Longrightarrow>
     handle_submit_key s = push_key (Key_update_call i (key_submission True (ky_form s)) (ky_page s) (ky_size s)) s"
  by (simp add: handle_submit_key_def)

lemma edit_form_fields:
  "kf_name (ky_form (handle_edit_key r s)) = ak_name r"
  "kf_permissions (ky_form (handle_edit_key r s)) = all_permission_actions"
  "ky_visible (handle_edit_key r s)" "ky_editing (handle_edit_key r s) = Some (ak_id r)"
  by (simp_all add: handle_edit_key_def push_key_def with_options_def Let_def prune_emails_def)

text \<open>C15: 
  The window's button works while the details of the key are being loaded: pressing it then grants the key every
  permission, whatever it was allowed to do.
\<close>

theorem unseen_detail_grants_all:
  assumes "key_front s" "r \<in> set (ky_data s)" "ak_name r \<noteq> []"
  shows "\<exists>t p. run (key_step listed) s [Key_edit_clicked r, Key_submitted] t \<and>
           Key_update_call (ak_id r) p (ky_page s) (ky_size s) \<in> set (ky_calls t) \<and>
           set (kp_permissions p) = set all_permission_actions \<and> Key_detail_call (ak_id r) \<in> set (ky_calls t)"
proof -
  let ?u = "handle_edit_key r s"
  have "valid_key_form (ky_form ?u)" using assms(3) all_actions by (simp add: valid_key_form_def edit_form_fields)
  note sent = submit_update [OF this edit_form_fields(4)]
  have page: "ky_page ?u = ky_page s" "ky_size ?u = ky_size s" by (simp_all add: handle_edit_key_def push_key_def)
  have "run (key_step listed) s [Key_edit_clicked r, Key_submitted] (handle_submit_key ?u)"
    using key_edit [OF assms(1,2)] key_submit [OF edit_form_fields(3)] by (blast intro: run.intros)
  moreover have "set (kp_permissions (key_submission True (ky_form ?u))) = set all_permission_actions"
    by (simp add: key_submission_def edit_form_fields)
  ultimately show ?thesis by (intro exI conjI) (auto simp: sent push_key_def page)
qed

definition detail_ids :: "nat list option \<Rightarrow> nat list" where
  "detail_ids ids = (case ids of None \<Rightarrow> [] | Some items \<Rightarrow> items)"

text \<open>A key as the server stores it, and the payload that leaves it as it is.\<close>

definition stored_key :: "api_key_detail \<Rightarrow> bool" where
  "stored_key d \<longleftrightarrow>
     ak_name d \<noteq> [] \<and>
     (case ad_permissions d of
        None \<Rightarrow> False
      | Some ps \<Rightarrow> distinct (map fst ps) \<and> list_ex snd ps \<and> list_all (\<lambda>(p, allowed). 45 \<notin> set p) ps) \<and>
     list_all (\<lambda>ids. distinct (detail_ids ids) \<and> 0 \<notin> set (detail_ids ids)) [ad_groups d, ad_emails d, ad_domains d]"

definition payload_of_detail :: "api_key_detail \<Rightarrow> key_payload" where
  "payload_of_detail d =
     \<lparr>kp_name = ak_name d, kp_rate = Some (ak_rate d), kp_status = Some (ak_status d), kp_expires = ak_expires d,
      kp_permissions = (case ad_permissions d of None \<Rightarrow> all_permission_actions | Some ps \<Rightarrow> map fst (filter snd ps)),
      kp_groups = detail_ids (ad_groups d), kp_emails = detail_ids (ad_emails d), kp_domains = detail_ids (ad_domains d)\<rparr>"

lemma distinct_values_same [simp]: "distinct xs \<Longrightarrow> distinct_values xs = xs"
proof (induction xs rule: distinct_values.induct)
  case (2 x xs)
  then have "filter (\<lambda>y. y \<noteq> x) xs = xs" by (intro filter_True) auto
  with 2 show ?case by simp
qed simp

lemma positive_ids_same: "distinct ids \<Longrightarrow> 0 \<notin> set ids \<Longrightarrow> positive_ids ids = ids"
proof -
  assume "distinct ids" "0 \<notin> set ids"
  then have "filter (\<lambda>i. 0 < i) ids = ids" by (intro filter_True ballI) (metis gr0I)
  with \<open>distinct ids\<close> show ?thesis by (simp add: positive_ids_def)
qed

lemma underscored_same: "45 \<notin> set p \<Longrightarrow> underscored p = p"
  by (auto simp: underscored_def intro: map_idI)

lemma selected_permissions_same:
  assumes "list_all (\<lambda>(p, allowed). 45 \<notin> set p) ps"
  shows "selected_permissions (Some ps) = map fst (filter snd ps)"
  using assms by (auto simp: selected_permissions_def list_all_iff underscored_same)

lemma submission_of_detail:
  assumes "stored_key d"
  shows "key_submission True (detail_form d) = payload_of_detail d" "valid_key_form (detail_form d)"
proof -
  obtain ps where ps: "ad_permissions d = Some ps" "distinct (map fst ps)" "list_ex snd ps" "list_all (\<lambda>(p, allowed). 45 \<notin> set p) ps"
    using assms by (cases "ad_permissions d") (auto simp: stored_key_def)
  have perms: "kf_permissions (detail_form d) = map fst (filter snd ps)" "map fst (filter snd ps) \<noteq> []"
    using ps by (auto simp: detail_form_def selected_permissions_same Let_def list_ex_iff filter_empty_conv)
  have "distinct (map fst (filter snd ps))" using ps(2) by (rule distinct_map_filter)
  then show "key_submission True (detail_form d) = payload_of_detail d"
    using assms perms ps by (simp add: stored_key_def key_submission_def payload_of_detail_def positive_ids_same detail_form_def
        detail_ids_def [symmetric])
  show "valid_key_form (detail_form d)"
    using assms perms by (simp add: valid_key_form_def stored_key_def) (simp add: detail_form_def)
qed

text \<open>The form after the details of a key have come.\<close>

definition offered_emails :: "api_keys \<Rightarrow> api_key_detail \<Rightarrow> nat set" where
  "offered_emails s d = eo_id ` set (scoped_allowed_email_options (ky_options s) (Some (detail_ids (ad_groups d))))"

lemma detail_in_form:
  assumes "ky_visible s"
  shows "ky_form (on_key_detail (Some d) s) =
           (if kf_groups (ky_form s) = detail_ids (ad_groups d) then detail_form d
            else (detail_form d)\<lparr>kf_emails := filter (\<lambda>i. i \<in> offered_emails s d) (detail_ids (ad_emails d))\<rparr>)"
proof -
  have groups: "kf_groups (detail_form d) = detail_ids (ad_groups d)" and emails: "kf_emails (detail_form d) = detail_ids (ad_emails d)"
    by (simp_all add: detail_form_def detail_ids_def)
  show ?thesis using assms
    by (auto simp: on_key_detail_def with_options_def Let_def watched_groups_def prune_emails_def groups emails offered_emails_def)
qed

lemma detail_then_submit:
  assumes "ky_visible s" "ky_editing s = Some i" "Key_detail_call (ak_id d) \<in> set (ky_calls s)"
    "valid_key_form (ky_form (on_key_detail (Some d) s))"
  shows "\<exists>t. run (key_step listed) s [Key_detail_loaded (Key_detail_call (ak_id d)) (Some d), Key_submitted] t \<and>
           Key_update_call i (key_submission True (ky_form (on_key_detail (Some d) s))) (ky_page s) (ky_size s) \<in> set (ky_calls t)"
proof -
  let ?c = "Key_detail_call (ak_id d)"
  let ?u = "on_key_detail (Some d) (end_key ?c s)"
  have same: "ky_form ?u = ky_form (on_key_detail (Some d) s)" using assms(1)
    by (simp add: detail_in_form end_key_def offered_emails_def)
  have u: "ky_visible ?u" "ky_editing ?u = Some i" "ky_page ?u = ky_page s" "ky_size ?u = ky_size s"
    using assms(1,2) by (simp_all add: on_key_detail_def end_key_def)
  have "run (key_step listed) s [Key_detail_loaded ?c (Some d), Key_submitted] (handle_submit_key ?u)"
    using key_detail [OF refl assms(3), of "Some d"] key_submit [OF u(1)] by (auto intro: run.intros)
  moreover have "handle_submit_key ?u =
      push_key (Key_update_call i (key_submission True (ky_form (on_key_detail (Some d) s))) (ky_page s) (ky_size s)) ?u"
    using submit_update [of ?u i] assms(4) u same by simp
  ultimately show ?thesis by (auto simp: push_key_def)
qed

text \<open>C37: 
  Saving a key that has not been changed keeps it, once its details have come, if the form offers the mailboxes it is
  restricted to.
\<close>

theorem edit_keeps_key:
  assumes "ky_visible s" "ky_editing s = Some (ak_id d)" "Key_detail_call (ak_id d) \<in> set (ky_calls s)" "stored_key d"
    "set (detail_ids (ad_emails d)) \<subseteq> offered_emails s d"
  shows "\<exists>t. run (key_step listed) s [Key_detail_loaded (Key_detail_call (ak_id d)) (Some d), Key_submitted] t \<and>
           Key_update_call (ak_id d) (payload_of_detail d) (ky_page s) (ky_size s) \<in> set (ky_calls t)"
proof -
  have "filter (\<lambda>i. i \<in> offered_emails s d) (detail_ids (ad_emails d)) = kf_emails (detail_form d)"
    using assms(5) by (subst filter_True) (auto simp: detail_form_def detail_ids_def)
  then have "ky_form (on_key_detail (Some d) s) = detail_form d" using assms(1) by (simp add: detail_in_form)
  then show ?thesis using detail_then_submit [OF assms(1-3)] submission_of_detail [OF assms(4)] by simp
qed

text \<open>
  A key that is restricted to mailboxes the form does not offer - it offers active ones only - loses the restriction: the
  effect on the options drops them when the groups of the key come, and an empty list means every mailbox.
\<close>

theorem restricted_becomes_unrestricted:
  assumes "ky_visible s" "ky_editing s = Some (ak_id d)" "Key_detail_call (ak_id d) \<in> set (ky_calls s)" "stored_key d"
    "set (detail_ids (ad_emails d)) \<inter> offered_emails s d = {}" "kf_groups (ky_form s) \<noteq> detail_ids (ad_groups d)"
  shows "\<exists>t. run (key_step listed) s [Key_detail_loaded (Key_detail_call (ak_id d)) (Some d), Key_submitted] t \<and>
           Key_update_call (ak_id d) ((payload_of_detail d)\<lparr>kp_emails := []\<rparr>) (ky_page s) (ky_size s) \<in> set (ky_calls t)"
proof -
  have "filter (\<lambda>i. i \<in> offered_emails s d) (detail_ids (ad_emails d)) = []"
    using assms(5) by (auto simp: filter_empty_conv)
  then have form: "ky_form (on_key_detail (Some d) s) = (detail_form d)\<lparr>kf_emails := []\<rparr>"
    using assms(1,6) by (simp add: detail_in_form)
  then have "valid_key_form (ky_form (on_key_detail (Some d) s))"
    using submission_of_detail(2) [OF assms(4)] by (simp add: valid_key_form_def)
  moreover have "key_submission True (ky_form (on_key_detail (Some d) s)) = (payload_of_detail d)\<lparr>kp_emails := []\<rparr>"
    unfolding form submission_of_detail(1) [OF assms(4), symmetric] by (simp add: key_submission_def positive_ids_def)
  ultimately show ?thesis using detail_then_submit [OF assms(1-3)] by simp
qed

text \<open>
  A window that is closed does not give up its load of details: when the details of the key edited before come
  last, saving gives the key in the window the name and the permissions of the other one.
\<close>

theorem late_detail_overwrites:
  assumes "key_front s" "a \<in> set (ky_data s)" "b \<in> set (ky_data s)" "ak_id da = ak_id a" "ak_id db = ak_id b" "stored_key da"
  shows "\<exists>t p. run (key_step listed) s
             [Key_edit_clicked a, Key_cancelled, Key_edit_clicked b, Key_detail_loaded (Key_detail_call (ak_id b)) (Some db),
              Key_detail_loaded (Key_detail_call (ak_id a)) (Some da), Key_submitted] t \<and>
           Key_update_call (ak_id b) p (ky_page s) (ky_size s) \<in> set (ky_calls t) \<and>
           kp_name p = ak_name da \<and> kp_permissions p = kp_permissions (payload_of_detail da)"
proof -
  let ?u1 = "handle_edit_key a s"
  let ?u2 = "close_key_window ?u1"
  let ?u3 = "handle_edit_key b ?u2"
  let ?u4 = "on_key_detail (Some db) (end_key (Key_detail_call (ak_id b)) ?u3)"
  have frame: "ky_data ?u1 = ky_data s" "ky_new_visible ?u1 = ky_new_visible s" "ky_page ?u1 = ky_page s" "ky_size ?u1 = ky_size s"
    "\<And>u. ky_data (close_key_window u) = ky_data u \<and> ky_new_visible (close_key_window u) = ky_new_visible u \<and>
        \<not> ky_visible (close_key_window u) \<and> ky_page (close_key_window u) = ky_page u \<and> ky_size (close_key_window u) = ky_size u"
    "\<And>r u. ky_page (handle_edit_key r u) = ky_page u \<and> ky_size (handle_edit_key r u) = ky_size u"
    by (simp_all add: handle_edit_key_def close_key_window_def push_key_def)
  have u2: "key_front ?u2" "b \<in> set (ky_data ?u2)" using assms(1,3) by (simp_all add: frame key_front_def)
  have u4: "ky_visible ?u4" "ky_editing ?u4 = Some (ak_id b)" "ky_page ?u4 = ky_page s" "ky_size ?u4 = ky_size s"
    by (simp_all add: on_key_detail_def end_key_def edit_form_fields frame)
  have pending: "Key_detail_call (ak_id da) \<in> set (ky_calls ?u4)" using assms(4) by simp
  have "run (key_step listed) s [Key_edit_clicked a, Key_cancelled, Key_edit_clicked b, Key_detail_loaded (Key_detail_call (ak_id b)) (Some db)] ?u4"
    using key_edit [OF assms(1,2)] key_cancel [OF edit_form_fields(3)] key_edit [OF u2]
      key_detail [OF refl, of "ak_id b" ?u3 "Some db"] assms(5)
    by (intro run.intros) (assumption | simp)+
  moreover have form: "kf_name (ky_form (on_key_detail (Some da) ?u4)) = ak_name da"
      "kf_permissions (ky_form (on_key_detail (Some da) ?u4)) = kf_permissions (detail_form da)"
    using u4(1) by (auto simp: detail_in_form detail_form_def)
  have valid: "valid_key_form (ky_form (on_key_detail (Some da) ?u4))"
    using submission_of_detail(2) [OF assms(6)] assms(6) by (simp add: valid_key_form_def form stored_key_def)
  obtain t where "run (key_step listed) ?u4 [Key_detail_loaded (Key_detail_call (ak_id da)) (Some da), Key_submitted] t"
      "Key_update_call (ak_id b) (key_submission True (ky_form (on_key_detail (Some da) ?u4))) (ky_page s) (ky_size s) \<in> set (ky_calls t)"
    using detail_then_submit [OF u4(1,2) pending valid] u4(3,4) by metis
  moreover have "kp_permissions (key_submission True (ky_form (on_key_detail (Some da) ?u4))) = kp_permissions (payload_of_detail da)"
    unfolding submission_of_detail(1) [OF assms(6), symmetric] by (simp add: key_submission_def form)
  moreover have "kp_name (key_submission True (ky_form (on_key_detail (Some da) ?u4))) = ak_name da"
    by (simp add: key_submission_def form)
  ultimately show ?thesis using run_append assms(4) by fastforce
qed

section \<open>Examples\<close>

definition sample_key :: "nat \<Rightarrow> api_key" where
  "sample_key i = \<lparr>ak_id = i, ak_name = js ''ci'', ak_rate = 60, ak_status = Key_active, ak_expires = None\<rparr>"

definition sample_detail :: "nat \<Rightarrow> jstr \<Rightarrow> api_key_detail" where
  "sample_detail i name =
     \<lparr>ak_id = i, ak_name = name, ak_rate = 60, ak_status = Key_active, ak_expires = None,
      ad_permissions = Some [(js ''all'', False), (js ''mail_new'', True)], ad_groups = Some [3], ad_emails = Some [7], ad_domains = None\<rparr>"

definition keys_shown :: api_keys where
  "keys_shown = on_keys 1 (Some ([sample_key 4, sample_key 5], 2)) (end_key (Keys_call 1 1 10) keys0)"

lemma keys_shown_step: "key_step (\<lambda>p i. True) keys0 (Keys_loaded (Keys_call 1 1 10) (Some ([sample_key 4, sample_key 5], 2))) keys_shown"
  unfolding keys_shown_def
  by (rule keys_loaded [OF refl]) (simp_all add: keys0_def key_ops max_key_page_size_def)

lemma keys_shown_eval:
  "key_front keys_shown" "ky_data keys_shown = [sample_key 4, sample_key 5]" "ky_page keys_shown = 1" "ky_size keys_shown = 10"
  by (simp_all add: keys_shown_def key_front_def on_keys_def keys0_def key_ops)

lemma sample_stored: "name \<noteq> [] \<Longrightarrow> stored_key (sample_detail i name)"
  by (simp add: stored_key_def sample_detail_def detail_ids_def js_eval)

definition editing_first :: "email_option list \<Rightarrow> api_keys" where
  "editing_first options1 = (handle_edit_key (sample_key 4) keys_shown)\<lparr>ky_options := options1\<rparr>"

lemma editing_first_eval:
  "ky_visible (editing_first o1)" "ky_editing (editing_first o1) = Some 4" "Key_detail_call 4 \<in> set (ky_calls (editing_first o1))"
  "kf_groups (ky_form (editing_first o1)) = []" "ky_options (editing_first o1) = o1"
  by (simp_all add: editing_first_def handle_edit_key_def push_key_def sample_key_def with_options_def Let_def prune_emails_def
      keys_shown_def on_keys_def keys0_def key_ops empty_key_form_def)

theorem keys_of_page_witness: "\<forall>r \<in> set (ky_data keys_shown). (\<lambda>p i. True) (ky_page keys_shown, ky_size keys_shown) (ak_id r)"
proof (rule keys_of_page [where listed = "\<lambda>p i. True"])
  have start: "reach keys_start (calm_step keys_view keys_fail (key_step (\<lambda>p i. True))) keys0"
    by (rule reach_start) (simp add: keys_start_def)
  have view: "ls_loads (keys_view keys_shown) = [] \<and> \<not> ls_due (keys_view keys_shown)"
    by (simp add: keys_view_def keys_shown_def on_keys_def keys0_def key_ops List.map_filter_simps key_load_def max_key_page_size_def)
  then show "listing_settled (keys_view keys_shown)" by (simp add: listing_settled_def)
  show "reach keys_start (calm_step keys_view keys_fail (key_step (\<lambda>p i. True))) keys_shown"
    by (rule reach_step [of _ _ keys0], rule start, rule calm_stepI, rule keys_shown_step)
      (use view in \<open>simp_all add: keys_fail_def listing_calm_def\<close>)
qed

theorem key_requests_proper_witness:
  "list_all proper_key_call (ky_calls (handle_submit_key (handle_edit_key (sample_key 4) keys_shown)))"
proof -
  have "reach keys_start (key_step (\<lambda>p i. True)) keys_shown"
    by (rule reach_step [of _ _ keys0], rule reach_start, simp add: keys_start_def) (rule keys_shown_step)
  then have "reach keys_start (key_step (\<lambda>p i. True)) (handle_edit_key (sample_key 4) keys_shown)"
    by (rule reach_step) (rule key_edit, simp_all add: keys_shown_eval)
  then have "reach keys_start (key_step (\<lambda>p i. True)) (handle_submit_key (handle_edit_key (sample_key 4) keys_shown))"
    by (rule reach_step) (rule key_submit, simp add: edit_form_fields)
  from key_requests_proper [OF this] show ?thesis by simp
qed

theorem unseen_detail_grants_all_witness:
  "\<exists>t p. run (key_step (\<lambda>p i. True)) keys_shown [Key_edit_clicked (sample_key 4), Key_submitted] t \<and>
     Key_update_call 4 p 1 10 \<in> set (ky_calls t) \<and> set (kp_permissions p) = set all_permission_actions \<and>
     Key_detail_call 4 \<in> set (ky_calls t)"
  using unseen_detail_grants_all [of keys_shown "sample_key 4" "\<lambda>p i. True"]
  by (simp add: keys_shown_eval sample_key_def js_eval)

theorem edit_keeps_key_witness:
  "\<exists>t. run (key_step (\<lambda>p i. True)) (editing_first [\<lparr>eo_id = 7, eo_group = Some 3\<rparr>])
      [Key_detail_loaded (Key_detail_call 4) (Some (sample_detail 4 (js ''ci''))), Key_submitted] t \<and>
     Key_update_call 4 (payload_of_detail (sample_detail 4 (js ''ci''))) (ky_page (editing_first [\<lparr>eo_id = 7, eo_group = Some 3\<rparr>]))
       (ky_size (editing_first [\<lparr>eo_id = 7, eo_group = Some 3\<rparr>])) \<in> set (ky_calls t)"
proof -
  have "ak_id (sample_detail 4 (js ''ci'')) = 4" "js ''ci'' \<noteq> []" by (simp_all add: sample_detail_def js_eval)
  moreover have "set (detail_ids (ad_emails (sample_detail 4 (js ''ci'')))) \<subseteq>
      offered_emails (editing_first [\<lparr>eo_id = 7, eo_group = Some 3\<rparr>]) (sample_detail 4 (js ''ci''))"
    by (simp add: offered_emails_def editing_first_eval sample_detail_def detail_ids_def scoped_allowed_email_options_def)
  ultimately show ?thesis
    using edit_keeps_key [of "editing_first [\<lparr>eo_id = 7, eo_group = Some 3\<rparr>]" "sample_detail 4 (js ''ci'')" "\<lambda>p i. True"]
    by (simp add: editing_first_eval sample_stored)
qed

theorem restricted_becomes_unrestricted_witness:
  "\<exists>t. run (key_step (\<lambda>p i. True)) (editing_first [])
      [Key_detail_loaded (Key_detail_call 4) (Some (sample_detail 4 (js ''ci''))), Key_submitted] t \<and>
     Key_update_call 4 ((payload_of_detail (sample_detail 4 (js ''ci'')))\<lparr>kp_emails := []\<rparr>) (ky_page (editing_first []))
       (ky_size (editing_first [])) \<in> set (ky_calls t)"
proof -
  have "ak_id (sample_detail 4 (js ''ci'')) = 4" "js ''ci'' \<noteq> []" "detail_ids (ad_groups (sample_detail 4 (js ''ci''))) = [3]"
    by (simp_all add: sample_detail_def js_eval detail_ids_def)
  moreover have "offered_emails (editing_first []) (sample_detail 4 (js ''ci'')) = {}"
    by (simp add: offered_emails_def editing_first_eval scoped_allowed_email_options_def Let_def)
  ultimately show ?thesis
    using restricted_becomes_unrestricted [of "editing_first []" "sample_detail 4 (js ''ci'')" "\<lambda>p i. True"]
    by (simp add: editing_first_eval sample_stored)
qed

theorem late_detail_overwrites_witness:
  "\<exists>t p. run (key_step (\<lambda>p i. True)) keys_shown
       [Key_edit_clicked (sample_key 4), Key_cancelled, Key_edit_clicked (sample_key 5),
        Key_detail_loaded (Key_detail_call 5) (Some (sample_detail 5 (js ''b''))),
        Key_detail_loaded (Key_detail_call 4) (Some (sample_detail 4 (js ''a''))), Key_submitted] t \<and>
     Key_update_call 5 p 1 10 \<in> set (ky_calls t) \<and> kp_name p = js ''a'' \<and> kp_permissions p = [js ''mail_new'']"
proof -
  have "ak_id (sample_key i) = i" "ak_id (sample_detail i n) = i" "ak_name (sample_detail i n) = n"
    "kp_permissions (payload_of_detail (sample_detail i n)) = [js ''mail_new'']" for i n
    by (simp_all add: sample_key_def sample_detail_def payload_of_detail_def)
  then show ?thesis
    using late_detail_overwrites [of keys_shown "sample_key 4" "sample_key 5" "sample_detail 4 (js ''a'')" "sample_detail 5 (js ''b'')"
        "\<lambda>p i. True"] by (simp add: keys_shown_eval sample_stored js_eval)
qed

end
