(* ===== verification/ApiKeyScope.thy ===== *)
theory ApiKeyScope
  imports PortalInbox
begin

text \<open>
  The windows behind a row of the list of API keys (web/src/pages/api-keys/index.tsx): the allocation statistics of a key
  and the mailboxes assigned to it, with their group filters, the keyword, the selection and the saving of it.
\<close>

section \<open>Data and state\<close>

record pool_stats =
  ps_total :: nat
  ps_used :: nat
  ps_remaining :: nat

record pool_email =
  pe_id :: nat
  pe_email :: jstr
  pe_used :: bool
  pe_group :: "jstr option"

text \<open>Why statistics are loaded: only the first kind ends the window's spinner, the last one the saving.\<close>

datatype stats_purpose = For_window | After_reset | After_save

datatype scope_call =
    Stats_call stats_purpose nat "jstr option"
  | Reset_call nat "jstr option"
  | Assigned_call nat "nat option"
  | Assign_call nat "nat list" "nat option"

record key_scope =
  sc_current :: "nat option"
  sc_pool_visible :: bool
  sc_pool_stats :: "pool_stats option"
  sc_pool_loading :: bool
  sc_pool_group :: "jstr option"
  sc_emails :: "pool_email list"
  sc_selected :: "nat list"
  sc_keyword :: jstr
  sc_email_visible :: bool
  sc_email_loading :: bool
  sc_saving :: bool
  sc_email_group :: "nat option"
  sc_calls :: "scope_call list"

definition push_scope :: "scope_call \<Rightarrow> key_scope \<Rightarrow> key_scope" where
  "push_scope c s = s\<lparr>sc_calls := c # sc_calls s\<rparr>"

definition end_scope :: "scope_call \<Rightarrow> key_scope \<Rightarrow> key_scope" where
  "end_scope c s = s\<lparr>sc_calls := remove1 c (sc_calls s)\<rparr>"

section \<open>Allocation statistics\<close>

definition handle_view_pool :: "nat \<Rightarrow> key_scope \<Rightarrow> key_scope" where
  "handle_view_pool record1 s =
     push_scope (Stats_call For_window record1 None)
       (s\<lparr>sc_current := Some record1, sc_pool_group := None, sc_pool_visible := True, sc_pool_loading := True\<rparr>)"

definition handle_pool_group_change :: "jstr option \<Rightarrow> key_scope \<Rightarrow> key_scope" where
  "handle_pool_group_change group_name s =
     (case sc_current s of
        None \<Rightarrow> s\<lparr>sc_pool_group := group_name\<rparr>
      | Some i \<Rightarrow> push_scope (Stats_call For_window i group_name) (s\<lparr>sc_pool_group := group_name, sc_pool_loading := True\<rparr>))"

definition on_stats :: "stats_purpose \<Rightarrow> pool_stats option \<Rightarrow> key_scope \<Rightarrow> key_scope" where
  "on_stats purpose result s =
     (let t = (case result of None \<Rightarrow> s | Some stats \<Rightarrow> s\<lparr>sc_pool_stats := Some stats\<rparr>)
      in case purpose of
           For_window \<Rightarrow> t\<lparr>sc_pool_loading := False\<rparr>
         | After_reset \<Rightarrow> t
         | After_save \<Rightarrow> t\<lparr>sc_saving := False\<rparr>)"

definition handle_reset_pool :: "key_scope \<Rightarrow> key_scope" where
  "handle_reset_pool s = (case sc_current s of None \<Rightarrow> s | Some i \<Rightarrow> push_scope (Reset_call i (sc_pool_group s)) s)"

definition on_pool_reset :: "nat \<Rightarrow> jstr option \<Rightarrow> bool \<Rightarrow> key_scope \<Rightarrow> key_scope" where
  "on_pool_reset i group_name ok s = (if ok then push_scope (Stats_call After_reset i group_name) s else s)"

section \<open>Assigned mailboxes\<close>

definition extract_used_email_ids :: "pool_email list \<Rightarrow> nat list" where
  "extract_used_email_ids emails = map pe_id (filter pe_used emails)"

definition handle_manage_emails :: "nat \<Rightarrow> key_scope \<Rightarrow> key_scope" where
  "handle_manage_emails record1 s =
     push_scope (Assigned_call record1 None)
       (s\<lparr>sc_current := Some record1, sc_email_group := None, sc_email_visible := True, sc_email_loading := True\<rparr>)"

definition handle_email_group_change :: "nat option \<Rightarrow> key_scope \<Rightarrow> key_scope" where
  "handle_email_group_change group_id s =
     (case sc_current s of
        None \<Rightarrow> s\<lparr>sc_email_group := group_id\<rparr>
      | Some i \<Rightarrow> push_scope (Assigned_call i group_id) (s\<lparr>sc_email_group := group_id, sc_email_loading := True\<rparr>))"

definition on_assigned :: "pool_email list option \<Rightarrow> key_scope \<Rightarrow> key_scope" where
  "on_assigned result s =
     (case result of
        None \<Rightarrow> s
      | Some emails \<Rightarrow> s\<lparr>sc_emails := emails, sc_selected := extract_used_email_ids emails, sc_keyword := []\<rparr>)
       \<lparr>sc_email_loading := False\<rparr>"

definition filtered_email_list :: "key_scope \<Rightarrow> pool_email list" where
  "filtered_email_list s =
     (let keyword = to_lower (trim (sc_keyword s))
      in if keyword = [] then sc_emails s
         else filter (\<lambda>item. js_includes (to_lower (pe_email item)) keyword \<or>
                js_includes (case pe_group item of None \<Rightarrow> [] | Some g \<Rightarrow> to_lower g) keyword) (sc_emails s))"

definition filtered_ids :: "key_scope \<Rightarrow> nat list" where
  "filtered_ids s = map pe_id (filtered_email_list s)"

definition selected_in_filtered_count :: "key_scope \<Rightarrow> nat" where
  "selected_in_filtered_count s = length (filter (\<lambda>i. i \<in> set (filtered_ids s)) (sc_selected s))"

definition select_filtered :: "key_scope \<Rightarrow> key_scope" where
  "select_filtered s = s\<lparr>sc_selected := distinct_values (sc_selected s @ filtered_ids s)\<rparr>"

definition clear_filtered :: "key_scope \<Rightarrow> key_scope" where
  "clear_filtered s = s\<lparr>sc_selected := filter (\<lambda>i. i \<notin> set (filtered_ids s)) (sc_selected s)\<rparr>"

definition handle_save_emails :: "key_scope \<Rightarrow> key_scope" where
  "handle_save_emails s =
     (case sc_current s of
        None \<Rightarrow> s
      | Some i \<Rightarrow> push_scope (Assign_call i (sc_selected s) (sc_email_group s)) (s\<lparr>sc_saving := True\<rparr>))"

definition on_emails_saved :: "nat \<Rightarrow> bool \<Rightarrow> key_scope \<Rightarrow> key_scope" where
  "on_emails_saved i ok s =
     (if ok then push_scope (Stats_call After_save i None) (s\<lparr>sc_email_visible := False\<rparr>) else s\<lparr>sc_saving := False\<rparr>)"

section \<open>The machine\<close>

datatype scope_event =
    Pool_opened nat | Pool_closed | Pool_group_chosen "jstr option" | Pool_reset | Emails_opened nat | Emails_closed
  | Email_group_chosen "nat option" | Email_keyword_typed jstr | Filtered_selected | Filtered_cleared | Emails_ticked "nat list"
  | Emails_saved
  | Stats_answered scope_call "pool_stats option" | Reset_answered scope_call bool
  | Assigned_answered scope_call "pool_email list option" | Assign_answered scope_call bool

definition scope_front :: "key_scope \<Rightarrow> bool" where
  "scope_front s \<longleftrightarrow> \<not> sc_pool_visible s \<and> \<not> sc_email_visible s"

text \<open>
  \<open>assigned i g e\<close>: the server lists mailbox \<open>e\<close> for key \<open>i\<close> under the group filter \<open>g\<close>. The controls of a window are
  shown once its load has ended; the button that saves is below the spinner and is only kept back by the saving. Ticking a box changes the
  selection within the mailboxes shown.
\<close>

inductive scope_step :: "(nat \<times> nat option \<Rightarrow> nat \<Rightarrow> bool) \<Rightarrow> key_scope \<Rightarrow> scope_event \<Rightarrow> key_scope \<Rightarrow> bool" for assigned where
  pool_open: "scope_front s \<Longrightarrow> scope_step assigned s (Pool_opened i) (handle_view_pool i s)"
| pool_close: "sc_pool_visible s \<Longrightarrow> scope_step assigned s Pool_closed (s\<lparr>sc_pool_visible := False\<rparr>)"
| pool_group: "sc_pool_visible s \<Longrightarrow> \<not> sc_pool_loading s \<Longrightarrow> sc_pool_stats s \<noteq> None \<Longrightarrow>
     scope_step assigned s (Pool_group_chosen g) (handle_pool_group_change g s)"
| pool_reset: "sc_pool_visible s \<Longrightarrow> \<not> sc_pool_loading s \<Longrightarrow> sc_pool_stats s \<noteq> None \<Longrightarrow>
     scope_step assigned s Pool_reset (handle_reset_pool s)"
| emails_open: "scope_front s \<Longrightarrow> scope_step assigned s (Emails_opened i) (handle_manage_emails i s)"
| emails_close: "sc_email_visible s \<Longrightarrow> scope_step assigned s Emails_closed (s\<lparr>sc_email_visible := False\<rparr>)"
| email_group: "sc_email_visible s \<Longrightarrow> \<not> sc_email_loading s \<Longrightarrow>
     scope_step assigned s (Email_group_chosen g) (handle_email_group_change g s)"
| email_keyword: "sc_email_visible s \<Longrightarrow> \<not> sc_email_loading s \<Longrightarrow>
     scope_step assigned s (Email_keyword_typed k) (s\<lparr>sc_keyword := k\<rparr>)"
| filtered_select: "sc_email_visible s \<Longrightarrow> \<not> sc_email_loading s \<Longrightarrow> scope_step assigned s Filtered_selected (select_filtered s)"
| filtered_clear: "sc_email_visible s \<Longrightarrow> \<not> sc_email_loading s \<Longrightarrow> scope_step assigned s Filtered_cleared (clear_filtered s)"
| emails_tick: "sc_email_visible s \<Longrightarrow> \<not> sc_email_loading s \<Longrightarrow> set vals \<subseteq> set (sc_selected s) \<union> set (filtered_ids s) \<Longrightarrow>
     scope_step assigned s (Emails_ticked vals) (s\<lparr>sc_selected := vals\<rparr>)"
| emails_save: "sc_email_visible s \<Longrightarrow> \<not> sc_saving s \<Longrightarrow> scope_step assigned s Emails_saved (handle_save_emails s)"
| stats_answer: "c = Stats_call purpose i g \<Longrightarrow> c \<in> set (sc_calls s) \<Longrightarrow>
     scope_step assigned s (Stats_answered c result) (on_stats purpose result (end_scope c s))"
| reset_answer: "c = Reset_call i g \<Longrightarrow> c \<in> set (sc_calls s) \<Longrightarrow>
     scope_step assigned s (Reset_answered c ok) (on_pool_reset i g ok (end_scope c s))"
| assigned_answer: "c = Assigned_call i g \<Longrightarrow> c \<in> set (sc_calls s) \<Longrightarrow>
     \<forall>emails. result = Some emails \<longrightarrow> list_all (assigned (i, g)) (map pe_id emails) \<Longrightarrow>
     scope_step assigned s (Assigned_answered c result) (on_assigned result (end_scope c s))"
| assign_answer: "c = Assign_call i ids g \<Longrightarrow> c \<in> set (sc_calls s) \<Longrightarrow>
     scope_step assigned s (Assign_answered c ok) (on_emails_saved i ok (end_scope c s))"

definition scope0 :: key_scope where
  "scope0 = \<lparr>sc_current = None, sc_pool_visible = False, sc_pool_stats = None, sc_pool_loading = False, sc_pool_group = None,
     sc_emails = [], sc_selected = [], sc_keyword = [], sc_email_visible = False, sc_email_loading = False, sc_saving = False,
     sc_email_group = None, sc_calls = []\<rparr>"

definition scope_start :: "key_scope \<Rightarrow> bool" where
  "scope_start s \<longleftrightarrow> s = scope0"

end
