(* ===== verification/ApiKeyScopeTheorems.thy ===== *)
theory ApiKeyScopeTheorems
  imports ApiKeyScope
begin

text \<open>
  The mailboxes assigned to an API key: what is selected is always among the mailboxes loaded, one selection is saved at a
  time, and while no load is under way, the selection that is saved belongs to the key in the window. The button that saves
  does not wait for the load, and then saves the selection of the key opened before.
\<close>

section \<open>The mailboxes shown\<close>

definition assigned_load :: "scope_call \<Rightarrow> (nat \<times> nat option) option option" where
  "assigned_load c = (case c of Assigned_call i g \<Rightarrow> Some (Some (i, g)) | _ \<Rightarrow> None)"

definition scope_view :: "key_scope \<Rightarrow> ((nat \<times> nat option) option, nat) listing" where
  "scope_view s =
     \<lparr>ls_par = map_option (\<lambda>i. (i, sc_email_group s)) (sc_current s), ls_due = False,
      ls_loads = List.map_filter assigned_load (sc_calls s),
      ls_rows = (if sc_email_visible s then map pe_id (sc_emails s) else [])\<rparr>"

definition scope_fail :: "scope_event \<Rightarrow> bool" where
  "scope_fail e = (case e of Assigned_answered c None \<Rightarrow> True | _ \<Rightarrow> False)"

definition holds_for :: "('p \<Rightarrow> 'r \<Rightarrow> bool) \<Rightarrow> 'p option \<Rightarrow> 'r \<Rightarrow> bool" where
  "holds_for holds p r = (case p of None \<Rightarrow> False | Some q \<Rightarrow> holds q r)"

lemmas scope_ops = push_scope_def end_scope_def select_filtered_def clear_filtered_def handle_view_pool_def
  handle_pool_group_change_def handle_reset_pool_def handle_manage_emails_def handle_email_group_change_def handle_save_emails_def
  on_pool_reset_def on_emails_saved_def

lemma scope_quiet:
  assumes "sc_current t = sc_current s" "sc_email_group t = sc_email_group s" "sc_email_visible t = sc_email_visible s"
    "sc_emails t = sc_emails s" "List.map_filter assigned_load (sc_calls t) = List.map_filter assigned_load (sc_calls s)"
  shows "scope_view t = scope_view s"
  using assms by (simp add: scope_view_def)

lemma on_stats_frame [simp]:
  "sc_current (on_stats purpose result s) = sc_current s" "sc_email_group (on_stats purpose result s) = sc_email_group s"
  "sc_email_visible (on_stats purpose result s) = sc_email_visible s" "sc_emails (on_stats purpose result s) = sc_emails s"
  "sc_calls (on_stats purpose result s) = sc_calls s" "sc_selected (on_stats purpose result s) = sc_selected s"
  by (simp_all add: on_stats_def Let_def split: stats_purpose.split option.split)

lemma scope_view_step:
  assumes "scope_step assigned s e t"
  shows "listing_step (holds_for assigned) (\<not> scope_fail e) (scope_view s) (scope_view t)"
  using assms
proof cases
  case (pool_open i)
  then show ?thesis by (intro listing_step.cleared) (simp add: scope_view_def scope_front_def scope_ops)
next
  case (pool_group g)
  then show ?thesis
    by (intro listing_same scope_quiet) (simp_all add: scope_ops List.map_filter_simps assigned_load_def split: option.split)
next
  case pool_reset
  then show ?thesis
    by (intro listing_same scope_quiet) (simp_all add: scope_ops List.map_filter_simps assigned_load_def split: option.split)
next
  case (emails_open i)
  then show ?thesis
    by (intro listing_step.loading) (simp add: scope_view_def scope_ops List.map_filter_simps assigned_load_def)
next
  case emails_close
  then show ?thesis by (intro listing_step.cleared) (simp add: scope_view_def)
next
  case (email_group g)
  show ?thesis
  proof (cases "sc_current s")
    case None
    then have "scope_view t = scope_view s" using email_group by (simp add: scope_view_def scope_ops)
    then show ?thesis by (rule listing_same)
  next
    case (Some i)
    then show ?thesis using email_group
      by (intro listing_step.loading) (simp add: scope_view_def scope_ops List.map_filter_simps assigned_load_def)
  qed
next
  case emails_save
  then show ?thesis
    by (intro listing_same scope_quiet) (simp_all add: scope_ops List.map_filter_simps assigned_load_def split: option.split)
next
  case (stats_answer c purpose i g result)
  then show ?thesis
    by (intro listing_same scope_quiet) (simp_all add: end_scope_def map_filter_remove1_None assigned_load_def)
next
  case (reset_answer c i g ok)
  then show ?thesis
    by (intro listing_same scope_quiet)
      (simp_all add: scope_ops map_filter_remove1_None List.map_filter_simps assigned_load_def)
next
  case (assigned_answer c i g result)
  show ?thesis
  proof (cases result)
    case None
    then show ?thesis using assigned_answer by (intro listing_step.failed) (simp add: scope_fail_def)
  next
    case (Some emails)
    have "Some (i, g) \<in> set (ls_loads (scope_view s))"
      using assigned_answer by (auto simp: scope_view_def assigned_load_def intro: map_filter_mem [of c])
    then show ?thesis using assigned_answer Some
      by (intro listing_step.answered [of "Some (i, g)"])
        (auto simp: scope_view_def on_assigned_def end_scope_def holds_for_def list_all_iff)
  qed
next
  case (assign_answer c i ids g ok)
  show ?thesis
  proof (cases ok)
    case True
    then show ?thesis using assign_answer by (intro listing_step.cleared) (simp add: scope_view_def scope_ops)
  next
    case False
    then show ?thesis using assign_answer
      by (intro listing_same scope_quiet) (simp_all add: scope_ops map_filter_remove1_None assigned_load_def)
  qed
qed (rule listing_same, rule scope_quiet; simp add: scope_ops)+

interpretation mailbox_scope: listing scope_start "scope_step assigned" scope_view scope_fail "holds_for assigned"
proof unfold_locales
  show "scope_start s \<Longrightarrow> listing_fresh (holds_for assigned) (scope_view s)" for s
    by (intro fresh_empty) (simp add: scope_start_def scope0_def scope_view_def List.map_filter_simps)
qed (rule scope_view_step)

section \<open>Selecting and saving\<close>

fun saving_call :: "scope_call \<Rightarrow> bool" where
  "saving_call (Assign_call i ids g) = True"
| "saving_call (Stats_call After_save i g) = True"
| "saving_call c = False"

definition scope_inv :: "key_scope \<Rightarrow> bool" where
  "scope_inv s \<longleftrightarrow>
     set (sc_selected s) \<subseteq> set (map pe_id (sc_emails s)) \<and> busy_with saving_call (sc_saving s) (sc_calls s)"

lemma filtered_subset: "set (filtered_ids s) \<subseteq> set (map pe_id (sc_emails s))"
  by (auto simp: filtered_ids_def filtered_email_list_def Let_def)

lemma used_subset: "set (extract_used_email_ids emails) \<subseteq> set (map pe_id emails)"
  by (auto simp: extract_used_email_ids_def)

lemma end_scope_frame [simp]:
  "sc_selected (end_scope c s) = sc_selected s" "sc_emails (end_scope c s) = sc_emails s" "sc_calls (end_scope c s) = remove1 c (sc_calls s)"
  "sc_saving (end_scope c s) = sc_saving s"
  by (simp_all add: end_scope_def)

lemma stats_busy:
  assumes "busy_with saving_call (sc_saving s) (sc_calls s)" "Stats_call purpose i g \<in> set (sc_calls s)"
  shows "busy_with saving_call (sc_saving (on_stats purpose result (end_scope (Stats_call purpose i g) s)))
           (remove1 (Stats_call purpose i g) (sc_calls s))"
proof (cases purpose)
  case After_save
  then show ?thesis using assms busy_end [OF assms] by (simp add: on_stats_def Let_def)
qed (use assms in \<open>simp_all add: on_stats_def Let_def end_scope_def split: option.split\<close>)

lemma scope_inv_step: "scope_inv s \<Longrightarrow> scope_step assigned s e t \<Longrightarrow> scope_inv t"
proof (erule scope_step.cases, goal_cases)
  case (9)
  then show ?case using filtered_subset [of s] by (auto simp: scope_inv_def select_filtered_def)
next
  case (11 s vals)
  then show ?case using filtered_subset [of s] by (auto simp: scope_inv_def)
next
  case 12
  then show ?case by (auto simp: scope_inv_def handle_save_emails_def push_scope_def busy_begin split: option.split)
next
  case (13 c purpose i g s result)
  then show ?case using stats_busy [of s purpose i g result] by (simp add: scope_inv_def)
next
  case (15 c i g s result)
  then show ?case using used_subset by (auto simp: scope_inv_def on_assigned_def end_scope_def split: option.split)
next
  case (16 c i ids g s ok)
  then show ?case
    using busy_end [of saving_call "sc_saving s" "sc_calls s" c] busy_next [of saving_call "sc_saving s" "sc_calls s" c]
      busy_flag [of saving_call "sc_saving s" "sc_calls s" c]
    by (simp add: scope_inv_def on_emails_saved_def end_scope_def push_scope_def)
qed (auto simp: scope_inv_def scope_ops split: option.split)

interpretation scope_saves: machine_invariant scope_start "scope_step assigned" scope_inv
proof unfold_locales
  show "scope_start s \<Longrightarrow> scope_inv s" for s
    by (simp add: scope_start_def scope0_def scope_inv_def busy_with_def one_if_def)
qed (rule scope_inv_step)

text \<open>The buttons for the mailboxes that match the keyword leave the other ones as they are.\<close>

lemma select_then_clear:
  "set (sc_selected (clear_filtered (select_filtered s))) = set (sc_selected (clear_filtered s))"
  "selected_in_filtered_count (clear_filtered s) = 0"
  by (auto simp: clear_filtered_def select_filtered_def filtered_ids_def filtered_email_list_def Let_def selected_in_filtered_count_def
      filter_empty_conv)

text \<open>C16: 
  What is saved belongs to the key in the window, in calm use: in every run in which no load of assigned mailboxes has failed
  and, after every step, the loads under way are all for the key and the group in the window, saving while no load is under
  way sends only mailboxes that the server lists for that key and that group.
\<close>

theorem saved_mailboxes_of_key:
  assumes "reach scope_start (calm_step scope_view scope_fail (scope_step assigned)) s" "listing_settled (scope_view s)"
    "sc_email_visible s" "sc_current s = Some i"
  shows "\<exists>ids. sc_calls (handle_save_emails s) = Assign_call i ids (sc_email_group s) # sc_calls s \<and>
           list_all (assigned (i, sc_email_group s)) ids"
proof -
  have "list_all (assigned (i, sc_email_group s)) (map pe_id (sc_emails s))"
    using mailbox_scope.settled_rows [OF assms(1,2)] assms(3,4) by (simp add: scope_view_def holds_for_def list_all_iff)
  moreover have "set (sc_selected s) \<subseteq> set (map pe_id (sc_emails s))"
    using scope_saves.inv_reach [OF calm_reach [OF assms(1)]] by (simp add: scope_inv_def)
  ultimately have "list_all (assigned (i, sc_email_group s)) (sc_selected s)" by (auto simp: list_all_iff)
  then show ?thesis using assms(4) by (auto simp: handle_save_emails_def push_scope_def)
qed

text \<open>
  The button that saves works while the mailboxes of a key are being loaded: it gives the key the selection left from the
  key opened before.
\<close>

theorem saved_before_loaded:
  assumes "scope_front s" "\<not> sc_saving s"
  shows "\<exists>t. run (scope_step assigned) s [Emails_opened i, Emails_saved] t \<and> sc_calls t = Assign_call i (sc_selected s) None # Assigned_call i None # sc_calls s"
proof -
  let ?u = "handle_manage_emails i s"
  have u: "sc_email_visible ?u" "\<not> sc_saving ?u" "sc_selected ?u = sc_selected s" "sc_current ?u = Some i" "sc_email_group ?u = None"
    "sc_calls ?u = Assigned_call i None # sc_calls s"
    using assms(2) by (simp_all add: handle_manage_emails_def push_scope_def)
  have "run (scope_step assigned) s [Emails_opened i, Emails_saved] (handle_save_emails ?u)"
    using emails_open [OF assms(1)] emails_save [OF u(1,2)] by (blast intro: run.intros)
  moreover have "sc_calls (handle_save_emails ?u) = Assign_call i (sc_selected s) None # Assigned_call i None # sc_calls s"
    using u by (simp add: handle_save_emails_def push_scope_def)
  ultimately show ?thesis by blast
qed

text \<open>One selection is saved at a time, and every selected mailbox is one that was loaded.\<close>

theorem one_scope_save:
  assumes "reach scope_start (scope_step assigned) s"
  shows "length (filter saving_call (sc_calls s)) = (if sc_saving s then 1 else 0) \<and>
         set (sc_selected s) \<subseteq> set (map pe_id (sc_emails s))"
  using scope_saves.inv_reach [OF assms] by (simp add: scope_inv_def busy_with_def one_if_def)

section \<open>Examples\<close>

definition scope_sample :: key_scope where
  "scope_sample = on_assigned (Some [\<lparr>pe_id = 7, pe_email = [], pe_used = True, pe_group = None\<rparr>])
     (end_scope (Assigned_call 4 None) (handle_manage_emails 4 scope0))"

lemma scope_sample_steps:
  "scope_step (\<lambda>p i. i = 7) scope0 (Emails_opened 4) (handle_manage_emails 4 scope0)"
  "scope_step (\<lambda>p i. i = 7) (handle_manage_emails 4 scope0)
     (Assigned_answered (Assigned_call 4 None) (Some [\<lparr>pe_id = 7, pe_email = [], pe_used = True, pe_group = None\<rparr>])) scope_sample"
  unfolding scope_sample_def
  by (rule emails_open, simp add: scope_front_def scope0_def)
    (rule assigned_answer [OF refl]; simp add: handle_manage_emails_def push_scope_def)

lemma scope_sample_eval:
  "sc_email_visible scope_sample" "sc_current scope_sample = Some 4" "sc_email_group scope_sample = None" "sc_calls scope_sample = []"
  "sc_selected scope_sample = [7]" "\<not> sc_saving scope_sample" "\<not> sc_pool_visible scope_sample"
  by (simp_all add: scope_sample_def on_assigned_def end_scope_def handle_manage_emails_def push_scope_def scope0_def
      extract_used_email_ids_def)

lemma scope0_reach: "reach scope_start step scope0"
  by (rule reach_start) (simp add: scope_start_def)

theorem saved_mailboxes_of_key_witness:
  "\<exists>ids. sc_calls (handle_save_emails scope_sample) = [Assign_call 4 ids None] \<and> list_all (\<lambda>i. i = 7) ids"
proof -
  let ?step = "scope_step (\<lambda>p i. i = 7)"
  have calm: "listing_calm (scope_view (handle_manage_emails 4 scope0))" "listing_settled (scope_view scope_sample)"
    by (simp_all add: listing_calm_def listing_settled_def scope_view_def scope_sample_eval handle_manage_emails_def push_scope_def
        scope0_def List.map_filter_simps assigned_load_def)
  then have sample: "listing_calm (scope_view scope_sample)" by (simp add: listing_calm_def listing_settled_def)
  have opened: "reach scope_start (calm_step scope_view scope_fail ?step) (handle_manage_emails 4 scope0)"
    by (rule reach_step [of _ _ scope0], rule scope0_reach, rule calm_stepI, rule scope_sample_steps(1))
      (simp_all add: calm scope_fail_def)
  have "reach scope_start (calm_step scope_view scope_fail ?step) scope_sample"
    by (rule reach_step [of _ _ "handle_manage_emails 4 scope0"], rule opened, rule calm_stepI, rule scope_sample_steps(2)) (simp_all add: sample scope_fail_def)
  from saved_mailboxes_of_key [OF this calm(2) scope_sample_eval(1,2)] show ?thesis by (simp add: scope_sample_eval)
qed

theorem saved_before_loaded_witness:
  "\<exists>t. run (scope_step (\<lambda>p i. i = 7)) (scope_sample\<lparr>sc_email_visible := False\<rparr>) [Emails_opened 5, Emails_saved] t \<and>
     sc_calls t = [Assign_call 5 [7] None, Assigned_call 5 None]"
  using saved_before_loaded [of "scope_sample\<lparr>sc_email_visible := False\<rparr>" "\<lambda>p i. i = 7" 5]
  by (simp add: scope_front_def scope_sample_eval)

theorem one_scope_save_witness:
  "length (filter saving_call (sc_calls (handle_manage_emails 4 scope0))) = 0"
proof -
  have "reach scope_start (scope_step (\<lambda>p i. i = 7)) (handle_manage_emails 4 scope0)"
    by (rule reach_step [of _ _ scope0], rule scope0_reach, rule scope_sample_steps(1))
  from one_scope_save [OF this] show ?thesis by (simp add: handle_manage_emails_def push_scope_def scope0_def)
qed

end
