(* ===== verification/DomainMailboxes.thy ===== *)
theory DomainMailboxes
  imports Providers WebText Listing
begin

text \<open>
  The administrator's page of hosted mailboxes (web/src/pages/domain-mailboxes/index.tsx and modals.tsx): the filtered list
  with its selection, the window for one mailbox, creating many at once, deleting and assigning the selected
  ones, and the address that asks for a first mailbox of a domain. A load fetches four lists at once. Fields that are
  unset are \<open>None\<close>; ids are never 0.
\<close>

section \<open>Data\<close>

datatype hosted_state = Mailbox_active | Mailbox_disabled | Mailbox_suspended

record mailbox_record =
  mr_id :: nat
  mr_domain :: nat
  mr_local :: jstr
  mr_display :: "jstr option"
  mr_state :: hosted_state
  mr_mode :: provisioning_mode
  mr_tag :: "jstr option"
  mr_owner :: "nat option"

record hosted_domain =
  hd_id :: nat
  hd_disabled :: bool

record mailbox_values =
  mv_domain :: "nat option"
  mv_local :: "jstr option"
  mv_display :: "jstr option"
  mv_mode :: "provisioning_mode option"
  mv_tag :: "jstr option"
  mv_owner :: "nat option"
  mv_password :: "jstr option"
  mv_state :: "hosted_state option"

definition empty_mailbox_values :: mailbox_values where
  "empty_mailbox_values =
     \<lparr>mv_domain = None, mv_local = None, mv_display = None, mv_mode = None, mv_tag = None, mv_owner = None, mv_password = None,
      mv_state = None\<rparr>"

definition mailbox_values_of :: "mailbox_record \<Rightarrow> mailbox_values" where
  "mailbox_values_of r =
     \<lparr>mv_domain = Some (mr_domain r), mv_local = Some (mr_local r), mv_display = mr_display r, mv_mode = Some (mr_mode r),
      mv_tag = mr_tag r, mv_owner = mr_owner r, mv_password = None, mv_state = Some (mr_state r)\<rparr>"

datatype create_mode = By_prefix | By_list

record batch_values =
  bv_domain :: "nat option"
  bv_mode :: "provisioning_mode option"
  bv_keys :: "nat list option"
  bv_tag :: "jstr option"
  bv_create :: "create_mode option"
  bv_text :: "jstr option"
  bv_prefix :: "jstr option"
  bv_count :: "nat option"
  bv_start :: "nat option"
  bv_padding :: "nat option"
  bv_display :: "jstr option"
  bv_owner :: "nat option"
  bv_login :: bool
  bv_password :: "jstr option"

datatype batch_names = Local_parts "jstr list" | Numbered "jstr option" "nat option" "nat option" "nat option"

record batch_payload =
  bp_domain :: "nat option"
  bp_display :: "jstr option"
  bp_mode :: "provisioning_mode option"
  bp_tag :: "jstr option"
  bp_login :: bool
  bp_password :: "jstr option"
  bp_owner :: "nat option"
  bp_keys :: "nat list"
  bp_names :: batch_names

definition is_part_separator :: "nat \<Rightarrow> bool" where
  "is_part_separator c \<longleftrightarrow> c = 10 \<or> c = 44"

definition local_parts :: "jstr \<Rightarrow> jstr list" where
  "local_parts text = filter (\<lambda>item. item \<noteq> []) (map trim (split_runs is_part_separator text))"

definition batch_payload_of :: "batch_values \<Rightarrow> batch_payload" where
  "batch_payload_of v =
     \<lparr>bp_domain = bv_domain v, bp_display = bv_display v, bp_mode = bv_mode v, bp_tag = bv_tag v, bp_login = bv_login v,
      bp_password = bv_password v, bp_owner = bv_owner v, bp_keys = (case bv_keys v of None \<Rightarrow> [] | Some keys \<Rightarrow> keys),
      bp_names = (if bv_create v = Some By_list then Local_parts (local_parts (case bv_text v of None \<Rightarrow> [] | Some text \<Rightarrow> text))
                  else Numbered (bv_prefix v) (bv_count v) (bv_start v) (bv_padding v))\<rparr>"

definition filled :: "jstr option \<Rightarrow> bool" where
  "filled value \<longleftrightarrow> (case value of None \<Rightarrow> False | Some v \<Rightarrow> v \<noteq> [])"

definition valid_mailbox_values :: "mailbox_values \<Rightarrow> bool" where
  "valid_mailbox_values v \<longleftrightarrow> mv_domain v \<noteq> None \<and> filled (mv_local v)"

definition valid_batch_values :: "batch_values \<Rightarrow> bool" where
  "valid_batch_values v \<longleftrightarrow>
     bv_domain v \<noteq> None \<and> bv_mode v \<noteq> None \<and> bv_create v \<noteq> None \<and>
     (if bv_create v = Some By_list then filled (bv_text v) else filled (bv_prefix v) \<and> bv_count v \<noteq> None)"

definition default_batch_values :: batch_values where
  "default_batch_values =
     \<lparr>bv_domain = None, bv_mode = Some API_POOL, bv_keys = Some [], bv_tag = None, bv_create = Some By_prefix, bv_text = None,
      bv_prefix = None, bv_count = Some 10, bv_start = Some 1, bv_padding = Some 0, bv_display = None, bv_owner = None,
      bv_login = False, bv_password = None\<rparr>"

section \<open>State\<close>

record mailbox_filters =
  mf_domain :: "nat option"
  mf_state :: "jstr option"
  mf_mode :: "provisioning_mode option"
  mf_tag :: jstr

type_synonym mailbox_query = "nat option \<times> jstr option \<times> provisioning_mode option \<times> jstr option"

definition trimmed_or_none :: "jstr \<Rightarrow> jstr option" where
  "trimmed_or_none text = (if trim text = [] then None else Some (trim text))"

definition mailbox_query_of :: "mailbox_filters \<Rightarrow> mailbox_query" where
  "mailbox_query_of f = (mf_domain f, mf_state f, mf_mode f, trimmed_or_none (mf_tag f))"

record delete_criteria =
  dc_domain :: "nat option"
  dc_tag :: "jstr option"
  dc_mode :: "provisioning_mode option"

text \<open>What a load is for; all but the first kind end the saving that started them.\<close>

datatype load_purpose = For_list | After_mailbox | After_batch | After_delete | After_assign | After_single

datatype hosted_call =
    Load_call mailbox_query load_purpose
  | Mailbox_call "nat option" mailbox_values mailbox_query
  | Batch_call batch_payload mailbox_query
  | Delete_ids_call "nat list" mailbox_query
  | Delete_by_call delete_criteria mailbox_query
  | Assign_call nat "nat list" mailbox_query
  | Delete_one_call nat mailbox_query

record load_answer =
  la_domains :: "hosted_domain list option"
  la_mailboxes :: "mailbox_record list option"
  la_users :: "nat list option"
  la_keys :: "nat list option"

record hosted_page =
  hp_rows :: "mailbox_record list"
  hp_domains :: "nat list"
  hp_users :: "nat list"
  hp_keys :: "nat list"
  hp_loading :: bool
  hp_selected :: "nat list"
  hp_filters :: mailbox_filters
  hp_due :: bool
  hp_window :: bool
  hp_batch :: bool
  hp_delete :: bool
  hp_assign :: bool
  hp_editing :: "mailbox_record option"
  hp_form :: mailbox_values
  hp_batch_form :: batch_values
  hp_criteria :: delete_criteria
  hp_user :: "nat option"
  hp_saving :: bool
  hp_creating :: bool
  hp_deleting :: bool
  hp_assigning :: bool
  hp_intent :: "nat option"
  hp_calls :: "hosted_call list"

definition push_hosted :: "hosted_call \<Rightarrow> hosted_page \<Rightarrow> hosted_page" where
  "push_hosted c s = s\<lparr>hp_calls := c # hp_calls s\<rparr>"

definition end_hosted :: "hosted_call \<Rightarrow> hosted_page \<Rightarrow> hosted_page" where
  "end_hosted c s = s\<lparr>hp_calls := remove1 c (hp_calls s)\<rparr>"

definition screen_query :: "hosted_page \<Rightarrow> mailbox_query" where
  "screen_query s = mailbox_query_of (hp_filters s)"

section \<open>Loading\<close>

text \<open>A handler loads with the filters that were on the screen when it started.\<close>

definition load_data :: "mailbox_query \<Rightarrow> load_purpose \<Rightarrow> hosted_page \<Rightarrow> hosted_page" where
  "load_data query purpose s = push_hosted (Load_call query purpose) (s\<lparr>hp_loading := True\<rparr>)"

definition end_saving :: "load_purpose \<Rightarrow> hosted_page \<Rightarrow> hosted_page" where
  "end_saving purpose s =
     (case purpose of
        After_mailbox \<Rightarrow> s\<lparr>hp_saving := False\<rparr>
      | After_batch \<Rightarrow> s\<lparr>hp_creating := False\<rparr>
      | After_delete \<Rightarrow> s\<lparr>hp_deleting := False\<rparr>
      | After_assign \<Rightarrow> s\<lparr>hp_assigning := False\<rparr>
      | _ \<Rightarrow> s)"

definition or_empty :: "'a list option \<Rightarrow> 'a list" where
  "or_empty items = (case items of None \<Rightarrow> [] | Some xs \<Rightarrow> xs)"

definition on_loaded :: "load_purpose \<Rightarrow> load_answer \<Rightarrow> hosted_page \<Rightarrow> hosted_page" where
  "on_loaded purpose a s =
     end_saving purpose (s\<lparr>hp_domains := map hd_id (filter (\<lambda>d. \<not> hd_disabled d) (or_empty (la_domains a))),
       hp_rows := or_empty (la_mailboxes a), hp_users := or_empty (la_users a), hp_keys := or_empty (la_keys a), hp_loading := False\<rparr>)"

definition change_filters :: "mailbox_filters \<Rightarrow> hosted_page \<Rightarrow> hosted_page" where
  "change_filters f s = s\<lparr>hp_filters := f, hp_due := (hp_due s \<or> f \<noteq> hp_filters s)\<rparr>"

definition list_timer :: "hosted_page \<Rightarrow> hosted_page" where
  "list_timer s = load_data (screen_query s) For_list (s\<lparr>hp_due := False\<rparr>)"

section \<open>Windows\<close>

definition open_mailbox_window :: "mailbox_record option \<Rightarrow> nat option \<Rightarrow> hosted_page \<Rightarrow> hosted_page" where
  "open_mailbox_window record1 next_domain s =
     s\<lparr>hp_editing := record1,
       hp_form := (case record1 of
           Some r \<Rightarrow> mailbox_values_of r
         | None \<Rightarrow> empty_mailbox_values\<lparr>mv_mode := Some MANUAL, mv_domain := next_domain\<rparr>),
       hp_window := True\<rparr>"

text \<open>The address can ask for the first mailbox of a domain: the effect opens the window once the domain is known.\<close>

definition intent_effect :: "hosted_page \<Rightarrow> hosted_page" where
  "intent_effect s =
     (case hp_intent s of
        None \<Rightarrow> s
      | Some d \<Rightarrow>
          if hp_window s \<or> d \<notin> set (hp_domains s) then s
          else (open_mailbox_window None (Some d) (change_filters ((hp_filters s)\<lparr>mf_domain := Some d\<rparr>) s))\<lparr>hp_intent := None\<rparr>)"

definition open_batch_create :: "hosted_page \<Rightarrow> hosted_page" where
  "open_batch_create s = s\<lparr>hp_batch_form := default_batch_values, hp_batch := True\<rparr>"

definition open_batch_delete :: "hosted_page \<Rightarrow> hosted_page" where
  "open_batch_delete s =
     s\<lparr>hp_criteria := \<lparr>dc_domain = mf_domain (hp_filters s), dc_tag = trimmed_or_none (mf_tag (hp_filters s)),
         dc_mode = mf_mode (hp_filters s)\<rparr>, hp_delete := True\<rparr>"

definition open_batch_assign :: "hosted_page \<Rightarrow> hosted_page" where
  "open_batch_assign s = s\<lparr>hp_user := None, hp_assign := True\<rparr>"

text \<open>The state of a mailbox is a field of the form only when one is edited.\<close>

definition handle_mailbox_submit :: "hosted_page \<Rightarrow> hosted_page" where
  "handle_mailbox_submit s =
     (if \<not> valid_mailbox_values (hp_form s) then s
      else case hp_editing s of
             Some r \<Rightarrow> push_hosted (Mailbox_call (Some (mr_id r)) (hp_form s) (screen_query s)) (s\<lparr>hp_saving := True\<rparr>)
           | None \<Rightarrow> push_hosted (Mailbox_call None ((hp_form s)\<lparr>mv_state := None\<rparr>) (screen_query s)) (s\<lparr>hp_saving := True\<rparr>))"

definition on_mailbox_saved :: "mailbox_query \<Rightarrow> bool \<Rightarrow> hosted_page \<Rightarrow> hosted_page" where
  "on_mailbox_saved query ok s =
     (if ok then load_data query After_mailbox (s\<lparr>hp_window := False\<rparr>) else s\<lparr>hp_saving := False\<rparr>)"

definition handle_batch_create_submit :: "hosted_page \<Rightarrow> hosted_page" where
  "handle_batch_create_submit s =
     (if \<not> valid_batch_values (hp_batch_form s) then s\<lparr>hp_creating := False\<rparr>
      else push_hosted (Batch_call (batch_payload_of (hp_batch_form s)) (screen_query s)) (s\<lparr>hp_creating := True\<rparr>))"

definition on_batch_created :: "mailbox_query \<Rightarrow> bool \<Rightarrow> hosted_page \<Rightarrow> hosted_page" where
  "on_batch_created query ok s =
     (if ok then load_data query After_batch (s\<lparr>hp_batch := False\<rparr>) else s\<lparr>hp_creating := False\<rparr>)"

definition handle_delete_selected :: "hosted_page \<Rightarrow> hosted_page" where
  "handle_delete_selected s =
     (if hp_selected s = [] then s
      else push_hosted (Delete_ids_call (hp_selected s) (screen_query s)) (s\<lparr>hp_deleting := True\<rparr>))"

definition on_selected_deleted :: "mailbox_query \<Rightarrow> bool \<Rightarrow> hosted_page \<Rightarrow> hosted_page" where
  "on_selected_deleted query ok s =
     (if ok then load_data query After_delete (s\<lparr>hp_selected := []\<rparr>) else s\<lparr>hp_deleting := False\<rparr>)"

definition handle_batch_delete_submit :: "hosted_page \<Rightarrow> hosted_page" where
  "handle_batch_delete_submit s =
     (if dc_domain (hp_criteria s) = None then s\<lparr>hp_deleting := False\<rparr>
      else push_hosted (Delete_by_call (hp_criteria s) (screen_query s)) (s\<lparr>hp_deleting := True\<rparr>))"

definition on_batch_deleted :: "mailbox_query \<Rightarrow> bool \<Rightarrow> hosted_page \<Rightarrow> hosted_page" where
  "on_batch_deleted query ok s =
     (if ok then load_data query After_delete (s\<lparr>hp_delete := False, hp_selected := []\<rparr>) else s\<lparr>hp_deleting := False\<rparr>)"

definition handle_batch_assign_submit :: "hosted_page \<Rightarrow> hosted_page" where
  "handle_batch_assign_submit s =
     (if hp_selected s = [] then s
      else case hp_user s of
             None \<Rightarrow> s\<lparr>hp_assigning := False\<rparr>
           | Some u \<Rightarrow> push_hosted (Assign_call u (hp_selected s) (screen_query s)) (s\<lparr>hp_assigning := True\<rparr>))"

definition on_batch_assigned :: "mailbox_query \<Rightarrow> bool \<Rightarrow> hosted_page \<Rightarrow> hosted_page" where
  "on_batch_assigned query ok s =
     (if ok then load_data query After_assign (s\<lparr>hp_assign := False, hp_selected := []\<rparr>) else s\<lparr>hp_assigning := False\<rparr>)"

definition handle_single_delete :: "nat \<Rightarrow> hosted_page \<Rightarrow> hosted_page" where
  "handle_single_delete i s = push_hosted (Delete_one_call i (screen_query s)) s"

definition on_single_deleted :: "mailbox_query \<Rightarrow> bool \<Rightarrow> hosted_page \<Rightarrow> hosted_page" where
  "on_single_deleted query ok s = (if ok then load_data query After_single s else s)"

section \<open>The machine\<close>

datatype hosted_event =
    Hosted_filtered mailbox_filters | Hosted_timer | Hosted_language | Hosted_selected "nat list" | Mailbox_opened "mailbox_record option"
  | Mailbox_edited mailbox_values | Mailbox_submitted | Mailbox_cancelled | Batch_opened | Batch_edited batch_values | Batch_submitted
  | Batch_cancelled | Delete_opened | Criteria_edited delete_criteria | Delete_submitted | Delete_cancelled | Assign_opened
  | User_chosen "nat option" | Assign_submitted | Assign_cancelled | Selected_deleted | One_deleted nat
  | Load_done hosted_call load_answer | Mailbox_done hosted_call bool | Batch_done hosted_call bool | Delete_ids_done hosted_call bool
  | Delete_by_done hosted_call bool | Assign_done hosted_call bool | Delete_one_done hosted_call bool

definition hosted_front :: "hosted_page \<Rightarrow> bool" where
  "hosted_front s \<longleftrightarrow> \<not> hp_window s \<and> \<not> hp_batch s \<and> \<not> hp_delete s \<and> \<not> hp_assign s"

text \<open>
  \<open>listed q i\<close>: the server lists mailbox \<open>i\<close> for the filters \<open>q\<close>. A table selects rows that it shows, or keeps ones that
  were selected. The domain and the local part of an edited mailbox cannot be changed.
\<close>

definition edits_mailbox :: "hosted_page \<Rightarrow> mailbox_values \<Rightarrow> bool" where
  "edits_mailbox s v \<longleftrightarrow>
     hp_editing s = None \<or> mv_domain v = mv_domain (hp_form s) \<and> mv_local v = mv_local (hp_form s)"

inductive hosted_step :: "(mailbox_query \<Rightarrow> nat \<Rightarrow> bool) \<Rightarrow> hosted_page \<Rightarrow> hosted_event \<Rightarrow> hosted_page \<Rightarrow> bool" for listed where
  hosted_filter: "hosted_front s \<Longrightarrow> hosted_step listed s (Hosted_filtered f) (change_filters f s)"
| hosted_timer: "hp_due s \<Longrightarrow> hosted_step listed s Hosted_timer (list_timer s)"
| hosted_language: "hosted_step listed s Hosted_language (s\<lparr>hp_due := True\<rparr>)"
| hosted_select: "hosted_front s \<Longrightarrow> set ids \<subseteq> set (hp_selected s) \<union> set (map mr_id (hp_rows s)) \<Longrightarrow>
     hosted_step listed s (Hosted_selected ids) (s\<lparr>hp_selected := ids\<rparr>)"
| mailbox_open: "hosted_front s \<Longrightarrow> (case r of None \<Rightarrow> True | Some x \<Rightarrow> x \<in> set (hp_rows s)) \<Longrightarrow>
     hosted_step listed s (Mailbox_opened r) (open_mailbox_window r None s)"
| mailbox_edit: "hp_window s \<Longrightarrow> edits_mailbox s v \<Longrightarrow> hosted_step listed s (Mailbox_edited v) (s\<lparr>hp_form := v\<rparr>)"
| mailbox_submit: "hp_window s \<Longrightarrow> \<not> hp_saving s \<Longrightarrow> hosted_step listed s Mailbox_submitted (handle_mailbox_submit s)"
| mailbox_cancel: "hp_window s \<Longrightarrow> hosted_step listed s Mailbox_cancelled (intent_effect (s\<lparr>hp_window := False\<rparr>))"
| batch_open: "hosted_front s \<Longrightarrow> hosted_step listed s Batch_opened (open_batch_create s)"
| batch_edit: "hp_batch s \<Longrightarrow> hosted_step listed s (Batch_edited v) (s\<lparr>hp_batch_form := v\<rparr>)"
| batch_submit: "hp_batch s \<Longrightarrow> \<not> hp_creating s \<Longrightarrow> hosted_step listed s Batch_submitted (handle_batch_create_submit s)"
| batch_cancel: "hp_batch s \<Longrightarrow> hosted_step listed s Batch_cancelled (s\<lparr>hp_batch := False\<rparr>)"
| delete_open: "hosted_front s \<Longrightarrow> hosted_step listed s Delete_opened (open_batch_delete s)"
| criteria_edit: "hp_delete s \<Longrightarrow> hosted_step listed s (Criteria_edited c) (s\<lparr>hp_criteria := c\<rparr>)"
| delete_submit: "hp_delete s \<Longrightarrow> \<not> hp_deleting s \<Longrightarrow> hosted_step listed s Delete_submitted (handle_batch_delete_submit s)"
| delete_cancel: "hp_delete s \<Longrightarrow> hosted_step listed s Delete_cancelled (s\<lparr>hp_delete := False\<rparr>)"
| assign_open: "hosted_front s \<Longrightarrow> hp_selected s \<noteq> [] \<Longrightarrow> hp_users s \<noteq> [] \<Longrightarrow>
     hosted_step listed s Assign_opened (open_batch_assign s)"
| user_choose: "hp_assign s \<Longrightarrow> hosted_step listed s (User_chosen u) (s\<lparr>hp_user := u\<rparr>)"
| assign_submit: "hp_assign s \<Longrightarrow> \<not> hp_assigning s \<Longrightarrow> hosted_step listed s Assign_submitted (handle_batch_assign_submit s)"
| assign_cancel: "hp_assign s \<Longrightarrow> hosted_step listed s Assign_cancelled (s\<lparr>hp_assign := False\<rparr>)"
| selected_delete: "hosted_front s \<Longrightarrow> hp_selected s \<noteq> [] \<Longrightarrow> \<not> hp_deleting s \<Longrightarrow>
     hosted_step listed s Selected_deleted (handle_delete_selected s)"
| one_delete: "hosted_front s \<Longrightarrow> i \<in> set (map mr_id (hp_rows s)) \<Longrightarrow> hosted_step listed s (One_deleted i) (handle_single_delete i s)"
| load_done: "c = Load_call query purpose \<Longrightarrow> c \<in> set (hp_calls s) \<Longrightarrow>
     list_all (\<lambda>r. listed query (mr_id r)) (or_empty (la_mailboxes a)) \<Longrightarrow>
     hosted_step listed s (Load_done c a) (intent_effect (on_loaded purpose a (end_hosted c s)))"
| mailbox_done: "c = Mailbox_call i v query \<Longrightarrow> c \<in> set (hp_calls s) \<Longrightarrow>
     hosted_step listed s (Mailbox_done c ok) (intent_effect (on_mailbox_saved query ok (end_hosted c s)))"
| batch_done: "c = Batch_call payload query \<Longrightarrow> c \<in> set (hp_calls s) \<Longrightarrow>
     hosted_step listed s (Batch_done c ok) (on_batch_created query ok (end_hosted c s))"
| delete_ids_done: "c = Delete_ids_call ids query \<Longrightarrow> c \<in> set (hp_calls s) \<Longrightarrow>
     hosted_step listed s (Delete_ids_done c ok) (on_selected_deleted query ok (end_hosted c s))"
| delete_by_done: "c = Delete_by_call criteria query \<Longrightarrow> c \<in> set (hp_calls s) \<Longrightarrow>
     hosted_step listed s (Delete_by_done c ok) (on_batch_deleted query ok (end_hosted c s))"
| assign_done: "c = Assign_call u ids query \<Longrightarrow> c \<in> set (hp_calls s) \<Longrightarrow>
     hosted_step listed s (Assign_done c ok) (on_batch_assigned query ok (end_hosted c s))"
| delete_one_done: "c = Delete_one_call i query \<Longrightarrow> c \<in> set (hp_calls s) \<Longrightarrow>
     hosted_step listed s (Delete_one_done c ok) (on_single_deleted query ok (end_hosted c s))"

definition no_filters :: mailbox_filters where
  "no_filters = \<lparr>mf_domain = None, mf_state = None, mf_mode = None, mf_tag = []\<rparr>"

text \<open>The page at an address with the given intent.\<close>

definition hosted0 :: "nat option \<Rightarrow> hosted_page" where
  "hosted0 intent =
     \<lparr>hp_rows = [], hp_domains = [], hp_users = [], hp_keys = [], hp_loading = True, hp_selected = [], hp_filters = no_filters,
      hp_due = True, hp_window = False, hp_batch = False, hp_delete = False, hp_assign = False, hp_editing = None,
      hp_form = empty_mailbox_values, hp_batch_form = default_batch_values,
      hp_criteria = \<lparr>dc_domain = None, dc_tag = None, dc_mode = None\<rparr>, hp_user = None, hp_saving = False, hp_creating = False,
      hp_deleting = False, hp_assigning = False, hp_intent = intent, hp_calls = []\<rparr>"

definition hosted_start :: "hosted_page \<Rightarrow> bool" where
  "hosted_start s \<longleftrightarrow> (\<exists>intent. s = hosted0 intent)"

end
