(* ===== verification/DomainMailboxTheorems.thy ===== *)
theory DomainMailboxTheorems
  imports DomainMailboxes
begin

text \<open>
  The page of hosted mailboxes: what is listed fits the filters once nothing is pending, one operation of each kind is
  under way, what is sent is complete, and the address opens the first mailbox of a domain once. The selection outlives
  the filters, so that mailboxes that are no longer listed are deleted.
\<close>

lemmas hosted_ops = push_hosted_def end_hosted_def load_data_def screen_query_def

section \<open>The list\<close>

definition load_query :: "hosted_call \<Rightarrow> mailbox_query option" where
  "load_query c = (case c of Load_call query purpose \<Rightarrow> Some query | _ \<Rightarrow> None)"

definition hosted_view :: "hosted_page \<Rightarrow> (mailbox_query, nat) listing" where
  "hosted_view s =
     \<lparr>ls_par = screen_query s, ls_due = hp_due s, ls_loads = List.map_filter load_query (hp_calls s), ls_rows = map mr_id (hp_rows s)\<rparr>"

text \<open>A load that fails empties the list, so it is no failure of the kind that leaves other rows.\<close>

definition hosted_fail :: "hosted_event \<Rightarrow> bool" where
  "hosted_fail e = False"

lemma load_query_simps [simp]:
  "load_query (Load_call q purpose) = Some q" "load_query (Mailbox_call i v q) = None" "load_query (Batch_call p q) = None"
  "load_query (Delete_ids_call ids q) = None" "load_query (Delete_by_call c q) = None" "load_query (Assign_call u ids q) = None"
  "load_query (Delete_one_call k q) = None"
  by (simp_all add: load_query_def)

lemma hosted_quiet:
  assumes "hp_filters t = hp_filters s" "hp_due t = hp_due s" "hp_rows t = hp_rows s"
    "List.map_filter load_query (hp_calls t) = List.map_filter load_query (hp_calls s)"
  shows "listing_step holds ok (hosted_view s) (hosted_view t)"
  by (rule listing_same) (simp add: assms hosted_view_def screen_query_def)

lemma hosted_load: "listing_step holds ok v (hosted_view (load_data q purpose s))"
  by (rule listing_step.loading) (simp add: hosted_view_def load_data_def push_hosted_def List.map_filter_simps)

lemma end_saving_frame [simp]:
  "hp_filters (end_saving p s) = hp_filters s" "hp_due (end_saving p s) = hp_due s" "hp_rows (end_saving p s) = hp_rows s"
  "hp_calls (end_saving p s) = hp_calls s" "hp_intent (end_saving p s) = hp_intent s" "hp_window (end_saving p s) = hp_window s"
  "hp_domains (end_saving p s) = hp_domains s" "hp_form (end_saving p s) = hp_form s" "hp_selected (end_saving p s) = hp_selected s"
  by (simp_all add: end_saving_def split: load_purpose.split)

lemma intent_frame [simp]:
  "hp_calls (intent_effect s) = hp_calls s" "hp_rows (intent_effect s) = hp_rows s" "hp_saving (intent_effect s) = hp_saving s"
  "hp_creating (intent_effect s) = hp_creating s" "hp_deleting (intent_effect s) = hp_deleting s"
  "hp_assigning (intent_effect s) = hp_assigning s" "hp_selected (intent_effect s) = hp_selected s"
  by (auto simp: intent_effect_def open_mailbox_window_def change_filters_def split: option.split)

lemma intent_listing:
  assumes "listing_step holds ok v (hosted_view s)"
  shows "listing_step holds ok v (hosted_view (intent_effect s))"
proof (cases "hp_filters (intent_effect s) = hp_filters s")
  case True
  then have "hp_due (intent_effect s) = hp_due s"
    by (auto simp: intent_effect_def open_mailbox_window_def change_filters_def split: option.splits if_splits)
  then have "hosted_view (intent_effect s) = hosted_view s" using True by (simp add: hosted_view_def screen_query_def)
  then show ?thesis using assms by simp
next
  case False
  then have "hp_due (intent_effect s)"
    by (auto simp: intent_effect_def open_mailbox_window_def change_filters_def split: option.splits if_splits)
  then show ?thesis by (intro listing_step.change) (simp add: hosted_view_def)
qed

lemma change_filters_listing: "listing_step holds ok (hosted_view s) (hosted_view (change_filters f s))"
proof (cases "f = hp_filters s")
  case True
  then show ?thesis by (intro hosted_quiet) (simp_all add: change_filters_def)
next
  case False
  then show ?thesis by (intro listing_step.change) (simp add: hosted_view_def change_filters_def)
qed

lemma ended_listing:
  assumes "load_query c = None" "hp_filters u = hp_filters s" "hp_due u = hp_due s" "hp_rows u = hp_rows s"
    "hp_calls u = remove1 c (hp_calls s)"
  shows "listing_step holds ok (hosted_view s) (hosted_view u)"
  by (rule hosted_quiet) (simp_all add: assms map_filter_remove1_None)

lemma loaded_listing:
  assumes "Load_call q purpose \<in> set (hp_calls s)" "list_all (\<lambda>r. listed q (mr_id r)) (or_empty (la_mailboxes a))"
  shows "listing_step listed ok (hosted_view s) (hosted_view (on_loaded purpose a (end_hosted (Load_call q purpose) s)))"
proof (rule listing_step.answered [of q])
  show "q \<in> set (ls_loads (hosted_view s))"
    using assms(1) by (auto simp: hosted_view_def intro: map_filter_mem [of "Load_call q purpose"])
qed (use assms(2) in \<open>simp_all add: hosted_view_def on_loaded_def end_hosted_def screen_query_def list_all_iff\<close>)

lemma hosted_view_step:
  assumes "hosted_step listed s e t"
  shows "listing_step listed (\<not> hosted_fail e) (hosted_view s) (hosted_view t)"
  using assms
proof cases
  case (hosted_filter f)
  then show ?thesis by (simp add: change_filters_listing)
next
  case hosted_timer
  then show ?thesis by (simp add: list_timer_def hosted_load)
next
  case hosted_language
  then show ?thesis by (intro listing_step.change) (simp add: hosted_view_def)
next
  case (mailbox_cancel)
  then show ?thesis by (auto intro!: intent_listing hosted_quiet)
next
  case mailbox_submit
  then show ?thesis
    by (auto simp: handle_mailbox_submit_def push_hosted_def List.map_filter_simps intro!: hosted_quiet split: option.split)
next
  case batch_submit
  then show ?thesis by (auto simp: handle_batch_create_submit_def push_hosted_def List.map_filter_simps intro!: hosted_quiet)
next
  case delete_submit
  then show ?thesis by (auto simp: handle_batch_delete_submit_def push_hosted_def List.map_filter_simps intro!: hosted_quiet)
next
  case assign_submit
  then show ?thesis
    by (auto simp: handle_batch_assign_submit_def push_hosted_def List.map_filter_simps intro!: hosted_quiet split: option.split)
next
  case selected_delete
  then show ?thesis by (auto simp: handle_delete_selected_def push_hosted_def List.map_filter_simps intro!: hosted_quiet)
next
  case (one_delete i)
  then show ?thesis by (auto simp: handle_single_delete_def push_hosted_def List.map_filter_simps intro!: hosted_quiet)
next
  case (load_done c q purpose a)
  then show ?thesis by (auto intro!: intent_listing loaded_listing)
next
  case (mailbox_done c i v q ok)
  then show ?thesis
    by (cases ok) (auto simp: on_mailbox_saved_def end_hosted_def intro!: intent_listing hosted_load, auto intro!: ended_listing [of c])
next
  case (batch_done c p q ok)
  then show ?thesis by (cases ok) (auto simp: on_batch_created_def end_hosted_def hosted_load intro!: ended_listing [of c])
next
  case (delete_ids_done c ids q ok)
  then show ?thesis by (cases ok) (auto simp: on_selected_deleted_def end_hosted_def hosted_load intro!: ended_listing [of c])
next
  case (delete_by_done c criteria q ok)
  then show ?thesis by (cases ok) (auto simp: on_batch_deleted_def end_hosted_def hosted_load intro!: ended_listing [of c])
next
  case (assign_done c u ids q ok)
  then show ?thesis by (cases ok) (auto simp: on_batch_assigned_def end_hosted_def hosted_load intro!: ended_listing [of c])
next
  case (delete_one_done c i q ok)
  then show ?thesis by (cases ok) (auto simp: on_single_deleted_def end_hosted_def hosted_load intro!: ended_listing [of c])
qed (rule hosted_quiet; simp add: open_mailbox_window_def open_batch_create_def open_batch_delete_def open_batch_assign_def)+

interpretation hosted_list: listing hosted_start "hosted_step listed" hosted_view hosted_fail listed
proof unfold_locales
  show "hosted_start s \<Longrightarrow> listing_fresh listed (hosted_view s)" for s
    by (intro fresh_empty) (auto simp: hosted_start_def hosted0_def hosted_view_def List.map_filter_simps)
qed (rule hosted_view_step)

text \<open>
  When nothing is pending, the mailboxes listed are those of the filters on the screen, unless a load for other filters was
  still under way at some time.
\<close>

theorem mailboxes_of_filters:
  assumes "reach hosted_start (calm_step hosted_view hosted_fail (hosted_step listed)) s" "listing_settled (hosted_view s)"
  shows "\<forall>r \<in> set (hp_rows s). listed (screen_query s) (mr_id r)"
  using hosted_list.settled_rows [OF assms] by (auto simp: hosted_view_def list_all_iff)

section \<open>One operation at a time\<close>

fun saving_mailbox :: "hosted_call \<Rightarrow> bool" where
  "saving_mailbox (Mailbox_call i v q) = True"
| "saving_mailbox (Load_call q After_mailbox) = True"
| "saving_mailbox c = False"

fun creating_batch :: "hosted_call \<Rightarrow> bool" where
  "creating_batch (Batch_call p q) = True"
| "creating_batch (Load_call q After_batch) = True"
| "creating_batch c = False"

fun deleting_mailboxes :: "hosted_call \<Rightarrow> bool" where
  "deleting_mailboxes (Delete_ids_call ids q) = True"
| "deleting_mailboxes (Delete_by_call c q) = True"
| "deleting_mailboxes (Load_call q After_delete) = True"
| "deleting_mailboxes c = False"

fun assigning_mailboxes :: "hosted_call \<Rightarrow> bool" where
  "assigning_mailboxes (Assign_call u ids q) = True"
| "assigning_mailboxes (Load_call q After_assign) = True"
| "assigning_mailboxes c = False"

text \<open>What is sent: a mailbox has a domain and a local part, names of a batch are parts without separators, and nothing is deleted or
  assigned without a selection or a domain.\<close>

definition proper_hosted :: "hosted_call \<Rightarrow> bool" where
  "proper_hosted c =
     (case c of
        Mailbox_call i v q \<Rightarrow> valid_mailbox_values v \<and> (i = None \<longrightarrow> mv_state v = None)
      | Batch_call p q \<Rightarrow> bp_domain p \<noteq> None \<and> bp_mode p \<noteq> None \<and>
          (case bp_names p of
             Local_parts parts \<Rightarrow> list_all (\<lambda>part. part \<noteq> [] \<and> trim part = part \<and> \<not> list_ex is_part_separator part) parts
           | Numbered prefix1 n start padding \<Rightarrow> filled prefix1 \<and> n \<noteq> None)
      | Delete_ids_call ids q \<Rightarrow> ids \<noteq> []
      | Delete_by_call criteria q \<Rightarrow> dc_domain criteria \<noteq> None
      | Assign_call u ids q \<Rightarrow> ids \<noteq> []
      | _ \<Rightarrow> True)"

definition busy_hosted :: "hosted_page \<Rightarrow> bool" where
  "busy_hosted s \<longleftrightarrow>
     busy_with saving_mailbox (hp_saving s) (hp_calls s) \<and> busy_with creating_batch (hp_creating s) (hp_calls s) \<and>
     busy_with deleting_mailboxes (hp_deleting s) (hp_calls s) \<and> busy_with assigning_mailboxes (hp_assigning s) (hp_calls s)"

definition hosted_inv :: "hosted_page \<Rightarrow> bool" where
  "hosted_inv s \<longleftrightarrow> busy_hosted s \<and> list_all proper_hosted (hp_calls s)"

lemma local_parts_proper: "list_all (\<lambda>part. part \<noteq> [] \<and> trim part = part \<and> \<not> list_ex is_part_separator part) (local_parts text)"
  by (auto simp: local_parts_def list_all_iff list_ex_iff dest!: set_trim dest: split_runs_pieces)

lemma batch_proper: "valid_batch_values v \<Longrightarrow> proper_hosted (Batch_call (batch_payload_of v) q)"
  by (auto simp: proper_hosted_def batch_payload_of_def valid_batch_values_def local_parts_proper)

lemma hosted_inv_frame:
  assumes "hosted_inv s" "hp_saving t = hp_saving s" "hp_creating t = hp_creating s" "hp_deleting t = hp_deleting s"
    "hp_assigning t = hp_assigning s" "hp_calls t = hp_calls s"
  shows "hosted_inv t"
  using assms by (simp add: hosted_inv_def busy_hosted_def)

lemma hosted_inv_intent: "hosted_inv s \<Longrightarrow> hosted_inv (intent_effect s)"
  by (erule hosted_inv_frame) simp_all

text \<open>The requests of each operation: begun by its first request, kept while it loads, ended by the load or a refusal.\<close>

lemmas busy_rules = busy_begin busy_end busy_next busy_flag

lemma hosted_inv_loaded:
  assumes "hosted_inv s" "Load_call q purpose \<in> set (hp_calls s)"
  shows "hosted_inv (on_loaded purpose a (end_hosted (Load_call q purpose) s))"
  using assms
  by (cases purpose)
    (auto simp: hosted_inv_def busy_hosted_def on_loaded_def end_saving_def end_hosted_def proper_remove1 intro: busy_end)

lemma hosted_inv_answered:
  assumes "hosted_inv s"
  shows "Mailbox_call i v q \<in> set (hp_calls s) \<Longrightarrow> hosted_inv (on_mailbox_saved q ok (end_hosted (Mailbox_call i v q) s))"
    "Batch_call p q \<in> set (hp_calls s) \<Longrightarrow> hosted_inv (on_batch_created q ok (end_hosted (Batch_call p q) s))"
    "Delete_ids_call ids q \<in> set (hp_calls s) \<Longrightarrow> hosted_inv (on_selected_deleted q ok (end_hosted (Delete_ids_call ids q) s))"
    "Delete_by_call c q \<in> set (hp_calls s) \<Longrightarrow> hosted_inv (on_batch_deleted q ok (end_hosted (Delete_by_call c q) s))"
    "Assign_call u ids q \<in> set (hp_calls s) \<Longrightarrow> hosted_inv (on_batch_assigned q ok (end_hosted (Assign_call u ids q) s))"
    "Delete_one_call k q \<in> set (hp_calls s) \<Longrightarrow> hosted_inv (on_single_deleted q ok (end_hosted (Delete_one_call k q) s))"
  using assms
  by (cases ok; auto simp: hosted_inv_def busy_hosted_def on_mailbox_saved_def on_batch_created_def on_selected_deleted_def
      on_batch_deleted_def on_batch_assigned_def on_single_deleted_def load_data_def push_hosted_def end_hosted_def proper_remove1
      proper_hosted_def intro: busy_end busy_next dest: busy_flag)+

lemma hosted_inv_submit:
  assumes "hosted_inv s"
  shows "\<not> hp_saving s \<Longrightarrow> hosted_inv (handle_mailbox_submit s)"
    "\<not> hp_creating s \<Longrightarrow> hosted_inv (handle_batch_create_submit s)"
    "\<not> hp_deleting s \<Longrightarrow> hosted_inv (handle_batch_delete_submit s)"
    "\<not> hp_assigning s \<Longrightarrow> hosted_inv (handle_batch_assign_submit s)"
    "\<not> hp_deleting s \<Longrightarrow> hosted_inv (handle_delete_selected s)"
    "hosted_inv (handle_single_delete k s)"
  using assms batch_proper
  by (auto simp: hosted_inv_def busy_hosted_def handle_mailbox_submit_def handle_batch_create_submit_def handle_batch_delete_submit_def
      handle_batch_assign_submit_def handle_delete_selected_def handle_single_delete_def push_hosted_def proper_hosted_def
      valid_mailbox_values_def split: option.split intro: busy_begin)

lemma hosted_inv_step: "hosted_inv s \<Longrightarrow> hosted_step listed s e t \<Longrightarrow> hosted_inv t"
proof -
  assume inv: "hosted_inv s" and step: "hosted_step listed s e t"
  from step show "hosted_inv t"
  proof cases
    case hosted_timer
    then show ?thesis using inv
      by (simp add: list_timer_def load_data_def push_hosted_def hosted_inv_def busy_hosted_def proper_hosted_def screen_query_def)
  next
    case mailbox_cancel
    then show ?thesis by (simp add: hosted_inv_intent hosted_inv_frame [OF inv])
  qed (simp_all add: hosted_inv_submit [OF inv] hosted_inv_answered [OF inv] hosted_inv_loaded [OF inv] hosted_inv_intent
      hosted_inv_frame [OF inv] change_filters_def open_mailbox_window_def open_batch_create_def open_batch_delete_def
      open_batch_assign_def)
qed

interpretation hosted_operations: machine_invariant hosted_start "hosted_step listed" hosted_inv
proof unfold_locales
  show "hosted_start s \<Longrightarrow> hosted_inv s" for s
    by (auto simp: hosted_start_def hosted0_def hosted_inv_def busy_hosted_def busy_with_def one_if_def)
qed (rule hosted_inv_step)

section \<open>Properties\<close>

text \<open>C24: Operations and requests of the page. The flag of each of the four kinds of operation - saving a mailbox, creating
  a batch, deleting the selected mailboxes or those of a domain, assigning - is set exactly while one operation of that kind
  is under way, its reload included, and there is never more than one; deleting a single mailbox has no flag and is not
  counted. A mailbox is saved with a domain and a local part that is not empty, a new one without a status. A batch is
  created with a domain and a mode, and either with a first name that is not empty and a count, or with local parts that are
  trimmed, not empty and free of separators - of which there may be none, as a text of separators only passes the form.
  Mailboxes are deleted or assigned by a selection that is not empty, or deleted by criteria that name a domain.\<close>

theorem hosted_requests_proper:
  assumes "reach hosted_start (hosted_step listed) s"
  shows "list_all proper_hosted (hp_calls s) \<and> busy_hosted s"
  using hosted_operations.inv_reach [OF assms] by (simp add: hosted_inv_def)

lemma intent_gone: "hosted_step listed s e t \<Longrightarrow> hp_intent s = None \<Longrightarrow> hp_intent t = None"
  by (erule hosted_step.cases)
    (auto simp: intent_effect_def change_filters_def list_timer_def open_mailbox_window_def open_batch_create_def open_batch_delete_def
      open_batch_assign_def handle_mailbox_submit_def handle_batch_create_submit_def handle_batch_delete_submit_def
      handle_batch_assign_submit_def handle_delete_selected_def handle_single_delete_def on_loaded_def on_mailbox_saved_def
      on_batch_created_def on_selected_deleted_def on_batch_deleted_def on_batch_assigned_def on_single_deleted_def hosted_ops
      split: option.splits)

lemma intent_gone_run: "run (hosted_step listed) s es t \<Longrightarrow> hp_intent s = None \<Longrightarrow> hp_intent t = None"
  by (induction rule: run.induct) (auto dest: intent_gone)

text \<open>
  An address that asks for the first mailbox of a domain opens the window for that domain, with the list filtered by it, as soon as
  the domain has been loaded and is active - and never again.
\<close>

theorem intent_opens_once:
  assumes "hosted_step listed s (Load_done c a) t" "hp_intent s = Some d" "\<not> hp_window s" "d \<in> set (hp_domains t)"
  shows "hp_window t \<and> hp_editing t = None \<and> mv_domain (hp_form t) = Some d \<and> mf_domain (hp_filters t) = Some d \<and>
         (\<forall>es u. run (hosted_step listed) t es u \<longrightarrow> hp_intent u = None)"
  using assms(1)
proof cases
  case (load_done q purpose)
  let ?u = "on_loaded purpose a (end_hosted c s)"
  have u: "hp_intent ?u = Some d" "\<not> hp_window ?u" using assms(2,3) by (simp_all add: on_loaded_def end_hosted_def)
  have "hp_domains t = hp_domains ?u" unfolding load_done
    by (simp add: intent_effect_def open_mailbox_window_def change_filters_def split: option.split)
  then have t: "t = (open_mailbox_window None (Some d) (change_filters ((hp_filters ?u)\<lparr>mf_domain := Some d\<rparr>) ?u))\<lparr>hp_intent := None\<rparr>"
    using load_done u assms(4) by (simp add: intent_effect_def)
  have "hp_intent t = None" by (simp add: t)
  then have "\<forall>es u. run (hosted_step listed) t es u \<longrightarrow> hp_intent u = None" by (blast intro: intent_gone_run)
  then show ?thesis by (simp add: t open_mailbox_window_def change_filters_def)
qed

text \<open>
  The selection outlives the filters: after a filter that lists no mailbox at all, the button still deletes the
  mailboxes selected before.
\<close>

theorem unlisted_mailboxes_deleted:
  assumes "hosted_front s" "hp_selected s \<noteq> []" "\<not> hp_deleting s" "f \<noteq> hp_filters s" "hp_intent s = None"
  shows "\<exists>t. run (hosted_step listed) s
            [Hosted_filtered f, Hosted_timer,
             Load_done (Load_call (mailbox_query_of f) For_list) \<lparr>la_domains = None, la_mailboxes = Some [], la_users = None, la_keys = None\<rparr>,
             Selected_deleted] t \<and>
           hp_rows t = [] \<and> Delete_ids_call (hp_selected s) (mailbox_query_of f) \<in> set (hp_calls t)"
proof -
  let ?a = "\<lparr>la_domains = None, la_mailboxes = Some [], la_users = None, la_keys = None\<rparr>" and ?c = "Load_call (mailbox_query_of f) For_list"
  let ?u = "change_filters f s"
  let ?v = "list_timer ?u"
  let ?w = "intent_effect (on_loaded For_list ?a (end_hosted ?c ?v))"
  have due: "hp_due ?u" using assms(4) by (simp add: change_filters_def)
  have call: "?c \<in> set (hp_calls ?v)" by (simp add: list_timer_def hosted_ops change_filters_def)
  have intent: "?w = on_loaded For_list ?a (end_hosted ?c ?v)"
    using assms(5) by (simp add: intent_effect_def on_loaded_def end_saving_def list_timer_def hosted_ops change_filters_def)
  have w: "hosted_front ?w" "hp_selected ?w = hp_selected s" "\<not> hp_deleting ?w" "hp_rows ?w = []" "screen_query ?w = mailbox_query_of f"
    using assms(1,3) unfolding intent
    by (simp_all add: on_loaded_def end_saving_def list_timer_def hosted_ops change_filters_def hosted_front_def or_empty_def)
  have "run (hosted_step listed) s [Hosted_filtered f, Hosted_timer, Load_done ?c ?a, Selected_deleted] (handle_delete_selected ?w)"
    using hosted_filter [OF assms(1), of listed f] hosted_timer [OF due, of listed]
      load_done [OF refl call, of listed ?a] selected_delete [OF w(1) _ w(3), of listed] assms(2) w(2)
    by (auto simp: or_empty_def)
  moreover have "hp_rows (handle_delete_selected ?w) = []"
    "Delete_ids_call (hp_selected s) (mailbox_query_of f) \<in> set (hp_calls (handle_delete_selected ?w))"
    using assms(2) w by (simp_all add: handle_delete_selected_def push_hosted_def)
  ultimately show ?thesis by blast
qed

section \<open>Examples\<close>

lemma trim_nothing: "trim [] = []"
  by (simp add: js_eval)

definition sample_mailbox :: mailbox_record where
  "sample_mailbox = \<lparr>mr_id = 7, mr_domain = 3, mr_local = js ''info'', mr_display = None, mr_state = Mailbox_active, mr_mode = MANUAL,
     mr_tag = None, mr_owner = None\<rparr>"

definition sample_answer :: load_answer where
  "sample_answer = \<lparr>la_domains = Some [\<lparr>hd_id = 3, hd_disabled = False\<rparr>], la_mailboxes = Some [sample_mailbox], la_users = None, la_keys = None\<rparr>"

definition hosted1 :: "nat option \<Rightarrow> hosted_page" where
  "hosted1 intent = list_timer (hosted0 intent)"

definition hosted2 :: "nat option \<Rightarrow> hosted_page" where
  "hosted2 intent = intent_effect (on_loaded For_list sample_answer (end_hosted (Load_call (None, None, None, None) For_list) (hosted1 intent)))"

lemma hosted_sample_steps:
  "hosted_step (\<lambda>q i. True) (hosted0 intent) Hosted_timer (hosted1 intent)"
  "hosted_step (\<lambda>q i. True) (hosted1 intent) (Load_done (Load_call (None, None, None, None) For_list) sample_answer) (hosted2 intent)"
  unfolding hosted1_def hosted2_def
  by (rule hosted_timer, simp add: hosted0_def)
    (rule load_done [OF refl]; simp add: list_timer_def hosted_ops hosted0_def mailbox_query_of_def no_filters_def
        trimmed_or_none_def trim_nothing list_all_iff)

lemma hosted_sample_reach:
  "reach hosted_start (hosted_step (\<lambda>q i. True)) (hosted1 intent)" "reach hosted_start (hosted_step (\<lambda>q i. True)) (hosted2 intent)"
proof -
  have "reach hosted_start (hosted_step (\<lambda>q i. True)) (hosted0 intent)" by (rule reach_start) (auto simp: hosted_start_def)
  then show one: "reach hosted_start (hosted_step (\<lambda>q i. True)) (hosted1 intent)"
    using hosted_sample_steps(1) by (rule reach_step [of _ _ "hosted0 intent" _ "hosted1 intent"])
  then show "reach hosted_start (hosted_step (\<lambda>q i. True)) (hosted2 intent)"
    using hosted_sample_steps(2) by (rule reach_step [of _ _ "hosted1 intent" _ "hosted2 intent"])
qed

lemma hosted_sample_eval:
  "hp_rows (hosted2 None) = [sample_mailbox]" "hosted_front (hosted2 None)" "\<not> hp_deleting (hosted2 None)" "hp_filters (hosted2 None) = no_filters"
  "hp_intent (hosted2 None) = None" "hp_calls (hosted2 None) = []" "\<not> hp_due (hosted2 None)" "hp_selected (hosted2 None) = []"
  "hp_intent (hosted1 (Some 3)) = Some 3" "\<not> hp_window (hosted1 (Some 3))" "hp_domains (hosted2 (Some 3)) = [3]"
  by (simp_all add: hosted1_def hosted2_def list_timer_def hosted_ops hosted0_def mailbox_query_of_def no_filters_def trimmed_or_none_def
      trim_nothing on_loaded_def end_saving_def sample_answer_def or_empty_def intent_effect_def hosted_front_def open_mailbox_window_def
      change_filters_def)

theorem mailboxes_of_filters_witness:
  "\<forall>r \<in> set (hp_rows (hosted2 None)). (\<lambda>q i. True) (screen_query (hosted2 None)) (mr_id r)"
proof (rule mailboxes_of_filters [where listed = "\<lambda>q i. True"])
  let ?step = "calm_step hosted_view hosted_fail (hosted_step (\<lambda>q i. True))"
  have view: "listing_calm (hosted_view (hosted1 None))" "listing_settled (hosted_view (hosted2 None))"
    by (simp_all add: listing_calm_def listing_settled_def hosted_view_def hosted_sample_eval List.map_filter_simps)
      (simp add: hosted1_def list_timer_def hosted_ops hosted0_def List.map_filter_simps)
  then show "listing_settled (hosted_view (hosted2 None))" by simp
  have "reach hosted_start ?step (hosted0 None)" by (rule reach_start) (auto simp: hosted_start_def)
  then have one: "reach hosted_start ?step (hosted1 None)"
    using calm_stepI [of "hosted_step (\<lambda>q i. True)", OF hosted_sample_steps(1)] view(1) by (metis hosted_fail_def reach_step)
  have "listing_calm (hosted_view (hosted2 None))" using view(2) by (simp add: listing_calm_def listing_settled_def)
  then show "reach hosted_start ?step (hosted2 None)"
    using one calm_stepI [of "hosted_step (\<lambda>q i. True)", OF hosted_sample_steps(2)] by (metis hosted_fail_def reach_step)
qed

theorem hosted_requests_proper_witness: "list_all proper_hosted (hp_calls (hosted1 None)) \<and> busy_hosted (hosted1 None)"
  by (rule hosted_requests_proper) (rule hosted_sample_reach)

theorem intent_opens_once_witness:
  "hp_window (hosted2 (Some 3)) \<and> mv_domain (hp_form (hosted2 (Some 3))) = Some 3"
  using intent_opens_once [OF hosted_sample_steps(2) hosted_sample_eval(9,10)] by (simp add: hosted_sample_eval)

theorem unlisted_mailboxes_deleted_witness:
  "\<exists>t. run (hosted_step (\<lambda>q i. True)) ((hosted2 None)\<lparr>hp_selected := [7]\<rparr>)
       [Hosted_filtered (no_filters\<lparr>mf_domain := Some 4\<rparr>), Hosted_timer,
        Load_done (Load_call (Some 4, None, None, None) For_list)
          \<lparr>la_domains = None, la_mailboxes = Some [], la_users = None, la_keys = None\<rparr>, Selected_deleted] t \<and>
     hp_rows t = [] \<and> Delete_ids_call [7] (Some 4, None, None, None) \<in> set (hp_calls t)"
proof -
  have query: "mailbox_query_of (no_filters\<lparr>mf_domain := Some 4\<rparr>) = (Some 4, None, None, None)"
    by (simp add: mailbox_query_of_def no_filters_def trimmed_or_none_def trim_nothing)
  have "no_filters\<lparr>mf_domain := Some 4\<rparr> \<noteq> no_filters" by (simp add: no_filters_def)
  then show ?thesis
    using unlisted_mailboxes_deleted [of "(hosted2 None)\<lparr>hp_selected := [7]\<rparr>" "no_filters\<lparr>mf_domain := Some 4\<rparr>" "\<lambda>q i. True"]
      hosted_sample_eval(2) unfolding query by (simp add: hosted_sample_eval hosted_front_def)
qed

end
