(* ===== verification/MailboxUsers.thy ===== *)
theory MailboxUsers
  imports JsObject Machine
begin

text \<open>
  The administrator's page of portal users (web/src/pages/mailbox-users/index.tsx): the list, the window that creates and
  edits a user with the mailboxes the user may open, the details an edit loads, and what is sent. The check of
  addresses belongs to the form library and is the parameter \<open>email_ok\<close>.
\<close>

section \<open>Data\<close>

record portal_user =
  pu_id :: nat
  pu_name :: jstr
  pu_email :: "jstr option"
  pu_active :: bool

record portal_user_detail =
  ud_email :: "jstr option"
  ud_active :: bool
  ud_mailboxes :: "nat list"

record user_form =
  uf_name :: "jstr option"
  uf_email :: "jstr option"
  uf_password :: "jstr option"
  uf_active :: "bool option"
  uf_mailboxes :: "nat list option"

record user_payload =
  up_name :: "jstr option"
  up_email :: "jstr option"
  up_password :: "jstr option"
  up_must_change :: bool
  up_active :: "bool option"
  up_mailboxes :: "nat list"

definition trimmed_or_unset :: "jstr option \<Rightarrow> jstr option" where
  "trimmed_or_unset value = (case value of None \<Rightarrow> None | Some v \<Rightarrow> if trim v = [] then None else Some (trim v))"

definition new_user_form :: user_form where
  "new_user_form =
     \<lparr>uf_name = None, uf_email = None, uf_password = None, uf_active = Some True, uf_mailboxes = Some []\<rparr>"

definition edit_user_form :: "portal_user \<Rightarrow> user_form" where
  "edit_user_form r =
     \<lparr>uf_name = None, uf_email = pu_email r, uf_password = None, uf_active = Some (pu_active r), uf_mailboxes = Some []\<rparr>"

definition detail_user_form :: "portal_user_detail \<Rightarrow> user_form \<Rightarrow> user_form" where
  "detail_user_form d f =
     f\<lparr>uf_email := ud_email d, uf_active := Some (ud_active d), uf_mailboxes := Some (ud_mailboxes d), uf_password := None\<rparr>"

definition user_payload_of :: "portal_user option \<Rightarrow> user_form \<Rightarrow> user_payload" where
  "user_payload_of editing v =
     \<lparr>up_name = (case editing of Some r \<Rightarrow> None | None \<Rightarrow> Some (case uf_name v of None \<Rightarrow> [] | Some n \<Rightarrow> trim n)),
      up_email = trimmed_or_unset (uf_email v), up_password = trimmed_or_unset (uf_password v),
      up_must_change = (editing \<noteq> None \<and> trimmed_or_unset (uf_password v) \<noteq> None), up_active = uf_active v,
      up_mailboxes = (case uf_mailboxes v of None \<Rightarrow> [] | Some ids \<Rightarrow> ids)\<rparr>"

section \<open>State\<close>

datatype users_call = Users_call bool | User_detail_call nat | User_save_call "nat option" user_payload | User_delete_call nat

record users_page =
  us_users :: "portal_user list"
  us_mailboxes :: "nat list"
  us_loading :: bool
  us_due :: bool
  us_saving :: bool
  us_detail_loading :: bool
  us_visible :: bool
  us_editing :: "portal_user option"
  us_form :: user_form
  us_calls :: "users_call list"

definition push_users :: "users_call \<Rightarrow> users_page \<Rightarrow> users_page" where
  "push_users c s = s\<lparr>us_calls := c # us_calls s\<rparr>"

definition end_users :: "users_call \<Rightarrow> users_page \<Rightarrow> users_page" where
  "end_users c s = s\<lparr>us_calls := remove1 c (us_calls s)\<rparr>"

text \<open>A load; the flag says that it ends a saving.\<close>

definition load_users :: "bool \<Rightarrow> users_page \<Rightarrow> users_page" where
  "load_users saving s = push_users (Users_call saving) (s\<lparr>us_loading := True\<rparr>)"

definition on_users :: "bool \<Rightarrow> portal_user list option \<Rightarrow> nat list option \<Rightarrow> users_page \<Rightarrow> users_page" where
  "on_users saving users mailboxes s =
     (let t = s\<lparr>us_users := (case users of None \<Rightarrow> us_users s | Some xs \<Rightarrow> xs),
           us_mailboxes := (case mailboxes of None \<Rightarrow> us_mailboxes s | Some xs \<Rightarrow> xs), us_loading := False\<rparr>
      in if saving then t\<lparr>us_saving := False\<rparr> else t)"

definition open_user_modal :: "portal_user option \<Rightarrow> users_page \<Rightarrow> users_page" where
  "open_user_modal record1 s =
     (case record1 of
        None \<Rightarrow> s\<lparr>us_editing := None, us_detail_loading := False, us_form := new_user_form, us_visible := True\<rparr>
      | Some r \<Rightarrow>
          push_users (User_detail_call (pu_id r))
            (s\<lparr>us_editing := Some r, us_detail_loading := True, us_form := edit_user_form r, us_visible := True\<rparr>))"

definition on_user_detail :: "portal_user_detail option \<Rightarrow> users_page \<Rightarrow> users_page" where
  "on_user_detail result s =
     (case result of None \<Rightarrow> s | Some d \<Rightarrow> s\<lparr>us_form := detail_user_form d (us_form s)\<rparr>)\<lparr>us_detail_loading := False\<rparr>"

text \<open>A new user needs a name and a password.\<close>

definition valid_user_form :: "(jstr \<Rightarrow> bool) \<Rightarrow> portal_user option \<Rightarrow> user_form \<Rightarrow> bool" where
  "valid_user_form email_ok editing v \<longleftrightarrow>
     (case uf_email v of None \<Rightarrow> True | Some e \<Rightarrow> e = [] \<or> email_ok e) \<and>
     (editing \<noteq> None \<or>
      (case uf_name v of None \<Rightarrow> False | Some n \<Rightarrow> n \<noteq> []) \<and> (case uf_password v of None \<Rightarrow> False | Some p \<Rightarrow> p \<noteq> []))"

definition handle_user_submit :: "(jstr \<Rightarrow> bool) \<Rightarrow> users_page \<Rightarrow> users_page" where
  "handle_user_submit email_ok s =
     (if \<not> valid_user_form email_ok (us_editing s) (us_form s) then s
      else push_users (User_save_call (map_option pu_id (us_editing s)) (user_payload_of (us_editing s) (us_form s)))
             (s\<lparr>us_saving := True\<rparr>))"

definition on_user_saved :: "bool \<Rightarrow> users_page \<Rightarrow> users_page" where
  "on_user_saved ok s = (if ok then load_users True (s\<lparr>us_visible := False\<rparr>) else s\<lparr>us_saving := False\<rparr>)"

definition on_user_deleted :: "bool \<Rightarrow> users_page \<Rightarrow> users_page" where
  "on_user_deleted ok s = (if ok then load_users False s else s)"

text \<open>The link that opens the portal with the name filled in; \<open>encoded\<close> is the encoding of query strings.\<close>

definition build_portal_login_url :: "(jstr \<Rightarrow> jstr) \<Rightarrow> jstr \<Rightarrow> portal_user \<Rightarrow> jstr" where
  "build_portal_login_url encoded base r = base @ js ''?username='' @ encoded (pu_name r)"

section \<open>The machine\<close>

datatype users_event =
    Users_timer | Users_language | User_opened "portal_user option" | User_cancelled | User_form_edited user_form | User_submitted
  | User_delete_clicked nat | Users_done users_call "portal_user list option" "nat list option"
  | User_detail_done users_call "portal_user_detail option" | User_save_done users_call bool | User_delete_done users_call bool

text \<open>The button that saves is busy while a user is saved or its details are loaded.\<close>

inductive users_step :: "(jstr \<Rightarrow> bool) \<Rightarrow> users_page \<Rightarrow> users_event \<Rightarrow> users_page \<Rightarrow> bool" for email_ok where
  users_timer: "us_due s \<Longrightarrow> users_step email_ok s Users_timer (load_users False (s\<lparr>us_due := False\<rparr>))"
| users_language: "users_step email_ok s Users_language (s\<lparr>us_due := True\<rparr>)"
| user_open: "\<not> us_visible s \<Longrightarrow> (case r of None \<Rightarrow> True | Some x \<Rightarrow> x \<in> set (us_users s)) \<Longrightarrow>
     users_step email_ok s (User_opened r) (open_user_modal r s)"
| user_cancel: "us_visible s \<Longrightarrow> users_step email_ok s User_cancelled (s\<lparr>us_visible := False\<rparr>)"
| user_form: "us_visible s \<Longrightarrow> users_step email_ok s (User_form_edited f) (s\<lparr>us_form := f\<rparr>)"
| user_submit: "us_visible s \<Longrightarrow> \<not> us_saving s \<Longrightarrow> \<not> us_detail_loading s \<Longrightarrow>
     users_step email_ok s User_submitted (handle_user_submit email_ok s)"
| user_delete: "\<not> us_visible s \<Longrightarrow> i \<in> set (map pu_id (us_users s)) \<Longrightarrow>
     users_step email_ok s (User_delete_clicked i) (push_users (User_delete_call i) s)"
| users_done: "c = Users_call saving \<Longrightarrow> c \<in> set (us_calls s) \<Longrightarrow>
     users_step email_ok s (Users_done c users mailboxes) (on_users saving users mailboxes (end_users c s))"
| user_detail_done: "c = User_detail_call i \<Longrightarrow> c \<in> set (us_calls s) \<Longrightarrow>
     users_step email_ok s (User_detail_done c detail) (on_user_detail detail (end_users c s))"
| user_save_done: "c = User_save_call i payload \<Longrightarrow> c \<in> set (us_calls s) \<Longrightarrow>
     users_step email_ok s (User_save_done c ok) (on_user_saved ok (end_users c s))"
| user_delete_done: "c = User_delete_call i \<Longrightarrow> c \<in> set (us_calls s) \<Longrightarrow>
     users_step email_ok s (User_delete_done c ok) (on_user_deleted ok (end_users c s))"

definition users0 :: users_page where
  "users0 = \<lparr>us_users = [], us_mailboxes = [], us_loading = True, us_due = True, us_saving = False, us_detail_loading = False,
     us_visible = False, us_editing = None, us_form = new_user_form, us_calls = []\<rparr>"

definition users_start :: "users_page \<Rightarrow> bool" where
  "users_start s \<longleftrightarrow> s = users0"

end
