(* ===== verification/MailboxUserTheorems.thy ===== *)
theory MailboxUserTheorems
  imports MailboxUsers
begin

text \<open>
  The page of portal users: one user is saved at a time with well-formed values, and an edit that changes nothing keeps
  the user's mailboxes once the details have come. When they cannot be loaded, or those of another user come
  late, saving takes the mailboxes away or gives those of the other user.
\<close>

section \<open>Invariant\<close>

fun saving_user :: "users_call \<Rightarrow> bool" where
  "saving_user (User_save_call i p) = True"
| "saving_user (Users_call saving) = saving"
| "saving_user c = False"

definition trimmed :: "jstr option \<Rightarrow> bool" where
  "trimmed value \<longleftrightarrow> (case value of None \<Rightarrow> True | Some v \<Rightarrow> v \<noteq> [] \<and> trim v = v)"

definition proper_user_call :: "users_call \<Rightarrow> bool" where
  "proper_user_call c =
     (case c of
        User_save_call i p \<Rightarrow>
          trimmed (up_email p) \<and> trimmed (up_password p) \<and> (up_name p = None \<longleftrightarrow> i \<noteq> None) \<and>
          (up_must_change p \<longleftrightarrow> i \<noteq> None \<and> up_password p \<noteq> None)
      | _ \<Rightarrow> True)"

definition users_inv :: "users_page \<Rightarrow> bool" where
  "users_inv s \<longleftrightarrow> busy_with saving_user (us_saving s) (us_calls s) \<and> list_all proper_user_call (us_calls s)"

lemma trimmed_value: "trimmed (trimmed_or_unset v)"
  by (auto simp: trimmed_def trimmed_or_unset_def split: option.split)

lemma payload_proper: "proper_user_call (User_save_call (map_option pu_id editing) (user_payload_of editing v))"
  by (auto simp: proper_user_call_def user_payload_of_def trimmed_value split: option.split)

lemma users_inv_frame:
  "users_inv s \<Longrightarrow> us_saving t = us_saving s \<Longrightarrow> us_calls t = us_calls s \<Longrightarrow> users_inv t"
  by (simp add: users_inv_def)

lemma users_inv_step: "users_inv s \<Longrightarrow> users_step email_ok s e t \<Longrightarrow> users_inv t"
proof -
  assume inv: "users_inv s" and step: "users_step email_ok s e t"
  from step show "users_inv t"
  proof cases
    case (user_open r)
    then show ?thesis using inv
      by (cases r) (simp_all add: open_user_modal_def users_inv_def push_users_def proper_user_call_def)
  next
    case user_submit
    then show ?thesis using inv
      by (auto simp: handle_user_submit_def users_inv_def push_users_def payload_proper intro: busy_begin)
  next
    case (users_done c saving users mailboxes)
    then show ?thesis using inv
      by (cases saving) (auto simp: on_users_def Let_def users_inv_def end_users_def proper_remove1 intro: busy_end)
  next
    case (user_detail_done c i detail)
    then show ?thesis using inv
      by (auto simp: on_user_detail_def users_inv_def end_users_def proper_remove1 split: option.split)
  next
    case (user_save_done c i payload ok)
    then show ?thesis using inv
      by (cases ok) (auto simp: on_user_saved_def load_users_def push_users_def end_users_def users_inv_def proper_remove1
          proper_user_call_def intro: busy_end busy_next dest: busy_flag)
  next
    case (user_delete_done c i ok)
    then show ?thesis using inv
      by (auto simp: on_user_deleted_def load_users_def push_users_def end_users_def users_inv_def proper_remove1 proper_user_call_def)
  qed (use inv in \<open>auto simp: load_users_def push_users_def users_inv_def proper_user_call_def\<close>)
qed

interpretation portal_users: machine_invariant users_start "users_step email_ok" users_inv
proof unfold_locales
  show "users_start s \<Longrightarrow> users_inv s" for s
    by (simp add: users_start_def users0_def users_inv_def busy_with_def one_if_def)
qed (rule users_inv_step)

section \<open>Properties\<close>

text \<open>
  One user is saved at a time. Texts are sent trimmed or not at all; a name is sent for new users only, and a password given to
  an existing user has to be changed at the next login.
\<close>

theorem user_requests_proper:
  assumes "reach users_start (users_step email_ok) s"
  shows "length (filter saving_user (us_calls s)) = (if us_saving s then 1 else 0) \<and> list_all proper_user_call (us_calls s)"
  using portal_users.inv_reach [OF assms] by (simp add: users_inv_def busy_with_def one_if_def)

lemma user_open_run:
  assumes "\<not> us_visible s" "r \<in> set (us_users s)" "\<not> us_saving s"
  defines "t \<equiv> open_user_modal (Some r) s"
  shows "users_step email_ok s (User_opened (Some r)) t" "us_visible t" "us_editing t = Some r" "\<not> us_saving t" "us_users t = us_users s"
    "User_detail_call (pu_id r) \<in> set (us_calls t)" "set (us_calls s) \<subseteq> set (us_calls t)" "us_form t = edit_user_form r"
  using user_open [OF assms(1), of "Some r" email_ok] assms by (auto simp: open_user_modal_def push_users_def)

lemma detail_submit_run:
  assumes "us_visible s" "us_editing s = Some r" "\<not> us_saving s" "User_detail_call i \<in> set (us_calls s)"
    "valid_user_form email_ok (Some r) (us_form (on_user_detail detail s))"
  shows "\<exists>t. run (users_step email_ok) s [User_detail_done (User_detail_call i) detail, User_submitted] t \<and>
           User_save_call (Some (pu_id r)) (user_payload_of (Some r) (us_form (on_user_detail detail s))) \<in> set (us_calls t)"
proof -
  let ?u = "on_user_detail detail (end_users (User_detail_call i) s)"
  have u: "us_visible ?u" "us_editing ?u = Some r" "\<not> us_saving ?u" "\<not> us_detail_loading ?u"
    "us_form ?u = us_form (on_user_detail detail s)"
    using assms(1-3) by (simp_all add: on_user_detail_def end_users_def split: option.split)
  have "run (users_step email_ok) s [User_detail_done (User_detail_call i) detail, User_submitted] (handle_user_submit email_ok ?u)"
    using user_detail_done [OF refl assms(4)] user_submit [OF u(1,3,4)] by (blast intro: run.intros)
  moreover have "User_save_call (Some (pu_id r)) (user_payload_of (Some r) (us_form ?u)) \<in> set (us_calls (handle_user_submit email_ok ?u))"
    using assms(5) u by (simp add: handle_user_submit_def push_users_def)
  ultimately show ?thesis using u(5) by auto
qed

text \<open>Saving a user unchanged keeps the address, the state and the mailboxes that the details have brought.\<close>

theorem edit_keeps_access:
  assumes "us_visible s" "us_editing s = Some r" "\<not> us_saving s" "User_detail_call (pu_id r) \<in> set (us_calls s)"
    "ud_email d = Some e" "email_ok e" "e \<noteq> []" "trim e = e"
  shows "\<exists>t p. run (users_step email_ok) s [User_detail_done (User_detail_call (pu_id r)) (Some d), User_submitted] t \<and>
           User_save_call (Some (pu_id r)) p \<in> set (us_calls t) \<and> up_email p = ud_email d \<and> up_active p = Some (ud_active d) \<and>
           up_mailboxes p = ud_mailboxes d \<and> up_password p = None \<and> \<not> up_must_change p"
proof -
  let ?f = "us_form (on_user_detail (Some d) s)"
  have f: "?f = detail_user_form d (us_form s)" by (simp add: on_user_detail_def)
  have "valid_user_form email_ok (Some r) ?f" using assms(5,6) by (simp add: f valid_user_form_def detail_user_form_def)
  moreover have "up_email (user_payload_of (Some r) ?f) = ud_email d" "up_active (user_payload_of (Some r) ?f) = Some (ud_active d)"
    "up_mailboxes (user_payload_of (Some r) ?f) = ud_mailboxes d" "up_password (user_payload_of (Some r) ?f) = None"
    "\<not> up_must_change (user_payload_of (Some r) ?f)"
    using assms(5,7,8) by (simp_all add: f user_payload_of_def detail_user_form_def trimmed_or_unset_def)
  ultimately show ?thesis using detail_submit_run [OF assms(1-4)] by blast
qed

text \<open>C19: When the details of a user cannot be loaded, the form shows no mailboxes, and saving it takes all of them away.\<close>

theorem failed_detail_revokes:
  assumes "\<not> us_visible s" "\<not> us_saving s" "r \<in> set (us_users s)" "case pu_email r of None \<Rightarrow> True | Some e \<Rightarrow> email_ok e"
  shows "\<exists>t p. run (users_step email_ok) s
             [User_opened (Some r), User_detail_done (User_detail_call (pu_id r)) None, User_submitted] t \<and>
           User_save_call (Some (pu_id r)) p \<in> set (us_calls t) \<and> up_mailboxes p = []"
proof -
  let ?u = "open_user_modal (Some r) s"
  note u = user_open_run [OF assms(1,3,2)]
  let ?f = "us_form (on_user_detail None ?u)"
  have f: "?f = edit_user_form r" using u(8) by (simp add: on_user_detail_def)
  have "valid_user_form email_ok (Some r) ?f"
    using assms(4) by (auto simp: f valid_user_form_def edit_user_form_def split: option.splits)
  moreover have "up_mailboxes (user_payload_of (Some r) ?f) = []" by (simp add: f user_payload_of_def edit_user_form_def)
  ultimately show ?thesis using detail_submit_run [OF u(2,3,4,6), of email_ok None] u(1) by (auto intro: run.intros)
qed

text \<open>C20: 
  The details of a user whose window has been closed still fill the form of the user opened next: saving it gives that
  user the mailboxes of the other one.
\<close>

theorem late_detail_gives_access:
  assumes "\<not> us_visible s" "\<not> us_saving s" "a \<in> set (us_users s)" "b \<in> set (us_users s)" "pu_id a \<noteq> pu_id b"
    "ud_email da = Some e" "email_ok e"
  shows "\<exists>t p. run (users_step email_ok) s
             [User_opened (Some a), User_cancelled, User_opened (Some b), User_detail_done (User_detail_call (pu_id b)) (Some db),
              User_detail_done (User_detail_call (pu_id a)) (Some da), User_submitted] t \<and>
           User_save_call (Some (pu_id b)) p \<in> set (us_calls t) \<and> up_mailboxes p = ud_mailboxes da"
proof -
  note u = user_open_run [OF assms(1,3,2)]
  let ?v = "(open_user_modal (Some a) s)\<lparr>us_visible := False\<rparr>"
  have "\<not> us_visible ?v" "b \<in> set (us_users ?v)" "\<not> us_saving ?v" using u assms(4) by simp_all
  note w = user_open_run [OF this]
  let ?w = "open_user_modal (Some b) ?v"
  let ?x = "on_user_detail (Some db) (end_users (User_detail_call (pu_id b)) ?w)"
  have x: "us_visible ?x" "us_editing ?x = Some b" "\<not> us_saving ?x" "us_calls ?x = remove1 (User_detail_call (pu_id b)) (us_calls ?w)"
    using w by (simp_all add: on_user_detail_def end_users_def)
  have "User_detail_call (pu_id a) \<in> set (us_calls ?w)" using w(7) u(6) by auto
  then have pending: "User_detail_call (pu_id a) \<in> set (us_calls ?x)" using x(4) assms(5) by (simp add: in_set_remove1)
  let ?f = "us_form (on_user_detail (Some da) ?x)"
  have f: "?f = detail_user_form da (us_form ?x)" by (simp add: on_user_detail_def)
  have "valid_user_form email_ok (Some b) ?f" using assms(6,7) by (simp add: f valid_user_form_def detail_user_form_def)
  from detail_submit_run [OF x(1-3) pending this] obtain t where
    t: "run (users_step email_ok) ?x [User_detail_done (User_detail_call (pu_id a)) (Some da), User_submitted] t"
      "User_save_call (Some (pu_id b)) (user_payload_of (Some b) ?f) \<in> set (us_calls t)" by blast
  have steps: "users_step email_ok (open_user_modal (Some a) s) User_cancelled ?v"
    "users_step email_ok ?w (User_detail_done (User_detail_call (pu_id b)) (Some db)) ?x"
    using user_cancel [OF u(2)] user_detail_done [OF refl w(6)] by simp_all
  have "run (users_step email_ok) s
      [User_opened (Some a), User_cancelled, User_opened (Some b), User_detail_done (User_detail_call (pu_id b)) (Some db)] ?x"
    using u(1) steps w(1) by (blast intro: run.intros)
  from run_append [OF this t(1)]
  have "run (users_step email_ok) s
      [User_opened (Some a), User_cancelled, User_opened (Some b), User_detail_done (User_detail_call (pu_id b)) (Some db),
       User_detail_done (User_detail_call (pu_id a)) (Some da), User_submitted] t" by simp
  moreover have "up_mailboxes (user_payload_of (Some b) ?f) = ud_mailboxes da"
    by (simp add: f user_payload_of_def detail_user_form_def)
  ultimately show ?thesis using t(2) by blast
qed

section \<open>Examples\<close>

definition sample_user :: "nat \<Rightarrow> portal_user" where
  "sample_user i = \<lparr>pu_id = i, pu_name = js ''eve'', pu_email = Some (js ''e@x''), pu_active = True\<rparr>"

definition sample_user_detail :: portal_user_detail where
  "sample_user_detail = \<lparr>ud_email = Some (js ''e@x''), ud_active = True, ud_mailboxes = [7, 9]\<rparr>"

definition users_shown :: users_page where
  "users_shown = users0\<lparr>us_users := [sample_user 4, sample_user 5], us_due := False, us_loading := False\<rparr>"

theorem user_requests_proper_witness:
  "length (filter saving_user (us_calls (load_users False (users0\<lparr>us_due := False\<rparr>)))) = 0"
proof -
  have "reach users_start (users_step (\<lambda>e. True)) users0" by (rule reach_start) (simp add: users_start_def)
  then have "reach users_start (users_step (\<lambda>e. True)) (load_users False (users0\<lparr>us_due := False\<rparr>))"
    by (rule reach_step [of _ _ users0]) (rule users_timer, simp add: users0_def)
  from user_requests_proper [OF this] show ?thesis by (simp add: load_users_def push_users_def users0_def)
qed

theorem edit_keeps_access_witness:
  "\<exists>t p. run (users_step (\<lambda>e. True)) (open_user_modal (Some (sample_user 4)) users_shown)
      [User_detail_done (User_detail_call 4) (Some sample_user_detail), User_submitted] t \<and>
     User_save_call (Some 4) p \<in> set (us_calls t) \<and> up_mailboxes p = [7, 9]"
proof -
  have "js ''e@x'' \<noteq> []" "trim (js ''e@x'') = js ''e@x''" "pu_id (sample_user 4) = 4" by (simp_all add: js_eval sample_user_def)
  then show ?thesis
    using edit_keeps_access [of "open_user_modal (Some (sample_user 4)) users_shown" "sample_user 4" sample_user_detail "js ''e@x''" "\<lambda>e. True"]
    by (auto simp: open_user_modal_def push_users_def users_shown_def users0_def sample_user_detail_def)
qed

theorem failed_detail_revokes_witness:
  "\<exists>t p. run (users_step (\<lambda>e. True)) users_shown
      [User_opened (Some (sample_user 4)), User_detail_done (User_detail_call 4) None, User_submitted] t \<and>
     User_save_call (Some 4) p \<in> set (us_calls t) \<and> up_mailboxes p = []"
  using failed_detail_revokes [of users_shown "sample_user 4" "\<lambda>e. True"] by (simp add: users_shown_def users0_def sample_user_def)

theorem late_detail_gives_access_witness:
  "\<exists>t p. run (users_step (\<lambda>e. True)) users_shown
      [User_opened (Some (sample_user 4)), User_cancelled, User_opened (Some (sample_user 5)),
       User_detail_done (User_detail_call 5) (Some (sample_user_detail\<lparr>ud_mailboxes := [1]\<rparr>)),
       User_detail_done (User_detail_call 4) (Some sample_user_detail), User_submitted] t \<and>
     User_save_call (Some 5) p \<in> set (us_calls t) \<and> up_mailboxes p = [7, 9]"
  using late_detail_gives_access [of users_shown "sample_user 4" "sample_user 5" sample_user_detail "js ''e@x''" "\<lambda>e. True"
      "sample_user_detail\<lparr>ud_mailboxes := [1]\<rparr>"]
  by (simp add: users_shown_def users0_def sample_user_def sample_user_detail_def)

end
