(* ===== verification/ForwardingJobs.thy ===== *)
theory ForwardingJobs
  imports JsObject Listing
begin

text \<open>
  The administrator's page of forwarding jobs (web/src/pages/forwarding-jobs/index.tsx): the list with its filters and
  pages, the drawer with the details of a job, and the requests that put a job back into the queue. The handlers are the
  ones of the rendering in which a request was started, so a request carries the values they captured.
\<close>

section \<open>Data\<close>

datatype job_state = Job_pending | Job_running | Job_sent | Job_failed | Job_skipped

datatype job_mode = Job_copy | Job_move

record job_row =
  jb_id :: jstr
  jb_status :: job_state

record job_query =
  jq_page :: nat
  jq_size :: nat
  jq_status :: "job_state option"
  jq_mode :: "job_mode option"
  jq_domain :: "nat option"
  jq_mailbox :: "nat option"
  jq_keyword :: "jstr option"

record job_answer =
  ja_rows :: "job_row list"
  ja_total :: nat
  ja_page :: nat
  ja_size :: nat

definition job_status_options :: "job_state list" where
  "job_status_options = [Job_pending, Job_running, Job_sent, Job_failed, Job_skipped]"

definition job_mode_options :: "job_mode list" where
  "job_mode_options = [Job_copy, Job_move]"

fun get_job_status_color :: "job_state \<Rightarrow> jstr" where
  "get_job_status_color Job_pending = js ''blue''"
| "get_job_status_color Job_running = js ''processing''"
| "get_job_status_color Job_sent = js ''success''"
| "get_job_status_color Job_failed = js ''error''"
| "get_job_status_color Job_skipped = js ''default''"

definition get_job_mode_color :: "job_mode \<Rightarrow> jstr" where
  "get_job_mode_color m = (if m = Job_copy then js ''purple'' else js ''geekblue'')"

text \<open>Only jobs that failed or were skipped have the button.\<close>

definition requeueable :: "job_row \<Rightarrow> bool" where
  "requeueable r \<longleftrightarrow> jb_status r = Job_failed \<or> jb_status r = Job_skipped"

section \<open>State\<close>

text \<open>What a load of the list is part of: nothing else, or a requeueing, which may go on to the details of the job.\<close>

datatype jobs_purpose = For_list | After_requeue jstr bool

datatype jobs_call =
  Jobs_options_call | Jobs_call job_query jobs_purpose | Job_detail_call jstr bool | Requeue_call jstr job_query bool

record jobs_page =
  fj_screen :: job_query
  fj_input :: jstr
  fj_jobs :: "job_row list"
  fj_total :: nat
  fj_loading :: bool
  fj_due :: bool
  fj_options_due :: bool
  fj_domains :: "nat list"
  fj_mailboxes :: "nat list"
  fj_detail :: "jstr option"
  fj_detail_loading :: bool
  fj_drawer :: bool
  fj_requeueing :: "jstr option"
  fj_calls :: "jobs_call list"

definition push_jobs :: "jobs_call \<Rightarrow> jobs_page \<Rightarrow> jobs_page" where
  "push_jobs c s = s\<lparr>fj_calls := c # fj_calls s\<rparr>"

definition end_jobs :: "jobs_call \<Rightarrow> jobs_page \<Rightarrow> jobs_page" where
  "end_jobs c s = s\<lparr>fj_calls := remove1 c (fj_calls s)\<rparr>"

text \<open>A changed parameter of the list makes a new \<open>loadJobs\<close>, and so runs the effect that loads it.\<close>

definition set_query :: "job_query \<Rightarrow> jobs_page \<Rightarrow> jobs_page" where
  "set_query q s = s\<lparr>fj_screen := q, fj_due := (fj_due s \<or> q \<noteq> fj_screen s)\<rparr>"

definition choose_job_status :: "job_state option \<Rightarrow> jobs_page \<Rightarrow> jobs_page" where
  "choose_job_status v s = set_query ((fj_screen s)\<lparr>jq_status := v, jq_page := 1\<rparr>) s"

definition choose_job_mode :: "job_mode option \<Rightarrow> jobs_page \<Rightarrow> jobs_page" where
  "choose_job_mode v s = set_query ((fj_screen s)\<lparr>jq_mode := v, jq_page := 1\<rparr>) s"

definition choose_job_domain :: "nat option \<Rightarrow> jobs_page \<Rightarrow> jobs_page" where
  "choose_job_domain v s = set_query ((fj_screen s)\<lparr>jq_domain := v, jq_page := 1\<rparr>) s"

definition choose_job_mailbox :: "nat option \<Rightarrow> jobs_page \<Rightarrow> jobs_page" where
  "choose_job_mailbox v s = set_query ((fj_screen s)\<lparr>jq_mailbox := v, jq_page := 1\<rparr>) s"

definition search_keyword :: "jstr \<Rightarrow> jobs_page \<Rightarrow> jobs_page" where
  "search_keyword value s =
     set_query ((fj_screen s)\<lparr>jq_keyword := (if trim value = [] then None else Some (trim value)), jq_page := 1\<rparr>)
       (s\<lparr>fj_input := value\<rparr>)"

definition change_jobs_page :: "nat \<Rightarrow> nat \<Rightarrow> jobs_page \<Rightarrow> jobs_page" where
  "change_jobs_page page n s = set_query ((fj_screen s)\<lparr>jq_page := page, jq_size := n\<rparr>) s"

section \<open>Requests\<close>

definition on_job_options :: "nat list option \<Rightarrow> nat list option \<Rightarrow> jobs_page \<Rightarrow> jobs_page" where
  "on_job_options domains mailboxes s =
     s\<lparr>fj_domains := (case domains of None \<Rightarrow> [] | Some xs \<Rightarrow> xs), fj_mailboxes := (case mailboxes of None \<Rightarrow> [] | Some xs \<Rightarrow> xs)\<rparr>"

definition load_jobs :: "job_query \<Rightarrow> jobs_purpose \<Rightarrow> jobs_page \<Rightarrow> jobs_page" where
  "load_jobs q purpose s = push_jobs (Jobs_call q purpose) (s\<lparr>fj_loading := True\<rparr>)"

definition open_job_detail :: "jstr \<Rightarrow> bool \<Rightarrow> jobs_page \<Rightarrow> jobs_page" where
  "open_job_detail i requeued s = push_jobs (Job_detail_call i requeued) (s\<lparr>fj_detail_loading := True\<rparr>)"

text \<open>The page and its size are set to those of the answer.\<close>

definition show_jobs :: "job_answer option \<Rightarrow> jobs_page \<Rightarrow> jobs_page" where
  "show_jobs result s =
     (case result of
        None \<Rightarrow> s
      | Some a \<Rightarrow> set_query ((fj_screen s)\<lparr>jq_page := ja_page a, jq_size := ja_size a\<rparr>) (s\<lparr>fj_jobs := ja_rows a, fj_total := ja_total a\<rparr>))
     \<lparr>fj_loading := False\<rparr>"

definition on_jobs :: "jobs_purpose \<Rightarrow> job_answer option \<Rightarrow> jobs_page \<Rightarrow> jobs_page" where
  "on_jobs purpose result s =
     (let t = show_jobs result s in
      case purpose of
        For_list \<Rightarrow> t
      | After_requeue i reopen \<Rightarrow> (if reopen then open_job_detail i True t else t\<lparr>fj_requeueing := None\<rparr>))"

definition on_job_detail :: "jstr \<Rightarrow> bool \<Rightarrow> bool \<Rightarrow> jobs_page \<Rightarrow> jobs_page" where
  "on_job_detail i requeued ok s =
     (let t = (if ok then s\<lparr>fj_detail := Some i, fj_drawer := True\<rparr> else s)\<lparr>fj_detail_loading := False\<rparr>
      in if requeued then t\<lparr>fj_requeueing := None\<rparr> else t)"

definition handle_requeue :: "jstr \<Rightarrow> jobs_page \<Rightarrow> jobs_page" where
  "handle_requeue i s =
     push_jobs (Requeue_call i (fj_screen s) (fj_drawer s \<and> fj_detail s = Some i)) (s\<lparr>fj_requeueing := Some i\<rparr>)"

definition on_requeued :: "jstr \<Rightarrow> job_query \<Rightarrow> bool \<Rightarrow> bool \<Rightarrow> jobs_page \<Rightarrow> jobs_page" where
  "on_requeued i q reopen ok s = (if ok then load_jobs q (After_requeue i reopen) s else s\<lparr>fj_requeueing := None\<rparr>)"

definition close_drawer :: "jobs_page \<Rightarrow> jobs_page" where
  "close_drawer s = s\<lparr>fj_drawer := False, fj_detail := None\<rparr>"

section \<open>The machine\<close>

datatype jobs_event =
    Jobs_timer | Jobs_options_timer | Jobs_language | Status_chosen "job_state option" | Mode_chosen "job_mode option"
  | Job_domain_chosen "nat option" | Job_mailbox_chosen "nat option" | Job_keyword_typed jstr | Job_keyword_searched jstr
  | Jobs_refreshed | Jobs_page_changed nat nat | Job_opened jstr | Drawer_closed | Requeue_clicked jstr
  | Job_options_done jobs_call "nat list option" "nat list option" | Jobs_done jobs_call "job_answer option"
  | Job_detail_done jobs_call bool | Requeue_done jobs_call bool

text \<open>
  The table is covered while the page is loading, with its pages, links and buttons; the filters are not. Rows of an answer
  are those \<open>holds\<close> allows for what was asked, and the server names the page it was asked for
  (core/internal/businessapi/forwarding_job_store.go) - only the theorems that need it say so.
\<close>

inductive jobs_step :: "(job_query \<Rightarrow> jstr \<Rightarrow> bool) \<Rightarrow> jobs_page \<Rightarrow> jobs_event \<Rightarrow> jobs_page \<Rightarrow> bool" for holds where
  jobs_timer: "fj_due s \<Longrightarrow> jobs_step holds s Jobs_timer (load_jobs (fj_screen s) For_list (s\<lparr>fj_due := False\<rparr>))"
| options_timer: "fj_options_due s \<Longrightarrow>
     jobs_step holds s Jobs_options_timer (push_jobs Jobs_options_call (s\<lparr>fj_options_due := False\<rparr>))"
| jobs_language: "jobs_step holds s Jobs_language (s\<lparr>fj_due := True, fj_options_due := True\<rparr>)"
| status_chosen: "jobs_step holds s (Status_chosen st) (choose_job_status st s)"
| mode_chosen: "jobs_step holds s (Mode_chosen m) (choose_job_mode m s)"
| job_domain_chosen: "(case d of None \<Rightarrow> True | Some i \<Rightarrow> i \<in> set (fj_domains s)) \<Longrightarrow>
     jobs_step holds s (Job_domain_chosen d) (choose_job_domain d s)"
| job_mailbox_chosen: "(case d of None \<Rightarrow> True | Some i \<Rightarrow> i \<in> set (fj_mailboxes s)) \<Longrightarrow>
     jobs_step holds s (Job_mailbox_chosen d) (choose_job_mailbox d s)"
| job_keyword_typed: "jobs_step holds s (Job_keyword_typed value) (s\<lparr>fj_input := value\<rparr>)"
| job_keyword_searched: "jobs_step holds s (Job_keyword_searched value) (search_keyword value s)"
| jobs_refreshed: "jobs_step holds s Jobs_refreshed (load_jobs (fj_screen s) For_list s)"
| jobs_page_changed: "\<not> fj_loading s \<Longrightarrow> jobs_step holds s (Jobs_page_changed page n) (change_jobs_page page n s)"
| job_opened: "\<not> fj_loading s \<Longrightarrow> i \<in> set (map jb_id (fj_jobs s)) \<Longrightarrow> jobs_step holds s (Job_opened i) (open_job_detail i False s)"
| drawer_closed: "fj_drawer s \<Longrightarrow> jobs_step holds s Drawer_closed (close_drawer s)"
| requeue_clicked: "r \<in> set (fj_jobs s) \<Longrightarrow> requeueable r \<Longrightarrow> i = jb_id r \<Longrightarrow> fj_requeueing s \<noteq> Some i \<Longrightarrow>
     jobs_step holds s (Requeue_clicked i) (handle_requeue i s)"
| job_options_done: "c = Jobs_options_call \<Longrightarrow> c \<in> set (fj_calls s) \<Longrightarrow>
     jobs_step holds s (Job_options_done c domains mailboxes) (on_job_options domains mailboxes (end_jobs c s))"
| jobs_done: "c = Jobs_call q purpose \<Longrightarrow> c \<in> set (fj_calls s) \<Longrightarrow>
     (case result of None \<Rightarrow> True | Some a \<Rightarrow> list_all (\<lambda>r. holds q (jb_id r)) (ja_rows a)) \<Longrightarrow>
     jobs_step holds s (Jobs_done c result) (on_jobs purpose result (end_jobs c s))"
| job_detail_done: "c = Job_detail_call i requeued \<Longrightarrow> c \<in> set (fj_calls s) \<Longrightarrow>
     jobs_step holds s (Job_detail_done c ok) (on_job_detail i requeued ok (end_jobs c s))"
| requeue_done: "c = Requeue_call i q reopen \<Longrightarrow> c \<in> set (fj_calls s) \<Longrightarrow>
     jobs_step holds s (Requeue_done c ok) (on_requeued i q reopen ok (end_jobs c s))"

definition first_query :: job_query where
  "first_query = \<lparr>jq_page = 1, jq_size = 20, jq_status = None, jq_mode = None, jq_domain = None, jq_mailbox = None, jq_keyword = None\<rparr>"

definition jobs0 :: jobs_page where
  "jobs0 = \<lparr>fj_screen = first_query, fj_input = [], fj_jobs = [], fj_total = 0, fj_loading = False, fj_due = True,
     fj_options_due = True, fj_domains = [], fj_mailboxes = [], fj_detail = None, fj_detail_loading = False, fj_drawer = False,
     fj_requeueing = None, fj_calls = []\<rparr>"

definition jobs_start :: "jobs_page \<Rightarrow> bool" where
  "jobs_start s \<longleftrightarrow> s = jobs0"

end
