(* ===== verification/ForwardingJobTheorems.thy ===== *)
theory ForwardingJobTheorems
  imports ForwardingJobs
begin

text \<open>
  The page of forwarding jobs: what is listed fits the filters once nothing is pending. Because every answer also sets the
  page, two loads for different pages never come to rest: each answer turns the page and starts the next load.
\<close>

section \<open>The list\<close>

definition jobs_query :: "jobs_call \<Rightarrow> job_query option" where
  "jobs_query c = (case c of Jobs_call q purpose \<Rightarrow> Some q | _ \<Rightarrow> None)"

definition forwarding_view :: "jobs_page \<Rightarrow> (job_query, jstr) listing" where
  "forwarding_view s =
     \<lparr>ls_par = fj_screen s, ls_due = fj_due s, ls_loads = List.map_filter jobs_query (fj_calls s), ls_rows = map jb_id (fj_jobs s)\<rparr>"

definition jobs_fail :: "jobs_event \<Rightarrow> bool" where
  "jobs_fail e \<longleftrightarrow> (\<exists>c. e = Jobs_done c None)"

lemma jobs_query_simps [simp]:
  "jobs_query (Jobs_call q purpose) = Some q" "jobs_query Jobs_options_call = None" "jobs_query (Job_detail_call i b) = None"
  "jobs_query (Requeue_call i q b) = None"
  by (simp_all add: jobs_query_def)

lemmas jobs_ops = push_jobs_def end_jobs_def set_query_def

lemma jobs_same:
  assumes "fj_screen t = fj_screen s" "fj_due t = fj_due s" "fj_jobs t = fj_jobs s"
    "List.map_filter jobs_query (fj_calls t) = List.map_filter jobs_query (fj_calls s)"
  shows "listing_step holds ok (forwarding_view s) (forwarding_view t)"
  by (rule listing_same) (simp add: assms forwarding_view_def)

lemma jobs_load: "listing_step holds ok v (forwarding_view (load_jobs q purpose s))"
  by (rule listing_step.loading) (simp add: forwarding_view_def load_jobs_def push_jobs_def List.map_filter_simps)

lemma jobs_changed:
  assumes "fj_jobs u = fj_jobs s" "fj_calls u = fj_calls s" "fj_screen u = fj_screen s" "fj_due u = fj_due s"
  shows "listing_step holds ok (forwarding_view s) (forwarding_view (set_query q u))"
proof (cases "q = fj_screen u")
  case True
  then show ?thesis using assms by (intro jobs_same) (simp_all add: set_query_def)
next
  case False
  then show ?thesis by (intro listing_step.change) (simp add: forwarding_view_def set_query_def)
qed

text \<open>An answer either turns the page, and a load is due, or leaves the filters as they are.\<close>

lemma jobs_shown:
  assumes "Jobs_call q purpose \<in> set (fj_calls s)" "list_all (\<lambda>r. holds q (jb_id r)) (ja_rows a)"
  shows "listing_step holds ok (forwarding_view s) (forwarding_view (show_jobs (Some a) (end_jobs (Jobs_call q purpose) s)))"
proof (cases "(fj_screen s)\<lparr>jq_page := ja_page a, jq_size := ja_size a\<rparr> = fj_screen s")
  case True
  show ?thesis
  proof (rule listing_step.answered [of q])
    show "q \<in> set (ls_loads (forwarding_view s))"
      using assms(1) by (auto simp: forwarding_view_def intro: map_filter_mem [of "Jobs_call q purpose"])
  qed (use assms(2) True in \<open>simp_all add: forwarding_view_def show_jobs_def jobs_ops list_all_iff\<close>)
next
  case False
  then show ?thesis by (intro listing_step.change) (simp add: forwarding_view_def show_jobs_def jobs_ops)
qed

lemma forwarding_view_on_jobs: "forwarding_view (on_jobs purpose result s) = forwarding_view (show_jobs result s)"
  by (cases purpose)
    (simp_all add: on_jobs_def Let_def open_job_detail_def push_jobs_def forwarding_view_def List.map_filter_simps)

lemma forwarding_view_step:
  assumes "jobs_step holds s e t"
  shows "listing_step holds (\<not> jobs_fail e) (forwarding_view s) (forwarding_view t)"
  using assms
proof cases
  case jobs_language
  then show ?thesis by (intro listing_step.change) (simp add: forwarding_view_def)
next
  case options_timer
  then show ?thesis by (intro jobs_same) (simp_all add: push_jobs_def List.map_filter_simps)
next
  case (job_opened i)
  then show ?thesis by (intro jobs_same) (simp_all add: open_job_detail_def push_jobs_def List.map_filter_simps)
next
  case (requeue_clicked r i)
  then show ?thesis by (intro jobs_same) (simp_all add: handle_requeue_def push_jobs_def List.map_filter_simps)
next
  case (jobs_done c q purpose result)
  then show ?thesis
    by (cases result) (auto simp: forwarding_view_on_jobs jobs_shown jobs_fail_def intro: listing_step.failed)
next
  case (requeue_done c i q reopen ok)
  then show ?thesis
    by (cases ok) (auto simp: on_requeued_def jobs_load end_jobs_def map_filter_remove1_None intro!: jobs_same)
next
  case (job_options_done c d mb)
  then show ?thesis by (intro jobs_same) (simp_all add: on_job_options_def end_jobs_def map_filter_remove1_None)
next
  case (job_detail_done c i b ok)
  then show ?thesis by (intro jobs_same) (auto simp: on_job_detail_def Let_def end_jobs_def map_filter_remove1_None)
qed (simp_all add: jobs_load jobs_same close_drawer_def choose_job_status_def choose_job_mode_def choose_job_domain_def choose_job_mailbox_def
    search_keyword_def change_jobs_page_def jobs_changed)

interpretation jobs_list: listing jobs_start "jobs_step holds" forwarding_view jobs_fail holds
proof unfold_locales
  show "jobs_start s \<Longrightarrow> listing_fresh holds (forwarding_view s)" for s
    by (intro fresh_empty) (auto simp: jobs_start_def jobs0_def forwarding_view_def List.map_filter_simps)
qed (rule forwarding_view_step)

text \<open>
  When nothing is pending, the jobs listed are those of the filters and the page on the screen, unless a load has failed or one for
  other filters was still under way at some time.
\<close>

theorem jobs_of_filters:
  assumes "reach jobs_start (calm_step forwarding_view jobs_fail (jobs_step holds)) s" "listing_settled (forwarding_view s)"
  shows "\<forall>r \<in> set (fj_jobs s). holds (fj_screen s) (jb_id r)"
  using jobs_list.settled_rows [OF assms] by (auto simp: forwarding_view_def list_all_iff)

section \<open>Two pages\<close>

definition answer_for :: "job_query \<Rightarrow> job_row list \<Rightarrow> nat \<Rightarrow> job_answer" where
  "answer_for q rows n = \<lparr>ja_rows = rows, ja_total = n, ja_page = jq_page q, ja_size = jq_size q\<rparr>"

text \<open>One turn: the load for another page than the one on the screen is answered, and the page it names is loaded again.\<close>

definition turned :: "job_query \<Rightarrow> job_row list \<Rightarrow> nat \<Rightarrow> jobs_page \<Rightarrow> jobs_page" where
  "turned q rows n s = load_jobs (fj_screen s \<lparr>jq_page := jq_page q, jq_size := jq_size q\<rparr>) For_list
     ((on_jobs For_list (Some (answer_for q rows n)) (end_jobs (Jobs_call q For_list) s))\<lparr>fj_due := False\<rparr>)"

lemma turn_run:
  assumes "Jobs_call q For_list \<in> set (fj_calls s)" "jq_page q \<noteq> jq_page (fj_screen s)" "list_all (\<lambda>r. holds q (jb_id r)) rows"
  shows "run (jobs_step holds) s [Jobs_done (Jobs_call q For_list) (Some (answer_for q rows n)), Jobs_timer] (turned q rows n s)"
proof -
  let ?t = "on_jobs For_list (Some (answer_for q rows n)) (end_jobs (Jobs_call q For_list) s)"
  have screen: "fj_screen ?t = fj_screen s \<lparr>jq_page := jq_page q, jq_size := jq_size q\<rparr>"
    by (simp add: on_jobs_def show_jobs_def jobs_ops answer_for_def)
  have "fj_screen s \<lparr>jq_page := jq_page q, jq_size := jq_size q\<rparr> \<noteq> fj_screen s"
  proof
    assume "fj_screen s \<lparr>jq_page := jq_page q, jq_size := jq_size q\<rparr> = fj_screen s"
    from arg_cong [OF this, of jq_page] show False using assms(2) by simp
  qed
  then have "fj_due ?t" by (simp add: on_jobs_def show_jobs_def jobs_ops answer_for_def)
  from jobs_timer [OF this, of holds] have "jobs_step holds ?t Jobs_timer (turned q rows n s)" by (simp add: turned_def screen)
  moreover have "jobs_step holds s (Jobs_done (Jobs_call q For_list) (Some (answer_for q rows n))) ?t"
    using assms(1,3) by (intro jobs_done [OF refl]) (simp_all add: answer_for_def)
  ultimately show ?thesis by (blast intro: run.intros)
qed

lemma turned_eq:
  "turned q rows n s =
     s\<lparr>fj_screen := fj_screen s \<lparr>jq_page := jq_page q, jq_size := jq_size q\<rparr>, fj_jobs := rows, fj_total := n, fj_loading := True,
       fj_due := False,
       fj_calls := Jobs_call (fj_screen s \<lparr>jq_page := jq_page q, jq_size := jq_size q\<rparr>) For_list # remove1 (Jobs_call q For_list) (fj_calls s)\<rparr>"
  by (simp add: turned_def load_jobs_def push_jobs_def on_jobs_def show_jobs_def jobs_ops answer_for_def)

lemma two_turns:
  fixes m n
  assumes "fj_screen s = p" "fj_calls s = [Jobs_call p For_list, Jobs_call q For_list]" "jq_page p \<noteq> jq_page q"
    "q = p\<lparr>jq_page := jq_page q, jq_size := jq_size q\<rparr>"
    "list_all (\<lambda>r. holds q (jb_id r)) qs" "list_all (\<lambda>r. holds p (jb_id r)) ps"
  defines "turns \<equiv> [Jobs_done (Jobs_call q For_list) (Some (answer_for q qs m)), Jobs_timer,
      Jobs_done (Jobs_call p For_list) (Some (answer_for p ps n)), Jobs_timer]"
    and "rest \<equiv> s\<lparr>fj_jobs := ps, fj_total := n, fj_loading := True, fj_due := False\<rparr>"
  shows "run (jobs_step holds) s turns rest"
proof -
  let ?t = "turned q qs m s"
  have t: "fj_screen ?t = q" "fj_calls ?t = [Jobs_call q For_list, Jobs_call p For_list]"
    using assms(1-4) by (auto simp: turned_eq)
  have "run (jobs_step holds) s [Jobs_done (Jobs_call q For_list) (Some (answer_for q qs m)), Jobs_timer] ?t"
    using assms(1-3,5) by (intro turn_run) simp_all
  moreover have "run (jobs_step holds) ?t [Jobs_done (Jobs_call p For_list) (Some (answer_for p ps n)), Jobs_timer] (turned p ps n ?t)"
    using assms(3,6) t by (intro turn_run) auto
  moreover have "turned p ps n ?t = rest"
  proof -
    have "q\<lparr>jq_page := jq_page p, jq_size := jq_size p\<rparr> = p" by (subst assms(4)) simp
    moreover have "p \<noteq> q" using assms(3) by auto
    ultimately show ?thesis using t assms(1,2,4) by (simp add: turned_eq [of p] rest_def) (simp add: turned_eq)
  qed
  ultimately show ?thesis unfolding turns_def using run_append by fastforce
qed

lemma run_replicate: "run step s es s \<Longrightarrow> run step s (concat (replicate n es)) s"
  by (induction n) (auto intro: run_append)

text \<open>An answer for the screen leaves it as it is.\<close>

lemma own_answer:
  assumes "Jobs_call q For_list \<in> set (fj_calls s)" "q = fj_screen s" "list_all (\<lambda>r. holds q (jb_id r)) rows"
  shows "jobs_step holds s (Jobs_done (Jobs_call q For_list) (Some (answer_for q rows n)))
    (s\<lparr>fj_jobs := rows, fj_total := n, fj_loading := False, fj_calls := remove1 (Jobs_call q For_list) (fj_calls s)\<rparr>)"
proof -
  have "on_jobs For_list (Some (answer_for q rows n)) (end_jobs (Jobs_call q For_list) s) =
      s\<lparr>fj_jobs := rows, fj_total := n, fj_loading := False, fj_calls := remove1 (Jobs_call q For_list) (fj_calls s)\<rparr>"
    by (simp add: on_jobs_def show_jobs_def jobs_ops answer_for_def assms(2))
  then show ?thesis using jobs_done [OF refl assms(1), where result = "Some (answer_for q rows n)" and holds = holds] assms(3) by (simp add: answer_for_def)
qed

text \<open>C21: 
  A filter chosen on another page than the first, while that page is loading, sets two loads for different pages against each
  other, and the order of their answers, each naming the page it was asked for, decides what follows. There is an order - each
  load is answered just after the next one has been started - in which the page turns back and forth and loads again as long as
  one likes, although nobody touches it any more. There is also one - the newer load is answered first - in which it comes to
  rest, on the old page of the new filter.
\<close>

theorem pages_fight:
  assumes "fj_calls s = [Jobs_call (fj_screen s) For_list]" "\<not> fj_due s" "jq_page (fj_screen s) \<noteq> 1" "st \<noteq> jq_status (fj_screen s)"
    "\<forall>q. holds q (jb_id r)"
  shows "(\<exists>es t turns. run (jobs_step holds) s (Status_chosen st # es) t \<and> turns \<noteq> [] \<and>
           list_all (\<lambda>e. e = Jobs_timer \<or> (\<exists>q. e = Jobs_done (Jobs_call q For_list) (Some (answer_for q [r] 1)))) (es @ turns) \<and>
           (\<forall>n. run (jobs_step holds) t (concat (replicate n turns)) t)) \<and>
         (\<exists>es t. run (jobs_step holds) s (Status_chosen st # es) t \<and>
           list_all (\<lambda>e. e = Jobs_timer \<or> (\<exists>q. e = Jobs_done (Jobs_call q For_list) (Some (answer_for q [r] 1)))) es \<and>
           fj_calls t = [] \<and> \<not> fj_due t \<and> jq_status (fj_screen t) = st \<and> jq_page (fj_screen t) = jq_page (fj_screen s))"
proof -
  let ?q = "fj_screen s"
  let ?p = "?q\<lparr>jq_status := st, jq_page := 1\<rparr>"
  let ?p2 = "?q\<lparr>jq_status := st\<rparr>"
  let ?a = "\<lambda>q. Jobs_done (Jobs_call q For_list) (Some (answer_for q [r] 1))"
  let ?s1 = "choose_job_status st s"
  let ?s2 = "load_jobs (fj_screen ?s1) For_list (?s1\<lparr>fj_due := False\<rparr>)"
  have changed: "?p \<noteq> ?q"
  proof
    assume "?p = ?q"
    from arg_cong [OF this, of jq_page] show False using assms(3) by simp
  qed
  have s1: "fj_screen ?s1 = ?p" "fj_due ?s1" "fj_calls ?s1 = [Jobs_call ?q For_list]"
    using assms(1) changed by (simp_all add: choose_job_status_def set_query_def)
  have s2: "fj_screen ?s2 = ?p" "fj_calls ?s2 = [Jobs_call ?p For_list, Jobs_call ?q For_list]" "\<not> fj_due ?s2"
    using s1 by (simp_all add: load_jobs_def push_jobs_def)
  have start: "run (jobs_step holds) s [Status_chosen st, Jobs_timer] ?s2"
    using status_chosen [of holds s st] jobs_timer [OF s1(2), of holds] by (blast intro: run.intros)
  let ?s3 = "turned ?q [r] 1 ?s2"
  have turn: "run (jobs_step holds) ?s2 [?a ?q, Jobs_timer] ?s3"
    using s2 assms(3,5) by (intro turn_run) simp_all
  have s3: "fj_screen ?s3 = ?p2" "fj_calls ?s3 = [Jobs_call ?p2 For_list, Jobs_call ?p For_list]"
    using s2 changed by (simp_all add: turned_eq)
  let ?t = "?s3\<lparr>fj_jobs := [r], fj_total := 1, fj_loading := True, fj_due := False\<rparr>"
  have t: "?t = ?s3" by (simp add: turned_eq)
  have cycle: "run (jobs_step holds) ?s3 [?a ?p, Jobs_timer, ?a ?p2, Jobs_timer] ?s3"
  proof -
    have "jq_page ?p2 \<noteq> jq_page ?p" using assms(3) by simp
    moreover have "?p = ?p2\<lparr>jq_page := jq_page ?p, jq_size := jq_size ?p\<rparr>" by simp
    moreover have "list_all (\<lambda>r. holds ?p (jb_id r)) [r]" "list_all (\<lambda>r. holds ?p2 (jb_id r)) [r]" using assms(5) by simp_all
    ultimately show ?thesis by (rule two_turns [OF s3, where m = 1 and n = 1 and qs = "[r]" and ps = "[r]", unfolded t])
  qed
  have "run (jobs_step holds) s [Status_chosen st, Jobs_timer, ?a ?q, Jobs_timer] ?s3"
    using run_append [OF start turn] by simp
  moreover have "\<forall>n. run (jobs_step holds) ?s3 (concat (replicate n [?a ?p, Jobs_timer, ?a ?p2, Jobs_timer])) ?s3"
    using run_replicate [OF cycle] by blast
  ultimately have endless: "\<exists>es t turns. run (jobs_step holds) s (Status_chosen st # es) t \<and> turns \<noteq> [] \<and>
       list_all (\<lambda>e. e = Jobs_timer \<or> (\<exists>q. e = Jobs_done (Jobs_call q For_list) (Some (answer_for q [r] 1)))) (es @ turns) \<and>
       (\<forall>n. run (jobs_step holds) t (concat (replicate n turns)) t)"
    by - (rule exI [of _ "[Jobs_timer, ?a ?q, Jobs_timer]"], rule exI [of _ ?s3],
        rule exI [of _ "[?a ?p, Jobs_timer, ?a ?p2, Jobs_timer]"], intro conjI, assumption, simp_all del: run_Cons_iff One_nat_def)
  let ?n1 = "?s2\<lparr>fj_jobs := [r], fj_total := 1, fj_loading := False, fj_calls := remove1 (Jobs_call ?p For_list) (fj_calls ?s2)\<rparr>"
  have "jobs_step holds ?s2 (?a ?p) ?n1"
    by (rule own_answer) (use s2 assms(5) in simp_all)
  then have n1: "run (jobs_step holds) ?s2 [?a ?p] ?n1" by (blast intro: run.intros)
  let ?n2 = "turned ?q [r] 1 ?n1"
  have n2: "run (jobs_step holds) ?n1 [?a ?q, Jobs_timer] ?n2"
    using s2 assms(3,5) changed by (intro turn_run) simp_all
  have n2_state: "fj_screen ?n2 = ?p2" "fj_calls ?n2 = [Jobs_call ?p2 For_list]" "\<not> fj_due ?n2"
    using s2 changed by (simp_all add: turned_eq)
  let ?n3 = "?n2\<lparr>fj_jobs := [r], fj_total := 1, fj_loading := False, fj_calls := remove1 (Jobs_call ?p2 For_list) (fj_calls ?n2)\<rparr>"
  have "jobs_step holds ?n2 (?a ?p2) ?n3"
    by (rule own_answer) (use n2_state assms(5) in simp_all)
  then have n3: "run (jobs_step holds) ?n2 [?a ?p2] ?n3" by (blast intro: run.intros)
  have "run (jobs_step holds) s ([Status_chosen st, Jobs_timer] @ [?a ?p] @ [?a ?q, Jobs_timer] @ [?a ?p2]) ?n3"
    by (rule run_append [OF start run_append [OF n1 run_append [OF n2 n3]]])
  moreover have "fj_calls ?n3 = []" "\<not> fj_due ?n3" "jq_status (fj_screen ?n3) = st" "jq_page (fj_screen ?n3) = jq_page ?q"
    using n2_state by simp_all
  ultimately have rests: "\<exists>es t. run (jobs_step holds) s (Status_chosen st # es) t \<and>
       list_all (\<lambda>e. e = Jobs_timer \<or> (\<exists>q. e = Jobs_done (Jobs_call q For_list) (Some (answer_for q [r] 1)))) es \<and>
       fj_calls t = [] \<and> \<not> fj_due t \<and> jq_status (fj_screen t) = st \<and> jq_page (fj_screen t) = jq_page (fj_screen s)"
    by - (rule exI [of _ "[Jobs_timer] @ [?a ?p] @ [?a ?q, Jobs_timer] @ [?a ?p2]"], rule exI [of _ ?n3],
        simp del: run_Cons_iff One_nat_def)
  from endless rests show ?thesis by (rule conjI)
qed

section \<open>Examples\<close>

definition sample_job :: "nat \<Rightarrow> job_row" where
  "sample_job n = \<lparr>jb_id = replicate n 55, jb_status = Job_failed\<rparr>"

definition second_page :: jobs_page where
  "second_page = jobs0\<lparr>fj_screen := first_query\<lparr>jq_page := 2\<rparr>, fj_due := False, fj_jobs := [sample_job 3],
     fj_calls := [Jobs_call (first_query\<lparr>jq_page := 2\<rparr>) For_list], fj_loading := True\<rparr>"

theorem pages_fight_witness:
  "(\<exists>es t turns. run (jobs_step (\<lambda>q i. True)) second_page (Status_chosen (Some Job_failed) # es) t \<and> turns \<noteq> [] \<and>
     list_all (\<lambda>e. e = Jobs_timer \<or> (\<exists>q. e = Jobs_done (Jobs_call q For_list) (Some (answer_for q [sample_job 3] 1)))) (es @ turns) \<and>
     (\<forall>n. run (jobs_step (\<lambda>q i. True)) t (concat (replicate n turns)) t)) \<and>
   (\<exists>es t. run (jobs_step (\<lambda>q i. True)) second_page (Status_chosen (Some Job_failed) # es) t \<and>
     list_all (\<lambda>e. e = Jobs_timer \<or> (\<exists>q. e = Jobs_done (Jobs_call q For_list) (Some (answer_for q [sample_job 3] 1)))) es \<and>
     fj_calls t = [] \<and> \<not> fj_due t \<and> jq_status (fj_screen t) = Some Job_failed \<and> jq_page (fj_screen t) = jq_page (fj_screen second_page))"
  by (rule pages_fight) (simp_all add: second_page_def first_query_def jobs0_def)

theorem jobs_of_filters_witness:
  "\<exists>s. reach jobs_start (calm_step forwarding_view jobs_fail (jobs_step (\<lambda>q i. length i = jq_page q))) s \<and> fj_jobs s = [sample_job 1] \<and>
     (\<forall>r \<in> set (fj_jobs s). length (jb_id r) = jq_page (fj_screen s))"
proof -
  let ?step = "calm_step forwarding_view jobs_fail (jobs_step (\<lambda>q i. length i = jq_page q))"
  let ?s1 = "load_jobs first_query For_list (jobs0\<lparr>fj_due := False\<rparr>)"
  let ?c = "Jobs_call first_query For_list"
  let ?a = "answer_for first_query [sample_job 1] 1"
  let ?s2 = "on_jobs For_list (Some ?a) (end_jobs ?c ?s1)"
  have s2: "fj_jobs ?s2 = [sample_job 1]" "fj_calls ?s2 = []" "fj_screen ?s2 = first_query" "\<not> fj_due ?s2"
    by (simp_all add: on_jobs_def show_jobs_def jobs_ops answer_for_def load_jobs_def jobs0_def first_query_def)
  have "?step jobs0 Jobs_timer ?s1"
    using jobs_timer [of jobs0]
    by (intro calm_stepI) (simp_all add: jobs0_def jobs_fail_def forwarding_view_def listing_calm_def load_jobs_def push_jobs_def
        List.map_filter_simps)
  moreover have "?step ?s1 (Jobs_done ?c (Some ?a)) ?s2"
  proof (rule calm_stepI)
    show "jobs_step (\<lambda>q i. length i = jq_page q) ?s1 (Jobs_done ?c (Some ?a)) ?s2"
      by (rule jobs_done [OF refl]) (simp_all add: load_jobs_def push_jobs_def answer_for_def sample_job_def first_query_def)
    show "listing_calm (forwarding_view ?s2)" using s2 by (simp add: listing_calm_def forwarding_view_def List.map_filter_simps)
  qed (simp add: jobs_fail_def)
  moreover have "jobs_start jobs0" by (simp add: jobs_start_def)
  ultimately have r: "reach jobs_start ?step ?s2" by (meson reach_start reach_step)
  have "listing_settled (forwarding_view ?s2)" using s2 by (simp add: listing_settled_def forwarding_view_def List.map_filter_simps)
  from jobs_of_filters [OF r this] r s2(1) show ?thesis by blast
qed

end
