(* ===== verification/OperationLogs.thy ===== *)
theory OperationLogs
  imports JsObject Listing
begin

text \<open>
  The administrator's page of API calls (web/src/pages/operation-logs/index.tsx): the list with its filter and pages,
  the selection, and the deletion of one entry or of the selected ones.
\<close>

section \<open>State\<close>

record log_query =
  lq_page :: nat
  lq_size :: nat
  lq_action :: "jstr option"

text \<open>What a load of the list ends: nothing, the deletion of an entry, or that of the selected ones.\<close>

datatype logs_purpose = Logs_shown | Log_deleted | Logs_deleted

datatype logs_call = Logs_call log_query logs_purpose | Log_delete_call nat log_query | Logs_delete_call "nat list" log_query

record logs_page =
  lg_screen :: log_query
  lg_rows :: "nat list"
  lg_count :: nat
  lg_loading :: bool
  lg_due :: bool
  lg_selected :: "nat list"
  lg_deleting_one :: "nat option"
  lg_deleting :: bool
  lg_calls :: "logs_call list"

definition push_logs :: "logs_call \<Rightarrow> logs_page \<Rightarrow> logs_page" where
  "push_logs c s = s\<lparr>lg_calls := c # lg_calls s\<rparr>"

definition end_logs :: "logs_call \<Rightarrow> logs_page \<Rightarrow> logs_page" where
  "end_logs c s = s\<lparr>lg_calls := remove1 c (lg_calls s)\<rparr>"

definition set_log_query :: "log_query \<Rightarrow> logs_page \<Rightarrow> logs_page" where
  "set_log_query q s = s\<lparr>lg_screen := q, lg_due := (lg_due s \<or> q \<noteq> lg_screen s)\<rparr>"

definition choose_action :: "jstr option \<Rightarrow> logs_page \<Rightarrow> logs_page" where
  "choose_action a s = set_log_query ((lg_screen s)\<lparr>lq_action := a\<rparr>) s"

definition turn_log_page :: "nat \<Rightarrow> nat \<Rightarrow> logs_page \<Rightarrow> logs_page" where
  "turn_log_page p n s = set_log_query ((lg_screen s)\<lparr>lq_page := p, lq_size := n\<rparr>) s"

section \<open>Requests\<close>

definition fetch_logs :: "log_query \<Rightarrow> logs_purpose \<Rightarrow> logs_page \<Rightarrow> logs_page" where
  "fetch_logs q purpose s = push_logs (Logs_call q purpose) (s\<lparr>lg_loading := True\<rparr>)"

definition on_logs :: "logs_purpose \<Rightarrow> (nat list \<times> nat) option \<Rightarrow> logs_page \<Rightarrow> logs_page" where
  "on_logs purpose result s =
     (let t = (case result of None \<Rightarrow> s | Some (rows, n) \<Rightarrow> s\<lparr>lg_rows := rows, lg_count := n\<rparr>)\<lparr>lg_loading := False\<rparr> in
      case purpose of
        Logs_shown \<Rightarrow> t
      | Log_deleted \<Rightarrow> t\<lparr>lg_deleting_one := None\<rparr>
      | Logs_deleted \<Rightarrow> t\<lparr>lg_deleting := False\<rparr>)"

definition handle_log_delete :: "nat \<Rightarrow> logs_page \<Rightarrow> logs_page" where
  "handle_log_delete i s = push_logs (Log_delete_call i (lg_screen s)) (s\<lparr>lg_deleting_one := Some i\<rparr>)"

text \<open>The answer is \<open>Some deleted\<close>; only an entry that was deleted leaves the selection.\<close>

definition on_log_deleted :: "nat \<Rightarrow> log_query \<Rightarrow> bool option \<Rightarrow> logs_page \<Rightarrow> logs_page" where
  "on_log_deleted i q result s =
     (if result = Some True then fetch_logs q Log_deleted (s\<lparr>lg_selected := filter (\<lambda>j. j \<noteq> i) (lg_selected s)\<rparr>)
      else s\<lparr>lg_deleting_one := None\<rparr>)"

definition handle_logs_delete :: "logs_page \<Rightarrow> logs_page" where
  "handle_logs_delete s =
     (if lg_selected s = [] then s else push_logs (Logs_delete_call (lg_selected s) (lg_screen s)) (s\<lparr>lg_deleting := True\<rparr>))"

definition on_logs_deleted :: "log_query \<Rightarrow> bool \<Rightarrow> logs_page \<Rightarrow> logs_page" where
  "on_logs_deleted q ok s = (if ok then fetch_logs q Logs_deleted (s\<lparr>lg_selected := []\<rparr>) else s\<lparr>lg_deleting := False\<rparr>)"

section \<open>The machine\<close>

datatype logs_event =
    Logs_timer | Logs_language | Log_action_chosen "jstr option" | Logs_page_changed nat nat | Logs_refreshed
  | Logs_selected "nat list" | Log_delete_clicked nat | Logs_delete_clicked | Logs_done logs_call "(nat list \<times> nat) option"
  | Log_delete_done logs_call "bool option" | Logs_delete_done logs_call bool

text \<open>
  \<open>holds q i\<close>: the server lists entry \<open>i\<close> for \<open>q\<close>. The table selects rows that it shows, or keeps ones that were
  selected; a button that is busy cannot be pressed. The question of a deletion stays open while the table is covered.
\<close>

inductive logs_step :: "(log_query \<Rightarrow> nat \<Rightarrow> bool) \<Rightarrow> logs_page \<Rightarrow> logs_event \<Rightarrow> logs_page \<Rightarrow> bool" for holds where
  logs_timer: "lg_due s \<Longrightarrow> logs_step holds s Logs_timer (fetch_logs (lg_screen s) Logs_shown (s\<lparr>lg_due := False\<rparr>))"
| logs_language: "logs_step holds s Logs_language (s\<lparr>lg_due := True\<rparr>)"
| log_action_chosen: "logs_step holds s (Log_action_chosen a) (choose_action a s)"
| logs_page_changed: "\<not> lg_loading s \<Longrightarrow> logs_step holds s (Logs_page_changed p n) (turn_log_page p n s)"
| logs_refreshed: "logs_step holds s Logs_refreshed (fetch_logs (lg_screen s) Logs_shown s)"
| logs_selected: "\<not> lg_loading s \<Longrightarrow> set ids \<subseteq> set (lg_selected s) \<union> set (lg_rows s) \<Longrightarrow>
     logs_step holds s (Logs_selected ids) (s\<lparr>lg_selected := ids\<rparr>)"
| log_delete_clicked: "i \<in> set (lg_rows s) \<Longrightarrow> lg_deleting_one s \<noteq> Some i \<Longrightarrow>
     logs_step holds s (Log_delete_clicked i) (handle_log_delete i s)"
| logs_delete_clicked: "lg_selected s \<noteq> [] \<Longrightarrow> \<not> lg_deleting s \<Longrightarrow> logs_step holds s Logs_delete_clicked (handle_logs_delete s)"
| logs_done: "c = Logs_call q purpose \<Longrightarrow> c \<in> set (lg_calls s) \<Longrightarrow>
     (case result of None \<Rightarrow> True | Some (rows, n) \<Rightarrow> list_all (holds q) rows) \<Longrightarrow>
     logs_step holds s (Logs_done c result) (on_logs purpose result (end_logs c s))"
| log_delete_done: "c = Log_delete_call i q \<Longrightarrow> c \<in> set (lg_calls s) \<Longrightarrow>
     logs_step holds s (Log_delete_done c result) (on_log_deleted i q result (end_logs c s))"
| logs_delete_done: "c = Logs_delete_call ids q \<Longrightarrow> c \<in> set (lg_calls s) \<Longrightarrow>
     logs_step holds s (Logs_delete_done c ok) (on_logs_deleted q ok (end_logs c s))"

definition logs0 :: logs_page where
  "logs0 = \<lparr>lg_screen = \<lparr>lq_page = 1, lq_size = 20, lq_action = None\<rparr>, lg_rows = [], lg_count = 0, lg_loading = False, lg_due = True,
     lg_selected = [], lg_deleting_one = None, lg_deleting = False, lg_calls = []\<rparr>"

definition logs_start :: "logs_page \<Rightarrow> bool" where
  "logs_start s \<longleftrightarrow> s = logs0"

section \<open>The list\<close>

definition logs_query :: "logs_call \<Rightarrow> log_query option" where
  "logs_query c = (case c of Logs_call q purpose \<Rightarrow> Some q | _ \<Rightarrow> None)"

definition logs_view :: "logs_page \<Rightarrow> (log_query, nat) listing" where
  "logs_view s =
     \<lparr>ls_par = lg_screen s, ls_due = lg_due s, ls_loads = List.map_filter logs_query (lg_calls s), ls_rows = lg_rows s\<rparr>"

definition logs_fail :: "logs_event \<Rightarrow> bool" where
  "logs_fail e \<longleftrightarrow> (\<exists>c. e = Logs_done c None)"

lemma logs_query_simps [simp]:
  "logs_query (Logs_call q purpose) = Some q" "logs_query (Log_delete_call i q) = None" "logs_query (Logs_delete_call ids q) = None"
  by (simp_all add: logs_query_def)

lemmas logs_ops = push_logs_def end_logs_def set_log_query_def

lemma logs_same:
  assumes "lg_screen t = lg_screen s" "lg_due t = lg_due s" "lg_rows t = lg_rows s"
    "List.map_filter logs_query (lg_calls t) = List.map_filter logs_query (lg_calls s)"
  shows "listing_step holds ok (logs_view s) (logs_view t)"
  by (rule listing_same) (simp add: assms logs_view_def)

lemma logs_load: "listing_step holds ok v (logs_view (fetch_logs q purpose s))"
  by (rule listing_step.loading) (simp add: logs_view_def fetch_logs_def push_logs_def List.map_filter_simps)

lemma logs_changed: "listing_step holds ok (logs_view s) (logs_view (set_log_query q s))"
proof (cases "q = lg_screen s")
  case True
  then show ?thesis by (intro logs_same) (simp_all add: set_log_query_def)
next
  case False
  then show ?thesis by (intro listing_step.change) (simp add: logs_view_def set_log_query_def)
qed

lemma on_logs_frame [simp]:
  "lg_screen (on_logs purpose result s) = lg_screen s" "lg_due (on_logs purpose result s) = lg_due s"
  "lg_calls (on_logs purpose result s) = lg_calls s" "lg_selected (on_logs purpose result s) = lg_selected s"
  "lg_rows (on_logs purpose (Some (rows, n)) s) = rows"
  by (auto simp: on_logs_def Let_def split: option.split logs_purpose.split)

lemma logs_view_step:
  assumes "logs_step holds s e t"
  shows "listing_step holds (\<not> logs_fail e) (logs_view s) (logs_view t)"
  using assms
proof cases
  case logs_language
  then show ?thesis by (intro listing_step.change) (simp add: logs_view_def)
next
  case (log_delete_clicked i)
  then show ?thesis by (intro logs_same) (simp_all add: handle_log_delete_def push_logs_def List.map_filter_simps)
next
  case logs_delete_clicked
  then show ?thesis by (intro logs_same) (simp_all add: handle_logs_delete_def push_logs_def List.map_filter_simps)
next
  case (logs_done c q purpose result)
  show ?thesis
  proof (cases result)
    case None
    then show ?thesis using logs_done by (intro listing_step.failed) (auto simp: logs_fail_def)
  next
    case (Some a)
    have "q \<in> set (ls_loads (logs_view s))" using logs_done by (auto simp: logs_view_def intro: map_filter_mem [of c])
    then show ?thesis using logs_done Some
      by (intro listing_step.answered [of q]) (auto simp: logs_view_def end_logs_def split: prod.splits)
  qed
next
  case (log_delete_done c i q result)
  then show ?thesis
    by (cases "result = Some True") (auto simp: on_log_deleted_def logs_load end_logs_def map_filter_remove1_None intro!: logs_same)
next
  case (logs_delete_done c ids q ok)
  then show ?thesis
    by (cases ok) (auto simp: on_logs_deleted_def logs_load end_logs_def map_filter_remove1_None intro!: logs_same)
qed (simp_all add: logs_load logs_same choose_action_def turn_log_page_def logs_changed)

interpretation logs_list: listing logs_start "logs_step holds" logs_view logs_fail holds
proof unfold_locales
  show "logs_start s \<Longrightarrow> listing_fresh holds (logs_view s)" for s
    by (intro fresh_empty) (auto simp: logs_start_def logs0_def logs_view_def List.map_filter_simps)
qed (rule logs_view_step)

section \<open>Deletions\<close>

fun deleting_logs :: "logs_call \<Rightarrow> bool" where
  "deleting_logs (Logs_delete_call ids q) = True"
| "deleting_logs (Logs_call q Logs_deleted) = True"
| "deleting_logs c = False"

definition proper_logs :: "logs_call \<Rightarrow> bool" where
  "proper_logs c = (case c of Logs_delete_call ids q \<Rightarrow> ids \<noteq> [] | _ \<Rightarrow> True)"

definition logs_inv :: "logs_page \<Rightarrow> bool" where
  "logs_inv s \<longleftrightarrow> busy_with deleting_logs (lg_deleting s) (lg_calls s) \<and> list_all proper_logs (lg_calls s)"

lemma logs_inv_step: "logs_inv s \<Longrightarrow> logs_step holds s e t \<Longrightarrow> logs_inv t"
proof -
  assume inv: "logs_inv s" and step: "logs_step holds s e t"
  from step show "logs_inv t"
  proof cases
    case (logs_done c q purpose result)
    then show ?thesis using inv
      by (cases purpose)
        (auto simp: logs_inv_def on_logs_def Let_def end_logs_def proper_remove1 intro: busy_end split: option.splits prod.splits)
  next
    case (log_delete_done c i q result)
    then show ?thesis using inv
      by (auto simp: logs_inv_def on_log_deleted_def fetch_logs_def logs_ops proper_remove1 proper_logs_def)
  next
    case (logs_delete_done c ids q ok)
    then show ?thesis using inv
      by (auto simp: logs_inv_def on_logs_deleted_def fetch_logs_def logs_ops proper_remove1 proper_logs_def
          intro: busy_end busy_next dest: busy_flag)
  qed (use inv in \<open>auto simp: logs_inv_def fetch_logs_def logs_ops proper_logs_def handle_log_delete_def handle_logs_delete_def
      choose_action_def turn_log_page_def intro: busy_begin\<close>)
qed

interpretation logs_deletions: machine_invariant logs_start "logs_step holds" logs_inv
proof unfold_locales
  show "logs_start s \<Longrightarrow> logs_inv s" for s by (simp add: logs_start_def logs0_def logs_inv_def busy_with_def one_if_def)
qed (rule logs_inv_step)

end
