(* ===== verification/OperationLogTheorems.thy ===== *)
theory OperationLogTheorems
  imports OperationLogs
begin

text \<open>
  The page of API calls: what is listed fits the filter once nothing is pending, one batch is deleted at a time and never an
  empty one, and a filter keeps the page, so that the list can be empty although entries match.
\<close>

text \<open>
  When nothing is pending, the entries listed are those of the filter and the page on the screen, unless a load has failed or one
  for another filter was still under way at some time.
\<close>

theorem logs_of_filters:
  assumes "reach logs_start (calm_step logs_view logs_fail (logs_step holds)) s" "listing_settled (logs_view s)"
  shows "\<forall>i \<in> set (lg_rows s). holds (lg_screen s) i"
  using logs_list.settled_rows [OF assms] by (auto simp: logs_view_def list_all_iff)

text \<open>The button of the selection is busy while one batch is deleted and the list loaded again, and never sends an empty batch.\<close>

theorem log_deletions_proper:
  assumes "reach logs_start (logs_step holds) s"
  shows "length (filter deleting_logs (lg_calls s)) = (if lg_deleting s then 1 else 0) \<and> list_all proper_logs (lg_calls s)"
  using logs_deletions.inv_reach [OF assms] by (simp add: logs_inv_def busy_with_def one_if_def)

text \<open>
  A filter chosen on a later page asks for that page of the matches. When they are fewer, the list is empty, and it
  stays on that page.
\<close>

theorem filter_keeps_page:
  assumes "a \<noteq> lq_action (lg_screen s)" "lg_calls s = []"
  defines "q \<equiv> (lg_screen s)\<lparr>lq_action := a\<rparr>"
  shows "\<exists>t. run (logs_step holds) s [Log_action_chosen a, Logs_timer, Logs_done (Logs_call q Logs_shown) (Some ([], n))] t \<and>
           listing_settled (logs_view t) \<and> lg_rows t = [] \<and> lg_count t = n \<and> lq_page (lg_screen t) = lq_page (lg_screen s)"
proof -
  let ?u = "choose_action a s"
  let ?v = "fetch_logs q Logs_shown (?u\<lparr>lg_due := False\<rparr>)"
  let ?t = "on_logs Logs_shown (Some ([], n)) (end_logs (Logs_call q Logs_shown) ?v)"
  have "q \<noteq> lg_screen s"
  proof
    assume "q = lg_screen s"
    from arg_cong [OF this, of lq_action] show False using assms(1) by (simp add: q_def)
  qed
  then have u: "lg_due ?u" "lg_screen ?u = q" by (simp_all add: choose_action_def set_log_query_def q_def)
  have "Logs_call q Logs_shown \<in> set (lg_calls ?v)" by (simp add: fetch_logs_def push_logs_def)
  from logs_done [OF refl this, of holds "Some ([], n)"] have "logs_step holds ?v (Logs_done (Logs_call q Logs_shown) (Some ([], n))) ?t" by simp
  moreover have "logs_step holds ?u Logs_timer ?v" using logs_timer [OF u(1), of holds] by (simp add: u(2))
  ultimately have "run (logs_step holds) s [Log_action_chosen a, Logs_timer, Logs_done (Logs_call q Logs_shown) (Some ([], n))] ?t"
    using log_action_chosen [of holds s a] by (blast intro: run.intros)
  moreover have "listing_settled (logs_view ?t)"
    using assms(2) by (simp add: listing_settled_def logs_view_def fetch_logs_def logs_ops choose_action_def List.map_filter_simps)
  moreover have "lg_rows ?t = []" "lg_count ?t = n" "lq_page (lg_screen ?t) = lq_page (lg_screen s)"
    by (simp_all add: on_logs_def fetch_logs_def logs_ops choose_action_def)
  ultimately show ?thesis by blast
qed

section \<open>Examples\<close>

definition logs_loading :: logs_page where
  "logs_loading = fetch_logs (lg_screen logs0) Logs_shown (logs0\<lparr>lg_due := False\<rparr>)"

definition logs_listed :: logs_page where
  "logs_listed = on_logs Logs_shown (Some ([7, 9], 2)) (end_logs (Logs_call (lg_screen logs0) Logs_shown) logs_loading)"

lemma logs_sample_steps:
  "logs_step (\<lambda>q i. i > 5) logs0 Logs_timer logs_loading"
  "logs_step (\<lambda>q i. i > 5) logs_loading (Logs_done (Logs_call (lg_screen logs0) Logs_shown) (Some ([7, 9], 2))) logs_listed"
  unfolding logs_loading_def logs_listed_def
  by (rule logs_timer, simp add: logs0_def) (rule logs_done [OF refl]; simp add: fetch_logs_def push_logs_def)

lemma logs_sample_eval:
  "lg_rows logs_listed = [7, 9]" "lg_calls logs_listed = []" "\<not> lg_due logs_listed" "lg_calls logs_loading = [Logs_call (lg_screen logs0) Logs_shown]"
  by (simp_all add: logs_listed_def logs_loading_def fetch_logs_def logs_ops logs0_def)

theorem logs_of_filters_witness:
  "\<forall>i \<in> set (lg_rows logs_listed). i > (5::nat)"
proof -
  let ?step = "calm_step logs_view logs_fail (logs_step (\<lambda>q i. i > 5))"
  have "?step logs0 Logs_timer logs_loading"
    using logs_sample_steps(1)
    by (intro calm_stepI) (simp_all add: logs_fail_def logs_view_def listing_calm_def logs_sample_eval List.map_filter_simps,
        simp add: logs_loading_def fetch_logs_def push_logs_def)
  moreover have "?step logs_loading (Logs_done (Logs_call (lg_screen logs0) Logs_shown) (Some ([7, 9], 2))) logs_listed"
    using logs_sample_steps(2)
    by (intro calm_stepI) (simp_all add: logs_fail_def logs_view_def listing_calm_def logs_sample_eval List.map_filter_simps)
  moreover have "logs_start logs0" by (simp add: logs_start_def)
  ultimately have "reach logs_start ?step logs_listed" by (meson reach_start reach_step)
  moreover have "listing_settled (logs_view logs_listed)"
    by (simp add: listing_settled_def logs_view_def logs_sample_eval List.map_filter_simps)
  ultimately show ?thesis using logs_of_filters [of "\<lambda>q i. i > 5" logs_listed] by simp
qed

theorem log_deletions_proper_witness: "length (filter deleting_logs (lg_calls logs_loading)) = 0"
proof -
  have "reach logs_start (logs_step (\<lambda>q i. i > 5)) logs0" by (rule reach_start) (simp add: logs_start_def)
  then have "reach logs_start (logs_step (\<lambda>q i. i > 5)) logs_loading" using logs_sample_steps(1) by (rule reach_step)
  from log_deletions_proper [OF this] show ?thesis by (simp add: logs_loading_def fetch_logs_def logs0_def push_logs_def)
qed

theorem filter_keeps_page_witness:
  "\<exists>t :: logs_page. lg_rows t = [] \<and> lg_count t = 12 \<and> lq_page (lg_screen t) = 4"
  using filter_keeps_page [of "Some []" "logs_listed\<lparr>lg_screen := \<lparr>lq_page = 4, lq_size = 20, lq_action = None\<rparr>\<rparr>" "\<lambda>q i. i > 5" 12]
  by (simp add: logs_sample_eval del: run_Cons_iff) blast

end
