(* ===== verification/DomainMessages.thy ===== *)
theory DomainMessages
  imports JsObject Listing
begin

text \<open>
  The administrator's page of messages received for hosted domains (web/src/pages/domain-messages/index.tsx): the list with
  its filters, the drawer with one message, and the deletion of one message or of the selected ones. A deletion remembers
  the message in the drawer at the time it was started.
\<close>

section \<open>State\<close>

record message_query =
  mq_domain :: "nat option"
  mq_mailbox :: "nat option"

datatype messages_purpose = Messages_shown | Message_deleted | Messages_deleted

text \<open>Requests; a deletion carries the filters and the message in the drawer that its handler has captured.\<close>

datatype messages_call =
    Message_options_call | Messages_call message_query messages_purpose | Message_detail_call nat
  | Message_delete_call nat message_query "nat option" | Messages_delete_call "nat list" message_query "nat option"

record messages_page =
  dm_screen :: message_query
  dm_rows :: "nat list"
  dm_domains :: "nat list"
  dm_mailboxes :: "nat list"
  dm_loading :: bool
  dm_due :: bool
  dm_options_due :: bool
  dm_detail :: "nat option"
  dm_drawer :: bool
  dm_selected :: "nat list"
  dm_deleting_one :: "nat option"
  dm_deleting :: bool
  dm_calls :: "messages_call list"

definition push_messages :: "messages_call \<Rightarrow> messages_page \<Rightarrow> messages_page" where
  "push_messages c s = s\<lparr>dm_calls := c # dm_calls s\<rparr>"

definition end_messages :: "messages_call \<Rightarrow> messages_page \<Rightarrow> messages_page" where
  "end_messages c s = s\<lparr>dm_calls := remove1 c (dm_calls s)\<rparr>"

definition choose_message_filter :: "message_query \<Rightarrow> messages_page \<Rightarrow> messages_page" where
  "choose_message_filter q s = s\<lparr>dm_screen := q, dm_due := (dm_due s \<or> q \<noteq> dm_screen s)\<rparr>"

section \<open>Requests\<close>

definition on_message_options :: "nat list option \<Rightarrow> nat list option \<Rightarrow> messages_page \<Rightarrow> messages_page" where
  "on_message_options domains mailboxes s =
     s\<lparr>dm_domains := (case domains of None \<Rightarrow> [] | Some xs \<Rightarrow> xs), dm_mailboxes := (case mailboxes of None \<Rightarrow> [] | Some xs \<Rightarrow> xs)\<rparr>"

definition load_messages :: "message_query \<Rightarrow> messages_purpose \<Rightarrow> messages_page \<Rightarrow> messages_page" where
  "load_messages q purpose s = push_messages (Messages_call q purpose) (s\<lparr>dm_loading := True\<rparr>)"

definition on_messages :: "messages_purpose \<Rightarrow> nat list option \<Rightarrow> messages_page \<Rightarrow> messages_page" where
  "on_messages purpose result s =
     (let t = (case result of None \<Rightarrow> s | Some rows \<Rightarrow> s\<lparr>dm_rows := rows\<rparr>)\<lparr>dm_loading := False\<rparr> in
      case purpose of
        Messages_shown \<Rightarrow> t
      | Message_deleted \<Rightarrow> t\<lparr>dm_deleting_one := None\<rparr>
      | Messages_deleted \<Rightarrow> t\<lparr>dm_deleting := False\<rparr>)"

definition on_message_detail :: "nat \<Rightarrow> bool \<Rightarrow> messages_page \<Rightarrow> messages_page" where
  "on_message_detail i ok s = (if ok then s\<lparr>dm_detail := Some i, dm_drawer := True\<rparr> else s)"

text \<open>\<open>detail\<close> is the message the handler has captured, and \<open>ids\<close> the messages that were deleted.\<close>

definition close_drawer_if_deleted :: "nat option \<Rightarrow> nat list \<Rightarrow> messages_page \<Rightarrow> messages_page" where
  "close_drawer_if_deleted detail ids s =
     (case detail of
        None \<Rightarrow> s
      | Some i \<Rightarrow> if i \<in> set ids then s\<lparr>dm_drawer := False, dm_detail := None\<rparr> else s)"

definition handle_message_delete :: "nat \<Rightarrow> messages_page \<Rightarrow> messages_page" where
  "handle_message_delete i s =
     push_messages (Message_delete_call i (dm_screen s) (dm_detail s)) (s\<lparr>dm_deleting_one := Some i\<rparr>)"

definition on_message_deleted :: "nat \<Rightarrow> message_query \<Rightarrow> nat option \<Rightarrow> nat list option \<Rightarrow> messages_page \<Rightarrow> messages_page" where
  "on_message_deleted i q detail result s =
     (case result of
        None \<Rightarrow> s\<lparr>dm_deleting_one := None\<rparr>
      | Some ids \<Rightarrow>
          load_messages q Message_deleted
            (close_drawer_if_deleted detail ids (s\<lparr>dm_selected := filter (\<lambda>j. j \<noteq> i) (dm_selected s)\<rparr>)))"

definition handle_messages_delete :: "messages_page \<Rightarrow> messages_page" where
  "handle_messages_delete s =
     (if dm_selected s = [] then s
      else push_messages (Messages_delete_call (dm_selected s) (dm_screen s) (dm_detail s)) (s\<lparr>dm_deleting := True\<rparr>))"

definition on_messages_deleted :: "message_query \<Rightarrow> nat option \<Rightarrow> nat list option \<Rightarrow> messages_page \<Rightarrow> messages_page" where
  "on_messages_deleted q detail result s =
     (case result of
        None \<Rightarrow> s\<lparr>dm_deleting := False\<rparr>
      | Some ids \<Rightarrow> load_messages q Messages_deleted (close_drawer_if_deleted detail ids (s\<lparr>dm_selected := []\<rparr>)))"

section \<open>The machine\<close>

datatype messages_event =
    Messages_timer | Message_options_timer | Messages_language | Messages_filtered message_query | Messages_refreshed
  | Message_opened nat | Message_closed | Messages_selected "nat list" | Message_delete_clicked nat | Messages_delete_clicked
  | Message_options_done messages_call "nat list option" "nat list option" | Messages_done messages_call "nat list option"
  | Message_detail_done messages_call bool | Message_delete_done messages_call "nat list option"
  | Messages_delete_done messages_call "nat list option"

text \<open>
  \<open>holds q i\<close>: the server lists message \<open>i\<close> for the filters \<open>q\<close>. The drawer covers the page, the spinner of a load the table; a
  question already open can still be answered, and requests under way end at any time.
\<close>

inductive messages_step ::
  "(message_query \<Rightarrow> nat \<Rightarrow> bool) \<Rightarrow> messages_page \<Rightarrow> messages_event \<Rightarrow> messages_page \<Rightarrow> bool" for holds where
  messages_timer: "dm_due s \<Longrightarrow>
     messages_step holds s Messages_timer (load_messages (dm_screen s) Messages_shown (s\<lparr>dm_due := False\<rparr>))"
| message_options_timer: "dm_options_due s \<Longrightarrow>
     messages_step holds s Message_options_timer (push_messages Message_options_call (s\<lparr>dm_options_due := False\<rparr>))"
| messages_language: "messages_step holds s Messages_language (s\<lparr>dm_due := True, dm_options_due := True\<rparr>)"
| messages_filtered: "\<not> dm_drawer s \<Longrightarrow> messages_step holds s (Messages_filtered q) (choose_message_filter q s)"
| messages_refreshed: "\<not> dm_drawer s \<Longrightarrow> messages_step holds s Messages_refreshed (load_messages (dm_screen s) Messages_shown s)"
| message_opened: "\<not> dm_drawer s \<Longrightarrow> \<not> dm_loading s \<Longrightarrow> i \<in> set (dm_rows s) \<Longrightarrow>
     messages_step holds s (Message_opened i) (push_messages (Message_detail_call i) s)"
| message_closed: "dm_drawer s \<Longrightarrow> messages_step holds s Message_closed (s\<lparr>dm_drawer := False\<rparr>)"
| messages_selected: "\<not> dm_drawer s \<Longrightarrow> \<not> dm_loading s \<Longrightarrow> set ids \<subseteq> set (dm_selected s) \<union> set (dm_rows s) \<Longrightarrow>
     messages_step holds s (Messages_selected ids) (s\<lparr>dm_selected := ids\<rparr>)"
| message_delete_clicked: "i \<in> set (dm_rows s) \<Longrightarrow> dm_deleting_one s \<noteq> Some i \<Longrightarrow>
     messages_step holds s (Message_delete_clicked i) (handle_message_delete i s)"
| messages_delete_clicked: "dm_selected s \<noteq> [] \<Longrightarrow> \<not> dm_deleting s \<Longrightarrow>
     messages_step holds s Messages_delete_clicked (handle_messages_delete s)"
| message_options_done: "c = Message_options_call \<Longrightarrow> c \<in> set (dm_calls s) \<Longrightarrow>
     messages_step holds s (Message_options_done c domains mailboxes) (on_message_options domains mailboxes (end_messages c s))"
| messages_done: "c = Messages_call q purpose \<Longrightarrow> c \<in> set (dm_calls s) \<Longrightarrow>
     (case result of None \<Rightarrow> True | Some rows \<Rightarrow> list_all (holds q) rows) \<Longrightarrow>
     messages_step holds s (Messages_done c result) (on_messages purpose result (end_messages c s))"
| message_detail_done: "c = Message_detail_call i \<Longrightarrow> c \<in> set (dm_calls s) \<Longrightarrow>
     messages_step holds s (Message_detail_done c ok) (on_message_detail i ok (end_messages c s))"
| message_delete_done: "c = Message_delete_call i q detail \<Longrightarrow> c \<in> set (dm_calls s) \<Longrightarrow>
     messages_step holds s (Message_delete_done c result) (on_message_deleted i q detail result (end_messages c s))"
| messages_delete_done: "c = Messages_delete_call ids q detail \<Longrightarrow> c \<in> set (dm_calls s) \<Longrightarrow>
     messages_step holds s (Messages_delete_done c result) (on_messages_deleted q detail result (end_messages c s))"

definition messages0 :: messages_page where
  "messages0 = \<lparr>dm_screen = \<lparr>mq_domain = None, mq_mailbox = None\<rparr>, dm_rows = [], dm_domains = [], dm_mailboxes = [],
     dm_loading = True, dm_due = True, dm_options_due = True, dm_detail = None, dm_drawer = False, dm_selected = [],
     dm_deleting_one = None, dm_deleting = False, dm_calls = []\<rparr>"

definition messages_start :: "messages_page \<Rightarrow> bool" where
  "messages_start s \<longleftrightarrow> s = messages0"

section \<open>Deletions\<close>

fun deleting_messages :: "messages_call \<Rightarrow> bool" where
  "deleting_messages (Messages_delete_call ids q detail) = True"
| "deleting_messages (Messages_call q Messages_deleted) = True"
| "deleting_messages c = False"

definition proper_messages :: "messages_call \<Rightarrow> bool" where
  "proper_messages c = (case c of Messages_delete_call ids q detail \<Rightarrow> ids \<noteq> [] | _ \<Rightarrow> True)"

text \<open>A shown drawer shows a message.\<close>

definition messages_inv :: "messages_page \<Rightarrow> bool" where
  "messages_inv s \<longleftrightarrow>
     busy_with deleting_messages (dm_deleting s) (dm_calls s) \<and> list_all proper_messages (dm_calls s) \<and> (dm_drawer s \<longrightarrow> dm_detail s \<noteq> None)"

lemmas messages_ops = push_messages_def end_messages_def load_messages_def

lemma close_drawer_frame [simp]:
  "dm_calls (close_drawer_if_deleted d ids s) = dm_calls s" "dm_deleting (close_drawer_if_deleted d ids s) = dm_deleting s"
  "dm_selected (close_drawer_if_deleted d ids s) = dm_selected s" "dm_rows (close_drawer_if_deleted d ids s) = dm_rows s"
  by (simp_all add: close_drawer_if_deleted_def split: option.split)

lemma close_drawer_shows:
  "dm_drawer (close_drawer_if_deleted d ids s) \<Longrightarrow> dm_drawer s \<and> dm_detail (close_drawer_if_deleted d ids s) = dm_detail s"
  by (auto simp: close_drawer_if_deleted_def split: option.splits if_splits)

lemma messages_inv_step: "messages_inv s \<Longrightarrow> messages_step holds s e t \<Longrightarrow> messages_inv t"
proof -
  assume inv: "messages_inv s" and step: "messages_step holds s e t"
  from step show "messages_inv t"
  proof cases
    case (messages_done c q purpose result)
    then show ?thesis using inv
      by (cases purpose)
        (auto simp: messages_inv_def on_messages_def Let_def end_messages_def proper_remove1 intro: busy_end split: option.splits)
  next
    case (message_delete_done c i q detail result)
    then show ?thesis using inv
      by (auto simp: messages_inv_def on_message_deleted_def messages_ops proper_remove1 proper_messages_def
          dest: close_drawer_shows split: option.split)
  next
    case (messages_delete_done c ids q detail result)
    then show ?thesis using inv
      by (auto simp: messages_inv_def on_messages_deleted_def messages_ops proper_remove1 proper_messages_def
          intro: busy_end busy_next dest: busy_flag close_drawer_shows split: option.split)
  qed (use inv in \<open>auto simp: messages_inv_def messages_ops proper_messages_def proper_remove1 handle_message_delete_def handle_messages_delete_def
      choose_message_filter_def on_message_options_def on_message_detail_def intro: busy_begin\<close>)
qed

interpretation messages_deletions: machine_invariant messages_start "messages_step holds" messages_inv
proof unfold_locales
  show "messages_start s \<Longrightarrow> messages_inv s" for s by (simp add: messages_start_def messages0_def messages_inv_def busy_with_def one_if_def)
qed (rule messages_inv_step)

end
