(* ===== verification/DomainMessageTheorems.thy ===== *)
theory DomainMessageTheorems
  imports DomainMessages
begin

text \<open>
  The page of messages of hosted domains: what is listed fits the filters once nothing is pending, one batch is deleted at a
  time, and a deletion closes the drawer by the message it remembers, not by the one that is shown.
\<close>

section \<open>The list\<close>

definition messages_query :: "messages_call \<Rightarrow> message_query option" where
  "messages_query c = (case c of Messages_call q purpose \<Rightarrow> Some q | _ \<Rightarrow> None)"

definition messages_view :: "messages_page \<Rightarrow> (message_query, nat) listing" where
  "messages_view s =
     \<lparr>ls_par = dm_screen s, ls_due = dm_due s, ls_loads = List.map_filter messages_query (dm_calls s), ls_rows = dm_rows s\<rparr>"

definition messages_fail :: "messages_event \<Rightarrow> bool" where
  "messages_fail e \<longleftrightarrow> (\<exists>c. e = Messages_done c None)"

lemma messages_query_simps [simp]:
  "messages_query (Messages_call q purpose) = Some q" "messages_query Message_options_call = None"
  "messages_query (Message_detail_call i) = None" "messages_query (Message_delete_call i q d) = None"
  "messages_query (Messages_delete_call ids q d) = None"
  by (simp_all add: messages_query_def)

lemma messages_same:
  assumes "dm_screen t = dm_screen s" "dm_due t = dm_due s" "dm_rows t = dm_rows s"
    "List.map_filter messages_query (dm_calls t) = List.map_filter messages_query (dm_calls s)"
  shows "listing_step holds ok (messages_view s) (messages_view t)"
  by (rule listing_same) (simp add: assms messages_view_def)

lemma messages_load: "listing_step holds ok v (messages_view (load_messages q purpose s))"
  by (rule listing_step.loading) (simp add: messages_view_def messages_ops List.map_filter_simps)

lemma on_messages_frame [simp]:
  "dm_screen (on_messages purpose result s) = dm_screen s" "dm_due (on_messages purpose result s) = dm_due s"
  "dm_calls (on_messages purpose result s) = dm_calls s" "dm_rows (on_messages purpose (Some rows) s) = rows"
  by (auto simp: on_messages_def Let_def split: option.split messages_purpose.split)

lemma messages_view_step:
  assumes "messages_step holds s e t"
  shows "listing_step holds (\<not> messages_fail e) (messages_view s) (messages_view t)"
  using assms
proof cases
  case messages_language
  then show ?thesis by (intro listing_step.change) (simp add: messages_view_def)
next
  case (messages_filtered q)
  show ?thesis
  proof (cases "q = dm_screen s")
    case True
    then show ?thesis using messages_filtered by (intro messages_same) (simp_all add: choose_message_filter_def)
  next
    case False
    then show ?thesis using messages_filtered by (intro listing_step.change) (simp add: messages_view_def choose_message_filter_def)
  qed
next
  case (messages_done c q purpose result)
  show ?thesis
  proof (cases result)
    case None
    then show ?thesis using messages_done by (intro listing_step.failed) (auto simp: messages_fail_def)
  next
    case (Some rows)
    have "q \<in> set (ls_loads (messages_view s))" using messages_done by (auto simp: messages_view_def intro: map_filter_mem [of c])
    then show ?thesis using messages_done Some
      by (intro listing_step.answered [of q]) (auto simp: messages_view_def end_messages_def)
  qed
next
  case (message_delete_done c i q d result)
  then show ?thesis
    by (cases result) (auto simp: on_message_deleted_def messages_load end_messages_def map_filter_remove1_None intro!: messages_same)
next
  case (messages_delete_done c ids q d result)
  then show ?thesis
    by (cases result) (auto simp: on_messages_deleted_def messages_load end_messages_def map_filter_remove1_None intro!: messages_same)
next
  case (message_detail_done c i ok)
  then show ?thesis
    by (intro messages_same) (simp_all add: on_message_detail_def end_messages_def map_filter_remove1_None)
next
  case (message_options_done c d m)
  then show ?thesis
    by (intro messages_same) (simp_all add: on_message_options_def end_messages_def map_filter_remove1_None)
qed (simp_all add: messages_load messages_same push_messages_def handle_message_delete_def handle_messages_delete_def List.map_filter_simps)

interpretation messages_list: listing messages_start "messages_step holds" messages_view messages_fail holds
proof unfold_locales
  show "messages_start s \<Longrightarrow> listing_fresh holds (messages_view s)" for s
    by (intro fresh_empty) (auto simp: messages_start_def messages0_def messages_view_def List.map_filter_simps)
qed (rule messages_view_step)

text \<open>
  When nothing is pending, the messages listed are those of the filters on the screen, unless a load has failed or one for other
  filters was still under way at some time.
\<close>

theorem messages_of_filters:
  assumes "reach messages_start (calm_step messages_view messages_fail (messages_step holds)) s" "listing_settled (messages_view s)"
  shows "\<forall>i \<in> set (dm_rows s). holds (dm_screen s) i"
  using messages_list.settled_rows [OF assms] by (auto simp: messages_view_def list_all_iff)

section \<open>Deletions\<close>

text \<open>
  The button of the selection is busy while one batch is deleted and the list loaded again, no empty batch is sent, and an open
  drawer has a message to show.
\<close>

theorem message_deletions_proper:
  assumes "reach messages_start (messages_step holds) s"
  shows "length (filter deleting_messages (dm_calls s)) = (if dm_deleting s then 1 else 0) \<and>
         list_all proper_messages (dm_calls s) \<and> (dm_drawer s \<longrightarrow> dm_detail s \<noteq> None)"
  using messages_deletions.inv_reach [OF assms] by (simp add: messages_inv_def busy_with_def one_if_def)

text \<open>
  Closing the drawer keeps its message, and a deletion remembers it: when the message looked at before is deleted, the
  answer closes the drawer with another message that was opened in the meantime.
\<close>

theorem deletion_closes_other:
  assumes "\<not> dm_drawer s" "\<not> dm_loading s" "dm_detail s = Some a" "a \<in> set (dm_rows s)" "b \<in> set (dm_rows s)" "a \<noteq> b"
    "dm_deleting_one s \<noteq> Some a"
  shows "\<exists>u t. run (messages_step holds) s
             [Message_delete_clicked a, Message_opened b, Message_detail_done (Message_detail_call b) True] u \<and>
           dm_drawer u \<and> dm_detail u = Some b \<and>
           messages_step holds u (Message_delete_done (Message_delete_call a (dm_screen s) (Some a)) (Some [a])) t \<and>
           \<not> dm_drawer t \<and> dm_detail t = None"
proof -
  let ?c = "Message_delete_call a (dm_screen s) (Some a)"
  let ?s1 = "handle_message_delete a s"
  let ?s2 = "push_messages (Message_detail_call b) ?s1"
  let ?u = "on_message_detail b True (end_messages (Message_detail_call b) ?s2)"
  let ?t = "on_message_deleted a (dm_screen s) (Some a) (Some [a]) (end_messages ?c ?u)"
  have s1: "\<not> dm_drawer ?s1" "\<not> dm_loading ?s1" "b \<in> set (dm_rows ?s1)" "?c \<in> set (dm_calls ?s1)"
    using assms by (simp_all add: handle_message_delete_def push_messages_def)
  have s2: "Message_detail_call b \<in> set (dm_calls ?s2)" by (simp add: push_messages_def)
  have "run (messages_step holds) s
      [Message_delete_clicked a, Message_opened b, Message_detail_done (Message_detail_call b) True] ?u"
    using message_delete_clicked [OF assms(4,7)] message_opened [OF s1(1-3)] message_detail_done [OF refl s2]
    by (blast intro: run.intros)
  moreover have "?c \<in> set (dm_calls ?u)" using s1(4) by (simp add: on_message_detail_def messages_ops)
  then have "messages_step holds ?u (Message_delete_done ?c (Some [a])) ?t" by (rule message_delete_done [OF refl])
  moreover have "dm_drawer ?u" "dm_detail ?u = Some b" by (simp_all add: on_message_detail_def)
  moreover have "\<not> dm_drawer ?t" "dm_detail ?t = None"
    by (simp_all add: on_message_deleted_def messages_ops close_drawer_if_deleted_def)
  ultimately show ?thesis by blast
qed

section \<open>Examples\<close>

definition messages_loading :: messages_page where
  "messages_loading = load_messages (dm_screen messages0) Messages_shown (messages0\<lparr>dm_due := False\<rparr>)"

definition messages_listed :: messages_page where
  "messages_listed = on_messages Messages_shown (Some [7, 9]) (end_messages (Messages_call (dm_screen messages0) Messages_shown) messages_loading)"

lemma messages_sample_steps:
  "messages_step (\<lambda>q i. i > 5) messages0 Messages_timer messages_loading"
  "messages_step (\<lambda>q i. i > 5) messages_loading
     (Messages_done (Messages_call (dm_screen messages0) Messages_shown) (Some [7, 9])) messages_listed"
  unfolding messages_loading_def messages_listed_def
  by (rule messages_timer, simp add: messages0_def) (rule messages_done [OF refl]; simp add: messages_ops)

lemma messages_sample_eval:
  "dm_rows messages_listed = [7, 9]" "dm_calls messages_listed = []" "\<not> dm_due messages_listed" "\<not> dm_drawer messages_listed"
  "\<not> dm_loading messages_listed" "dm_deleting_one messages_listed = None"
  "dm_calls messages_loading = [Messages_call (dm_screen messages0) Messages_shown]"
  by (simp_all add: messages_listed_def messages_loading_def on_messages_def messages_ops messages0_def)

theorem messages_of_filters_witness: "\<forall>i \<in> set (dm_rows messages_listed). i > (5::nat)"
proof -
  let ?step = "calm_step messages_view messages_fail (messages_step (\<lambda>q i. i > 5))"
  have "?step messages0 Messages_timer messages_loading"
    using messages_sample_steps(1)
    by (intro calm_stepI) (simp_all add: messages_fail_def messages_view_def listing_calm_def messages_sample_eval List.map_filter_simps,
        simp add: messages_loading_def messages_ops)
  moreover have "?step messages_loading (Messages_done (Messages_call (dm_screen messages0) Messages_shown) (Some [7, 9])) messages_listed"
    using messages_sample_steps(2)
    by (intro calm_stepI)
      (simp_all add: messages_fail_def messages_view_def listing_calm_def messages_sample_eval List.map_filter_simps)
  moreover have "messages_start messages0" by (simp add: messages_start_def)
  ultimately have "reach messages_start ?step messages_listed" by (meson reach_start reach_step)
  moreover have "listing_settled (messages_view messages_listed)"
    by (simp add: listing_settled_def messages_view_def messages_sample_eval List.map_filter_simps)
  ultimately show ?thesis using messages_of_filters [of "\<lambda>q i. i > 5" messages_listed] by simp
qed

theorem message_deletions_proper_witness: "length (filter deleting_messages (dm_calls messages_loading)) = 0"
proof -
  have "reach messages_start (messages_step (\<lambda>q i. i > 5)) messages0" by (rule reach_start) (simp add: messages_start_def)
  then have "reach messages_start (messages_step (\<lambda>q i. i > 5)) messages_loading" using messages_sample_steps(1) by (rule reach_step)
  from message_deletions_proper [OF this] show ?thesis by (simp add: messages_loading_def messages0_def messages_ops)
qed

theorem deletion_closes_other_witness:
  "\<exists>u t. dm_drawer u \<and> dm_detail u = Some (9::nat) \<and>
     messages_step (\<lambda>q i. i > 5) u (Message_delete_done (Message_delete_call 7 (dm_screen messages_listed) (Some 7)) (Some [7])) t \<and> \<not> dm_drawer t"
  using deletion_closes_other [of "messages_listed\<lparr>dm_detail := Some 7\<rparr>" 7 9 "\<lambda>q i. i > 5"]
  by (simp add: messages_sample_eval del: run_Cons_iff) blast

end
