(* ===== verification/SendingConfigs.thy ===== *)
theory SendingConfigs
  imports WebText Machine
begin

text \<open>
  The administrator's page of sending configurations (web/src/pages/sending-configs): the tables of configurations and
  sent messages, their deletion, and the window that sends a test message. The check of the sender's address belongs to
  the form library and is the parameter \<open>email_ok\<close>; the recipients are checked and read by the code itself.
\<close>

section \<open>Data\<close>

record test_form =
  tf_domain :: "nat option"
  tf_mailbox :: "nat option"
  tf_from :: jstr
  tf_to :: jstr
  tf_subject :: jstr
  tf_text :: "jstr option"
  tf_html :: "jstr option"

record test_payload =
  sp_domain :: "nat option"
  sp_mailbox :: "nat option"
  sp_from :: jstr
  sp_to :: "jstr list"
  sp_subject :: jstr
  sp_text :: "jstr option"
  sp_html :: "jstr option"

definition empty_test_form :: test_form where
  "empty_test_form = \<lparr>tf_domain = None, tf_mailbox = None, tf_from = [], tf_to = [], tf_subject = [], tf_text = None, tf_html = None\<rparr>"

text \<open>The check of the recipients trims the whole text first; what is sent is read from the text as it is.\<close>

definition valid_recipients_field :: "jstr \<Rightarrow> bool" where
  "valid_recipients_field value \<longleftrightarrow> value \<noteq> [] \<and> trim value \<noteq> [] \<and> has_only_valid_recipients (trim value)"

definition valid_test_form :: "(jstr \<Rightarrow> bool) \<Rightarrow> test_form \<Rightarrow> bool" where
  "valid_test_form email_ok v \<longleftrightarrow>
     tf_domain v \<noteq> None \<and> tf_from v \<noteq> [] \<and> email_ok (tf_from v) \<and> valid_recipients_field (tf_to v) \<and> tf_subject v \<noteq> []"

definition test_payload_of :: "test_form \<Rightarrow> test_payload" where
  "test_payload_of v =
     \<lparr>sp_domain = tf_domain v, sp_mailbox = (if tf_mailbox v = Some 0 then None else tf_mailbox v), sp_from = tf_from v,
      sp_to = parse_recipient_input (tf_to v), sp_subject = tf_subject v, sp_text = tf_text v, sp_html = tf_html v\<rparr>"

section \<open>State\<close>

text \<open>What a load of the page ends: nothing, the sending of a message, or one of the three deletions.\<close>

datatype sending_purpose = For_page | After_sending | After_config | After_sent | After_selection

datatype sending_call =
    Page_call sending_purpose | Send_call test_payload | Config_delete_call nat | Sent_delete_call nat | Sents_delete_call "nat list"

record sending_answer =
  sa_configs :: "nat list option"
  sa_sent :: "nat list option"
  sa_domains :: "(nat \<times> bool) list option"
  sa_mailboxes :: "(nat \<times> bool option) list option"

record sending_page =
  sg_configs :: "nat list"
  sg_sent :: "nat list"
  sg_domains :: "nat list"
  sg_mailboxes :: "nat list"
  sg_loading :: bool
  sg_due :: bool
  sg_window :: bool
  sg_sending :: bool
  sg_form :: test_form
  sg_selected :: "nat list"
  sg_deleting_config :: "nat option"
  sg_deleting_sent :: "nat option"
  sg_deleting :: bool
  sg_calls :: "sending_call list"

definition push_sending :: "sending_call \<Rightarrow> sending_page \<Rightarrow> sending_page" where
  "push_sending c s = s\<lparr>sg_calls := c # sg_calls s\<rparr>"

definition end_sending :: "sending_call \<Rightarrow> sending_page \<Rightarrow> sending_page" where
  "end_sending c s = s\<lparr>sg_calls := remove1 c (sg_calls s)\<rparr>"

definition load_sending :: "sending_purpose \<Rightarrow> sending_page \<Rightarrow> sending_page" where
  "load_sending purpose s = push_sending (Page_call purpose) (s\<lparr>sg_loading := True\<rparr>)"

definition list_or_empty :: "'a list option \<Rightarrow> 'a list" where
  "list_or_empty xs = (case xs of None \<Rightarrow> [] | Some ys \<Rightarrow> ys)"

definition end_purpose :: "sending_purpose \<Rightarrow> sending_page \<Rightarrow> sending_page" where
  "end_purpose purpose s =
     (case purpose of
        For_page \<Rightarrow> s
      | After_sending \<Rightarrow> s\<lparr>sg_sending := False\<rparr>
      | After_config \<Rightarrow> s\<lparr>sg_deleting_config := None\<rparr>
      | After_sent \<Rightarrow> s\<lparr>sg_deleting_sent := None\<rparr>
      | After_selection \<Rightarrow> s\<lparr>sg_deleting := False\<rparr>)"

text \<open>Domains and mailboxes are offered when mail can be sent from them.\<close>

definition on_sending :: "sending_purpose \<Rightarrow> sending_answer \<Rightarrow> sending_page \<Rightarrow> sending_page" where
  "on_sending purpose a s =
     end_purpose purpose
       (s\<lparr>sg_configs := list_or_empty (sa_configs a), sg_sent := list_or_empty (sa_sent a),
          sg_domains := map fst (filter snd (list_or_empty (sa_domains a))),
          sg_mailboxes := map fst (filter (\<lambda>m. snd m = Some True) (list_or_empty (sa_mailboxes a))), sg_loading := False\<rparr>)"

definition handle_test_send :: "(jstr \<Rightarrow> bool) \<Rightarrow> sending_page \<Rightarrow> sending_page" where
  "handle_test_send email_ok s =
     (if \<not> valid_test_form email_ok (sg_form s) then s
      else push_sending (Send_call (test_payload_of (sg_form s))) (s\<lparr>sg_sending := True\<rparr>))"

definition on_test_sent :: "bool \<Rightarrow> sending_page \<Rightarrow> sending_page" where
  "on_test_sent ok s =
     (if ok then load_sending After_sending (s\<lparr>sg_window := False, sg_form := empty_test_form\<rparr>) else s\<lparr>sg_sending := False\<rparr>)"

definition handle_delete_config :: "nat \<Rightarrow> sending_page \<Rightarrow> sending_page" where
  "handle_delete_config i s = push_sending (Config_delete_call i) (s\<lparr>sg_deleting_config := Some i\<rparr>)"

definition on_config_deleted :: "bool option \<Rightarrow> sending_page \<Rightarrow> sending_page" where
  "on_config_deleted result s = (if result = Some True then load_sending After_config s else s\<lparr>sg_deleting_config := None\<rparr>)"

definition handle_delete_sent :: "nat \<Rightarrow> sending_page \<Rightarrow> sending_page" where
  "handle_delete_sent i s = push_sending (Sent_delete_call i) (s\<lparr>sg_deleting_sent := Some i\<rparr>)"

definition on_sent_deleted :: "nat \<Rightarrow> bool \<Rightarrow> sending_page \<Rightarrow> sending_page" where
  "on_sent_deleted i ok s =
     (if ok then load_sending After_sent (s\<lparr>sg_selected := filter (\<lambda>j. j \<noteq> i) (sg_selected s)\<rparr>) else s\<lparr>sg_deleting_sent := None\<rparr>)"

definition handle_delete_selection :: "sending_page \<Rightarrow> sending_page" where
  "handle_delete_selection s =
     (if sg_selected s = [] then s else push_sending (Sents_delete_call (sg_selected s)) (s\<lparr>sg_deleting := True\<rparr>))"

definition on_selection_deleted :: "bool \<Rightarrow> sending_page \<Rightarrow> sending_page" where
  "on_selection_deleted ok s = (if ok then load_sending After_selection (s\<lparr>sg_selected := []\<rparr>) else s\<lparr>sg_deleting := False\<rparr>)"

section \<open>The machine\<close>

datatype sending_event =
    Sending_timer | Sending_language | Sending_refreshed | Send_opened | Send_cancelled | Send_form_edited test_form | Send_submitted
  | Config_delete_clicked nat | Sent_delete_clicked nat | Sents_selected "nat list" | Sents_delete_clicked
  | Page_done sending_call sending_answer | Send_done sending_call bool | Config_delete_done sending_call "bool option"
  | Sent_delete_done sending_call bool | Sents_delete_done sending_call bool

text \<open>The open window covers the page, and its button is busy while a message is sent.\<close>

inductive sending_step :: "(jstr \<Rightarrow> bool) \<Rightarrow> sending_page \<Rightarrow> sending_event \<Rightarrow> sending_page \<Rightarrow> bool" for email_ok where
  sending_timer: "sg_due s \<Longrightarrow> sending_step email_ok s Sending_timer (load_sending For_page (s\<lparr>sg_due := False\<rparr>))"
| sending_language: "sending_step email_ok s Sending_language (s\<lparr>sg_due := True\<rparr>)"
| sending_refreshed: "\<not> sg_window s \<Longrightarrow> sending_step email_ok s Sending_refreshed (load_sending For_page s)"
| send_opened: "\<not> sg_window s \<Longrightarrow> sending_step email_ok s Send_opened (s\<lparr>sg_window := True\<rparr>)"
| send_cancelled: "sg_window s \<Longrightarrow> sending_step email_ok s Send_cancelled (s\<lparr>sg_window := False\<rparr>)"
| send_form_edited: "sg_window s \<Longrightarrow> sending_step email_ok s (Send_form_edited f) (s\<lparr>sg_form := f\<rparr>)"
| send_submitted: "sg_window s \<Longrightarrow> \<not> sg_sending s \<Longrightarrow> sending_step email_ok s Send_submitted (handle_test_send email_ok s)"
| config_delete_clicked: "\<not> sg_window s \<Longrightarrow> i \<in> set (sg_configs s) \<Longrightarrow> sg_deleting_config s \<noteq> Some i \<Longrightarrow>
     sending_step email_ok s (Config_delete_clicked i) (handle_delete_config i s)"
| sent_delete_clicked: "\<not> sg_window s \<Longrightarrow> i \<in> set (sg_sent s) \<Longrightarrow> sg_deleting_sent s \<noteq> Some i \<Longrightarrow>
     sending_step email_ok s (Sent_delete_clicked i) (handle_delete_sent i s)"
| sents_selected: "\<not> sg_window s \<Longrightarrow> set ids \<subseteq> set (sg_selected s) \<union> set (sg_sent s) \<Longrightarrow>
     sending_step email_ok s (Sents_selected ids) (s\<lparr>sg_selected := ids\<rparr>)"
| sents_delete_clicked: "\<not> sg_window s \<Longrightarrow> sg_selected s \<noteq> [] \<Longrightarrow> \<not> sg_deleting s \<Longrightarrow>
     sending_step email_ok s Sents_delete_clicked (handle_delete_selection s)"
| page_done: "c = Page_call purpose \<Longrightarrow> c \<in> set (sg_calls s) \<Longrightarrow>
     sending_step email_ok s (Page_done c a) (on_sending purpose a (end_sending c s))"
| send_done: "c = Send_call p \<Longrightarrow> c \<in> set (sg_calls s) \<Longrightarrow> sending_step email_ok s (Send_done c ok) (on_test_sent ok (end_sending c s))"
| config_delete_done: "c = Config_delete_call i \<Longrightarrow> c \<in> set (sg_calls s) \<Longrightarrow>
     sending_step email_ok s (Config_delete_done c result) (on_config_deleted result (end_sending c s))"
| sent_delete_done: "c = Sent_delete_call i \<Longrightarrow> c \<in> set (sg_calls s) \<Longrightarrow>
     sending_step email_ok s (Sent_delete_done c ok) (on_sent_deleted i ok (end_sending c s))"
| sents_delete_done: "c = Sents_delete_call ids \<Longrightarrow> c \<in> set (sg_calls s) \<Longrightarrow>
     sending_step email_ok s (Sents_delete_done c ok) (on_selection_deleted ok (end_sending c s))"

definition sending0 :: sending_page where
  "sending0 = \<lparr>sg_configs = [], sg_sent = [], sg_domains = [], sg_mailboxes = [], sg_loading = True, sg_due = True, sg_window = False,
     sg_sending = False, sg_form = empty_test_form, sg_selected = [], sg_deleting_config = None, sg_deleting_sent = None,
     sg_deleting = False, sg_calls = []\<rparr>"

definition sending_start :: "sending_page \<Rightarrow> bool" where
  "sending_start s \<longleftrightarrow> s = sending0"

section \<open>Recipients around white space\<close>

lemma trim_ws_first: "is_ws c \<Longrightarrow> trim (c # s) = trim s"
  by (simp add: trim_def trim_start_def)

lemma trim_ws_last: "is_ws c \<Longrightarrow> trim (s @ [c]) = trim s"
proof (cases "\<forall>d \<in> set s. is_ws d")
  case True
  moreover assume "is_ws c"
  ultimately have "trim (s @ [c]) = []" "trim s = []" by (simp_all add: trim_strip strip_both_eq_Nil)
  then show ?thesis by simp
next
  case False
  moreover assume "is_ws c"
  ultimately show ?thesis by (auto simp: trim_def trim_start_def trim_end_def dropWhile_append)
qed

definition one_recipient :: "jstr \<Rightarrow> jstr list" where
  "one_recipient a = (if trim a = [] then [] else [trim a])"

lemma recipients_plain: "list_all (\<lambda>c. \<not> is_recipient_separator c) s \<Longrightarrow> parse_recipient_input s = one_recipient s"
proof -
  assume free: "list_all (\<lambda>c. \<not> is_recipient_separator c) s"
  then have "dropWhile (\<lambda>c. \<not> is_recipient_separator c) s = []" by (simp add: list_all_iff)
  moreover have "takeWhile (\<lambda>c. \<not> is_recipient_separator c) s = s" using free by (simp add: list_all_iff takeWhile_eq_all_conv)
  ultimately show ?thesis
    by (simp add: parse_recipient_input_def split_runs_last one_recipient_def del: takeWhile_eq_all_conv)
qed

lemma recipients_parts:
  assumes "list_all (\<lambda>c. \<not> is_recipient_separator c) a" "is_recipient_separator d"
  shows "parse_recipient_input (a @ d # rest) = one_recipient a @ parse_recipient_input (dropWhile is_recipient_separator rest)"
proof -
  have "dropWhile (\<lambda>c. \<not> is_recipient_separator c) (a @ d # rest) = d # rest"
    "takeWhile (\<lambda>c. \<not> is_recipient_separator c) (a @ d # rest) = a"
    using assms by (simp_all add: list_all_iff dropWhile_append takeWhile_append)
  then show ?thesis by (simp add: parse_recipient_input_def split_runs_first one_recipient_def)
qed

lemma recipients_Nil [simp]: "parse_recipient_input [] = []"
  by (simp add: recipients_plain one_recipient_def)

lemma recipients_skip: "parse_recipient_input (dropWhile is_recipient_separator s) = parse_recipient_input s"
proof (cases s)
  case (Cons c rest)
  then show ?thesis using recipients_parts [of "[]" c rest] by (simp add: one_recipient_def)
qed simp

lemma recipients_first:
  "list_all (\<lambda>c. \<not> is_recipient_separator c) a \<Longrightarrow> is_recipient_separator d \<Longrightarrow>
     parse_recipient_input (a @ d # rest) = one_recipient a @ parse_recipient_input rest"
  by (simp add: recipients_parts recipients_skip)

text \<open>A text without separators, or the text before its first separator and the rest.\<close>

lemma recipient_cases:
  obtains (plain) "list_all (\<lambda>c. \<not> is_recipient_separator c) s"
  | (parts) a d rest where "s = a @ d # rest" "list_all (\<lambda>c. \<not> is_recipient_separator c) a" "is_recipient_separator d"
proof (cases "\<exists>d \<in> set s. is_recipient_separator d")
  case True
  then obtain a d rest where "s = a @ d # rest" "is_recipient_separator d" "\<forall>c \<in> set a. \<not> is_recipient_separator c"
    using split_list_first_prop [of s is_recipient_separator] by blast
  then show ?thesis using parts by (simp add: list_all_iff)
next
  case False
  then show ?thesis using plain by (simp add: list_all_iff)
qed

lemma recipients_ws_first: "is_ws c \<Longrightarrow> parse_recipient_input (c # s) = parse_recipient_input s"
proof -
  assume ws: "is_ws c"
  then have one: "one_recipient (c # a) = one_recipient a" for a by (simp add: one_recipient_def trim_ws_first)
  show ?thesis
  proof (cases "is_recipient_separator c")
    case True
    then show ?thesis using recipients_first [of "[]" c s] by (simp add: one_recipient_def)
  next
    case False
    show ?thesis
    proof (cases s rule: recipient_cases)
      case plain
      then show ?thesis using False by (simp add: recipients_plain one)
    next
      case (parts a d rest)
      then show ?thesis using False recipients_first [of "c # a" d rest] recipients_first [of a d rest] by (simp add: one)
    qed
  qed
qed

lemma recipients_ws_last: "is_ws c \<Longrightarrow> parse_recipient_input (s @ [c]) = parse_recipient_input s"
proof (induction s rule: length_induct)
  case (1 s)
  have one: "one_recipient (a @ [c]) = one_recipient a" for a using 1 by (simp add: one_recipient_def trim_ws_last)
  show ?case
  proof (cases s rule: recipient_cases)
    case plain
    then show ?thesis
      using recipients_first [of s c "[]"] by (cases "is_recipient_separator c") (simp_all add: recipients_plain one)
  next
    case (parts a d rest)
    then have "parse_recipient_input (rest @ [c]) = parse_recipient_input rest" using 1 by simp
    then show ?thesis using parts recipients_first [of a d "rest @ [c]"] recipients_first [of a d rest] by simp
  qed
qed

lemma recipients_ws_left: "list_all is_ws w \<Longrightarrow> parse_recipient_input (w @ s) = parse_recipient_input s"
  by (induction w) (simp_all add: recipients_ws_first)

lemma recipients_ws_right: "list_all is_ws w \<Longrightarrow> parse_recipient_input (s @ w) = parse_recipient_input s"
proof (induction w rule: rev_induct)
  case (snoc c w)
  then show ?case using recipients_ws_last [of c "s @ w"] by simp
qed simp

text \<open>The check and the sending read the same recipients, although only the check trims the text.\<close>

lemma recipients_trim: "parse_recipient_input (trim s) = parse_recipient_input s"
proof -
  let ?b = "trim_start s"
  have "s = takeWhile is_ws s @ ?b" by (simp add: trim_start_def)
  then have "parse_recipient_input s = parse_recipient_input ?b"
    using recipients_ws_left [of "takeWhile is_ws s" ?b] by (metis list_all_iff set_takeWhileD)
  moreover have "?b = trim s @ rev (takeWhile is_ws (rev ?b))"
    by (simp add: trim_def trim_end_def) (metis rev_append rev_rev_ident takeWhile_dropWhile_id)
  then have "parse_recipient_input ?b = parse_recipient_input (trim s)"
    using recipients_ws_right [of "rev (takeWhile is_ws (rev ?b))" "trim s"] by (metis list_all_iff set_rev set_takeWhileD)
  ultimately show ?thesis by simp
qed

end
