(* ===== verification/SendingTheorems.thy ===== *)
theory SendingTheorems
  imports SendingConfigs
begin

text \<open>
  The page of sending configurations: one test message is sent at a time, to recipients that all look like addresses, and
  batches of history entries are deleted one at a time. What was typed while a message was under way is lost with its answer.
\<close>

fun sending_message :: "sending_call \<Rightarrow> bool" where
  "sending_message (Send_call p) = True"
| "sending_message (Page_call After_sending) = True"
| "sending_message c = False"

fun deleting_sents :: "sending_call \<Rightarrow> bool" where
  "deleting_sents (Sents_delete_call ids) = True"
| "deleting_sents (Page_call After_selection) = True"
| "deleting_sents c = False"

definition proper_sending :: "(jstr \<Rightarrow> bool) \<Rightarrow> sending_call \<Rightarrow> bool" where
  "proper_sending email_ok c =
     (case c of
        Send_call p \<Rightarrow> sp_domain p \<noteq> None \<and> sp_from p \<noteq> [] \<and> email_ok (sp_from p) \<and> sp_subject p \<noteq> [] \<and> sp_to p \<noteq> [] \<and>
          list_all email_pattern (sp_to p)
      | Sents_delete_call ids \<Rightarrow> ids \<noteq> []
      | _ \<Rightarrow> True)"

definition sending_inv :: "(jstr \<Rightarrow> bool) \<Rightarrow> sending_page \<Rightarrow> bool" where
  "sending_inv email_ok s \<longleftrightarrow>
     busy_with sending_message (sg_sending s) (sg_calls s) \<and> busy_with deleting_sents (sg_deleting s) (sg_calls s) \<and>
     list_all (proper_sending email_ok) (sg_calls s)"

lemma proper_test_message: "valid_test_form email_ok v \<Longrightarrow> proper_sending email_ok (Send_call (test_payload_of v))"
  by (auto simp: proper_sending_def valid_test_form_def valid_recipients_field_def has_only_valid_recipients_def test_payload_of_def
      recipients_trim Let_def)

lemmas sending_ops = push_sending_def end_sending_def load_sending_def

lemma sending_inv_frame:
  "sending_inv email_ok s \<Longrightarrow> sg_sending t = sg_sending s \<Longrightarrow> sg_deleting t = sg_deleting s \<Longrightarrow> sg_calls t = sg_calls s \<Longrightarrow>
     sending_inv email_ok t"
  by (simp add: sending_inv_def)

lemma sending_inv_loaded:
  assumes "sending_inv email_ok s" "Page_call purpose \<in> set (sg_calls s)"
  shows "sending_inv email_ok (on_sending purpose a (end_sending (Page_call purpose) s))"
  using assms
  by (cases purpose) (auto simp: sending_inv_def on_sending_def end_purpose_def end_sending_def proper_remove1 intro: busy_end)

lemma sending_inv_answered:
  assumes "sending_inv email_ok s"
  shows "Send_call p \<in> set (sg_calls s) \<Longrightarrow> sending_inv email_ok (on_test_sent ok (end_sending (Send_call p) s))"
    "Config_delete_call i \<in> set (sg_calls s) \<Longrightarrow> sending_inv email_ok (on_config_deleted result (end_sending (Config_delete_call i) s))"
    "Sent_delete_call i \<in> set (sg_calls s) \<Longrightarrow> sending_inv email_ok (on_sent_deleted i ok (end_sending (Sent_delete_call i) s))"
    "Sents_delete_call ids \<in> set (sg_calls s) \<Longrightarrow> sending_inv email_ok (on_selection_deleted ok (end_sending (Sents_delete_call ids) s))"
  using assms
  by (auto simp: sending_inv_def on_test_sent_def on_config_deleted_def on_sent_deleted_def on_selection_deleted_def sending_ops
      proper_remove1 proper_sending_def intro: busy_end busy_next dest: busy_flag)

lemma sending_inv_begun:
  assumes "sending_inv email_ok s"
  shows "\<not> sg_sending s \<Longrightarrow> sending_inv email_ok (handle_test_send email_ok s)"
    "\<not> sg_deleting s \<Longrightarrow> sending_inv email_ok (handle_delete_selection s)"
    "sending_inv email_ok (handle_delete_config i s)" "sending_inv email_ok (handle_delete_sent i s)"
    "sending_inv email_ok (load_sending For_page s)" "sending_inv email_ok (load_sending For_page (s\<lparr>sg_due := False\<rparr>))"
  using assms
  by (auto simp: sending_inv_def handle_test_send_def handle_delete_selection_def handle_delete_config_def handle_delete_sent_def sending_ops
      proper_test_message intro: busy_begin) (simp_all add: proper_sending_def)

lemma sending_inv_step: "sending_inv email_ok s \<Longrightarrow> sending_step email_ok s e t \<Longrightarrow> sending_inv email_ok t"
proof -
  assume inv: "sending_inv email_ok s" and step: "sending_step email_ok s e t"
  from step show "sending_inv email_ok t"
    by cases (simp_all add: sending_inv_loaded [OF inv] sending_inv_answered [OF inv] sending_inv_begun [OF inv] sending_inv_frame [OF inv])
qed

interpretation sending_operations: machine_invariant sending_start "sending_step email_ok" "sending_inv email_ok"
proof unfold_locales
  show "sending_start s \<Longrightarrow> sending_inv email_ok s" for s
    by (simp add: sending_start_def sending0_def sending_inv_def busy_with_def one_if_def)
qed (rule sending_inv_step)

section \<open>Properties\<close>

text \<open>C25: 
  The buttons are busy exactly while one operation of their kind is under way. A message goes to at least one recipient, and
  every recipient looks like an address - although the check reads the trimmed text and the sending the text as it was typed.
\<close>

theorem send_requests_proper:
  assumes "reach sending_start (sending_step email_ok) s"
  shows "length (filter sending_message (sg_calls s)) = (if sg_sending s then 1 else 0) \<and>
         length (filter deleting_sents (sg_calls s)) = (if sg_deleting s then 1 else 0) \<and>
         list_all (proper_sending email_ok) (sg_calls s)"
  using sending_operations.inv_reach [OF assms] by (simp add: sending_inv_def busy_with_def one_if_def)

text \<open>
  While a message is sent, the window can be closed, opened again and filled in anew: the answer to the message then closes it and
  empties the form.
\<close>

theorem answer_empties_form:
  assumes "sg_window s" "\<not> sg_sending s" "valid_test_form email_ok (sg_form s)"
  shows "\<exists>t. run (sending_step email_ok) s
            [Send_submitted, Send_cancelled, Send_opened, Send_form_edited f, Send_done (Send_call (test_payload_of (sg_form s))) True] t \<and>
           \<not> sg_window t \<and> sg_form t = empty_test_form"
proof -
  let ?c = "Send_call (test_payload_of (sg_form s))"
  let ?s1 = "handle_test_send email_ok s"
  let ?s2 = "?s1\<lparr>sg_window := False\<rparr>"
  let ?s3 = "?s2\<lparr>sg_window := True\<rparr>"
  let ?s4 = "?s3\<lparr>sg_form := f\<rparr>"
  let ?t = "on_test_sent True (end_sending ?c ?s4)"
  have s1: "sg_window ?s1" "?c \<in> set (sg_calls ?s1)" using assms by (simp_all add: handle_test_send_def push_sending_def)
  have steps: "sending_step email_ok s Send_submitted ?s1" "sending_step email_ok ?s1 Send_cancelled ?s2"
    "sending_step email_ok ?s2 Send_opened ?s3" "sending_step email_ok ?s3 (Send_form_edited f) ?s4"
    "sending_step email_ok ?s4 (Send_done ?c True) ?t"
    using send_submitted [OF assms(1,2)] send_cancelled [OF s1(1)] send_opened [of ?s2 email_ok] send_form_edited [of ?s3 email_ok f]
      send_done [OF refl, of _ ?s4 email_ok True] s1(2) by simp_all
  have "run (sending_step email_ok) s [Send_submitted, Send_cancelled, Send_opened, Send_form_edited f, Send_done ?c True] ?t"
    by (intro run.intros) (rule steps | simp)+
  then show ?thesis by (intro exI [of _ ?t]) (simp add: on_test_sent_def sending_ops del: run_Cons_iff)
qed

section \<open>Examples\<close>

definition sample_test_form :: test_form where
  "sample_test_form = \<lparr>tf_domain = Some 3, tf_mailbox = None, tf_from = js ''a@b.co'', tf_to = js '' x@y.co;z@w.co '', tf_subject = js ''hi'',
     tf_text = None, tf_html = None\<rparr>"

definition sending_filled :: sending_page where
  "sending_filled = sending0\<lparr>sg_window := True, sg_form := sample_test_form\<rparr>"

lemma sample_send_valid: "valid_test_form (\<lambda>e. True) sample_test_form"
  by (simp add: valid_test_form_def sample_test_form_def valid_recipients_field_def has_only_valid_recipients_def parse_recipient_input_def js_eval)

theorem send_requests_proper_witness:
  "sp_to (test_payload_of sample_test_form) \<noteq> [] \<and> list_all email_pattern (sp_to (test_payload_of sample_test_form))"
proof -
  let ?step = "sending_step (\<lambda>e. True)"
  have "reach sending_start ?step sending0" by (rule reach_start) (simp add: sending_start_def)
  moreover have "run ?step sending0 [Send_opened, Send_form_edited sample_test_form] sending_filled"
    using send_opened [of sending0 "\<lambda>e. True"] send_form_edited [of "sending0\<lparr>sg_window := True\<rparr>" "\<lambda>e. True" sample_test_form]
    by (auto simp: sending_filled_def sending0_def)
  ultimately have "reach sending_start ?step sending_filled" by (rule reach_run)
  moreover have "?step sending_filled Send_submitted (handle_test_send (\<lambda>e. True) sending_filled)"
    by (rule send_submitted) (simp_all add: sending_filled_def sending0_def)
  ultimately have "reach sending_start ?step (handle_test_send (\<lambda>e. True) sending_filled)" by (rule reach_step)
  from send_requests_proper [OF this] show ?thesis
    by (simp add: handle_test_send_def push_sending_def sending_filled_def sample_send_valid proper_sending_def)
qed

theorem answer_empties_form_witness:
  "\<exists>t. run (sending_step (\<lambda>e. True)) sending_filled
      [Send_submitted, Send_cancelled, Send_opened, Send_form_edited (sample_test_form\<lparr>tf_subject := js ''two''\<rparr>),
       Send_done (Send_call (test_payload_of sample_test_form)) True] t \<and> sg_form t = empty_test_form"
  using answer_empties_form [of sending_filled "\<lambda>e. True" "sample_test_form\<lparr>tf_subject := js ''two''\<rparr>"] sample_send_valid
  by (simp add: sending_filled_def sending0_def del: run_Cons_iff) blast

end
