(* ===== verification/AdminAccounts.thy ===== *)
theory AdminAccounts
  imports JsObject Listing
begin

text \<open>
  The page of administrators (web/src/pages/admins/index.tsx): the list with its pages, the window that creates and edits an
  administrator, and the deletion. Nothing stops a second press of the window's button while a request is under way. The
  length check of fields belongs to the form library and is the parameter \<open>min_ok\<close>.
\<close>

section \<open>Data\<close>

record admin_row =
  aw_id :: nat
  aw_name :: jstr
  aw_email :: "jstr option"
  aw_super :: bool
  aw_active :: bool
  aw_two :: bool

record admin_form =
  af_name :: jstr
  af_password :: jstr
  af_email :: "jstr option"
  af_super :: bool
  af_active :: bool
  af_two :: "bool option"

record admin_payload =
  ap_name :: jstr
  ap_password :: "jstr option"
  ap_email :: "jstr option"
  ap_super :: bool
  ap_active :: bool
  ap_two :: "bool option"

definition empty_admin_form :: admin_form where
  "empty_admin_form = \<lparr>af_name = [], af_password = [], af_email = None, af_super = False, af_active = True, af_two = None\<rparr>"

definition admin_form_of :: "admin_row \<Rightarrow> admin_form" where
  "admin_form_of r =
     \<lparr>af_name = aw_name r, af_password = [], af_email = aw_email r, af_super = aw_super r, af_active = aw_active r, af_two = Some (aw_two r)\<rparr>"

text \<open>A new administrator needs a password; the choice of the second factor is a field of the edited ones only.\<close>

definition valid_admin_form :: "(nat \<Rightarrow> jstr \<Rightarrow> bool) \<Rightarrow> bool \<Rightarrow> admin_form \<Rightarrow> bool" where
  "valid_admin_form min_ok editing v \<longleftrightarrow>
     af_name v \<noteq> [] \<and> min_ok 3 (af_name v) \<and> (editing \<or> af_password v \<noteq> [] \<and> min_ok 8 (af_password v))"

definition admin_payload_of :: "bool \<Rightarrow> admin_form \<Rightarrow> admin_payload" where
  "admin_payload_of editing v =
     \<lparr>ap_name = af_name v, ap_password = (if editing \<and> af_password v = [] then None else Some (af_password v)),
      ap_email = af_email v, ap_super = af_super v, ap_active = af_active v, ap_two = (if editing then af_two v else None)\<rparr>"

section \<open>State\<close>

type_synonym admins_query = "nat \<times> nat"

text \<open>A saving names the administrator edited, with the second factor it had when the window was opened.\<close>

datatype admins_call =
    Admins_call admins_query | Admin_save_call "(nat \<times> bool) option" admin_payload admins_query | Admin_delete_call nat admins_query

record admins_page =
  ad_screen :: admins_query
  ad_rows :: "admin_row list"
  ad_count :: nat
  ad_loading :: bool
  ad_due :: bool
  ad_window :: bool
  ad_editing :: "nat option"
  ad_editing_two :: bool
  ad_form :: admin_form
  ad_calls :: "admins_call list"

definition push_admins :: "admins_call \<Rightarrow> admins_page \<Rightarrow> admins_page" where
  "push_admins c s = s\<lparr>ad_calls := c # ad_calls s\<rparr>"

definition end_admins :: "admins_call \<Rightarrow> admins_page \<Rightarrow> admins_page" where
  "end_admins c s = s\<lparr>ad_calls := remove1 c (ad_calls s)\<rparr>"

definition turn_admin_page :: "admins_query \<Rightarrow> admins_page \<Rightarrow> admins_page" where
  "turn_admin_page q s = s\<lparr>ad_screen := q, ad_due := (ad_due s \<or> q \<noteq> ad_screen s)\<rparr>"

definition fetch_admins :: "admins_query \<Rightarrow> admins_page \<Rightarrow> admins_page" where
  "fetch_admins q s = push_admins (Admins_call q) (s\<lparr>ad_loading := True\<rparr>)"

definition on_admins :: "(admin_row list \<times> nat) option \<Rightarrow> admins_page \<Rightarrow> admins_page" where
  "on_admins result s =
     (case result of None \<Rightarrow> s | Some (rows, n) \<Rightarrow> s\<lparr>ad_rows := rows, ad_count := n\<rparr>)\<lparr>ad_loading := False\<rparr>"

definition handle_create_admin :: "admins_page \<Rightarrow> admins_page" where
  "handle_create_admin s = s\<lparr>ad_editing := None, ad_editing_two := False, ad_form := empty_admin_form, ad_window := True\<rparr>"

definition handle_edit_admin :: "admin_row \<Rightarrow> admins_page \<Rightarrow> admins_page" where
  "handle_edit_admin r s =
     s\<lparr>ad_editing := Some (aw_id r), ad_editing_two := aw_two r, ad_form := admin_form_of r, ad_window := True\<rparr>"

definition handle_delete_admin :: "nat \<Rightarrow> admins_page \<Rightarrow> admins_page" where
  "handle_delete_admin i s = push_admins (Admin_delete_call i (ad_screen s)) s"

definition on_admin_deleted :: "admins_query \<Rightarrow> bool \<Rightarrow> admins_page \<Rightarrow> admins_page" where
  "on_admin_deleted q ok s = (if ok then fetch_admins q s else s)"

definition handle_admin_submit :: "(nat \<Rightarrow> jstr \<Rightarrow> bool) \<Rightarrow> admins_page \<Rightarrow> admins_page" where
  "handle_admin_submit min_ok s =
     (let editing = ad_editing s \<noteq> None in
      if \<not> valid_admin_form min_ok editing (ad_form s) then s
      else push_admins
             (Admin_save_call (map_option (\<lambda>i. (i, ad_editing_two s)) (ad_editing s)) (admin_payload_of editing (ad_form s)) (ad_screen s)) s)"

definition on_admin_saved :: "admins_query \<Rightarrow> bool \<Rightarrow> admins_page \<Rightarrow> admins_page" where
  "on_admin_saved q ok s = (if ok then fetch_admins q (s\<lparr>ad_window := False\<rparr>) else s)"

section \<open>The machine\<close>

datatype admins_event =
    Admins_timer | Admins_language | Admins_page_changed admins_query | Admin_created | Admin_edited admin_row | Admin_cancelled
  | Admin_form_edited admin_form | Admin_submitted | Admin_delete_clicked nat
  | Admins_done admins_call "(admin_row list \<times> nat) option" | Admin_save_done admins_call bool | Admin_delete_done admins_call bool

text \<open>
  \<open>me\<close> is the administrator logged in, whose row has no button to delete it; \<open>holds q i\<close>: the server lists administrator
  \<open>i\<close> for \<open>q\<close>. The second factor can be chosen only for an administrator who had it when the window was opened.
\<close>

inductive admins_step ::
  "(nat \<Rightarrow> jstr \<Rightarrow> bool) \<Rightarrow> nat option \<Rightarrow> (admins_query \<Rightarrow> nat \<Rightarrow> bool) \<Rightarrow> admins_page \<Rightarrow> admins_event \<Rightarrow> admins_page \<Rightarrow> bool"
  for min_ok me holds where
  admins_timer: "ad_due s \<Longrightarrow> admins_step min_ok me holds s Admins_timer (fetch_admins (ad_screen s) (s\<lparr>ad_due := False\<rparr>))"
| admins_language: "admins_step min_ok me holds s Admins_language (s\<lparr>ad_due := True\<rparr>)"
| admins_page_changed: "\<not> ad_window s \<Longrightarrow> \<not> ad_loading s \<Longrightarrow>
     admins_step min_ok me holds s (Admins_page_changed q) (turn_admin_page q s)"
| admin_created: "\<not> ad_window s \<Longrightarrow> admins_step min_ok me holds s Admin_created (handle_create_admin s)"
| admin_edited: "\<not> ad_window s \<Longrightarrow> \<not> ad_loading s \<Longrightarrow> r \<in> set (ad_rows s) \<Longrightarrow>
     admins_step min_ok me holds s (Admin_edited r) (handle_edit_admin r s)"
| admin_cancelled: "ad_window s \<Longrightarrow> admins_step min_ok me holds s Admin_cancelled (s\<lparr>ad_window := False\<rparr>)"
| admin_form_edited: "ad_window s \<Longrightarrow> (af_two f = Some True \<longrightarrow> ad_editing_two s) \<Longrightarrow>
     admins_step min_ok me holds s (Admin_form_edited f) (s\<lparr>ad_form := f\<rparr>)"
| admin_submitted: "ad_window s \<Longrightarrow> admins_step min_ok me holds s Admin_submitted (handle_admin_submit min_ok s)"
| admin_delete_clicked: "\<not> ad_window s \<Longrightarrow> i \<in> set (map aw_id (ad_rows s)) \<Longrightarrow> me \<noteq> Some i \<Longrightarrow>
     admins_step min_ok me holds s (Admin_delete_clicked i) (handle_delete_admin i s)"
| admins_done: "c = Admins_call q \<Longrightarrow> c \<in> set (ad_calls s) \<Longrightarrow>
     (case result of None \<Rightarrow> True | Some (rows, n) \<Rightarrow> list_all (\<lambda>r. holds q (aw_id r)) rows) \<Longrightarrow>
     admins_step min_ok me holds s (Admins_done c result) (on_admins result (end_admins c s))"
| admin_save_done: "c = Admin_save_call i p q \<Longrightarrow> c \<in> set (ad_calls s) \<Longrightarrow>
     admins_step min_ok me holds s (Admin_save_done c ok) (on_admin_saved q ok (end_admins c s))"
| admin_delete_done: "c = Admin_delete_call i q \<Longrightarrow> c \<in> set (ad_calls s) \<Longrightarrow>
     admins_step min_ok me holds s (Admin_delete_done c ok) (on_admin_deleted q ok (end_admins c s))"

definition admins0 :: admins_page where
  "admins0 = \<lparr>ad_screen = (1, 10), ad_rows = [], ad_count = 0, ad_loading = False, ad_due = True, ad_window = False, ad_editing = None,
     ad_editing_two = False, ad_form = empty_admin_form, ad_calls = []\<rparr>"

definition admins_start :: "admins_page \<Rightarrow> bool" where
  "admins_start s \<longleftrightarrow> s = admins0"

section \<open>Requests\<close>

definition proper_admin_call :: "(nat \<Rightarrow> jstr \<Rightarrow> bool) \<Rightarrow> nat option \<Rightarrow> admins_call \<Rightarrow> bool" where
  "proper_admin_call min_ok me c =
     (case c of
        Admins_call q \<Rightarrow> True
      | Admin_save_call None p q \<Rightarrow>
          min_ok 3 (ap_name p) \<and> (case ap_password p of None \<Rightarrow> False | Some w \<Rightarrow> w \<noteq> [] \<and> min_ok 8 w) \<and> ap_two p = None
      | Admin_save_call (Some (i, two)) p q \<Rightarrow> min_ok 3 (ap_name p) \<and> ap_password p \<noteq> Some [] \<and> (ap_two p = Some True \<longrightarrow> two)
      | Admin_delete_call i q \<Rightarrow> me \<noteq> Some i)"

definition admins_inv :: "(nat \<Rightarrow> jstr \<Rightarrow> bool) \<Rightarrow> nat option \<Rightarrow> admins_page \<Rightarrow> bool" where
  "admins_inv min_ok me s \<longleftrightarrow>
     list_all (proper_admin_call min_ok me) (ad_calls s) \<and> (af_two (ad_form s) = Some True \<longrightarrow> ad_editing_two s)"

lemmas admins_ops = push_admins_def end_admins_def fetch_admins_def

lemma admin_save_proper:
  "valid_admin_form min_ok (e \<noteq> None) f \<Longrightarrow> (af_two f = Some True \<longrightarrow> two) \<Longrightarrow>
     proper_admin_call min_ok me (Admin_save_call (map_option (\<lambda>i. (i, two)) e) (admin_payload_of (e \<noteq> None) f) q)"
  by (cases e) (auto simp: proper_admin_call_def valid_admin_form_def admin_payload_of_def)

lemma admins_inv_submit: "admins_inv min_ok me s \<Longrightarrow> admins_inv min_ok me (handle_admin_submit min_ok s)"
  using admin_save_proper [of min_ok "ad_editing s" "ad_form s" "ad_editing_two s" me "ad_screen s"]
  by (simp add: admins_inv_def handle_admin_submit_def Let_def push_admins_def)

lemma admins_inv_step: "admins_inv min_ok me s \<Longrightarrow> admins_step min_ok me holds s e t \<Longrightarrow> admins_inv min_ok me t"
proof -
  assume inv: "admins_inv min_ok me s" and step: "admins_step min_ok me holds s e t"
  from step show "admins_inv min_ok me t"
  proof cases
    case admin_submitted
    then show ?thesis using admins_inv_submit [OF inv] by simp
  next
    case (admins_done c q result)
    then show ?thesis using inv by (auto simp: admins_inv_def on_admins_def end_admins_def proper_remove1 split: option.split)
  qed (use inv in \<open>auto simp: admins_inv_def admins_ops proper_admin_call_def handle_create_admin_def empty_admin_form_def handle_edit_admin_def
      admin_form_of_def turn_admin_page_def handle_delete_admin_def on_admin_deleted_def on_admin_saved_def proper_remove1\<close>)
qed

interpretation admin_requests: machine_invariant admins_start "admins_step min_ok me holds" "admins_inv min_ok me"
proof unfold_locales
  show "admins_start s \<Longrightarrow> admins_inv min_ok me s" for s
    by (simp add: admins_start_def admins0_def admins_inv_def empty_admin_form_def)
qed (rule admins_inv_step)

section \<open>The list\<close>

definition admins_query_of :: "admins_call \<Rightarrow> admins_query option" where
  "admins_query_of c = (case c of Admins_call q \<Rightarrow> Some q | _ \<Rightarrow> None)"

definition admins_view :: "admins_page \<Rightarrow> (admins_query, nat) listing" where
  "admins_view s =
     \<lparr>ls_par = ad_screen s, ls_due = ad_due s, ls_loads = List.map_filter admins_query_of (ad_calls s), ls_rows = map aw_id (ad_rows s)\<rparr>"

definition admins_fail :: "admins_event \<Rightarrow> bool" where
  "admins_fail e \<longleftrightarrow> (\<exists>c. e = Admins_done c None)"

lemma admins_query_simps [simp]:
  "admins_query_of (Admins_call q) = Some q" "admins_query_of (Admin_save_call i p q) = None" "admins_query_of (Admin_delete_call k q) = None"
  by (simp_all add: admins_query_of_def)

lemma admins_same:
  assumes "ad_screen t = ad_screen s" "ad_due t = ad_due s" "ad_rows t = ad_rows s"
    "List.map_filter admins_query_of (ad_calls t) = List.map_filter admins_query_of (ad_calls s)"
  shows "listing_step holds ok (admins_view s) (admins_view t)"
  by (rule listing_same) (simp add: assms admins_view_def)

lemma admins_load: "listing_step holds ok v (admins_view (fetch_admins q s))"
  by (rule listing_step.loading) (simp add: admins_view_def admins_ops List.map_filter_simps)

lemma admins_turned: "listing_step holds ok (admins_view s) (admins_view (turn_admin_page q s))"
proof (cases "q = ad_screen s")
  case True
  then show ?thesis by (intro admins_same) (simp_all add: turn_admin_page_def)
next
  case False
  then show ?thesis by (intro listing_step.change) (simp add: admins_view_def turn_admin_page_def)
qed

lemma admins_view_step:
  assumes "admins_step min_ok me holds s e t"
  shows "listing_step holds (\<not> admins_fail e) (admins_view s) (admins_view t)"
  using assms
proof cases
  case admins_language
  then show ?thesis by (intro listing_step.change) (simp add: admins_view_def)
next
  case (admins_done c q result)
  show ?thesis
  proof (cases result)
    case None
    then show ?thesis using admins_done by (intro listing_step.failed) (auto simp: admins_fail_def)
  next
    case (Some a)
    have "q \<in> set (ls_loads (admins_view s))" using admins_done by (auto simp: admins_view_def intro: map_filter_mem [of c])
    then show ?thesis using admins_done Some
      by (intro listing_step.answered [of q]) (auto simp: admins_view_def on_admins_def end_admins_def list_all_iff split: prod.splits)
  qed
next
  case (admin_save_done c i p q ok)
  then show ?thesis by (cases ok) (auto simp: on_admin_saved_def admins_load end_admins_def map_filter_remove1_None intro!: admins_same)
next
  case (admin_delete_done c i q ok)
  then show ?thesis by (cases ok) (auto simp: on_admin_deleted_def admins_load end_admins_def map_filter_remove1_None intro!: admins_same)
qed (simp_all add: admins_load admins_same admins_turned handle_create_admin_def handle_edit_admin_def handle_delete_admin_def
    handle_admin_submit_def Let_def push_admins_def List.map_filter_simps)

interpretation admins_list: listing admins_start "admins_step min_ok me holds" admins_view admins_fail holds
proof unfold_locales
  show "admins_start s \<Longrightarrow> listing_fresh holds (admins_view s)" for s
    by (intro fresh_empty) (auto simp: admins_start_def admins0_def admins_view_def List.map_filter_simps)
qed (rule admins_view_step)

section \<open>Properties\<close>

text \<open>C26: 
  Whatever is pressed, every request keeps the rules of the page: a new administrator has a name and a password of the required
  length and no second factor, an edit never sends an empty password and never turns a second factor on, and nobody deletes the
  own account.
\<close>

theorem admin_requests_proper:
  assumes "reach admins_start (admins_step min_ok me holds) s"
  shows "list_all (proper_admin_call min_ok me) (ad_calls s)"
  using admin_requests.inv_reach [OF assms] by (simp add: admins_inv_def)

text \<open>When nothing is pending, the administrators listed are those of the page on the screen, unless a load has failed or one for another page
  was still under way at some time.\<close>

theorem admins_of_page:
  assumes "reach admins_start (calm_step admins_view admins_fail (admins_step min_ok me holds)) s" "listing_settled (admins_view s)"
  shows "\<forall>r \<in> set (ad_rows s). holds (ad_screen s) (aw_id r)"
  using admins_list.settled_rows [OF assms] by (auto simp: admins_view_def list_all_iff)

text \<open>
  The button of the window is never busy: pressing it twice sends the same administrator twice, and the answer of the first closes
  the window of whatever is being edited when it arrives.
\<close>

theorem admin_sent_twice:
  assumes "ad_window s" "ad_editing s = None" "valid_admin_form min_ok False (ad_form s)" "af_two (ad_form s) = None"
  defines "c \<equiv> Admin_save_call None (admin_payload_of False (ad_form s)) (ad_screen s)"
  shows "\<exists>t u. run (admins_step min_ok me holds) s [Admin_submitted, Admin_submitted] t \<and> ad_calls t = c # c # ad_calls s \<and>
           run (admins_step min_ok me holds) t [Admin_cancelled, Admin_created, Admin_form_edited (ad_form s), Admin_save_done c True] u \<and>
           \<not> ad_window u \<and> c \<in> set (ad_calls u)"
proof -
  let ?s1 = "handle_admin_submit min_ok s"
  let ?t = "handle_admin_submit min_ok ?s1"
  let ?t1 = "?t\<lparr>ad_window := False\<rparr>"
  let ?t2 = "handle_create_admin ?t1"
  have s1: "?s1 = push_admins c s" and t: "?t = push_admins c (push_admins c s)"
    using assms by (simp_all add: handle_admin_submit_def push_admins_def)
  have first: "run (admins_step min_ok me holds) s [Admin_submitted, Admin_submitted] ?t"
    using admin_submitted [OF assms(1), of min_ok me holds] admin_submitted [of ?s1 min_ok me holds] assms(1)
    by (auto simp: s1 push_admins_def)
  let ?u = "on_admin_saved (ad_screen s) True (end_admins c (?t2\<lparr>ad_form := ad_form s\<rparr>))"
  have "admins_step min_ok me holds ?t Admin_cancelled ?t1" "admins_step min_ok me holds ?t1 Admin_created ?t2"
    using assms(1) by (auto simp: t push_admins_def intro!: admin_cancelled admin_created)
  moreover have "admins_step min_ok me holds ?t2 (Admin_form_edited (ad_form s)) (?t2\<lparr>ad_form := ad_form s\<rparr>)"
    using assms(4) by (intro admin_form_edited) (simp_all add: handle_create_admin_def)
  moreover have "admins_step min_ok me holds (?t2\<lparr>ad_form := ad_form s\<rparr>) (Admin_save_done c True) ?u"
    unfolding c_def by (rule admin_save_done [OF refl]) (simp add: t handle_create_admin_def push_admins_def c_def)
  ultimately have "run (admins_step min_ok me holds) ?t
      [Admin_cancelled, Admin_created, Admin_form_edited (ad_form s), Admin_save_done c True] ?u" by (blast intro: run.intros)
  then show ?thesis using first
    by (intro exI [of _ ?t] exI [of _ ?u])
      (simp add: t on_admin_saved_def admins_ops handle_create_admin_def del: run_Cons_iff)
qed

section \<open>Examples\<close>

definition sample_admin :: admin_row where
  "sample_admin = \<lparr>aw_id = 4, aw_name = js ''root'', aw_email = None, aw_super = True, aw_active = True, aw_two = False\<rparr>"

definition admins_loading :: admins_page where
  "admins_loading = fetch_admins (1, 10) (admins0\<lparr>ad_due := False\<rparr>)"

definition admins_listed :: admins_page where
  "admins_listed = on_admins (Some ([sample_admin], 1)) (end_admins (Admins_call (1, 10)) admins_loading)"

lemma admins_sample_steps:
  "admins_step min_ok me (\<lambda>q i. i < 5) admins0 Admins_timer admins_loading"
  "admins_step min_ok me (\<lambda>q i. i < 5) admins_loading (Admins_done (Admins_call (1, 10)) (Some ([sample_admin], 1))) admins_listed"
proof -
  show "admins_step min_ok me (\<lambda>q i. i < 5) admins0 Admins_timer admins_loading"
    using admins_timer [of admins0 min_ok me "\<lambda>q i. i < 5"] by (simp add: admins_loading_def admins0_def)
  show "admins_step min_ok me (\<lambda>q i. i < 5) admins_loading (Admins_done (Admins_call (1, 10)) (Some ([sample_admin], 1))) admins_listed"
    unfolding admins_listed_def by (rule admins_done [OF refl]) (simp_all add: admins_loading_def admins_ops sample_admin_def)
qed

lemma admins_sample_eval:
  "ad_rows admins_listed = [sample_admin]" "ad_calls admins_listed = []" "\<not> ad_due admins_listed" "\<not> ad_window admins_listed"
  "\<not> ad_loading admins_listed" "ad_calls admins_loading = [Admins_call (1, 10)]" "ad_screen admins_loading = (1, 10)"
  by (simp_all add: admins_listed_def admins_loading_def on_admins_def admins_ops admins0_def)

lemma admins_start0: "admins_start admins0"
  by (simp add: admins_start_def)

theorem admin_requests_proper_witness:
  "\<exists>s :: admins_page. Admin_save_call (Some (4, False)) (admin_payload_of True (admin_form_of sample_admin)) (1, 10) \<in> set (ad_calls s) \<and>
     list_all (proper_admin_call (\<lambda>n w. n \<le> length w) (Some 7)) (ad_calls s)"
proof -
  let ?step = "admins_step (\<lambda>n w. n \<le> length w) (Some 7) (\<lambda>q i. i < (5::nat))"
  let ?s = "handle_edit_admin sample_admin admins_listed"
  let ?t = "handle_admin_submit (\<lambda>n w. n \<le> length w) ?s"
  have "reach admins_start ?step admins_listed"
    using admins_sample_steps admins_start0 by (meson reach_start reach_step)
  moreover have "?step admins_listed (Admin_edited sample_admin) ?s"
    by (rule admin_edited) (simp_all add: admins_sample_eval)
  moreover have "?step ?s Admin_submitted ?t" by (rule admin_submitted) (simp add: handle_edit_admin_def)
  ultimately have "reach admins_start ?step ?t" by (meson reach_step)
  from admin_requests_proper [OF this]
  have "list_all (proper_admin_call (\<lambda>n w. n \<le> length w) (Some 7)) (ad_calls ?t)" .
  moreover have "Admin_save_call (Some (4, False)) (admin_payload_of True (admin_form_of sample_admin)) (1, 10) \<in> set (ad_calls ?t)"
    by (simp add: handle_admin_submit_def handle_edit_admin_def push_admins_def valid_admin_form_def admin_form_of_def sample_admin_def
        js_def admins_listed_def on_admins_def admins_loading_def admins_ops admins0_def)
  ultimately show ?thesis by blast
qed

theorem admins_of_page_witness: "\<forall>r \<in> set (ad_rows admins_listed). aw_id r < 5"
proof -
  let ?step = "calm_step admins_view admins_fail (admins_step (\<lambda>n w. True) None (\<lambda>q i. i < 5))"
  have "?step admins0 Admins_timer admins_loading"
    using admins_sample_steps(1)
    by (intro calm_stepI) (simp_all add: admins_fail_def admins_view_def listing_calm_def admins_sample_eval List.map_filter_simps)
  moreover have "?step admins_loading (Admins_done (Admins_call (1, 10)) (Some ([sample_admin], 1))) admins_listed"
    using admins_sample_steps(2)
    by (intro calm_stepI) (simp_all add: admins_fail_def admins_view_def listing_calm_def admins_sample_eval List.map_filter_simps)
  ultimately have "reach admins_start ?step admins_listed" using admins_start0 by (meson reach_start reach_step)
  moreover have "listing_settled (admins_view admins_listed)"
    by (simp add: listing_settled_def admins_view_def admins_sample_eval List.map_filter_simps)
  ultimately show ?thesis using admins_of_page [of "\<lambda>n w. True" None "\<lambda>q i. i < 5" admins_listed] by simp
qed

theorem admin_sent_twice_witness:
  "\<exists>t u. ad_calls t \<noteq> [] \<and> run (admins_step (\<lambda>n w. True) None (\<lambda>q i. True)) t
     [Admin_cancelled, Admin_created, Admin_form_edited (empty_admin_form\<lparr>af_name := [65], af_password := [66]\<rparr>),
      Admin_save_done (Admin_save_call None (admin_payload_of False (empty_admin_form\<lparr>af_name := [65], af_password := [66]\<rparr>)) (1, 10)) True] u \<and>
     \<not> ad_window u"
proof -
  let ?f = "empty_admin_form\<lparr>af_name := [65], af_password := [66]\<rparr>"
  let ?s = "admins0\<lparr>ad_window := True, ad_form := ?f\<rparr>"
  have "ad_window ?s" "ad_editing ?s = None" "valid_admin_form (\<lambda>n w. True) False (ad_form ?s)" "af_two (ad_form ?s) = None"
    by (simp_all add: admins0_def valid_admin_form_def empty_admin_form_def)
  from admin_sent_twice [OF this, of None "\<lambda>q i. True"]
  obtain t u where "ad_calls t \<noteq> []" "\<not> ad_window u" and
    r: "run (admins_step (\<lambda>n w. True) None (\<lambda>q i. True)) t [Admin_cancelled, Admin_created, Admin_form_edited (ad_form ?s),
        Admin_save_done (Admin_save_call None (admin_payload_of False (ad_form ?s)) (ad_screen ?s)) True] u" by force
  moreover have "ad_form ?s = ?f" "ad_screen ?s = (1, 10)" by (simp_all add: admins0_def)
  ultimately show ?thesis by metis
qed

end
