(* ===== verification/Dashboard.thy ===== *)
theory Dashboard
  imports Providers Listing
begin

text \<open>
  The administrator's dashboard (web/src/pages/dashboard): the loading of the figures and of the trend for the window
  chosen, with the flags that drop answers nobody waits for any more, the demonstration data of a local host, and the figures
  the overview derives. Counts are integers; texts and layout are left out.
\<close>

section \<open>Data\<close>

record key_stats =
  ks_total :: int
  ks_active :: int
  ks_usage :: int
  ks_today :: int

record domain_mail_stats =
  dms_domains :: int
  dms_active_domains :: int
  dms_mailboxes :: int
  dms_active_mailboxes :: int
  dms_inbound :: int
  dms_outbound :: int

record dashboard_stats =
  ds_keys :: key_stats
  ds_mail :: domain_mail_stats

record email_stats =
  es_total :: int
  es_active :: int
  es_error :: int
  es_providers :: "email_provider \<Rightarrow> int option"

type_synonym trend_item = "jstr \<times> int"

datatype trend_window = Days_7 | Days_14 | Days_30

definition empty_email_stats :: email_stats where
  "empty_email_stats = \<lparr>es_total = 0, es_active = 0, es_error = 0, es_providers = (\<lambda>p. None)\<rparr>"

definition empty_dashboard_stats :: dashboard_stats where
  "empty_dashboard_stats =
     \<lparr>ds_keys = \<lparr>ks_total = 0, ks_active = 0, ks_usage = 0, ks_today = 0\<rparr>,
      ds_mail = \<lparr>dms_domains = 0, dms_active_domains = 0, dms_mailboxes = 0, dms_active_mailboxes = 0, dms_inbound = 0, dms_outbound = 0\<rparr>\<rparr>"

definition resolve_email_stats :: "email_stats option \<Rightarrow> email_stats" where
  "resolve_email_stats v = (case v of None \<Rightarrow> empty_email_stats | Some s \<Rightarrow> s)"

definition resolve_dashboard_stats :: "dashboard_stats option \<Rightarrow> dashboard_stats" where
  "resolve_dashboard_stats v = (case v of None \<Rightarrow> empty_dashboard_stats | Some s \<Rightarrow> s)"

section \<open>Demonstration data\<close>

definition is_local_proof_host :: "jstr option \<Rightarrow> bool" where
  "is_local_proof_host hostname =
     (case hostname of None \<Rightarrow> False | Some h \<Rightarrow> h = js ''127.0.0.1'' \<or> h = js ''localhost'')"

definition dashboard_proof_mode :: jstr where
  "dashboard_proof_mode = js ''degraded-data''"

definition is_degraded_proof :: "jstr option \<Rightarrow> jstr option \<Rightarrow> bool" where
  "is_degraded_proof hostname param \<longleftrightarrow>
     (if is_local_proof_host hostname then (case param of None \<Rightarrow> [] | Some p \<Rightarrow> trim p) else []) = dashboard_proof_mode"

definition proof_stats :: dashboard_stats where
  "proof_stats =
     \<lparr>ds_keys = \<lparr>ks_total = 12, ks_active = 4, ks_usage = 12894, ks_today = 1\<rparr>,
      ds_mail = \<lparr>dms_domains = 3, dms_active_domains = 2, dms_mailboxes = 18, dms_active_mailboxes = 9, dms_inbound = 1524,
        dms_outbound = 286\<rparr>\<rparr>"

definition proof_email_stats :: email_stats where
  "proof_email_stats = \<lparr>es_total = 42, es_active = 27, es_error = 5, es_providers = [OUTLOOK \<mapsto> 21, GMAIL \<mapsto> 12, QQ \<mapsto> 9]\<rparr>"

definition proof_trend :: "trend_item list" where
  "proof_trend = [(js ''04-01'', 182), (js ''04-02'', 164), (js ''04-03'', 96), (js ''04-04'', 58), (js ''04-05'', 41), (js ''04-06'', 73),
     (js ''04-07'', 52)]"

section \<open>State\<close>

text \<open>A load of the trend carries the flag that its effect sets when it is cleaned up.\<close>

datatype dashboard_call = Core_call | Trend_call trend_window bool

text \<open>An answer of the figures: each part is there when its code is 200.\<close>

record core_answer =
  ca_stats :: "dashboard_stats option"
  ca_emails :: "email_stats option"
  ca_logs :: "nat list option"
  ca_errors :: "nat list option"

record dashboard =
  db_proof :: bool
  db_mounted :: bool
  db_core_loading :: bool
  db_trend_loading :: bool
  db_logs_loading :: bool
  db_ready :: bool
  db_in_view :: bool
  db_window :: trend_window
  db_stats :: "dashboard_stats option"
  db_emails :: "email_stats option"
  db_trend :: "trend_item list"
  db_logs :: "nat list"
  db_errors :: "nat list"
  db_calls :: "dashboard_call list"

definition drop_call :: "dashboard_call \<Rightarrow> dashboard \<Rightarrow> dashboard" where
  "drop_call c s = s\<lparr>db_calls := remove1 c (db_calls s)\<rparr>"

fun cancel_trend :: "dashboard_call \<Rightarrow> dashboard_call" where
  "cancel_trend Core_call = Core_call"
| "cancel_trend (Trend_call d cancelled) = Trend_call d True"

definition trend_cleanup :: "dashboard \<Rightarrow> dashboard" where
  "trend_cleanup s = s\<lparr>db_calls := map cancel_trend (db_calls s)\<rparr>"

definition trend_effect :: "dashboard \<Rightarrow> dashboard" where
  "trend_effect s =
     (if db_proof s then s\<lparr>db_trend_loading := False\<rparr>
      else if \<not> db_ready s \<or> \<not> db_in_view s then s
      else s\<lparr>db_trend_loading := True, db_calls := Trend_call (db_window s) False # db_calls s\<rparr>)"

text \<open>The effect of the trend runs again when one of the values it depends on changes.\<close>

definition choose_window :: "trend_window \<Rightarrow> dashboard \<Rightarrow> dashboard" where
  "choose_window d s = (if d = db_window s then s else trend_effect ((trend_cleanup s)\<lparr>db_window := d\<rparr>))"

definition charts_ready :: "dashboard \<Rightarrow> dashboard" where
  "charts_ready s = (if db_ready s then s else trend_effect ((trend_cleanup s)\<lparr>db_ready := True\<rparr>))"

definition charts_in_view :: "dashboard \<Rightarrow> dashboard" where
  "charts_in_view s = (if db_in_view s then s else trend_effect ((trend_cleanup s)\<lparr>db_in_view := True\<rparr>))"

definition on_core :: "core_answer option \<Rightarrow> dashboard \<Rightarrow> dashboard" where
  "on_core result s =
     (if \<not> db_mounted s then s
      else (case result of
              None \<Rightarrow> s
            | Some a \<Rightarrow>
                s\<lparr>db_stats := (case ca_stats a of None \<Rightarrow> db_stats s | v \<Rightarrow> v),
                  db_emails := (case ca_emails a of None \<Rightarrow> db_emails s | v \<Rightarrow> v),
                  db_logs := (case ca_logs a of None \<Rightarrow> db_logs s | Some xs \<Rightarrow> xs),
                  db_errors := (case ca_errors a of None \<Rightarrow> db_errors s | Some xs \<Rightarrow> xs)\<rparr>)
           \<lparr>db_core_loading := False, db_logs_loading := False\<rparr>)"

definition on_trend :: "bool \<Rightarrow> trend_item list option \<Rightarrow> dashboard \<Rightarrow> dashboard" where
  "on_trend cancelled result s =
     (if cancelled then s
      else (case result of None \<Rightarrow> s | Some items \<Rightarrow> s\<lparr>db_trend := items\<rparr>)\<lparr>db_trend_loading := False\<rparr>)"

definition unmount_dashboard :: "dashboard \<Rightarrow> dashboard" where
  "unmount_dashboard s = (trend_cleanup s)\<lparr>db_mounted := False\<rparr>"

definition dashboard0 :: "bool \<Rightarrow> dashboard" where
  "dashboard0 degraded =
     \<lparr>db_proof = degraded, db_mounted = True, db_core_loading = True, db_trend_loading = True, db_logs_loading = True, db_ready = False,
      db_in_view = False, db_window = Days_14, db_stats = None, db_emails = None, db_trend = [], db_logs = [], db_errors = [],
      db_calls = []\<rparr>"

text \<open>The first effects: the demonstration data, or the load of the figures.\<close>

definition mount_dashboard :: "bool \<Rightarrow> dashboard" where
  "mount_dashboard degraded =
     (if degraded
      then (dashboard0 True)\<lparr>db_stats := Some proof_stats, db_emails := Some proof_email_stats, db_logs := [901, 902],
             db_errors := [401, 402, 403], db_trend := proof_trend, db_core_loading := False, db_logs_loading := False,
             db_trend_loading := False, db_ready := True, db_in_view := True\<rparr>
      else trend_effect ((dashboard0 False)\<lparr>db_calls := [Core_call]\<rparr>))"

section \<open>The machine\<close>

datatype dashboard_event =
    Window_chosen trend_window | Charts_ready | Charts_in_view | Core_done "core_answer option"
  | Trend_done trend_window bool "trend_item list option" | Dashboard_left

text \<open>\<open>holds d i\<close>: item \<open>i\<close> belongs to the trend over the window \<open>d\<close>.\<close>

inductive dashboard_step ::
  "(trend_window \<Rightarrow> trend_item \<Rightarrow> bool) \<Rightarrow> dashboard \<Rightarrow> dashboard_event \<Rightarrow> dashboard \<Rightarrow> bool" for holds where
  window_chosen: "db_mounted s \<Longrightarrow> dashboard_step holds s (Window_chosen d) (choose_window d s)"
| charts_ready: "db_mounted s \<Longrightarrow> dashboard_step holds s Charts_ready (charts_ready s)"
| charts_in_view: "db_mounted s \<Longrightarrow> dashboard_step holds s Charts_in_view (charts_in_view s)"
| core_done: "Core_call \<in> set (db_calls s) \<Longrightarrow> dashboard_step holds s (Core_done result) (on_core result (drop_call Core_call s))"
| trend_done: "Trend_call d cancelled \<in> set (db_calls s) \<Longrightarrow>
     (case result of None \<Rightarrow> True | Some items \<Rightarrow> list_all (holds d) items) \<Longrightarrow>
     dashboard_step holds s (Trend_done d cancelled result) (on_trend cancelled result (drop_call (Trend_call d cancelled) s))"
| dashboard_left: "db_mounted s \<Longrightarrow> dashboard_step holds s Dashboard_left (unmount_dashboard s)"

definition dashboard_start :: "dashboard \<Rightarrow> bool" where
  "dashboard_start s \<longleftrightarrow> (\<exists>degraded. s = mount_dashboard degraded)"

section \<open>The overview\<close>

definition inactive_domains :: "dashboard_stats \<Rightarrow> int" where
  "inactive_domains st = max (dms_domains (ds_mail st) - dms_active_domains (ds_mail st)) 0"

definition inactive_mailboxes :: "dashboard_stats \<Rightarrow> int" where
  "inactive_mailboxes st = max (dms_mailboxes (ds_mail st) - dms_active_mailboxes (ds_mail st)) 0"

definition attention_count :: "dashboard_stats \<Rightarrow> email_stats \<Rightarrow> int" where
  "attention_count st es = es_error es + inactive_domains st + inactive_mailboxes st"

definition has_attention :: "dashboard_stats \<Rightarrow> email_stats \<Rightarrow> bool" where
  "has_attention st es \<longleftrightarrow> attention_count st es > 0"

datatype metric_state = Metric_idle | Metric_attention | Metric_clear

definition metric_state_of :: "int \<Rightarrow> int \<Rightarrow> metric_state" where
  "metric_state_of count unavailable =
     (if count = 0 then Metric_idle else if unavailable > 0 then Metric_attention else Metric_clear)"

definition summary_metrics :: "dashboard_stats \<Rightarrow> email_stats \<Rightarrow> metric_state list" where
  "summary_metrics st es =
     [metric_state_of (es_total es) (es_error es), metric_state_of (dms_domains (ds_mail st)) (inactive_domains st),
      metric_state_of (dms_mailboxes (ds_mail st)) (inactive_mailboxes st),
      if ks_total (ds_keys st) = 0 then Metric_idle else Metric_clear]"

datatype queue_tone = Tone_danger | Tone_warning | Tone_success

definition queue_items :: "dashboard_stats \<Rightarrow> email_stats \<Rightarrow> (int \<times> queue_tone) list" where
  "queue_items st es =
     [(es_error es, if es_error es > 0 then Tone_danger else Tone_success),
      (inactive_domains st, if inactive_domains st > 0 then Tone_warning else Tone_success),
      (inactive_mailboxes st, if inactive_mailboxes st > 0 then Tone_warning else Tone_success)]"

text \<open>The rows of the providers, by their count and then by their names, in the order \<open>rank\<close> of the language.\<close>

definition provider_count :: "email_stats \<Rightarrow> email_provider \<Rightarrow> int" where
  "provider_count es p = (case es_providers es p of None \<Rightarrow> 0 | Some n \<Rightarrow> n)"

definition provider_rows :: "(email_provider \<Rightarrow> nat) \<Rightarrow> email_stats \<Rightarrow> email_provider list" where
  "provider_rows rank es = sort_key (\<lambda>p. - provider_count es p) (sort_key rank provider_order)"

definition active_provider_rows :: "(email_provider \<Rightarrow> nat) \<Rightarrow> email_stats \<Rightarrow> email_provider list" where
  "active_provider_rows rank es = filter (\<lambda>p. provider_count es p > 0) (provider_rows rank es)"

definition displayed_providers :: "(email_provider \<Rightarrow> nat) \<Rightarrow> email_stats \<Rightarrow> email_provider list" where
  "displayed_providers rank es =
     (if active_provider_rows rank es \<noteq> [] then active_provider_rows rank es else take 3 (provider_rows rank es))"

definition dominant_provider :: "(email_provider \<Rightarrow> nat) \<Rightarrow> email_stats \<Rightarrow> email_provider option" where
  "dominant_provider rank es = (case active_provider_rows rank es of [] \<Rightarrow> None | p # ps \<Rightarrow> Some p)"

text \<open>\<open>Math.round\<close> of a quotient: halves go up. The quotient of two numbers of this size is rounded once, so a half is exact.\<close>

definition round_quotient :: "int \<Rightarrow> int \<Rightarrow> int" where
  "round_quotient a b = (2 * a + b) div (2 * b)"

definition trend_total :: "trend_item list \<Rightarrow> int" where
  "trend_total items = foldl (\<lambda>n item. n + snd item) 0 items"

definition trend_average :: "trend_item list \<Rightarrow> int" where
  "trend_average items = (if items = [] then 0 else round_quotient (trend_total items) (int (length items)))"

definition trend_peak :: "trend_item list \<Rightarrow> int" where
  "trend_peak items = foldl (\<lambda>n item. max n (snd item)) 0 items"

end
