(* ===== verification/DashboardTheorems.thy ===== *)
theory DashboardTheorems
  imports Dashboard "HOL-Library.Multiset"
begin

text \<open>
  The dashboard: one load of the trend is waited for, and it is the one for the window chosen, so that the trend shown
  belongs to it whatever the order of the answers; the parts of the overview agree with each other.
\<close>

section \<open>One trend at a time\<close>

fun live_trend :: "dashboard_call \<Rightarrow> trend_window option" where
  "live_trend (Trend_call d False) = Some d"
| "live_trend c = None"

definition live_trends :: "dashboard \<Rightarrow> trend_window list" where
  "live_trends s = List.map_filter live_trend (db_calls s)"

definition waits_for_trend :: "dashboard \<Rightarrow> bool" where
  "waits_for_trend s \<longleftrightarrow> db_mounted s \<and> db_ready s \<and> db_in_view s \<and> db_trend_loading s"

definition trend_inv :: "dashboard \<Rightarrow> bool" where
  "trend_inv s \<longleftrightarrow> live_trends s = (if waits_for_trend s then [db_window s] else []) \<and> (db_proof s \<longrightarrow> \<not> db_trend_loading s)"

lemma map_filter_cancelled: "List.map_filter live_trend (map cancel_trend cs) = []"
proof (induction cs)
  case (Cons c cs)
  then show ?case by (cases c) (simp_all add: List.map_filter_simps)
qed simp

lemma live_cleanup [simp]: "live_trends (trend_cleanup s) = []"
  by (simp add: live_trends_def trend_cleanup_def map_filter_cancelled)

lemma live_effect:
  "live_trends s = [] \<Longrightarrow>
     live_trends (trend_effect s) = (if db_proof s \<or> \<not> db_ready s \<or> \<not> db_in_view s then [] else [db_window s])"
  by (simp add: trend_effect_def live_trends_def List.map_filter_simps)

text \<open>After a cleanup and a change of the values, the effect waits for the window on the screen.\<close>

lemma trend_inv_effect:
  "db_calls s = map cancel_trend cs \<Longrightarrow> db_mounted s \<Longrightarrow> db_proof s \<or> \<not> waits_for_trend s \<or> db_ready s \<and> db_in_view s \<Longrightarrow>
     trend_inv (trend_effect s)"
proof -
  assume "db_calls s = map cancel_trend cs" "db_mounted s"
  then have "live_trends s = []" by (simp add: live_trends_def map_filter_cancelled)
  from live_effect [OF this] show ?thesis using \<open>db_mounted s\<close>
    by (auto simp: trend_inv_def trend_effect_def waits_for_trend_def)
qed

lemma trend_inv_cleanup:
  assumes "trend_inv s" "db_mounted s"
  shows "trend_inv (choose_window d s)" "trend_inv (charts_ready s)" "trend_inv (charts_in_view s)"
  using assms
  by (auto simp: choose_window_def charts_ready_def charts_in_view_def trend_cleanup_def intro!: trend_inv_effect)
    (auto simp: waits_for_trend_def)

lemma live_dropped: "live_trend c = None \<Longrightarrow> live_trends (drop_call c s) = live_trends s"
  by (simp add: live_trends_def drop_call_def map_filter_remove1_None)

lemma live_answered: "live_trends s = [w] \<Longrightarrow> Trend_call d False \<in> set (db_calls s) \<Longrightarrow> d = w \<and> live_trends (drop_call (Trend_call d False) s) = []"
proof -
  have aux: "List.map_filter live_trend cs = [w] \<Longrightarrow> Trend_call d False \<in> set cs \<Longrightarrow>
      d = w \<and> List.map_filter live_trend (remove1 (Trend_call d False) cs) = []" for cs
  proof (induction cs)
    case (Cons c cs)
    then show ?case
      by (cases "live_trend c") (auto simp: List.map_filter_simps dest: map_filter_mem [where f = live_trend and p = d])
  qed simp
  show "live_trends s = [w] \<Longrightarrow> Trend_call d False \<in> set (db_calls s) \<Longrightarrow> d = w \<and> live_trends (drop_call (Trend_call d False) s) = []"
    using aux by (simp add: live_trends_def drop_call_def)
qed

lemma live_pending: "Trend_call d False \<in> set (db_calls s) \<Longrightarrow> live_trends s \<noteq> []"
  using map_filter_mem [of "Trend_call d False" "db_calls s" live_trend d] by (auto simp: live_trends_def)

lemma trend_inv_trend:
  assumes "trend_inv s" "Trend_call d cancelled \<in> set (db_calls s)"
  shows "trend_inv (on_trend cancelled result (drop_call (Trend_call d cancelled) s))"
proof (cases cancelled)
  case True
  then show ?thesis using assms live_dropped [of "Trend_call d True" s]
    by (simp add: trend_inv_def on_trend_def waits_for_trend_def) (auto simp: drop_call_def)
next
  case False
  then have "live_trends s \<noteq> []" using live_pending assms(2) by simp
  then have "live_trends s = [db_window s]" using assms(1) by (simp add: trend_inv_def split: if_splits)
  moreover have "Trend_call d False \<in> set (db_calls s)" using assms(2) False by simp
  ultimately have "live_trends (drop_call (Trend_call d False) s) = []" using live_answered by blast
  then show ?thesis using False
    by (auto simp: trend_inv_def on_trend_def waits_for_trend_def live_trends_def split: option.split)
qed

lemma trend_inv_step: "trend_inv s \<Longrightarrow> dashboard_step holds s e t \<Longrightarrow> trend_inv t"
proof -
  assume inv: "trend_inv s" and step: "dashboard_step holds s e t"
  from step show "trend_inv t"
  proof cases
    case (core_done result)
    have "live_trends (on_core result (drop_call Core_call s)) = live_trends s"
      using live_dropped [of Core_call s] by (auto simp: on_core_def live_trends_def split: option.split)
    moreover have "waits_for_trend (on_core result (drop_call Core_call s)) = waits_for_trend s"
      "db_window (on_core result (drop_call Core_call s)) = db_window s" "db_proof (on_core result (drop_call Core_call s)) = db_proof s"
      "db_trend_loading (on_core result (drop_call Core_call s)) = db_trend_loading s"
      by (auto simp: on_core_def drop_call_def waits_for_trend_def split: option.split)
    ultimately show ?thesis using core_done inv by (simp add: trend_inv_def)
  next
    case dashboard_left
    have "live_trends (unmount_dashboard s) = []" by (simp add: unmount_dashboard_def live_trends_def trend_cleanup_def map_filter_cancelled)
    then show ?thesis using dashboard_left inv
      by (simp add: trend_inv_def waits_for_trend_def) (simp add: unmount_dashboard_def trend_cleanup_def)
  qed (simp_all add: trend_inv_cleanup [OF inv] trend_inv_trend [OF inv])
qed

lemma trend_inv_mount: "trend_inv (mount_dashboard degraded)"
  by (simp add: mount_dashboard_def trend_effect_def dashboard0_def trend_inv_def waits_for_trend_def live_trends_def List.map_filter_simps)

interpretation dashboard_trends: machine_invariant dashboard_start "dashboard_step holds" trend_inv
proof unfold_locales
  show "dashboard_start s \<Longrightarrow> trend_inv s" for s by (auto simp: dashboard_start_def trend_inv_mount)
qed (rule trend_inv_step)

section \<open>The trend shown\<close>

definition dashboard_live :: "dashboard \<Rightarrow> bool" where
  "dashboard_live s \<longleftrightarrow> s = mount_dashboard False"

definition trend_view :: "dashboard \<Rightarrow> (trend_window, trend_item) listing" where
  "trend_view s =
     \<lparr>ls_par = db_window s, ls_due = (\<not> db_mounted s \<or> \<not> db_ready s \<or> \<not> db_in_view s \<or> db_proof s), ls_loads = live_trends s,
      ls_rows = db_trend s\<rparr>"

definition trend_fail :: "dashboard_event \<Rightarrow> bool" where
  "trend_fail e \<longleftrightarrow> (\<exists>d. e = Trend_done d False None)"

lemma effect_listing:
  assumes "live_trends s = []" "db_mounted s"
  shows "listing_step holds ok v (trend_view (trend_effect s))"
proof (cases "db_proof s \<or> \<not> db_ready s \<or> \<not> db_in_view s")
  case True
  then show ?thesis by (intro listing_step.change) (auto simp: trend_view_def trend_effect_def)
next
  case False
  then show ?thesis using live_effect [OF assms(1)] by (intro listing_step.loading) (simp add: trend_view_def)
qed

lemma cleaned_listing:
  assumes "db_mounted s"
  shows "listing_step holds ok v (trend_view (trend_effect ((trend_cleanup s)\<lparr>db_window := d\<rparr>)))"
    "listing_step holds ok v (trend_view (trend_effect ((trend_cleanup s)\<lparr>db_ready := b\<rparr>)))"
    "listing_step holds ok v (trend_view (trend_effect ((trend_cleanup s)\<lparr>db_in_view := b\<rparr>)))"
  using assms by (auto intro!: effect_listing simp: live_trends_def trend_cleanup_def map_filter_cancelled)

lemma trend_view_step:
  assumes "dashboard_step holds s e t"
  shows "listing_step holds (\<not> trend_fail e) (trend_view s) (trend_view t)"
  using assms
proof cases
  case (window_chosen d)
  then show ?thesis by (auto simp: choose_window_def cleaned_listing intro: listing_same)
next
  case charts_ready
  then show ?thesis by (auto simp: charts_ready_def cleaned_listing intro: listing_same)
next
  case charts_in_view
  then show ?thesis by (auto simp: charts_in_view_def cleaned_listing intro: listing_same)
next
  case (core_done result)
  have "live_trends (on_core result (drop_call Core_call s)) = live_trends s"
    using live_dropped [of Core_call s] by (auto simp: on_core_def live_trends_def split: option.split)
  then show ?thesis using core_done
    by (intro listing_same) (auto simp: trend_view_def on_core_def drop_call_def split: option.split)
next
  case (trend_done d cancelled result)
  show ?thesis
  proof (cases cancelled)
    case True
    then show ?thesis using trend_done live_dropped [of "Trend_call d True" s]
      by (intro listing_same) (simp add: trend_view_def on_trend_def, simp add: drop_call_def)
  next
    case live: False
    show ?thesis
    proof (cases result)
      case None
      then show ?thesis using trend_done live by (intro listing_step.failed) (simp add: trend_fail_def)
    next
      case (Some items)
      have "d \<in> set (live_trends s)" using trend_done live by (auto simp: live_trends_def intro: map_filter_mem [of "Trend_call d False"])
      then show ?thesis using trend_done live Some
        by (intro listing_step.answered [of d]) (simp_all add: trend_view_def on_trend_def drop_call_def)
    qed
  qed
next
  case dashboard_left
  then show ?thesis by (intro listing_step.change) (simp add: trend_view_def unmount_dashboard_def)
qed

interpretation trend_list: listing dashboard_live "dashboard_step holds" trend_view trend_fail holds
proof unfold_locales
  show "dashboard_live s \<Longrightarrow> listing_fresh holds (trend_view s)" for s
    by (intro fresh_empty)
      (auto simp: dashboard_live_def mount_dashboard_def trend_effect_def dashboard0_def trend_view_def live_trends_def List.map_filter_simps)
qed (rule trend_view_step)

text \<open>Here no load for another window is ever waited for: cancelled answers are dropped.\<close>

lemma trend_calm: "trend_inv s \<Longrightarrow> listing_calm (trend_view s)"
  by (simp add: listing_calm_def trend_view_def trend_inv_def)

definition unfailed_step :: "(trend_window \<Rightarrow> trend_item \<Rightarrow> bool) \<Rightarrow> dashboard \<Rightarrow> dashboard_event \<Rightarrow> dashboard \<Rightarrow> bool" where
  "unfailed_step holds s e t \<longleftrightarrow> dashboard_step holds s e t \<and> \<not> trend_fail e"

lemma unfailed_calm:
  "run (unfailed_step holds) s es t \<Longrightarrow> trend_inv s \<Longrightarrow> run (calm_step trend_view trend_fail (dashboard_step holds)) s es t \<and> trend_inv t"
proof (induction rule: run.induct)
  case (run_Cons s e t es u)
  then have step: "dashboard_step holds s e t" "\<not> trend_fail e" by (simp_all add: unfailed_step_def)
  then have "trend_inv t" using run_Cons.prems trend_inv_step by blast
  then show ?case using run_Cons step trend_calm [OF \<open>trend_inv t\<close>] by (auto simp: calm_step_def)
qed simp

text \<open>C22: 
  Outside the demonstration, in every run in which no load of the trend that was still waited for has failed (loads for windows left
  since may fail), whatever the order of the answers and the windows chosen: while the page is mounted with its charts ready and in
  view and the trend is not loading, every point of the trend shown is one the server gives for the window on the screen.
\<close>

theorem trend_of_window:
  assumes "reach dashboard_live (unfailed_step holds) s" "db_mounted s" "db_ready s" "db_in_view s" "\<not> db_trend_loading s"
  shows "\<forall>i \<in> set (db_trend s). holds (db_window s) i"
proof -
  obtain s0 es where r: "s0 = mount_dashboard False" "run (unfailed_step holds) s0 es s"
    using assms(1) by (auto simp: reach_def dashboard_live_def)
  have inv: "run (calm_step trend_view trend_fail (dashboard_step holds)) s0 es s" "trend_inv s"
    using unfailed_calm [OF r(2)] trend_inv_mount r(1) by auto
  have "run (dashboard_step holds) s0 es s \<Longrightarrow> db_proof s = db_proof s0" for s
    by (induction rule: run.induct)
      (auto elim!: dashboard_step.cases simp: choose_window_def charts_ready_def charts_in_view_def trend_effect_def trend_cleanup_def
        on_core_def on_trend_def drop_call_def unmount_dashboard_def split: option.splits if_splits)
  moreover have "run (dashboard_step holds) s0 es s" using r(2) by (induction rule: run.induct) (auto simp: unfailed_step_def)
  ultimately have "\<not> db_proof s" using r(1) by (simp add: mount_dashboard_def trend_effect_def dashboard0_def)
  then have "listing_settled (trend_view s)"
    using assms inv(2) by (simp add: listing_settled_def trend_view_def trend_inv_def waits_for_trend_def)
  moreover have "reach dashboard_live (calm_step trend_view trend_fail (dashboard_step holds)) s"
    using inv(1) r(1) by (auto simp: reach_def dashboard_live_def)
  ultimately show ?thesis using trend_list.settled_rows [of holds s] by (simp add: trend_view_def list_all_iff)
qed

text \<open>At most one load of the trend is waited for, and it is the one for the window on the screen; nothing is loaded for the demonstration.\<close>

theorem one_trend_waited_for:
  assumes "reach dashboard_start (dashboard_step holds) s"
  shows "live_trends s = (if waits_for_trend s then [db_window s] else []) \<and> (db_proof s \<longrightarrow> \<not> db_trend_loading s)"
  using dashboard_trends.inv_reach [OF assms] by (simp add: trend_inv_def)

section \<open>The overview\<close>

text \<open>
  The parts of the overview agree: the headline asks for attention exactly when one of the figures does and when one
  entry of the list of things to do is not done.
\<close>

theorem overview_agrees:
  assumes "0 \<le> es_error es" "es_error es \<le> es_total es" "0 \<le> dms_active_domains (ds_mail st)" "0 \<le> dms_active_mailboxes (ds_mail st)"
  shows "has_attention st es = (Metric_attention \<in> set (summary_metrics st es)) \<and>
         has_attention st es = (\<exists>(n, tone) \<in> set (queue_items st es). tone \<noteq> Tone_success)"
  using assms
  by (auto simp: has_attention_def attention_count_def summary_metrics_def queue_items_def metric_state_of_def inactive_domains_def
      inactive_mailboxes_def max_def)

lemma trend_total_eq: "trend_total items = sum_list (map snd items)"
proof -
  have "foldl (\<lambda>n item. n + snd item) a items = a + sum_list (map snd items)" for a :: int
    by (induction items arbitrary: a) simp_all
  then show ?thesis by (simp add: trend_total_def)
qed

lemma peak_ge: "a \<le> foldl (\<lambda>n item. max n (snd item)) a items \<and> (\<forall>i \<in> set items. snd i \<le> foldl (\<lambda>n item. max n (snd item)) a items)"
  for items :: "trend_item list" and a :: int
proof (induction items arbitrary: a)
  case (Cons i items)
  from Cons.IH [of "max a (snd i)"] show ?case by auto
qed simp

lemma sum_le: "\<forall>x \<in> set xs. x \<le> m \<Longrightarrow> sum_list xs \<le> m * int (length xs)"
  by (induction xs) (auto simp: algebra_simps)

lemma round_quotient_le: "0 < b \<Longrightarrow> a \<le> m * b \<Longrightarrow> round_quotient a b \<le> m"
proof -
  assume "0 < b" "a \<le> m * b"
  then have "(2 * a + b) div (2 * b) \<le> (b + m * (2 * b)) div (2 * b)" by (intro zdiv_mono1) (simp_all add: algebra_simps)
  also have "\<dots> = m" using \<open>0 < b\<close> by (subst div_mult_self1) simp_all
  finally show ?thesis by (simp add: round_quotient_def)
qed

lemma peak_in: "foldl (\<lambda>n item. max n (snd item)) a items = a \<or> foldl (\<lambda>n item. max n (snd item)) a items \<in> snd ` set items"
  for items :: "trend_item list" and a :: int
proof (induction items arbitrary: a)
  case (Cons i items)
  from Cons.IH [of "max a (snd i)"] show ?case by (auto simp: max_def split: if_splits)
qed simp

text \<open>The average of a trend, rounded, never exceeds its peak, and the peak is one of the counts or zero.\<close>

theorem trend_bounds:
  "trend_average items \<le> trend_peak items \<and> (trend_peak items = 0 \<or> trend_peak items \<in> snd ` set items) \<and>
   trend_total items \<le> trend_peak items * int (length items)"
proof -
  have le: "trend_total items \<le> trend_peak items * int (length items)"
    using peak_ge [of 0 items] sum_le [of "map snd items" "trend_peak items"] by (simp add: trend_total_eq trend_peak_def)
  moreover have "trend_average items \<le> trend_peak items"
    using le round_quotient_le [of "int (length items)" "trend_total items" "trend_peak items"] peak_ge [of 0 items]
    by (auto simp: trend_average_def trend_peak_def)
  moreover have "trend_peak items = 0 \<or> trend_peak items \<in> snd ` set items"
    using peak_in [of 0 items] by (simp add: trend_peak_def)
  ultimately show ?thesis by blast
qed

lemma sorted_twice:
  assumes "sorted (map f xs)" "\<And>k. sorted_wrt R (filter (\<lambda>y. f y = k) xs)"
  shows "sorted_wrt (\<lambda>x y. f x < f y \<or> f x = f y \<and> R x y) xs"
  using assms
proof (induction xs)
  case (Cons x xs)
  have "sorted_wrt R (filter (\<lambda>y. f y = k) xs)" for k using Cons.prems(2) [of k] by (simp split: if_splits)
  then have "sorted_wrt (\<lambda>x y. f x < f y \<or> f x = f y \<and> R x y) xs" using Cons by simp
  moreover have "f x < f y \<or> f x = f y \<and> R x y" if "y \<in> set xs" for y
    using that Cons.prems(1) Cons.prems(2) [of "f x"] by (auto simp: order_le_less)
  ultimately show ?case by simp
qed simp

lemma first_of_sorted: "sorted_wrt R xs \<Longrightarrow> filter P xs = d # ds \<Longrightarrow> P d \<and> (\<forall>y \<in> set xs. P y \<longrightarrow> y = d \<or> R d y)"
proof -
  assume sorted: "sorted_wrt R xs" and first: "filter P xs = d # ds"
  have "sorted_wrt R (d # ds)" using sorted_wrt_filter [OF sorted, of P] first by simp
  moreover have "set (d # ds) = {y \<in> set xs. P y}" using arg_cong [OF first, of set] by auto
  ultimately show ?thesis by auto
qed

text \<open>
  Every provider has one row, the rows go down by their counts, and equal counts keep the order of the names; the provider named
  first is one with the largest count.
\<close>

theorem provider_rows_sorted:
  "mset (provider_rows rank es) = mset provider_order \<and>
   sorted_wrt (\<lambda>p q. provider_count es p > provider_count es q \<or> provider_count es p = provider_count es q \<and> rank p \<le> rank q) (provider_rows rank es) \<and>
   (case dominant_provider rank es of
      None \<Rightarrow> \<forall>p \<in> set provider_order. provider_count es p \<le> 0
    | Some d \<Rightarrow> \<forall>p \<in> set provider_order. provider_count es p \<le> provider_count es d)"
proof -
  let ?rows = "provider_rows rank es"
  have mset: "mset ?rows = mset provider_order" by (simp add: provider_rows_def)
  have "sorted_wrt (\<lambda>p q. - provider_count es p < - provider_count es q \<or> - provider_count es p = - provider_count es q \<and> rank p \<le> rank q) ?rows"
    unfolding provider_rows_def
  proof (rule sorted_twice)
    fix k
    have "sorted (map rank (filter (\<lambda>p. - provider_count es p = k) (sort_key rank provider_order)))"
      by (simp add: sorted_filter)
    then show "sorted_wrt (\<lambda>p q. rank p \<le> rank q)
        (filter (\<lambda>p. - provider_count es p = k) (sort_key (\<lambda>p. - provider_count es p) (sort_key rank provider_order)))"
      by (simp add: sort_key_stable sorted_map)
  qed simp
  then have sorted: "sorted_wrt (\<lambda>p q. provider_count es p > provider_count es q \<or>
      provider_count es p = provider_count es q \<and> rank p \<le> rank q) ?rows" by simp
  have set: "set ?rows = set provider_order" using mset by (metis set_mset_mset)
  have max: "\<forall>p \<in> set ?rows. provider_count es p \<le> provider_count es d"
    if "filter (\<lambda>p. provider_count es p > 0) ?rows = d # ds" for d ds
    using first_of_sorted [OF sorted that] by force
  have "case dominant_provider rank es of
      None \<Rightarrow> \<forall>p \<in> set provider_order. provider_count es p \<le> 0
    | Some d \<Rightarrow> \<forall>p \<in> set provider_order. provider_count es p \<le> provider_count es d"
  proof (cases "active_provider_rows rank es")
    case Nil
    then have "\<forall>p \<in> set ?rows. provider_count es p \<le> 0"
      by (simp add: active_provider_rows_def filter_empty_conv not_less)
    then show ?thesis using Nil set by (simp add: dominant_provider_def)
  next
    case (Cons d ds)
    then show ?thesis using max [of d ds] set by (simp add: dominant_provider_def active_provider_rows_def)
  qed
  then show ?thesis using mset sorted by blast
qed

section \<open>Examples\<close>

definition dashboard_shown :: dashboard where
  "dashboard_shown = on_trend False (Some [(js ''04-01'', 7)]) (drop_call (Trend_call Days_14 False)
     (charts_in_view (charts_ready (mount_dashboard False))))"

definition dashboard_events :: "dashboard_event list" where
  "dashboard_events = [Charts_ready, Charts_in_view, Trend_done Days_14 False (Some [(js ''04-01'', 7)])]"

lemma dashboard_sample_eval:
  "db_mounted dashboard_shown" "db_ready dashboard_shown" "db_in_view dashboard_shown" "\<not> db_trend_loading dashboard_shown"
  "db_trend dashboard_shown = [(js ''04-01'', 7)]" "db_window dashboard_shown = Days_14"
  "Trend_call Days_14 False \<in> set (db_calls (charts_in_view (charts_ready (mount_dashboard False))))"
  "db_mounted (mount_dashboard False)" "db_mounted (charts_ready (mount_dashboard False))"
  by (simp_all add: dashboard_shown_def on_trend_def drop_call_def charts_in_view_def charts_ready_def trend_effect_def trend_cleanup_def
      mount_dashboard_def dashboard0_def)

lemma dashboard_sample_run:
  "run (unfailed_step (\<lambda>d i. d = Days_14 \<and> snd i = 7)) (mount_dashboard False) dashboard_events dashboard_shown"
proof -
  let ?s1 = "charts_ready (mount_dashboard False)"
  let ?s2 = "charts_in_view ?s1"
  have "dashboard_step (\<lambda>d i. d = Days_14 \<and> snd i = 7) ?s2 (Trend_done Days_14 False (Some [(js ''04-01'', 7)])) dashboard_shown"
    unfolding dashboard_shown_def by (rule trend_done) (simp_all add: dashboard_sample_eval)
  then show ?thesis
    using dashboard_step.charts_ready [OF dashboard_sample_eval(8)] dashboard_step.charts_in_view [OF dashboard_sample_eval(9)]
    unfolding dashboard_events_def unfailed_step_def trend_fail_def by (auto intro!: exI)
qed

theorem trend_of_window_witness: "list_all (\<lambda>i. snd i = 7) (db_trend dashboard_shown)"
proof -
  have "run (unfailed_step (\<lambda>d i. d = Days_14 \<and> snd i = 7)) (mount_dashboard False) dashboard_events dashboard_shown" by (rule dashboard_sample_run)
  then have "reach dashboard_live (unfailed_step (\<lambda>d i. d = Days_14 \<and> snd i = 7)) dashboard_shown"
    by (auto simp: reach_def dashboard_live_def)
  from trend_of_window [OF this] show ?thesis by (simp add: dashboard_sample_eval list_all_iff)
qed

theorem one_trend_waited_for_witness: "live_trends (mount_dashboard True) = [] \<and> \<not> db_trend_loading (mount_dashboard True)"
proof -
  have "reach dashboard_start (dashboard_step (\<lambda>d i. True)) (mount_dashboard True)"
    by (rule reach_start) (auto simp: dashboard_start_def)
  from one_trend_waited_for [OF this] show ?thesis
    by (simp add: mount_dashboard_def dashboard0_def waits_for_trend_def)
qed

theorem overview_agrees_witness:
  "has_attention proof_stats proof_email_stats \<and> Metric_attention \<in> set (summary_metrics proof_stats proof_email_stats)"
proof -
  have "attention_count proof_stats proof_email_stats = 15"
    by (simp add: attention_count_def inactive_domains_def inactive_mailboxes_def proof_stats_def proof_email_stats_def)
  then have "has_attention proof_stats proof_email_stats" by (simp add: has_attention_def)
  then show ?thesis using overview_agrees [of proof_email_stats proof_stats] by (simp add: proof_stats_def proof_email_stats_def)
qed

end
