(* ===== verification/Spec2Isabelle.thy ===== *)
theory Spec2Isabelle
  imports EdgeTheorems ApiTheorems ApiCatalog ImportTheorems ImportFailures PagedFetch OAuthProfiles
    LogActions WebText LoginFlow MailContentTheorems ImportWizard SecretRace MailboxTheorems DomainTheorems EmailListTheorems EmailForm
    PortalInboxTheorems AdminSettingsTheorems PortalSettingsTheorems PortalOverview OAuthTheorems ApiKeyTheorems ApiKeyScopeTheorems
    DomainMailboxTheorems MailboxUserTheorems ForwardingJobTheorems OperationLogTheorems DomainMessageTheorems SendingTheorems
    AdminAccounts DashboardTheorems
begin

text \<open>
  A model of all-Mail, a self-hosted mailbox control plane, with the theorems that make its TypeScript parts
  correct. The system has three processes: an edge worker (cloudflare/workers/allmail-edge) that receives
  messages, a Go server (core) that stores and serves them, and a web client (web) for administrators and for
  mailbox users. The edge worker and the web client are modelled; the server appears as the parameter that
  answers requests, and by the functions the worker and the client have to agree with: its signature check, its check
  of an ingress payload, and its normalisation of keys and parsing of token lines.

  \<^bold>\<open>Language.\<close> JsPrelude (strings as UTF-16 units), JsNumber (\<open>Number(text)\<close>), Utf8 (TextEncoder, TextDecoder),
  JsJson and JsonLaws (\<open>JSON.stringify\<close>, \<open>JSON.parse\<close> and their round trip), JsObject (key order and inherited
  names) and JsValue (dynamic values) hold what the sources use of JavaScript. Case mapping covers ASCII, Latin-1 and the letters that map into ASCII; letters
  of other scripts stay as they are. Machine holds runs and reachable
  states of a step relation; every page below interprets its locale \<open>machine_invariant\<close> for its invariants. Listing
  holds the contract of a list that is loaded again when its parameters change, as the locale \<open>listing\<close>: what a step
  may do to the parameters, the loads under way and the rows, and that the rows fit the parameters once nothing is pending
  in runs that never have a load for other parameters under way.

  \<^bold>\<open>Edge worker.\<close> EdgeRouting (routing.ts), EdgeConfig (config.ts), EdgeSignature (signature.ts and the Go
  \<open>verifyIngressSignature\<close>), EdgeIngress (ingress.ts), EdgeEmail (email.ts) and EdgeWorker (index.ts) follow the
  files; EdgeContract is the Go server's check of a payload (its library functions on text are parameters). A handler takes the world (bucket, console, requests, rejections) and gives the new world with a result
  or a thrown value. MIME parser, bucket, network, hashes, clock and random ids are parameters. EdgeTheorems
  shows when a message is accepted, that one request per message is sent and signed so that the server's check
  passes for every clock within its window, what every payload satisfies and exactly when the server accepts it (the worker does not keep the
  server's limits on subject and message id), what becomes of the stored object, that the body parses back to the
  payload, and that the bounded reader agrees with the whole body.

  \<^bold>\<open>Web client, requests.\<close> ApiRuntime (response cache, shared pending requests and epochs of web/src/api/core.ts),
  AuthStores (the two session stores), ApiCore (envelopes, interceptors, subscriptions), ApiCatalog (every function
  of web/src/api with what it invalidates, and two invalidations that are missing) and ApiTheorems: nothing from before a session change or a mutation
  is served after it, callers share requests, and the pending table drains. PagedFetch reads paged lists;
  WebText holds message templates, languages, error texts, request feedback and recipients; LogActions the audit
  log's names; Providers the provider registry; OAuthProfiles scopes and capabilities.

  \<^bold>\<open>Web client, pages.\<close> A page is a record of its state, one definition for every handler and effect, and an
  inductive step relation whose labels are the user's actions, the timers and the answers of requests under
  way; the steps a handler takes after \<open>await\<close> are carried by its request. Routes and RouteTheorems: App.tsx,
  navigation and layouts, with the guards (no protected page without session, role and changed password;
  redirects settle; menus match guards). LoginFlow: both login pages. ImportPreview, ImportTheorems and ImportFailures:
  the bulk import preview; ImportWorkflow and ImportWizard: its wizard. MailContent and MailContentTheorems: showing
  a message (sanitising and links: the sanitised tree has no unsafe link, template contents included, if the
  content of templates, which the sanitiser does not enter, is safe; the browser's second parse of its text is outside the model). The mailbox page (pages/emails/index.tsx) is split in four: EmailList and
  EmailListTheorems (filters, loads, selection, operations, and the reloads that the dialogs' operations start), EmailForm
  (the account form), SecretReveal, SecretSafety and SecretRace (revealing secrets with a one-time password, grants, timers
  that may be late by any given bound, the edit form with what filled it and what was entered since, and saving it),
  MailboxViewer, MailboxSafety and MailboxTheorems (the message viewer); OAuthSetup and OAuthTheorems add the authorization
  links of the account form with their polls: a poll shares the promise of one under way, and the effect that
  cancels polls is a step of its own, so that one completion can be reported twice. DomainConfig, DomainSafety and DomainTheorems: the domains page with its
  configuration window. ApiKeyEditor and ApiKeyTheorems: the API keys with their window and details; ApiKeyScope and
  ApiKeyScopeTheorems: the mailboxes a key may use. DomainMailboxes and DomainMailboxTheorems: the hosted mailboxes with their four
  windows. MailboxUsers and MailboxUserTheorems: the portal users. ForwardingJobs, OperationLogs, DomainMessages, SendingConfigs, each
  with its theory of theorems, and AdminAccounts: the list pages of those names. AdminSettings and AdminSettingsTheorems: the
  administrator's settings. Dashboard and DashboardTheorems: the dashboard. The mail portal: PortalOverview, PortalInbox and
  PortalInboxTheorems, PortalSettings and PortalSettingsTheorems.

  \<^bold>\<open>Theorems.\<close> Claims are numbered where they are stated. Most are invariants of reachable states, or safety and
  equivalence statements about whole operations; several state what happens when answers arrive late (an
  answer is applied to another account, mailbox or domain), and the matching invariants name the runs in which
  that cannot happen (\<open>calm\<close> and \<open>settled\<close> steps); the text before each theorem says so. The dashboard drops late answers
  by itself, so that its trend fits the window chosen in every run without failures; the forwarding jobs take the page
  from every answer, so that two loads can turn the page back and forth without end in one order of their answers
  (in the other one the page comes to rest). Witnesses follow the theorems and run the model on small inputs.

  \<^bold>\<open>Bounds.\<close> Functions are total; loops over paged lists run with fuel, and PagedFetch shows that the
  loop returns exactly when some page that it gets to ends it, how much fuel that takes, and servers for which no fuel is enough.

  \<^bold>\<open>Not modelled.\<close> The Go server, the Python tool, scripts and deployment (other languages and pure I/O). Of the
  web client: layout, styles, icons and wording, the browser's rendering and the component library (antd, i18next,
  react-router), which are parameters or appear by the events they cause; the API documentation and the other static
  pages; percentages and chart drawing of the dashboard, which use floating point; build and audit scripts.
\<close>

end
